(* ===== verification/Prelude.thy ===== *)
theory Prelude
  imports
    Main
    "HOL-Library.AList"
    "HOL-Library.Word"
    "HOL-Library.Char_ord"
    "HOL-Library.List_Lexorder"
begin

text \<open>
  Shared ground of the development: Go's maps, times, durations and errors as HOL values, and
  the generic lemmas the component theories rest on.

  \<^item> A Go \<open>map[string]T\<close> is an association list with distinct keys (\<open>'v gomap\<close>). The order
    of the list is the order in which a \<open>for ... range\<close> over the map visits it. Go leaves that
    order open; every theorem quantifies over all lists, hence over all orders.
  \<^item> A \<open>time.Time\<close> is the number of nanoseconds since Go's zero time, so \<open>IsZero\<close> is
    \<open>t = 0\<close>; a \<open>time.Duration\<close> is a signed 64-bit number of nanoseconds, so a product of
    durations wraps (\<open>wrap64\<close>) and \<open>Time.Sub\<close> saturates (\<open>Sub\<close>).
  \<^item> A Go \<open>error\<close> return is the left side of a sum.
\<close>

named_theorems gomap_simps \<open>rewriting of lookups in updated Go maps\<close>
named_theorems netip_simps \<open>rewriting of addresses and prefixes\<close>
named_theorems step_defs \<open>definitions of the ledger transactions\<close>

section \<open>Go maps\<close>

type_synonym 'v gomap = "(string \<times> 'v) list"

text \<open>\<open>m[k] = v\<close> and \<open>delete(m, k)\<close>.\<close>

definition mput :: "string \<Rightarrow> 'v \<Rightarrow> 'v gomap \<Rightarrow> 'v gomap" where
  "mput k v m = AList.update k v m"

definition mdel :: "string \<Rightarrow> 'v gomap \<Rightarrow> 'v gomap" where
  "mdel k m = AList.delete k m"

text \<open>The two-valued lookup \<open>v, ok := m[k]\<close>.\<close>

definition mget :: "'v gomap \<Rightarrow> string \<Rightarrow> 'v option" where
  "mget m k = map_of m k"

text \<open>The one-valued lookup \<open>v := m[k]\<close>: the zero value \<open>z\<close> of the element type when absent.\<close>

definition mget0 :: "'v \<Rightarrow> 'v gomap \<Rightarrow> string \<Rightarrow> 'v" where
  "mget0 z m k = (case mget m k of None \<Rightarrow> z | Some v \<Rightarrow> v)"

definition mvals :: "'v gomap \<Rightarrow> 'v list" where
  "mvals m = map snd m"

definition mok :: "'v gomap \<Rightarrow> bool" where
  "mok m \<longleftrightarrow> distinct (map fst m)"

text \<open>
  The contract a keyed table offers to its clients: what a lookup returns after a write or a
  deletion, and which rows an iteration visits. The ledger's invariants are proved against it.
\<close>

locale keyed_table =
  fixes ok :: "'m \<Rightarrow> bool"
    and get :: "'m \<Rightarrow> 'k \<Rightarrow> 'v option"
    and put :: "'k \<Rightarrow> 'v \<Rightarrow> 'm \<Rightarrow> 'm"
    and del :: "'k \<Rightarrow> 'm \<Rightarrow> 'm"
    and rows :: "'m \<Rightarrow> ('k \<times> 'v) list"
  assumes get_put: "get (put k v m) = (get m)(k := Some v)"
    and get_del: "get (del k m) = (get m)(k := None)"
    and ok_put: "ok m \<Longrightarrow> ok (put k v m)"
    and ok_del: "ok m \<Longrightarrow> ok (del k m)"
    and rows_get: "ok m \<Longrightarrow> (k, v) \<in> set (rows m) \<longleftrightarrow> get m k = Some v"
begin

lemma rows_put:
  assumes "ok m"
  shows "set (rows (put k v m)) = insert (k, v) {r \<in> set (rows m). fst r \<noteq> k}"
  using assms by (auto simp: rows_get ok_put get_put split: if_splits)

lemma rows_del:
  assumes "ok m"
  shows "set (rows (del k m)) = {r \<in> set (rows m). fst r \<noteq> k}"
  using assms by (auto simp: rows_get ok_del get_del split: if_splits)

lemma vals_put:
  assumes "ok m"
  shows "snd ` set (rows (put k v m)) = insert v (snd ` {r \<in> set (rows m). fst r \<noteq> k})"
  using rows_put [OF assms] by auto

lemma vals_all_put:
  assumes "ok m" and "\<forall>x \<in> snd ` set (rows m). P x" and "P v"
  shows "\<forall>x \<in> snd ` set (rows (put k v m)). P x"
  using assms by (auto simp: rows_put)

lemma vals_all_del:
  assumes "ok m" and "\<forall>x \<in> snd ` set (rows m). P x"
  shows "\<forall>x \<in> snd ` set (rows (del k m)). P x"
  using assms by (auto simp: rows_del)

end

lemma mget_mput [simp, gomap_simps]: "mget (mput k v m) = (mget m)(k := Some v)"
  by (simp add: mget_def mput_def AList.update_conv' fun_eq_iff)

lemma mget_mdel [simp, gomap_simps]: "mget (mdel k m) = (mget m)(k := None)"
  by (simp add: mget_def mdel_def AList.delete_conv' fun_eq_iff)

lemma mok_mput [simp]: "mok m \<Longrightarrow> mok (mput k v m)"
  by (simp add: mok_def mput_def AList.distinct_update)

lemma mok_mdel [simp]: "mok m \<Longrightarrow> mok (mdel k m)"
  by (simp add: mok_def mdel_def AList.distinct_delete)

lemma mok_Nil [simp]: "mok []"
  by (simp add: mok_def)

lemma mget_Nil [simp]: "mget [] k = None"
  by (simp add: mget_def)

lemma mrows_mget: "mok m \<Longrightarrow> (k, v) \<in> set m \<longleftrightarrow> mget m k = Some v"
  by (auto simp: mok_def mget_def intro: map_of_is_SomeI dest: map_of_SomeD)

interpretation gm: keyed_table mok mget mput mdel id
  by unfold_locales (auto simp: mrows_mget fun_eq_iff)

lemma mvals_rows: "set (mvals m) = snd ` set m"
  by (simp add: mvals_def)

lemma mvals_mget: "mok m \<Longrightarrow> v \<in> set (mvals m) \<longleftrightarrow> (\<exists>k. mget m k = Some v)"
  by (force simp: mvals_rows mrows_mget [symmetric] image_iff)

lemma mget_mvals: "mget m k = Some v \<Longrightarrow> v \<in> set (mvals m)"
  by (auto simp: mget_def mvals_rows dest: map_of_SomeD intro: rev_image_eqI)

lemma mvals_mput_subset: "v' \<in> set (mvals (mput k v m)) \<Longrightarrow> v' = v \<or> v' \<in> set (mvals m)"
  unfolding mvals_rows mput_def by (induction m) (auto split: if_splits)

lemma mvals_mdel_subset: "v' \<in> set (mvals (mdel k m)) \<Longrightarrow> v' \<in> set (mvals m)"
  unfolding mvals_rows mdel_def by (auto simp: AList.delete_eq)

lemma mget0_mput [simp]: "mget0 z (mput k v m) k' = (if k' = k then v else mget0 z m k')"
  by (simp add: mget0_def)

lemma mget0_Some [simp]: "mget m k = Some v \<Longrightarrow> mget0 z m k = v"
  by (simp add: mget0_def)

lemma mget0_None [simp]: "mget m k = None \<Longrightarrow> mget0 z m k = z"
  by (simp add: mget0_def)

section \<open>Times and durations\<close>

type_synonym time = int
type_synonym duration = int

definition wrap64 :: "int \<Rightarrow> int" where
  "wrap64 x = (x + 2 ^ 63) mod 2 ^ 64 - 2 ^ 63"

lemma wrap64_id: "- (2 ^ 63) \<le> x \<Longrightarrow> x < 2 ^ 63 \<Longrightarrow> wrap64 x = x"
  by (simp add: wrap64_def)

lemma wrap64_range: "- (2 ^ 63) \<le> wrap64 x \<and> wrap64 x < 2 ^ 63"
proof -
  have "0 \<le> (x + 2 ^ 63) mod 2 ^ 64" and "(x + 2 ^ 63) mod 2 ^ 64 < (2 ^ 64 :: int)"
    by (simp_all del: power_Suc)
  then show ?thesis by (simp add: wrap64_def)
qed

text \<open>\<open>time.Duration(n) * time.Second\<close> and \<open>time.Duration(n) * time.Hour\<close>.\<close>

definition Seconds :: "int \<Rightarrow> duration" where
  "Seconds n = wrap64 (n * 1000000000)"

definition Hours :: "int \<Rightarrow> duration" where
  "Hours n = wrap64 (n * 3600000000000)"

text \<open>\<open>t.Sub(u)\<close> saturates at the largest and smallest duration.\<close>

definition Sub :: "time \<Rightarrow> time \<Rightarrow> duration" where
  "Sub t u = max (- (2 ^ 63)) (min (2 ^ 63 - 1) (t - u))"

definition IsZero :: "time \<Rightarrow> bool" where
  "IsZero t \<longleftrightarrow> t = 0"

lemma Hours_id: "0 \<le> n \<Longrightarrow> n \<le> 2562047 \<Longrightarrow> Hours n = n * 3600000000000"
  by (simp add: Hours_def wrap64_id)

lemma Seconds_id: "0 \<le> n \<Longrightarrow> n \<le> 9223372036 \<Longrightarrow> Seconds n = n * 1000000000"
  by (simp add: Seconds_def wrap64_id)

section \<open>Results\<close>

definition rbind :: "'e + 'a \<Rightarrow> ('a \<Rightarrow> 'e + 'b) \<Rightarrow> 'e + 'b" where
  "rbind r f = (case r of Inl e \<Rightarrow> Inl e | Inr v \<Rightarrow> f v)"

lemma rbind_simps [simp]: "rbind (Inl e) f = Inl e" "rbind (Inr v) f = f v"
  by (simp_all add: rbind_def)

lemma rbind_Inr_iff: "rbind r f = Inr b \<longleftrightarrow> (\<exists>a. r = Inr a \<and> f a = Inr b)"
  by (cases r) auto

lemma rbind_Inl_iff: "rbind r f = Inl e \<longleftrightarrow> r = Inl e \<or> (\<exists>a. r = Inr a \<and> f a = Inl e)"
  by (cases r) auto

section \<open>Slices\<close>

text \<open>\<open>rows[len(rows)-1]\<close> of a slice, when it is not empty.\<close>

definition last_opt :: "'a list \<Rightarrow> 'a option" where
  "last_opt xs = (if xs = [] then None else Some (last xs))"

lemma last_opt_in: "last_opt xs = Some x \<Longrightarrow> x \<in> set xs"
  by (auto simp: last_opt_def split: if_splits)

text \<open>Go's \<open>sort.Slice\<close> by a string key, for the lists whose keys are distinct.\<close>

definition sort_by :: "('a \<Rightarrow> string) \<Rightarrow> 'a list \<Rightarrow> 'a list" where
  "sort_by f xs = sort_key f xs"

lemma set_sort_by [simp]: "set (sort_by f xs) = set xs"
  by (simp add: sort_by_def)

lemma length_sort_by [simp]: "length (sort_by f xs) = length xs"
  by (simp add: sort_by_def)

lemma sorted_sort_by: "sorted (map f (sort_by f xs))"
  by (simp add: sort_by_def)

section \<open>Transition systems\<close>

text \<open>A property every step keeps holds after every run.\<close>

locale stable =
  fixes step :: "'s \<Rightarrow> 's \<Rightarrow> bool" and I :: "'s \<Rightarrow> bool"
  assumes step_keeps: "I s \<Longrightarrow> step s s' \<Longrightarrow> I s'"
begin

lemma run_keeps: "step\<^sup>*\<^sup>* s s' \<Longrightarrow> I s \<Longrightarrow> I s'"
  by (induction rule: rtranclp_induct) (blast intro: step_keeps)+

end

text \<open>
  A concrete system that simulates an abstract one through \<open>abs\<close>, as long as its own invariant
  holds: every abstract invariant is then an invariant of the concrete system.
\<close>

locale simulation =
  fixes cstep :: "'c \<Rightarrow> 'c \<Rightarrow> bool" and ok :: "'c \<Rightarrow> bool"
    and astep :: "'a \<Rightarrow> 'a \<Rightarrow> bool" and abs :: "'c \<Rightarrow> 'a"
  assumes sim_ok: "ok s \<Longrightarrow> cstep s s' \<Longrightarrow> ok s'"
    and sim_step: "ok s \<Longrightarrow> cstep s s' \<Longrightarrow> astep\<^sup>*\<^sup>* (abs s) (abs s')"
begin

lemma run_sim:
  assumes "cstep\<^sup>*\<^sup>* s s'" and "ok s"
  shows "ok s' \<and> astep\<^sup>*\<^sup>* (abs s) (abs s')"
  using assms by (induction rule: rtranclp_induct) (auto intro: sim_ok dest: sim_step)

lemma transfer:
  assumes "\<And>a a'. I a \<Longrightarrow> astep a a' \<Longrightarrow> I a'" and "cstep\<^sup>*\<^sup>* s s'" and "ok s" and "I (abs s)"
  shows "I (abs s')"
proof -
  have "astep\<^sup>*\<^sup>* (abs s) (abs s')" using run_sim assms(2,3) by blast
  then show ?thesis using assms(4)
    by (induction rule: rtranclp_induct) (auto intro: assms(1))
qed

end

section \<open>Strings\<close>

text \<open>\<open>strings.TrimSpace(s) == ""\<close>: every rune of the UTF-8 string is a Unicode space.\<close>

definition byte_of :: "char \<Rightarrow> nat" where
  "byte_of c = of_char c"

fun blank :: "string \<Rightarrow> bool" where
  "blank [] = True"
| "blank (c # cs) =
     (if byte_of c \<in> {9, 10, 11, 12, 13, 32} then blank cs
      else case cs of
        [] \<Rightarrow> False
      | d # ds \<Rightarrow>
          if byte_of c = 0xC2 \<and> byte_of d \<in> {0x85, 0xA0} then blank ds
          else case ds of
            [] \<Rightarrow> False
          | e # es \<Rightarrow>
              if [byte_of c, byte_of d, byte_of e] \<in> {[0xE1, 0x9A, 0x80], [0xE2, 0x81, 0x9F], [0xE3, 0x80, 0x80]}
                 \<or> byte_of c = 0xE2 \<and> byte_of d = 0x80
                     \<and> (0x80 \<le> byte_of e \<and> byte_of e \<le> 0x8A \<or> byte_of e \<in> {0xA8, 0xA9, 0xAF})
              then blank es else False)"

definition HasPrefix :: "string \<Rightarrow> string \<Rightarrow> bool" where
  "HasPrefix s p \<longleftrightarrow> take (length p) s = p"

section \<open>Checks in sequence\<close>

text \<open>The first check of a sequence that fails; a Go function that returns at the first error.\<close>

definition first_error :: "'e option list \<Rightarrow> 'e option" where
  "first_error xs = (case dropWhile (\<lambda>x. x = None) xs of [] \<Rightarrow> None | x # _ \<Rightarrow> x)"

lemma first_error_simps [simp]:
  "first_error [] = None" "first_error (None # xs) = first_error xs" "first_error (Some e # xs) = Some e"
  by (simp_all add: first_error_def)

lemma first_error_None: "first_error xs = None \<longleftrightarrow> (\<forall>x \<in> set xs. x = None)"
proof (induction xs)
  case (Cons x xs)
  then show ?case by (cases x) simp_all
qed simp

lemma first_error_append: "first_error xs = None \<Longrightarrow> first_error (xs @ ys) = first_error ys"
  by (induction xs) (auto simp: first_error_def)

text \<open>A search through a list in two parts.\<close>

lemma find_append: "find P (xs @ ys) = (case find P xs of None \<Rightarrow> find P ys | Some x \<Rightarrow> Some x)"
  by (induction xs) auto

end
