(* ===== verification/NetIP.thy ===== *)
theory NetIP
  imports Prelude
begin

text \<open>
  The part of Go's package \<open>net/netip\<close> the program uses: \<open>ParsePrefix\<close>, \<open>Prefix.Masked\<close>,
  \<open>Prefix.Overlaps\<close>, \<open>Prefix.Contains\<close>, \<open>Prefix.String\<close> and \<open>Addr.Is4\<close>, at 32 and 128 bits.
  A prefix denotes a set of addresses (\<open>addrs\<close>); the lemmas relate every operation to that set,
  and the locale \<open>block_space\<close> names the laws the allocator relies on.
\<close>

section \<open>Addresses and prefixes\<close>

datatype Addr = V4 "32 word" | V6 "128 word"

record Prefix =
  ip :: Addr
  pbits :: nat

definition Is4 :: "Addr \<Rightarrow> bool" where
  "Is4 a = (case a of V4 _ \<Rightarrow> True | V6 _ \<Rightarrow> False)"

definition BitLen :: "Addr \<Rightarrow> nat" where
  "BitLen a = (case a of V4 _ \<Rightarrow> 32 | V6 _ \<Rightarrow> 128)"

definition valid_prefix :: "Prefix \<Rightarrow> bool" where
  "valid_prefix p \<longleftrightarrow> pbits p \<le> BitLen (ip p)"

text \<open>\<open>Addr.Prefix(b)\<close> keeps the top \<open>b\<close> bits of the address.\<close>

definition keep_top :: "nat \<Rightarrow> Addr \<Rightarrow> Addr" where
  "keep_top b a =
     (case a of
        V4 w \<Rightarrow> V4 (push_bit (32 - b) (drop_bit (32 - b) w))
      | V6 w \<Rightarrow> V6 (push_bit (128 - b) (drop_bit (128 - b) w)))"

definition Masked :: "Prefix \<Rightarrow> Prefix" where
  "Masked p = p\<lparr>ip := keep_top (pbits p) (ip p)\<rparr>"

definition Overlaps :: "Prefix \<Rightarrow> Prefix \<Rightarrow> bool" where
  "Overlaps p q =
     (if \<not> valid_prefix p \<or> \<not> valid_prefix q then False
      else if p = q then True
      else if Is4 (ip p) \<noteq> Is4 (ip q) then False
      else let m = min (pbits p) (pbits q)
           in if m = 0 then True else keep_top m (ip p) = keep_top m (ip q))"

definition Contains :: "Prefix \<Rightarrow> Addr \<Rightarrow> bool" where
  "Contains p a =
     (valid_prefix p \<and>
      (case (ip p, a) of
         (V4 w, V4 x) \<Rightarrow> drop_bit (32 - pbits p) (xor x w) = 0
       | (V6 w, V6 x) \<Rightarrow> drop_bit (128 - pbits p) (xor x w) = 0
       | _ \<Rightarrow> False))"

section \<open>Printing\<close>

fun dec :: "nat \<Rightarrow> string" where
  "dec n = (if n < 10 then [char_of (48 + n)] else dec (n div 10) @ [char_of (48 + n mod 10)])"

declare dec.simps [simp del]

definition byte4 :: "nat \<Rightarrow> 32 word \<Rightarrow> nat" where
  "byte4 i w = unat w div 256 ^ (3 - i) mod 256"

definition string4 :: "32 word \<Rightarrow> string" where
  "string4 w = dec (byte4 0 w) @ ''.'' @ dec (byte4 1 w) @ ''.'' @ dec (byte4 2 w) @ ''.''
     @ dec (byte4 3 w)"

definition hex_digit :: "nat \<Rightarrow> char" where
  "hex_digit d = (if d < 10 then char_of (48 + d) else char_of (87 + d))"

fun hex :: "nat \<Rightarrow> string" where
  "hex n = (if n < 16 then [hex_digit n] else hex (n div 16) @ [hex_digit (n mod 16)])"

declare hex.simps [simp del]

definition group6 :: "nat \<Rightarrow> 128 word \<Rightarrow> nat" where
  "group6 i w = unat w div 65536 ^ (7 - i) mod 65536"

fun zero_run :: "nat list \<Rightarrow> nat" where
  "zero_run [] = 0"
| "zero_run (g # gs) = (if g = 0 then Suc (zero_run gs) else 0)"

text \<open>The longest run of at least two zero groups, the first of that length.\<close>

fun best_run :: "nat list \<Rightarrow> nat \<Rightarrow> nat \<times> nat \<Rightarrow> nat \<times> nat" where
  "best_run [] i best = best"
| "best_run (g # gs) i (s, e) =
     (let l = zero_run (g # gs)
      in best_run gs (Suc i) (if 2 \<le> l \<and> e - s < l then (i, i + l) else (s, e)))"

fun groups6 :: "nat list \<Rightarrow> string" where
  "groups6 [] = []"
| "groups6 [g] = hex g"
| "groups6 (g # gs) = hex g @ '':'' @ groups6 gs"

definition string6 :: "128 word \<Rightarrow> string" where
  "string6 w =
     (let gs = map (\<lambda>i. group6 i w) [0..<8]; (s, e) = best_run gs 0 (0, 0)
      in if s < e then groups6 (take s gs) @ ''::'' @ groups6 (drop e gs) else groups6 gs)"

definition AddrString :: "Addr \<Rightarrow> string" where
  "AddrString a =
     (case a of
        V4 w \<Rightarrow> string4 w
      | V6 w \<Rightarrow> if unat w div 2 ^ 32 = 65535 then ''::ffff:'' @ string4 (ucast w) else string6 w)"

definition PrefixString :: "Prefix \<Rightarrow> string" where
  "PrefixString p =
     (if valid_prefix p then AddrString (ip p) @ ''/'' @ dec (pbits p) else ''invalid Prefix'')"

section \<open>Parsing\<close>

definition isdigit :: "char \<Rightarrow> bool" where
  "isdigit c \<longleftrightarrow> 48 \<le> (of_char c :: nat) \<and> (of_char c :: nat) \<le> 57"

definition digit_val :: "char \<Rightarrow> nat" where
  "digit_val c = of_char c - 48"

text \<open>\<open>parseIPv4Fields\<close>: the octet in progress, its digits so far, the octets before it.\<close>

fun v4fields :: "string \<Rightarrow> nat \<Rightarrow> nat \<Rightarrow> nat list \<Rightarrow> nat list option" where
  "v4fields [] val dl fs = (if length fs < 3 then None else Some (fs @ [val]))"
| "v4fields (c # cs) val dl fs =
     (if isdigit c then
        (if dl = 1 \<and> val = 0 then None
         else let v = val * 10 + digit_val c
              in if 255 < v then None else v4fields cs v (Suc dl) fs)
      else if c = CHR ''.'' then
        (if dl = 0 \<or> cs = [] then None
         else if length fs = 3 then None
         else v4fields cs 0 0 (fs @ [val]))
      else None)"

definition octets_nat :: "nat list \<Rightarrow> nat" where
  "octets_nat bs = foldl (\<lambda>acc b. acc * 256 + b) 0 bs"

definition parseIPv4 :: "string \<Rightarrow> Addr option" where
  "parseIPv4 s = map_option (\<lambda>fs. V4 (of_nat (octets_nat fs))) (v4fields s 0 0 [])"

definition hexval :: "char \<Rightarrow> nat option" where
  "hexval c =
     (let n = (of_char c :: nat)
      in if 48 \<le> n \<and> n \<le> 57 then Some (n - 48)
         else if 97 \<le> n \<and> n \<le> 102 then Some (n - 87)
         else if 65 \<le> n \<and> n \<le> 70 then Some (n - 55)
         else None)"

fun hexspan :: "string \<Rightarrow> nat \<Rightarrow> nat \<Rightarrow> nat \<times> nat \<times> string" where
  "hexspan [] acc off = (acc, off, [])"
| "hexspan (c # cs) acc off =
     (case hexval c of None \<Rightarrow> (acc, off, c # cs) | Some d \<Rightarrow> hexspan cs (acc * 16 + d) (Suc off))"

text \<open>The loop of \<open>parseIPv6\<close>: groups still allowed, rest of the text, the place of \<open>::\<close>, bytes.\<close>

fun v6loop :: "nat \<Rightarrow> string \<Rightarrow> nat option \<Rightarrow> nat list \<Rightarrow> (string \<times> nat option \<times> nat list) option"
where
  "v6loop 0 s e bs = Some (s, e, bs)"
| "v6loop (Suc n) s e bs =
     (let (acc, off, rest) = hexspan s 0 0
      in if off = 0 \<or> 4 < off then None
         else if rest \<noteq> [] \<and> hd rest = CHR ''.'' then
           (if e = None \<and> length bs \<noteq> 12 then None
            else if 16 < length bs + 4 then None
            else map_option (\<lambda>fs. ([], e, bs @ fs)) (v4fields s 0 0 []))
         else
           let bs' = bs @ [acc div 256, acc mod 256]
           in (case rest of
                 [] \<Rightarrow> Some ([], e, bs')
               | c # s1 \<Rightarrow>
                   if c \<noteq> CHR '':'' \<or> s1 = [] then None
                   else if hd s1 = CHR '':'' then
                     (if e \<noteq> None then None
                      else if tl s1 = [] then Some ([], Some (length bs'), bs')
                      else v6loop n (tl s1) (Some (length bs')) bs')
                   else v6loop n s1 e bs'))"

definition v6finish :: "string \<times> nat option \<times> nat list \<Rightarrow> Addr option" where
  "v6finish r =
     (case r of (s, e, bs) \<Rightarrow>
       if s \<noteq> [] then None
       else if length bs < 16 then
         (case e of None \<Rightarrow> None
          | Some k \<Rightarrow> Some (V6 (of_nat (octets_nat
                (take k bs @ replicate (16 - length bs) 0 @ drop k bs)))))
       else if e \<noteq> None then None
       else Some (V6 (of_nat (octets_nat bs))))"

definition parseIPv6 :: "string \<Rightarrow> Addr option" where
  "parseIPv6 s =
     (if CHR ''%'' \<in> set s then None
      else if take 2 s = ''::'' then
        (if drop 2 s = [] then Some (V6 0)
         else Option.bind (v6loop 8 (drop 2 s) (Some 0) []) v6finish)
      else Option.bind (v6loop 8 s None []) v6finish)"

text \<open>
  \<open>ParseAddr\<close> as far as \<open>ParsePrefix\<close> accepts it: an address with a zone is refused there, so
  \<open>parseIPv6\<close> refuses one at once.
\<close>

definition ParseAddr :: "string \<Rightarrow> Addr option" where
  "ParseAddr s =
     (case dropWhile (\<lambda>c. c \<notin> {CHR ''.'', CHR '':'', CHR ''%''}) s of
        [] \<Rightarrow> None
      | c # _ \<Rightarrow> if c = CHR ''.'' then parseIPv4 s else if c = CHR '':'' then parseIPv6 s else None)"

definition digits_nat :: "string \<Rightarrow> nat" where
  "digits_nat s = foldl (\<lambda>acc c. acc * 10 + digit_val c) 0 s"

definition parse_bits :: "string \<Rightarrow> nat option" where
  "parse_bits s =
     (if s = [] \<or> \<not> list_all isdigit s \<or> (1 < length s \<and> hd s = CHR ''0'') then None
      else Some (digits_nat s))"

definition ParsePrefix :: "string \<Rightarrow> Prefix option" where
  "ParsePrefix s =
     (let tail = takeWhile (\<lambda>c. c \<noteq> CHR ''/'') (rev s);
          front = dropWhile (\<lambda>c. c \<noteq> CHR ''/'') (rev s)
      in if front = [] then None
         else case ParseAddr (rev (tl front)) of
           None \<Rightarrow> None
         | Some a \<Rightarrow>
             (case parse_bits (rev tail) of
                None \<Rightarrow> None
              | Some b \<Rightarrow> if b \<le> BitLen a then Some \<lparr>ip = a, pbits = b\<rparr> else None))"

section \<open>The addresses of a prefix\<close>

definition addrs :: "Prefix \<Rightarrow> Addr set" where
  "addrs p =
     (case ip p of
        V4 w \<Rightarrow> V4 ` {x. drop_bit (32 - pbits p) x = drop_bit (32 - pbits p) w}
      | V6 w \<Rightarrow> V6 ` {x. drop_bit (128 - pbits p) x = drop_bit (128 - pbits p) w})"


lemma keep_top_drop: "drop_bit n (push_bit n (drop_bit n (w :: 'a::len word))) = drop_bit n w"
  by (rule bit_word_eqI) (auto simp: bit_drop_bit_eq bit_push_bit_iff dest: bit_imp_le_length)

lemma keep_top_eq:
  "push_bit n (drop_bit n (v :: 'a::len word)) = push_bit n (drop_bit n w) \<longleftrightarrow>
   drop_bit n v = drop_bit n w"
  by (metis keep_top_drop)

lemma xor_word_0 [simp]: "xor x w = 0 \<longleftrightarrow> x = (w :: 'a::len word)"
  by (auto simp: bit_eq_iff bit_xor_iff)

lemma drop_bit_all: "drop_bit LENGTH('a) (w :: 'a::len word) = 0"
  by (rule bit_word_eqI) (auto simp: bit_drop_bit_eq dest: bit_imp_le_length)

lemma drop_bit_coarser:
  assumes "drop_bit m x = drop_bit m (y :: 'a::len word)" and "m \<le> n"
  shows "drop_bit n x = drop_bit n y"
proof -
  have "drop_bit (n - m) (drop_bit m x) = drop_bit (n - m) (drop_bit m y)"
    using assms(1) by simp
  then show ?thesis using assms(2) by (simp add: drop_bit_drop_bit)
qed

lemma drop_bit_meet:
  "(\<exists>x :: 'a::len word. drop_bit m x = drop_bit m v \<and> drop_bit n x = drop_bit n w) \<longleftrightarrow>
   drop_bit (max m n) v = drop_bit (max m n) w"
  (is "?ex \<longleftrightarrow> ?eq")
proof
  assume ?ex
  then obtain x where "drop_bit m x = drop_bit m v" "drop_bit n x = drop_bit n w" by blast
  then have "drop_bit (max m n) x = drop_bit (max m n) v"
    and "drop_bit (max m n) x = drop_bit (max m n) w"
    by (auto intro: drop_bit_coarser)
  then show ?eq by simp
next
  assume ?eq
  then show ?ex by (cases "m \<le> n") (auto simp: max_def split: if_splits)
qed

lemma addrs_Masked [simp]: "addrs (Masked p) = addrs p"
  by (auto simp: addrs_def Masked_def keep_top_def keep_top_drop split: Addr.splits)

lemma Masked_simps [simp]:
  "pbits (Masked p) = pbits p"
  "Is4 (ip (Masked p)) = Is4 (ip p)"
  "BitLen (ip (Masked p)) = BitLen (ip p)"
  "valid_prefix (Masked p) = valid_prefix p"
  by (auto simp: Masked_def keep_top_def Is4_def BitLen_def valid_prefix_def split: Addr.splits)

lemma Masked_idem [simp]: "Masked (Masked p) = Masked p"
  by (cases "ip p") (simp_all add: Masked_def keep_top_def keep_top_drop)

lemma Contains_iff: "Contains p a \<longleftrightarrow> valid_prefix p \<and> a \<in> addrs p"
  by (auto simp: Contains_def addrs_def split: Addr.splits)

lemma addr_in_addrs [simp]: "ip p \<in> addrs p"
  by (auto simp: addrs_def split: Addr.splits)

lemma keep_top_0: "Is4 a = Is4 b \<Longrightarrow> keep_top 0 a = keep_top 0 b"
  using drop_bit_all [where 'a = 32] drop_bit_all [where 'a = 128]
  by (simp add: keep_top_def Is4_def split: Addr.splits)

lemma Overlaps_alt:
  assumes "valid_prefix p" and "valid_prefix q"
  shows "Overlaps p q \<longleftrightarrow>
    Is4 (ip p) = Is4 (ip q) \<and>
    keep_top (min (pbits p) (pbits q)) (ip p) = keep_top (min (pbits p) (pbits q)) (ip q)"
  using assms by (auto simp: Overlaps_def Let_def intro: keep_top_0)

lemma keep_top_eq_iff:
  "keep_top b (V4 v) = keep_top b (V4 w) \<longleftrightarrow> drop_bit (32 - b) v = drop_bit (32 - b) w"
  "keep_top b (V6 v') = keep_top b (V6 w') \<longleftrightarrow> drop_bit (128 - b) v' = drop_bit (128 - b) w'"
  by (simp_all add: keep_top_def keep_top_eq)

text \<open>Two valid prefixes overlap exactly when some address belongs to both.\<close>

lemma Overlaps_iff_addrs:
  assumes "valid_prefix p" and "valid_prefix q"
  shows "Overlaps p q \<longleftrightarrow> addrs p \<inter> addrs q \<noteq> {}"
proof (cases "ip p"; cases "ip q")
  fix v w assume pq: "ip p = V4 v" "ip q = V4 w"
  have "max (32 - pbits p) (32 - pbits q) = 32 - min (pbits p) (pbits q)" by auto
  then have "addrs p \<inter> addrs q \<noteq> {} \<longleftrightarrow> drop_bit (32 - min (pbits p) (pbits q)) v
      = drop_bit (32 - min (pbits p) (pbits q)) w"
    using pq drop_bit_meet [of "32 - pbits p" v "32 - pbits q" w] by (auto simp: addrs_def)
  then show ?thesis using assms pq by (simp add: Overlaps_alt keep_top_eq_iff Is4_def)
next
  fix v w assume pq: "ip p = V6 v" "ip q = V6 w"
  have "max (128 - pbits p) (128 - pbits q) = 128 - min (pbits p) (pbits q)" by auto
  then have "addrs p \<inter> addrs q \<noteq> {} \<longleftrightarrow> drop_bit (128 - min (pbits p) (pbits q)) v
      = drop_bit (128 - min (pbits p) (pbits q)) w"
    using pq drop_bit_meet [of "128 - pbits p" v "128 - pbits q" w] by (auto simp: addrs_def)
  then show ?thesis using assms pq by (simp add: Overlaps_alt keep_top_eq_iff Is4_def)
qed (use assms in \<open>auto simp: Overlaps_alt Is4_def addrs_def\<close>)

lemma addrs_subset:
  assumes "Contains q (ip p)" and "pbits q \<le> pbits p"
  shows "addrs p \<subseteq> addrs q"
  using assms
  by (cases "ip p"; cases "ip q")
    (auto simp: Contains_iff addrs_def intro!: imageI intro: drop_bit_coarser [THEN trans])

lemma addrs_nested:
  assumes "valid_prefix p" and "valid_prefix q" and "Overlaps p q" and "pbits q \<le> pbits p"
  shows "addrs p \<subseteq> addrs q"
proof -
  have "ip p \<in> addrs q"
    using assms by (cases "ip p"; cases "ip q")
      (auto simp: Overlaps_alt keep_top_eq_iff Is4_def addrs_def min_def split: if_splits)
  then show ?thesis using assms by (intro addrs_subset) (simp_all add: Contains_iff)
qed

lemma Overlaps_sym: "Overlaps p q \<longleftrightarrow> Overlaps q p"
  by (auto simp: Overlaps_def Let_def min.commute)


section \<open>Printing and parsing are inverse on IPv4 prefixes\<close>

lemma dec_nonempty [simp]: "dec n \<noteq> []"
  by (subst dec.simps) simp

lemma char_0: "char_of (48 :: nat) = CHR ''0''"
proof -
  have "(of_char (CHR ''0'') :: nat) = 48" by simp
  then show ?thesis by (metis char_of_char)
qed

lemma isdigit_char [simp]: "d < (10 :: nat) \<Longrightarrow> isdigit (char_of (48 + d))"
  by (simp add: isdigit_def)

lemma digit_val_char [simp]: "d < 10 \<Longrightarrow> digit_val (char_of (48 + d)) = d"
  by (simp add: digit_val_def)

lemma dec_digits: "list_all isdigit (dec n)"
  by (induction n rule: dec.induct) (subst dec.simps, auto)

lemma digits_nat_snoc: "digits_nat (s @ [c]) = digits_nat s * 10 + digit_val c"
  by (simp add: digits_nat_def)

lemma digits_nat_dec: "digits_nat (dec n) = n"
proof (induction n rule: dec.induct)
  case (1 n)
  show ?case
  proof (cases "n < 10")
    case True
    then show ?thesis by (subst dec.simps) (simp add: digits_nat_def)
  next
    case False
    with "1" show ?thesis by (subst dec.simps) (simp add: digits_nat_snoc)
  qed
qed

lemma hd_dec: "hd (dec n) = char_of (48 :: nat) \<longleftrightarrow> n = 0"
proof (induction n rule: dec.induct)
  case (1 n)
  have c: "d < 10 \<Longrightarrow> (char_of (48 + d) = (char_of (48 :: nat) :: char)) \<longleftrightarrow> d = 0" for d :: nat
  proof
    assume "d < 10" "char_of (48 + d) = (char_of (48 :: nat) :: char)"
    then have "(of_char (char_of (48 + d)) :: nat) = of_char (char_of (48 :: nat))" by simp
    then show "d = 0" using \<open>d < 10\<close> by simp
  qed simp
  show ?case
  proof (cases "n < 10")
    case True
    then show ?thesis using c [of n] by (subst dec.simps) simp
  next
    case False
    with "1" show ?thesis by (subst dec.simps) simp
  qed
qed

lemma parse_bits_dec [simp]: "parse_bits (dec n) = Some n"
proof (cases "n < 10")
  case True
  then have "length (dec n) = 1" by (subst dec.simps) simp
  then show ?thesis by (simp add: parse_bits_def dec_digits digits_nat_dec)
next
  case False
  then have "hd (dec n) \<noteq> CHR ''0''"
    using hd_dec [of n] by (simp add: char_0)
  then show ?thesis by (simp add: parse_bits_def dec_digits digits_nat_dec)
qed

lemma dec_no:
  assumes "\<not> isdigit c"
  shows "c \<notin> set (dec n)"
  using dec_digits [of n] assms by (auto simp: list_all_iff)

lemma isdigit_punct [simp]:
  "\<not> isdigit (CHR ''.'')" "\<not> isdigit (CHR ''/'')" "\<not> isdigit (CHR '':'')" "\<not> isdigit (CHR ''%'')"
  by (simp_all add: isdigit_def of_char_def)

lemma dec_small:
  "n < 10 \<Longrightarrow> dec n = [char_of (48 + n)]"
  "10 \<le> n \<Longrightarrow> n < 100 \<Longrightarrow> dec n = [char_of (48 + n div 10), char_of (48 + n mod 10)]"
  "100 \<le> n \<Longrightarrow> n < 1000 \<Longrightarrow>
     dec n = [char_of (48 + n div 100), char_of (48 + n div 10 mod 10), char_of (48 + n mod 10)]"
proof -
  show "dec n = [char_of (48 + n)]" if "n < 10" using that by (simp add: dec.simps [of n])
  show two: "dec n = [char_of (48 + n div 10), char_of (48 + n mod 10)]"
    if "10 \<le> n" "n < 100" for n
  proof -
    have "n div 10 < 10" using that by auto
    then show ?thesis using that by (simp add: dec.simps [of n] dec.simps [of "n div 10"])
  qed
  show "dec n = [char_of (48 + n div 100), char_of (48 + n div 10 mod 10), char_of (48 + n mod 10)]"
    if "100 \<le> n" "n < 1000"
  proof -
    have "10 \<le> n div 10" "n div 10 < 100" using that by auto
    then show ?thesis using that two [of "n div 10"]
      by (simp add: dec.simps [of n] div_mult2_eq [symmetric])
  qed
qed

lemma v4fields_dec:
  assumes "n \<le> 255"
  shows "v4fields (dec n @ cs) 0 0 fs = v4fields cs n (length (dec n)) fs"
proof -
  consider "n < 10" | "10 \<le> n" "n < 100" | "100 \<le> n" "n < 1000" using assms by linarith
  then show ?thesis
  proof cases
    case 1
    then show ?thesis by (simp add: dec_small Let_def)
  next
    case 2
    then have "n div 10 \<noteq> 0" "n div 10 < 10" by auto
    then show ?thesis using 2 by (simp add: dec_small Let_def)
  next
    case 3
    have d: "n div 100 \<noteq> 0" "n div 100 < 10" "n div 10 \<le> 255" using 3 by auto
    have e: "n div 100 * 10 + n div 10 mod 10 = n div 10"
      using div_mult_mod_eq [of "n div 10" 10] by (simp add: div_mult2_eq [symmetric])
    have f: "n div 10 * 10 + n mod 10 = n" by simp
    show ?thesis using 3 d assms by (simp add: dec_small Let_def e f)
  qed
qed

lemma v4fields_dot:
  "dl \<noteq> 0 \<Longrightarrow> cs \<noteq> [] \<Longrightarrow> length fs < 3 \<Longrightarrow>
   v4fields (CHR ''.'' # cs) val dl fs = v4fields cs 0 0 (fs @ [val])"
  by simp

lemma byte4_le [simp]: "byte4 i w \<le> 255"
  by (simp add: byte4_def less_Suc_eq_le [symmetric])

lemma v4fields_string4:
  "v4fields (string4 w) 0 0 [] = Some [byte4 0 w, byte4 1 w, byte4 2 w, byte4 3 w]"
proof -
  have last: "v4fields (dec n) 0 0 fs = (if length fs < 3 then None else Some (fs @ [n]))"
    if "n \<le> 255" for n fs
    using v4fields_dec [OF that, of "[]" fs] by simp
  show ?thesis by (simp add: string4_def v4fields_dec v4fields_dot last del: v4fields.simps(2))
qed

lemma octets_byte4: "octets_nat [byte4 0 w, byte4 1 w, byte4 2 w, byte4 3 w] = unat w"
proof -
  have "unat w < 2 ^ LENGTH(32)" by (rule unsigned_less)
  then have b: "unat w div 16777216 mod 256 = unat w div 16777216" by simp
  have "unat w div 16777216 * 256 + unat w div 65536 mod 256 = unat w div 65536"
    using div_mult_mod_eq [of "unat w div 65536" 256] by (simp add: div_mult2_eq [symmetric])
  moreover have "unat w div 65536 * 256 + unat w div 256 mod 256 = unat w div 256"
    using div_mult_mod_eq [of "unat w div 256" 256] by (simp add: div_mult2_eq [symmetric])
  moreover have "unat w div 256 * 256 + unat w mod 256 = unat w" by simp
  ultimately show ?thesis by (simp add: octets_nat_def byte4_def b)
qed

lemma parseIPv4_string4: "parseIPv4 (string4 w) = Some (V4 w)"
  by (simp add: parseIPv4_def v4fields_string4 octets_byte4 del: One_nat_def)

lemma dropWhile_dec:
  "dropWhile (\<lambda>c. c \<notin> {CHR ''.'', CHR '':'', CHR ''%''}) (dec n @ c # cs) =
   (if c \<in> {CHR ''.'', CHR '':'', CHR ''%''} then c # cs
    else dropWhile (\<lambda>c. c \<notin> {CHR ''.'', CHR '':'', CHR ''%''}) cs)"
  using dec_no [of "CHR ''.''" n] dec_no [of "CHR '':''" n] dec_no [of "CHR ''%''" n]
  by (subst dropWhile_append2) auto

lemma ParseAddr_string4: "ParseAddr (string4 w) = Some (V4 w)"
proof -
  have "dropWhile (\<lambda>c. c \<notin> {CHR ''.'', CHR '':'', CHR ''%''}) (string4 w) =
     CHR ''.'' # dec (byte4 1 w) @ ''.'' @ dec (byte4 2 w) @ ''.'' @ dec (byte4 3 w)"
    using dropWhile_dec [of "byte4 0 w" "CHR ''.''"] by (simp add: string4_def)
  then show ?thesis by (simp add: ParseAddr_def parseIPv4_string4)
qed

lemma ParsePrefix_slash:
  assumes "CHR ''/'' \<notin> set b"
  shows "ParsePrefix (a @ ''/'' @ b) =
    (case ParseAddr a of None \<Rightarrow> None
     | Some x \<Rightarrow> (case parse_bits b of None \<Rightarrow> None
        | Some n \<Rightarrow> if n \<le> BitLen x then Some \<lparr>ip = x, pbits = n\<rparr> else None))"
proof -
  have t: "takeWhile (\<lambda>c. c \<noteq> CHR ''/'') (rev b @ CHR ''/'' # rev a) = rev b"
    using assms by (subst takeWhile_append2) auto
  have d: "dropWhile (\<lambda>c. c \<noteq> CHR ''/'') (rev b @ CHR ''/'' # rev a) = CHR ''/'' # rev a"
    using assms by (subst dropWhile_append2) auto
  show ?thesis by (simp add: ParsePrefix_def t d cong: option.case_cong)
qed

lemma ParsePrefix_valid: "ParsePrefix s = Some p \<Longrightarrow> valid_prefix p"
  by (auto simp: ParsePrefix_def Let_def valid_prefix_def split: if_splits option.splits)

lemma ParsePrefix_PrefixString4:
  assumes "valid_prefix p" and "Is4 (ip p)"
  shows "ParsePrefix (PrefixString p) = Some p"
proof -
  obtain w where w: "ip p = V4 w" using assms(2) by (auto simp: Is4_def split: Addr.splits)
  have "CHR ''/'' \<notin> set (dec (pbits p))" by (rule dec_no) simp
  moreover have "pbits p \<le> 32" using assms(1) w by (simp add: valid_prefix_def BitLen_def)
  ultimately show ?thesis
    using assms(1) w by (simp add: PrefixString_def AddrString_def ParsePrefix_slash
        ParseAddr_string4 BitLen_def del: append.simps)
qed


section \<open>IPv4 prefixes as intervals\<close>

text \<open>First address and number of addresses of an IPv4 prefix, as numbers.\<close>

definition word4 :: "Addr \<Rightarrow> 32 word" where
  "word4 a = (case a of V4 w \<Rightarrow> w | V6 _ \<Rightarrow> 0)"

definition size4 :: "Prefix \<Rightarrow> nat" where
  "size4 p = 2 ^ (32 - pbits p)"

definition block4 :: "Prefix \<Rightarrow> nat" where
  "block4 p = unat (word4 (ip p)) div size4 p"

lemma size4_pos [simp]: "0 < size4 p"
  by (simp add: size4_def)

lemma word4_V4 [simp]: "word4 (V4 w) = w"
  by (simp add: word4_def)

lemma Is4_V4: "Is4 a \<longleftrightarrow> (\<exists>w. a = V4 w)"
  by (cases a) (simp_all add: Is4_def)

lemma Is4_simps [simp]: "Is4 (V4 w)" "\<not> Is4 (V6 v)"
  by (simp_all add: Is4_def)

lemma unat_drop: "unat (drop_bit n (w :: 'a::len word)) = unat w div 2 ^ n"
  by (metis unat_drop_bit_eq drop_bit_eq_div)

lemma unat_push:
  assumes "unat w * 2 ^ n < 2 ^ LENGTH('a)"
  shows "unat (push_bit n (w :: 'a::len word)) = unat w * 2 ^ n"
proof -
  have "unat (push_bit n w) = take_bit LENGTH('a) (push_bit n (unat w))"
    by (rule unsigned_push_bit_eq)
  also have "\<dots> = take_bit LENGTH('a) (unat w * 2 ^ n)" by (simp add: push_bit_eq_mult)
  finally show ?thesis using assms by (simp add: take_bit_nat_eq_self)
qed

lemma drop_bit_eq_div_unat:
  "drop_bit n x = drop_bit n (w :: 'a::len word) \<longleftrightarrow> unat x div 2 ^ n = unat w div 2 ^ n"
  by (simp add: word_unat_eq_iff unat_drop)

lemma mem_addrs4:
  assumes "Is4 (ip p)"
  shows "V4 x \<in> addrs p \<longleftrightarrow> unat x div size4 p = block4 p"
  using assms
  by (auto simp: Is4_V4 addrs_def size4_def block4_def drop_bit_eq_div_unat)

lemma addrs4_V4: "Is4 (ip p) \<Longrightarrow> a \<in> addrs p \<Longrightarrow> \<exists>x. a = V4 x"
  by (auto simp: Is4_V4 addrs_def)

lemma word4_Masked: "Is4 (ip p) \<Longrightarrow> unat (word4 (ip (Masked p))) = block4 p * size4 p"
proof -
  assume "Is4 (ip p)"
  then obtain w where w: "ip p = V4 w" by (auto simp: Is4_V4)
  have "unat w < 2 ^ LENGTH(32)" by (rule unsigned_less)
  moreover have "unat w div 2 ^ n * 2 ^ n \<le> unat w" for n by simp
  ultimately have "unat w div 2 ^ n * 2 ^ n < 2 ^ LENGTH(32)" for n
    using le_less_trans by blast
  then have "unat (push_bit n (drop_bit n w)) = unat w div 2 ^ n * 2 ^ n" for n
    using unat_push [of "drop_bit n w" n] by (simp add: unat_drop)
  then show ?thesis using w by (simp add: Masked_def keep_top_def block4_def size4_def)
qed

lemma Masked_canonical4:
  assumes "Is4 (ip p)"
  shows "Masked p = p \<longleftrightarrow> size4 p dvd unat (word4 (ip p))"
proof -
  obtain w where w: "ip p = V4 w" using assms by (auto simp: Is4_V4)
  have "Masked p = p \<longleftrightarrow> word4 (ip (Masked p)) = w"
    using w by (cases p) (auto simp: Masked_def keep_top_def)
  also have "\<dots> \<longleftrightarrow> unat w div size4 p * size4 p = unat w"
    using word4_Masked [OF assms] w by (simp add: word_unat_eq_iff block4_def)
  also have "\<dots> \<longleftrightarrow> size4 p dvd unat w" by (metis dvd_div_mult_self dvd_triv_right)
  finally show ?thesis using w by simp
qed

lemma block4_bound:
  assumes "pbits p \<le> 32"
  shows "block4 p < 2 ^ pbits p"
proof -
  have "unat (word4 (ip p)) < 2 ^ LENGTH(32)" by (rule unsigned_less)
  also have "(2::nat) ^ LENGTH(32) = 2 ^ pbits p * size4 p"
    using assms by (simp add: size4_def flip: power_add)
  finally show ?thesis by (simp add: block4_def less_mult_imp_div_less)
qed

section \<open>The contract of an address space\<close>

text \<open>
  What the allocator needs of prefixes: an overlap test that decides whether two blocks share an
  address. Disjointness of blocks is then inherited by whatever lies inside them.
\<close>

locale block_space =
  fixes ok :: "'b \<Rightarrow> bool"
    and overlaps :: "'b \<Rightarrow> 'b \<Rightarrow> bool"
    and points :: "'b \<Rightarrow> 'x set"
  assumes overlaps_points: "ok p \<Longrightarrow> ok q \<Longrightarrow> overlaps p q \<longleftrightarrow> points p \<inter> points q \<noteq> {}"
begin

lemma overlaps_mono:
  assumes "ok p" "ok q" "ok p'" "overlaps p q" "points p \<subseteq> points p'"
  shows "overlaps p' q"
  using assms by (auto simp: overlaps_points)

lemma inside_disjoint:
  assumes "ok p" "ok q" "ok p'" "\<not> overlaps p' q" "points p \<subseteq> points p'"
  shows "points p \<inter> points q = {}"
  using assms by (auto simp: overlaps_points)

lemma avoids_all:
  assumes "ok p" and "\<forall>q \<in> set qs. ok q" and "\<not> list_ex (overlaps p) qs"
  shows "points p \<inter> \<Union> (points ` set qs) = {}"
  using assms by (auto simp: overlaps_points list_ex_iff)

end

interpretation ipspace: block_space valid_prefix Overlaps addrs
  by unfold_locales (rule Overlaps_iff_addrs)

section \<open>IPv4 blocks as ranges of addresses\<close>

definition lo4 :: "Prefix \<Rightarrow> nat" where
  "lo4 p = block4 p * size4 p"

definition hi4 :: "Prefix \<Rightarrow> nat" where
  "hi4 p = lo4 p + (size4 p - 1)"

lemma div_range: "0 < m \<Longrightarrow> a div m = b \<longleftrightarrow> b * m \<le> a \<and> a < (b + 1) * m"
  for a b m :: nat
  using div_times_less_eq_dividend [of a m] dividend_less_div_times [of m a] div_nat_eqI [of m b a]
  by (auto simp: mult.commute)

lemma mem_range4:
  assumes "Is4 (ip p)"
  shows "V4 x \<in> addrs p \<longleftrightarrow> lo4 p \<le> unat x \<and> unat x \<le> hi4 p"
proof -
  have "unat x div size4 p = block4 p \<longleftrightarrow> block4 p * size4 p \<le> unat x \<and> unat x < (block4 p + 1) * size4 p"
    by (rule div_range) simp
  moreover have "(block4 p + 1) * size4 p = Suc (hi4 p)"
    using size4_pos [of p] by (simp add: hi4_def lo4_def)
  ultimately show ?thesis by (simp add: mem_addrs4 [OF assms] lo4_def less_Suc_eq_le)
qed

lemma hi4_less: "valid_prefix p \<Longrightarrow> Is4 (ip p) \<Longrightarrow> hi4 p < 2 ^ 32"
proof -
  assume p: "valid_prefix p" "Is4 (ip p)"
  then have b: "pbits p \<le> 32" by (auto simp: valid_prefix_def BitLen_def Is4_V4)
  then have "(block4 p + 1) * size4 p \<le> 2 ^ pbits p * size4 p"
    using block4_bound by (intro mult_right_mono) (auto simp: Suc_le_eq)
  also have "\<dots> = (2 :: nat) ^ 32" using b by (simp add: size4_def flip: power_add)
  finally show ?thesis using size4_pos [of p] unfolding hi4_def lo4_def add_mult_distrib by linarith
qed

lemma lo4_le_hi4: "lo4 p \<le> hi4 p"
  by (simp add: hi4_def)

lemma Overlaps_ranges:
  assumes "valid_prefix p" "valid_prefix q" "Is4 (ip p)" "Is4 (ip q)"
  shows "Overlaps p q \<longleftrightarrow> lo4 p \<le> hi4 q \<and> lo4 q \<le> hi4 p"
proof
  assume "Overlaps p q"
  then obtain a where a: "a \<in> addrs p" "a \<in> addrs q" using Overlaps_iff_addrs assms(1,2) by blast
  then obtain x where "a = V4 x" using addrs4_V4 [OF assms(3)] by blast
  then show "lo4 p \<le> hi4 q \<and> lo4 q \<le> hi4 p" using a mem_range4 assms(3,4) le_trans by blast
next
  assume r: "lo4 p \<le> hi4 q \<and> lo4 q \<le> hi4 p"
  let ?x = "of_nat (max (lo4 p) (lo4 q)) :: 32 word"
  have "max (lo4 p) (lo4 q) < 2 ^ 32"
    using hi4_less [OF assms(1,3)] hi4_less [OF assms(2,4)] lo4_le_hi4 [of p] lo4_le_hi4 [of q] by linarith
  then have "unat ?x = max (lo4 p) (lo4 q)" by (simp add: unat_of_nat take_bit_nat_eq_self)
  then have "V4 ?x \<in> addrs p" "V4 ?x \<in> addrs q"
    using r mem_range4 assms(3,4) lo4_le_hi4 [of p] lo4_le_hi4 [of q] by auto
  then show "Overlaps p q" using Overlaps_iff_addrs assms(1,2) by blast
qed

end
