(* ===== verification/Domain.thy ===== *)
theory Domain
  imports NetIP
begin

text \<open>
  The vocabulary of \<open>internal/domain\<close>: requests, principals, allocations, operations, findings,
  observations, inventory networks, the ledger state and the configuration. Each Go struct is a
  record whose fields carry a short prefix of the struct (\<open>r_\<close>, \<open>p_\<close>, \<open>b_\<close>, \<open>a_\<close>, \<open>o_\<close>, ...),
  because HOL record fields share one name space. A pointer is an \<open>option\<close>. The closed string
  vocabularies of states, operation statuses and operation types are datatypes whose first
  constructor is Go's zero value, the empty string, which a one-valued map lookup returns.
\<close>

section \<open>Requests, principals, bindings\<close>

datatype AllocState = NoState | Reserved | Active | Quarantined | Released

record Request =
  r_AllocationKey :: string
  r_Scope :: string
  r_Environment :: string
  r_Region :: string
  r_AccountID :: string
  r_AddressFamily :: string
  r_PrefixLength :: int
  r_ParentAllocationID :: string
  r_AvailabilityZoneID :: string
  r_Description :: string
  r_Labels :: "string gomap option"

record Principal =
  p_Subject :: string
  p_TenantID :: string
  p_Accounts :: "string list"
  p_Environments :: "string list"
  p_Regions :: "string list"
  p_Role :: string

definition OperatorRole :: string where
  "OperatorRole = ''operator''"

definition IsOperator :: "Principal \<Rightarrow> bool" where
  "IsOperator p \<longleftrightarrow> p_Role p = OperatorRole"

record Binding =
  b_Provider :: string
  b_ResourceType :: string
  b_ResourceID :: string
  b_AccountID :: string
  b_Region :: string
  b_VerifiedAt :: "time option"

section \<open>Allocations\<close>

record Allocation =
  a_Request :: Request
  a_ID :: string
  a_TenantID :: string
  a_DomainID :: string
  a_RequestHash :: string
  a_CIDR :: string
  a_PoolID :: string
  a_State :: AllocState
  a_Revision :: int
  a_PolicyVersion :: string
  a_InventoryID :: string
  a_InventorySync :: string
  a_Binding :: "Binding option"
  a_CreatedAt :: time
  a_UpdatedAt :: time
  a_ReleaseRequestedAt :: "time option"
  a_QuarantineUntil :: "time option"
  a_LastObservedAt :: "time option"
  a_ReleaseBlockers :: "string list"
  a_Committed :: bool

text \<open>The promoted fields of the embedded \<open>Request\<close>.\<close>

abbreviation a_AllocationKey :: "Allocation \<Rightarrow> string" where
  "a_AllocationKey a \<equiv> r_AllocationKey (a_Request a)"
abbreviation a_Scope :: "Allocation \<Rightarrow> string" where
  "a_Scope a \<equiv> r_Scope (a_Request a)"
abbreviation a_Environment :: "Allocation \<Rightarrow> string" where
  "a_Environment a \<equiv> r_Environment (a_Request a)"
abbreviation a_Region :: "Allocation \<Rightarrow> string" where
  "a_Region a \<equiv> r_Region (a_Request a)"
abbreviation a_AccountID :: "Allocation \<Rightarrow> string" where
  "a_AccountID a \<equiv> r_AccountID (a_Request a)"
abbreviation a_ParentAllocationID :: "Allocation \<Rightarrow> string" where
  "a_ParentAllocationID a \<equiv> r_ParentAllocationID (a_Request a)"
abbreviation a_AvailabilityZoneID :: "Allocation \<Rightarrow> string" where
  "a_AvailabilityZoneID a \<equiv> r_AvailabilityZoneID (a_Request a)"

definition zero_Request :: Request where
  "zero_Request = \<lparr>r_AllocationKey = [], r_Scope = [], r_Environment = [], r_Region = [],
     r_AccountID = [], r_AddressFamily = [], r_PrefixLength = 0, r_ParentAllocationID = [],
     r_AvailabilityZoneID = [], r_Description = [], r_Labels = None\<rparr>"

definition zero_Allocation :: Allocation where
  "zero_Allocation = \<lparr>a_Request = zero_Request, a_ID = [], a_TenantID = [], a_DomainID = [],
     a_RequestHash = [], a_CIDR = [], a_PoolID = [], a_State = NoState, a_Revision = 0,
     a_PolicyVersion = [], a_InventoryID = [], a_InventorySync = [], a_Binding = None,
     a_CreatedAt = 0, a_UpdatedAt = 0, a_ReleaseRequestedAt = None, a_QuarantineUntil = None,
     a_LastObservedAt = None, a_ReleaseBlockers = [], a_Committed = False\<rparr>"

section \<open>Errors\<close>

record APIError =
  e_Status :: int
  e_Code :: string
  e_Message :: string
  e_Retryable :: bool
  e_Details :: "string gomap"

definition Err :: "int \<Rightarrow> string \<Rightarrow> string \<Rightarrow> APIError" where
  "Err status code message =
     \<lparr>e_Status = status, e_Code = code, e_Message = message,
      e_Retryable = (status = 503 \<or> status = 429), e_Details = []\<rparr>"

text \<open>
  The dynamic types of error the service distinguishes: an \<open>APIError\<close>, the four kinds
  \<open>uncertainInventoryError\<close> recognises, any other error, and a run-time panic of the code itself.
\<close>

datatype goerr =
    APIErr APIError
  | InventoryUncertain string
  | DeadlineExceeded
  | ContextCanceled
  | NetTimeout string
  | OtherErr string
  | Panic string

definition apiErr :: "int \<Rightarrow> string \<Rightarrow> string \<Rightarrow> goerr" where
  "apiErr status code message = APIErr (Err status code message)"

definition err_text :: "goerr \<Rightarrow> string" where
  "err_text e =
     (case e of
        APIErr x \<Rightarrow> e_Code x @ '': '' @ e_Message x
      | InventoryUncertain s \<Rightarrow> s
      | DeadlineExceeded \<Rightarrow> ''context deadline exceeded''
      | ContextCanceled \<Rightarrow> ''context canceled''
      | NetTimeout s \<Rightarrow> s
      | OtherErr s \<Rightarrow> s
      | Panic s \<Rightarrow> s)"

definition errString :: "goerr option \<Rightarrow> string" where
  "errString e = (case e of None \<Rightarrow> [] | Some x \<Rightarrow> err_text x)"

section \<open>Operations, idempotency records, events, findings\<close>

datatype OpStatus = NoStatus | operationPending | operationSucceeded | operationFailed

datatype OpType = NoOpType | reserveOperation | adoptOperation | bindOperation | reclaimOperation

definition op_type_text :: "OpType \<Rightarrow> string" where
  "op_type_text t =
     (case t of NoOpType \<Rightarrow> [] | reserveOperation \<Rightarrow> ''RESERVE'' | adoptOperation \<Rightarrow> ''ADOPT''
      | bindOperation \<Rightarrow> ''VERIFY_BINDING'' | reclaimOperation \<Rightarrow> ''RECLAIM'')"

definition op_status_text :: "OpStatus \<Rightarrow> string" where
  "op_status_text s =
     (case s of NoStatus \<Rightarrow> [] | operationPending \<Rightarrow> ''PENDING''
      | operationSucceeded \<Rightarrow> ''SUCCEEDED'' | operationFailed \<Rightarrow> ''FAILED'')"

record AdoptionRecord =
  ar_Operator :: string
  ar_NetworkID :: string
  ar_ResourceID :: string
  ar_ImportBatch :: string
  ar_PriorStatus :: string
  ar_PriorAccountID :: string
  ar_PriorRegion :: string

record PriorInventory =
  pi_Status :: string
  pi_AccountID :: string
  pi_Region :: string

definition Prior :: "AdoptionRecord \<Rightarrow> PriorInventory" where
  "Prior r = \<lparr>pi_Status = ar_PriorStatus r, pi_AccountID = ar_PriorAccountID r,
     pi_Region = ar_PriorRegion r\<rparr>"

record Operation =
  o_ID :: string
  o_Type :: OpType
  o_Status :: OpStatus
  o_AllocationID :: string
  o_TenantID :: string
  o_DomainID :: string
  o_Result :: "string gomap option"
  o_Error :: "APIError option"
  o_Candidate :: "Binding option"
  o_Adoption :: "AdoptionRecord option"
  o_CreatedAt :: time
  o_UpdatedAt :: time

definition zero_Operation :: Operation where
  "zero_Operation = \<lparr>o_ID = [], o_Type = NoOpType, o_Status = NoStatus, o_AllocationID = [],
     o_TenantID = [], o_DomainID = [], o_Result = None, o_Error = None, o_Candidate = None,
     o_Adoption = None, o_CreatedAt = 0, o_UpdatedAt = 0\<rparr>"

record Idempotency =
  i_TenantID :: string
  i_Method :: string
  i_Path :: string
  i_Key :: string
  i_Hash :: string
  i_AllocationID :: string
  i_OperationID :: string

record Event =
  ev_ID :: string
  ev_AllocationID :: string
  ev_TenantID :: string
  ev_Actor :: string
  ev_Action :: string
  ev_Reason :: string
  ev_At :: time
  ev_Revision :: int

record Finding =
  f_ID :: string
  f_TenantID :: string
  f_DomainID :: string
  f_AllocationID :: string
  f_Code :: string
  f_Severity :: string
  f_Status :: string
  f_AccountID :: string
  f_Region :: string
  f_ResourceType :: string
  f_ResourceID :: string
  f_FirstObservedAt :: time
  f_LastObservedAt :: time

definition zero_Finding :: Finding where
  "zero_Finding = \<lparr>f_ID = [], f_TenantID = [], f_DomainID = [], f_AllocationID = [], f_Code = [],
     f_Severity = [], f_Status = [], f_AccountID = [], f_Region = [], f_ResourceType = [],
     f_ResourceID = [], f_FirstObservedAt = 0, f_LastObservedAt = 0\<rparr>"

section \<open>Cloud observations and inventory snapshots\<close>

record Resource =
  x_AccountID :: string
  x_Region :: string
  x_Type :: string
  x_ID :: string
  x_CIDR :: string
  x_CIDRs :: "string list"
  x_ParentID :: string
  x_ZoneID :: string
  x_Tags :: "string gomap"
  x_State :: string

record Observation =
  ob_DomainID :: string
  ob_Generation :: string
  ob_Complete :: bool
  ob_StartedAt :: time
  ob_FinishedAt :: time
  ob_Resources :: "Resource list"
  ob_Error :: string

definition zero_Observation :: Observation where
  "zero_Observation = \<lparr>ob_DomainID = [], ob_Generation = [], ob_Complete = False,
     ob_StartedAt = 0, ob_FinishedAt = 0, ob_Resources = [], ob_Error = []\<rparr>"

record Contributor =
  ct_Identity :: string
  ct_AccountID :: string
  ct_Region :: string
  ct_Type :: string
  ct_ResourceID :: string
  ct_ParentID :: string
  ct_AssociationID :: "string option"
  ct_ObservedAt :: "string option"
  ct_FirstSeenBatch :: string
  ct_LastSeenBatch :: string
  ct_SourceFile :: string
  ct_SourceRow :: int

record Network =
  n_ID :: string
  n_CIDR :: string
  n_AllocationID :: string
  n_OperationID :: string
  n_ParentPool :: bool
  n_Imported :: bool
  n_Owned :: bool
  n_ImportBatch :: string
  n_ParentAllocationID :: string
  n_Status :: string
  n_AWSAccountID :: string
  n_AWSRegion :: string
  n_Contributors :: "Contributor list option"
  n_ContributorsUnreadable :: bool
  n_ContributorsReconstructed :: bool

record InventorySnapshot =
  sn_Networks :: "Network list"
  sn_Complete :: bool

section \<open>Configuration\<close>

record Backend =
  bk_Type :: string
  bk_VRFID :: int
  bk_RequireUniquePrefixes :: bool
  bk_ParentPrefixID :: int

record Cell =
  ce_AccountID :: string
  ce_RoleARN :: string
  ce_Regions :: "string list"

record Domain =
  d_ID :: string
  d_Description :: string
  d_CoverageGeneration :: string
  d_Backend :: Backend
  d_CloudCoverage :: "Cell list"

record Pool =
  pl_ID :: string
  pl_DomainID :: string
  pl_CIDR :: string
  pl_AddressFamily :: string
  pl_Scope :: string
  pl_Environment :: string
  pl_Region :: string
  pl_EligibleTenants :: "string list"
  pl_EligibleAccounts :: "string list"
  pl_AllowedPrefixLengths :: "int list"
  pl_ExcludedCIDRs :: "string list"
  pl_MaxAllocations :: int
  pl_Backend :: Backend

record SubnetPolicy =
  sp_RequireParentScope :: string
  sp_InheritParentTarget :: bool
  sp_AllowedPrefixLengths :: "int list"
  sp_MaxChildren :: int
  sp_AllowNestedSubnets :: bool

record Lifecycle =
  lc_ReservationExpiryEnabled :: bool
  lc_ReservationAgeAlertHours :: int
  lc_QuarantineHours :: int
  lc_RequiredAbsenceScans :: int
  lc_MinScanSpacing :: int
  lc_MaxObservationAge :: int

record Reconciliation =
  rc_FullScanInterval :: int
  rc_ProjectionRefreshInterval :: int
  rc_IncludeUntagged :: bool
  rc_IncludeAssociations :: bool
  rc_UnknownBlocksReuse :: bool

record UI =
  ui_InventoryLinksEnabled :: bool
  ui_NetBoxBaseURL :: string

record Config =
  c_SchemaVersion :: int
  c_PolicyVersion :: string
  c_Domains :: "Domain list"
  c_Pools :: "Pool list"
  c_SubnetPolicy :: SubnetPolicy
  c_Lifecycle :: Lifecycle
  c_Reconciliation :: Reconciliation
  c_UI :: UI
  c_Identities :: "Principal list"

definition zero_Backend :: Backend where
  "zero_Backend = \<lparr>bk_Type = [], bk_VRFID = 0, bk_RequireUniquePrefixes = False,
     bk_ParentPrefixID = 0\<rparr>"

definition zero_Domain :: Domain where
  "zero_Domain = \<lparr>d_ID = [], d_Description = [], d_CoverageGeneration = [],
     d_Backend = zero_Backend, d_CloudCoverage = []\<rparr>"

section \<open>The ledger state\<close>

record State =
  Allocations :: "Allocation gomap"
  Operations :: "Operation gomap"
  Requests :: "Idempotency gomap"
  Observations :: "Observation list gomap"
  Findings :: "Finding gomap"
  Events :: "Event list"
  Coverage :: "string gomap"

definition NewState :: State where
  "NewState = \<lparr>Allocations = [], Operations = [], Requests = [], Observations = [],
     Findings = [], Events = [], Coverage = []\<rparr>"

text \<open>One-valued lookups in the ledger tables.\<close>

abbreviation allocation_at :: "State \<Rightarrow> string \<Rightarrow> Allocation" where
  "allocation_at st k \<equiv> mget0 zero_Allocation (Allocations st) k"
abbreviation operation_at :: "State \<Rightarrow> string \<Rightarrow> Operation" where
  "operation_at st k \<equiv> mget0 zero_Operation (Operations st) k"
abbreviation finding_at :: "State \<Rightarrow> string \<Rightarrow> Finding" where
  "finding_at st k \<equiv> mget0 zero_Finding (Findings st) k"
abbreviation observations_at :: "State \<Rightarrow> string \<Rightarrow> Observation list" where
  "observations_at st k \<equiv> mget0 [] (Observations st) k"
abbreviation tag :: "Resource \<Rightarrow> string \<Rightarrow> string" where
  "tag x k \<equiv> mget0 [] (x_Tags x) k"

text \<open>\<open>NewID\<close>: sixteen random bytes in hexadecimal after a prefix.\<close>

definition hex_byte :: "8 word \<Rightarrow> string" where
  "hex_byte b = [hex_digit (unat b div 16), hex_digit (unat b mod 16)]"

definition NewID :: "string \<Rightarrow> 8 word list \<Rightarrow> string" where
  "NewID prefix bytes = prefix @ ''_'' @ concat (map hex_byte bytes)"

lemma zero_fields [simp]:
  "a_ID zero_Allocation = []" "a_State zero_Allocation = NoState"
  "a_Binding zero_Allocation = None" "a_Committed zero_Allocation = False"
  "a_TenantID zero_Allocation = []" "a_Request zero_Allocation = zero_Request"
  "a_CIDR zero_Allocation = []" "a_DomainID zero_Allocation = []"
  "o_ID zero_Operation = []" "o_Status zero_Operation = NoStatus"
  "o_Type zero_Operation = NoOpType" "o_AllocationID zero_Operation = []"
  "o_Candidate zero_Operation = None"
  "f_ID zero_Finding = []" "f_Status zero_Finding = []"
  "r_Scope zero_Request = []" "r_ParentAllocationID zero_Request = []"
  by (simp_all add: zero_Allocation_def zero_Operation_def zero_Finding_def zero_Request_def)

lemma NewState_simps [simp]:
  "Allocations NewState = []" "Operations NewState = []" "Requests NewState = []"
  "Observations NewState = []" "Findings NewState = []" "Events NewState = []"
  "Coverage NewState = []"
  by (simp_all add: NewState_def)

lemma Err_simps [simp]:
  "e_Status (Err s c m) = s" "e_Code (Err s c m) = c" "e_Message (Err s c m) = m"
  "e_Retryable (Err s c m) = (s = 503 \<or> s = 429)"
  by (simp_all add: Err_def)

end
