(* ===== verification/ServiceBase.thy ===== *)
theory ServiceBase
  imports Domain
begin

text \<open>
  The helpers at the foot of \<open>internal/service/service.go\<close>, \<open>worker.go\<close> and \<open>cancel.go\<close> that every
  handler shares: digests, request validation, the trust rule for observations, lookups of pending
  operations, the bounded observation history, finding and event bookkeeping, and the recognition of
  a fence. SHA-256, the JSON encoder, \<open>strconv.Quote\<close> and the RFC 3339 time format are parameters
  (record \<open>Crypto\<close>).
\<close>

section \<open>Digests\<close>

record Crypto =
  sha256hex :: "string \<Rightarrow> string"
  json_request :: "Request \<Rightarrow> string"
  json_patch :: "string \<Rightarrow> string option \<Rightarrow> string gomap option option \<Rightarrow> int \<Rightarrow> string"
  json_binding :: "string \<Rightarrow> Binding \<Rightarrow> string"
  go_quote :: "string \<Rightarrow> string"
  rfc3339 :: "time \<Rightarrow> string"

definition requestHash :: "Crypto \<Rightarrow> Request \<Rightarrow> string" where
  "requestHash K r = sha256hex K (json_request K (r\<lparr>r_Description := [], r_Labels := None\<rparr>))"

definition requestBodyHash :: "Crypto \<Rightarrow> Request \<Rightarrow> string" where
  "requestBodyHash K r = sha256hex K (json_request K r)"

definition patchHash ::
  "Crypto \<Rightarrow> string \<Rightarrow> string option \<Rightarrow> string gomap option option \<Rightarrow> int \<Rightarrow> string" where
  "patchHash K i d l e = sha256hex K (json_patch K i d l e)"

definition bindingHash :: "Crypto \<Rightarrow> string \<Rightarrow> Binding \<Rightarrow> string" where
  "bindingHash K i b = sha256hex K (json_binding K i b)"

definition nul :: string where
  "nul = [CHR 0x00]"

definition idempotencyID :: "Crypto \<Rightarrow> string \<Rightarrow> string \<Rightarrow> string \<Rightarrow> string \<Rightarrow> string" where
  "idempotencyID K tenant method path key =
     sha256hex K (tenant @ nul @ method @ nul @ path @ nul @ key)"

definition findingID :: "Crypto \<Rightarrow> string \<Rightarrow> string \<Rightarrow> string" where
  "findingID K code allocationID = ''finding_'' @ sha256hex K (code @ nul @ allocationID)"

section \<open>Policy helpers\<close>

definition eligibleString :: "string list \<Rightarrow> string \<Rightarrow> bool" where
  "eligibleString xs v = (if xs = [] then True else v \<in> set xs)"

definition containsInt :: "int list \<Rightarrow> int \<Rightarrow> bool" where
  "containsInt xs v = (if xs = [] then True else v \<in> set xs)"

definition is_lower :: "char \<Rightarrow> bool" where
  "is_lower c \<longleftrightarrow> 97 \<le> (of_char c :: nat) \<and> (of_char c :: nat) \<le> 122"

definition is_upper :: "char \<Rightarrow> bool" where
  "is_upper c \<longleftrightarrow> 65 \<le> (of_char c :: nat) \<and> (of_char c :: nat) \<le> 90"

definition is_alnum :: "char \<Rightarrow> bool" where
  "is_alnum c \<longleftrightarrow> is_lower c \<or> is_upper c \<or> isdigit c"

definition validKey :: "string \<Rightarrow> bool" where
  "validKey x =
     (if length x < 1 \<or> 128 < length x then False
      else \<not> list_ex (\<lambda>(i, c). \<not> (is_alnum c \<or> c \<in> set ''._-/'') \<or> i = 0 \<and> \<not> is_alnum c)
             (enumerate 0 x))"

fun has_prefix :: "string \<Rightarrow> string \<Rightarrow> bool" where
  "has_prefix s [] = True"
| "has_prefix [] (c # cs) = False"
| "has_prefix (d # ds) (c # cs) = (d = c \<and> has_prefix ds cs)"

definition labels_map :: "string gomap option \<Rightarrow> string gomap" where
  "labels_map l = (case l of None \<Rightarrow> [] | Some m \<Rightarrow> m)"

definition validateLabels :: "string gomap option \<Rightarrow> goerr option" where
  "validateLabels l =
     (let x = labels_map l
      in if 20 < length x then Some (apiErr 422 ''invalid_request'' ''too many labels'')
         else if list_ex (\<lambda>(k, v). length k = 0 \<or> 64 < length k \<or> 256 < length v
                                    \<or> has_prefix k ''platform-ipam/'') x
         then Some (apiErr 422 ''invalid_request'' ''invalid label'')
         else None)"

definition cloneLabels :: "string gomap option \<Rightarrow> string gomap option" where
  "cloneLabels l = Some (labels_map l)"

definition copyAllocation :: "Allocation \<Rightarrow> Allocation" where
  "copyAllocation a =
     a\<lparr>a_Request := (a_Request a)\<lparr>r_Labels := cloneLabels (r_Labels (a_Request a))\<rparr>\<rparr>"

definition copyOperation :: "Operation \<Rightarrow> Operation" where
  "copyOperation o1 = o1"

definition sameBinding :: "Binding \<Rightarrow> Binding \<Rightarrow> bool" where
  "sameBinding a b \<longleftrightarrow>
     b_Provider a = b_Provider b \<and> b_ResourceType a = b_ResourceType b \<and>
     b_ResourceID a = b_ResourceID b \<and> b_AccountID a = b_AccountID b \<and> b_Region a = b_Region b"

section \<open>Observations\<close>

definition nowFresh :: "time \<Rightarrow> time \<Rightarrow> int \<Rightarrow> bool" where
  "nowFresh now observed maxSeconds =
     (if IsZero observed \<or> now < observed then False
      else let m = (if maxSeconds \<le> 0 then 600 else maxSeconds)
           in Sub now observed \<le> Seconds m)"

definition trustedObservation :: "Observation \<Rightarrow> Domain \<Rightarrow> time \<Rightarrow> int \<Rightarrow> bool" where
  "trustedObservation ob d now maxAge \<longleftrightarrow>
     0 < length (d_CloudCoverage d) \<and> ob_DomainID ob = d_ID d \<and>
     ob_Generation ob = d_CoverageGeneration d \<and> ob_Complete ob \<and>
     \<not> IsZero (ob_StartedAt ob) \<and> \<not> IsZero (ob_FinishedAt ob) \<and>
     \<not> ob_FinishedAt ob < ob_StartedAt ob \<and> nowFresh now (ob_FinishedAt ob) maxAge"

definition domainFor :: "Config \<Rightarrow> string \<Rightarrow> Domain" where
  "domainFor cfg i =
     (case find (\<lambda>d. d_ID d = i) (c_Domains cfg) of
        Some d \<Rightarrow> d
      | None \<Rightarrow> zero_Domain\<lparr>d_ID := i, d_CoverageGeneration := []\<rparr>)"

definition recordObservation :: "State \<Rightarrow> Observation \<Rightarrow> State" where
  "recordObservation st ob =
     (let d = ob_DomainID ob; xs = observations_at st d
      in if xs \<noteq> [] \<and> ob_FinishedAt ob < ob_FinishedAt (last xs) then st
         else
           let xs1 = (if \<not> ob_Complete ob \<or> mget0 [] (Coverage st) d \<noteq> ob_Generation ob
                      then [] else xs);
               xs2 = (if xs1 \<noteq> [] \<and> ob_FinishedAt ob = ob_FinishedAt (last xs1)
                      then butlast xs1 @ [ob] else xs1 @ [ob]);
               xs3 = (if 64 < length xs2 then drop (length xs2 - 64) xs2 else xs2)
           in st\<lparr>Observations := mput d xs3 (Observations st),
                 Coverage := mput d (ob_Generation ob) (Coverage st)\<rparr>)"

fun bindingObserved_loop ::
  "Resource list \<Rightarrow> Binding \<Rightarrow> string \<Rightarrow> string \<Rightarrow> string \<Rightarrow> string \<Rightarrow> string \<Rightarrow> bool" where
  "bindingObserved_loop [] b i key cidr az parent = False"
| "bindingObserved_loop (r # rs) b i key cidr az parent =
     (if x_ID r \<noteq> b_ResourceID b \<or> x_Type r \<noteq> b_ResourceType b \<or> x_AccountID r \<noteq> b_AccountID b
         \<or> x_Region r \<noteq> b_Region b
      then bindingObserved_loop rs b i key cidr az parent
      else if tag r ''platform-ipam:allocation-id'' \<noteq> i then False
      else if key \<noteq> [] \<and> tag r ''platform-ipam:allocation-key'' \<noteq> key then False
      else if az \<noteq> [] \<and> x_ZoneID r \<noteq> az then False
      else if parent \<noteq> [] \<and> x_ParentID r \<noteq> parent then False
      else if cidr \<noteq> [] \<and> x_CIDR r \<noteq> cidr then False
      else True)"

definition bindingObserved ::
  "Observation \<Rightarrow> Binding \<Rightarrow> string \<Rightarrow> string \<Rightarrow> string \<Rightarrow> string \<Rightarrow> string \<Rightarrow> bool" where
  "bindingObserved ob b i key cidr az parent =
     (if \<not> ob_Complete ob then False
      else bindingObserved_loop (ob_Resources ob) b i key cidr az parent)"

section \<open>Lookups in the ledger\<close>

definition pendingForAllocation :: "State \<Rightarrow> string \<Rightarrow> Operation option" where
  "pendingForAllocation st i =
     find (\<lambda>x. o_AllocationID x = i \<and> o_Status x = operationPending) (mvals (Operations st))"

definition pendingDomain :: "State \<Rightarrow> string \<Rightarrow> Operation option" where
  "pendingDomain st i =
     find (\<lambda>x. o_DomainID x = i \<and> o_Status x = operationPending) (mvals (Operations st))"

definition stateResults :: "State \<Rightarrow> Idempotency \<Rightarrow> Allocation option \<times> Operation option" where
  "stateResults st r =
     (map_option copyAllocation (mget (Allocations st) (i_AllocationID r)),
      map_option copyOperation (mget (Operations st) (i_OperationID r)))"

definition resultStatus :: "Allocation option \<Rightarrow> Operation option \<Rightarrow> int" where
  "resultStatus a x =
     (if (case x of None \<Rightarrow> False | Some y \<Rightarrow> o_Status y = operationPending) then 202
      else if (case a of None \<Rightarrow> False | Some y \<Rightarrow> a_Committed y) then 200
      else 202)"

definition countTenant :: "State \<Rightarrow> string \<Rightarrow> string \<Rightarrow> int" where
  "countTenant st tenant pool =
     int (length (filter (\<lambda>a. a_TenantID a = tenant \<and> a_PoolID a = pool \<and> a_State a \<noteq> Released)
       (mvals (Allocations st))))"

definition countChildren :: "State \<Rightarrow> string \<Rightarrow> int" where
  "countChildren st i =
     int (length (filter (\<lambda>a. a_ParentAllocationID a = i \<and> a_State a \<noteq> Released)
       (mvals (Allocations st))))"

definition parentResourceMatches :: "State \<Rightarrow> string \<Rightarrow> string \<Rightarrow> bool" where
  "parentResourceMatches st parentID resourceID =
     (if parentID = [] then False
      else case mget (Allocations st) parentID of
        None \<Rightarrow> False
      | Some parent \<Rightarrow>
          (case a_Binding parent of None \<Rightarrow> False | Some b \<Rightarrow> b_ResourceID b = resourceID))"

section \<open>Findings and events\<close>

definition workerEvent ::
  "State \<Rightarrow> Allocation \<Rightarrow> string \<Rightarrow> string \<Rightarrow> string \<Rightarrow> time \<Rightarrow> State" where
  "workerEvent st a eid action reason at =
     st\<lparr>Events := Events st @ [\<lparr>ev_ID = eid, ev_AllocationID = a_ID a, ev_TenantID = a_TenantID a,
         ev_Actor = ''reconciliation-worker'', ev_Action = action, ev_Reason = reason, ev_At = at,
         ev_Revision = a_Revision a\<rparr>]\<rparr>"

definition workerFinding ::
  "Crypto \<Rightarrow> State \<Rightarrow> Allocation \<Rightarrow> string \<Rightarrow> string \<Rightarrow> time \<Rightarrow> State" where
  "workerFinding K st a code severity at =
     (let key = findingID K code (a_ID a);
          f0 = finding_at st key;
          f1 = (if f_ID f0 = []
                then zero_Finding\<lparr>f_ID := key, f_TenantID := a_TenantID a,
                       f_DomainID := a_DomainID a, f_AllocationID := a_ID a, f_Code := code,
                       f_Severity := severity, f_AccountID := a_AccountID a,
                       f_Region := a_Region a, f_FirstObservedAt := at\<rparr>
                else f0)
      in st\<lparr>Findings := mput key (f1\<lparr>f_Status := ''OPEN'', f_LastObservedAt := at\<rparr>) (Findings st)\<rparr>)"

definition resolveFinding :: "Crypto \<Rightarrow> State \<Rightarrow> Allocation \<Rightarrow> string \<Rightarrow> State" where
  "resolveFinding K st a code =
     (let key = findingID K code (a_ID a)
      in case mget (Findings st) key of
           None \<Rightarrow> st
         | Some f \<Rightarrow> st\<lparr>Findings := mput key (f\<lparr>f_Status := ''RESOLVED''\<rparr>) (Findings st)\<rparr>)"

section \<open>Withdrawals: fences and refusals\<close>

definition reservationCancelledCode :: string where
  "reservationCancelledCode = ''reservation_cancelled''"

definition adoptionAbandonedCode :: string where
  "adoptionAbandonedCode = ''adoption_abandoned''"

definition reservationStuckCode :: string where
  "reservationStuckCode = ''reservation_stuck''"

definition adoptionStuckCode :: string where
  "adoptionStuckCode = ''adoption_stuck''"

definition fencedWith :: "Operation \<Rightarrow> string \<Rightarrow> bool" where
  "fencedWith x code \<longleftrightarrow>
     o_Status x = operationFailed \<and>
     (case o_Error x of None \<Rightarrow> False | Some e \<Rightarrow> e_Code e = code)"

definition withdrawalRefusal :: "Operation \<Rightarrow> APIError option" where
  "withdrawalRefusal x =
     (if o_Type x = adoptOperation \<and> fencedWith x adoptionAbandonedCode then
        Some ((Err 409 ''adoption_abandoning''
          ''an abandon of this adoption is in progress; retry when it has finished'')
          \<lparr>e_Retryable := True\<rparr>)
      else if o_Type x = reserveOperation \<and> fencedWith x reservationCancelledCode then
        Some ((Err 409 ''reservation_cancelling''
          ''a cancel of this reservation is in progress; retry when it has finished'')
          \<lparr>e_Retryable := True\<rparr>)
      else None)"

definition committedHoldRefusal :: "Allocation \<Rightarrow> string \<Rightarrow> string \<Rightarrow> goerr option" where
  "committedHoldRefusal a code verb =
     (if \<not> a_Committed a then None
      else Some (apiErr 409 code (''allocation '' @ a_ID a
        @ '' is committed and is therefore owned: a committed allocation can never be '' @ verb
        @ '', in any state. Release it with DELETE /v1/allocations/{id}'')))"

fun abandonInProgress_loop :: "Operation list \<Rightarrow> string \<Rightarrow> APIError option" where
  "abandonInProgress_loop [] i = None"
| "abandonInProgress_loop (x # xs) i =
     (if o_AllocationID x \<noteq> i then abandonInProgress_loop xs i
      else case withdrawalRefusal x of
        Some e \<Rightarrow> Some e
      | None \<Rightarrow> abandonInProgress_loop xs i)"

definition abandonInProgress :: "State \<Rightarrow> string \<Rightarrow> APIError option" where
  "abandonInProgress st i = abandonInProgress_loop (mvals (Operations st)) i"

definition abandoningReplay :: "State \<Rightarrow> Allocation option \<Rightarrow> goerr option" where
  "abandoningReplay st a =
     (case a of
        None \<Rightarrow> None
      | Some x \<Rightarrow> if a_Committed x then None else map_option APIErr (abandonInProgress st (a_ID x)))"

definition uncertainInventoryError :: "goerr \<Rightarrow> bool" where
  "uncertainInventoryError e =
     (case e of
        InventoryUncertain _ \<Rightarrow> True
      | DeadlineExceeded \<Rightarrow> True
      | ContextCanceled \<Rightarrow> True
      | NetTimeout _ \<Rightarrow> True
      | _ \<Rightarrow> False)"

end
