(* ===== verification/Candidate.thy ===== *)
theory Candidate
  imports ServiceBase
begin

text \<open>
  Choosing and verifying a CIDR: \<open>chooseCIDR\<close>, which searches a pool for the first aligned block
  that nothing occupies, and \<open>pinnedCIDR\<close> with its three exemptions, which verifies the one block an
  operator reviewed for an adoption. The locale \<open>first_fit\<close> states the contract of the search and is
  interpreted on the search loop.
\<close>

section \<open>Addresses as integers\<close>

text \<open>\<open>None\<close> is the run-time panic of \<open>As4\<close> on an address that has no IPv4 form.\<close>

definition addrInt :: "Addr \<Rightarrow> 64 word option" where
  "addrInt a =
     (case a of
        V4 w \<Rightarrow> Some (ucast w)
      | V6 w \<Rightarrow> if unat w div 2 ^ 32 = 65535 then Some (ucast (ucast w :: 32 word)) else None)"

definition prefixFromInt :: "64 word \<Rightarrow> int \<Rightarrow> Prefix option" where
  "prefixFromInt x bits =
     (if bits < 0 \<or> 32 < bits then None
      else Some (Masked \<lparr>ip = V4 (ucast x), pbits = nat bits\<rparr>))"

section \<open>What occupies a candidate\<close>

definition overlapsExcluded :: "Prefix \<Rightarrow> string list \<Rightarrow> bool" where
  "overlapsExcluded p xs =
     list_ex (\<lambda>raw. case ParsePrefix raw of None \<Rightarrow> False | Some q \<Rightarrow> Overlaps p q) xs"

definition network_blocks :: "Request \<Rightarrow> Prefix \<Rightarrow> Network \<Rightarrow> bool" where
  "network_blocks r p n =
     (case ParsePrefix (n_CIDR n) of
        None \<Rightarrow> False
      | Some q \<Rightarrow>
          Overlaps p q \<and>
          \<not> (n_ParentPool n \<or> r_Scope r = ''subnet'' \<and> n_AllocationID n = r_ParentAllocationID r
               \<and> Contains q (ip p)))"

definition resource_blocks :: "State \<Rightarrow> Request \<Rightarrow> Prefix \<Rightarrow> Resource \<Rightarrow> bool" where
  "resource_blocks st r p x =
     list_ex (\<lambda>raw. case ParsePrefix raw of
         None \<Rightarrow> False
       | Some q \<Rightarrow>
           Overlaps p q \<and>
           \<not> (r_Scope r = ''subnet'' \<and> x_Type x = ''vpc''
                \<and> parentResourceMatches st (r_ParentAllocationID r) (x_ID x) \<and> Contains q (ip p)))
       (x_CIDR x # x_CIDRs x)"

definition allocation_blocks :: "string \<Rightarrow> Request \<Rightarrow> Prefix \<Rightarrow> Allocation \<Rightarrow> bool" where
  "allocation_blocks domainID r p a =
     (case ParsePrefix (a_CIDR a) of
        None \<Rightarrow> False
      | Some q \<Rightarrow>
          Overlaps p q \<and>
          (\<not> a_Committed a \<or>
           a_Committed a \<and> a_State a \<noteq> Released \<and> a_DomainID a = domainID \<and>
           \<not> (r_Scope r = ''subnet'' \<and> a_ID a = r_ParentAllocationID r \<and> Contains q (ip p))))"

definition candidate_blocked ::
  "Pool \<Rightarrow> Request \<Rightarrow> InventorySnapshot \<Rightarrow> Observation \<Rightarrow> State \<Rightarrow> Prefix \<Rightarrow> bool" where
  "candidate_blocked pool r snap ob st p \<longleftrightarrow>
     overlapsExcluded p (pl_ExcludedCIDRs pool) \<or>
     list_ex (network_blocks r p) (sn_Networks snap) \<or>
     list_ex (resource_blocks st r p) (ob_Resources ob) \<or>
     list_ex (allocation_blocks (pl_DomainID pool) r p) (mvals (Allocations st))"

section \<open>The search\<close>

function choose_loop ::
  "(Prefix \<Rightarrow> bool) \<Rightarrow> 64 word \<Rightarrow> int \<Rightarrow> nat \<Rightarrow> nat \<Rightarrow> Prefix option" where
  "choose_loop blocked baseInt bits i step =
     (if i < step then
        (case prefixFromInt (baseInt + push_bit (nat (32 - bits)) (of_nat i)) bits of
           None \<Rightarrow> choose_loop blocked baseInt bits (Suc i) step
         | Some p \<Rightarrow> if blocked p then choose_loop blocked baseInt bits (Suc i) step else Some p)
      else None)"
  by pat_completeness auto
termination
  by (relation "measure (\<lambda>(blocked, baseInt, bits, i, step). step - i)") auto

declare choose_loop.simps [simp del]

definition chooseCIDR ::
  "Pool \<Rightarrow> Request \<Rightarrow> InventorySnapshot \<Rightarrow> Observation \<Rightarrow> State \<Rightarrow> goerr + string option" where
  "chooseCIDR pool r snap ob st =
     (case ParsePrefix (pl_CIDR pool) of
        None \<Rightarrow> Inr None
      | Some base0 \<Rightarrow>
          let base = Masked base0; bits = r_PrefixLength r
          in if bits < int (pbits base) \<or> 32 < bits then Inr None
             else
               let step = 2 ^ nat (bits - int (pbits base))
               in case addrInt (ip base) of
                    None \<Rightarrow> Inl (Panic ''As4 called on IPv6 address'')
                  | Some baseInt \<Rightarrow>
                      Inr (map_option PrefixString
                        (choose_loop (candidate_blocked pool r snap ob st) baseInt bits 0 step)))"

section \<open>The reviewed candidate of an adoption\<close>

record Adoption =
  ad_Operator :: string
  ad_CIDR :: string
  ad_NetworkID :: string
  ad_ResourceID :: string

definition childOfReviewedVPC :: "Resource \<Rightarrow> Request \<Rightarrow> Prefix \<Rightarrow> string \<Rightarrow> bool" where
  "childOfReviewedVPC x r p resourceID =
     (if r_Scope r \<noteq> ''vpc'' \<or> x_Type x \<noteq> ''subnet'' \<or> resourceID = [] \<or> x_ParentID x \<noteq> resourceID
      then False
      else if x_AccountID x \<noteq> r_AccountID r \<or> x_Region x \<noteq> r_Region r then False
      else if tag x ''platform-ipam:allocation-id'' \<noteq> [] then False
      else case ParsePrefix (x_CIDR x) of
             None \<Rightarrow> False
           | Some q0 \<Rightarrow> let q = Masked q0 in pbits p \<le> pbits q \<and> Contains p (ip q))"

type_synonym reviewedChildren = "(Prefix \<times> string) list"

definition reviewedVPCChildren ::
  "Observation \<Rightarrow> Prefix \<Rightarrow> Request \<Rightarrow> string \<Rightarrow> reviewedChildren" where
  "reviewedVPCChildren ob p r resourceID =
     fold (\<lambda>x out. if \<not> childOfReviewedVPC x r p resourceID then out
                   else case ParsePrefix (x_CIDR x) of
                          None \<Rightarrow> out
                        | Some q \<Rightarrow> AList.update (Masked q) (x_ID x) out)
       (ob_Resources ob) []"

definition child_id :: "reviewedChildren \<Rightarrow> Prefix \<Rightarrow> string" where
  "child_id children q = (case map_of children q of None \<Rightarrow> [] | Some i \<Rightarrow> i)"

definition reviewedResource ::
  "Resource \<Rightarrow> Request \<Rightarrow> Prefix \<Rightarrow> string \<Rightarrow> string \<Rightarrow> bool" where
  "reviewedResource x r p resourceID parentResource =
     (if x_ID x \<noteq> resourceID \<or> x_Type x \<noteq> r_Scope r \<or> x_AccountID x \<noteq> r_AccountID r
         \<or> x_Region x \<noteq> r_Region r then False
      else if (case ParsePrefix (x_CIDR x) of None \<Rightarrow> True | Some q \<Rightarrow> Masked q \<noteq> p) then False
      else if tag x ''platform-ipam:allocation-id'' \<noteq> [] then False
      else if r_Scope r = ''subnet'' then
        (if parentResource = [] \<or> x_ParentID x \<noteq> parentResource then False
         else if r_AvailabilityZoneID r = [] \<or> x_ZoneID x \<noteq> r_AvailabilityZoneID r then False
         else True)
      else True)"

definition unowned :: "Network \<Rightarrow> bool" where
  "unowned n \<longleftrightarrow> n_Imported n \<and> \<not> n_Owned n \<and> n_AllocationID n = [] \<and> n_OperationID n = []"

fun reviewedNetwork_loop ::
  "Network list \<Rightarrow> Prefix \<Rightarrow> Request \<Rightarrow> string \<Rightarrow> string \<Rightarrow> reviewedChildren
     \<Rightarrow> Network option \<times> nat \<Rightarrow> goerr + Network option \<times> nat" where
  "reviewedNetwork_loop [] p r networkID own children acc = Inr acc"
| "reviewedNetwork_loop (n # ns) p r networkID own children (reviewed, found) =
     (case ParsePrefix (n_CIDR n) of
        None \<Rightarrow> reviewedNetwork_loop ns p r networkID own children (reviewed, found)
      | Some q \<Rightarrow>
          if \<not> Overlaps p q then reviewedNetwork_loop ns p r networkID own children (reviewed, found)
          else if n_ParentPool n \<or> r_Scope r = ''subnet'' \<and> n_AllocationID n = r_ParentAllocationID r
                    \<and> Contains q (ip p)
          then reviewedNetwork_loop ns p r networkID own children (reviewed, found)
          else if Masked q = p \<and> n_ID n = networkID
                    \<and> (unowned n \<or> own \<noteq> [] \<and> n_AllocationID n = own)
          then reviewedNetwork_loop ns p r networkID own children (Some n, Suc found)
          else if unowned n \<and> pbits p < pbits q \<and> Contains p (ip q) \<and> child_id children (Masked q) \<noteq> []
          then reviewedNetwork_loop ns p r networkID own children (reviewed, found)
          else Inl (apiErr 409 ''adoption_refused''
                 ''another network in the inventory occupies the adopted CIDR''))"

definition reviewedNetwork ::
  "InventorySnapshot \<Rightarrow> Prefix \<Rightarrow> Request \<Rightarrow> string \<Rightarrow> string \<Rightarrow> reviewedChildren \<Rightarrow> goerr + Network"
where
  "reviewedNetwork snap p r networkID own children =
     (case reviewedNetwork_loop (sn_Networks snap) p r networkID own children (None, 0) of
        Inl e \<Rightarrow> Inl e
      | Inr (Some n, Suc 0) \<Rightarrow> Inr n
      | Inr _ \<Rightarrow> Inl (apiErr 409 ''adoption_refused''
            ''the reviewed imported network was not found at the adopted CIDR''))"

definition resource_overlaps :: "Resource \<Rightarrow> Prefix \<Rightarrow> Request \<Rightarrow> string \<Rightarrow> bool" where
  "resource_overlaps x p r parentResource =
     list_ex (\<lambda>raw. case ParsePrefix raw of
         None \<Rightarrow> False
       | Some q \<Rightarrow>
           Overlaps p q \<and>
           \<not> (r_Scope r = ''subnet'' \<and> x_Type x = ''vpc'' \<and> parentResource \<noteq> []
                \<and> x_ID x = parentResource \<and> Contains q (ip p)))
       (x_CIDR x # x_CIDRs x)"

fun reviewedOccupancy_loop ::
  "Resource list \<Rightarrow> Prefix \<Rightarrow> Request \<Rightarrow> string \<Rightarrow> string \<Rightarrow> nat \<Rightarrow> goerr + nat" where
  "reviewedOccupancy_loop [] p r resourceID parentResource k = Inr k"
| "reviewedOccupancy_loop (x # xs) p r resourceID parentResource k =
     (if \<not> resource_overlaps x p r parentResource
      then reviewedOccupancy_loop xs p r resourceID parentResource k
      else if childOfReviewedVPC x r p resourceID
      then reviewedOccupancy_loop xs p r resourceID parentResource k
      else if \<not> reviewedResource x r p resourceID parentResource
      then Inl (apiErr 409 ''adoption_refused'' ''another cloud resource occupies the adopted CIDR'')
      else reviewedOccupancy_loop xs p r resourceID parentResource (Suc k))"

definition reviewedOccupancy ::
  "Observation \<Rightarrow> Prefix \<Rightarrow> Request \<Rightarrow> string \<Rightarrow> string \<Rightarrow> goerr option" where
  "reviewedOccupancy ob p r resourceID parentResource =
     (case reviewedOccupancy_loop (ob_Resources ob) p r resourceID parentResource 0 of
        Inl e \<Rightarrow> Some e
      | Inr k \<Rightarrow> if k \<noteq> 1 then Some (apiErr 409 ''adoption_refused''
            ''the reviewed cloud resource was not observed at the adopted CIDR'') else None)"

fun pinned_ledger_scan :: "Allocation list \<Rightarrow> string \<Rightarrow> Request \<Rightarrow> Prefix \<Rightarrow> goerr option" where
  "pinned_ledger_scan [] domainID r p = None"
| "pinned_ledger_scan (a # as) domainID r p =
     (case ParsePrefix (a_CIDR a) of
        None \<Rightarrow> pinned_ledger_scan as domainID r p
      | Some q \<Rightarrow>
          if \<not> Overlaps p q then pinned_ledger_scan as domainID r p
          else if \<not> a_Committed a then
            Some (apiErr 409 ''adoption_refused'' ''an uncommitted allocation holds the adopted CIDR'')
          else if a_State a \<noteq> Released \<and> a_DomainID a = domainID then
            (if r_Scope r = ''subnet'' \<and> a_ID a = r_ParentAllocationID r \<and> Contains q (ip p)
             then pinned_ledger_scan as domainID r p
             else Some (apiErr 409 ''adoption_refused'' ''an existing allocation holds the adopted CIDR''))
          else pinned_ledger_scan as domainID r p)"

definition parent_resource :: "State \<Rightarrow> string \<Rightarrow> string" where
  "parent_resource st parentID =
     (case mget (Allocations st) parentID of
        None \<Rightarrow> []
      | Some parent \<Rightarrow> (case a_Binding parent of None \<Rightarrow> [] | Some b \<Rightarrow> b_ResourceID b))"

definition pinnedCIDR ::
  "Pool \<Rightarrow> Request \<Rightarrow> InventorySnapshot \<Rightarrow> Observation \<Rightarrow> State \<Rightarrow> Adoption \<Rightarrow> goerr + string \<times> Network"
where
  "pinnedCIDR pool r snap ob st pin =
     (case ParsePrefix (pl_CIDR pool) of
        None \<Rightarrow> Inl (apiErr 422 ''policy_violation'' ''pool configuration is unavailable'')
      | Some base0 \<Rightarrow>
          let base = Masked base0
          in case ParsePrefix (ad_CIDR pin) of
               None \<Rightarrow> Inl (apiErr 422 ''invalid_request'' ''adopted CIDR is not a canonical IPv4 prefix'')
             | Some p \<Rightarrow>
                 if \<not> Is4 (ip p) \<or> p \<noteq> Masked p then
                   Inl (apiErr 422 ''invalid_request'' ''adopted CIDR is not a canonical IPv4 prefix'')
                 else if int (pbits p) \<noteq> r_PrefixLength r then
                   Inl (apiErr 422 ''invalid_request''
                     ''adopted CIDR does not have the requested prefix length'')
                 else if \<not> Contains base (ip p) \<or> pbits p < pbits base then
                   Inl (apiErr 422 ''policy_violation'' ''adopted CIDR is outside the pool'')
                 else if overlapsExcluded p (pl_ExcludedCIDRs pool) then
                   Inl (apiErr 409 ''adoption_refused'' ''adopted CIDR overlaps excluded address space'')
                 else
                   let children = reviewedVPCChildren ob p r (ad_ResourceID pin)
                   in case reviewedNetwork snap p r (ad_NetworkID pin) [] children of
                        Inl e \<Rightarrow> Inl e
                      | Inr reviewed \<Rightarrow>
                          (case reviewedOccupancy ob p r (ad_ResourceID pin)
                                  (parent_resource st (r_ParentAllocationID r)) of
                             Some e \<Rightarrow> Inl e
                           | None \<Rightarrow>
                               (case pinned_ledger_scan (mvals (Allocations st)) (pl_DomainID pool) r p of
                                  Some e \<Rightarrow> Inl e
                                | None \<Rightarrow> Inr (PrefixString p, reviewed))))"

definition adoptedTheReviewedObject :: "Operation \<Rightarrow> string \<Rightarrow> bool" where
  "adoptedTheReviewedObject x inventoryID \<longleftrightarrow>
     (case o_Adoption x of
        None \<Rightarrow> False
      | Some rec \<Rightarrow> inventoryID \<noteq> [] \<and> inventoryID = ar_NetworkID rec)"

definition adoptionEvidence :: "Crypto \<Rightarrow> AdoptionRecord \<Rightarrow> Observation \<Rightarrow> string" where
  "adoptionEvidence K rec ob =
     ''adoption reviewed by '' @ ar_Operator rec @ '': inventory network '' @ ar_NetworkID rec
     @ '' (import batch '' @ go_quote K (ar_ImportBatch rec) @ ''), cloud resource ''
     @ ar_ResourceID rec @ '', observation '' @ ob_Generation ob @ '' finished ''
     @ rfc3339 K (ob_FinishedAt ob)"


section \<open>The contract of a first-fit search\<close>

text \<open>
  A search over numbered candidates that stops at the first one that is not blocked. Whatever
  satisfies the three laws returns the lowest free candidate and fails only when there is none.
\<close>

locale first_fit =
  fixes cand :: "nat \<Rightarrow> 'p option"
    and blocked :: "'p \<Rightarrow> bool"
    and search :: "nat \<Rightarrow> nat \<Rightarrow> 'p option"
  assumes search_done: "step \<le> i \<Longrightarrow> search i step = None"
    and search_hit: "i < step \<Longrightarrow> cand i = Some p \<Longrightarrow> \<not> blocked p \<Longrightarrow> search i step = Some p"
    and search_skip: "i < step \<Longrightarrow> (\<And>p. cand i = Some p \<Longrightarrow> blocked p) \<Longrightarrow>
      search i step = search (Suc i) step"
begin

lemma search_Some:
  assumes "search i step = Some p"
  shows "\<exists>j. i \<le> j \<and> j < step \<and> cand j = Some p \<and> \<not> blocked p \<and>
    (\<forall>k. i \<le> k \<and> k < j \<longrightarrow> (\<forall>q. cand k = Some q \<longrightarrow> blocked q))"
  using assms
proof (induction "step - i" arbitrary: i)
  case 0
  then show ?case using search_done by fastforce
next
  case (Suc n)
  have i: "i < step" and n: "n = step - Suc i" using Suc.hyps(2) by simp_all
  show ?case
  proof (cases "\<exists>q. cand i = Some q \<and> \<not> blocked q")
    case True
    then show ?thesis using i search_hit Suc.prems by fastforce
  next
    case False
    then have skip: "search (Suc i) step = Some p"
      using search_skip [OF i] Suc.prems by fastforce
    obtain j where j: "Suc i \<le> j" "j < step" "cand j = Some p" "\<not> blocked p"
      "\<forall>k. Suc i \<le> k \<and> k < j \<longrightarrow> (\<forall>q. cand k = Some q \<longrightarrow> blocked q)"
      using Suc.hyps(1) [OF n skip] by blast
    have "\<forall>q. cand k = Some q \<longrightarrow> blocked q" if "i \<le> k \<and> k < j" for k
    proof (cases "k = i")
      case True
      then show ?thesis using False by blast
    next
      case neq: False
      then have "Suc i \<le> k \<and> k < j" using that by linarith
      then show ?thesis using j(5) by blast
    qed
    then show ?thesis using j by (meson Suc_leD)
  qed
qed

lemma search_None:
  assumes "search i step = None" and "i \<le> j" and "j < step" and "cand j = Some p"
  shows "blocked p"
  using assms
proof (induction "step - i" arbitrary: i)
  case 0
  then show ?case by simp
next
  case (Suc n)
  have i: "i < step" using Suc.hyps(2) by simp
  have none: "\<And>q. cand i = Some q \<Longrightarrow> blocked q"
    using search_hit [OF i] Suc.prems(1) by fastforce
  show ?case
  proof (cases "j = i")
    case True
    then show ?thesis using none Suc.prems(4) by simp
  next
    case False
    moreover have "search (Suc i) step = None" using search_skip [OF i none] Suc.prems(1) by simp
    ultimately show ?thesis using Suc.hyps(1) [of "Suc i"] Suc.hyps(2) Suc.prems by simp
  qed
qed

end

definition candidate_at :: "64 word \<Rightarrow> int \<Rightarrow> nat \<Rightarrow> Prefix option" where
  "candidate_at baseInt bits i =
     prefixFromInt (baseInt + push_bit (nat (32 - bits)) (of_nat i)) bits"

interpretation ff: first_fit "candidate_at baseInt bits" blocked "choose_loop blocked baseInt bits"
  for blocked baseInt bits
proof unfold_locales
  fix step i :: nat assume "step \<le> i"
  then show "choose_loop blocked baseInt bits i step = None" by (simp add: choose_loop.simps)
next
  fix step i :: nat and p assume "i < step" "candidate_at baseInt bits i = Some p" "\<not> blocked p"
  then show "choose_loop blocked baseInt bits i step = Some p"
    by (subst choose_loop.simps) (simp add: candidate_at_def)
next
  fix step i :: nat assume "i < step" "\<And>p. candidate_at baseInt bits i = Some p \<Longrightarrow> blocked p"
  then show "choose_loop blocked baseInt bits i step = choose_loop blocked baseInt bits (Suc i) step"
    by (subst choose_loop.simps) (simp add: candidate_at_def split: option.split)
qed

section \<open>The candidates are exactly the aligned blocks of the pool\<close>

lemma addrInt_V4 [simp]: "addrInt (V4 w) = Some (ucast w)"
  by (simp add: addrInt_def)

lemma unat_ucast_up: "unat (ucast (w :: 32 word) :: 64 word) = unat w"
proof -
  have "unat w < 2 ^ LENGTH(32)" by (rule unsigned_less)
  then show ?thesis by (simp add: unsigned_ucast_eq take_bit_nat_eq_self)
qed

lemma candidate_word:
  assumes "unat w + i * 2 ^ k < 2 ^ 32" and "k \<le> 32" and "i < 2 ^ 32"
  shows "unat (ucast (ucast (w :: 32 word) + push_bit k (of_nat i) :: 64 word) :: 32 word)
    = unat w + i * 2 ^ k"
proof -
  have "unat (of_nat i :: 64 word) = i"
    using assms(3) by (simp add: unat_of_nat take_bit_nat_eq_self)
  moreover have ik: "i * 2 ^ k < 2 ^ 32" using assms(1) by simp
  ultimately have "unat (push_bit k (of_nat i :: 64 word)) = i * 2 ^ k"
    by (subst unat_push) simp_all
  then have "unat (ucast w + push_bit k (of_nat i) :: 64 word) = unat w + i * 2 ^ k"
    using assms(1) by (simp add: unat_word_ariths unat_ucast_up)
  then show ?thesis using assms(1) by (simp add: unsigned_ucast_eq take_bit_nat_eq_self)
qed


lemma canonical4_eqI:
  assumes "Is4 (ip p)" "Is4 (ip q)" "Masked p = p" "Masked q = q"
    and "pbits p = pbits q" "block4 p = block4 q"
  shows "p = q"
proof -
  have "unat (word4 (ip p)) = unat (word4 (ip q))"
    using word4_Masked [OF assms(1)] word4_Masked [OF assms(2)] assms by (simp add: size4_def)
  then have "ip p = ip q" using assms(1,2) by (auto simp: Is4_V4 word_unat_eq_iff)
  then show ?thesis using assms(5) by (cases p; cases q) simp
qed

definition aligned_base :: "Prefix \<Rightarrow> 64 word \<Rightarrow> nat \<Rightarrow> bool" where
  "aligned_base base baseInt n \<longleftrightarrow>
     Is4 (ip base) \<and> Masked base = base \<and> pbits base \<le> n \<and> n \<le> 32 \<and>
     addrInt (ip base) = Some baseInt"

lemma aligned_baseD:
  assumes "aligned_base base baseInt n"
  shows "Is4 (ip base)" "Masked base = base" "pbits base \<le> n" "n \<le> 32"
    "addrInt (ip base) = Some baseInt"
  using assms by (simp_all add: aligned_base_def)

lemma size_split:
  assumes "aligned_base base baseInt n"
  shows "size4 base = 2 ^ (n - pbits base) * 2 ^ (32 - n)"
  using aligned_baseD [OF assms] by (simp add: size4_def flip: power_add)

lemma base_word:
  assumes "aligned_base base baseInt n"
  shows "unat (word4 (ip base)) = block4 base * 2 ^ (n - pbits base) * 2 ^ (32 - n)"
  using word4_Masked [OF aligned_baseD(1) [OF assms]] aligned_baseD(2) [OF assms]
  by (simp add: size_split [OF assms] mult.assoc)

lemma slot_bound:
  assumes ab: "aligned_base base baseInt n" and "i < 2 ^ (n - pbits base)"
  shows "(block4 base * 2 ^ (n - pbits base) + i) * 2 ^ (32 - n) < 2 ^ 32"
proof -
  note lengths = aligned_baseD(3,4) [OF ab]
  have "block4 base < 2 ^ pbits base" using lengths by (intro block4_bound) simp
  then have "Suc (block4 base) * 2 ^ (n - pbits base) \<le> 2 ^ pbits base * 2 ^ (n - pbits base)"
    by (intro mult_right_mono) auto
  also have "\<dots> = (2::nat) ^ n" using lengths by (simp flip: power_add)
  finally have "block4 base * 2 ^ (n - pbits base) + i < 2 ^ n" using assms by simp
  then have "(block4 base * 2 ^ (n - pbits base) + i) * 2 ^ (32 - n) < 2 ^ n * 2 ^ (32 - n)"
    by simp
  also have "\<dots> = (2::nat) ^ 32" using lengths by (simp flip: power_add)
  finally show ?thesis .
qed

lemma candidate:
  assumes ab: "aligned_base base baseInt n" and i: "i < 2 ^ (n - pbits base)"
  shows "\<exists>p. candidate_at baseInt (int n) i = Some p \<and> Is4 (ip p) \<and> pbits p = n \<and> Masked p = p \<and>
    block4 p = block4 base * 2 ^ (n - pbits base) + i"
proof -
  note lengths = aligned_baseD(3,4) [OF ab]
  obtain w where w: "ip base = V4 w" and b: "baseInt = ucast w"
    using aligned_baseD(1,5) [OF ab] by (auto simp: Is4_V4)
  let ?x = "ucast (baseInt + push_bit (32 - n) (of_nat i)) :: 32 word"
  let ?p = "\<lparr>ip = V4 ?x, pbits = n\<rparr>"
  let ?s = "block4 base * 2 ^ (n - pbits base) + i"
  have "2 ^ (n - pbits base) \<le> (2::nat) ^ 32" using lengths by (intro power_increasing) auto
  then have i32: "i < 2 ^ 32" using i by simp
  have sum: "unat w + i * 2 ^ (32 - n) = ?s * 2 ^ (32 - n)"
    using base_word [OF ab] w by (simp add: algebra_simps)
  then have x: "unat ?x = ?s * 2 ^ (32 - n)"
    using candidate_word [of w i "32 - n"] slot_bound [OF ab i] i32 b by simp
  have m: "Masked ?p = ?p" by (subst Masked_canonical4) (simp_all add: x size4_def)
  have "block4 ?p = ?s" by (simp add: block4_def size4_def x)
  moreover have "candidate_at baseInt (int n) i = Some ?p"
    using m lengths by (simp add: candidate_at_def prefixFromInt_def nat_diff_distrib)
  ultimately show ?thesis using m by (intro exI [of _ ?p]) simp
qed

lemma inside_iff:
  assumes ab: "aligned_base base baseInt n" and "Is4 (ip p)" and "pbits p = n"
  shows "addrs p \<subseteq> addrs base \<longleftrightarrow> block4 p div 2 ^ (n - pbits base) = block4 base"
proof -
  note base4 = aligned_baseD(1) [OF ab]
  have sz: "size4 p = 2 ^ (32 - n)" using assms(3) by (simp add: size4_def)
  have div: "k div size4 base = k div size4 p div 2 ^ (n - pbits base)" for k
    by (simp add: size_split [OF ab] sz mult.commute [of "2 ^ (n - pbits base)"] div_mult2_eq)
  show ?thesis
  proof
    assume "addrs p \<subseteq> addrs base"
    then have "ip p \<in> addrs base" by auto
    then show "block4 p div 2 ^ (n - pbits base) = block4 base"
      using assms(2) div by (auto simp: Is4_V4 mem_addrs4 [OF base4] block4_def)
  next
    assume b: "block4 p div 2 ^ (n - pbits base) = block4 base"
    show "addrs p \<subseteq> addrs base"
    proof
      fix a assume a: "a \<in> addrs p"
      then obtain x where x: "a = V4 x" using addrs4_V4 [OF assms(2)] by blast
      then show "a \<in> addrs base"
        using a b div by (simp add: mem_addrs4 assms(2) base4)
    qed
  qed
qed

lemma candidate_inside:
  assumes ab: "aligned_base base baseInt n" and "i < 2 ^ (n - pbits base)" and "candidate_at baseInt (int n) i = Some p"
  shows "Is4 (ip p)" "pbits p = n" "Masked p = p" "addrs p \<subseteq> addrs base"
  using candidate [OF assms(1,2)] assms inside_iff [OF ab, of p] by auto

lemma candidate_complete:
  assumes ab: "aligned_base base baseInt n"
    and "Is4 (ip p)" "pbits p = n" "Masked p = p" "addrs p \<subseteq> addrs base"
  shows "\<exists>i < 2 ^ (n - pbits base). candidate_at baseInt (int n) i = Some p"
proof -
  let ?i = "block4 p mod 2 ^ (n - pbits base)"
  have i: "?i < 2 ^ (n - pbits base)" by simp
  obtain q where q: "candidate_at baseInt (int n) ?i = Some q" "Is4 (ip q)" "pbits q = n"
    "Masked q = q" "block4 q = block4 base * 2 ^ (n - pbits base) + ?i"
    using candidate [OF ab i] by blast
  have "block4 base = block4 p div 2 ^ (n - pbits base)"
    using inside_iff [OF ab assms(2,3)] assms(5) by simp
  then have "block4 q = block4 p" using q(5) div_mult_mod_eq [of "block4 p"] by metis
  then have "q = p"
    using q(3) assms(3) by (intro canonical4_eqI [OF q(2) assms(2) q(4) assms(4)]) simp
  then show ?thesis using q(1) i by blast
qed


section \<open>What the search returns\<close>

lemma addrInt_short6:
  assumes "b \<le> 32"
  shows "addrInt (keep_top b (V6 w)) = None"
proof -
  let ?v = "push_bit (128 - b) (drop_bit (128 - b) w)"
  have "unat w < 2 ^ LENGTH(128)" by (rule unsigned_less)
  moreover have "unat w div 2 ^ (128 - b) * 2 ^ (128 - b) \<le> unat w" by simp
  ultimately have "unat w div 2 ^ (128 - b) * 2 ^ (128 - b) < 2 ^ LENGTH(128)"
    using le_less_trans by blast
  then have "unat ?v = unat w div 2 ^ (128 - b) * 2 ^ (128 - b)"
    using unat_push [of "drop_bit (128 - b) w" "128 - b"] by (simp add: unat_drop)
  moreover have "(2::nat) ^ (128 - b) = 2 ^ (96 - b) * 2 ^ 32"
    using assms power_add [of "2::nat" "96 - b" 32] by simp
  ultimately have "unat ?v = unat w div 2 ^ (128 - b) * 2 ^ (96 - b) * 2 ^ 32"
    by (metis mult.assoc)
  then have "unat ?v div 2 ^ 32 = unat w div 2 ^ (128 - b) * 2 ^ (96 - b)" by simp
  moreover have "even ((2::nat) ^ (96 - b))" using assms by simp
  ultimately have "even (unat ?v div 2 ^ 32)" by simp
  then have "unat ?v div 2 ^ 32 \<noteq> 65535" by (metis odd_numeral)
  then show ?thesis by (simp add: keep_top_def addrInt_def del: div_exp_eq)
qed

lemma chooseCIDR_loop:
  assumes "chooseCIDR pool r snap ob st = Inr res"
    and "ParsePrefix (pl_CIDR pool) = Some base0"
    and "int (pbits base0) \<le> r_PrefixLength r" and "r_PrefixLength r \<le> 32"
  obtains baseInt n where
    "aligned_base (Masked base0) baseInt n" "r_PrefixLength r = int n"
    "res = map_option PrefixString
       (choose_loop (candidate_blocked pool r snap ob st) baseInt (int n) 0 (2 ^ (n - pbits base0)))"
proof -
  obtain baseInt where b: "addrInt (ip (Masked base0)) = Some baseInt"
    and res: "res = map_option PrefixString (choose_loop (candidate_blocked pool r snap ob st)
      baseInt (r_PrefixLength r) 0 (2 ^ nat (r_PrefixLength r - int (pbits base0))))"
    using assms by (auto simp: chooseCIDR_def Let_def split: option.splits)
  let ?n = "nat (r_PrefixLength r)"
  have n: "r_PrefixLength r = int ?n" "pbits base0 \<le> ?n" "?n \<le> 32" using assms(3,4) by auto
  have "Is4 (ip base0)"
  proof (rule ccontr)
    assume "\<not> Is4 (ip base0)"
    then obtain w where "ip base0 = V6 w" by (cases "ip base0") auto
    then have "addrInt (ip (Masked base0)) = None"
      using addrInt_short6 [of "pbits base0" w] n by (simp add: Masked_def)
    then show False using b by simp
  qed
  then have "aligned_base (Masked base0) baseInt ?n"
    using n b by (simp add: aligned_base_def)
  moreover have "nat (r_PrefixLength r - int (pbits base0)) = ?n - pbits base0" by simp
  ultimately show thesis using res n(1) that [of baseInt ?n] by metis
qed

lemma chooseCIDR_Some_guard:
  assumes "chooseCIDR pool r snap ob st = Inr (Some s)"
  obtains base0 where "ParsePrefix (pl_CIDR pool) = Some base0"
    "int (pbits base0) \<le> r_PrefixLength r" "r_PrefixLength r \<le> 32"
  using assms that by (auto simp: chooseCIDR_def Let_def split: option.splits if_splits)

lemma chooseCIDR_Some:
  assumes "chooseCIDR pool r snap ob st = Inr (Some s)"
  obtains base p where "ParsePrefix (pl_CIDR pool) = Some base" "s = PrefixString p"
    "ParsePrefix s = Some p" "valid_prefix p" "Is4 (ip p)" "Masked p = p"
    "int (pbits p) = r_PrefixLength r" "addrs p \<subseteq> addrs base"
    "\<not> candidate_blocked pool r snap ob st p"
proof -
  obtain base0 where base: "ParsePrefix (pl_CIDR pool) = Some base0"
    "int (pbits base0) \<le> r_PrefixLength r" "r_PrefixLength r \<le> 32"
    using chooseCIDR_Some_guard [OF assms] .
  obtain baseInt n where ab: "aligned_base (Masked base0) baseInt n" "r_PrefixLength r = int n"
    "Some s = map_option PrefixString
      (choose_loop (candidate_blocked pool r snap ob st) baseInt (int n) 0 (2 ^ (n - pbits base0)))"
    using chooseCIDR_loop [OF assms base] .
  then obtain p where p: "s = PrefixString p"
    "choose_loop (candidate_blocked pool r snap ob st) baseInt (int n) 0 (2 ^ (n - pbits base0)) = Some p"
    by (cases "choose_loop (candidate_blocked pool r snap ob st) baseInt (int n) 0
          (2 ^ (n - pbits base0))") simp_all
  obtain j where j: "j < 2 ^ (n - pbits base0)" "candidate_at baseInt (int n) j = Some p"
    "\<not> candidate_blocked pool r snap ob st p"
    using ff.search_Some [OF p(2)] by blast
  have c: "Is4 (ip p)" "pbits p = n" "Masked p = p" "addrs p \<subseteq> addrs base0"
    using candidate_inside [OF ab(1) _ j(2)] j(1) by simp_all
  have v: "valid_prefix p"
    using c aligned_baseD(4) [OF ab(1)] by (auto simp: valid_prefix_def BitLen_def Is4_V4)
  then have "ParsePrefix s = Some p" using ParsePrefix_PrefixString4 c(1) p(1) by simp
  then show thesis using that base(1) p(1) v c ab(2) j(3) by simp
qed

text \<open>A candidate that is not blocked shares no address with anything that occupies its space.\<close>

lemma disjoint_addrs:
  assumes "valid_prefix p" and "ParsePrefix raw = Some q" and "\<not> Overlaps p q"
  shows "addrs p \<inter> addrs q = {}"
  using ipspace.inside_disjoint [OF assms(1) ParsePrefix_valid [OF assms(2)] assms(1,3)] by simp

lemma not_blocked_excluded:
  assumes "\<not> candidate_blocked pool r snap ob st p" and "valid_prefix p"
    and "raw \<in> set (pl_ExcludedCIDRs pool)" and "ParsePrefix raw = Some q"
  shows "addrs p \<inter> addrs q = {}"
proof (rule disjoint_addrs [OF assms(2,4)])
  show "\<not> Overlaps p q"
    using assms(1,3,4) by (force simp: candidate_blocked_def overlapsExcluded_def list_ex_iff)
qed

lemma not_blocked_network:
  assumes "\<not> candidate_blocked pool r snap ob st p" and "valid_prefix p"
    and "n \<in> set (sn_Networks snap)" and "ParsePrefix (n_CIDR n) = Some q" and "\<not> n_ParentPool n"
    and "\<not> (r_Scope r = ''subnet'' \<and> n_AllocationID n = r_ParentAllocationID r)"
  shows "addrs p \<inter> addrs q = {}"
proof (rule disjoint_addrs [OF assms(2,4)])
  have "\<not> network_blocks r p n"
    using assms(1,3) by (simp add: candidate_blocked_def list_ex_iff)
  then show "\<not> Overlaps p q" using assms(4-6) by (auto simp: network_blocks_def)
qed

lemma not_blocked_resource:
  assumes "\<not> candidate_blocked pool r snap ob st p" and "valid_prefix p"
    and "x \<in> set (ob_Resources ob)" and "ParsePrefix raw = Some q"
    and "raw \<in> set (x_CIDR x # x_CIDRs x)"
    and "\<not> (r_Scope r = ''subnet'' \<and> x_Type x = ''vpc''
      \<and> parentResourceMatches st (r_ParentAllocationID r) (x_ID x))"
  shows "addrs p \<inter> addrs q = {}"
proof (rule disjoint_addrs [OF assms(2,4)])
  have "\<not> resource_blocks st r p x"
    using assms(1,3) by (simp add: candidate_blocked_def list_ex_iff)
  then show "\<not> Overlaps p q"
    using assms(4-6) unfolding resource_blocks_def list_ex_iff by fastforce
qed

lemma not_blocked_allocation:
  assumes "\<not> candidate_blocked pool r snap ob st p" and "valid_prefix p"
    and "a \<in> set (mvals (Allocations st))" and "ParsePrefix (a_CIDR a) = Some q"
    and "\<not> a_Committed a \<or> a_State a \<noteq> Released \<and> a_DomainID a = pl_DomainID pool"
    and "\<not> (a_Committed a \<and> r_Scope r = ''subnet'' \<and> a_ID a = r_ParentAllocationID r)"
  shows "addrs p \<inter> addrs q = {}"
proof (rule disjoint_addrs [OF assms(2,4)])
  have "\<not> allocation_blocks (pl_DomainID pool) r p a"
    using assms(1,3) by (simp add: candidate_blocked_def list_ex_iff)
  then show "\<not> Overlaps p q" using assms(4-6) by (auto simp: allocation_blocks_def)
qed

section \<open>When the search fails\<close>

text \<open>\<open>pool_exhausted\<close> is only answered when every aligned block of the pool is blocked.\<close>

lemma chooseCIDR_None:
  assumes "chooseCIDR pool r snap ob st = Inr None"
    and "ParsePrefix (pl_CIDR pool) = Some base0"
    and "Is4 (ip p)" "Masked p = p" "int (pbits p) = r_PrefixLength r" "pbits p \<le> 32"
    and "pbits base0 \<le> pbits p" "addrs p \<subseteq> addrs base0"
  shows "candidate_blocked pool r snap ob st p"
proof -
  have lengths: "int (pbits base0) \<le> r_PrefixLength r" "r_PrefixLength r \<le> 32"
    using assms(5-7) by linarith+
  obtain baseInt n where ab: "aligned_base (Masked base0) baseInt n" "r_PrefixLength r = int n"
    and none: "None = map_option PrefixString
      (choose_loop (candidate_blocked pool r snap ob st) baseInt (int n) 0 (2 ^ (n - pbits base0)))"
    using chooseCIDR_loop [OF assms(1,2) lengths] .
  have n: "pbits p = n" using ab(2) assms(5) by simp
  obtain i where i: "i < 2 ^ (n - pbits base0)" "candidate_at baseInt (int n) i = Some p"
    using candidate_complete [OF ab(1) assms(3) n assms(4)] assms(8) by auto
  have "choose_loop (candidate_blocked pool r snap ob st) baseInt (int n) 0 (2 ^ (n - pbits base0)) = None"
    using none by simp
  then show ?thesis by (rule ff.search_None [OF _ le0 i])
qed

section \<open>What a verified candidate guarantees\<close>

lemma pinned_ledger_scan_None:
  assumes "pinned_ledger_scan as domainID r p = None"
    and "a \<in> set as" and "ParsePrefix (a_CIDR a) = Some q"
    and "\<not> a_Committed a \<or> a_State a \<noteq> Released \<and> a_DomainID a = domainID"
    and "\<not> (a_Committed a \<and> r_Scope r = ''subnet'' \<and> a_ID a = r_ParentAllocationID r)"
  shows "\<not> Overlaps p q"
  using assms by (induction as) (auto split: option.splits if_splits)

lemma pinnedCIDR_Inr:
  assumes "pinnedCIDR pool r snap ob st pin = Inr (s, reviewed)"
  obtains base p where "ParsePrefix (pl_CIDR pool) = Some base" "ParsePrefix (ad_CIDR pin) = Some p"
    "Is4 (ip p)" "Masked p = p" "int (pbits p) = r_PrefixLength r" "addrs p \<subseteq> addrs base"
    "s = PrefixString p" "ParsePrefix s = Some p" "valid_prefix p"
    "\<not> overlapsExcluded p (pl_ExcludedCIDRs pool)"
    "reviewedNetwork snap p r (ad_NetworkID pin) [] (reviewedVPCChildren ob p r (ad_ResourceID pin))
       = Inr reviewed"
    "reviewedOccupancy ob p r (ad_ResourceID pin) (parent_resource st (r_ParentAllocationID r)) = None"
    "pinned_ledger_scan (mvals (Allocations st)) (pl_DomainID pool) r p = None"
proof -
  obtain base where base: "ParsePrefix (pl_CIDR pool) = Some base"
    using assms by (auto simp: pinnedCIDR_def split: option.splits)
  obtain p where p: "ParsePrefix (ad_CIDR pin) = Some p" "Is4 (ip p)" "Masked p = p"
    "int (pbits p) = r_PrefixLength r" "Contains (Masked base) (ip p)" "pbits (Masked base) \<le> pbits p"
    "\<not> overlapsExcluded p (pl_ExcludedCIDRs pool)"
    using assms base by (auto simp: pinnedCIDR_def Let_def split: option.splits if_splits)
  note guards = assms base p
  have rest: "reviewedNetwork snap p r (ad_NetworkID pin) [] (reviewedVPCChildren ob p r (ad_ResourceID pin))
      = Inr reviewed"
    "reviewedOccupancy ob p r (ad_ResourceID pin) (parent_resource st (r_ParentAllocationID r)) = None"
    "pinned_ledger_scan (mvals (Allocations st)) (pl_DomainID pool) r p = None" "s = PrefixString p"
    using guards by (auto simp: pinnedCIDR_def Let_def split: option.splits if_splits sum.splits)
  have v: "valid_prefix p" using ParsePrefix_valid [OF p(1)] .
  moreover have "addrs p \<subseteq> addrs base" using addrs_subset [OF p(5,6)] by simp
  moreover have "ParsePrefix s = Some p" using ParsePrefix_PrefixString4 [OF v p(2)] rest(4) by simp
  ultimately show thesis using that [OF base p(1-4)] rest p(7) by blast
qed

end
