(* ===== verification/Ledger.thy ===== *)
theory Ledger
  imports Candidate
begin

text \<open>
  The ports of the service: the ledger, the inventory and the cloud observer.

  A ledger closure is a \<open>txn\<close>: it either refuses with an error, and then nothing is stored, or returns
  the new state and a result. \<open>MemoryLedger\<close> is \<open>internal/storage/memory.go\<close>; the locale \<open>ledger_port\<close>
  states what the service relies on (atomic updates, reads that change nothing) and is interpreted on
  it and on the ledger accesses of the service (\<open>update\<close>).

  The record \<open>Env\<close> holds everything a handler reads from outside: configuration, clock, random
  bytes, adapters, and, for every ledger access of the handler (numbered in program order), whether
  the store fails at that access and what other processes have committed just before it
  (\<open>v_others\<close>). With arbitrary \<open>v_others\<close> a handler runs interleaved with every other process.
\<close>

section \<open>Transactions\<close>

type_synonym 'r txn = "State \<Rightarrow> goerr + State \<times> 'r"

record MemoryLedger =
  ml_state :: State

definition NewMemoryLedger :: MemoryLedger where
  "NewMemoryLedger = \<lparr>ml_state = NewState\<rparr>"

definition ml_View :: "goerr option \<Rightarrow> (State \<Rightarrow> goerr + 'r) \<Rightarrow> MemoryLedger \<Rightarrow> goerr + 'r" where
  "ml_View ctxErr fn l = (case ctxErr of Some e \<Rightarrow> Inl e | None \<Rightarrow> fn (ml_state l))"

definition ml_Update ::
  "goerr option \<Rightarrow> goerr option \<Rightarrow> 'r txn \<Rightarrow> MemoryLedger \<Rightarrow> MemoryLedger \<times> (goerr + 'r)" where
  "ml_Update ctxErr ctxErr' fn l =
     (case ctxErr of
        Some e \<Rightarrow> (l, Inl e)
      | None \<Rightarrow>
          (case fn (ml_state l) of
             Inl e \<Rightarrow> (l, Inl e)
           | Inr (s, r) \<Rightarrow>
               (case ctxErr' of
                  Some e \<Rightarrow> (l, Inl e)
                | None \<Rightarrow> (l\<lparr>ml_state := s\<rparr>, Inr r))))"

definition event_less :: "Event \<Rightarrow> Event \<Rightarrow> bool" where
  "event_less e f = (if ev_At e \<noteq> ev_At f then ev_At e < ev_At f else ev_ID e < ev_ID f)"

definition sortEvents :: "Event list \<Rightarrow> Event list" where
  "sortEvents es = sort_key ev_At (sort_key ev_ID es)"

definition ml_Events :: "goerr option \<Rightarrow> string \<Rightarrow> MemoryLedger \<Rightarrow> goerr + Event list" where
  "ml_Events ctxErr allocationID l =
     (case ctxErr of
        Some e \<Rightarrow> Inl e
      | None \<Rightarrow> Inr (sortEvents (filter (\<lambda>e. ev_AllocationID e = allocationID) (Events (ml_state l)))))"

section \<open>The contract of the ledger\<close>

locale ledger_port =
  fixes state_of :: "'l \<Rightarrow> 's"
    and upd :: "('s \<Rightarrow> 'e + 's \<times> 'r) \<Rightarrow> 'l \<Rightarrow> 'l \<times> ('e + 'r)"
  assumes upd_error: "upd fn l = (l', Inl e) \<Longrightarrow> state_of l' = state_of l"
    and upd_ok: "upd fn l = (l', Inr r) \<Longrightarrow> fn (state_of l) = Inr (state_of l', r)"
begin

lemma upd_invariant:
  assumes "I (state_of l)" and "\<And>s s' r. I s \<Longrightarrow> fn s = Inr (s', r) \<Longrightarrow> I s'"
  shows "I (state_of (fst (upd fn l)))"
proof (cases "snd (upd fn l)")
  case (Inl e)
  then have "upd fn l = (fst (upd fn l), Inl e)" by (metis prod.collapse)
  then show ?thesis using upd_error assms(1) by metis
next
  case (Inr r)
  then have "upd fn l = (fst (upd fn l), Inr r)" by (metis prod.collapse)
  then show ?thesis using upd_ok assms by metis
qed

lemma upd_all_or_nothing:
  "state_of (fst (upd fn l)) = state_of l \<or>
   (\<exists>r. snd (upd fn l) = Inr r \<and> fn (state_of l) = Inr (state_of (fst (upd fn l)), r))"
  by (cases "snd (upd fn l)") (metis prod.collapse upd_error upd_ok)+

end

interpretation memory: ledger_port ml_state "ml_Update ctxErr ctxErr'" for ctxErr ctxErr'
  by unfold_locales (auto simp: ml_Update_def split: option.splits sum.splits prod.splits)

section \<open>The adapters and the environment of a handler\<close>

record Inventory =
  inv_Snapshot :: "nat \<Rightarrow> Domain \<Rightarrow> goerr + InventorySnapshot"
  inv_Ensure :: "nat \<Rightarrow> Allocation \<Rightarrow> string \<Rightarrow> goerr + string"
  inv_Adopt :: "nat \<Rightarrow> Allocation \<Rightarrow> string \<Rightarrow> goerr + string"
  inv_AbandonAdoption :: "nat \<Rightarrow> Allocation \<Rightarrow> string \<Rightarrow> PriorInventory \<Rightarrow> goerr option"
  inv_CancelReservation :: "nat \<Rightarrow> Allocation \<Rightarrow> string \<Rightarrow> goerr option"
  inv_Sync :: "nat \<Rightarrow> Allocation \<Rightarrow> goerr option"
  inv_Delete :: "nat \<Rightarrow> Allocation \<Rightarrow> goerr option"

type_synonym Observer = "nat \<Rightarrow> Domain \<Rightarrow> goerr + Observation"

datatype LedgerHealth = NoLedger | LedgerDown goerr | LedgerUp

record Env =
  v_K :: Crypto
  v_cfg :: Config
  v_ledger :: LedgerHealth
  v_fault :: "nat \<Rightarrow> goerr option"
  v_ctx :: "nat \<Rightarrow> goerr option"
  v_others :: "nat \<Rightarrow> State \<Rightarrow> State"
  v_now :: "nat \<Rightarrow> time"
  v_rand :: "nat \<Rightarrow> 8 word list"
  v_inventory :: "Inventory option"
  v_observer :: "Observer option"

definition ledgerReady :: "Env \<Rightarrow> goerr option" where
  "ledgerReady E =
     (case v_ledger E of
        NoLedger \<Rightarrow> Some (apiErr 503 ''dependency_unavailable'' ''ledger is not configured'')
      | LedgerDown _ \<Rightarrow>
          Some (apiErr 503 ''dependency_unavailable'' ''allocation ledger is unavailable'')
      | LedgerUp \<Rightarrow> None)"

text \<open>The \<open>k\<close>-th ledger access of a handler: a read, and a transaction.\<close>

definition view :: "Env \<Rightarrow> nat \<Rightarrow> (State \<Rightarrow> goerr + 'r) \<Rightarrow> State \<Rightarrow> State \<times> (goerr + 'r)" where
  "view E k fn st =
     (let st' = v_others E k st
      in (st', ml_View (v_fault E k) fn \<lparr>ml_state = st'\<rparr>))"

definition update :: "Env \<Rightarrow> nat \<Rightarrow> 'r txn \<Rightarrow> State \<Rightarrow> State \<times> (goerr + 'r)" where
  "update E k fn st =
     (let (l, res) = ml_Update (v_fault E k) None fn \<lparr>ml_state = v_others E k st\<rparr>
      in (ml_state l, res))"

text \<open>An access whose handler runs alone: nobody else writes before it.\<close>

definition quiet :: "Env \<Rightarrow> bool" where
  "quiet E \<longleftrightarrow> (\<forall>k. v_others E k = id)"

lemma update_simps:
  "v_fault E k = Some e \<Longrightarrow> update E k fn st = (v_others E k st, Inl e)"
  "v_fault E k = None \<Longrightarrow> fn (v_others E k st) = Inl e \<Longrightarrow> update E k fn st = (v_others E k st, Inl e)"
  "v_fault E k = None \<Longrightarrow> fn (v_others E k st) = Inr (st', r) \<Longrightarrow> update E k fn st = (st', Inr r)"
  by (simp_all add: update_def ml_Update_def)

lemma update_cases:
  obtains (fault) e where "update E k fn st = (v_others E k st, Inl e)"
    and "v_fault E k = Some e \<or> v_fault E k = None \<and> fn (v_others E k st) = Inl e"
  | (ok) st' r where "fn (v_others E k st) = Inr (st', r)" and "update E k fn st = (st', Inr r)"
  by (cases "v_fault E k"; cases "fn (v_others E k st)") (auto simp: update_simps)

lemma view_state [simp]: "fst (view E k fn st) = v_others E k st"
  by (simp add: view_def Let_def)

definition observe :: "Env \<Rightarrow> nat \<Rightarrow> Domain \<Rightarrow> goerr + Observation option" where
  "observe E k d =
     (case v_observer E of
        None \<Rightarrow> Inr None
      | Some obs \<Rightarrow>
          if d_ID d = [] \<or> d_CoverageGeneration d = [] \<or> length (d_CloudCoverage d) = 0
          then Inl (OtherErr (''cloud coverage for domain '' @ go_quote (v_K E) (d_ID d)
                 @ '' is not configured''))
          else case obs k d of
            Inl e \<Rightarrow> Inl e
          | Inr ob \<Rightarrow>
              if ob_DomainID ob \<noteq> d_ID d \<or> ob_Generation ob \<noteq> d_CoverageGeneration d
                 \<or> IsZero (ob_FinishedAt ob) \<or> IsZero (ob_StartedAt ob)
                 \<or> ob_FinishedAt ob < ob_StartedAt ob
              then Inl (OtherErr ''observer returned untrusted domain, generation, or timestamps'')
              else Inr (Some ob))"

text \<open>
  A handler that runs phases or jobs in a loop gives phase \<open>j\<close> its own numbering of accesses, clock
  readings, random draws and adapter calls: \<open>sub j E\<close>. The pairing is injective, so no two
  accesses of one handler share an index.
\<close>

definition slot :: "nat \<Rightarrow> nat \<Rightarrow> nat" where
  "slot j k = 2 ^ j * (2 * k + 1)"

definition sub_inventory :: "nat \<Rightarrow> Inventory \<Rightarrow> Inventory" where
  "sub_inventory j iv =
     \<lparr>inv_Snapshot = \<lambda>k. inv_Snapshot iv (slot j k), inv_Ensure = \<lambda>k. inv_Ensure iv (slot j k),
      inv_Adopt = \<lambda>k. inv_Adopt iv (slot j k),
      inv_AbandonAdoption = \<lambda>k. inv_AbandonAdoption iv (slot j k),
      inv_CancelReservation = \<lambda>k. inv_CancelReservation iv (slot j k),
      inv_Sync = \<lambda>k. inv_Sync iv (slot j k), inv_Delete = \<lambda>k. inv_Delete iv (slot j k)\<rparr>"

definition sub :: "nat \<Rightarrow> Env \<Rightarrow> Env" where
  "sub j E =
     E\<lparr>v_fault := \<lambda>k. v_fault E (slot j k), v_ctx := \<lambda>k. v_ctx E (slot j k),
       v_others := \<lambda>k. v_others E (slot j k), v_now := \<lambda>k. v_now E (slot j k),
       v_rand := \<lambda>k. v_rand E (slot j k),
       v_inventory := map_option (sub_inventory j) (v_inventory E),
       v_observer := map_option (\<lambda>obs k. obs (slot j k)) (v_observer E)\<rparr>"

lemma slot_inj: "slot j k = slot j' k' \<Longrightarrow> j = j' \<and> k = k'"
proof (induction j arbitrary: j')
  case 0
  then show ?case by (cases j') (auto simp: slot_def, presburger)
next
  case (Suc j)
  then show ?case
  proof (cases j')
    case 0
    then have "2 * (2 ^ j * (2 * k + 1)) = 2 * k' + 1" using Suc.prems by (simp add: slot_def)
    then show ?thesis by presburger
  next
    case (Suc n)
    then have "slot j k = slot n k'" using Suc.prems by (simp add: slot_def)
    then show ?thesis using Suc.IH Suc by blast
  qed
qed

lemma sub_simps [simp]:
  "v_K (sub j E) = v_K E" "v_cfg (sub j E) = v_cfg E" "v_ledger (sub j E) = v_ledger E"
  "v_others (sub j E) k = v_others E (slot j k)"
  by (simp_all add: sub_def)

lemma quiet_sub: "quiet E \<Longrightarrow> quiet (sub j E)"
  by (simp add: quiet_def)

definition fresh :: "Env \<Rightarrow> string \<Rightarrow> nat \<Rightarrow> string" where
  "fresh E prefix k = NewID prefix (v_rand E k)"

text \<open>Audit history: \<open>sortEvents\<close> orders by time, then by identifier.\<close>

lemma sorted_key_refine:
  assumes "sorted (map g xs)"
  shows "sorted_wrt (\<lambda>x y. f x < f y \<or> f x = f y \<and> g x \<le> g y) (sort_key f xs)"
  using assms
proof (induction xs)
  case Nil
  then show ?case by simp
next
  case (Cons x xs)
  then have IH: "sorted_wrt (\<lambda>x y. f x < f y \<or> f x = f y \<and> g x \<le> g y) (sort_key f xs)"
    and gx: "\<forall>y \<in> set xs. g x \<le> g y" by auto
  have "sorted_wrt (\<lambda>x y. f x < f y \<or> f x = f y \<and> g x \<le> g y) (insort_key f x ys)"
    if "sorted_wrt (\<lambda>x y. f x < f y \<or> f x = f y \<and> g x \<le> g y) ys" "\<forall>y \<in> set ys. g x \<le> g y"
      "sorted (map f ys)" for ys
    using that
  proof (induction ys)
    case Nil
    then show ?case by simp
  next
    case (Cons y ys)
    show ?case
    proof (cases "f x \<le> f y")
      case True
      moreover have "f x < f z \<or> f x = f z \<and> g x \<le> g z" if "z \<in> set (y # ys)" for z
        using that True Cons.prems by (cases "f x = f z") (auto simp: less_le)
      ultimately show ?thesis using Cons.prems by auto
    next
      case False
      then show ?thesis using Cons by (auto simp: set_insort_key)
    qed
  qed
  then show ?case using IH gx by simp
qed

lemma sortEvents_sorted:
  "sorted_wrt (\<lambda>e f. \<not> event_less f e) (sortEvents es)"
proof -
  have "sorted_wrt (\<lambda>x y. ev_At x < ev_At y \<or> ev_At x = ev_At y \<and> ev_ID x \<le> ev_ID y) (sortEvents es)"
    unfolding sortEvents_def by (rule sorted_key_refine) simp
  then show ?thesis
    by (rule sorted_wrt_mono_rel [rotated]) (auto simp: event_less_def split: if_splits)
qed

end
