(* ===== verification/Capacity.thy ===== *)
theory Capacity
  imports Candidate Ledger
begin

text \<open>
  The capacity report of a pool (\<open>internal/service/capacity.go\<close>): the interval union that counts the
  aligned blocks an occupied set touches, on the 64-bit integers of the source, and the handler that
  collects the occupied set from the pool's exclusions, the inventory, the newest observation and
  the ledger.

  \<open>occupiedBlocks\<close> is proved equal to a count of blocks (a cardinality), and the report is
  compared with the allocator: a complete report says that nothing is allocatable exactly when
  \<open>chooseCIDR\<close> finds nothing, except for the holds of other domains, which only the allocator heeds.
\<close>

section \<open>Counting blocks\<close>

record blockInterval =
  bi_first :: "64 word"
  bi_last :: "64 word"

text \<open>\<open>uint64(1) << uint(n)\<close> and \<open>x >> uint(n)\<close>: a negative count is a huge one and leaves 0.\<close>

definition one_shl :: "int \<Rightarrow> 64 word" where
  "one_shl n = (if n < 0 then 0 else push_bit (nat n) 1)"

definition shr :: "64 word \<Rightarrow> int \<Rightarrow> 64 word" where
  "shr x n = (if n < 0 then 0 else drop_bit (nat n) x)"

text \<open>The loop calls \<open>addrInt\<close> on IPv4 addresses only, where it does not panic.\<close>

definition block_range :: "64 word \<Rightarrow> 64 word \<Rightarrow> int \<Rightarrow> Prefix \<Rightarrow> blockInterval" where
  "block_range start stop bits p =
     (let lo0 = ucast (word4 (ip (Masked p)));
          hi0 = lo0 + one_shl (32 - int (pbits p)) - 1;
          lo = (if lo0 < start then start else lo0);
          hi = (if stop < hi0 then stop else hi0)
      in \<lparr>bi_first = shr (lo - start) (32 - bits), bi_last = shr (hi - start) (32 - bits)\<rparr>)"

fun absorb :: "blockInterval \<Rightarrow> blockInterval list \<Rightarrow> blockInterval \<times> blockInterval list" where
  "absorb r [] = (r, [])"
| "absorb r (x # xs) =
     (if bi_first x \<le> bi_last r + 1
      then absorb (if bi_last r < bi_last x then r\<lparr>bi_last := bi_last x\<rparr> else r) xs
      else (r, x # xs))"

lemma absorb_length: "length (snd (absorb r xs)) \<le> length xs"
  by (induction r xs rule: absorb.induct) (auto simp: le_Suc_eq)

function sum_ranges :: "blockInterval list \<Rightarrow> 64 word \<Rightarrow> 64 word" where
  "sum_ranges [] acc = acc"
| "sum_ranges (x # xs) acc =
     (let (r, rest) = absorb x xs in sum_ranges rest (acc + (bi_last r - bi_first r + 1)))"
  by pat_completeness auto
termination
  by (relation "measure (\<lambda>(xs, acc). length xs)")
    (simp_all, metis absorb_length le_imp_less_Suc snd_conv)

definition occupied_ranges :: "64 word \<Rightarrow> Prefix \<Rightarrow> int \<Rightarrow> Prefix list \<Rightarrow> blockInterval list" where
  "occupied_ranges start base bits prefixes =
     (let stop = start + one_shl (32 - int (pbits base)) - 1
      in map (block_range start stop bits) (filter (\<lambda>p. Is4 (ip p) \<and> Overlaps base p) prefixes))"

text \<open>\<open>None\<close> is the panic of \<open>As4\<close> on a pool that has no IPv4 form.\<close>

definition occupiedBlocks :: "Prefix \<Rightarrow> int \<Rightarrow> Prefix list \<Rightarrow> 64 word option" where
  "occupiedBlocks base bits prefixes =
     map_option (\<lambda>start. sum_ranges (sort_key bi_first (occupied_ranges start base bits prefixes)) 0)
       (addrInt (ip base))"

section \<open>The report\<close>

record Tally =
  ta_occupied :: "Prefix list"
  ta_categories :: "Prefix list gomap"
  ta_complete :: bool

record CapacityReport =
  cp_pool_id :: string
  cp_observed_at :: time
  cp_complete :: bool
  cp_by_prefix_length :: "64 word gomap gomap"

definition capacity_pool :: "Config \<Rightarrow> Principal \<Rightarrow> string \<Rightarrow> Pool option" where
  "capacity_pool cfg p poolID =
     last_opt (filter (\<lambda>c. pl_ID c = poolID \<and>
         (IsOperator p \<or>
          eligibleString (pl_EligibleTenants c) (p_TenantID p) \<and>
          eligibleString (p_Environments p) (pl_Environment c) \<and>
          eligibleString (p_Regions p) (pl_Region c) \<and>
          list_ex (eligibleString (pl_EligibleAccounts c)) (p_Accounts p)))
       (c_Pools cfg))"

definition tally_add :: "string \<Rightarrow> string \<Rightarrow> Tally \<Rightarrow> Tally" where
  "tally_add category raw t =
     (case ParsePrefix raw of
        None \<Rightarrow> t\<lparr>ta_complete := False\<rparr>
      | Some q \<Rightarrow>
          if \<not> Is4 (ip q) then t\<lparr>ta_complete := False\<rparr>
          else
            let t1 = t\<lparr>ta_occupied := ta_occupied t @ [q]\<rparr>
            in if category = [] then t1
               else t1\<lparr>ta_categories :=
                      mput category (mget0 [] (ta_categories t1) category @ [q]) (ta_categories t1)\<rparr>)"

definition empty_tally :: "bool \<Rightarrow> Tally" where
  "empty_tally complete =
     \<lparr>ta_occupied = [],
      ta_categories = [(''reserved'', []), (''active'', []), (''quarantined'', []), (''pending'', []),
        (''excluded'', [])],
      ta_complete = complete\<rparr>"

definition tally_static :: "Pool \<Rightarrow> InventorySnapshot \<Rightarrow> Tally \<Rightarrow> Tally" where
  "tally_static pool snap t =
     fold (tally_add []) (map n_CIDR (filter (\<lambda>n. \<not> n_ParentPool n) (sn_Networks snap)))
       (fold (tally_add ''excluded'') (pl_ExcludedCIDRs pool) t)"

definition tally_observation :: "Config \<Rightarrow> Domain \<Rightarrow> time \<Rightarrow> State \<Rightarrow> Tally \<Rightarrow> Tally" where
  "tally_observation cfg d now st t =
     (case last_opt (observations_at st (d_ID d)) of
        None \<Rightarrow> t\<lparr>ta_complete := False\<rparr>
      | Some ob \<Rightarrow>
          let t1 = (if \<not> trustedObservation ob d now (lc_MaxObservationAge (c_Lifecycle cfg))
                    then t\<lparr>ta_complete := False\<rparr> else t)
          in fold (tally_add []) (concat (map (\<lambda>x. x_CIDR x # x_CIDRs x) (ob_Resources ob))) t1)"

definition capacity_category :: "Principal \<Rightarrow> Allocation \<Rightarrow> string" where
  "capacity_category p a =
     (if (IsOperator p \<or> a_TenantID a = p_TenantID p) \<and> a_Scope a = ''vpc'' then
        if \<not> a_Committed a then ''pending''
        else case a_State a of Reserved \<Rightarrow> ''reserved'' | Active \<Rightarrow> ''active''
             | Quarantined \<Rightarrow> ''quarantined'' | _ \<Rightarrow> []
      else [])"

definition tally_allocations :: "Principal \<Rightarrow> Domain \<Rightarrow> State \<Rightarrow> Tally \<Rightarrow> Tally" where
  "tally_allocations p d st t =
     fold (\<lambda>a. tally_add (capacity_category p a) (a_CIDR a))
       (filter (\<lambda>a. a_DomainID a = d_ID d \<and> a_State a \<noteq> Released) (mvals (Allocations st))) t"

definition capacity_tally ::
  "Config \<Rightarrow> Principal \<Rightarrow> Pool \<Rightarrow> time \<Rightarrow> bool \<Rightarrow> InventorySnapshot \<Rightarrow> State \<Rightarrow> Tally" where
  "capacity_tally cfg p pool now complete snap st =
     (let d = domainFor cfg (pl_DomainID pool);
          t1 = tally_static pool snap (empty_tally complete);
          t2 = tally_observation cfg d now st t1;
          t3 = (if pendingDomain st (d_ID d) \<noteq> None then t2\<lparr>ta_complete := False\<rparr> else t2)
      in tally_allocations p d st t3)"

definition capacity_observed_at :: "Domain \<Rightarrow> time \<Rightarrow> State \<Rightarrow> time" where
  "capacity_observed_at d now st =
     (case last_opt (observations_at st (d_ID d)) of
        None \<Rightarrow> now
      | Some ob \<Rightarrow> if \<not> IsZero (ob_FinishedAt ob) then ob_FinishedAt ob else now)"

definition size_counts :: "Prefix \<Rightarrow> Tally \<Rightarrow> int \<Rightarrow> 64 word gomap option" where
  "size_counts base t bits =
     (case those (map (\<lambda>(c, ps). map_option (Pair c) (occupiedBlocks base bits ps)) (ta_categories t)) of
        None \<Rightarrow> None
      | Some counts \<Rightarrow>
          if \<not> ta_complete t then Some (mput ''allocatable'' 0 counts)
          else map_option (\<lambda>n. mput ''allocatable'' (one_shl (bits - int (pbits base)) - n) counts)
                 (occupiedBlocks base bits (ta_occupied t)))"

fun by_size :: "Prefix \<Rightarrow> Tally \<Rightarrow> int list \<Rightarrow> 64 word gomap gomap \<Rightarrow> 64 word gomap gomap option" where
  "by_size base t [] acc = Some acc"
| "by_size base t (bits # rest) acc =
     (if bits < int (pbits base) \<or> 32 < bits then by_size base t rest acc
      else case size_counts base t bits of
             None \<Rightarrow> None
           | Some counts \<Rightarrow> by_size base t rest (mput (dec (nat bits)) counts acc))"

definition capacity_snapshot :: "Env \<Rightarrow> Domain \<Rightarrow> InventorySnapshot \<times> bool" where
  "capacity_snapshot E d =
     (case v_inventory E of
        None \<Rightarrow> (\<lparr>sn_Networks = [], sn_Complete = False\<rparr>, False)
      | Some iv \<Rightarrow>
          (case inv_Snapshot iv 0 d of
             Inl e \<Rightarrow> (\<lparr>sn_Networks = [], sn_Complete = False\<rparr>, False)
           | Inr snap \<Rightarrow> (snap, sn_Complete snap)))"

definition capacity ::
  "Env \<Rightarrow> Principal \<Rightarrow> string \<Rightarrow> State \<Rightarrow> State \<times> (goerr + CapacityReport)" where
  "capacity E p poolID st =
     (case capacity_pool (v_cfg E) p poolID of
        None \<Rightarrow> (st, Inl (apiErr 404 ''not_found'' ''pool not found''))
      | Some pool \<Rightarrow>
          let d = domainFor (v_cfg E) (pl_DomainID pool)
          in case ParsePrefix (pl_CIDR pool) of
               None \<Rightarrow> (st, Inl (apiErr 503 ''dependency_unavailable'' ''pool configuration is unavailable''))
             | Some base \<Rightarrow>
                 let now = v_now E 0; (snap, complete) = capacity_snapshot E d
                 in (case view E 0 (\<lambda>s. Inr (capacity_tally (v_cfg E) p pool now complete snap s,
                                       capacity_observed_at d now s)) st of
                       (st', Inl e) \<Rightarrow> (st', Inl e)
                     | (st', Inr (t, observedAt)) \<Rightarrow>
                         (case by_size base t (pl_AllowedPrefixLengths pool) [] of
                            None \<Rightarrow> (st', Inl (Panic ''As4 called on IPv6 address''))
                          | Some bs \<Rightarrow> (st', Inr \<lparr>cp_pool_id = pl_ID pool, cp_observed_at = observedAt,
                              cp_complete = ta_complete t, cp_by_prefix_length = bs\<rparr>))))"


section \<open>The interval union counts its points\<close>

definition points :: "blockInterval \<Rightarrow> 64 word set" where
  "points r = {bi_first r .. bi_last r}"

definition good_range :: "blockInterval \<Rightarrow> bool" where
  "good_range r \<longleftrightarrow> bi_first r \<le> bi_last r \<and> unat (bi_last r) < 2 ^ 33"

lemma unat_suc: "unat x < 2 ^ 33 \<Longrightarrow> unat (x + 1 :: 64 word) = unat x + 1"
  by (simp add: unat_word_ariths)

lemma image_unat_interval: "unat ` {a .. b} = {unat a .. unat (b :: 64 word)}"
proof
  show "{unat a .. unat b} \<subseteq> unat ` {a .. b}"
  proof
    fix n assume n: "n \<in> {unat a .. unat b}"
    have "unat b < 2 ^ LENGTH(64)" by (rule unsigned_less)
    then have "n < 2 ^ LENGTH(64)" using n by (simp only: atLeastAtMost_iff) linarith
    then have "unat (of_nat n :: 64 word) = n" by (simp add: unat_of_nat take_bit_nat_eq_self)
    then show "n \<in> unat ` {a .. b}" using n
      by (intro image_eqI [of _ _ "of_nat n"]) (auto simp: word_le_nat_alt)
  qed
qed (auto simp: word_le_nat_alt)

lemma card_points: "bi_first r \<le> bi_last r \<Longrightarrow> card (points r) = unat (bi_last r) - unat (bi_first r) + 1"
proof -
  assume "bi_first r \<le> bi_last r"
  then have "unat (bi_first r) \<le> unat (bi_last r)" by (simp add: word_le_nat_alt)
  moreover have "card (points r) = card (unat ` points r)"
    by (rule card_image [symmetric]) (auto simp: inj_on_def word_unat_eq_iff)
  ultimately show ?thesis by (simp add: points_def image_unat_interval)
qed

lemma unat_width:
  assumes "good_range r"
  shows "unat (bi_last r - bi_first r + 1) = card (points r)"
proof -
  have le: "bi_first r \<le> bi_last r" "unat (bi_last r) < 2 ^ 33" using assms by (auto simp: good_range_def)
  then have "unat (bi_last r - bi_first r) = unat (bi_last r) - unat (bi_first r)"
    by (simp add: unat_sub_if' word_le_nat_alt)
  then show ?thesis using le card_points [OF le(1)] unat_suc [of "bi_last r - bi_first r"] by simp
qed

definition stretch :: "blockInterval \<Rightarrow> blockInterval \<Rightarrow> blockInterval" where
  "stretch r x = (if bi_last r < bi_last x then r\<lparr>bi_last := bi_last x\<rparr> else r)"

lemma stretch_points:
  assumes "good_range r" "good_range x" "bi_first r \<le> bi_first x" "bi_first x \<le> bi_last r + 1"
  shows "points (stretch r x) = points r \<union> points x" "good_range (stretch r x)"
    "bi_first (stretch r x) = bi_first r"
proof -
  have "unat (bi_last r + 1) = unat (bi_last r) + 1"
    using assms(1) by (intro unat_suc) (simp add: good_range_def)
  then show "points (stretch r x) = points r \<union> points x" "good_range (stretch r x)"
    using assms by (auto simp: stretch_def points_def good_range_def word_le_nat_alt word_less_nat_alt)
  show "bi_first (stretch r x) = bi_first r" by (simp add: stretch_def)
qed

definition spread :: "blockInterval list \<Rightarrow> 64 word set" where
  "spread xs = \<Union> (points ` set xs)"

lemma absorb_spec:
  assumes "good_range r" "\<forall>x \<in> set xs. good_range x" "sorted (map bi_first (r # xs))"
    and "absorb r xs = (r', rest)"
  shows "good_range r' \<and> bi_first r' = bi_first r \<and> points r' \<union> spread rest = points r \<union> spread xs \<and>
    set rest \<subseteq> set xs \<and> sorted (map bi_first rest) \<and> (\<forall>x \<in> set rest. bi_last r' + 1 < bi_first x)"
  using assms
proof (induction r xs rule: absorb.induct)
  case (1 r)
  then show ?case by (auto simp: spread_def)
next
  case (2 r x xs)
  show ?case
  proof (cases "bi_first x \<le> bi_last r + 1")
    case True
    note st = stretch_points [of r x]
    have "absorb (stretch r x) xs = (r', rest)" using 2(5) True by (simp add: stretch_def)
    moreover have "sorted (map bi_first (stretch r x # xs))" using 2(2-4) True st(3) by auto
    ultimately show ?thesis
      using 2(1) [OF True, folded stretch_def] 2(2-4) True st by (auto simp: spread_def)
  next
    case False
    then show ?thesis using 2(2-5) by fastforce
  qed
qed

lemma sum_ranges_card:
  assumes "\<forall>x \<in> set xs. good_range x" and "sorted (map bi_first xs)"
    and "unat acc + card (spread xs) < 2 ^ 64"
  shows "unat (sum_ranges xs acc) = unat acc + card (spread xs)"
  using assms
proof (induction xs acc rule: sum_ranges.induct)
  case (1 acc)
  then show ?case by (simp add: spread_def)
next
  case (2 x xs acc)
  obtain r rest where ab: "absorb x xs = (r, rest)" by fastforce
  note s = absorb_spec [OF _ _ 2(3) ab]
  have g: "good_range r" and sub: "set rest \<subseteq> set xs" and so: "sorted (map bi_first rest)"
    and u: "points r \<union> spread rest = points x \<union> spread xs"
    and gap: "\<forall>y \<in> set rest. bi_last r + 1 < bi_first y"
    using s 2(2) by auto
  have "y \<notin> points r" if "z \<in> set rest" "y \<in> points z" for y z
    using gap that g unat_suc [of "bi_last r"]
    by (auto simp: points_def good_range_def word_le_nat_alt word_less_nat_alt)
  then have "points r \<inter> spread rest = {}" by (auto simp: spread_def)
  then have c: "card (spread (x # xs)) = card (points r) + card (spread rest)"
    using u card_Un_disjoint [of "points r" "spread rest"] finite [of "points r"] finite [of "spread rest"]
    by (simp add: spread_def)
  have a: "unat (acc + (bi_last r - bi_first r + 1)) = unat acc + card (points r)"
    using 2(4) c unat_width [OF g] by (simp add: unat_word_ariths)
  have "unat (sum_ranges rest (acc + (bi_last r - bi_first r + 1))) =
      unat (acc + (bi_last r - bi_first r + 1)) + card (spread rest)"
    using 2(1) [OF ab [symmetric] refl] 2(2,4) sub so a c by auto
  then show ?case using a c by (simp add: ab)
qed


section \<open>A range is the set of blocks that meet a prefix\<close>

lemma unat_one_shl: "pbits p \<le> 32 \<Longrightarrow> unat (one_shl (32 - int (pbits p))) = size4 p"
proof -
  assume b: "pbits p \<le> 32"
  then have "one_shl (32 - int (pbits p)) = push_bit (32 - pbits p) 1"
    by (simp add: one_shl_def nat_diff_distrib)
  moreover have "(2 :: nat) ^ (32 - pbits p) < 2 ^ 64" by (intro power_strict_increasing) auto
  ultimately show ?thesis using unat_push [of "1 :: 64 word" "32 - pbits p"] by (simp add: size4_def)
qed

lemma unat_last:
  fixes w :: "64 word"
  assumes "unat w = lo4 p" "valid_prefix p" "Is4 (ip p)"
  shows "unat (w + one_shl (32 - int (pbits p)) - 1) = hi4 p"
proof -
  have b: "pbits p \<le> 32" using assms(2,3) by (auto simp: valid_prefix_def BitLen_def Is4_V4)
  have h: "lo4 p + size4 p = hi4 p + 1" "hi4 p < 2 ^ 32"
    using size4_pos [of p] hi4_less [OF assms(2,3)] by (simp_all add: hi4_def)
  then have "unat (w + one_shl (32 - int (pbits p))) = hi4 p + 1"
    using assms(1) unat_one_shl [OF b] by (simp add: unat_word_ariths)
  then show ?thesis by (simp add: unat_sub_if')
qed

text \<open>The block numbers a range of addresses falls into, and the blocks it meets.\<close>

lemma blocks_met:
  fixes S lo hi m i :: nat
  assumes "S \<le> lo" "lo \<le> hi" "0 < m"
  shows "(lo - S) div m \<le> i \<and> i \<le> (hi - S) div m \<longleftrightarrow> S + i * m \<le> hi \<and> lo \<le> S + i * m + (m - 1)"
proof -
  have "(lo - S) div m \<le> i \<longleftrightarrow> lo - S < (i + 1) * m"
    using assms(3) by (metis Suc_eq_plus1 div_less_iff_less_mult less_Suc_eq_le)
  moreover have "i \<le> (hi - S) div m \<longleftrightarrow> i * m \<le> hi - S"
    using assms(3) by (simp add: less_eq_div_iff_mult_less_eq)
  ultimately show ?thesis using assms by (auto simp: algebra_simps)
qed


lemma start_lo4:
  assumes ab: "aligned_base base start n"
  shows "unat start = lo4 base"
proof -
  obtain w where "ip base = V4 w" "start = ucast w"
    using aligned_baseD(1,5) [OF ab] by (auto simp: Is4_V4)
  then show ?thesis
    using word4_Masked [OF aligned_baseD(1) [OF ab]] aligned_baseD(2) [OF ab]
    by (simp add: unat_ucast_up lo4_def)
qed

lemma aligned_valid: "aligned_base base start n \<Longrightarrow> valid_prefix base"
  by (auto simp: aligned_base_def valid_prefix_def BitLen_def Is4_V4)

lemma block_range_bounds:
  assumes ab: "aligned_base base start n" and p: "valid_prefix p" "Is4 (ip p)"
    and ov: "Overlaps base p" and stop: "stop = start + one_shl (32 - int (pbits base)) - 1"
  defines "r \<equiv> block_range start stop (int n) p" and "m \<equiv> 2 ^ (32 - n)"
  shows "unat (bi_first r) = (max (lo4 base) (lo4 p) - lo4 base) div m"
    and "unat (bi_last r) = (min (hi4 base) (hi4 p) - lo4 base) div m"
    and "max (lo4 base) (lo4 p) \<le> min (hi4 base) (hi4 p)"
proof -
  let ?lo = "ucast (word4 (ip (Masked p))) :: 64 word"
  note s = start_lo4 [OF ab] and v = aligned_valid [OF ab] and b4 = aligned_baseD(1) [OF ab]
  have n: "nat (32 - int n) = 32 - n" "\<not> 32 - int n < 0" using aligned_baseD(4) [OF ab] by auto
  have lo: "unat ?lo = lo4 p" using word4_Masked [OF p(2)] by (simp add: unat_ucast_up lo4_def)
  have hi: "unat (?lo + one_shl (32 - int (pbits p)) - 1) = hi4 p" by (rule unat_last [OF lo p])
  have st: "unat stop = hi4 base" unfolding stop by (rule unat_last [OF s v b4])
  have o: "lo4 base \<le> hi4 p" "lo4 p \<le> hi4 base" using ov Overlaps_ranges [OF v p(1) b4 p(2)] by auto
  then show "max (lo4 base) (lo4 p) \<le> min (hi4 base) (hi4 p)" using lo4_le_hi4 by simp
  show "unat (bi_first r) = (max (lo4 base) (lo4 p) - lo4 base) div m"
    using lo s n by (auto simp: r_def block_range_def Let_def shr_def unat_drop unat_sub_if' m_def
        word_less_nat_alt max_def)
  show "unat (bi_last r) = (min (hi4 base) (hi4 p) - lo4 base) div m"
    using hi st s n o lo4_le_hi4 [of base] unfolding r_def block_range_def Let_def
    by (auto simp: shr_def unat_drop unat_sub_if' m_def word_less_nat_alt min_def)
qed

lemma candidate_range:
  assumes ab: "aligned_base base start n" and i: "i < 2 ^ (n - pbits base)"
    and c: "candidate_at start (int n) i = Some q"
  shows "lo4 q = lo4 base + i * 2 ^ (32 - n)" "hi4 q = lo4 base + i * 2 ^ (32 - n) + (2 ^ (32 - n) - 1)"
    "hi4 q \<le> hi4 base" "valid_prefix q" "Is4 (ip q)"
proof -
  have q: "Is4 (ip q)" "pbits q = n" "block4 q = block4 base * 2 ^ (n - pbits base) + i"
    using candidate [OF ab i] c by auto
  then have sz: "size4 q = 2 ^ (32 - n)" by (simp add: size4_def)
  show l: "lo4 q = lo4 base + i * 2 ^ (32 - n)"
    unfolding lo4_def sz q(3) size_split [OF ab] by (simp add: algebra_simps)
  show h: "hi4 q = lo4 base + i * 2 ^ (32 - n) + (2 ^ (32 - n) - 1)"
    unfolding hi4_def l sz ..
  have "i * 2 ^ (32 - n) + 2 ^ (32 - n) \<le> (2 ^ (n - pbits base)) * (2 ^ (32 - n) :: nat)"
    using i mult_right_mono [of "Suc i" "2 ^ (n - pbits base)" "2 ^ (32 - n)"] by simp
  moreover have "(1 :: nat) \<le> 2 ^ (32 - n)" by simp
  ultimately show "hi4 q \<le> hi4 base"
    unfolding h unfolding hi4_def size_split [OF ab] by linarith
  show "Is4 (ip q)" by (rule q(1))
  then show "valid_prefix q"
    using q(2) aligned_baseD(4) [OF ab] by (auto simp: valid_prefix_def BitLen_def Is4_V4)
qed

lemma block_range_points:
  assumes ab: "aligned_base base start n" and p: "valid_prefix p" "Is4 (ip p)"
    and ov: "Overlaps base p" and stop: "stop = start + one_shl (32 - int (pbits base)) - 1"
    and c: "candidate_at start (int n) i = Some q" and i: "i < 2 ^ (n - pbits base)"
  shows "unat (bi_first (block_range start stop (int n) p)) \<le> i \<and>
     i \<le> unat (bi_last (block_range start stop (int n) p)) \<longleftrightarrow> Overlaps q p"
proof -
  note b = block_range_bounds [OF ab p ov stop] and r = candidate_range [OF ab i c]
  note o = Overlaps_ranges [OF r(4) p(1) r(5) p(2)]
  have m: "0 < (2 :: nat) ^ (32 - n)" by simp
  have "lo4 base \<le> max (lo4 base) (lo4 p)" by simp
  note met = blocks_met [OF this b(3) m, of i]
  have "max (lo4 base) (lo4 p) \<le> hi4 q \<longleftrightarrow> lo4 p \<le> hi4 q"
    using r(1) lo4_le_hi4 [of q] by linarith
  moreover have "lo4 q \<le> min (hi4 base) (hi4 p) \<longleftrightarrow> lo4 q \<le> hi4 p"
    using r(3) lo4_le_hi4 [of q] by linarith
  ultimately show ?thesis unfolding b(1,2) met o r(2) [symmetric] unfolding r(1) [symmetric] by blast
qed

lemma block_range_good:
  assumes ab: "aligned_base base start n" and p: "valid_prefix p" "Is4 (ip p)"
    and ov: "Overlaps base p" and stop: "stop = start + one_shl (32 - int (pbits base)) - 1"
  shows "good_range (block_range start stop (int n) p)"
    "unat (bi_last (block_range start stop (int n) p)) < 2 ^ (n - pbits base)"
proof -
  note b = block_range_bounds [OF ab p ov stop]
  have "unat (bi_first (block_range start stop (int n) p)) \<le> unat (bi_last (block_range start stop (int n) p))"
    unfolding b(1,2) using b(3) by (intro div_le_mono diff_le_mono)
  moreover have "min (hi4 base) (hi4 p) - lo4 base < 2 ^ (n - pbits base) * 2 ^ (32 - n)"
    using size4_pos [of base] unfolding hi4_def size_split [OF ab, symmetric] by linarith
  then show l: "unat (bi_last (block_range start stop (int n) p)) < 2 ^ (n - pbits base)"
    unfolding b(2) by (rule less_mult_imp_div_less)
  moreover have "(2 :: nat) ^ (n - pbits base) \<le> 2 ^ 33"
    using aligned_baseD(4) [OF ab] by (intro power_increasing) auto
  ultimately show "good_range (block_range start stop (int n) p)"
    by (simp add: good_range_def word_le_nat_alt)
qed


section \<open>What is counted\<close>

text \<open>The aligned blocks of length \<open>n\<close> inside a pool, and those of them that meet an occupied prefix.\<close>

definition pool_blocks :: "Prefix \<Rightarrow> nat \<Rightarrow> Prefix set" where
  "pool_blocks base n = {q. Is4 (ip q) \<and> pbits q = n \<and> Masked q = q \<and> addrs q \<subseteq> addrs base}"

definition met_blocks :: "Prefix \<Rightarrow> nat \<Rightarrow> Prefix list \<Rightarrow> Prefix set" where
  "met_blocks base n ps = {q \<in> pool_blocks base n. \<exists>p \<in> set ps. Is4 (ip p) \<and> Overlaps q p}"

lemma candidate_inj:
  assumes ab: "aligned_base base start n" and "i < 2 ^ (n - pbits base)" "j < 2 ^ (n - pbits base)"
    and "candidate_at start (int n) i = candidate_at start (int n) j"
  shows "i = j"
  using candidate [OF ab assms(2)] candidate [OF ab assms(3)] assms(4) by auto

lemma pool_blocks_image:
  assumes ab: "aligned_base base start n"
  shows "Some ` pool_blocks base n = candidate_at start (int n) ` {..<2 ^ (n - pbits base)}"
proof
  show "Some ` pool_blocks base n \<subseteq> candidate_at start (int n) ` {..<2 ^ (n - pbits base)}"
    using candidate_complete [OF ab] by (force simp: pool_blocks_def)
  show "candidate_at start (int n) ` {..<2 ^ (n - pbits base)} \<subseteq> Some ` pool_blocks base n"
  proof
    fix x assume "x \<in> candidate_at start (int n) ` {..<2 ^ (n - pbits base)}"
    then obtain i where i: "i < 2 ^ (n - pbits base)" "x = candidate_at start (int n) i" by auto
    then obtain q where "x = Some q" using candidate [OF ab i(1)] by auto
    then show "x \<in> Some ` pool_blocks base n"
      using candidate_inside [OF ab i(1), of q] i(2) by (auto simp: pool_blocks_def)
  qed
qed

lemma card_pool_blocks:
  assumes ab: "aligned_base base start n"
  shows "card (pool_blocks base n) = 2 ^ (n - pbits base)" "finite (pool_blocks base n)"
proof -
  have inj: "inj_on (candidate_at start (int n)) {..<2 ^ (n - pbits base)}"
    using candidate_inj [OF ab] by (auto simp: inj_on_def)
  have "card (Some ` pool_blocks base n) = card (pool_blocks base n)" by (simp add: card_image)
  then show "card (pool_blocks base n) = 2 ^ (n - pbits base)"
    unfolding pool_blocks_image [OF ab] by (simp add: card_image [OF inj])
  have "finite (Some ` pool_blocks base n)" unfolding pool_blocks_image [OF ab] by simp
  then show "finite (pool_blocks base n)" by (simp add: finite_image_iff)
qed

lemma range_index:
  assumes ab: "aligned_base base start n" and p: "valid_prefix p" "Is4 (ip p)" "Overlaps base p"
    and stop: "stop = start + one_shl (32 - int (pbits base)) - 1"
  shows "i \<in> points (block_range start stop (int n) p) \<longleftrightarrow> unat i < 2 ^ (n - pbits base) \<and>
    (\<exists>q. candidate_at start (int n) (unat i) = Some q \<and> Overlaps q p)"
proof -
  have "unat i < 2 ^ (n - pbits base)" if "i \<in> points (block_range start stop (int n) p)"
    using that block_range_good(2) [OF ab p stop] by (auto simp: points_def word_le_nat_alt)
  then show ?thesis
    using candidate [OF ab, of "unat i"] block_range_points [OF ab p stop, of "unat i"]
    by (auto simp: points_def word_le_nat_alt)
qed

lemma pool_block_index:
  assumes ab: "aligned_base base start n" and "q \<in> pool_blocks base n"
  obtains i :: "64 word" where "unat i < 2 ^ (n - pbits base)" "candidate_at start (int n) (unat i) = Some q"
proof -
  obtain i where i: "i < 2 ^ (n - pbits base)" "candidate_at start (int n) i = Some q"
    using candidate_complete [OF ab] assms(2) by (auto simp: pool_blocks_def)
  moreover have "i < 2 ^ 64"
    using i(1) power_increasing [of "n - pbits base" 64 "2::nat"] aligned_baseD(4) [OF ab] by linarith
  then have "unat (of_nat i :: 64 word) = i" by (simp add: unat_of_nat take_bit_nat_eq_self)
  ultimately show thesis using that [of "of_nat i"] by simp
qed

lemma pool_block_overlap:
  assumes ab: "aligned_base base start n" and "q \<in> pool_blocks base n" "valid_prefix p" "Overlaps q p"
  shows "Overlaps base p"
proof -
  have "valid_prefix q"
    using assms(2) aligned_baseD(4) [OF ab] by (auto simp: pool_blocks_def valid_prefix_def BitLen_def Is4_V4)
  then show ?thesis
    using assms aligned_valid [OF ab] ipspace.overlaps_mono [of q p base] by (auto simp: pool_blocks_def)
qed

lemma met_indices:
  assumes ab: "aligned_base base start n" and ps: "\<forall>p \<in> set ps. valid_prefix p"
  shows "spread (occupied_ranges start base (int n) ps) =
    {i. unat i < 2 ^ (n - pbits base) \<and> candidate_at start (int n) (unat i) \<in> Some ` met_blocks base n ps}"
proof -
  define stop where "stop = start + one_shl (32 - int (pbits base)) - 1"
  have "spread (occupied_ranges start base (int n) ps) =
      \<Union> (points ` block_range start stop (int n) ` {p \<in> set ps. Is4 (ip p) \<and> Overlaps base p})"
    by (simp add: spread_def occupied_ranges_def stop_def Let_def)
  also have "\<dots> = {i. unat i < 2 ^ (n - pbits base) \<and> (\<exists>p \<in> set ps. Is4 (ip p) \<and> Overlaps base p \<and>
      (\<exists>q. candidate_at start (int n) (unat i) = Some q \<and> Overlaps q p))}"
    using range_index [OF ab _ _ _ stop_def] ps by auto
  also have "\<dots> = {i. unat i < 2 ^ (n - pbits base) \<and>
      candidate_at start (int n) (unat i) \<in> Some ` met_blocks base n ps}"
  proof (intro Collect_cong conj_cong refl)
    fix i :: "64 word" assume i: "unat i < 2 ^ (n - pbits base)"
    then obtain q where q: "candidate_at start (int n) (unat i) = Some q" using candidate [OF ab] by blast
    then have "q \<in> pool_blocks base n"
      using candidate_inside [OF ab i] by (simp add: pool_blocks_def)
    then show "(\<exists>p \<in> set ps. Is4 (ip p) \<and> Overlaps base p \<and>
        (\<exists>q. candidate_at start (int n) (unat i) = Some q \<and> Overlaps q p)) \<longleftrightarrow>
        candidate_at start (int n) (unat i) \<in> Some ` met_blocks base n ps"
      using q ps pool_block_overlap [OF ab] by (auto simp: met_blocks_def)
  qed
  finally show ?thesis .
qed

lemma card_met_blocks:
  assumes ab: "aligned_base base start n" and ps: "\<forall>p \<in> set ps. valid_prefix p"
  shows "card (spread (occupied_ranges start base (int n) ps)) = card (met_blocks base n ps)"
proof -
  let ?I = "spread (occupied_ranges start base (int n) ps)"
  let ?c = "\<lambda>i :: 64 word. candidate_at start (int n) (unat i)"
  have "inj_on ?c ?I"
    using candidate_inj [OF ab] by (auto simp: inj_on_def met_indices [OF ab ps] word_unat_eq_iff)
  then have "card (?c ` ?I) = card ?I" by (rule card_image)
  moreover have "?c ` ?I = Some ` met_blocks base n ps"
  proof
    show "Some ` met_blocks base n ps \<subseteq> ?c ` ?I"
    proof
      fix x assume x: "x \<in> Some ` met_blocks base n ps"
      then obtain q where q: "x = Some q" "q \<in> pool_blocks base n" by (auto simp: met_blocks_def)
      obtain i where "unat i < 2 ^ (n - pbits base)" "?c i = Some q" using pool_block_index [OF ab q(2)] .
      then show "x \<in> ?c ` ?I" using x q(1) by (intro image_eqI [of _ _ i]) (auto simp: met_indices [OF ab ps])
    qed
  qed (auto simp: met_indices [OF ab ps])
  ultimately show ?thesis by (simp add: card_image)
qed

lemma occupiedBlocks_card:
  assumes "valid_prefix base" "Is4 (ip base)" "Masked base = base" "int (pbits base) \<le> bits" "bits \<le> 32"
    and ps: "\<forall>p \<in> set ps. valid_prefix p"
  shows "\<exists>w. occupiedBlocks base bits ps = Some w \<and> unat w = card (met_blocks base (nat bits) ps)"
proof -
  obtain start where start: "addrInt (ip base) = Some start" using assms(2) by (auto simp: Is4_V4)
  define n where "n = nat bits"
  have n: "bits = int n" using assms(4) by (simp add: n_def)
  have ab: "aligned_base base start n" using assms start n by (simp add: aligned_base_def)
  let ?rs = "sort_key bi_first (occupied_ranges start base (int n) ps)"
  have good: "\<forall>r \<in> set ?rs. good_range r"
    using block_range_good(1) [OF ab _ _ _ refl] ps by (auto simp: occupied_ranges_def)
  have sp: "spread ?rs = spread (occupied_ranges start base (int n) ps)" by (simp add: spread_def)
  have "card (met_blocks base n ps) \<le> card (pool_blocks base n)"
    using card_pool_blocks(2) [OF ab] by (intro card_mono) (auto simp: met_blocks_def)
  moreover have "(2 :: nat) ^ (n - pbits base) \<le> 2 ^ 32"
    using aligned_baseD(4) [OF ab] by (intro power_increasing) auto
  ultimately have "card (met_blocks base n ps) < 2 ^ 64"
    using card_pool_blocks(1) [OF ab] by simp
  then have "unat (sum_ranges ?rs 0) = card (met_blocks base n ps)"
    using sum_ranges_card [OF good, of 0] card_met_blocks [OF ab ps] sp by simp
  then show ?thesis using start by (simp add: occupiedBlocks_def n)
qed


section \<open>The occupied set and the allocator\<close>

definition parse4 :: "string \<Rightarrow> Prefix option" where
  "parse4 raw =
     (case ParsePrefix raw of None \<Rightarrow> None | Some q \<Rightarrow> if Is4 (ip q) then Some q else None)"

lemma tally_add_simps [simp]:
  "set (ta_occupied (tally_add c raw t)) = set (ta_occupied t) \<union> set_option (parse4 raw)"
  "ta_complete (tally_add c raw t) \<longleftrightarrow> ta_complete t \<and> parse4 raw \<noteq> None"
  by (auto simp: tally_add_def parse4_def Let_def split: option.splits)

definition parsed :: "string set \<Rightarrow> Prefix set" where
  "parsed R = {q. \<exists>raw \<in> R. parse4 raw = Some q}"

lemma parsed_simps [simp]: "parsed {} = {}" "parsed (A \<union> B) = parsed A \<union> parsed B"
  "parsed (insert raw A) = set_option (parse4 raw) \<union> parsed A"
  by (auto simp: parsed_def)

definition parse_all :: "string set \<Rightarrow> bool" where
  "parse_all R \<longleftrightarrow> (\<forall>raw \<in> R. parse4 raw \<noteq> None)"

lemma parse_all_simps [simp]: "parse_all {}" "parse_all (A \<union> B) \<longleftrightarrow> parse_all A \<and> parse_all B"
  "parse_all (insert raw A) \<longleftrightarrow> parse4 raw \<noteq> None \<and> parse_all A"
  by (auto simp: parse_all_def)

lemma fold_tally_add:
  "set (ta_occupied (fold (\<lambda>x. tally_add (c x) (raw x)) xs t)) = set (ta_occupied t) \<union> parsed (raw ` set xs)"
  "ta_complete (fold (\<lambda>x. tally_add (c x) (raw x)) xs t) \<longleftrightarrow> ta_complete t \<and> parse_all (raw ` set xs)"
  by (induction xs arbitrary: t) auto

lemma fold_tally_add_raw:
  "set (ta_occupied (fold (tally_add c) xs t)) = set (ta_occupied t) \<union> parsed (set xs)"
  "ta_complete (fold (tally_add c) xs t) \<longleftrightarrow> ta_complete t \<and> parse_all (set xs)"
  using fold_tally_add [of "\<lambda>x. c" "\<lambda>x. x" xs t] by simp_all

definition static_raws :: "Pool \<Rightarrow> InventorySnapshot \<Rightarrow> string set" where
  "static_raws pool snap =
     set (pl_ExcludedCIDRs pool) \<union> n_CIDR ` {n \<in> set (sn_Networks snap). \<not> n_ParentPool n}"

definition observed_raws :: "Observation \<Rightarrow> string set" where
  "observed_raws ob = (\<Union>x \<in> set (ob_Resources ob). set (x_CIDR x # x_CIDRs x))"

definition ledger_raws :: "string \<Rightarrow> State \<Rightarrow> string set" where
  "ledger_raws d st = a_CIDR ` {a \<in> set (mvals (Allocations st)). a_DomainID a = d \<and> a_State a \<noteq> Released}"

definition occupied_raws :: "Pool \<Rightarrow> InventorySnapshot \<Rightarrow> Observation \<Rightarrow> State \<Rightarrow> string set" where
  "occupied_raws pool snap ob st =
     static_raws pool snap \<union> observed_raws ob \<union> ledger_raws (pl_DomainID pool) st"

lemma tally_static_simps [simp]:
  "set (ta_occupied (tally_static pool snap t)) = set (ta_occupied t) \<union> parsed (static_raws pool snap)"
  "ta_complete (tally_static pool snap t) \<longleftrightarrow> ta_complete t \<and> parse_all (static_raws pool snap)"
  by (simp_all add: tally_static_def static_raws_def fold_tally_add_raw Un_assoc conj_assoc)

lemma tally_allocations_simps [simp]:
  "set (ta_occupied (tally_allocations p d st t)) = set (ta_occupied t) \<union> parsed (ledger_raws (d_ID d) st)"
  "ta_complete (tally_allocations p d st t) \<longleftrightarrow> ta_complete t \<and> parse_all (ledger_raws (d_ID d) st)"
  by (simp_all add: tally_allocations_def ledger_raws_def fold_tally_add)

lemma tally_observation_Some:
  assumes "last_opt (observations_at st (d_ID d)) = Some ob"
  shows "set (ta_occupied (tally_observation cfg d now st t)) = set (ta_occupied t) \<union> parsed (observed_raws ob)"
    "ta_complete (tally_observation cfg d now st t) \<longleftrightarrow>
       ta_complete t \<and> trustedObservation ob d now (lc_MaxObservationAge (c_Lifecycle cfg)) \<and>
       parse_all (observed_raws ob)"
  using assms by (auto simp: tally_observation_def observed_raws_def fold_tally_add_raw Let_def)

lemma empty_tally_simps [simp]: "ta_occupied (empty_tally c) = []" "ta_complete (empty_tally c) = c"
  by (simp_all add: empty_tally_def)

lemma domainFor_ID [simp]: "d_ID (domainFor cfg i) = i"
  by (auto simp: domainFor_def find_Some_iff split: option.splits)

lemma capacity_tally_complete:
  assumes "ta_complete (capacity_tally cfg p pool now complete snap st)"
  obtains ob where "last_opt (observations_at st (pl_DomainID pool)) = Some ob"
    "trustedObservation ob (domainFor cfg (pl_DomainID pool)) now (lc_MaxObservationAge (c_Lifecycle cfg))"
    "pendingDomain st (pl_DomainID pool) = None" "complete"
    "parse_all (occupied_raws pool snap ob st)"
    "set (ta_occupied (capacity_tally cfg p pool now complete snap st)) = parsed (occupied_raws pool snap ob st)"
proof (cases "last_opt (observations_at st (pl_DomainID pool))")
  case None
  then show thesis using assms by (simp add: capacity_tally_def tally_observation_def Let_def split: if_splits)
next
  case (Some ob)
  note o = tally_observation_Some [of st "domainFor cfg (pl_DomainID pool)" ob cfg now, simplified, OF Some]
  show thesis
    using assms that [OF Some] o
    by (simp add: capacity_tally_def Let_def occupied_raws_def split: if_splits)
qed

lemma candidate_blocked_raws:
  assumes "r_Scope r \<noteq> ''subnet''" and all: "parse_all (occupied_raws pool snap ob st)"
    and holds: "\<forall>a \<in> set (mvals (Allocations st)).
      \<not> a_Committed a \<longrightarrow> a_DomainID a = pl_DomainID pool \<and> a_State a \<noteq> Released"
  shows "candidate_blocked pool r snap ob st q \<longleftrightarrow>
    (\<exists>p \<in> parsed (occupied_raws pool snap ob st). Overlaps q p)"
proof -
  let ?hit = "\<lambda>raw. case ParsePrefix raw of None \<Rightarrow> False | Some p \<Rightarrow> Overlaps q p"
  have hit: "(\<exists>raw \<in> R. ?hit raw) \<longleftrightarrow> (\<exists>p \<in> parsed R. Overlaps q p)" if "parse_all R" for R
    using that unfolding parse_all_def parsed_def
    by (fastforce simp: parse4_def split: option.splits if_splits)
  have "allocation_blocks (pl_DomainID pool) r q a \<longleftrightarrow>
      a_DomainID a = pl_DomainID pool \<and> a_State a \<noteq> Released \<and> ?hit (a_CIDR a)"
    if "a \<in> set (mvals (Allocations st))" for a
    using holds that assms(1) by (auto simp: allocation_blocks_def split: option.splits)
  then have "list_ex (allocation_blocks (pl_DomainID pool) r q) (mvals (Allocations st)) \<longleftrightarrow>
      (\<exists>raw \<in> ledger_raws (pl_DomainID pool) st. ?hit raw)"
    by (auto simp: list_ex_iff ledger_raws_def)
  moreover have "list_ex (network_blocks r q) (sn_Networks snap) \<or> overlapsExcluded q (pl_ExcludedCIDRs pool) \<longleftrightarrow>
      (\<exists>raw \<in> static_raws pool snap. ?hit raw)"
  proof -
    have "network_blocks r q n \<longleftrightarrow> \<not> n_ParentPool n \<and> ?hit (n_CIDR n)" for n
      using assms(1) by (auto simp: network_blocks_def split: option.splits)
    then show ?thesis by (auto simp: overlapsExcluded_def list_ex_iff static_raws_def)
  qed
  moreover have "list_ex (resource_blocks st r q) (ob_Resources ob) \<longleftrightarrow> (\<exists>raw \<in> observed_raws ob. ?hit raw)"
  proof -
    have "resource_blocks st r q x \<longleftrightarrow> list_ex ?hit (x_CIDR x # x_CIDRs x)" for x
      unfolding resource_blocks_def using assms(1) by (simp only: simp_thms)
    then show ?thesis by (auto simp: list_ex_iff observed_raws_def)
  qed
  ultimately have "candidate_blocked pool r snap ob st q \<longleftrightarrow> (\<exists>raw \<in> occupied_raws pool snap ob st. ?hit raw)"
    unfolding candidate_blocked_def occupied_raws_def bex_Un by blast
  then show ?thesis using hit [OF all] by blast
qed

lemma parse4_valid: "parse4 raw = Some p \<Longrightarrow> valid_prefix p \<and> Is4 (ip p)"
  by (auto simp: parse4_def split: option.splits if_splits dest: ParsePrefix_valid)


lemma dec_inject [simp]: "dec m = dec n \<longleftrightarrow> m = n"
  by (metis digits_nat_dec)

lemma by_size_keeps:
  assumes "by_size base t xs acc = Some m" and "mget acc k = Some c"
    and "\<And>b. k = dec (nat b) \<Longrightarrow> int (pbits base) \<le> b \<Longrightarrow> size_counts base t b = Some c"
  shows "mget m k = Some c"
  using assms
proof (induction xs arbitrary: acc)
  case (Cons b xs)
  show ?case
  proof (cases "b < int (pbits base) \<or> 32 < b")
    case False
    then obtain cs where cs: "size_counts base t b = Some cs"
      "by_size base t xs (mput (dec (nat b)) cs acc) = Some m"
      using Cons.prems(1) by (auto split: option.splits)
    moreover have "mget (mput (dec (nat b)) cs acc) k = Some c"
      using Cons.prems(2) Cons.prems(3) [of b] cs(1) False by auto
    ultimately show ?thesis using Cons.IH Cons.prems(3) by blast
  qed (use Cons in simp)
qed simp

lemma by_size_lookup:
  assumes "by_size base t xs acc = Some m" and "bits \<in> set xs" "int (pbits base) \<le> bits" "bits \<le> 32"
  shows "\<exists>c. size_counts base t bits = Some c \<and> mget m (dec (nat bits)) = Some c"
  using assms
proof (induction xs arbitrary: acc)
  case (Cons b xs)
  show ?case
  proof (cases "b = bits")
    case True
    then obtain c where c: "size_counts base t bits = Some c"
      "by_size base t xs (mput (dec (nat bits)) c acc) = Some m"
      using Cons.prems by (auto split: option.splits)
    have "mget m (dec (nat bits)) = Some c"
    proof (rule by_size_keeps [OF c(2)])
      fix b' assume "dec (nat bits) = dec (nat b')" "int (pbits base) \<le> b'"
      then have "bits = b'" using assms(3) by simp
      then show "size_counts base t b' = Some c" using c(1) by simp
    qed simp
    then show ?thesis using c(1) by blast
  next
    case False
    then show ?thesis using Cons by (auto split: if_splits option.splits)
  qed
qed simp

lemma unat_free:
  assumes "aligned_base base start n" and "unat w = card (met_blocks base n ps)"
  shows "unat (one_shl (int n - int (pbits base)) - w) = card (pool_blocks base n - met_blocks base n ps)"
proof -
  note lengths = aligned_baseD(3,4) [OF assms(1)] and blocks = card_pool_blocks [OF assms(1)]
  have "(2 :: nat) ^ (n - pbits base) < 2 ^ 64" using lengths by (intro power_strict_increasing) auto
  then have s: "unat (one_shl (int n - int (pbits base))) = 2 ^ (n - pbits base)"
    using lengths unat_push [of "1 :: 64 word" "n - pbits base"]
    by (simp add: one_shl_def nat_diff_distrib)
  have sub: "met_blocks base n ps \<subseteq> pool_blocks base n" by (auto simp: met_blocks_def)
  then have "card (met_blocks base n ps) \<le> 2 ^ (n - pbits base)" using blocks card_mono by metis
  then show ?thesis
    using s assms(2) blocks card_Diff_subset [OF finite_subset [OF sub blocks(2)] sub]
    by (simp add: unat_sub_if')
qed

lemma size_counts_allocatable:
  assumes "size_counts base t bits = Some counts" and "ta_complete t"
    and base: "valid_prefix base" "Is4 (ip base)" "Masked base = base" "int (pbits base) \<le> bits" "bits \<le> 32"
    and "\<forall>p \<in> set (ta_occupied t). valid_prefix p"
  shows "\<exists>w. mget counts ''allocatable'' = Some w \<and>
    unat w = card (pool_blocks base (nat bits) - met_blocks base (nat bits) (ta_occupied t))"
proof -
  obtain n where n: "occupiedBlocks base bits (ta_occupied t) = Some n"
    "unat n = card (met_blocks base (nat bits) (ta_occupied t))"
    using occupiedBlocks_card [OF base assms(8)] by blast
  obtain start where "addrInt (ip base) = Some start" using base(2) by (auto simp: Is4_V4)
  then have "aligned_base base start (nat bits)" using base unfolding aligned_base_def by linarith
  from unat_free [OF this n(2)] show ?thesis
    using assms(1,2) n(1) base(4) by (auto simp: size_counts_def split: option.splits)
qed

lemma free_blocks:
  assumes "ta_complete (capacity_tally cfg p pool now complete snap st)"
    and "last_opt (observations_at st (pl_DomainID pool)) = Some ob" and "r_Scope r \<noteq> ''subnet''"
    and "\<forall>a \<in> set (mvals (Allocations st)).
      \<not> a_Committed a \<longrightarrow> a_DomainID a = pl_DomainID pool \<and> a_State a \<noteq> Released"
  defines "occ \<equiv> ta_occupied (capacity_tally cfg p pool now complete snap st)"
  shows "pool_blocks base n - met_blocks base n occ =
    {q \<in> pool_blocks base n. \<not> candidate_blocked pool r snap ob st q}"
    and "\<forall>p \<in> set occ. valid_prefix p \<and> Is4 (ip p)"
proof -
  obtain ob' where ob': "last_opt (observations_at st (pl_DomainID pool)) = Some ob'"
    "parse_all (occupied_raws pool snap ob' st)" "set occ = parsed (occupied_raws pool snap ob' st)"
    unfolding occ_def by (rule capacity_tally_complete [OF assms(1)])
  then have all: "parse_all (occupied_raws pool snap ob st)"
    and occ: "set occ = parsed (occupied_raws pool snap ob st)"
    using assms(2) by simp_all
  show v: "\<forall>p \<in> set occ. valid_prefix p \<and> Is4 (ip p)"
    using parse4_valid by (auto simp: occ parsed_def)
  have "candidate_blocked pool r snap ob st q \<longleftrightarrow> (\<exists>p \<in> set occ. Overlaps q p)" for q
    unfolding occ by (rule candidate_blocked_raws [OF assms(3) all assms(4)])
  then show "pool_blocks base n - met_blocks base n occ =
      {q \<in> pool_blocks base n. \<not> candidate_blocked pool r snap ob st q}"
    using v by (auto simp: met_blocks_def)
qed

lemma choose_iff_free:
  assumes base: "ParsePrefix (pl_CIDR pool) = Some base" "Is4 (ip base)"
    "int (pbits base) \<le> r_PrefixLength r" "r_PrefixLength r \<le> 32"
  shows "chooseCIDR pool r snap ob st = Inr None \<longleftrightarrow>
    {q \<in> pool_blocks base (nat (r_PrefixLength r)). \<not> candidate_blocked pool r snap ob st q} = {}"
proof
  assume none: "chooseCIDR pool r snap ob st = Inr None"
  have "candidate_blocked pool r snap ob st q" if "q \<in> pool_blocks base (nat (r_PrefixLength r))" for q
    using that base(3,4) by (intro chooseCIDR_None [OF none base(1)]) (auto simp: pool_blocks_def)
  then show "{q \<in> pool_blocks base (nat (r_PrefixLength r)). \<not> candidate_blocked pool r snap ob st q} = {}"
    by blast
next
  assume empty: "{q \<in> pool_blocks base (nat (r_PrefixLength r)). \<not> candidate_blocked pool r snap ob st q} = {}"
  obtain start where "addrInt (ip (Masked base)) = Some start" using base(2) Is4_V4 Masked_simps(2) addrInt_V4 by metis
  then have "\<exists>res. chooseCIDR pool r snap ob st = Inr res"
    using base by (simp add: chooseCIDR_def Let_def)
  then obtain res where res: "chooseCIDR pool r snap ob st = Inr res" ..
  show "chooseCIDR pool r snap ob st = Inr None"
  proof (cases res)
    case (Some s)
    obtain p where "Is4 (ip p)" "Masked p = p" "int (pbits p) = r_PrefixLength r" "addrs p \<subseteq> addrs base"
      "\<not> candidate_blocked pool r snap ob st p"
      using chooseCIDR_Some [OF res [unfolded Some]] base(1) by (metis option.inject)
    then have "p \<in> {q \<in> pool_blocks base (nat (r_PrefixLength r)). \<not> candidate_blocked pool r snap ob st q}"
      by (auto simp: pool_blocks_def)
    then show ?thesis using empty by blast
  qed (simp add: res)
qed


lemma capacity_Inr:
  assumes "capacity E p poolID st = (st', Inr rep)"
  obtains pool base snap complete t bs where "capacity_pool (v_cfg E) p poolID = Some pool"
    "ParsePrefix (pl_CIDR pool) = Some base"
    "capacity_snapshot E (domainFor (v_cfg E) (pl_DomainID pool)) = (snap, complete)"
    "t = capacity_tally (v_cfg E) p pool (v_now E 0) complete snap st'"
    "by_size base t (pl_AllowedPrefixLengths pool) [] = Some bs"
    "cp_complete rep = ta_complete t" "cp_by_prefix_length rep = bs" "cp_pool_id rep = pl_ID pool"
    "st' = v_others E 0 st"
proof -
  obtain pool base where pool: "capacity_pool (v_cfg E) p poolID = Some pool"
    "ParsePrefix (pl_CIDR pool) = Some base"
    using assms by (auto simp: capacity_def Let_def split: option.splits)
  obtain snap complete where snap:
    "capacity_snapshot E (domainFor (v_cfg E) (pl_DomainID pool)) = (snap, complete)" by fastforce
  define t where "t = capacity_tally (v_cfg E) p pool (v_now E 0) complete snap (v_others E 0 st)"
  have "v_fault E 0 = None"
    using assms pool snap by (cases "v_fault E 0") (simp_all add: capacity_def Let_def view_def ml_View_def)
  then obtain bs where bs: "by_size base t (pl_AllowedPrefixLengths pool) [] = Some bs"
    using assms pool snap
    by (cases "by_size base t (pl_AllowedPrefixLengths pool) []")
      (simp_all add: capacity_def Let_def view_def ml_View_def t_def)
  have "st' = v_others E 0 st" "cp_complete rep = ta_complete t" "cp_by_prefix_length rep = bs"
    "cp_pool_id rep = pl_ID pool"
    using assms pool snap bs \<open>v_fault E 0 = None\<close>
    by (auto simp: capacity_def Let_def view_def ml_View_def t_def)
  then show thesis using that [OF pool snap _ bs] by (simp add: t_def)
qed

end
