(* ===== verification/Reserve.thy ===== *)
theory Reserve
  imports Ledger
begin

text \<open>
  Reservations and adoptions (\<open>Reserve\<close>, \<open>Adopt\<close>, \<open>reserve\<close>, \<open>validateRequest\<close> of
  \<open>internal/service/service.go\<close>) and the reads and metadata patch next to them. The body \<open>reserve\<close>
  is split at its ledger accesses: the ledger-only replay, the evidence gathered outside the ledger,
  the planning transaction that persists the hold, the adapter call, and the commit transaction.
\<close>

section \<open>Kinds of reservation\<close>

record reservationKind =
  k_operation :: OpType
  k_planned :: string
  k_committed :: string
  k_method :: string
  k_path :: string
  k_stuck :: string

definition reserveKind :: reservationKind where
  "reserveKind = \<lparr>k_operation = reserveOperation, k_planned = ''RESERVE_PLANNED'',
     k_committed = ''RESERVE_COMMITTED'', k_method = ''POST'', k_path = ''POST /v1/allocations'',
     k_stuck = reservationStuckCode\<rparr>"

definition adoptKind :: reservationKind where
  "adoptKind = \<lparr>k_operation = adoptOperation, k_planned = ''ADOPT_PLANNED'',
     k_committed = ''ADOPT_COMMITTED'', k_method = ''ADOPT'', k_path = ''ADOPT /v1/allocations'',
     k_stuck = adoptionStuckCode\<rparr>"

definition kind_of :: "Adoption option \<Rightarrow> reservationKind" where
  "kind_of pin = (case pin of None \<Rightarrow> reserveKind | Some _ \<Rightarrow> adoptKind)"

section \<open>Request validation\<close>

definition pool_candidate ::
  "Config \<Rightarrow> Principal \<Rightarrow> Request \<Rightarrow> Allocation \<Rightarrow> Pool \<Rightarrow> Pool option" where
  "pool_candidate cfg p r parent pool =
     (if pl_Environment pool = r_Environment r \<and> pl_Region pool = r_Region r
         \<and> pl_AddressFamily pool = r_AddressFamily r
         \<and> eligibleString (pl_EligibleTenants pool) (p_TenantID p)
         \<and> eligibleString (pl_EligibleAccounts pool) (r_AccountID r)
      then
        (if r_Scope r = ''subnet'' then
           (if pl_Scope pool \<noteq> ''vpc'' \<or> a_PoolID parent \<noteq> pl_ID pool then None
            else if containsInt (sp_AllowedPrefixLengths (c_SubnetPolicy cfg)) (r_PrefixLength r)
            then Some (pool\<lparr>pl_Scope := ''subnet'', pl_CIDR := a_CIDR parent\<rparr>) else None)
         else if pl_Scope pool \<noteq> r_Scope r then None
         else if containsInt (pl_AllowedPrefixLengths pool) (r_PrefixLength r) then Some pool
         else None)
      else None)"

fun select_pool ::
  "Config \<Rightarrow> Principal \<Rightarrow> Request \<Rightarrow> Allocation \<Rightarrow> Pool list \<Rightarrow> Pool option \<Rightarrow> goerr + Pool option"
where
  "select_pool cfg p r parent [] selected = Inr selected"
| "select_pool cfg p r parent (pool # pools) selected =
     (case pool_candidate cfg p r parent pool of
        None \<Rightarrow> select_pool cfg p r parent pools selected
      | Some candidate \<Rightarrow>
          (case selected of
             Some _ \<Rightarrow> Inl (apiErr 422 ''ambiguous_pool'' ''more than one pool matches the request'')
           | None \<Rightarrow> select_pool cfg p r parent pools (Some candidate)))"

definition validate_shape :: "Principal \<Rightarrow> Request \<Rightarrow> goerr + Request" where
  "validate_shape p input =
     (let r = (if r_AddressFamily input = [] then input\<lparr>r_AddressFamily := ''ipv4''\<rparr> else input)
      in if p_TenantID p = [] then
           Inl (apiErr 403 ''forbidden'' ''authenticated principal has no tenant'')
         else if r_Scope r \<noteq> ''vpc'' \<and> r_Scope r \<noteq> ''subnet'' then
           Inl (apiErr 422 ''invalid_request'' ''scope must be vpc or subnet'')
         else if r_AddressFamily r \<noteq> ''ipv4'' \<or> r_PrefixLength r < 0 \<or> 32 < r_PrefixLength r then
           Inl (apiErr 422 ''invalid_request'' ''only valid IPv4 prefix lengths are supported'')
         else if \<not> validKey (r_AllocationKey r) then
           Inl (apiErr 422 ''invalid_request'' ''allocation_key is invalid'')
         else if 512 < length (r_Description r) then
           Inl (apiErr 422 ''invalid_request'' ''description is too long'')
         else case validateLabels (r_Labels r) of
           Some e \<Rightarrow> Inl e
         | None \<Rightarrow>
             if r_Scope r = ''vpc'' \<and> (r_ParentAllocationID r \<noteq> [] \<or> r_AvailabilityZoneID r \<noteq> []) then
               Inl (apiErr 422 ''invalid_request''
                 ''VPC requests cannot specify a parent or availability zone'')
             else if r_Scope r = ''subnet'' \<and> r_ParentAllocationID r = [] then
               Inl (apiErr 422 ''invalid_request'' ''subnet requests require a parent allocation'')
             else if \<not> eligibleString (p_Environments p) (r_Environment r)
                     \<or> \<not> eligibleString (p_Regions p) (r_Region r) then
               Inl (apiErr 403 ''forbidden'' ''principal is not authorized for the target'')
             else if r_AccountID r = [] then
               (case p_Accounts p of
                  [account] \<Rightarrow> Inr (r\<lparr>r_AccountID := account\<rparr>)
                | _ \<Rightarrow> Inl (apiErr 422 ''account_required''
                        ''account must be specified for this principal''))
             else if \<not> eligibleString (p_Accounts p) (r_AccountID r) then
               Inl (apiErr 403 ''forbidden'' ''principal is not authorized for the account'')
             else Inr r)"

definition validate_parent :: "Config \<Rightarrow> Principal \<Rightarrow> Request \<Rightarrow> State \<Rightarrow> goerr + Allocation" where
  "validate_parent cfg p r st =
     (case mget (Allocations st) (r_ParentAllocationID r) of
        None \<Rightarrow> Inl (apiErr 409 ''invalid_parent'' ''parent allocation is unavailable'')
      | Some parent \<Rightarrow>
          if \<not> a_Committed parent \<or> a_TenantID parent \<noteq> p_TenantID p then
            Inl (apiErr 409 ''invalid_parent'' ''parent allocation is unavailable'')
          else
            let requiredScope = (if sp_RequireParentScope (c_SubnetPolicy cfg) = [] then ''vpc''
                                 else sp_RequireParentScope (c_SubnetPolicy cfg))
            in if a_Scope parent \<noteq> requiredScope
                  \<or> (a_State parent \<noteq> Reserved \<and> a_State parent \<noteq> Active)
                  \<or> a_AccountID parent \<noteq> r_AccountID r \<or> a_Region parent \<noteq> r_Region r
                  \<or> a_Environment parent \<noteq> r_Environment r then
                 Inl (apiErr 409 ''invalid_parent'' ''parent allocation does not match the target'')
               else if \<not> containsInt (sp_AllowedPrefixLengths (c_SubnetPolicy cfg)) (r_PrefixLength r)
               then Inl (apiErr 422 ''policy_violation'' ''subnet prefix length is not allowed'')
               else Inr parent)"

definition last_domain :: "Config \<Rightarrow> string \<Rightarrow> Domain" where
  "last_domain cfg i = foldl (\<lambda>dm d. if d_ID d = i then d else dm) zero_Domain (c_Domains cfg)"

definition validate_target ::
  "Config \<Rightarrow> Principal \<Rightarrow> Request \<Rightarrow> Allocation \<Rightarrow> goerr + Request \<times> Pool \<times> Domain" where
  "validate_target cfg p r parent =
     (case select_pool cfg p r parent (c_Pools cfg) None of
        Inl e \<Rightarrow> Inl e
      | Inr None \<Rightarrow>
          Inl (apiErr 422 ''policy_violation'' ''no eligible pool matches the request'')
      | Inr (Some selected) \<Rightarrow>
          let dm = last_domain cfg (pl_DomainID selected)
          in if d_ID dm = [] then
               Inl (apiErr 422 ''policy_violation'' ''pool references an unknown overlap domain'')
             else Inr (r, selected, dm))"

text \<open>\<open>validateRequest\<close>: access 0 reads the parent of a subnet.\<close>

definition validateRequest ::
  "Env \<Rightarrow> Principal \<Rightarrow> Request \<Rightarrow> State \<Rightarrow> State \<times> (goerr + Request \<times> Pool \<times> Domain)" where
  "validateRequest E p input st =
     (case validate_shape p input of
        Inl e \<Rightarrow> (st, Inl e)
      | Inr r \<Rightarrow>
          if r_Scope r = ''subnet'' then
            (case v_ledger E of
               NoLedger \<Rightarrow>
                 (st, Inl (apiErr 503 ''dependency_unavailable'' ''ledger is not configured''))
             | _ \<Rightarrow>
                 (case view E 0 (validate_parent (v_cfg E) p r) st of
                    (st', Inl e) \<Rightarrow> (st', Inl e)
                  | (st', Inr parent) \<Rightarrow> (st', validate_target (v_cfg E) p r parent)))
          else (st, validate_target (v_cfg E) p r zero_Allocation))"

section \<open>Replay\<close>

type_synonym answer = "Allocation option \<times> Operation option \<times> int"

definition retired :: "AllocState \<Rightarrow> bool" where
  "retired s \<longleftrightarrow> s = Quarantined \<or> s = Released"

definition find_key :: "State \<Rightarrow> string \<Rightarrow> string \<Rightarrow> Allocation option" where
  "find_key st tenant key =
     find (\<lambda>a. a_TenantID a = tenant \<and> a_AllocationKey a = key) (mvals (Allocations st))"

definition replay_record ::
  "State \<Rightarrow> Idempotency \<Rightarrow> string \<Rightarrow> goerr + answer" where
  "replay_record st old httpHash =
     (if i_Hash old \<noteq> httpHash then
        Inl (apiErr 409 ''idempotency_mismatch''
          ''the idempotency key was used with a different request'')
      else
        let (a, x) = stateResults st old
        in if (case a of None \<Rightarrow> False | Some y \<Rightarrow> retired (a_State y)) then
             Inl (apiErr 409 ''allocation_key_retired'' ''allocation key is permanently retired'')
           else case abandoningReplay st a of
             Some e \<Rightarrow> Inl e
           | None \<Rightarrow> Inr (a, x, resultStatus a x))"

definition replay_guard :: "State \<Rightarrow> Allocation \<Rightarrow> string \<Rightarrow> goerr option" where
  "replay_guard st old immutableHash =
     (if a_RequestHash old \<noteq> immutableHash then
        Some (apiErr 409 ''allocation_key_conflict''
          ''allocation key belongs to a different immutable request'')
      else if retired (a_State old) then
        Some (apiErr 409 ''allocation_key_retired'' ''allocation key is permanently retired'')
      else abandoningReplay st (Some (copyAllocation old)))"

definition replay_operation :: "State \<Rightarrow> Allocation \<Rightarrow> Operation option" where
  "replay_operation st old =
     (if \<not> a_Committed old then map_option copyOperation (pendingForAllocation st (a_ID old))
      else None)"

definition reserve_replay ::
  "string \<Rightarrow> string \<Rightarrow> string \<Rightarrow> string \<Rightarrow> string \<Rightarrow> State \<Rightarrow> goerr + answer" where
  "reserve_replay tenant key requestID immutableHash httpHash st =
     (case mget (Requests st) requestID of
        Some old \<Rightarrow> replay_record st old httpHash
      | None \<Rightarrow>
          (case find_key st tenant key of
             None \<Rightarrow> Inr (None, None, 0)
           | Some old \<Rightarrow>
               (case replay_guard st old immutableHash of
                  Some e \<Rightarrow> Inl e
                | None \<Rightarrow>
                    let a = Some (copyAllocation old); x = replay_operation st old
                    in Inr (a, x, resultStatus a x))))"

section \<open>Evidence\<close>

definition unavailable :: "string \<Rightarrow> goerr" where
  "unavailable msg = APIErr (Err 503 ''dependency_unavailable'' msg)"

definition stored_observation :: "Env \<Rightarrow> Domain \<Rightarrow> State \<Rightarrow> goerr + Observation \<times> bool" where
  "stored_observation E dm st =
     Inr (case last_opt (observations_at st (d_ID dm)) of
            None \<Rightarrow> (zero_Observation, False)
          | Some ob \<Rightarrow> (ob, trustedObservation ob dm (v_now E 1)
                (lc_MaxObservationAge (c_Lifecycle (v_cfg E)))))"

text \<open>Access 2 reads the stored observation where no observer is configured.\<close>

definition reserve_evidence ::
  "Env \<Rightarrow> Domain \<Rightarrow> State \<Rightarrow>
   State \<times> (goerr + InventorySnapshot \<times> Observation option \<times> Observation)" where
  "reserve_evidence E dm st =
     (case v_inventory E of
        None \<Rightarrow> (st, Inl (unavailable ''inventory adapter is not configured''))
      | Some iv \<Rightarrow>
          (case inv_Snapshot iv 0 dm of
             Inl _ \<Rightarrow> (st, Inl (unavailable ''complete inventory snapshot is required''))
           | Inr snap \<Rightarrow>
               if \<not> sn_Complete snap then
                 (st, Inl (unavailable ''complete inventory snapshot is required''))
               else
                 (case observe E 0 dm of
                    Inl _ \<Rightarrow> (st, Inl (unavailable ''complete cloud observation is required''))
                  | Inr (Some ob) \<Rightarrow>
                      if \<not> ob_Complete ob \<or> ob_Generation ob \<noteq> d_CoverageGeneration dm
                         \<or> \<not> nowFresh (v_now E 0) (ob_FinishedAt ob)
                               (lc_MaxObservationAge (c_Lifecycle (v_cfg E)))
                      then (st, Inl (unavailable ''complete current cloud observation is required''))
                      else (st, Inr (snap, Some ob, ob))
                  | Inr None \<Rightarrow>
                      (case view E 2 (stored_observation E dm) st of
                         (st', Inr (ob, True)) \<Rightarrow> (st', Inr (snap, None, ob))
                       | (st', _) \<Rightarrow>
                           (st', Inl (unavailable ''complete cloud observation is required''))))))"

section \<open>The planning transaction\<close>

definition latest_observation :: "State \<Rightarrow> string \<Rightarrow> Observation \<Rightarrow> Observation" where
  "latest_observation st domainID planning =
     (case last_opt (observations_at st domainID) of
        None \<Rightarrow> planning
      | Some candidate \<Rightarrow>
          if \<not> ob_FinishedAt candidate < ob_FinishedAt planning then candidate else planning)"

definition parent_unavailable :: "State \<Rightarrow> Principal \<Rightarrow> Request \<Rightarrow> bool" where
  "parent_unavailable st p r =
     (let parent = allocation_at st (r_ParentAllocationID r)
      in a_ID parent = [] \<or> a_TenantID parent \<noteq> p_TenantID p \<or> a_Scope parent \<noteq> ''vpc''
         \<or> (a_State parent \<noteq> Reserved \<and> a_State parent \<noteq> Active)
         \<or> a_AccountID parent \<noteq> r_AccountID r \<or> a_Region parent \<noteq> r_Region r)"

text \<open>Fence, quota and parent gates, in the order the transaction asks them.\<close>

definition plan_gates :: "Config \<Rightarrow> Principal \<Rightarrow> Request \<Rightarrow> Pool \<Rightarrow> Domain \<Rightarrow> State \<Rightarrow> goerr option" where
  "plan_gates cfg p r pool dm st =
     (if pendingDomain st (d_ID dm) \<noteq> None then
        Some (apiErr 503 ''domain_busy'' ''an unresolved operation is fencing this overlap domain'')
      else if 0 < pl_MaxAllocations pool
              \<and> pl_MaxAllocations pool \<le> countTenant st (p_TenantID p) (pl_ID pool) then
        Some (apiErr 409 ''quota_exceeded'' ''allocation quota has been reached'')
      else if r_Scope r = ''subnet'' \<and> parent_unavailable st p r then
        Some (apiErr 409 ''invalid_parent''
          ''parent allocation is unavailable or does not match the target'')
      else if r_Scope r = ''subnet'' \<and> 0 < sp_MaxChildren (c_SubnetPolicy cfg)
              \<and> sp_MaxChildren (c_SubnetPolicy cfg)
                  \<le> countChildren st (a_ID (allocation_at st (r_ParentAllocationID r))) then
        Some (apiErr 409 ''quota_exceeded'' ''parent child quota has been reached'')
      else None)"

definition adoption_record :: "Adoption \<Rightarrow> Network \<Rightarrow> AdoptionRecord" where
  "adoption_record pin reviewed =
     \<lparr>ar_Operator = ad_Operator pin, ar_NetworkID = ad_NetworkID pin,
      ar_ResourceID = ad_ResourceID pin, ar_ImportBatch = n_ImportBatch reviewed,
      ar_PriorStatus = n_Status reviewed, ar_PriorAccountID = n_AWSAccountID reviewed,
      ar_PriorRegion = n_AWSRegion reviewed\<rparr>"

text \<open>The candidate, the audit reason and the durable record of an adoption.\<close>

definition plan_candidate ::
  "Crypto \<Rightarrow> Pool \<Rightarrow> Request \<Rightarrow> InventorySnapshot \<Rightarrow> Observation \<Rightarrow> State \<Rightarrow> Adoption option \<Rightarrow>
   goerr + string \<times> string \<times> AdoptionRecord option" where
  "plan_candidate K pool r snap latest st pin =
     (case pin of
        None \<Rightarrow>
          (case chooseCIDR pool r snap latest st of
             Inl e \<Rightarrow> Inl e
           | Inr None \<Rightarrow> Inl (apiErr 409 ''pool_exhausted'' ''no eligible CIDR is available'')
           | Inr (Some chosen) \<Rightarrow>
               Inr (chosen, ''exact candidate held before inventory mutation'', None))
      | Some ad \<Rightarrow>
          (case pinnedCIDR pool r snap latest st ad of
             Inl e \<Rightarrow> Inl e
           | Inr (verified, reviewed) \<Rightarrow>
               let rec = adoption_record ad reviewed
               in Inr (verified, adoptionEvidence K rec latest, Some rec)))"

text \<open>
  What a request carries into the transaction: the principal, the validated request, its pool and
  domain, the idempotency key, the pin of an adoption, and the evidence read outside the ledger.
\<close>

record PlanInput =
  pn_Principal :: Principal
  pn_Request :: Request
  pn_Pool :: Pool
  pn_Domain :: Domain
  pn_Key :: string
  pn_Pin :: "Adoption option"
  pn_Snap :: InventorySnapshot
  pn_Obs :: "Observation option"
  pn_Planning :: Observation

definition plan_requestID :: "Crypto \<Rightarrow> PlanInput \<Rightarrow> string" where
  "plan_requestID K i =
     idempotencyID K (p_TenantID (pn_Principal i)) (k_method (kind_of (pn_Pin i)))
       (k_path (kind_of (pn_Pin i))) (pn_Key i)"

definition plan_actor :: "PlanInput \<Rightarrow> string" where
  "plan_actor i =
     (case pn_Pin i of None \<Rightarrow> p_Subject (pn_Principal i) | Some ad \<Rightarrow> ad_Operator ad)"

definition new_allocation ::
  "Env \<Rightarrow> PlanInput \<Rightarrow> string \<Rightarrow> Allocation" where
  "new_allocation E i candidate =
     zero_Allocation\<lparr>a_Request := pn_Request i, a_ID := fresh E ''alloc'' 0,
       a_TenantID := p_TenantID (pn_Principal i), a_DomainID := d_ID (pn_Domain i),
       a_RequestHash := requestHash (v_K E) (pn_Request i), a_CIDR := candidate,
       a_PoolID := pl_ID (pn_Pool i), a_State := Reserved, a_Revision := 1,
       a_PolicyVersion := c_PolicyVersion (v_cfg E), a_InventorySync := ''PENDING'',
       a_CreatedAt := v_now E 0, a_UpdatedAt := v_now E 0, a_Committed := False,
       a_ReleaseBlockers := []\<rparr>"

definition new_operation ::
  "Env \<Rightarrow> PlanInput \<Rightarrow> AdoptionRecord option \<Rightarrow> Operation" where
  "new_operation E i rec =
     zero_Operation\<lparr>o_ID := fresh E ''op'' 1, o_Type := k_operation (kind_of (pn_Pin i)),
       o_Status := operationPending, o_AllocationID := fresh E ''alloc'' 0,
       o_TenantID := p_TenantID (pn_Principal i), o_DomainID := d_ID (pn_Domain i),
       o_Adoption := rec, o_CreatedAt := v_now E 0, o_UpdatedAt := v_now E 0\<rparr>"

definition idempotency_record ::
  "Env \<Rightarrow> PlanInput \<Rightarrow> string \<Rightarrow> string \<Rightarrow> Idempotency" where
  "idempotency_record E i allocationID operationID =
     \<lparr>i_TenantID = p_TenantID (pn_Principal i), i_Method = k_method (kind_of (pn_Pin i)),
      i_Path = k_path (kind_of (pn_Pin i)), i_Key = pn_Key i,
      i_Hash = requestBodyHash (v_K E) (pn_Request i), i_AllocationID = allocationID,
      i_OperationID = operationID\<rparr>"

definition persist_hold ::
  "Env \<Rightarrow> PlanInput \<Rightarrow> string \<Rightarrow> string \<Rightarrow> AdoptionRecord option \<Rightarrow> State \<Rightarrow> State" where
  "persist_hold E i candidate reason rec st =
     (let a = new_allocation E i candidate; x = new_operation E i rec;
          st1 = st\<lparr>Allocations := mput (a_ID a) a (Allocations st),
                   Operations := mput (o_ID x) x (Operations st),
                   Events := Events st @ [\<lparr>ev_ID = fresh E ''evt'' 2, ev_AllocationID = a_ID a,
                     ev_TenantID = p_TenantID (pn_Principal i), ev_Actor = plan_actor i,
                     ev_Action = k_planned (kind_of (pn_Pin i)), ev_Reason = reason,
                     ev_At = v_now E 0, ev_Revision = a_Revision a\<rparr>],
                   Requests := mput (plan_requestID (v_K E) i)
                     (idempotency_record E i (a_ID a) (o_ID x)) (Requests st)\<rparr>
      in case pn_Obs i of None \<Rightarrow> st1 | Some ob \<Rightarrow> recordObservation st1 ob)"

text \<open>Either the answer of a replay, or a hold that now waits for its adapter call.\<close>

datatype PlanOutcome = Replayed answer | NewHold Allocation Operation string

definition plan_replay_key ::
  "Env \<Rightarrow> PlanInput \<Rightarrow> Allocation \<Rightarrow> State \<Rightarrow> goerr + State \<times> PlanOutcome" where
  "plan_replay_key E i old st =
     (case replay_guard st old (requestHash (v_K E) (pn_Request i)) of
        Some e \<Rightarrow> Inl e
      | None \<Rightarrow>
          Inr (st\<lparr>Requests := mput (plan_requestID (v_K E) i)
                 (idempotency_record E i (a_ID old) []) (Requests st)\<rparr>,
               Replayed (Some (copyAllocation old), replay_operation st old,
                 (if \<not> a_Committed old then 202 else 200))))"

definition plan_new_hold ::
  "Env \<Rightarrow> PlanInput \<Rightarrow> State \<Rightarrow> goerr + State \<times> PlanOutcome" where
  "plan_new_hold E i st =
     (case plan_gates (v_cfg E) (pn_Principal i) (pn_Request i) (pn_Pool i) (pn_Domain i) st of
        Some e \<Rightarrow> Inl e
      | None \<Rightarrow>
          let latest = latest_observation st (d_ID (pn_Domain i)) (pn_Planning i)
          in if \<not> trustedObservation latest (pn_Domain i) (v_now E 2)
                  (lc_MaxObservationAge (c_Lifecycle (v_cfg E))) then
               Inl (apiErr 503 ''dependency_unavailable''
                 ''complete current cloud observation is required'')
             else
               (case plan_candidate (v_K E) (pn_Pool i) (pn_Request i) (pn_Snap i) latest st
                       (pn_Pin i) of
                  Inl e \<Rightarrow> Inl e
                | Inr (candidate, reason, rec) \<Rightarrow>
                    Inr (persist_hold E i candidate reason rec st,
                         NewHold (copyAllocation (new_allocation E i candidate))
                           (new_operation E i rec) reason)))"

definition reserve_plan :: "Env \<Rightarrow> PlanInput \<Rightarrow> PlanOutcome txn" where
  "reserve_plan E i st =
     (case mget (Requests st) (plan_requestID (v_K E) i) of
        Some old \<Rightarrow>
          (case replay_record st old (requestBodyHash (v_K E) (pn_Request i)) of
             Inl e \<Rightarrow> Inl e
           | Inr ans \<Rightarrow> Inr (st, Replayed ans))
      | None \<Rightarrow>
          (case find_key st (p_TenantID (pn_Principal i)) (r_AllocationKey (pn_Request i)) of
             Some old \<Rightarrow> plan_replay_key E i old st
           | None \<Rightarrow> plan_new_hold E i st))"

section \<open>The commit transaction\<close>

text \<open>
  The commit closure either finds the hold gone and refuses with 404, carrying the fenced operation
  out of the transaction (\<open>HoldGone\<close>, nothing is stored), or finds that it may no longer commit and
  stores nothing (\<open>NotCommitted\<close>), or commits.
\<close>

datatype CommitOutcome =
    HoldGone Operation
  | NotCommitted Allocation Operation
  | Committed Allocation Operation

definition commit_blocked :: "Allocation \<Rightarrow> Operation \<Rightarrow> bool" where
  "commit_blocked a x \<longleftrightarrow>
     a_Committed a \<or> a_State a = Quarantined \<or> a_State a = Released \<or> o_Status x \<noteq> operationPending"

definition committed_allocation :: "Allocation \<Rightarrow> string \<Rightarrow> time \<Rightarrow> Allocation" where
  "committed_allocation a invID now =
     a\<lparr>a_Committed := True, a_InventoryID := invID, a_InventorySync := ''CURRENT'',
       a_UpdatedAt := now\<rparr>"

definition succeeded_operation :: "Operation \<Rightarrow> string \<Rightarrow> time \<Rightarrow> Operation" where
  "succeeded_operation x allocationID now =
     x\<lparr>o_Status := operationSucceeded, o_Result := Some [(''allocation_id'', allocationID)],
       o_UpdatedAt := now\<rparr>"

definition commit_reason :: "Adoption option \<Rightarrow> string \<Rightarrow> string" where
  "commit_reason pin evidence =
     (case pin of
        None \<Rightarrow> ''inventory exact create confirmed''
      | Some _ \<Rightarrow> ''inventory adoption confirmed; '' @ evidence)"

definition reserve_commit ::
  "Env \<Rightarrow> Adoption option \<Rightarrow> string \<Rightarrow> Allocation \<Rightarrow> Operation \<Rightarrow> string \<Rightarrow> CommitOutcome txn" where
  "reserve_commit E pin evidence held op0 invID st =
     (let a = allocation_at st (a_ID held); kind = kind_of pin; now = v_now E 3
      in if a_ID a = [] then
           Inr (st, HoldGone (case mget (Operations st) (o_ID op0) of
                       Some fenced \<Rightarrow> copyOperation fenced | None \<Rightarrow> op0))
         else
           let x = operation_at st (o_ID op0)
           in if commit_blocked a x then
                Inr (st, NotCommitted (copyAllocation a) (copyOperation x))
              else
                let a' = committed_allocation a invID now;
                    x' = (if o_ID x \<noteq> [] then succeeded_operation x (a_ID a) now else x);
                    st1 = st\<lparr>Allocations := mput (a_ID a') a' (Allocations st),
                             Events := Events st @ [\<lparr>ev_ID = fresh E ''evt'' 3,
                               ev_AllocationID = a_ID a', ev_TenantID = a_TenantID a',
                               ev_Actor = (case pin of None \<Rightarrow> [] | Some ad \<Rightarrow> ad_Operator ad),
                               ev_Action = k_committed kind, ev_Reason = commit_reason pin evidence,
                               ev_At = now, ev_Revision = a_Revision a'\<rparr>],
                             Operations := (if o_ID x \<noteq> [] then mput (o_ID x) x' (Operations st)
                                            else Operations st)\<rparr>
                in Inr (resolveFinding (v_K E) st1 a' (k_stuck kind),
                        Committed a' (copyOperation x')))"

section \<open>The reservation body\<close>

definition finish_hold ::
  "Env \<Rightarrow> Adoption option \<Rightarrow> string \<Rightarrow> Allocation \<Rightarrow> Operation \<Rightarrow> string \<Rightarrow> State \<Rightarrow> State \<times> (goerr + answer)"
where
  "finish_hold E pin evidence a x invID st =
     (case update E 4 (reserve_commit E pin evidence a x invID) st of
        (st', Inr (Committed a' x')) \<Rightarrow> (st', Inr (Some a', Some x', 201))
      | (st', Inr (NotCommitted a' x')) \<Rightarrow>
          if a_Committed a' \<and> a_State a' \<noteq> Quarantined \<and> a_State a' \<noteq> Released
          then (st', Inr (Some a', Some x', 201))
          else (case withdrawalRefusal x' of
                  Some e \<Rightarrow> (st', Inl (APIErr e))
                | None \<Rightarrow> (st', Inr (Some a', Some x', 202)))
      | (st', Inr (HoldGone x')) \<Rightarrow>
          (case withdrawalRefusal x' of
             Some e \<Rightarrow> (st', Inl (APIErr e))
           | None \<Rightarrow> (st', Inr (Some a, Some x', 202)))
      | (st', Inl _) \<Rightarrow>
          (case withdrawalRefusal x of
             Some e \<Rightarrow> (st', Inl (APIErr e))
           | None \<Rightarrow> (st', Inr (Some a, Some x, 202))))"

definition attempt_hold ::
  "Env \<Rightarrow> Adoption option \<Rightarrow> string \<Rightarrow> Allocation \<Rightarrow> Operation \<Rightarrow> State \<Rightarrow> State \<times> (goerr + answer)" where
  "attempt_hold E pin evidence a x st =
     (case v_inventory E of
        None \<Rightarrow> (st, Inl (Panic ''nil inventory''))
      | Some iv \<Rightarrow>
          (case (case pin of
                   None \<Rightarrow> inv_Ensure iv 0 a (o_ID x)
                 | Some _ \<Rightarrow> inv_Adopt iv 0 a (o_ID x)) of
             Inl _ \<Rightarrow> (st, Inr (Some a, Some x, 202))
           | Inr invID \<Rightarrow>
               if pin \<noteq> None \<and> invID \<noteq> [] \<and> \<not> adoptedTheReviewedObject x invID then
                 (st, Inl (apiErr 409 ''adoption_conflict''
                   ''the adopted network is not the inventory object that was reviewed; the adoption remains pending''))
               else if invID = [] then (st, Inr (Some a, Some x, 202))
               else finish_hold E pin evidence a x invID st))"

definition reserve ::
  "Env \<Rightarrow> Principal \<Rightarrow> Request \<Rightarrow> string \<Rightarrow> Adoption option \<Rightarrow> State \<Rightarrow> State \<times> (goerr + answer)" where
  "reserve E p req key pin st =
     (if key = [] then
        (st, Inl (apiErr 400 ''idempotency_key_required'' ''idempotency key is required''))
      else case ledgerReady E of
        Some e \<Rightarrow> (st, Inl e)
      | None \<Rightarrow>
          (case validateRequest E p req st of
             (st1, Inl e) \<Rightarrow> (st1, Inl e)
           | (st1, Inr (r, pool, dm)) \<Rightarrow>
               (case view E 1 (reserve_replay (p_TenantID p) (r_AllocationKey r)
                        (idempotencyID (v_K E) (p_TenantID p) (k_method (kind_of pin))
                           (k_path (kind_of pin)) key)
                        (requestHash (v_K E) r) (requestBodyHash (v_K E) r)) st1 of
                  (st2, Inl e) \<Rightarrow> (st2, Inl e)
                | (st2, Inr (Some a, x, status)) \<Rightarrow> (st2, Inr (Some a, x, status))
                | (st2, Inr (None, _, _)) \<Rightarrow>
                    (case reserve_evidence E dm st2 of
                       (st3, Inl e) \<Rightarrow> (st3, Inl e)
                     | (st3, Inr (snap, obs, planning)) \<Rightarrow>
                         (case update E 3 (reserve_plan E
                                \<lparr>pn_Principal = p, pn_Request = r, pn_Pool = pool, pn_Domain = dm,
                                 pn_Key = key, pn_Pin = pin, pn_Snap = snap, pn_Obs = obs,
                                 pn_Planning = planning\<rparr>) st3 of
                            (st4, Inl e) \<Rightarrow> (st4, Inl e)
                          | (st4, Inr (Replayed (None, _, _))) \<Rightarrow>
                              (st4, Inl (apiErr 503 ''ledger_error'' ''ledger returned no result''))
                          | (st4, Inr (Replayed (Some a, x, status))) \<Rightarrow>
                              (st4, Inr (Some a, x, (if a_Committed a then status else 202)))
                          | (st4, Inr (NewHold a x evidence)) \<Rightarrow>
                              attempt_hold E pin evidence a x st4)))))"

definition Reserve :: "Env \<Rightarrow> Principal \<Rightarrow> Request \<Rightarrow> string \<Rightarrow> State \<Rightarrow> State \<times> (goerr + answer)" where
  "Reserve E p req key st = reserve E p req key None st"

section \<open>Adoption\<close>

definition adoptedAs :: "Allocation \<Rightarrow> Adoption \<Rightarrow> goerr option" where
  "adoptedAs a pin =
     (if a_State a = Released \<or> a_State a = Quarantined then None
      else if (case ParsePrefix (ad_CIDR pin) of
                 None \<Rightarrow> True | Some reviewed \<Rightarrow> a_CIDR a \<noteq> PrefixString (Masked reviewed)) then
        Some (apiErr 409 ''adoption_conflict''
          ''the allocation key already holds a different CIDR than the one reviewed'')
      else if a_Committed a \<and> a_InventoryID a \<noteq> ad_NetworkID pin then
        Some (apiErr 409 ''adoption_conflict''
          ''the allocation key is already committed on a different inventory object than the one reviewed'')
      else None)"

definition adopt_precheck :: "Principal \<Rightarrow> Request \<Rightarrow> Adoption \<Rightarrow> State \<Rightarrow> goerr + unit" where
  "adopt_precheck p req pin st =
     (case find_key st (p_TenantID p) (r_AllocationKey req) of
        None \<Rightarrow> Inr ()
      | Some old \<Rightarrow> (case adoptedAs old pin of Some e \<Rightarrow> Inl e | None \<Rightarrow> Inr ()))"

definition adopt_inputs :: "Request \<Rightarrow> Adoption \<Rightarrow> goerr option" where
  "adopt_inputs req pin =
     (if ad_Operator pin = [] then
        Some (apiErr 422 ''invalid_request''
          ''an operator subject is required for the adoption audit trail'')
      else if ad_CIDR pin = [] \<or> ad_NetworkID pin = [] \<or> ad_ResourceID pin = [] then
        Some (apiErr 422 ''invalid_request''
          ''adoption requires a reviewed CIDR, inventory id and resource id'')
      else if r_AllocationKey req = [] then
        Some (apiErr 422 ''invalid_request'' ''allocation_key is invalid'')
      else None)"

text \<open>Access 5 compares a key that already names an allocation with the reviewed record.\<close>

definition Adopt :: "Env \<Rightarrow> Principal \<Rightarrow> Request \<Rightarrow> Adoption \<Rightarrow> State \<Rightarrow> State \<times> (goerr + answer)" where
  "Adopt E p req0 pin st =
     (case adopt_inputs req0 pin of
        Some e \<Rightarrow> (st, Inl e)
      | None \<Rightarrow>
          let req = req0\<lparr>r_Description := [], r_Labels := None\<rparr>
          in case view E 5 (adopt_precheck p req pin) st of
               (st1, Inl e) \<Rightarrow> (st1, Inl e)
             | (st1, Inr _) \<Rightarrow>
                 (case reserve E p req (r_AllocationKey req) (Some pin) st1 of
                    (st2, Inr (Some a, x, status)) \<Rightarrow>
                      (case adoptedAs a pin of
                         Some e \<Rightarrow> (st2, Inl e)
                       | None \<Rightarrow> (st2, Inr (Some a, x, status)))
                  | other \<Rightarrow> other))"

section \<open>Reads and the metadata patch\<close>

definition not_found :: goerr where
  "not_found = apiErr 404 ''not_found'' ''allocation not found''"

definition pendingAllocationError :: "string \<Rightarrow> goerr" where
  "pendingAllocationError operationID =
     APIErr ((Err 409 ''allocation_pending''
       ''The allocation is not yet committed; its reservation is still being worked on. Read the named operation.'')
       \<lparr>e_Retryable := True, e_Details := [(''operation_id'', operationID)]\<rparr>)"

definition Get :: "Principal \<Rightarrow> string \<Rightarrow> State \<Rightarrow> goerr + Allocation" where
  "Get p i st =
     (case mget (Allocations st) i of
        None \<Rightarrow> Inl not_found
      | Some a \<Rightarrow>
          if \<not> IsOperator p \<and> a_TenantID a \<noteq> p_TenantID p then Inl not_found
          else if a_Committed a then Inr a
          else if IsOperator p then Inl not_found
          else case pendingForAllocation st i of
            Some x \<Rightarrow> Inl (pendingAllocationError (o_ID x))
          | None \<Rightarrow> Inl not_found)"

definition ListAllocations :: "Principal \<Rightarrow> State \<Rightarrow> Allocation list" where
  "ListAllocations p st =
     sort_by a_ID (filter (\<lambda>a. (IsOperator p \<or> a_TenantID a = p_TenantID p) \<and> a_Committed a)
       (mvals (Allocations st)))"

definition GetOperation :: "Principal \<Rightarrow> string \<Rightarrow> State \<Rightarrow> goerr + Operation" where
  "GetOperation p i st =
     (case mget (Operations st) i of
        None \<Rightarrow> Inl (apiErr 404 ''not_found'' ''operation not found'')
      | Some x \<Rightarrow>
          if o_TenantID x \<noteq> p_TenantID p then Inl (apiErr 404 ''not_found'' ''operation not found'')
          else Inr x)"

definition Pools :: "Config \<Rightarrow> Principal \<Rightarrow> Pool list" where
  "Pools cfg p =
     sort_by pl_ID (filter (\<lambda>pool. IsOperator p \<or> eligibleString (pl_EligibleTenants pool) (p_TenantID p))
       (c_Pools cfg))"

definition patch_path :: "string \<Rightarrow> string" where
  "patch_path i = ''/v1/allocations/'' @ i"

definition patched_allocation ::
  "Allocation \<Rightarrow> string option \<Rightarrow> string gomap option option \<Rightarrow> goerr + Allocation" where
  "patched_allocation a description labels =
     (case (case description of
              None \<Rightarrow> Inr a
            | Some d \<Rightarrow>
                if 512 < length d then Inl (apiErr 422 ''invalid_request'' ''description is too long'')
                else Inr (a\<lparr>a_Request := (a_Request a)\<lparr>r_Description := d\<rparr>\<rparr>)) of
        Inl e \<Rightarrow> Inl e
      | Inr a1 \<Rightarrow>
          (case labels of
             None \<Rightarrow> Inr a1
           | Some l \<Rightarrow>
               (case validateLabels l of
                  Some e \<Rightarrow> Inl e
                | None \<Rightarrow> Inr (a1\<lparr>a_Request := (a_Request a1)\<lparr>r_Labels := cloneLabels l\<rparr>\<rparr>))))"

definition Patch_txn ::
  "Env \<Rightarrow> Principal \<Rightarrow> string \<Rightarrow> string option \<Rightarrow> string gomap option option \<Rightarrow> int \<Rightarrow> string \<Rightarrow>
   Allocation txn" where
  "Patch_txn E p i description labels etag key st =
     (let h = patchHash (v_K E) i description labels etag;
          rid = idempotencyID (v_K E) (p_TenantID p) ''PATCH'' (patch_path i) key
      in case mget (Requests st) rid of
           Some old \<Rightarrow>
             if i_Hash old \<noteq> h then
               Inl (apiErr 409 ''idempotency_mismatch''
                 ''the idempotency key was used with a different request'')
             else
               let a = allocation_at st i
               in if a_ID a = [] \<or> a_TenantID a \<noteq> p_TenantID p \<or> \<not> a_Committed a then Inl not_found
                  else Inr (st, a)
         | None \<Rightarrow>
             (case mget (Allocations st) i of
                None \<Rightarrow> Inl not_found
              | Some a \<Rightarrow>
                  if a_TenantID a \<noteq> p_TenantID p \<or> \<not> a_Committed a then Inl not_found
                  else if a_State a = Quarantined \<or> a_State a = Released then
                    Inl (apiErr 409 ''allocation_key_retired'' ''released allocations cannot be changed'')
                  else if a_Revision a \<noteq> etag then
                    Inl (apiErr 412 ''revision_conflict'' ''allocation revision does not match If-Match'')
                  else if description = None \<and> labels = None then
                    Inl (apiErr 422 ''invalid_request'' ''patch must include description or labels'')
                  else
                    (case patched_allocation a description labels of
                       Inl e \<Rightarrow> Inl e
                     | Inr a1 \<Rightarrow>
                         let a2 = a1\<lparr>a_Revision := a_Revision a1 + 1, a_UpdatedAt := v_now E 0\<rparr>
                         in Inr (st\<lparr>Allocations := mput i a2 (Allocations st),
                              Requests := mput rid \<lparr>i_TenantID = p_TenantID p, i_Method = ''PATCH'',
                                i_Path = patch_path i, i_Key = key, i_Hash = h,
                                i_AllocationID = i, i_OperationID = []\<rparr> (Requests st),
                              Events := Events st @ [\<lparr>ev_ID = fresh E ''evt'' 0,
                                ev_AllocationID = i, ev_TenantID = p_TenantID p,
                                ev_Actor = p_Subject p, ev_Action = ''PATCH'',
                                ev_Reason = ''mutable metadata updated'', ev_At = v_now E 0,
                                ev_Revision = a_Revision a2\<rparr>]\<rparr>, a2))))"

definition Patch ::
  "Env \<Rightarrow> Principal \<Rightarrow> string \<Rightarrow> string option \<Rightarrow> string gomap option option \<Rightarrow> int \<Rightarrow> string \<Rightarrow>
   State \<Rightarrow> State \<times> (goerr + Allocation)" where
  "Patch E p i description labels etag key st =
     (if key = [] then
        (st, Inl (apiErr 400 ''idempotency_key_required'' ''idempotency key is required''))
      else update E 0 (Patch_txn E p i description labels etag key) st)"

end
