(* ===== verification/Binding.thy ===== *)
theory Binding
  imports Reserve
begin

text \<open>
  Binding an allocation to the cloud resource that uses it (\<open>Bind\<close>, \<open>finishBinding\<close>): the ledger read
  that recognises a repeat, the transaction that persists the verification, and the transaction that
  makes a reserved allocation active once a trusted observation shows exactly the claimed resource.
\<close>

text \<open>
  What the first read of \<open>Bind\<close> carries out of its closure: the allocation key and the expected
  CIDR, zone and parent, then either the allocation that is already bound, a pending verification of
  the same candidate, or the latest stored observation of its domain.
\<close>

record BindRead =
  br_Key :: string
  br_CIDR :: string
  br_AZ :: string
  br_Parent :: string
  br_Out :: "Allocation option"
  br_Op :: "Operation option"
  br_Obs :: "(string \<times> Observation) option"

definition bind_parent :: "State \<Rightarrow> Allocation \<Rightarrow> string" where
  "bind_parent st a =
     (if a_ParentAllocationID a \<noteq> [] then parent_resource st (a_ParentAllocationID a) else [])"

definition bind_read :: "Principal \<Rightarrow> string \<Rightarrow> Binding \<Rightarrow> State \<Rightarrow> goerr + BindRead" where
  "bind_read p i b st =
     (case mget (Allocations st) i of
        None \<Rightarrow> Inl not_found
      | Some a \<Rightarrow>
          if a_TenantID a \<noteq> p_TenantID p \<or> \<not> a_Committed a then Inl not_found
          else
            let base = \<lparr>br_Key = a_AllocationKey a, br_CIDR = a_CIDR a,
                        br_AZ = a_AvailabilityZoneID a, br_Parent = bind_parent st a,
                        br_Out = None, br_Op = None, br_Obs = None\<rparr>
            in if b_Provider b \<noteq> ''aws'' \<or> b_ResourceType b \<noteq> a_Scope a \<or> b_ResourceID b = []
                  \<or> b_AccountID b \<noteq> a_AccountID a \<or> b_Region b \<noteq> a_Region a then
                 Inl (apiErr 422 ''invalid_request''
                   ''binding candidate does not match the allocation target'')
               else (case a_Binding a of
                 Some bound \<Rightarrow>
                   if sameBinding bound b then Inr (base\<lparr>br_Out := Some a\<rparr>)
                   else Inl (apiErr 409 ''binding_conflict''
                          ''allocation already has a different binding'')
               | None \<Rightarrow>
                   (let rest = Inr (base\<lparr>br_Obs :=
                          map_option (\<lambda>ob. (a_DomainID a, ob)) (last_opt (observations_at st (a_DomainID a)))\<rparr>)
                    in case pendingForAllocation st i of
                         None \<Rightarrow> rest
                       | Some x \<Rightarrow>
                           if o_Type x = bindOperation
                              \<and> (case o_Candidate x of None \<Rightarrow> False | Some c \<Rightarrow> sameBinding c b)
                           then Inr (base\<lparr>br_Op := Some x\<rparr>)
                           else if o_Type x = bindOperation then
                             Inl (apiErr 409 ''binding_conflict''
                               ''a different binding verification is already pending'')
                           else rest)))"

definition bind_path :: "string \<Rightarrow> string" where
  "bind_path i = ''/v1/allocations/'' @ i @ ''/binding''"

definition binding_operation :: "Env \<Rightarrow> Principal \<Rightarrow> string \<Rightarrow> Binding \<Rightarrow> Allocation \<Rightarrow> Operation" where
  "binding_operation E p i b a =
     zero_Operation\<lparr>o_ID := fresh E ''op'' 0, o_Type := bindOperation,
       o_Status := operationPending, o_AllocationID := i, o_TenantID := p_TenantID p,
       o_DomainID := a_DomainID a, o_Candidate := Some b, o_CreatedAt := v_now E 0,
       o_UpdatedAt := v_now E 0\<rparr>"

definition bind_plan ::
  "Env \<Rightarrow> Principal \<Rightarrow> string \<Rightarrow> Binding \<Rightarrow> string \<Rightarrow> Operation option \<Rightarrow> Operation option txn" where
  "bind_plan E p i b key op0 st =
     (let rid = idempotencyID (v_K E) (p_TenantID p) ''PUT'' (bind_path i) key;
          h = bindingHash (v_K E) i b
      in case mget (Allocations st) i of
           None \<Rightarrow> Inl not_found
         | Some a \<Rightarrow>
             if a_TenantID a \<noteq> p_TenantID p \<or> \<not> a_Committed a then Inl not_found
             else if a_State a = Quarantined \<or> a_State a = Released then
               Inl (apiErr 409 ''allocation_key_retired'' ''allocation cannot be rebound'')
             else case mget (Requests st) rid of
               Some old \<Rightarrow>
                 if i_Hash old \<noteq> h then
                   Inl (apiErr 409 ''idempotency_mismatch''
                     ''the idempotency key was used with a different request'')
                 else Inr (st, (case pendingForAllocation st i of Some x \<Rightarrow> Some x | None \<Rightarrow> op0))
             | None \<Rightarrow>
                 (case pendingForAllocation st i of
                    Some x \<Rightarrow> Inr (st, Some x)
                  | None \<Rightarrow>
                      let x = binding_operation E p i b a
                      in Inr (st\<lparr>Operations := mput (o_ID x) x (Operations st),
                            Requests := mput rid \<lparr>i_TenantID = p_TenantID p, i_Method = ''PUT'',
                              i_Path = bind_path i, i_Key = key, i_Hash = h, i_AllocationID = i,
                              i_OperationID = o_ID x\<rparr> (Requests st)\<rparr>, Some x)))"

definition bound_allocation :: "Allocation \<Rightarrow> Binding \<Rightarrow> time \<Rightarrow> Allocation" where
  "bound_allocation a b now =
     a\<lparr>a_Binding := Some b, a_State := Active, a_InventorySync := ''PENDING'',
       a_Revision := a_Revision a + 1, a_UpdatedAt := now\<rparr>"

definition finish_binding_txn ::
  "Env \<Rightarrow> string \<Rightarrow> Operation \<Rightarrow> Binding \<Rightarrow> (Allocation \<times> Operation) txn" where
  "finish_binding_txn E i op0 b0 st =
     (let now = v_now E 5; b = b0\<lparr>b_VerifiedAt := Some now\<rparr>
      in case mget (Allocations st) i of
           None \<Rightarrow> Inl not_found
         | Some x \<Rightarrow>
             if a_State x \<noteq> Reserved \<or> a_Binding x \<noteq> None then
               Inl (apiErr 409 ''binding_conflict'' ''allocation is no longer available for binding'')
             else
               let opn = operation_at st (o_ID op0)
               in if o_Status opn \<noteq> operationPending
                     \<or> (case o_Candidate opn of None \<Rightarrow> True | Some c \<Rightarrow> \<not> sameBinding c b) then
                    Inl (apiErr 409 ''binding_conflict'' ''binding operation is no longer current'')
                  else if a_Scope x = ''subnet''
                          \<and> (case mget (Allocations st) (a_ParentAllocationID x) of
                               None \<Rightarrow> True
                             | Some parent \<Rightarrow> a_State parent \<noteq> Active \<or> a_Binding parent = None) then
                    Inl (apiErr 409 ''invalid_parent'' ''parent binding is not verified'')
                  else
                    let x' = bound_allocation x b now;
                        opn' = succeeded_operation opn i now
                    in Inr (st\<lparr>Allocations := mput i x' (Allocations st),
                               Operations := mput (o_ID opn) opn' (Operations st),
                               Events := Events st @ [\<lparr>ev_ID = fresh E ''evt'' 1,
                                 ev_AllocationID = i, ev_TenantID = a_TenantID x', ev_Actor = [],
                                 ev_Action = ''BIND'', ev_Reason = ''cloud binding verified'',
                                 ev_At = now, ev_Revision = a_Revision x'\<rparr>]\<rparr>, (x', opn')))"

definition finishBinding ::
  "Env \<Rightarrow> string \<Rightarrow> Operation \<Rightarrow> Binding \<Rightarrow> int \<Rightarrow> State \<Rightarrow> State \<times> (goerr + answer)" where
  "finishBinding E i x b status st =
     (case update E 2 (finish_binding_txn E i x b) st of
        (st', Inl e) \<Rightarrow> (st', Inl e)
      | (st', Inr (a, x')) \<Rightarrow> (st', Inr (Some a, Some x', status)))"

definition binding_evidence ::
  "Env \<Rightarrow> nat \<Rightarrow> Binding \<Rightarrow> string \<Rightarrow> BindRead \<Rightarrow> Domain \<Rightarrow> Observation \<Rightarrow> bool" where
  "binding_evidence E k b i br d ob \<longleftrightarrow>
     trustedObservation ob d (v_now E k) (lc_MaxObservationAge (c_Lifecycle (v_cfg E))) \<and>
     bindingObserved ob b i (br_Key br) (br_CIDR br) (br_AZ br) (br_Parent br)"

definition observed_now ::
  "Env \<Rightarrow> nat \<Rightarrow> Binding \<Rightarrow> string \<Rightarrow> BindRead \<Rightarrow> Domain \<Rightarrow> bool" where
  "observed_now E k b i br d =
     (case observe E k d of
        Inr (Some ob) \<Rightarrow> binding_evidence E (Suc k) b i br d ob
      | _ \<Rightarrow> False)"

definition Bind ::
  "Env \<Rightarrow> Principal \<Rightarrow> string \<Rightarrow> Binding \<Rightarrow> string \<Rightarrow> State \<Rightarrow> State \<times> (goerr + answer)" where
  "Bind E p i b key st =
     (if key = [] then
        (st, Inl (apiErr 400 ''idempotency_key_required'' ''idempotency key is required''))
      else case view E 0 (bind_read p i b) st of
        (st1, Inl e) \<Rightarrow> (st1, Inl e)
      | (st1, Inr br) \<Rightarrow>
          (case br_Out br of
             Some a \<Rightarrow> (st1, Inr (Some a, None, 200))
           | None \<Rightarrow>
               (case update E 1 (bind_plan E p i b key (br_Op br)) st1 of
                  (st2, Inl e) \<Rightarrow> (st2, Inl e)
                | (st2, Inr None) \<Rightarrow>
                    (st2, Inl (apiErr 503 ''ledger_error'' ''binding operation was not persisted''))
                | (st2, Inr (Some x)) \<Rightarrow>
                    let d = domainFor (v_cfg E) (o_DomainID x)
                    in if (case br_Obs br of
                             None \<Rightarrow> False
                           | Some (k, ob) \<Rightarrow> k = o_DomainID x \<and> binding_evidence E 1 b i br d ob)
                       then (if observed_now E 1 b i br d then finishBinding E i x b 200 st2
                             else (st2, Inr (None, Some x, 202)))
                       else if v_observer E \<noteq> None \<and> observed_now E 2 b i br d
                       then (if observed_now E 3 b i br d then finishBinding E i x b 200 st2
                             else (st2, Inr (None, Some x, 202)))
                       else (st2, Inr (None, Some x, 202)))))"

end
