(* ===== verification/Reclaim.thy ===== *)
theory Reclaim
  imports Binding
begin

text \<open>
  Release and reclamation: \<open>Release\<close> starts a quarantine, \<open>reclaimEligible\<close> and \<open>reclaimFence\<close> decide
  when enough complete observations show the space unused, and \<open>reclaimTick\<close> plans the deletion,
  deletes the inventory object, verifies its absence and only then returns the space.
\<close>

section \<open>Conflicts\<close>

definition snapshotConflict :: "Allocation \<Rightarrow> InventorySnapshot \<Rightarrow> bool" where
  "snapshotConflict a snap =
     (case ParsePrefix (a_CIDR a) of
        None \<Rightarrow> True
      | Some cidr \<Rightarrow>
          list_ex (\<lambda>n. case ParsePrefix (n_CIDR n) of
              None \<Rightarrow> False
            | Some q \<Rightarrow>
                Overlaps cidr q \<and> \<not> (n_ParentPool n \<or> n_AllocationID n = a_ID a) \<and>
                \<not> (a_Scope a = ''subnet'' \<and> n_AllocationID n = a_ParentAllocationID a
                     \<and> Contains q (ip cidr)))
            (sn_Networks snap))"

definition observationConflict :: "Allocation \<Rightarrow> Observation \<Rightarrow> string \<Rightarrow> bool" where
  "observationConflict a ob parentAWSID =
     (case ParsePrefix (a_CIDR a) of
        None \<Rightarrow> True
      | Some cidr \<Rightarrow>
          list_ex (\<lambda>r. list_ex (\<lambda>raw. case ParsePrefix raw of
                None \<Rightarrow> False
              | Some q \<Rightarrow>
                  Overlaps cidr q \<and>
                  \<not> (a_Scope a = ''subnet'' \<and> x_Type r = ''vpc'' \<and> parentAWSID \<noteq> []
                       \<and> x_ID r = parentAWSID \<and> x_AccountID r = a_AccountID a
                       \<and> x_Region r = a_Region a))
              (x_CIDR r # x_CIDRs r))
            (ob_Resources ob))"

section \<open>Release\<close>

definition child_blocks_release :: "State \<Rightarrow> string \<Rightarrow> Allocation \<Rightarrow> bool" where
  "child_blocks_release st i child \<longleftrightarrow>
     a_ParentAllocationID child = i \<and>
     ((\<not> a_Committed child \<and> a_State child \<noteq> Released) \<or> a_State child = Reserved
      \<or> a_State child = Active \<or> pendingForAllocation st (a_ID child) \<noteq> None)"

definition quarantine_hours :: "Config \<Rightarrow> int" where
  "quarantine_hours cfg =
     (let h = lc_QuarantineHours (c_Lifecycle cfg) in if h \<le> 0 then 24 * 7 else h)"

definition fail_pending_bindings :: "string \<Rightarrow> time \<Rightarrow> Operation gomap \<Rightarrow> Operation gomap" where
  "fail_pending_bindings i now ops =
     map (\<lambda>(k, x). (k,
       if o_AllocationID x = i \<and> o_Status x = operationPending \<and> o_Type x = bindOperation
       then x\<lparr>o_Status := operationFailed,
              o_Error := Some (Err 409 ''allocation_key_retired''
                ''Allocation was released during binding verification.''),
              o_UpdatedAt := now\<rparr>
       else x)) ops"

definition quarantined_allocation :: "Allocation \<Rightarrow> time \<Rightarrow> time \<Rightarrow> Allocation" where
  "quarantined_allocation a now until =
     a\<lparr>a_State := Quarantined, a_InventorySync := ''PENDING'', a_ReleaseRequestedAt := Some now,
       a_QuarantineUntil := Some until, a_UpdatedAt := now, a_Revision := a_Revision a + 1,
       a_ReleaseBlockers := [''quarantine_not_elapsed'']\<rparr>"

definition release_txn :: "Env \<Rightarrow> Principal \<Rightarrow> string \<Rightarrow> Allocation txn" where
  "release_txn E p i st =
     (case mget (Allocations st) i of
        None \<Rightarrow> Inl not_found
      | Some a \<Rightarrow>
          if a_TenantID a \<noteq> p_TenantID p \<or> \<not> a_Committed a then Inl not_found
          else if a_State a = Released then Inr (st, a)
          else if a_State a = Quarantined then Inr (st, a)
          else if list_ex (child_blocks_release st i) (mvals (Allocations st)) then
            Inl (apiErr 409 ''children_present'' ''allocation has unreleased children'')
          else
            let now = v_now E 0; until = now + Hours (quarantine_hours (v_cfg E));
                a' = quarantined_allocation a now until
            in Inr (st\<lparr>Operations := fail_pending_bindings i now (Operations st),
                       Allocations := mput i a' (Allocations st),
                       Events := Events st @ [\<lparr>ev_ID = fresh E ''evt'' 0, ev_AllocationID = i,
                         ev_TenantID = p_TenantID p, ev_Actor = p_Subject p,
                         ev_Action = ''RELEASE_REQUESTED'', ev_Reason = ''consumer release intent'',
                         ev_At = now, ev_Revision = a_Revision a'\<rparr>]\<rparr>, a'))"

definition Release ::
  "Env \<Rightarrow> Principal \<Rightarrow> string \<Rightarrow> State \<Rightarrow> State \<times> (goerr + Allocation \<times> int)" where
  "Release E p i st =
     (case update E 0 (release_txn E p i) st of
        (st', Inl e) \<Rightarrow> (st', Inl e)
      | (st', Inr a) \<Rightarrow> (st', Inr (a, (if a_State a = Released then 204 else 202))))"

section \<open>Eligibility\<close>

text \<open>The scan over the stored observations, newest first.\<close>

fun absence_scan ::
  "Observation list \<Rightarrow> (Observation \<Rightarrow> bool) \<Rightarrow> int \<Rightarrow> duration \<Rightarrow> int \<Rightarrow> time \<Rightarrow> bool" where
  "absence_scan [] bad need spacing count previous = False"
| "absence_scan (ob # obs) bad need spacing count previous =
     (if bad ob then False
      else
        let take_it = (count = 0 \<or> spacing \<le> Sub previous (ob_FinishedAt ob));
            count' = (if take_it then count + 1 else count);
            previous' = (if take_it then ob_FinishedAt ob else previous)
        in if need \<le> count' then True else absence_scan obs bad need spacing count' previous')"

definition scans_needed :: "Config \<Rightarrow> int" where
  "scans_needed cfg = (let n = lc_RequiredAbsenceScans (c_Lifecycle cfg) in if n < 2 then 2 else n)"

definition scan_spacing :: "Config \<Rightarrow> int" where
  "scan_spacing cfg = (let n = lc_MinScanSpacing (c_Lifecycle cfg) in if n < 1 then 300 else n)"

definition parent_binding_resource :: "State \<Rightarrow> Allocation \<Rightarrow> string" where
  "parent_binding_resource st a =
     (case a_Binding (allocation_at st (a_ParentAllocationID a)) of
        None \<Rightarrow> [] | Some b \<Rightarrow> b_ResourceID b)"

definition scan_rejects ::
  "State \<Rightarrow> Allocation \<Rightarrow> Config \<Rightarrow> time \<Rightarrow> time \<Rightarrow> Observation \<Rightarrow> bool" where
  "scan_rejects st a cfg now requested ob \<longleftrightarrow>
     \<not> trustedObservation ob (domainFor cfg (a_DomainID a)) now
         (lc_MaxObservationAge (c_Lifecycle cfg))
     \<or> ob_StartedAt ob < requested
     \<or> observationConflict a ob (parent_binding_resource st a)"

definition reclaimEligible :: "State \<Rightarrow> Allocation \<Rightarrow> Config \<Rightarrow> time \<Rightarrow> bool" where
  "reclaimEligible st a cfg now =
     (case (a_ReleaseRequestedAt a, a_QuarantineUntil a) of
        (Some requested, Some until) \<Rightarrow>
          if a_State a \<noteq> Quarantined \<or> \<not> a_Committed a \<or> now < until then False
          else if list_ex (\<lambda>child. a_ParentAllocationID child = a_ID a \<and> a_State child \<noteq> Released)
                    (mvals (Allocations st)) then False
          else if list_ex (\<lambda>x. o_DomainID x = a_DomainID a \<and> o_Status x = operationPending)
                    (mvals (Operations st)) then False
          else if observations_at st (a_DomainID a) = [] then False
          else absence_scan (rev (observations_at st (a_DomainID a)))
                 (scan_rejects st a cfg now requested) (scans_needed cfg)
                 (Seconds (scan_spacing cfg)) 0 0
      | _ \<Rightarrow> False)"

definition reclaimFence :: "State \<Rightarrow> Allocation \<Rightarrow> string \<Rightarrow> Config \<Rightarrow> time \<Rightarrow> bool" where
  "reclaimFence st a operationID cfg now =
     (let current = operation_at st operationID
      in if o_Status current \<noteq> operationPending \<or> o_Type current \<noteq> reclaimOperation
            \<or> o_AllocationID current \<noteq> a_ID a then False
         else reclaimEligible (st\<lparr>Operations := mdel operationID (Operations st)\<rparr>) a cfg now)"

section \<open>The reclamation pass\<close>

type_synonym reclaim_job = "Allocation \<times> Operation"

definition reclaim_pending :: "State \<Rightarrow> reclaim_job list" where
  "reclaim_pending st =
     concat (map (\<lambda>x.
       if o_Type x \<noteq> reclaimOperation \<or> o_Status x \<noteq> operationPending then []
       else case mget (Allocations st) (o_AllocationID x) of
         Some a \<Rightarrow> if a_State a = Quarantined then [(a, x)] else []
       | None \<Rightarrow> []) (mvals (Operations st)))"

definition reclaim_operation :: "Env \<Rightarrow> time \<Rightarrow> nat \<Rightarrow> Allocation \<Rightarrow> Operation" where
  "reclaim_operation E now k a =
     zero_Operation\<lparr>o_ID := fresh E ''op'' (2 * k), o_Type := reclaimOperation,
       o_Status := operationPending, o_AllocationID := a_ID a, o_TenantID := a_TenantID a,
       o_DomainID := a_DomainID a, o_CreatedAt := now, o_UpdatedAt := now\<rparr>"

definition reclaim_plan_one ::
  "Env \<Rightarrow> time \<Rightarrow> nat \<times> Allocation \<Rightarrow> State \<times> reclaim_job list \<Rightarrow> State \<times> reclaim_job list" where
  "reclaim_plan_one E now ka acc =
     (case (ka, acc) of ((k, a), (st, jobs)) \<Rightarrow>
       if a_State a \<noteq> Quarantined \<or> \<not> a_Committed a \<or> \<not> reclaimEligible st a (v_cfg E) now then (st, jobs)
       else
         let x = reclaim_operation E now k a;
             a' = a\<lparr>a_ReleaseBlockers := [''pending_operation''], a_UpdatedAt := now\<rparr>;
             st1 = st\<lparr>Operations := mput (o_ID x) x (Operations st),
                      Allocations := mput (a_ID a) a' (Allocations st)\<rparr>
         in (workerEvent st1 a' (fresh E ''evt'' (2 * k + 1)) ''reclaim_planned''
               ''Persisted exact inventory deletion intent.'' now, jobs @ [(a', x)]))"

definition reclaim_plan :: "Env \<Rightarrow> reclaim_job list txn" where
  "reclaim_plan E st =
     Inr (fold (reclaim_plan_one E (v_now E 0)) (enumerate 0 (mvals (Allocations st)))
       (st, reclaim_pending st))"

definition reclaim_fence_read :: "Env \<Rightarrow> nat \<Rightarrow> reclaim_job \<Rightarrow> State \<Rightarrow> goerr + bool \<times> string" where
  "reclaim_fence_read E k job st =
     Inr (reclaimFence st (allocation_at st (a_ID (fst job))) (o_ID (snd job)) (v_cfg E) (v_now E k),
          parent_binding_resource st (fst job))"

definition post_delete_bad ::
  "Env \<Rightarrow> nat \<Rightarrow> Allocation \<Rightarrow> goerr + InventorySnapshot \<Rightarrow> Observation option \<Rightarrow> string \<Rightarrow> bool" where
  "post_delete_bad E k a post postObs parentAWSID =
     ((case post of Inl _ \<Rightarrow> True | Inr sn \<Rightarrow> \<not> sn_Complete sn \<or> snapshotConflict a sn)
      \<or> (case postObs of
           None \<Rightarrow> True
         | Some ob \<Rightarrow>
             \<not> trustedObservation ob (domainFor (v_cfg E) (a_DomainID a)) (v_now E k)
                 (lc_MaxObservationAge (c_Lifecycle (v_cfg E)))
             \<or> observationConflict a ob parentAWSID))"

definition record_optional :: "State \<Rightarrow> Observation option \<Rightarrow> State" where
  "record_optional st ob = (case ob of None \<Rightarrow> st | Some x \<Rightarrow> recordObservation st x)"

definition released_allocation :: "Allocation \<Rightarrow> time \<Rightarrow> Allocation" where
  "released_allocation a now =
     a\<lparr>a_State := Released, a_InventorySync := ''CURRENT'', a_ReleaseBlockers := [],
       a_UpdatedAt := now, a_Revision := a_Revision a + 1\<rparr>"

definition reclaim_wait ::
  "State \<Rightarrow> Allocation \<Rightarrow> Operation \<Rightarrow> time \<Rightarrow> Observation option \<Rightarrow> State" where
  "reclaim_wait st a x now postObs =
     record_optional
       (st\<lparr>Allocations := mput (a_ID a) (a\<lparr>a_ReleaseBlockers := [''post_delete_verification_pending'']\<rparr>)
              (Allocations st),
           Operations := mput (o_ID x) (x\<lparr>o_UpdatedAt := now\<rparr>) (Operations st)\<rparr>) postObs"

definition reclaim_finish ::
  "Env \<Rightarrow> nat \<Rightarrow> reclaim_job \<Rightarrow> bool \<Rightarrow> goerr + InventorySnapshot \<Rightarrow> Observation option \<Rightarrow> string \<Rightarrow>
   unit txn" where
  "reclaim_finish E k job failed post postObs parentAWSID st =
     (let x = operation_at st (o_ID (snd job)); a = allocation_at st (a_ID (fst job));
          now = v_now E (k + 2)
      in if failed then Inr (reclaim_wait st a x (v_now E k) postObs, ())
         else if \<not> reclaimFence st a (o_ID (snd job)) (v_cfg E) (v_now E k)
                 \<or> post_delete_bad E (k + 1) a post postObs parentAWSID then
           Inr (reclaim_wait st a x now postObs, ())
         else
           let a' = released_allocation a now;
               x' = succeeded_operation x (a_ID a) now;
               st1 = st\<lparr>Allocations := mput (a_ID a) a' (Allocations st),
                        Operations := mput (o_ID x) x' (Operations st)\<rparr>
           in Inr (workerEvent st1 a' (fresh E ''evt'' k) ''released''
                     ''Inventory deletion and fresh absence confirmed.'' now, ()))"

text \<open>
  One job. The accesses and clock readings of job \<open>k\<close> are numbered from \<open>10 * (k + 1)\<close>; its adapter
  calls are numbered \<open>2 * k\<close> and \<open>2 * k + 1\<close>.
\<close>

definition reclaim_run ::
  "Env \<Rightarrow> nat \<Rightarrow> reclaim_job \<Rightarrow> State \<Rightarrow> State \<times> goerr option" where
  "reclaim_run E k job st =
     (case v_inventory E of
        None \<Rightarrow> (st, None)
      | Some iv \<Rightarrow>
          (case view E (10 * (k + 1)) (reclaim_fence_read E (10 * (k + 1)) job) st of
             (st1, Inr (True, parentAWSID)) \<Rightarrow>
               let d = domainFor (v_cfg E) (a_DomainID (fst job))
               in (case inv_Snapshot iv (2 * k) d of
                     Inl _ \<Rightarrow> (st1, None)
                   | Inr pre \<Rightarrow>
                       if \<not> sn_Complete pre \<or> snapshotConflict (fst job) pre then (st1, None)
                       else
                         let del = inv_Delete iv k (fst job);
                             post = inv_Snapshot iv (2 * k + 1) d;
                             postObs = (case observe E k d of Inl _ \<Rightarrow> None | Inr ob \<Rightarrow> ob);
                             failed = (del \<noteq> None
                               \<or> post_delete_bad E (10 * (k + 1) + 1) (fst job) post postObs parentAWSID)
                         in (case update E (10 * (k + 1) + 1)
                                (reclaim_finish E (10 * (k + 1) + 2) job failed post postObs parentAWSID)
                                st1 of
                               (st2, Inl e) \<Rightarrow> (st2, Some e)
                             | (st2, Inr _) \<Rightarrow> (st2, None)))
           | (st1, _) \<Rightarrow> (st1, None)))"

fun reclaim_jobs :: "Env \<Rightarrow> nat \<Rightarrow> reclaim_job list \<Rightarrow> State \<Rightarrow> State \<times> goerr option" where
  "reclaim_jobs E k [] st = (st, None)"
| "reclaim_jobs E k (job # jobs) st =
     (case reclaim_run E k job st of
        (st', Some e) \<Rightarrow> (st', Some e)
      | (st', None) \<Rightarrow> reclaim_jobs E (Suc k) jobs st')"

definition reclaimTick :: "Env \<Rightarrow> State \<Rightarrow> State \<times> goerr option" where
  "reclaimTick E st =
     (case update E 0 (reclaim_plan E) st of
        (st', Inl e) \<Rightarrow> (st', Some e)
      | (st', Inr jobs) \<Rightarrow> reclaim_jobs E 0 jobs st')"

end
