(* ===== verification/Withdraw.thy ===== *)
theory Withdraw
  imports Reclaim
begin

text \<open>
  Withdrawing an uncommitted hold: a tenant's cancel of a stuck reservation
  (\<open>internal/service/cancel.go\<close>) and an operator's abandon of an adoption
  (\<open>internal/service/abandon.go\<close>). Both fence the operation in one transaction, remove the inventory
  object outside any transaction, twice, and delete the allocation row in a second transaction. The
  contract they share is the locale \<open>withdrawal\<close> of theory \<open>Fence\<close>.
\<close>

section \<open>Cancelling a reservation\<close>

definition reservationCancelledAction :: string where
  "reservationCancelledAction = ''RESERVE_CANCELLED''"

definition cancelledOperationMessage :: string where
  "cancelledOperationMessage =
     ''Reservation cancelled by the tenant that requested it; the uncommitted hold was withdrawn.''"

record HoldReport =
  h_ID :: string
  h_AllocationKey :: string
  h_TenantID :: string
  h_DomainID :: string
  h_CIDR :: string
  h_State :: AllocState
  h_Committed :: bool

definition hold_report :: "Allocation \<Rightarrow> HoldReport" where
  "hold_report a =
     \<lparr>h_ID = a_ID a, h_AllocationKey = a_AllocationKey a, h_TenantID = a_TenantID a,
      h_DomainID = a_DomainID a, h_CIDR = a_CIDR a, h_State = a_State a, h_Committed = a_Committed a\<rparr>"

record OperationReport =
  q_ID :: string
  q_Type :: OpType
  q_Status :: OpStatus

definition operation_report :: "Operation \<Rightarrow> OperationReport" where
  "operation_report x = \<lparr>q_ID = o_ID x, q_Type = o_Type x, q_Status = o_Status x\<rparr>"

record CancelReport =
  cr_At :: time
  cr_Actor :: string
  cr_Allocation :: HoldReport
  cr_Operation :: OperationReport
  cr_Fenced :: bool
  cr_AlreadyFenced :: bool
  cr_Removed :: bool
  cr_Deleted :: bool
  cr_FindingResolved :: bool

record cancelTarget =
  t_allocation :: Allocation
  t_operation :: Operation
  t_finding :: Finding
  t_alreadyFenced :: bool
  t_done :: bool

definition zero_cancelTarget :: cancelTarget where
  "zero_cancelTarget = \<lparr>t_allocation = zero_Allocation, t_operation = zero_Operation,
     t_finding = zero_Finding, t_alreadyFenced = False, t_done = False\<rparr>"

definition cancelFenced :: "Operation \<Rightarrow> bool" where
  "cancelFenced x = fencedWith x reservationCancelledCode"

definition operation_not_found :: goerr where
  "operation_not_found = apiErr 404 ''not_found'' ''operation not found''"

text \<open>The status switch of \<open>cancelCheck\<close> and the stuck finding it asks of a hold not yet fenced.\<close>

definition not_stuck :: "Allocation \<Rightarrow> goerr" where
  "not_stuck a =
     apiErr 409 ''reservation_not_stuck'' (''no open '' @ reservationStuckCode
       @ '' finding names allocation '' @ a_ID a
       @ '': only a hold the platform itself has declared stuck can be cancelled, and a reservation that is merely slow, still being created, or refused for a reason the platform could not verify is not one'')"

definition cancel_open_finding :: "Crypto \<Rightarrow> State \<Rightarrow> Allocation \<Rightarrow> goerr + Finding" where
  "cancel_open_finding K st a =
     (case mget (Findings st) (findingID K reservationStuckCode (a_ID a)) of
        Some f \<Rightarrow> if f_Status f \<noteq> ''OPEN'' then Inl (not_stuck a) else Inr f
      | None \<Rightarrow> Inl (not_stuck a))"

definition cancel_status :: "Operation \<Rightarrow> goerr + bool" where
  "cancel_status x =
     (if o_Status x = operationPending then Inr False
      else if cancelFenced x then Inr True
      else if o_Status x = operationSucceeded then
        Inl (apiErr 409 ''cancel_operation_succeeded'' (''operation '' @ o_ID x
          @ '' has already succeeded: the commit won the race and this allocation is now owned. Release it with DELETE /v1/allocations/{id}''))
      else Inl (apiErr 409 ''cancel_operation_terminal'' (''operation '' @ o_ID x
          @ '' is already in terminal status '' @ op_status_text (o_Status x)
          @ '', which this cancel did not write'')))"

definition cancel_wrong_type :: "Operation \<Rightarrow> goerr" where
  "cancel_wrong_type x =
     apiErr 409 ''cancel_not_a_reservation''
       (''operation '' @ o_ID x @ '' is a '' @ op_type_text (o_Type x) @ '' rather than a RESERVE''
        @ (if o_Type x = adoptOperation then
             ''; withdrawing an uncommitted adoption is an operator's `platform-ipam adopt abandon` (ADR 0012), never a consumer's cancel''
           else []))"

definition cancelCheck :: "Crypto \<Rightarrow> State \<Rightarrow> Principal \<Rightarrow> string \<Rightarrow> goerr + cancelTarget" where
  "cancelCheck K st p operationID =
     (case mget (Operations st) operationID of
        None \<Rightarrow> Inl operation_not_found
      | Some x \<Rightarrow>
          if p_TenantID p = [] \<or> o_TenantID x \<noteq> p_TenantID p then Inl operation_not_found
          else
            case committedHoldRefusal (allocation_at st (o_AllocationID x)) ''cancel_committed'' ''cancelled'' of
              Some e \<Rightarrow> Inl e
            | None \<Rightarrow>
                (case mget (Allocations st) (o_AllocationID x) of
                   None \<Rightarrow>
                     if o_Type x = reserveOperation \<and> cancelFenced x then
                       Inr (zero_cancelTarget\<lparr>t_operation := x, t_alreadyFenced := True, t_done := True,
                         t_allocation := zero_Allocation\<lparr>a_ID := o_AllocationID x,
                           a_TenantID := o_TenantID x, a_DomainID := o_DomainID x\<rparr>\<rparr>)
                     else Inl (apiErr 409 ''cancel_no_allocation'' (''operation '' @ o_ID x
                       @ '' names allocation '' @ o_AllocationID x @ '', which the ledger does not hold''))
                 | Some a \<Rightarrow>
                     if o_Type x \<noteq> reserveOperation then Inl (cancel_wrong_type x)
                     else
                       (case cancel_status x of
                          Inl e \<Rightarrow> Inl e
                        | Inr True \<Rightarrow>
                            Inr (zero_cancelTarget\<lparr>t_allocation := a, t_operation := x,
                              t_alreadyFenced := True\<rparr>)
                        | Inr False \<Rightarrow>
                            (case cancel_open_finding K st a of
                               Inl e \<Rightarrow> Inl e
                             | Inr f \<Rightarrow>
                                 Inr (zero_cancelTarget\<lparr>t_allocation := a, t_operation := x,
                                   t_finding := f\<rparr>)))))"

definition cancelEvidence :: "Crypto \<Rightarrow> Principal \<Rightarrow> Allocation \<Rightarrow> Operation \<Rightarrow> Finding \<Rightarrow> string" where
  "cancelEvidence K p a x f =
     ''cancel requested by '' @ p_Subject p @ '': allocation '' @ a_ID a @ '' ('' @ a_CIDR a
     @ '', key '' @ go_quote K (a_AllocationKey a) @ ''), operation '' @ o_ID x @ '', ''
     @ reservationStuckCode @ '' open since '' @ rfc3339 K (f_FirstObservedAt f)
     @ '' (last observed '' @ rfc3339 K (f_LastObservedAt f) @ '')''"

text \<open>A fenced operation and the one audit event both withdrawals write.\<close>

definition fenced_operation :: "Operation \<Rightarrow> string \<Rightarrow> string \<Rightarrow> time \<Rightarrow> Operation" where
  "fenced_operation x code message now =
     x\<lparr>o_Status := operationFailed, o_Error := Some (Err 409 code message), o_UpdatedAt := now\<rparr>"

definition write_fence ::
  "Env \<Rightarrow> Operation \<Rightarrow> Allocation \<Rightarrow> string \<Rightarrow> string \<Rightarrow> string \<Rightarrow> State \<Rightarrow> State" where
  "write_fence E x a actor action reason st =
     st\<lparr>Operations := mput (o_ID x) x (Operations st),
        Events := Events st @ [\<lparr>ev_ID = fresh E ''evt'' 0, ev_AllocationID = a_ID a,
          ev_TenantID = a_TenantID a, ev_Actor = actor, ev_Action = action, ev_Reason = reason,
          ev_At = v_now E 0, ev_Revision = a_Revision a\<rparr>]\<rparr>"

definition cancel_fence :: "Env \<Rightarrow> Principal \<Rightarrow> string \<Rightarrow> cancelTarget txn" where
  "cancel_fence E p operationID st =
     (case cancelCheck (v_K E) st p operationID of
        Inl e \<Rightarrow> Inl e
      | Inr t \<Rightarrow>
          if t_alreadyFenced t then Inr (st, t)
          else
            let x = fenced_operation (t_operation t) reservationCancelledCode
                      cancelledOperationMessage (v_now E 0)
            in Inr (write_fence E x (t_allocation t) (p_Subject p) reservationCancelledAction
                      (cancelEvidence (v_K E) p (t_allocation t) (t_operation t) (t_finding t)) st,
                    t\<lparr>t_operation := x\<rparr>))"

definition drop_requests :: "string \<Rightarrow> Idempotency gomap \<Rightarrow> Idempotency gomap" where
  "drop_requests i m = filter (\<lambda>(k, r). i_AllocationID r \<noteq> i) m"

definition stuck_open :: "Crypto \<Rightarrow> State \<Rightarrow> string \<Rightarrow> string \<Rightarrow> bool" where
  "stuck_open K st code i =
     (case mget (Findings st) (findingID K code i) of
        None \<Rightarrow> False | Some f \<Rightarrow> f_Status f \<noteq> ''RESOLVED'')"

text \<open>A delete that finds the row already gone changes nothing and reports no finding.\<close>

definition cancel_delete :: "Env \<Rightarrow> cancelTarget \<Rightarrow> bool txn" where
  "cancel_delete E t st =
     (case mget (Allocations st) (a_ID (t_allocation t)) of
        None \<Rightarrow> Inr (st, False)
      | Some a \<Rightarrow>
          if a_Committed a then
            Inl (apiErr 409 ''cancel_state_changed'' (''allocation '' @ a_ID a
              @ '' committed while this cancel was running; nothing was deleted''))
          else if (case mget (Operations st) (o_ID (t_operation t)) of
                     None \<Rightarrow> True
                   | Some x \<Rightarrow> o_AllocationID x \<noteq> a_ID a \<or> \<not> cancelFenced x) then
            Inl (apiErr 409 ''cancel_state_changed''
              ''the operation this cancel fenced is no longer the terminal one it wrote; nothing was deleted, and a re-run will report the current state'')
          else
            Inr (resolveFinding (v_K E)
                   (st\<lparr>Allocations := mdel (a_ID a) (Allocations st),
                       Requests := drop_requests (a_ID a) (Requests st)\<rparr>) a reservationStuckCode,
                 stuck_open (v_K E) st reservationStuckCode (a_ID a)))"

definition cancelReport :: "time \<Rightarrow> string \<Rightarrow> cancelTarget \<Rightarrow> CancelReport" where
  "cancelReport at actor t =
     \<lparr>cr_At = at, cr_Actor = actor, cr_Allocation = hold_report (t_allocation t),
      cr_Operation = operation_report (t_operation t), cr_Fenced = (\<not> t_alreadyFenced t),
      cr_AlreadyFenced = t_alreadyFenced t, cr_Removed = False, cr_Deleted = t_done t,
      cr_FindingResolved = False\<rparr>"

definition cancelRemoveError :: "goerr \<Rightarrow> goerr" where
  "cancelRemoveError e =
     (if uncertainInventoryError e then
        apiErr 503 ''cancel_uncertain''
          (''the inventory did not say whether it removed the network this reservation created (''
           @ err_text e @ ''); nothing has been deleted and re-running this cancel is safe'')
      else
        apiErr 409 ''cancel_inventory_refused''
          (''the inventory refused to remove the network this reservation created ('' @ err_text e
           @ ''); nothing has been deleted and re-running this cancel is safe once the cause is resolved''))"

definition cancelLedgerError :: "goerr \<Rightarrow> string \<Rightarrow> goerr" where
  "cancelLedgerError e what =
     (case e of
        APIErr _ \<Rightarrow> e
      | _ \<Rightarrow> apiErr 503 ''cancel_incomplete''
               (what @ '' ('' @ err_text e @ ''); re-running this cancel is safe''))"

definition CancelReservation ::
  "Env \<Rightarrow> Principal \<Rightarrow> string \<Rightarrow> State \<Rightarrow> State \<times> CancelReport option \<times> goerr option" where
  "CancelReservation E p operationID st =
     (case ledgerReady E of
        Some e \<Rightarrow> (st, None, Some e)
      | None \<Rightarrow>
          (case v_inventory E of
             None \<Rightarrow> (st, None, Some (unavailable ''inventory adapter is not configured''))
           | Some iv \<Rightarrow>
               (case update E 0 (cancel_fence E p operationID) st of
                  (st1, Inl e) \<Rightarrow> (st1, None, Some (cancelLedgerError e ''the cancel could not be fenced''))
                | (st1, Inr t) \<Rightarrow>
                    let report = cancelReport (v_now E 1) (p_Subject p) t
                    in if t_done t then (st1, Some report, None)
                       else
                         (case inv_CancelReservation iv 0 (t_allocation t) (o_ID (t_operation t)) of
                            Some e \<Rightarrow> (st1, Some report, Some (cancelRemoveError e))
                          | None \<Rightarrow>
                              let report1 = report\<lparr>cr_Removed := True\<rparr>
                              in (case inv_CancelReservation iv 1 (t_allocation t)
                                         (o_ID (t_operation t)) of
                                    Some e \<Rightarrow> (st1, Some report1, Some (cancelRemoveError e))
                                  | None \<Rightarrow>
                                      (case update E 1 (cancel_delete E t) st1 of
                                         (st2, Inl e) \<Rightarrow>
                                           (st2, Some report1, Some (cancelLedgerError e
                                             ''the inventory object was removed but the allocation could not be deleted''))
                                       | (st2, Inr resolved) \<Rightarrow>
                                           (st2, Some (report1\<lparr>cr_Deleted := True,
                                             cr_FindingResolved := resolved\<rparr>), None)))))))"

section \<open>Abandoning an adoption\<close>

definition adoptionAbandonedAction :: string where
  "adoptionAbandonedAction = ''ADOPT_ABANDONED''"

definition abandonedOperationMessage :: string where
  "abandonedOperationMessage =
     ''Adoption abandoned by an operator; the uncommitted hold was withdrawn.''"

datatype Claim = unclaimed | this_operation | another_operation | ambiguous | unknown

record AbandonClaim =
  cl_Claim :: Claim
  cl_Count :: nat
  cl_NetworkID :: string
  cl_NetworkCIDR :: string
  cl_OperationID :: string
  cl_Reason :: string

record AbandonReport =
  ab_DryRun :: bool
  ab_At :: time
  ab_Operator :: string
  ab_Reason :: string
  ab_Allocation :: HoldReport
  ab_Operation :: OperationReport
  ab_Reviewed :: "AdoptionRecord option"
  ab_Inventory :: AbandonClaim
  ab_Fenced :: bool
  ab_AlreadyFenced :: bool
  ab_Cleared :: bool
  ab_Deleted :: bool
  ab_FindingResolved :: bool
  ab_WouldDo :: "string list"

record abandonTarget =
  u_allocation :: Allocation
  u_operation :: Operation
  u_alreadyFenced :: bool

definition abandonFenced :: "Operation \<Rightarrow> bool" where
  "abandonFenced x = fencedWith x adoptionAbandonedCode"

definition abandon_status :: "Operation \<Rightarrow> goerr + bool" where
  "abandon_status x =
     (if o_Status x = operationPending then Inr False
      else if abandonFenced x then Inr True
      else if o_Status x = operationSucceeded then
        Inl (apiErr 409 ''abandon_operation_succeeded'' (''operation '' @ o_ID x
          @ '' has already succeeded: the commit won the race and this adoption is no longer uncommitted''))
      else Inl (apiErr 409 ''abandon_operation_terminal'' (''operation '' @ o_ID x
          @ '' is already in terminal status '' @ op_status_text (o_Status x)
          @ '', which this abandon did not write'')))"

definition named_operations :: "State \<Rightarrow> string \<Rightarrow> string \<Rightarrow> Operation list" where
  "named_operations st allocationID operationID =
     filter (\<lambda>x. o_AllocationID x = allocationID \<and> (operationID = [] \<or> o_ID x = operationID))
       (mvals (Operations st))"

definition abandonCheck :: "State \<Rightarrow> string \<Rightarrow> string \<Rightarrow> goerr + abandonTarget" where
  "abandonCheck st allocationID operationID =
     (case mget (Allocations st) allocationID of
        None \<Rightarrow> Inl (apiErr 404 ''abandon_unknown_allocation''
          (''no allocation with id '' @ allocationID @ '' exists in the ledger''))
      | Some a \<Rightarrow>
          (case committedHoldRefusal a ''abandon_committed'' ''abandoned'' of
             Some e \<Rightarrow> Inl e
           | None \<Rightarrow>
               (case named_operations st (a_ID a) operationID of
                  [] \<Rightarrow>
                    if operationID \<noteq> [] then
                      Inl (apiErr 409 ''abandon_operation_mismatch'' (''operation '' @ operationID
                        @ '' does not name allocation '' @ a_ID a))
                    else
                      Inl (apiErr 409 ''abandon_no_operation'' (''uncommitted allocation '' @ a_ID a
                        @ '' has no operation, so nothing records what was reviewed or whether the inventory was written''))
                | [x] \<Rightarrow>
                    if o_Type x \<noteq> adoptOperation then
                      Inl (apiErr 409 ''abandon_not_an_adoption'' (''operation '' @ o_ID x @ '' is a ''
                        @ op_type_text (o_Type x) @ '' rather than an ADOPT; abandoning a pending RESERVE is deliberately out of scope (ADR 0012)''))
                    else
                      (case abandon_status x of
                         Inl e \<Rightarrow> Inl e
                       | Inr fenced \<Rightarrow>
                           Inr \<lparr>u_allocation = a, u_operation = x, u_alreadyFenced = fenced\<rparr>)
                | _ \<Rightarrow>
                    Inl (apiErr 409 ''abandon_ambiguous_operation'' (''several operations name allocation ''
                      @ a_ID a @ ''; name the one to abandon'')))))"

definition abandonInputs :: "string \<Rightarrow> string \<Rightarrow> string \<Rightarrow> goerr option" where
  "abandonInputs allocationID operator reason =
     (if blank operator then
        Some (apiErr 422 ''abandon_operator_required''
          ''an operator subject is required for the abandon audit trail'')
      else if blank reason then
        Some (apiErr 422 ''abandon_reason_required''
          ''a reason is required: an abandon is recorded in the audit trail and has to say why'')
      else if blank allocationID then
        Some (apiErr 422 ''abandon_allocation_required'' ''an allocation id is required'')
      else None)"

definition abandonEvidence ::
  "Crypto \<Rightarrow> string \<Rightarrow> string \<Rightarrow> Allocation \<Rightarrow> Operation \<Rightarrow> string" where
  "abandonEvidence K operator reason a x =
     ''abandon requested by '' @ operator @ '': '' @ reason @ ''; allocation '' @ a_ID a @ '' (''
     @ a_CIDR a @ '', key '' @ go_quote K (a_AllocationKey a) @ ''), operation '' @ o_ID x
     @ (case o_Adoption x of
          None \<Rightarrow> '', no reviewed record was persisted with this adoption''
        | Some rec \<Rightarrow> '', reviewed inventory network '' @ ar_NetworkID rec @ '', cloud resource ''
             @ ar_ResourceID rec @ '' (import batch '' @ go_quote K (ar_ImportBatch rec) @ '')'')"

definition abandon_fence ::
  "Env \<Rightarrow> string \<Rightarrow> string \<Rightarrow> string \<Rightarrow> string \<Rightarrow> abandonTarget txn" where
  "abandon_fence E allocationID operationID operator reason st =
     (case abandonCheck st allocationID operationID of
        Inl e \<Rightarrow> Inl e
      | Inr t \<Rightarrow>
          if u_alreadyFenced t then Inr (st, t)
          else
            let x = fenced_operation (u_operation t) adoptionAbandonedCode
                      abandonedOperationMessage (v_now E 0)
            in Inr (write_fence E x (u_allocation t) operator adoptionAbandonedAction
                      (abandonEvidence (v_K E) operator reason (u_allocation t) (u_operation t)) st,
                    t\<lparr>u_operation := x\<rparr>))"

definition abandon_delete :: "Env \<Rightarrow> abandonTarget \<Rightarrow> bool txn" where
  "abandon_delete E t st =
     (case mget (Allocations st) (a_ID (u_allocation t)) of
        None \<Rightarrow> Inr (st, False)
      | Some a \<Rightarrow>
          if a_Committed a then
            Inl (apiErr 409 ''abandon_state_changed'' (''allocation '' @ a_ID a
              @ '' committed while this abandon was running; nothing was deleted''))
          else if (case mget (Operations st) (o_ID (u_operation t)) of
                     None \<Rightarrow> True
                   | Some x \<Rightarrow> o_AllocationID x \<noteq> a_ID a \<or> \<not> abandonFenced x) then
            Inl (apiErr 409 ''abandon_state_changed''
              ''the operation this abandon fenced is no longer the terminal one it wrote; nothing was deleted, and a re-run will report the current state'')
          else
            Inr (resolveFinding (v_K E)
                   (st\<lparr>Allocations := mdel (a_ID a) (Allocations st),
                       Requests := drop_requests (a_ID a)
                         (mdel (idempotencyID (v_K E) (a_TenantID a) (k_method adoptKind)
                            (k_path adoptKind) (a_AllocationKey a)) (Requests st))\<rparr>)
                   a adoptionStuckCode,
                 stuck_open (v_K E) st adoptionStuckCode (a_ID a)))"

definition zero_claim :: AbandonClaim where
  "zero_claim = \<lparr>cl_Claim = unclaimed, cl_Count = 0, cl_NetworkID = [], cl_NetworkCIDR = [],
     cl_OperationID = [], cl_Reason = []\<rparr>"

definition abandonClaim :: "Env \<Rightarrow> Allocation \<Rightarrow> string \<Rightarrow> AbandonClaim" where
  "abandonClaim E a operationID =
     (case v_inventory E of
        None \<Rightarrow> zero_claim\<lparr>cl_Claim := unknown, cl_Reason := ''inventory adapter is not configured''\<rparr>
      | Some iv \<Rightarrow>
          (case inv_Snapshot iv 0 (domainFor (v_cfg E) (a_DomainID a)) of
             Inl e \<Rightarrow> zero_claim\<lparr>cl_Claim := unknown, cl_Reason := errString (Some e)\<rparr>
           | Inr snap \<Rightarrow>
               let claimed = filter (\<lambda>n. n_AllocationID n = a_ID a) (sn_Networks snap);
                   out = (case claimed of
                            [n] \<Rightarrow> zero_claim\<lparr>cl_Count := 1, cl_NetworkID := n_ID n,
                                     cl_NetworkCIDR := n_CIDR n, cl_OperationID := n_OperationID n\<rparr>
                          | _ \<Rightarrow> zero_claim\<lparr>cl_Count := length claimed\<rparr>)
               in if \<not> sn_Complete snap then
                    out\<lparr>cl_Claim := unknown, cl_Reason :=
                      ''the inventory snapshot is incomplete, so the absence of a claim proves nothing''\<rparr>
                  else (case claimed of
                    [] \<Rightarrow> out\<lparr>cl_Claim := unclaimed\<rparr>
                  | [n] \<Rightarrow> if n_OperationID n = operationID then out\<lparr>cl_Claim := this_operation\<rparr>
                           else out\<lparr>cl_Claim := another_operation\<rparr>
                  | _ \<Rightarrow> out\<lparr>cl_Claim := ambiguous\<rparr>)))"

definition abandonReport ::
  "bool \<Rightarrow> time \<Rightarrow> string \<Rightarrow> string \<Rightarrow> abandonTarget \<Rightarrow> AbandonClaim \<Rightarrow> AbandonReport" where
  "abandonReport dryRun at operator reason t claim =
     \<lparr>ab_DryRun = dryRun, ab_At = at, ab_Operator = operator, ab_Reason = reason,
      ab_Allocation = hold_report (u_allocation t), ab_Operation = operation_report (u_operation t),
      ab_Reviewed = o_Adoption (u_operation t), ab_Inventory = claim,
      ab_Fenced = (\<not> dryRun \<and> \<not> u_alreadyFenced t), ab_AlreadyFenced = u_alreadyFenced t,
      ab_Cleared = False, ab_Deleted = False, ab_FindingResolved = False, ab_WouldDo = []\<rparr>"

definition abandonPlan :: "abandonTarget \<Rightarrow> AbandonClaim \<Rightarrow> string list" where
  "abandonPlan t claim =
     [(if u_alreadyFenced t then
         ''fence: already written by an earlier run of this abandon; nothing more is written and no second event is appended''
       else ''fence: set operation '' @ o_ID (u_operation t) @ '' to FAILED ('' @ adoptionAbandonedCode
         @ '') and append one '' @ adoptionAbandonedAction @ '' audit event''),
      ''clear: ask the inventory to return the network claiming allocation '' @ a_ID (u_allocation t)
      @ '' to imported occupancy''
      @ (case cl_Claim claim of
           unclaimed \<Rightarrow> ''; nothing claims it now, so this would write nothing''
         | this_operation \<Rightarrow> ''; network '' @ cl_NetworkID claim @ '' ('' @ cl_NetworkCIDR claim
             @ '') carries this operation's markers and would be cleared''
         | another_operation \<Rightarrow> ''; network '' @ cl_NetworkID claim @ '' ('' @ cl_NetworkCIDR claim
             @ '') carries operation '' @ cl_OperationID claim
             @ '' instead, which the inventory would refuse to clear''
         | ambiguous \<Rightarrow> ''; '' @ dec (cl_Count claim)
             @ '' networks claim it, which the inventory would refuse to clear''
         | unknown \<Rightarrow> ''; what the inventory holds could not be read ('' @ cl_Reason claim @ '')''),
      ''clear again: repeat the same call immediately before the delete, so a worker pass that re-marked the network after the first clear cannot outlive it'',
      ''delete: remove allocation '' @ a_ID (u_allocation t) @ '' and its '' @ k_method adoptKind
      @ '' idempotency record, and resolve any open '' @ adoptionStuckCode @ '' finding; operation ''
      @ o_ID (u_operation t) @ '' stays, FAILED, carrying what was reviewed'']"

definition abandonClearError :: "goerr \<Rightarrow> goerr" where
  "abandonClearError e =
     (if uncertainInventoryError e then
        apiErr 503 ''abandon_uncertain'' (''the inventory did not say whether it cleared the network (''
          @ err_text e @ ''); nothing has been deleted and re-running this abandon is safe'')
      else
        apiErr 409 ''abandon_inventory_refused''
          (''the inventory refused to clear the network this adoption converted ('' @ err_text e
           @ ''); nothing has been deleted and re-running this abandon is safe once the cause is resolved''))"

definition abandonLedgerError :: "goerr \<Rightarrow> string \<Rightarrow> goerr" where
  "abandonLedgerError e what =
     (case e of
        APIErr _ \<Rightarrow> e
      | _ \<Rightarrow> apiErr 503 ''abandon_incomplete''
               (what @ '' ('' @ err_text e @ ''); re-running this abandon is safe''))"

definition abandon_prior :: "Operation \<Rightarrow> PriorInventory" where
  "abandon_prior x =
     (case o_Adoption x of
        None \<Rightarrow> \<lparr>pi_Status = [], pi_AccountID = [], pi_Region = []\<rparr>
      | Some rec \<Rightarrow> Prior rec)"

definition AbandonAdoption ::
  "Env \<Rightarrow> string \<Rightarrow> string \<Rightarrow> string \<Rightarrow> string \<Rightarrow> State \<Rightarrow>
   State \<times> AbandonReport option \<times> goerr option" where
  "AbandonAdoption E allocationID operationID operator reason st =
     (case abandonInputs allocationID operator reason of
        Some e \<Rightarrow> (st, None, Some e)
      | None \<Rightarrow>
      (case ledgerReady E of
        Some e \<Rightarrow> (st, None, Some e)
      | None \<Rightarrow>
      (case v_inventory E of
        None \<Rightarrow> (st, None, Some (unavailable ''inventory adapter is not configured''))
      | Some iv \<Rightarrow>
      (case update E 0 (abandon_fence E allocationID operationID operator reason) st of
        (st1, Inl e) \<Rightarrow> (st1, None, Some (abandonLedgerError e ''the abandon could not be fenced''))
      | (st1, Inr t) \<Rightarrow>
          let x = u_operation t;
              report = abandonReport False (v_now E 1) operator reason t
                         (abandonClaim E (u_allocation t) (o_ID x));
              prior = abandon_prior x
          in
          (case inv_AbandonAdoption iv 0 (u_allocation t) (o_ID x) prior of
             Some e \<Rightarrow> (st1, Some report, Some (abandonClearError e))
           | None \<Rightarrow>
               let report1 = report\<lparr>ab_Cleared := True\<rparr>
               in
               (case inv_AbandonAdoption iv 1 (u_allocation t) (o_ID x) prior of
                  Some e \<Rightarrow> (st1, Some report1, Some (abandonClearError e))
                | None \<Rightarrow>
                    (case update E 1 (abandon_delete E t) st1 of
                       (st2, Inl e) \<Rightarrow>
                         (st2, Some report1, Some (abandonLedgerError e
                           ''the inventory was cleared but the allocation could not be deleted''))
                     | (st2, Inr resolved) \<Rightarrow>
                         (st2, Some (report1\<lparr>ab_Deleted := True, ab_FindingResolved := resolved\<rparr>),
                          None))))))))"

definition PlanAbandonAdoption ::
  "Env \<Rightarrow> string \<Rightarrow> string \<Rightarrow> string \<Rightarrow> string \<Rightarrow> State \<Rightarrow> State \<times> (goerr + AbandonReport)" where
  "PlanAbandonAdoption E allocationID operationID operator reason st =
     (case abandonInputs allocationID operator reason of
        Some e \<Rightarrow> (st, Inl e)
      | None \<Rightarrow>
      (case ledgerReady E of
        Some e \<Rightarrow> (st, Inl e)
      | None \<Rightarrow>
      (case view E 0 (\<lambda>s. abandonCheck s allocationID operationID) st of
        (st1, Inl e) \<Rightarrow> (st1, Inl (abandonLedgerError e ''the abandon could not be planned''))
      | (st1, Inr t) \<Rightarrow>
          let claim = abandonClaim E (u_allocation t) (o_ID (u_operation t))
          in (st1, Inr ((abandonReport True (v_now E 0) operator reason t claim)
                \<lparr>ab_WouldDo := abandonPlan t claim\<rparr>)))))"

end
