(* ===== verification/Worker.thy ===== *)
theory Worker
  imports Withdraw
begin

text \<open>
  The reconciliation worker (\<open>internal/service/worker.go\<close> and \<open>Service.Tick\<close>): recovery of pending
  reservations and adoptions, the observation of every domain, the reconciliation of allocations with
  the latest observation, completion of pending bindings, projection of metadata to the inventory, and
  the reclamation pass.
\<close>

section \<open>Recovery of pending holds\<close>

type_synonym recoveryJob = "Allocation \<times> Operation"

definition pending_recovery :: "OpType \<Rightarrow> State \<Rightarrow> recoveryJob list" where
  "pending_recovery operationType st =
     concat (map (\<lambda>x.
       let a = allocation_at st (o_AllocationID x)
       in if o_Type x = operationType \<and> o_Status x = operationPending \<and> a_ID a \<noteq> []
             \<and> \<not> a_Committed a \<and> a_State a = Reserved
          then [(a, copyOperation x)] else []) (mvals (Operations st)))"

definition pendingRecoveryJobs :: "Env \<Rightarrow> OpType \<Rightarrow> State \<Rightarrow> State \<times> (goerr + recoveryJob list)" where
  "pendingRecoveryJobs E operationType st = view E 0 (\<lambda>s. Inr (pending_recovery operationType s)) st"

definition recoveryEvidence ::
  "Env \<Rightarrow> Allocation \<Rightarrow> State \<Rightarrow> State \<times> (Observation \<times> string) option" where
  "recoveryEvidence E a st =
     (case v_observer E of
        None \<Rightarrow> (st, None)
      | Some _ \<Rightarrow>
          let d = domainFor (v_cfg E) (a_DomainID a)
          in (case observe E 0 d of
                Inr (Some ob) \<Rightarrow>
                  if \<not> trustedObservation ob d (v_now E 0) (lc_MaxObservationAge (c_Lifecycle (v_cfg E)))
                  then (st, None)
                  else if a_ParentAllocationID a \<noteq> [] then
                    (case view E 0 (\<lambda>s. Inr (parent_binding_resource s a)) st of
                       (st', Inr parentAWSID) \<Rightarrow> (st', Some (ob, parentAWSID))
                     | (st', Inl _) \<Rightarrow> (st', Some (ob, [])))
                  else (st, Some (ob, []))
              | _ \<Rightarrow> (st, None)))"

definition commit_recovered_txn ::
  "Env \<Rightarrow> recoveryJob \<Rightarrow> string \<Rightarrow> (State \<Rightarrow> Allocation \<Rightarrow> State) \<Rightarrow> unit txn" where
  "commit_recovered_txn E job invID event st =
     (let x = operation_at st (o_ID (snd job))
      in case mget (Allocations st) (a_ID (fst job)) of
           None \<Rightarrow> Inr (st, ())
         | Some a \<Rightarrow>
             if a_Committed a \<or> a_State a \<noteq> Reserved \<or> o_Status x \<noteq> operationPending
                \<or> o_Type x \<noteq> o_Type (snd job) then Inr (st, ())
             else
               let a' = committed_allocation a invID (v_now E 1);
                   x' = succeeded_operation x (a_ID a) (v_now E 1)
               in Inr (event (st\<lparr>Allocations := mput (a_ID a') a' (Allocations st),
                                 Operations := mput (o_ID x') x' (Operations st)\<rparr>) a', ()))"

definition result_error :: "State \<times> (goerr + 'r) \<Rightarrow> State \<times> goerr option" where
  "result_error r = (case r of (st, Inl e) \<Rightarrow> (st, Some e) | (st, Inr _) \<Rightarrow> (st, None))"

definition commitRecovered ::
  "Env \<Rightarrow> recoveryJob \<Rightarrow> string \<Rightarrow> (State \<Rightarrow> Allocation \<Rightarrow> State) \<Rightarrow> State \<Rightarrow> State \<times> goerr option" where
  "commitRecovered E job invID event st =
     result_error (update E 1 (commit_recovered_txn E job invID event) st)"

definition flag_stuck_txn :: "Env \<Rightarrow> Allocation \<Rightarrow> string \<Rightarrow> unit txn" where
  "flag_stuck_txn E a code st =
     (case mget (Allocations st) (a_ID a) of
        None \<Rightarrow> Inr (st, ())
      | Some held \<Rightarrow>
          if a_Committed held then Inr (st, ())
          else Inr (workerFinding (v_K E) st held code ''CRITICAL'' (v_now E 2), ()))"

definition flagStuckHold :: "Env \<Rightarrow> Allocation \<Rightarrow> string \<Rightarrow> State \<Rightarrow> State \<times> goerr option" where
  "flagStuckHold E a code st = result_error (update E 2 (flag_stuck_txn E a code) st)"

definition flagStuckAdoption :: "Env \<Rightarrow> Allocation \<Rightarrow> State \<Rightarrow> State \<times> goerr option" where
  "flagStuckAdoption E a st = flagStuckHold E a adoptionStuckCode st"

definition flagAgedReservation :: "Env \<Rightarrow> recoveryJob \<Rightarrow> State \<Rightarrow> State \<times> goerr option" where
  "flagAgedReservation E job st =
     (let threshold = Seconds (lc_MaxObservationAge (c_Lifecycle (v_cfg E)))
      in if 0 < threshold \<and> Sub (v_now E 3) (o_UpdatedAt (snd job)) < threshold then (st, None)
         else flagStuckHold E (fst job) reservationStuckCode st)"

definition pendingReservationObservationSafe :: "Allocation \<Rightarrow> Observation \<Rightarrow> string \<Rightarrow> bool" where
  "pendingReservationObservationSafe a ob parentAWSID =
     (case ParsePrefix (a_CIDR a) of
        None \<Rightarrow> False
      | Some want \<Rightarrow>
          \<not> list_ex (\<lambda>x. list_ex (\<lambda>raw. case ParsePrefix raw of
                None \<Rightarrow> False
              | Some got \<Rightarrow>
                  Overlaps want got \<and>
                  \<not> (a_Scope a = ''subnet'' \<and> x_Type x = ''vpc'' \<and> parentAWSID \<noteq> []
                       \<and> x_ID x = parentAWSID \<and> Contains got (ip want)) \<and>
                  \<not> (x_Type x = a_Scope a \<and> x_CIDR x = a_CIDR a \<and> x_AccountID x = a_AccountID a
                       \<and> x_Region x = a_Region a
                       \<and> tag x ''platform-ipam:allocation-id'' = a_ID a
                       \<and> tag x ''platform-ipam:allocation-key'' = a_AllocationKey a))
              (x_CIDR x # x_CIDRs x)) (ob_Resources ob))"

text \<open>The audit events and the resolved findings of a recovered commit.\<close>

definition reservation_event :: "Env \<Rightarrow> State \<Rightarrow> Allocation \<Rightarrow> State" where
  "reservation_event E st a =
     resolveFinding (v_K E)
       (workerEvent st a (fresh E ''evt'' 0) ''reservation_committed''
          ''Recovered the persisted inventory operation.'' (a_UpdatedAt a)) a reservationStuckCode"

definition adoption_event ::
  "Env \<Rightarrow> AdoptionRecord \<Rightarrow> Observation \<Rightarrow> State \<Rightarrow> Allocation \<Rightarrow> State" where
  "adoption_event E rec ob st a =
     resolveFinding (v_K E)
       (st\<lparr>Events := Events st @ [\<lparr>ev_ID = fresh E ''evt'' 0, ev_AllocationID = a_ID a,
          ev_TenantID = a_TenantID a, ev_Actor = ar_Operator rec, ev_Action = k_committed adoptKind,
          ev_Reason = ''inventory adoption confirmed; '' @ adoptionEvidence (v_K E) rec ob,
          ev_At = a_UpdatedAt a, ev_Revision = a_Revision a\<rparr>]\<rparr>) a adoptionStuckCode"

definition recover_reservation ::
  "Inventory \<Rightarrow> Env \<Rightarrow> recoveryJob \<Rightarrow> State \<Rightarrow> State \<times> goerr option" where
  "recover_reservation iv E job st =
     (case recoveryEvidence E (fst job) st of
        (st1, None) \<Rightarrow> (st1, None)
      | (st1, Some (ob, parentAWSID)) \<Rightarrow>
          if \<not> pendingReservationObservationSafe (fst job) ob parentAWSID
          then flagAgedReservation E job st1
          else
            (case inv_Ensure iv 0 (fst job) (o_ID (snd job)) of
               Inl e \<Rightarrow> if uncertainInventoryError e then (st1, None) else flagAgedReservation E job st1
             | Inr invID \<Rightarrow>
                 if invID = [] then flagAgedReservation E job st1
                 else commitRecovered E job invID (reservation_event E) st1))"

definition recoverAdoption ::
  "Inventory \<Rightarrow> Env \<Rightarrow> recoveryJob \<Rightarrow> State \<Rightarrow> State \<times> goerr option" where
  "recoverAdoption iv E job st =
     (let a = fst job; x = snd job
      in case (o_Adoption x, ParsePrefix (a_CIDR a)) of
           (None, _) \<Rightarrow> flagStuckAdoption E a st
         | (Some _, None) \<Rightarrow> flagStuckAdoption E a st
         | (Some rec, Some cidr) \<Rightarrow>
             (case recoveryEvidence E a st of
                (st1, None) \<Rightarrow> (st1, None)
              | (st1, Some (ob, parentAWSID)) \<Rightarrow>
                  if reviewedOccupancy ob cidr (a_Request a) (ar_ResourceID rec) parentAWSID \<noteq> None
                  then flagStuckAdoption E a st1
                  else
                    (case inv_Snapshot iv 0 (domainFor (v_cfg E) (a_DomainID a)) of
                       Inl _ \<Rightarrow> (st1, None)
                     | Inr snap \<Rightarrow>
                         if \<not> sn_Complete snap then (st1, None)
                         else
                           (case reviewedNetwork snap cidr (a_Request a) (ar_NetworkID rec) (a_ID a)
                                   (reviewedVPCChildren ob cidr (a_Request a) (ar_ResourceID rec)) of
                              Inl _ \<Rightarrow> flagStuckAdoption E a st1
                            | Inr _ \<Rightarrow>
                                (case inv_Adopt iv 0 a (o_ID x) of
                                   Inl e \<Rightarrow>
                                     if uncertainInventoryError e then (st1, None)
                                     else flagStuckAdoption E a st1
                                 | Inr invID \<Rightarrow>
                                     if \<not> adoptedTheReviewedObject x invID
                                     then flagStuckAdoption E a st1
                                     else commitRecovered E job invID (adoption_event E rec ob) st1)))))"

fun each_job ::
  "(nat \<Rightarrow> 'j \<Rightarrow> State \<Rightarrow> State \<times> goerr option) \<Rightarrow> nat \<Rightarrow> 'j list \<Rightarrow> State \<Rightarrow> State \<times> goerr option" where
  "each_job f k [] st = (st, None)"
| "each_job f k (j # js) st =
     (case f k j st of
        (st', Some e) \<Rightarrow> (st', Some e)
      | (st', None) \<Rightarrow> each_job f (Suc k) js st')"

definition recoverReservations :: "Env \<Rightarrow> State \<Rightarrow> State \<times> goerr option" where
  "recoverReservations E st =
     (case pendingRecoveryJobs E reserveOperation st of
        (st1, Inl e) \<Rightarrow> (st1, Some e)
      | (st1, Inr jobs) \<Rightarrow>
          (case v_inventory E of
             None \<Rightarrow> (st1, None)
           | Some iv \<Rightarrow>
               each_job (\<lambda>k. recover_reservation (sub_inventory k iv) (sub k E)) 0 jobs st1))"

definition recoverAdoptions :: "Env \<Rightarrow> State \<Rightarrow> State \<times> goerr option" where
  "recoverAdoptions E st =
     (case pendingRecoveryJobs E adoptOperation st of
        (st1, Inl e) \<Rightarrow> (st1, Some e)
      | (st1, Inr jobs) \<Rightarrow>
          (case v_inventory E of
             None \<Rightarrow> (st1, None)
           | Some iv \<Rightarrow>
               each_job (\<lambda>k. recoverAdoption (sub_inventory k iv) (sub k E)) 0 jobs st1))"

section \<open>Observing the domains\<close>

definition tick_observation :: "Env \<Rightarrow> Domain \<Rightarrow> goerr + Observation option \<Rightarrow> Observation" where
  "tick_observation E d res =
     (case res of
        Inr (Some ob) \<Rightarrow> ob
      | Inr None \<Rightarrow> zero_Observation\<lparr>ob_DomainID := d_ID d, ob_Generation := d_CoverageGeneration d,
                      ob_Complete := False, ob_FinishedAt := v_now E 0, ob_Error := []\<rparr>
      | Inl e \<Rightarrow> zero_Observation\<lparr>ob_DomainID := d_ID d, ob_Generation := d_CoverageGeneration d,
                   ob_Complete := False, ob_FinishedAt := v_now E 0, ob_Error := err_text e\<rparr>)"

definition coverage_finding ::
  "Crypto \<Rightarrow> Domain \<Rightarrow> Observation \<Rightarrow> string \<times> Allocation \<Rightarrow> State \<Rightarrow> State" where
  "coverage_finding K d ob ia st =
     (case ia of (i, a) \<Rightarrow>
        if a_DomainID a \<noteq> d_ID d \<or> \<not> a_Committed a \<or> a_State a = Released then st
        else if \<not> (\<not> ob_Complete ob \<or> ob_Generation ob \<noteq> d_CoverageGeneration d) then st
        else
          let fid = findingID K ''coverage_incomplete'' i; f0 = finding_at st fid;
              f = (if f_ID f0 = []
                   then zero_Finding\<lparr>f_ID := fid, f_TenantID := a_TenantID a, f_DomainID := d_ID d,
                          f_AllocationID := i, f_Code := ''coverage_incomplete'',
                          f_Severity := ''WARNING'', f_Status := ''OPEN'',
                          f_FirstObservedAt := ob_FinishedAt ob\<rparr>
                   else f0)
          in st\<lparr>Findings := mput fid (f\<lparr>f_LastObservedAt := ob_FinishedAt ob, f_Status := ''OPEN''\<rparr>)
                  (Findings st)\<rparr>)"

definition tick_observe_txn ::
  "Env \<Rightarrow> Domain \<Rightarrow> goerr + Observation option \<Rightarrow> unit txn" where
  "tick_observe_txn E d res st =
     (let ob = tick_observation E d res; st1 = recordObservation st ob
      in Inr (fold (coverage_finding (v_K E) d ob) (Allocations st1) st1, ()))"

text \<open>Neither a failed observation nor a failed write ends the pass.\<close>

definition tick_observe :: "Env \<Rightarrow> Domain \<Rightarrow> State \<Rightarrow> State" where
  "tick_observe E d st = fst (update E 0 (tick_observe_txn E d (observe E 0 d)) st)"

fun tick_domains :: "Env \<Rightarrow> nat \<Rightarrow> Domain list \<Rightarrow> State \<Rightarrow> State" where
  "tick_domains E k [] st = st"
| "tick_domains E k (d # ds) st = tick_domains E (Suc k) ds (tick_observe (sub k E) d st)"

section \<open>Reconciliation\<close>

definition reconciled_codes :: "string list" where
  "reconciled_codes =
     [''coverage_incomplete'', ''resource_missing'', ''binding_mismatch'',
      ''multiple_resource_claims'', ''unmanaged_occupancy'', ''reservation_aged'', ''cloud_occupancy'']"

definition reset_findings :: "Finding gomap \<Rightarrow> Finding gomap" where
  "reset_findings m =
     map (\<lambda>(k, f). (k, if f_Code f \<in> set reconciled_codes then f\<lparr>f_Status := ''RESOLVED''\<rparr> else f)) m"

definition claimed_resources :: "Observation \<Rightarrow> string \<Rightarrow> Resource list" where
  "claimed_resources ob i =
     filter (\<lambda>r. tag r ''platform-ipam:allocation-id'' = i) (ob_Resources ob)"

definition worker_binding :: "Allocation \<Rightarrow> Resource \<Rightarrow> Binding" where
  "worker_binding a r =
     \<lparr>b_Provider = ''aws'', b_ResourceType = a_Scope a, b_ResourceID = x_ID r,
      b_AccountID = a_AccountID a, b_Region = a_Region a, b_VerifiedAt = None\<rparr>"

definition observed_operation :: "Env \<Rightarrow> time \<Rightarrow> nat \<Rightarrow> Allocation \<Rightarrow> Binding \<Rightarrow> Operation" where
  "observed_operation E now k a b =
     zero_Operation\<lparr>o_ID := fresh E ''op'' (2 * k), o_Type := bindOperation,
       o_Status := operationSucceeded, o_AllocationID := a_ID a, o_TenantID := a_TenantID a,
       o_DomainID := a_DomainID a, o_Candidate := Some b,
       o_Result := Some [(''allocation_id'', a_ID a)], o_CreatedAt := now, o_UpdatedAt := now\<rparr>"

definition bind_observed ::
  "Env \<Rightarrow> time \<Rightarrow> nat \<Rightarrow> string \<Rightarrow> Allocation \<Rightarrow> Binding \<Rightarrow> time \<Rightarrow> State \<Rightarrow> State" where
  "bind_observed E now k i a b0 at st =
     (let b = b0\<lparr>b_VerifiedAt := Some at\<rparr>;
          a' = bound_allocation a b now;
          x = observed_operation E now k a b
      in workerEvent (st\<lparr>Allocations := mput i a' (Allocations st),
                         Operations := mput (o_ID x) x (Operations st)\<rparr>)
           a' (fresh E ''evt'' (2 * k + 1)) ''binding_verified'' ''Observed one matching AWS resource.'' now)"

definition reconcile_active ::
  "Env \<Rightarrow> Allocation \<Rightarrow> Observation \<Rightarrow> string \<Rightarrow> State \<Rightarrow> State" where
  "reconcile_active E a ob parentID st =
     (if (case a_Binding a of
            None \<Rightarrow> True
          | Some b \<Rightarrow> \<not> bindingObserved ob b (a_ID a) (a_AllocationKey a) (a_CIDR a)
                        (a_AvailabilityZoneID a) parentID)
      then workerFinding (v_K E) st a
             (if claimed_resources ob (a_ID a) \<noteq> [] then ''binding_mismatch'' else ''resource_missing'')
             ''CRITICAL'' (ob_FinishedAt ob)
      else st)"

definition reconcile_reserved ::
  "Env \<Rightarrow> time \<Rightarrow> nat \<Rightarrow> string \<Rightarrow> Allocation \<Rightarrow> Observation \<Rightarrow> string \<Rightarrow> State \<Rightarrow> State" where
  "reconcile_reserved E now k i a ob parentID st =
     (case claimed_resources ob (a_ID a) of
        [] \<Rightarrow>
          if 0 < lc_ReservationAgeAlertHours (c_Lifecycle (v_cfg E))
             \<and> Hours (lc_ReservationAgeAlertHours (c_Lifecycle (v_cfg E))) \<le> Sub now (a_CreatedAt a)
          then workerFinding (v_K E) st a ''reservation_aged'' ''WARNING'' (ob_FinishedAt ob)
          else st
      | r # _ \<Rightarrow>
          let b = worker_binding a r
          in if \<not> bindingObserved ob b (a_ID a) (a_AllocationKey a) (a_CIDR a)
                  (a_AvailabilityZoneID a) parentID
             then workerFinding (v_K E) st a ''binding_mismatch'' ''CRITICAL'' (ob_FinishedAt ob)
             else if pendingForAllocation st (a_ID a) \<noteq> None then st
             else bind_observed E now k i a b (ob_FinishedAt ob) st)"

text \<open>The row with its last observation, once a trusted observation of its domain is at hand.\<close>

definition reconcile_observed ::
  "Env \<Rightarrow> time \<Rightarrow> nat \<Rightarrow> string \<Rightarrow> Allocation \<Rightarrow> Observation \<Rightarrow> State \<Rightarrow> State" where
  "reconcile_observed E now k i a0 ob st0 =
     (let a = a0\<lparr>a_LastObservedAt := Some (ob_FinishedAt ob)\<rparr>;
          st = st0\<lparr>Allocations := mput i a (Allocations st0)\<rparr>
      in if 1 < length (claimed_resources ob (a_ID a)) then
           workerFinding (v_K E) st a ''multiple_resource_claims'' ''CRITICAL'' (ob_FinishedAt ob)
         else
           let parent = allocation_at st (a_ParentAllocationID a);
               parentID = (if a_Scope a = ''subnet''
                           then (case a_Binding parent of None \<Rightarrow> [] | Some b \<Rightarrow> b_ResourceID b)
                           else [])
           in if a_Scope a = ''subnet'' \<and> (a_State parent \<noteq> Active \<or> a_Binding parent = None) then st
              else if a_State a = Quarantined then
                (if observationConflict a ob parentID
                 then workerFinding (v_K E) st a ''cloud_occupancy'' ''WARNING'' (ob_FinishedAt ob)
                 else st)
              else if a_State a = Active then reconcile_active E a ob parentID st
              else reconcile_reserved E now k i a ob parentID st)"

definition reconcile_one :: "Env \<Rightarrow> time \<Rightarrow> nat \<times> string \<Rightarrow> State \<Rightarrow> State" where
  "reconcile_one E now ki st =
     (case mget (Allocations st) (snd ki) of
        None \<Rightarrow> st
      | Some a \<Rightarrow>
          if \<not> a_Committed a \<or> a_State a = Released then st
          else
            (case last_opt (observations_at st (a_DomainID a)) of
               None \<Rightarrow> workerFinding (v_K E) st a ''coverage_incomplete'' ''WARNING'' now
             | Some ob \<Rightarrow>
                 if \<not> trustedObservation ob (domainFor (v_cfg E) (a_DomainID a)) now
                       (lc_MaxObservationAge (c_Lifecycle (v_cfg E)))
                 then workerFinding (v_K E) st a ''coverage_incomplete'' ''WARNING'' now
                 else reconcile_observed E now (fst ki) (snd ki) a ob st))"

definition resourceIdentity :: "string \<Rightarrow> string \<Rightarrow> string \<Rightarrow> string \<Rightarrow> string" where
  "resourceIdentity kind account region cidr =
     kind @ nul @ account @ nul @ region @ nul @ cidr"

definition adoptedResources :: "State \<Rightarrow> string \<Rightarrow> string gomap" where
  "adoptedResources st domainID =
     fold (\<lambda>x out.
       case o_Adoption x of
         None \<Rightarrow> out
       | Some rec \<Rightarrow>
           if o_Type x \<noteq> adoptOperation \<or> ar_ResourceID rec = [] then out
           else case mget (Allocations st) (o_AllocationID x) of
             None \<Rightarrow> out
           | Some a \<Rightarrow>
               if a_Committed a \<and> a_DomainID a = domainID \<and> a_State a \<noteq> Released
               then mput (ar_ResourceID rec)
                      (resourceIdentity (a_Scope a) (a_AccountID a) (a_Region a) (a_CIDR a)) out
               else out)
       (mvals (Operations st)) []"

definition occupancy_id :: "Crypto \<Rightarrow> Domain \<Rightarrow> Resource \<Rightarrow> string \<Rightarrow> string" where
  "occupancy_id K d r tenant =
     findingID K ''unmanaged_occupancy'' (d_ID d @ '':'' @ tenant @ '':'' @ x_AccountID r @ '':''
       @ x_Region r @ '':'' @ x_Type r @ '':'' @ x_ID r)"

definition occupancy_finding ::
  "Crypto \<Rightarrow> Domain \<Rightarrow> Observation \<Rightarrow> Resource \<Rightarrow> string \<Rightarrow> State \<Rightarrow> State" where
  "occupancy_finding K d ob r tenant st =
     (let key = occupancy_id K d r tenant; f0 = finding_at st key;
          f = (if f_ID f0 = []
               then zero_Finding\<lparr>f_ID := key, f_TenantID := tenant, f_DomainID := d_ID d,
                      f_Code := ''unmanaged_occupancy'', f_Severity := ''WARNING'',
                      f_AccountID := x_AccountID r, f_Region := x_Region r,
                      f_FirstObservedAt := ob_FinishedAt ob\<rparr>
               else f0)
      in st\<lparr>Findings := mput key (f\<lparr>f_ResourceType := x_Type r, f_ResourceID := x_ID r,
              f_Status := ''OPEN'', f_LastObservedAt := ob_FinishedAt ob\<rparr>) (Findings st)\<rparr>)"

definition managed_resource :: "State \<Rightarrow> Domain \<Rightarrow> string gomap \<Rightarrow> Resource \<Rightarrow> bool" where
  "managed_resource st d adopted r =
     (let claim = tag r ''platform-ipam:allocation-id''
      in (case mget (Allocations st) claim of
            None \<Rightarrow> False | Some a \<Rightarrow> a_DomainID a = d_ID d \<and> a_State a \<noteq> Released)
         \<or> claim = [] \<and> mget0 [] adopted (x_ID r)
             = resourceIdentity (x_Type r) (x_AccountID r) (x_Region r) (x_CIDR r))"

definition occupancy_resource ::
  "Env \<Rightarrow> Domain \<Rightarrow> Observation \<Rightarrow> string gomap \<Rightarrow> Resource \<Rightarrow> State \<Rightarrow> State" where
  "occupancy_resource E d ob adopted r st =
     (if managed_resource st d adopted r then st
      else fold (\<lambda>pool s. if pl_DomainID pool \<noteq> d_ID d then s
                          else fold (occupancy_finding (v_K E) d ob r) (pl_EligibleTenants pool) s)
             (c_Pools (v_cfg E)) st)"

definition reconcile_domain :: "Env \<Rightarrow> time \<Rightarrow> Domain \<Rightarrow> State \<Rightarrow> State" where
  "reconcile_domain E now d st =
     (case last_opt (observations_at st (d_ID d)) of
        None \<Rightarrow> st
      | Some ob \<Rightarrow>
          if \<not> trustedObservation ob d now (lc_MaxObservationAge (c_Lifecycle (v_cfg E))) then st
          else fold (occupancy_resource E d ob (adoptedResources st (d_ID d))) (ob_Resources ob) st)"

definition reconcile_txn :: "Env \<Rightarrow> unit txn" where
  "reconcile_txn E st =
     (let now = v_now E 0;
          st1 = st\<lparr>Findings := reset_findings (Findings st)\<rparr>;
          st2 = fold (reconcile_one E now) (enumerate 0 (map fst (Allocations st1))) st1
      in Inr (fold (reconcile_domain E now) (c_Domains (v_cfg E)) st2, ()))"

definition reconcileAllocations :: "Env \<Rightarrow> State \<Rightarrow> State \<times> goerr option" where
  "reconcileAllocations E st = result_error (update E 0 (reconcile_txn E) st)"

section \<open>Pending bindings\<close>

definition pending_bindings :: "State \<Rightarrow> (Allocation \<times> Operation \<times> Binding \<times> string) list" where
  "pending_bindings st =
     concat (map (\<lambda>x. case (o_Candidate x, mget (Allocations st) (o_AllocationID x)) of
         (Some b, Some a) \<Rightarrow>
           if o_Status x \<noteq> operationPending \<or> o_Type x \<noteq> bindOperation then []
           else [(a, x, b, parent_resource st (a_ParentAllocationID a))]
       | _ \<Rightarrow> []) (mvals (Operations st)))"

definition finish_pending_binding ::
  "Env \<Rightarrow> Allocation \<times> Operation \<times> Binding \<times> string \<Rightarrow> State \<Rightarrow> State" where
  "finish_pending_binding E job st =
     (case job of (a, x, b, parent) \<Rightarrow>
        let d = domainFor (v_cfg E) (o_DomainID x)
        in case observe E 0 d of
             Inr (Some ob) \<Rightarrow>
               if trustedObservation ob d (v_now E 0) (lc_MaxObservationAge (c_Lifecycle (v_cfg E)))
                  \<and> bindingObserved ob b (a_ID a) (a_AllocationKey a) (a_CIDR a)
                      (a_AvailabilityZoneID a) parent
               then fst (finishBinding E (a_ID a) x b 200 st)
               else st
           | _ \<Rightarrow> st)"

fun finish_pending_bindings ::
  "Env \<Rightarrow> nat \<Rightarrow> (Allocation \<times> Operation \<times> Binding \<times> string) list \<Rightarrow> State \<Rightarrow> State" where
  "finish_pending_bindings E k [] st = st"
| "finish_pending_bindings E k (j # js) st =
     finish_pending_bindings E (Suc k) js (finish_pending_binding (sub k E) j st)"

definition tick_bindings :: "Env \<Rightarrow> State \<Rightarrow> State" where
  "tick_bindings E st =
     (case view E 0 (\<lambda>s. Inr (pending_bindings s)) st of
        (st1, Inl _) \<Rightarrow> st1
      | (st1, Inr jobs) \<Rightarrow> finish_pending_bindings E 0 jobs st1)"

section \<open>Projection of metadata to the inventory\<close>

type_synonym projectionSyncResult = "Allocation \<times> goerr option"

definition projection_jobs :: "State \<Rightarrow> Allocation list" where
  "projection_jobs st =
     filter (\<lambda>a. a_Committed a \<and> a_State a \<noteq> Released \<and> a_InventoryID a \<noteq> []
               \<and> \<not> (case pendingForAllocation st (a_ID a) of
                       None \<Rightarrow> False | Some x \<Rightarrow> o_Type x = reclaimOperation))
       (mvals (Allocations st))"

fun sync_loop ::
  "Env \<Rightarrow> Inventory \<Rightarrow> nat \<Rightarrow> Allocation list \<Rightarrow> projectionSyncResult list \<times> goerr option" where
  "sync_loop E iv k [] = ([], None)"
| "sync_loop E iv k (a # as) =
     (case v_ctx E (2 * k) of
        Some e \<Rightarrow> ([], Some e)
      | None \<Rightarrow>
          let syncErr = inv_Sync iv k a
          in if syncErr \<noteq> None \<and> v_ctx E (2 * k + 1) \<noteq> None then ([], v_ctx E (2 * k + 1))
             else let (results, interrupted) = sync_loop E iv (Suc k) as
                  in ((a, syncErr) # results, interrupted))"

definition result_stale :: "State \<Rightarrow> Allocation \<Rightarrow> bool" where
  "result_stale st job =
     (case mget (Allocations st) (a_ID job) of
        None \<Rightarrow> True
      | Some a \<Rightarrow> a_Revision a \<noteq> a_Revision job \<or> a_State a \<noteq> a_State job)"

definition apply_projection :: "Env \<Rightarrow> time \<Rightarrow> projectionSyncResult \<Rightarrow> State \<Rightarrow> State" where
  "apply_projection E now r st =
     (case mget (Allocations st) (a_ID (fst r)) of
        None \<Rightarrow> st
      | Some a \<Rightarrow>
          if a_Revision a \<noteq> a_Revision (fst r) \<or> a_State a \<noteq> a_State (fst r) then st
          else
            let st1 = (case snd r of
                  Some _ \<Rightarrow> workerFinding (v_K E) st (a\<lparr>a_InventorySync := ''PENDING''\<rparr>)
                              ''inventory_sync_pending'' ''WARNING'' now
                | None \<Rightarrow> resolveFinding (v_K E) st (a\<lparr>a_InventorySync := ''CURRENT''\<rparr>)
                            ''inventory_sync_pending'');
                a' = a\<lparr>a_InventorySync := (if snd r = None then ''CURRENT'' else ''PENDING'')\<rparr>
            in st1\<lparr>Allocations := mput (a_ID a') a' (Allocations st1)\<rparr>)"

definition projection_txn :: "Env \<Rightarrow> time \<Rightarrow> projectionSyncResult list \<Rightarrow> unit txn" where
  "projection_txn E now results st = Inr (fold (apply_projection E now) results st, ())"

definition projectionResultsAlreadyApplied ::
  "Crypto \<Rightarrow> projectionSyncResult list \<Rightarrow> State \<Rightarrow> bool" where
  "projectionResultsAlreadyApplied K results st =
     list_all (\<lambda>r.
       case mget (Allocations st) (a_ID (fst r)) of
         None \<Rightarrow> True
       | Some a \<Rightarrow>
           a_Revision a \<noteq> a_Revision (fst r) \<or> a_State a \<noteq> a_State (fst r) \<or>
           \<not> (snd r \<noteq> None
              \<or> a_InventorySync a \<noteq> ''CURRENT''
              \<or> f_Status (finding_at st (findingID K ''inventory_sync_pending'' (a_ID a))) = ''OPEN''))
       results"

definition applyProjectionResults ::
  "Env \<Rightarrow> projectionSyncResult list \<Rightarrow> bool \<Rightarrow> State \<Rightarrow> State \<times> goerr option" where
  "applyProjectionResults E results flushingCancellation st =
     (let now = v_now E 0
      in if flushingCancellation
         then result_error (update E 2 (projection_txn E now results) st)
         else
           (case view E 1 (\<lambda>s. Inr (projectionResultsAlreadyApplied (v_K E) results s)) st of
              (st1, Inr True) \<Rightarrow> (st1, None)
            | (st1, _) \<Rightarrow> result_error (update E 2 (projection_txn E now results) st1)))"

text \<open>\<open>fmt.Errorf("...: %w", err)\<close>: the kind of the error stays recognisable.\<close>

definition wrap_error :: "string \<Rightarrow> goerr \<Rightarrow> goerr" where
  "wrap_error prefix e =
     (case e of
        InventoryUncertain s \<Rightarrow> InventoryUncertain (prefix @ s)
      | NetTimeout s \<Rightarrow> NetTimeout (prefix @ s)
      | OtherErr s \<Rightarrow> OtherErr (prefix @ s)
      | _ \<Rightarrow> e)"

definition syncProjections :: "Env \<Rightarrow> State \<Rightarrow> State \<times> goerr option" where
  "syncProjections E st =
     (case v_inventory E of
        None \<Rightarrow> (st, None)
      | Some iv \<Rightarrow>
          (case view E 0 (\<lambda>s. Inr (projection_jobs s)) st of
             (st1, Inl e) \<Rightarrow> (st1, Some e)
           | (st1, Inr jobs) \<Rightarrow>
               (case sync_loop E iv 0 jobs of
                  (results, interrupted) \<Rightarrow>
                    if results = [] then (st1, interrupted)
                    else
                      (case applyProjectionResults E results (interrupted \<noteq> None) st1 of
                         (st2, Some e) \<Rightarrow>
                           (st2, Some (wrap_error ''record inventory projection result: '' e))
                       | (st2, None) \<Rightarrow> (st2, interrupted)))))"

section \<open>The pass\<close>

definition Tick :: "Env \<Rightarrow> State \<Rightarrow> State \<times> goerr option" where
  "Tick E st =
     (case ledgerReady E of
        Some e \<Rightarrow> (st, Some e)
      | None \<Rightarrow>
      (case recoverReservations (sub 0 E) st of
        (st1, Some e) \<Rightarrow> (st1, Some e)
      | (st1, None) \<Rightarrow>
      (case recoverAdoptions (sub 1 E) st1 of
        (st2, Some e) \<Rightarrow> (st2, Some e)
      | (st2, None) \<Rightarrow>
      (case reconcileAllocations (sub 3 E) (tick_domains (sub 2 E) 0 (c_Domains (v_cfg E)) st2) of
        (st3, Some e) \<Rightarrow> (st3, Some e)
      | (st3, None) \<Rightarrow>
      (case syncProjections (sub 5 E) (tick_bindings (sub 4 E) st3) of
        (st4, Some e) \<Rightarrow> (st4, Some e)
      | (st4, None) \<Rightarrow> reclaimTick (sub 6 E) st4)))))"

end
