(* ===== verification/Registry.thy ===== *)
theory Registry
  imports ServiceBase
begin

text \<open>
  The abstract specification of the ledger: a registry of address space. It forgets requests,
  observations, findings and events, keeps the allocation rows and the operations, and has five kinds
  of step: rows and operations advance in place, an operation is opened, a hold is taken, an
  uncommitted hold is withdrawn, and a quarantined allocation is retired. The invariants are proved
  here by case analysis of one step; \<open>Lifecycle\<close> shows that every ledger transaction of the
  service is a sequence of registry steps.
\<close>

section \<open>Rows and how they advance\<close>

definition space :: "Allocation \<Rightarrow> Addr set" where
  "space a = (case ParsePrefix (a_CIDR a) of None \<Rightarrow> {} | Some p \<Rightarrow> addrs p)"

definition live :: "Allocation \<Rightarrow> bool" where
  "live a \<longleftrightarrow> a_State a \<noteq> Released"

text \<open>What no operation ever changes of a row.\<close>

definition frozen :: "Allocation \<Rightarrow> Allocation" where
  "frozen a =
     a\<lparr>a_Request := (a_Request a)\<lparr>r_Description := [], r_Labels := None\<rparr>, a_State := NoState,
       a_Revision := 0, a_InventoryID := [], a_InventorySync := [], a_Binding := None,
       a_UpdatedAt := 0, a_ReleaseRequestedAt := None, a_QuarantineUntil := None,
       a_LastObservedAt := None, a_ReleaseBlockers := [], a_Committed := False\<rparr>"

definition state_moves :: "AllocState \<Rightarrow> AllocState \<Rightarrow> bool" where
  "state_moves s s' \<longleftrightarrow>
     s' = s \<or> s = Reserved \<and> s' = Active \<or> (s = Reserved \<or> s = Active) \<and> s' = Quarantined"

definition evolves :: "Allocation \<Rightarrow> Allocation \<Rightarrow> bool" where
  "evolves a a' \<longleftrightarrow>
     frozen a' = frozen a \<and> state_moves (a_State a) (a_State a') \<and>
     (a_Committed a \<longrightarrow> a_Committed a') \<and> (a_State a' \<noteq> a_State a \<longrightarrow> a_Committed a') \<and>
     a_Revision a \<le> a_Revision a'"

definition op_progress :: "Operation \<Rightarrow> Operation \<Rightarrow> bool" where
  "op_progress x y \<longleftrightarrow>
     o_ID y = o_ID x \<and> o_Type y = o_Type x \<and> o_AllocationID y = o_AllocationID x \<and>
     o_TenantID y = o_TenantID x \<and> o_DomainID y = o_DomainID x \<and> o_Adoption y = o_Adoption x \<and>
     (o_Status y = o_Status x \<or> o_Status x = operationPending \<and> o_Status y \<noteq> NoStatus)"

lemma frozen_fields:
  assumes "frozen a' = frozen a"
  shows "a_ID a' = a_ID a" "a_TenantID a' = a_TenantID a" "a_DomainID a' = a_DomainID a"
    "a_CIDR a' = a_CIDR a" "a_PoolID a' = a_PoolID a" "a_RequestHash a' = a_RequestHash a"
    "a_AllocationKey a' = a_AllocationKey a" "a_Scope a' = a_Scope a"
    "a_ParentAllocationID a' = a_ParentAllocationID a" "a_AccountID a' = a_AccountID a"
    "a_Region a' = a_Region a" "a_Environment a' = a_Environment a"
    "a_CreatedAt a' = a_CreatedAt a"
proof -
  have f: "\<And>g. g (frozen a') = g (frozen a)" using assms by simp
  show "a_ID a' = a_ID a" using f [of a_ID] by (simp add: frozen_def)
  show "a_TenantID a' = a_TenantID a" using f [of a_TenantID] by (simp add: frozen_def)
  show "a_DomainID a' = a_DomainID a" using f [of a_DomainID] by (simp add: frozen_def)
  show "a_CIDR a' = a_CIDR a" using f [of a_CIDR] by (simp add: frozen_def)
  show "a_PoolID a' = a_PoolID a" using f [of a_PoolID] by (simp add: frozen_def)
  show "a_RequestHash a' = a_RequestHash a" using f [of a_RequestHash] by (simp add: frozen_def)
  show "a_AllocationKey a' = a_AllocationKey a"
    using f [of "\<lambda>x. r_AllocationKey (a_Request x)"] by (simp add: frozen_def)
  show "a_Scope a' = a_Scope a" using f [of "\<lambda>x. r_Scope (a_Request x)"] by (simp add: frozen_def)
  show "a_ParentAllocationID a' = a_ParentAllocationID a"
    using f [of "\<lambda>x. r_ParentAllocationID (a_Request x)"] by (simp add: frozen_def)
  show "a_AccountID a' = a_AccountID a"
    using f [of "\<lambda>x. r_AccountID (a_Request x)"] by (simp add: frozen_def)
  show "a_Region a' = a_Region a" using f [of "\<lambda>x. r_Region (a_Request x)"] by (simp add: frozen_def)
  show "a_Environment a' = a_Environment a"
    using f [of "\<lambda>x. r_Environment (a_Request x)"] by (simp add: frozen_def)
  show "a_CreatedAt a' = a_CreatedAt a" using f [of a_CreatedAt] by (simp add: frozen_def)
qed

lemma evolves_refl [simp]: "evolves a a"
  by (simp add: evolves_def state_moves_def)

lemma evolves_trans: "evolves a b \<Longrightarrow> evolves b c \<Longrightarrow> evolves a c"
  unfolding evolves_def state_moves_def by auto

lemma op_progress_refl [simp]: "op_progress x x"
  by (simp add: op_progress_def)

lemma op_progress_trans: "op_progress x y \<Longrightarrow> op_progress y z \<Longrightarrow> op_progress x z"
  unfolding op_progress_def by auto

lemma evolves_space: "evolves a a' \<Longrightarrow> space a' = space a"
  using frozen_fields(4) [of a' a] by (simp add: evolves_def space_def)

lemma evolves_live: "evolves a a' \<Longrightarrow> live a' \<longleftrightarrow> live a"
  by (auto simp: evolves_def live_def state_moves_def)

section \<open>The registry\<close>

record Registry =
  g_rows :: "string \<rightharpoonup> Allocation"
  g_ops :: "string \<rightharpoonup> Operation"

definition map_rel :: "('v \<Rightarrow> 'v \<Rightarrow> bool) \<Rightarrow> (string \<rightharpoonup> 'v) \<Rightarrow> (string \<rightharpoonup> 'v) \<Rightarrow> bool" where
  "map_rel R m m' \<longleftrightarrow>
     (\<forall>k. (m k = None \<and> m' k = None) \<or> (\<exists>v v'. m k = Some v \<and> m' k = Some v' \<and> R v v'))"

lemma map_rel_refl: "(\<And>v. R v v) \<Longrightarrow> map_rel R m m"
  unfolding map_rel_def by (metis not_None_eq)

lemma map_relD:
  assumes "map_rel R m m'"
  shows "m k = Some v \<Longrightarrow> \<exists>v'. m' k = Some v' \<and> R v v'"
    and "m' k = Some v' \<Longrightarrow> \<exists>v. m k = Some v \<and> R v v'"
    and "m k = None \<longleftrightarrow> m' k = None"
  using assms unfolding map_rel_def by (metis option.distinct(1) option.inject)+

lemma map_rel_upd: "(\<And>v. R v v) \<Longrightarrow> m k = Some v \<Longrightarrow> R v v' \<Longrightarrow> map_rel R m (m(k \<mapsto> v'))"
  unfolding map_rel_def by (metis fun_upd_apply not_None_eq)

text \<open>
  The operations that fence an overlap domain: while one of them is pending, no reservation, adoption
  or reclamation starts there.
\<close>

definition fencing :: "Operation \<Rightarrow> bool" where
  "fencing x \<longleftrightarrow>
     o_Type x \<in> {reserveOperation, adoptOperation, reclaimOperation} \<and> o_Status x = operationPending"

definition may_open :: "(string \<rightharpoonup> Operation) \<Rightarrow> Operation \<Rightarrow> bool" where
  "may_open ops x \<longleftrightarrow>
     ops (o_ID x) = None \<and> o_ID x \<noteq> [] \<and>
     (fencing x \<longrightarrow> (\<forall>j y. ops j = Some y \<and> fencing y \<longrightarrow> o_DomainID y \<noteq> o_DomainID x))"

definition parent_of :: "Allocation \<Rightarrow> Allocation \<Rightarrow> bool" where
  "parent_of b a \<longleftrightarrow>
     a_Scope a = ''subnet'' \<and> a_ParentAllocationID a = a_ID b \<and> space a \<subseteq> space b"

text \<open>A hold may be taken when its key is unused and it meets nothing live but its own parent.\<close>

definition may_hold :: "(string \<rightharpoonup> Allocation) \<Rightarrow> Allocation \<Rightarrow> bool" where
  "may_hold rows a \<longleftrightarrow>
     rows (a_ID a) = None \<and> a_ID a \<noteq> [] \<and> a_State a = Reserved \<and> \<not> a_Committed a \<and>
     (\<forall>k b. rows k = Some b \<longrightarrow> \<not> (a_TenantID b = a_TenantID a \<and> a_AllocationKey b = a_AllocationKey a)) \<and>
     (\<forall>k b. rows k = Some b \<and> live b \<and> a_DomainID b = a_DomainID a \<longrightarrow>
        space a \<inter> space b = {} \<or> parent_of b a) \<and>
     (a_Scope a = ''subnet'' \<longrightarrow>
        (\<exists>b. rows (a_ParentAllocationID a) = Some b \<and> a_Committed b \<and> live b \<and> parent_of b a))"

text \<open>A binding is only ever verified for a committed row.\<close>

definition bind_target :: "(string \<rightharpoonup> Allocation) \<Rightarrow> Operation \<Rightarrow> bool" where
  "bind_target rows x \<longleftrightarrow>
     (o_Type x = bindOperation \<longrightarrow> (\<exists>a. rows (o_AllocationID x) = Some a \<and> a_Committed a))"

inductive registry_step :: "Registry \<Rightarrow> Registry \<Rightarrow> bool" where
  advance: "map_rel evolves (g_rows g) rows \<Longrightarrow> map_rel op_progress (g_ops g) ops \<Longrightarrow>
    registry_step g \<lparr>g_rows = rows, g_ops = ops\<rparr>"
| open_op: "may_open (g_ops g) x \<Longrightarrow> bind_target (g_rows g) x \<Longrightarrow>
    registry_step g (g\<lparr>g_ops := (g_ops g)(o_ID x \<mapsto> x)\<rparr>)"
| hold: "may_hold (g_rows g) a \<Longrightarrow> may_open (g_ops g) x \<Longrightarrow> bind_target (g_rows g) x \<Longrightarrow>
    registry_step g (g\<lparr>g_rows := (g_rows g)(a_ID a \<mapsto> a), g_ops := (g_ops g)(o_ID x \<mapsto> x)\<rparr>)"
| withdraw: "g_rows g i = Some a \<Longrightarrow> \<not> a_Committed a \<Longrightarrow>
    registry_step g (g\<lparr>g_rows := (g_rows g)(i := None)\<rparr>)"
| retire: "g_rows g i = Some a \<Longrightarrow> a_Committed a \<Longrightarrow> a_State a = Quarantined \<Longrightarrow>
    frozen a' = frozen a \<Longrightarrow> a_State a' = Released \<Longrightarrow> a_Committed a' \<Longrightarrow>
    a_Revision a \<le> a_Revision a' \<Longrightarrow>
    \<forall>j b. g_rows g j = Some b \<and> a_ParentAllocationID b = i \<longrightarrow> \<not> live b \<Longrightarrow>
    map_rel op_progress (g_ops g) ops \<Longrightarrow>
    registry_step g \<lparr>g_rows = (g_rows g)(i \<mapsto> a'), g_ops = ops\<rparr>"

inductive_cases registry_stepE [consumes 1, case_names advance open_op hold withdraw retire]:
  "registry_step g g'"

section \<open>The invariants\<close>

definition row_ids :: "Registry \<Rightarrow> bool" where
  "row_ids g \<longleftrightarrow>
     (\<forall>k a. g_rows g k = Some a \<longrightarrow> a_ID a = k \<and> k \<noteq> []) \<and>
     (\<forall>k x. g_ops g k = Some x \<longrightarrow> o_ID x = k \<and> k \<noteq> [])"

definition keys_unique :: "Registry \<Rightarrow> bool" where
  "keys_unique g \<longleftrightarrow>
     (\<forall>i j a b. g_rows g i = Some a \<and> g_rows g j = Some b \<and> a_TenantID a = a_TenantID b \<and>
        a_AllocationKey a = a_AllocationKey b \<longrightarrow> i = j)"

definition moved_committed :: "Registry \<Rightarrow> bool" where
  "moved_committed g \<longleftrightarrow>
     (\<forall>i a. g_rows g i = Some a \<longrightarrow>
        a_State a \<in> {Reserved, Active, Quarantined, Released} \<and>
        (a_State a \<noteq> Reserved \<longrightarrow> a_Committed a))"

definition children_held :: "Registry \<Rightarrow> bool" where
  "children_held g \<longleftrightarrow>
     (\<forall>i a. g_rows g i = Some a \<and> live a \<and> a_Scope a = ''subnet'' \<longrightarrow>
        (\<exists>b. g_rows g (a_ParentAllocationID a) = Some b \<and> a_Committed b \<and> live b \<and> parent_of b a))"

definition space_disjoint :: "Registry \<Rightarrow> bool" where
  "space_disjoint g \<longleftrightarrow>
     (\<forall>i j a b. g_rows g i = Some a \<and> g_rows g j = Some b \<and> i \<noteq> j \<and> live a \<and> live b \<and>
        a_DomainID a = a_DomainID b \<longrightarrow> space a \<inter> space b = {} \<or> parent_of a b \<or> parent_of b a)"

definition one_fence :: "Registry \<Rightarrow> bool" where
  "one_fence g \<longleftrightarrow>
     (\<forall>i j x y. g_ops g i = Some x \<and> g_ops g j = Some y \<and> fencing x \<and> fencing y \<and>
        o_DomainID x = o_DomainID y \<longrightarrow> i = j)"

definition binds_committed :: "Registry \<Rightarrow> bool" where
  "binds_committed g \<longleftrightarrow> (\<forall>k x. g_ops g k = Some x \<longrightarrow> bind_target (g_rows g) x)"

definition registry_inv :: "Registry \<Rightarrow> bool" where
  "registry_inv g \<longleftrightarrow>
     row_ids g \<and> keys_unique g \<and> moved_committed g \<and> children_held g \<and> space_disjoint g \<and>
     one_fence g \<and> binds_committed g"

lemmas registry_inv_defs = registry_inv_def row_ids_def keys_unique_def moved_committed_def
  children_held_def space_disjoint_def one_fence_def binds_committed_def

definition empty_registry :: Registry where
  "empty_registry = \<lparr>g_rows = Map.empty, g_ops = Map.empty\<rparr>"

lemma empty_inv: "registry_inv empty_registry"
  by (simp add: registry_inv_defs empty_registry_def)

lemma parent_of_evolves:
  assumes "frozen a' = frozen a" "frozen b' = frozen b"
  shows "parent_of b' a' \<longleftrightarrow> parent_of b a"
  using frozen_fields(1,4,8,9) [OF assms(1)] frozen_fields(1,4,8,9) [OF assms(2)]
  by (simp add: parent_of_def space_def)

lemma evolves_frozen: "evolves a a' \<Longrightarrow> frozen a' = frozen a"
  by (simp add: evolves_def)

text \<open>
  Every step but a hold leaves each row of the new registry with an ancestor in the old one that has
  the same frozen part and is live whenever the row is. Most invariants need no more than that.
\<close>

definition inherits :: "Registry \<Rightarrow> Registry \<Rightarrow> bool" where
  "inherits g g' \<longleftrightarrow>
     (\<forall>k a'. g_rows g' k = Some a' \<longrightarrow>
        (\<exists>a. g_rows g k = Some a \<and> frozen a' = frozen a \<and> (live a' \<longrightarrow> live a)))"

lemma inheritsD:
  assumes "inherits g g'" "g_rows g' k = Some a'"
  obtains a where "g_rows g k = Some a" "frozen a' = frozen a" "live a' \<Longrightarrow> live a"
  using assms unfolding inherits_def by blast

lemma inherits_keys:
  assumes "inherits g g'" "keys_unique g"
  shows "keys_unique g'"
  unfolding keys_unique_def
proof (intro allI impI, elim conjE)
  fix i j a' b'
  assume rows: "g_rows g' i = Some a'" "g_rows g' j = Some b'"
    and same: "a_TenantID a' = a_TenantID b'" "a_AllocationKey a' = a_AllocationKey b'"
  obtain a where a: "g_rows g i = Some a" "frozen a' = frozen a"
    using inheritsD [OF assms(1) rows(1)] by blast
  obtain b where b: "g_rows g j = Some b" "frozen b' = frozen b"
    using inheritsD [OF assms(1) rows(2)] by blast
  show "i = j"
    using assms(2) a(1) b(1) same frozen_fields(2,7) [OF a(2)] frozen_fields(2,7) [OF b(2)]
    unfolding keys_unique_def by metis
qed

lemma inherits_disjoint:
  assumes "inherits g g'" "space_disjoint g"
  shows "space_disjoint g'"
  unfolding space_disjoint_def
proof (intro allI impI, elim conjE)
  fix i j a' b'
  assume rows: "g_rows g' i = Some a'" "g_rows g' j = Some b'" and h: "i \<noteq> j" "live a'" "live b'"
    "a_DomainID a' = a_DomainID b'"
  obtain a where a: "g_rows g i = Some a" "frozen a' = frozen a" "live a"
    using inheritsD [OF assms(1) rows(1)] h by blast
  obtain b where b: "g_rows g j = Some b" "frozen b' = frozen b" "live b"
    using inheritsD [OF assms(1) rows(2)] h by blast
  have "space a \<inter> space b = {} \<or> parent_of a b \<or> parent_of b a"
    using assms(2) a b h frozen_fields(3) [OF a(2)] frozen_fields(3) [OF b(2)]
    unfolding space_disjoint_def by metis
  then show "space a' \<inter> space b' = {} \<or> parent_of a' b' \<or> parent_of b' a'"
    using frozen_fields(4) [OF a(2)] frozen_fields(4) [OF b(2)]
      parent_of_evolves [OF a(2) b(2)] parent_of_evolves [OF b(2) a(2)]
    by (simp add: space_def)
qed

lemma advance_inherits:
  "map_rel evolves (g_rows g) rows \<Longrightarrow> inherits g \<lparr>g_rows = rows, g_ops = ops\<rparr>"
  unfolding inherits_def by (auto dest: map_relD(2) simp: evolves_frozen evolves_live)

lemma progress_fence:
  assumes "map_rel op_progress ops ops'" "ops' j = Some y" "fencing y"
  obtains x where "ops j = Some x" "fencing x" "o_DomainID y = o_DomainID x"
  using map_relD(2) [OF assms(1,2)] assms(3) that by (auto simp: op_progress_def fencing_def)

lemma progress_one_fence:
  assumes "map_rel op_progress (g_ops g) ops" "one_fence g"
  shows "one_fence \<lparr>g_rows = rows, g_ops = ops\<rparr>"
  unfolding one_fence_def
proof (intro allI impI, elim conjE)
  fix i j x y
  assume h: "g_ops \<lparr>g_rows = rows, g_ops = ops\<rparr> i = Some x" "g_ops \<lparr>g_rows = rows, g_ops = ops\<rparr> j = Some y"
    "fencing x" "fencing y" "o_DomainID x = o_DomainID y"
  obtain x0 where "g_ops g i = Some x0" "fencing x0" "o_DomainID x = o_DomainID x0"
    using progress_fence [OF assms(1), of i x] h by auto
  moreover obtain y0 where "g_ops g j = Some y0" "fencing y0" "o_DomainID y = o_DomainID y0"
    using progress_fence [OF assms(1), of j y] h by auto
  ultimately show "i = j" using assms(2) h(5) unfolding one_fence_def by metis
qed

lemma progress_ids:
  assumes "map_rel op_progress (g_ops g) ops" "row_ids g" "ops k = Some x"
  shows "o_ID x = k \<and> k \<noteq> []"
  using map_relD(2) [OF assms(1,3)] assms(2) by (auto simp: row_ids_def op_progress_def)

lemma open_one_fence:
  assumes "may_open (g_ops g) x" "one_fence g"
  shows "one_fence (g\<lparr>g_ops := (g_ops g)(o_ID x \<mapsto> x)\<rparr>)"
  unfolding one_fence_def
proof (intro allI impI, elim conjE)
  fix i j y z
  assume h: "g_ops (g\<lparr>g_ops := (g_ops g)(o_ID x \<mapsto> x)\<rparr>) i = Some y"
    "g_ops (g\<lparr>g_ops := (g_ops g)(o_ID x \<mapsto> x)\<rparr>) j = Some z"
    "fencing y" "fencing z" "o_DomainID y = o_DomainID z"
  have clash: "o_DomainID w \<noteq> o_DomainID x" if "g_ops g k = Some w" "fencing w" "fencing x" for k w
    using assms(1) that unfolding may_open_def by blast
  consider "i = o_ID x" "j = o_ID x" | "i = o_ID x" "j \<noteq> o_ID x" | "i \<noteq> o_ID x" "j = o_ID x"
    | "i \<noteq> o_ID x" "j \<noteq> o_ID x" by blast
  then show "i = j"
  proof cases
    case 2
    then show ?thesis using h clash [of j z] by simp
  next
    case 3
    then show ?thesis using h clash [of i y] by simp
  next
    case 4
    then show ?thesis using h assms(2) unfolding one_fence_def by simp
  qed simp
qed

lemma one_fence_rows [simp]: "one_fence (g\<lparr>g_rows := r\<rparr>) = one_fence g"
  by (simp add: one_fence_def)

lemma one_fence_hold [simp]: "one_fence (g\<lparr>g_rows := r, g_ops := p\<rparr>) = one_fence (g\<lparr>g_ops := p\<rparr>)"
  by (simp add: one_fence_def)

lemma rows_only [simp]:
  "space_disjoint (g\<lparr>g_ops := p\<rparr>) = space_disjoint g"
  "keys_unique (g\<lparr>g_ops := p\<rparr>) = keys_unique g"
  "children_held (g\<lparr>g_ops := p\<rparr>) = children_held g"
  by (simp_all add: space_disjoint_def keys_unique_def children_held_def)

lemma advance_children:
  assumes "map_rel evolves (g_rows g) rows" "children_held g"
  shows "children_held \<lparr>g_rows = rows, g_ops = ops\<rparr>"
  unfolding children_held_def
proof (intro allI impI, elim conjE)
  fix i a' assume a': "g_rows \<lparr>g_rows = rows, g_ops = ops\<rparr> i = Some a'" "live a'" "a_Scope a' = ''subnet''"
  then obtain a where a: "g_rows g i = Some a" "evolves a a'"
    using map_relD(2) [OF assms(1)] by fastforce
  note fa = frozen_fields(8,9) [OF evolves_frozen [OF a(2)]]
  have "live a" "a_Scope a = ''subnet''" using a' evolves_live [OF a(2)] fa by simp_all
  then obtain b where b: "g_rows g (a_ParentAllocationID a) = Some b" "a_Committed b" "live b"
    "parent_of b a"
    using assms(2) a(1) unfolding children_held_def by blast
  then obtain b' where b': "rows (a_ParentAllocationID a) = Some b'" "evolves b b'"
    using map_relD(1) [OF assms(1)] by blast
  have "a_Committed b'" "live b'" "parent_of b' a'"
    using b b'(2) evolves_live [OF b'(2)]
      parent_of_evolves [OF evolves_frozen [OF a(2)] evolves_frozen [OF b'(2)]]
    by (simp_all add: evolves_def)
  then show "\<exists>b. g_rows \<lparr>g_rows = rows, g_ops = ops\<rparr> (a_ParentAllocationID a') = Some b \<and> a_Committed b
      \<and> live b \<and> parent_of b a'"
    using b'(1) fa(2) by simp
qed

lemma hold_children:
  assumes "may_hold (g_rows g) a" "children_held g"
  shows "children_held (g\<lparr>g_rows := (g_rows g)(a_ID a \<mapsto> a), g_ops := ops\<rparr>)"
  unfolding children_held_def
proof (intro allI impI, elim conjE)
  fix i c
  assume c: "g_rows (g\<lparr>g_rows := (g_rows g)(a_ID a \<mapsto> a), g_ops := ops\<rparr>) i = Some c" "live c"
    "a_Scope c = ''subnet''"
  obtain b where b: "g_rows g (a_ParentAllocationID c) = Some b" "a_Committed b" "live b" "parent_of b c"
  proof (cases "i = a_ID a")
    case True
    then show thesis using c assms(1) that unfolding may_hold_def by auto
  next
    case False
    then show thesis using c assms(2) that unfolding children_held_def by auto
  qed
  moreover have "a_ParentAllocationID c \<noteq> a_ID a" using b(1) assms(1) by (auto simp: may_hold_def)
  ultimately show "\<exists>b. g_rows (g\<lparr>g_rows := (g_rows g)(a_ID a \<mapsto> a), g_ops := ops\<rparr>) (a_ParentAllocationID c)
      = Some b \<and> a_Committed b \<and> live b \<and> parent_of b c" by simp
qed

lemma hold_disjoint:
  assumes "may_hold (g_rows g) a" "space_disjoint g"
  shows "space_disjoint (g\<lparr>g_rows := (g_rows g)(a_ID a \<mapsto> a), g_ops := ops\<rparr>)"
  unfolding space_disjoint_def
proof (intro allI impI, elim conjE)
  fix i j b c
  assume rows: "g_rows (g\<lparr>g_rows := (g_rows g)(a_ID a \<mapsto> a), g_ops := ops\<rparr>) i = Some b"
    "g_rows (g\<lparr>g_rows := (g_rows g)(a_ID a \<mapsto> a), g_ops := ops\<rparr>) j = Some c"
    and h: "i \<noteq> j" "live b" "live c" "a_DomainID b = a_DomainID c"
  have new: "space a \<inter> space d = {} \<or> parent_of d a"
    if "g_rows g k = Some d" "live d" "a_DomainID d = a_DomainID a" for k d
    using assms(1) that unfolding may_hold_def by blast
  consider "i = a_ID a" "j \<noteq> a_ID a" | "i \<noteq> a_ID a" "j = a_ID a" | "i \<noteq> a_ID a" "j \<noteq> a_ID a"
    using h(1) by blast
  then show "space b \<inter> space c = {} \<or> parent_of b c \<or> parent_of c b"
  proof cases
    case 1
    then show ?thesis using rows h new [of j c] by auto
  next
    case 2
    then show ?thesis using rows h new [of i b] by auto
  next
    case 3
    then show ?thesis using rows h assms(2) unfolding space_disjoint_def by simp
  qed
qed

lemma hold_keys:
  assumes "may_hold (g_rows g) a" "keys_unique g"
  shows "keys_unique (g\<lparr>g_rows := (g_rows g)(a_ID a \<mapsto> a), g_ops := ops\<rparr>)"
proof -
  have fresh_key: "\<not> (a_TenantID b = a_TenantID a \<and> a_AllocationKey b = a_AllocationKey a)"
    if "g_rows g k = Some b" for k b
    using assms(1) that unfolding may_hold_def by blast
  show ?thesis
    unfolding keys_unique_def
  proof (intro allI impI, elim conjE)
    fix i j b c
    assume rows: "g_rows (g\<lparr>g_rows := (g_rows g)(a_ID a \<mapsto> a), g_ops := ops\<rparr>) i = Some b"
      "g_rows (g\<lparr>g_rows := (g_rows g)(a_ID a \<mapsto> a), g_ops := ops\<rparr>) j = Some c"
      and same: "a_TenantID b = a_TenantID c" "a_AllocationKey b = a_AllocationKey c"
    consider "i = a_ID a" "j = a_ID a" | "i = a_ID a" "j \<noteq> a_ID a" | "i \<noteq> a_ID a" "j = a_ID a"
      | "i \<noteq> a_ID a" "j \<noteq> a_ID a" by blast
    then show "i = j"
    proof cases
      case 2
      then show ?thesis using rows same fresh_key [of j c] by simp
    next
      case 3
      then show ?thesis using rows same fresh_key [of i b] by simp
    next
      case 4
      then have "g_rows g i = Some b" "g_rows g j = Some c" using rows by simp_all
      then show ?thesis using assms(2) same unfolding keys_unique_def by blast
    qed simp
  qed
qed

lemma withdraw_children:
  assumes "g_rows g i = Some a" "\<not> a_Committed a" "children_held g"
  shows "children_held (g\<lparr>g_rows := (g_rows g)(i := None)\<rparr>)"
  unfolding children_held_def
proof (intro allI impI, elim conjE)
  fix j c
  assume c: "g_rows (g\<lparr>g_rows := (g_rows g)(i := None)\<rparr>) j = Some c" "live c" "a_Scope c = ''subnet''"
  have "g_rows g j = Some c" using c(1) by (cases "j = i") simp_all
  then obtain b where b: "g_rows g (a_ParentAllocationID c) = Some b" "a_Committed b" "live b" "parent_of b c"
    using assms(3) c(2,3) unfolding children_held_def by blast
  then have "a_ParentAllocationID c \<noteq> i" using assms(1,2) by auto
  then show "\<exists>b. g_rows (g\<lparr>g_rows := (g_rows g)(i := None)\<rparr>) (a_ParentAllocationID c) = Some b
      \<and> a_Committed b \<and> live b \<and> parent_of b c" using b by simp
qed

lemma retire_children:
  assumes i: "g_rows g i = Some a" "frozen a' = frozen a" "a_State a' = Released"
    and kids: "\<forall>j b. g_rows g j = Some b \<and> a_ParentAllocationID b = i \<longrightarrow> \<not> live b"
    and g: "children_held g"
  shows "children_held \<lparr>g_rows = (g_rows g)(i \<mapsto> a'), g_ops = ops\<rparr>"
  unfolding children_held_def
proof (intro allI impI, elim conjE)
  fix j c
  assume c: "g_rows \<lparr>g_rows = (g_rows g)(i \<mapsto> a'), g_ops = ops\<rparr> j = Some c" "live c"
    "a_Scope c = ''subnet''"
  have "j \<noteq> i" using c i(3) by (auto simp: live_def)
  then have c0: "g_rows g j = Some c" using c(1) by simp
  then obtain b where "g_rows g (a_ParentAllocationID c) = Some b" "a_Committed b" "live b" "parent_of b c"
    using g c(2,3) unfolding children_held_def by blast
  moreover have "a_ParentAllocationID c \<noteq> i" using kids c0 c(2) by blast
  ultimately show "\<exists>b. g_rows \<lparr>g_rows = (g_rows g)(i \<mapsto> a'), g_ops = ops\<rparr> (a_ParentAllocationID c) = Some b
      \<and> a_Committed b \<and> live b \<and> parent_of b c" by simp
qed

lemma retire_inherits:
  assumes "g_rows g i = Some a" "frozen a' = frozen a" "a_State a' = Released"
  shows "inherits g \<lparr>g_rows = (g_rows g)(i \<mapsto> a'), g_ops = ops\<rparr>"
  using assms unfolding inherits_def by (auto simp: live_def)

lemma withdraw_inherits: "inherits g (g\<lparr>g_rows := (g_rows g)(i := None)\<rparr>)"
  unfolding inherits_def by (auto split: if_splits)

lemma step_ids:
  assumes "registry_step g g'" "row_ids g"
  shows "row_ids g'"
  using assms(1)
proof (cases rule: registry_stepE)
  case (advance rows ops)
  have "a_ID a = k \<and> k \<noteq> []" if "rows k = Some a" for k a
    using map_relD(2) [OF advance(2) that] assms(2) frozen_fields(1) evolves_frozen
    unfolding row_ids_def by metis
  then show ?thesis using advance progress_ids [OF advance(3) assms(2)] by (simp add: row_ids_def)
next
  case (retire i a a' ops)
  then have "a_ID a' = i \<and> i \<noteq> []"
    using assms(2) frozen_fields(1) unfolding row_ids_def by metis
  then show ?thesis
    using assms(2) retire(1) progress_ids [OF retire(10) assms(2)] by (simp add: row_ids_def)
qed (use assms(2) in \<open>auto simp: row_ids_def may_open_def may_hold_def\<close>)

lemma step_moved:
  assumes "registry_step g g'" "moved_committed g"
  shows "moved_committed g'"
  using assms(1)
proof (cases rule: registry_stepE)
  case (advance rows ops)
  have "a_State a' \<in> {Reserved, Active, Quarantined, Released} \<and> (a_State a' \<noteq> Reserved \<longrightarrow> a_Committed a')"
    if "rows k = Some a'" for k a'
    using map_relD(2) [OF advance(2) that] assms(2)
    unfolding moved_committed_def evolves_def state_moves_def by fastforce
  then show ?thesis using advance(1) by (simp add: moved_committed_def)
qed (use assms(2) in \<open>auto simp: moved_committed_def may_hold_def\<close>)

lemma step_children:
  assumes "registry_step g g'" "children_held g"
  shows "children_held g'"
  using assms(1)
proof (cases rule: registry_stepE)
  case (advance rows ops)
  then show ?thesis using advance_children assms(2) by simp
next
  case (open_op x)
  then show ?thesis using assms(2) by simp
next
  case (hold a x)
  then show ?thesis using hold_children assms(2) by simp
next
  case (withdraw i a)
  then show ?thesis using withdraw_children assms(2) by simp
next
  case (retire i a a' ops)
  then show ?thesis using retire_children [OF retire(2,5,6,9) assms(2)] by simp
qed

lemma step_fence:
  assumes "registry_step g g'" "one_fence g"
  shows "one_fence g'"
  using assms(1)
proof (cases rule: registry_stepE)
  case (advance rows ops)
  then show ?thesis using progress_one_fence assms(2) by simp
next
  case (open_op x)
  then show ?thesis using open_one_fence assms(2) by simp
next
  case (hold a x)
  then show ?thesis using open_one_fence [OF hold(3) assms(2)] by simp
next
  case (withdraw i a)
  then show ?thesis using assms(2) by simp
next
  case (retire i a a' ops)
  then show ?thesis using progress_one_fence assms(2) by simp
qed

lemma step_disjoint_keys:
  assumes "registry_step g g'" "space_disjoint g" "keys_unique g"
  shows "space_disjoint g' \<and> keys_unique g'"
  using assms(1)
proof (cases rule: registry_stepE)
  case (advance rows ops)
  have "inherits g g'" using advance_inherits [OF advance(2)] advance(1) by simp
  then show ?thesis using inherits_disjoint inherits_keys assms(2,3) by blast
next
  case (open_op x)
  then show ?thesis using assms(2,3) by simp
next
  case (hold a x)
  then show ?thesis using hold_disjoint hold_keys assms(2,3) by simp
next
  case (withdraw i a)
  have "inherits g g'" using withdraw_inherits withdraw(1) by simp
  then show ?thesis using inherits_disjoint inherits_keys assms(2,3) by blast
next
  case (retire i a a' ops)
  have "inherits g g'" using retire_inherits [OF retire(2,5,6)] retire(1) by simp
  then show ?thesis using inherits_disjoint inherits_keys assms(2,3) by blast
qed

section \<open>What a run keeps of a row\<close>

text \<open>A committed row stays, keeps its frozen part and only moves forward; \<open>a'\<close> is its later form.\<close>

definition rank :: "AllocState \<Rightarrow> nat" where
  "rank s = (case s of NoState \<Rightarrow> 0 | Reserved \<Rightarrow> 1 | Active \<Rightarrow> 2 | Quarantined \<Rightarrow> 3 | Released \<Rightarrow> 4)"

definition persists :: "string \<Rightarrow> Allocation \<Rightarrow> Registry \<Rightarrow> bool" where
  "persists i a g \<longleftrightarrow>
     (\<exists>a'. g_rows g i = Some a' \<and> frozen a' = frozen a \<and> a_Committed a' \<and>
        rank (a_State a) \<le> rank (a_State a') \<and> a_Revision a \<le> a_Revision a')"

lemma evolves_rank: "evolves a a' \<Longrightarrow> rank (a_State a) \<le> rank (a_State a')"
  by (auto simp: evolves_def state_moves_def rank_def split: AllocState.splits)

lemma step_persists:
  assumes "persists i a g" "registry_step g g'"
  shows "persists i a g'"
proof -
  obtain b where b: "g_rows g i = Some b" "frozen b = frozen a" "a_Committed b"
    "rank (a_State a) \<le> rank (a_State b)" "a_Revision a \<le> a_Revision b"
    using assms(1) unfolding persists_def by blast
  show ?thesis using assms(2)
  proof (cases rule: registry_stepE)
    case (advance rows ops)
    obtain b' where b': "rows i = Some b'" "evolves b b'"
      using map_relD(1) [OF advance(2) b(1)] by blast
    have "rank (a_State a) \<le> rank (a_State b')" using evolves_rank [OF b'(2)] b(4) by simp
    moreover have "frozen b' = frozen a" "a_Committed b'" "a_Revision a \<le> a_Revision b'"
      using b'(2) b by (simp_all add: evolves_def)
    ultimately show ?thesis using advance(1) b'(1) by (simp add: persists_def)
  next
    case (hold c x)
    then have "a_ID c \<noteq> i" using b(1) by (auto simp: may_hold_def)
    then show ?thesis using assms(1) hold(1) by (simp add: persists_def)
  next
    case (withdraw j c)
    then have "j \<noteq> i" using b by auto
    then show ?thesis using assms(1) withdraw(1) by (simp add: persists_def)
  next
    case (retire j c c' ops)
    show ?thesis
    proof (cases "j = i")
      case True
      then have "c = b" using retire(2) b(1) by simp
      then show ?thesis using True retire b by (auto simp: persists_def rank_def)
    next
      case False
      then show ?thesis using assms(1) retire(1) by (simp add: persists_def)
    qed
  qed (use assms(1) in \<open>simp add: persists_def\<close>)
qed

lemma bind_target_kept:
  assumes "registry_step g g'" "bind_target (g_rows g) x" "op_progress x y"
  shows "bind_target (g_rows g') y"
proof -
  have "\<exists>a'. g_rows g' i = Some a' \<and> a_Committed a'" if "g_rows g i = Some a" "a_Committed a" for i a
  proof -
    have "persists i a g" using that by (simp add: persists_def)
    then have "persists i a g'" using assms(1) by (rule step_persists)
    then show ?thesis by (auto simp: persists_def)
  qed
  then show ?thesis using assms(2,3) by (auto simp: bind_target_def op_progress_def)
qed

lemma step_binds:
  assumes "registry_step g g'" "binds_committed g"
  shows "binds_committed g'"
proof -
  note kept = bind_target_kept [OF assms(1)]
  have old: "bind_target (g_rows g) x" if "g_ops g k = Some x" for k x
    using assms(2) that by (simp add: binds_committed_def)
  have "bind_target (g_rows g') y" if y: "g_ops g' k = Some y" for k y
    using assms(1)
  proof (cases rule: registry_stepE)
    case (advance rows ops)
    then obtain x where "g_ops g k = Some x" "op_progress x y"
      using map_relD(2) [of op_progress "g_ops g" ops k y] y by auto
    then show ?thesis using kept old by blast
  next
    case (retire i a a' ops)
    then obtain x where "g_ops g k = Some x" "op_progress x y"
      using map_relD(2) [of op_progress "g_ops g" ops k y] y by auto
    then show ?thesis using kept old by blast
  next
    case (open_op x)
    then have "bind_target (g_rows g) y" using y old by (auto split: if_splits)
    then show ?thesis using kept [OF _ op_progress_refl] by blast
  next
    case (hold a x)
    then have "bind_target (g_rows g) y" using y old by (auto split: if_splits)
    then show ?thesis using kept [OF _ op_progress_refl] by blast
  next
    case (withdraw i a)
    then have "bind_target (g_rows g) y" using y old by auto
    then show ?thesis using kept [OF _ op_progress_refl] by blast
  qed
  then show ?thesis by (simp add: binds_committed_def)
qed

lemma step_inv:
  assumes "registry_inv g" "registry_step g g'"
  shows "registry_inv g'"
proof -
  note inv = assms(1) [unfolded registry_inv_def]
  show ?thesis
    unfolding registry_inv_def
    using step_ids [OF assms(2)] step_moved [OF assms(2)] step_children [OF assms(2)]
      step_fence [OF assms(2)] step_disjoint_keys [OF assms(2)] step_binds [OF assms(2)] inv by simp
qed

interpretation registry: stable registry_step registry_inv
  by unfold_locales (rule step_inv)

interpretation committed_row: stable registry_step "persists i a" for i a
  by unfold_locales (rule step_persists)

text \<open>An operation stays for ever, and once terminal it keeps its status.\<close>

definition op_persists :: "string \<Rightarrow> Operation \<Rightarrow> Registry \<Rightarrow> bool" where
  "op_persists i x g \<longleftrightarrow> (\<exists>y. g_ops g i = Some y \<and> op_progress x y)"

lemma step_op_persists:
  assumes "op_persists i x g" "registry_step g g'"
  shows "op_persists i x g'"
proof -
  obtain y where y: "g_ops g i = Some y" "op_progress x y"
    using assms(1) unfolding op_persists_def by blast
  have "op_persists i x \<lparr>g_rows = r, g_ops = ops\<rparr>" if "map_rel op_progress (g_ops g) ops" for ops r
    using map_relD(1) [OF that y(1)] op_progress_trans [OF y(2)] unfolding op_persists_def by auto
  note progress = this
  show ?thesis using assms(2)
  proof (cases rule: registry_stepE)
    case (open_op z)
    then show ?thesis using y by (auto simp: op_persists_def may_open_def)
  next
    case (hold a z)
    then show ?thesis using y by (auto simp: op_persists_def may_open_def)
  next
    case (withdraw j a)
    then show ?thesis using y by (auto simp: op_persists_def)
  qed (use progress in simp_all)
qed

interpretation operation_row: stable registry_step "op_persists i x" for i x
  by unfold_locales (rule step_op_persists)

end
