(* ===== verification/Lifecycle.thy ===== *)
theory Lifecycle
  imports Worker Registry
begin

text \<open>
  The ledger as a transition system. \<open>ledger_step\<close> has one rule per transaction the service ever runs
  against the ledger, with arbitrary inputs: any process, principal, configuration, clock and adapter
  answer. A run is therefore every interleaving of every handler. \<open>abs\<close> forgets what the
  registry does not keep, and the theory shows that each transaction is a sequence of registry
  steps, so that the invariants of \<open>Registry\<close> hold in every ledger state that can be reached.
\<close>

section \<open>The transactions as steps\<close>

text \<open>
  \<open>NewID\<close> draws sixteen random bytes; the model relies on the draws of one transaction being
  different from each other and from every identifier already stored.
\<close>

definition ids_fresh :: "Env \<Rightarrow> State \<Rightarrow> bool" where
  "ids_fresh E st \<longleftrightarrow>
     (let ks = [0 ..< 2 + 2 * length (Allocations st)]
      in list_all (\<lambda>k. mget (Allocations st) (fresh E ''alloc'' k) = None
                      \<and> mget (Operations st) (fresh E ''op'' k) = None) ks
         \<and> distinct (map (fresh E ''op'') ks))"

text \<open>
  What \<open>validateRequest\<close> has established before the planning transaction runs: the pool belongs to
  the domain, and the pool of a subnet is the CIDR of its committed parent.
\<close>

definition admitted :: "PlanInput \<Rightarrow> State \<Rightarrow> bool" where
  "admitted i st \<longleftrightarrow>
     pl_DomainID (pn_Pool i) = d_ID (pn_Domain i) \<and>
     (r_Scope (pn_Request i) = ''subnet'' \<longrightarrow>
        (\<exists>b. mget (Allocations st) (r_ParentAllocationID (pn_Request i)) = Some b \<and> a_Committed b \<and>
           pl_CIDR (pn_Pool i) = a_CIDR b))"

definition committed_at :: "State \<Rightarrow> string \<Rightarrow> bool" where
  "committed_at st i \<longleftrightarrow> (case mget (Allocations st) i of None \<Rightarrow> False | Some a \<Rightarrow> a_Committed a)"

inductive ledger_step :: "State \<Rightarrow> State \<Rightarrow> bool" where
  plan: "reserve_plan E i st = Inr (st', out) \<Longrightarrow> admitted i st \<Longrightarrow> ids_fresh E st \<Longrightarrow> ledger_step st st'"
| commit: "reserve_commit E pin ev held op0 invID st = Inr (st', out1) \<Longrightarrow> ledger_step st st'"
| patch: "Patch_txn E p i ds ls etag key st = Inr (st', a) \<Longrightarrow> ledger_step st st'"
| bind: "bind_plan E p i b key op1 st = Inr (st', out2) \<Longrightarrow> ids_fresh E st \<Longrightarrow> ledger_step st st'"
| bound: "finish_binding_txn E i op0 b st = Inr (st', out3) \<Longrightarrow> committed_at st i \<Longrightarrow> ledger_step st st'"
| release: "release_txn E p i st = Inr (st', a) \<Longrightarrow> ledger_step st st'"
| reclaim: "reclaim_plan E st = Inr (st', jobs) \<Longrightarrow> ids_fresh E st \<Longrightarrow> ledger_step st st'"
| reclaimed: "reclaim_finish E k job failed post obs par st = Inr (st', u) \<Longrightarrow>
    committed_at st (a_ID (fst job)) \<Longrightarrow> mget (Operations st) (o_ID (snd job)) \<noteq> None \<Longrightarrow>
    ledger_step st st'"
| cancel: "cancel_fence E p oid st = Inr (st', t) \<Longrightarrow> ledger_step st st'"
| cancelled: "cancel_delete E t st = Inr (st', r) \<Longrightarrow> ledger_step st st'"
| abandon: "abandon_fence E i oid operator reason st = Inr (st', v) \<Longrightarrow> ledger_step st st'"
| abandoned: "abandon_delete E v st = Inr (st', r) \<Longrightarrow> ledger_step st st'"
| recovered: "commit_recovered_txn E job invID (reservation_event E) st = Inr (st', u) \<Longrightarrow>
    ledger_step st st'"
| readopted: "commit_recovered_txn E job invID (adoption_event E rec ob) st = Inr (st', u) \<Longrightarrow>
    ledger_step st st'"
| flagged: "flag_stuck_txn E a code st = Inr (st', u) \<Longrightarrow> ledger_step st st'"
| observed: "tick_observe_txn E d res st = Inr (st', u) \<Longrightarrow> ledger_step st st'"
| reconciled: "reconcile_txn E st = Inr (st', u) \<Longrightarrow> ids_fresh E st \<Longrightarrow> ledger_step st st'"
| projected: "projection_txn E now results st = Inr (st', u) \<Longrightarrow> ledger_step st st'"

abbreviation ledger_run :: "State \<Rightarrow> State \<Rightarrow> bool" where
  "ledger_run \<equiv> ledger_step\<^sup>*\<^sup>*"

definition reachable :: "State \<Rightarrow> bool" where
  "reachable st \<longleftrightarrow> ledger_run NewState st"

section \<open>Abstraction\<close>

definition abs_registry :: "State \<Rightarrow> Registry" where
  "abs_registry st = \<lparr>g_rows = mget (Allocations st), g_ops = mget (Operations st)\<rparr>"

lemma abs_simps [simp]:
  "g_rows (abs_registry st) = mget (Allocations st)" "g_ops (abs_registry st) = mget (Operations st)"
  by (simp_all add: abs_registry_def)

definition ledger_ok :: "State \<Rightarrow> bool" where
  "ledger_ok st \<longleftrightarrow>
     mok (Allocations st) \<and> mok (Operations st) \<and> registry_inv (abs_registry st)"

lemma ledger_okD:
  assumes "ledger_ok st"
  shows "mok (Allocations st)" "mok (Operations st)" "registry_inv (abs_registry st)"
    "mget (Allocations st) k = Some a \<Longrightarrow> a_ID a = k \<and> k \<noteq> []"
    "mget (Operations st) k = Some x \<Longrightarrow> o_ID x = k \<and> k \<noteq> []"
  using assms by (auto simp: ledger_ok_def registry_inv_def row_ids_def)

lemma NewState_ok: "ledger_ok NewState"
proof -
  have "abs_registry NewState = empty_registry"
    by (simp add: abs_registry_def empty_registry_def fun_eq_iff)
  then show ?thesis using empty_inv by (simp add: ledger_ok_def)
qed

lemma at_Some:
  "a_ID (allocation_at st k) \<noteq> [] \<Longrightarrow> mget (Allocations st) k = Some (allocation_at st k)"
  "o_Status (operation_at st k) = operationPending \<Longrightarrow>
     mget (Operations st) k = Some (operation_at st k)"
  by (cases "mget (Allocations st) k"; simp) (cases "mget (Operations st) k"; simp)

text \<open>What a transaction does to the registry, with the tables staying well formed.\<close>

definition simulated :: "State \<Rightarrow> State \<Rightarrow> bool" where
  "simulated st st' \<longleftrightarrow>
     mok (Allocations st') \<and> mok (Operations st') \<and>
     registry_step\<^sup>*\<^sup>* (abs_registry st) (abs_registry st')"

lemma simulated_ok: "ledger_ok st \<Longrightarrow> simulated st st' \<Longrightarrow> ledger_ok st'"
  unfolding ledger_ok_def simulated_def using registry.run_keeps by blast

lemma simulated_refl: "ledger_ok st \<Longrightarrow> simulated st st"
  by (simp add: simulated_def ledger_ok_def)

lemma simulated_trans: "simulated st st' \<Longrightarrow> simulated st' st'' \<Longrightarrow> simulated st st''"
  unfolding simulated_def by (meson rtranclp_trans)

lemma simulated_same:
  assumes "ledger_ok st" "Allocations st' = Allocations st" "Operations st' = Operations st"
  shows "simulated st st'"
  using assms by (simp add: simulated_def ledger_ok_def abs_registry_def)

lemma simulated_advance:
  assumes "mok (Allocations st')" "mok (Operations st')"
    and "map_rel evolves (mget (Allocations st)) (mget (Allocations st'))"
    and "map_rel op_progress (mget (Operations st)) (mget (Operations st'))"
  shows "simulated st st'"
proof -
  have "registry_step (abs_registry st) (abs_registry st')"
    unfolding abs_registry_def [of st'] using assms(3,4) by (intro registry_step.advance) simp_all
  then show ?thesis using assms(1,2) by (simp add: simulated_def r_into_rtranclp)
qed

text \<open>A row advances in place, and with it, or alone, an operation.\<close>

lemma simulated_row:
  assumes ok: "ledger_ok st" and a: "mget (Allocations st) k = Some a" "evolves a a'"
    and st': "Allocations st' = mput k a' (Allocations st)" "Operations st' = Operations st"
  shows "simulated st st'"
proof (rule simulated_advance)
  show "map_rel evolves (mget (Allocations st)) (mget (Allocations st'))"
    using map_rel_upd [of evolves "mget (Allocations st)" k a a'] a st' by simp
  show "map_rel op_progress (mget (Operations st)) (mget (Operations st'))"
    using map_rel_refl [of op_progress] st' by simp
qed (use ledger_okD(1,2) [OF ok] st' in simp_all)

lemma simulated_op:
  assumes ok: "ledger_ok st" and x: "mget (Operations st) k = Some x" "op_progress x x'"
    and st': "Allocations st' = Allocations st" "Operations st' = mput k x' (Operations st)"
  shows "simulated st st'"
proof (rule simulated_advance)
  show "map_rel op_progress (mget (Operations st)) (mget (Operations st'))"
    using map_rel_upd [of op_progress "mget (Operations st)" k x x'] x st' by simp
  show "map_rel evolves (mget (Allocations st)) (mget (Allocations st'))"
    using map_rel_refl [of evolves] st' by simp
qed (use ledger_okD(1,2) [OF ok] st' in simp_all)

lemma simulated_row_op:
  assumes ok: "ledger_ok st" and a: "mget (Allocations st) k = Some a" "evolves a a'"
    and x: "mget (Operations st) j = Some x" "op_progress x x'"
    and st': "Allocations st' = mput k a' (Allocations st)" "Operations st' = mput j x' (Operations st)"
  shows "simulated st st'"
proof (rule simulated_advance)
  show "map_rel evolves (mget (Allocations st)) (mget (Allocations st'))"
    using map_rel_upd [of evolves "mget (Allocations st)" k a a'] a st' by simp
  show "map_rel op_progress (mget (Operations st)) (mget (Operations st'))"
    using map_rel_upd [of op_progress "mget (Operations st)" j x x'] x st' by simp
qed (use ledger_okD(1,2) [OF ok] st' in simp_all)

lemma simulated_open:
  assumes ok: "ledger_ok st" and "may_open (mget (Operations st)) x" and "bind_target (mget (Allocations st)) x"
    and st': "Allocations st' = Allocations st" "Operations st' = mput (o_ID x) x (Operations st)"
  shows "simulated st st'"
proof -
  have "registry_step (abs_registry st)
      ((abs_registry st)\<lparr>g_ops := (g_ops (abs_registry st))(o_ID x \<mapsto> x)\<rparr>)"
    using assms(2,3) by (intro registry_step.open_op) simp_all
  then show ?thesis
    using ledger_okD(1,2) [OF ok] st' by (simp add: simulated_def abs_registry_def r_into_rtranclp)
qed

section \<open>Bookkeeping that the registry does not see\<close>

lemma unseen [simp]:
  "Allocations (workerEvent st a e ac re at) = Allocations st"
  "Operations (workerEvent st a e ac re at) = Operations st"
  "Allocations (workerFinding K st a c sv at) = Allocations st"
  "Operations (workerFinding K st a c sv at) = Operations st"
  "Allocations (resolveFinding K st a c) = Allocations st"
  "Operations (resolveFinding K st a c) = Operations st"
  "Allocations (recordObservation st ob) = Allocations st"
  "Operations (recordObservation st ob) = Operations st"
  by (simp_all add: workerEvent_def workerFinding_def resolveFinding_def recordObservation_def Let_def
      split: option.split)

lemma unseen_optional [simp]:
  "Allocations (record_optional st ob) = Allocations st"
  "Operations (record_optional st ob) = Operations st"
  by (simp_all add: record_optional_def split: option.split)

lemma unseen_events [simp]:
  "Allocations (reservation_event E st a) = Allocations st"
  "Operations (reservation_event E st a) = Operations st"
  "Allocations (adoption_event E rec ob st a) = Allocations st"
  "Operations (adoption_event E rec ob st a) = Operations st"
  by (simp_all add: reservation_event_def adoption_event_def)

section \<open>One transaction at a time\<close>

lemma committed_evolves: "evolves a (committed_allocation a invID now)"
  by (simp add: evolves_def committed_allocation_def frozen_def state_moves_def)

lemma succeeded_progress: "o_Status x = operationPending \<Longrightarrow> op_progress x (succeeded_operation x i now)"
  by (simp add: op_progress_def succeeded_operation_def)

lemma commit_simulated:
  assumes "reserve_commit E pin ev held op0 invID st = Inr (st', res)" "ledger_ok st"
  shows "simulated st st'"
proof -
  let ?a = "allocation_at st (a_ID held)" and ?x = "operation_at st (o_ID op0)"
  consider "st' = st" | "a_ID ?a \<noteq> []" "\<not> commit_blocked ?a ?x"
    using assms(1) by (auto simp: reserve_commit_def Let_def split: if_splits)
  then show ?thesis
  proof cases
    case 1
    then show ?thesis using simulated_refl assms(2) by simp
  next
    case 2
    have a: "mget (Allocations st) (a_ID held) = Some ?a" using at_Some(1) [OF 2(1)] .
    have p: "o_Status ?x = operationPending" using 2(2) by (simp add: commit_blocked_def)
    have x: "mget (Operations st) (o_ID op0) = Some ?x" using at_Some(2) [OF p] .
    have ids: "a_ID ?a = a_ID held" "o_ID ?x = o_ID op0" "o_ID op0 \<noteq> []"
      using ledger_okD(4) [OF assms(2) a] ledger_okD(5) [OF assms(2) x] by simp_all
    show ?thesis
    proof (rule simulated_row_op [OF assms(2) a committed_evolves x succeeded_progress [OF p]])
      show "Allocations st' = mput (a_ID held) (committed_allocation ?a invID (v_now E 3)) (Allocations st)"
        using assms(1) 2 ids
        by (auto simp: reserve_commit_def Let_def committed_allocation_def split: if_splits)
      show "Operations st' = mput (o_ID op0) (succeeded_operation ?x (a_ID ?a) (v_now E 3)) (Operations st)"
        using assms(1) 2 ids by (auto simp: reserve_commit_def Let_def split: if_splits)
    qed
  qed
qed

lemma patched_evolves:
  assumes "patched_allocation a ds ls = Inr a1"
  shows "evolves a (a1\<lparr>a_Revision := a_Revision a1 + 1, a_UpdatedAt := t\<rparr>)"
  using assms
  by (auto simp: patched_allocation_def evolves_def frozen_def state_moves_def
      split: option.splits if_splits)

lemma patch_simulated:
  assumes "Patch_txn E p i ds ls etag key st = Inr (st', res)" "ledger_ok st"
  shows "simulated st st'"
proof -
  let ?rid = "idempotencyID (v_K E) (p_TenantID p) ''PATCH'' (patch_path i) key"
  show ?thesis
  proof (cases "mget (Requests st) ?rid")
    case (Some old)
    then have "st' = st" using assms(1) by (simp add: Patch_txn_def Let_def split: if_splits)
    then show ?thesis using simulated_refl assms(2) by simp
  next
    case None
    then obtain a where a: "mget (Allocations st) i = Some a"
      using assms(1) by (cases "mget (Allocations st) i") (simp_all add: Patch_txn_def)
    then obtain a1 where a1: "patched_allocation a ds ls = Inr a1"
      using assms(1) None
      by (cases "patched_allocation a ds ls") (simp_all add: Patch_txn_def split: if_split_asm)
    show ?thesis
      by (rule simulated_row [OF assms(2) a patched_evolves [OF a1, of "v_now E 0"]])
        (use assms(1) None a a1 in \<open>auto simp: Patch_txn_def Let_def split: if_split_asm\<close>)
  qed
qed

lemma fresh_nonempty [simp]: "fresh E ''op'' k \<noteq> []" "fresh E ''alloc'' k \<noteq> []"
  by (simp_all add: fresh_def NewID_def)

lemma ids_freshD:
  assumes "ids_fresh E st" "k < 2 + 2 * length (Allocations st)"
  shows "mget (Allocations st) (fresh E ''alloc'' k) = None" "mget (Operations st) (fresh E ''op'' k) = None"
  using assms by (simp_all add: ids_fresh_def Let_def list_all_iff del: upt_Suc)

lemma new_operation_type: "o_Type (new_operation E i rec) \<noteq> bindOperation"
  by (simp add: new_operation_def kind_of_def reserveKind_def adoptKind_def split: option.split)

lemma bind_simulated:
  assumes "bind_plan E p i b key op1 st = Inr (st', res)" "ids_fresh E st" "ledger_ok st"
  shows "simulated st st'"
proof -
  consider "st' = st" | a where
    "Allocations st' = Allocations st"
    "Operations st' = mput (fresh E ''op'' 0) (binding_operation E p i b a) (Operations st)"
    "mget (Allocations st) i = Some a" "a_Committed a"
    using assms(1)
    by (auto simp: bind_plan_def binding_operation_def Let_def split: option.splits if_splits)
  then show ?thesis
  proof cases
    case 1
    then show ?thesis using simulated_refl assms(3) by simp
  next
    case 2
    have "may_open (mget (Operations st)) (binding_operation E p i b a)"
      using ids_freshD(2) [OF assms(2), of 0]
      by (simp add: may_open_def fencing_def binding_operation_def)
    moreover have "bind_target (mget (Allocations st)) (binding_operation E p i b a)"
      using 2 by (simp add: bind_target_def binding_operation_def)
    ultimately show ?thesis using simulated_open [OF assms(3)] 2 by (simp add: binding_operation_def)
  qed
qed

lemma bound_simulated:
  assumes "finish_binding_txn E i op0 b st = Inr (st', res)" "committed_at st i" "ledger_ok st"
  shows "simulated st st'"
proof -
  obtain a where a: "mget (Allocations st) i = Some a" "a_Committed a"
    using assms(2) by (auto simp: committed_at_def split: option.splits)
  let ?x = "operation_at st (o_ID op0)"
  have st: "a_State a = Reserved" "o_Status ?x = operationPending"
    using assms(1) a by (auto simp: finish_binding_txn_def Let_def split: if_splits)
  have x: "mget (Operations st) (o_ID op0) = Some ?x" using st(2) at_Some(2) by blast
  have xid: "o_ID ?x = o_ID op0" using ledger_okD(5) [OF assms(3) x] by simp
  show ?thesis
  proof (rule simulated_row_op [OF assms(3) a(1) _ x succeeded_progress [OF st(2)]])
    let ?a' = "bound_allocation a (b\<lparr>b_VerifiedAt := Some (v_now E 5)\<rparr>) (v_now E 5)"
    show "evolves a ?a'"
      using a(2) st(1) by (simp add: evolves_def frozen_def state_moves_def bound_allocation_def)
    show "Allocations st' = mput i ?a' (Allocations st)"
      using assms(1) a st by (auto simp: finish_binding_txn_def Let_def split: if_splits)
    show "Operations st' = mput (o_ID op0) (succeeded_operation ?x i (v_now E 5)) (Operations st)"
      using assms(1) a st xid by (auto simp: finish_binding_txn_def Let_def split: if_splits)
  qed
qed

lemma mget_map_values:
  "mget (map (\<lambda>(k, v). (k, f v)) m) k = map_option f (mget m k)"
  by (induction m) (auto simp: mget_def)

lemma mok_map_values [simp]: "mok (map (\<lambda>(k, v). (k, f v)) m) = mok m"
  by (simp add: mok_def case_prod_unfold comp_def)

lemma map_rel_map_option:
  "(\<And>v. R v (f v)) \<Longrightarrow> map_rel R m (\<lambda>k. map_option f (m k))"
  unfolding map_rel_def by (metis map_option_is_None not_None_eq option.simps(9))

lemma fail_bindings_ok:
  "mok (fail_pending_bindings i now ops) = mok ops"
  "map_rel op_progress (mget ops) (mget (fail_pending_bindings i now ops))"
proof -
  let ?f = "\<lambda>x. if o_AllocationID x = i \<and> o_Status x = operationPending \<and> o_Type x = bindOperation
    then x\<lparr>o_Status := operationFailed, o_Error := Some (Err 409 ''allocation_key_retired''
      ''Allocation was released during binding verification.''), o_UpdatedAt := now\<rparr> else x"
  have eq: "fail_pending_bindings i now ops = map (\<lambda>(k, x). (k, ?f x)) ops"
    by (simp add: fail_pending_bindings_def)
  show "mok (fail_pending_bindings i now ops) = mok ops" unfolding eq by (rule mok_map_values)
  have "map_rel op_progress (mget ops) (\<lambda>k. map_option ?f (mget ops k))"
    by (rule map_rel_map_option) (simp add: op_progress_def)
  then show "map_rel op_progress (mget ops) (mget (fail_pending_bindings i now ops))"
    unfolding eq mget_map_values [abs_def] .
qed

lemma release_simulated:
  assumes "release_txn E p i st = Inr (st', res)" "ledger_ok st"
  shows "simulated st st'"
proof -
  obtain a where a: "mget (Allocations st) i = Some a" "a_Committed a"
    using assms(1) by (auto simp: release_txn_def split: option.splits if_splits)
  have states: "a_State a \<in> {Reserved, Active, Quarantined, Released}"
    using ledger_okD(3) [OF assms(2)] a(1) by (auto simp: registry_inv_def moved_committed_def)
  let ?a' = "quarantined_allocation a (v_now E 0) (v_now E 0 + Hours (quarantine_hours (v_cfg E)))"
  consider "st' = st" | "a_State a \<notin> {Quarantined, Released}"
    "Allocations st' = mput i ?a' (Allocations st)"
    "Operations st' = fail_pending_bindings i (v_now E 0) (Operations st)"
    using assms(1) a by (auto simp: release_txn_def Let_def split: if_splits)
  then show ?thesis
  proof cases
    case 1
    then show ?thesis using simulated_refl assms(2) by simp
  next
    case 2
    have "evolves a ?a'"
      using 2(1) states a(2)
      by (auto simp: evolves_def frozen_def state_moves_def quarantined_allocation_def)
    then show ?thesis
      using simulated_advance [of st' st] map_rel_upd [of evolves "mget (Allocations st)" i a ?a']
        a(1) 2 fail_bindings_ok ledger_okD(1,2) [OF assms(2)] by simp
  qed
qed

lemma reclaimed_progress:
  assumes "mget (Operations st) j = Some x" "ledger_ok st"
  shows "o_ID x = j" "operation_at st j = x"
  using ledger_okD(5) [OF assms(2,1)] assms(1) by simp_all

lemma wait_simulated:
  assumes "mget (Allocations st) i = Some a" "mget (Operations st) j = Some x" "ledger_ok st"
  shows "simulated st (reclaim_wait st a x now obs)"
proof -
  have ids: "a_ID a = i" "o_ID x = j" using ledger_okD(4,5) [OF assms(3)] assms(1,2) by blast+
  show ?thesis
  proof (rule simulated_row_op [OF assms(3,1) _ assms(2)])
    show "evolves a (a\<lparr>a_ReleaseBlockers := [''post_delete_verification_pending'']\<rparr>)"
      by (simp add: evolves_def frozen_def state_moves_def)
    show "op_progress x (x\<lparr>o_UpdatedAt := now\<rparr>)" by (simp add: op_progress_def)
  qed (simp_all add: reclaim_wait_def ids)
qed

lemma eligible_quarantined:
  assumes "reclaimEligible st a cfg now"
  shows "a_State a = Quarantined" "a_Committed a"
    "\<forall>b \<in> set (mvals (Allocations st)). a_ParentAllocationID b = a_ID a \<longrightarrow> a_State b = Released"
    "\<forall>x \<in> set (mvals (Operations st)). o_Status x = operationPending \<longrightarrow> o_DomainID x \<noteq> a_DomainID a"
  using assms by (auto simp: reclaimEligible_def list_ex_iff split: option.splits if_splits)

lemma fence_facts:
  assumes "reclaimFence st a oid cfg now"
  shows "o_Status (operation_at st oid) = operationPending"
    "reclaimEligible (st\<lparr>Operations := mdel oid (Operations st)\<rparr>) a cfg now"
  using assms by (simp_all add: reclaimFence_def Let_def split: if_splits)

lemma reclaimed_simulated:
  assumes "reclaim_finish E k job failed post obs par st = Inr (st', res)"
    "committed_at st (a_ID (fst job))" "mget (Operations st) (o_ID (snd job)) \<noteq> None" "ledger_ok st"
  shows "simulated st st'"
proof -
  let ?i = "a_ID (fst job)" and ?j = "o_ID (snd job)"
  obtain a where a: "mget (Allocations st) ?i = Some a"
    using assms(2) by (auto simp: committed_at_def split: option.splits)
  obtain x where x: "mget (Operations st) ?j = Some x" using assms(3) by blast
  have ids: "a_ID a = ?i" "o_ID x = ?j"
    using ledger_okD(4) [OF assms(4) a] ledger_okD(5) [OF assms(4) x] by simp_all
  show ?thesis
  proof (cases "failed \<or> \<not> reclaimFence st a ?j (v_cfg E) (v_now E k) \<or> post_delete_bad E (k + 1) a post obs par")
    case True
    then have "\<exists>t. st' = reclaim_wait st a x t obs"
      using assms(1) a x by (auto simp: reclaim_finish_def Let_def split: if_splits)
    then show ?thesis using wait_simulated [OF a x assms(4)] by blast
  next
    case False
    then have fence: "reclaimFence st a ?j (v_cfg E) (v_now E k)" by simp
    note elig = eligible_quarantined [OF fence_facts(2) [OF fence]]
    let ?a' = "released_allocation a (v_now E (k + 2))"
    let ?x' = "succeeded_operation x ?i (v_now E (k + 2))"
    have st': "Allocations st' = mput ?i ?a' (Allocations st)" "Operations st' = mput ?j ?x' (Operations st)"
      using assms(1) False a x ids by (auto simp: reclaim_finish_def Let_def split: if_splits)
    have progress: "map_rel op_progress (mget (Operations st)) (mget (Operations st'))"
      using map_rel_upd [of op_progress "mget (Operations st)" ?j x ?x'] x st'(2)
        succeeded_progress [of x] fence_facts(1) [OF fence] by simp
    have kids: "\<forall>j b. mget (Allocations st) j = Some b \<and> a_ParentAllocationID b = ?i \<longrightarrow> \<not> live b"
      using elig(3) mget_mvals ids(1) by (fastforce simp: live_def)
    have "registry_step (abs_registry st)
        \<lparr>g_rows = (g_rows (abs_registry st))(?i \<mapsto> ?a'), g_ops = mget (Operations st')\<rparr>"
      by (rule registry_step.retire [of _ _ a])
        (use a elig(1,2) kids progress in \<open>simp_all add: released_allocation_def frozen_def\<close>)
    then show ?thesis
      using ledger_okD(1,2) [OF assms(4)] st'
      by (simp add: simulated_def abs_registry_def r_into_rtranclp)
  qed
qed

lemma fence_simulated:
  assumes "mget (Operations st) j = Some x" "o_Status x = operationPending" "ledger_ok st"
  shows "simulated st (write_fence E (fenced_operation x code msg now) a actor action reason st)"
proof (rule simulated_op [OF assms(3,1)])
  show "op_progress x (fenced_operation x code msg now)"
    using assms(2) by (simp add: op_progress_def fenced_operation_def)
qed (use ledger_okD(5) [OF assms(3,1)] in \<open>simp_all add: write_fence_def fenced_operation_def\<close>)

lemma cancelCheck_Inr:
  assumes "cancelCheck K st p oid = Inr t"
  obtains (finished) "t_alreadyFenced t" "t_done t" "mget (Allocations st) (a_ID (t_allocation t)) = None"
      "mget (Operations st) oid = Some (t_operation t)" "cancelFenced (t_operation t)"
      "a_ID (t_allocation t) = o_AllocationID (t_operation t)"
  | (fenced) "t_alreadyFenced t" "\<not> t_done t" "mget (Operations st) oid = Some (t_operation t)"
      "mget (Allocations st) (o_AllocationID (t_operation t)) = Some (t_allocation t)"
      "\<not> a_Committed (t_allocation t)" "cancelFenced (t_operation t)"
      "o_Type (t_operation t) = reserveOperation" "o_TenantID (t_operation t) = p_TenantID p"
  | (live) "\<not> t_alreadyFenced t" "\<not> t_done t" "mget (Operations st) oid = Some (t_operation t)"
      "mget (Allocations st) (o_AllocationID (t_operation t)) = Some (t_allocation t)"
      "\<not> a_Committed (t_allocation t)" "o_Status (t_operation t) = operationPending"
      "o_Type (t_operation t) = reserveOperation" "o_TenantID (t_operation t) = p_TenantID p"
      "cancel_open_finding K st (t_allocation t) = Inr (t_finding t)"
proof -
  obtain x where x: "mget (Operations st) oid = Some x" "o_TenantID x = p_TenantID p"
    using assms by (auto simp: cancelCheck_def split: option.splits if_splits)
  show thesis
  proof (cases "mget (Allocations st) (o_AllocationID x)")
    case None
    then show thesis using assms x finished
      by (auto simp: cancelCheck_def zero_cancelTarget_def split: option.splits if_splits)
  next
    case (Some a)
    then have unc: "\<not> a_Committed a" and ty: "o_Type x = reserveOperation"
      using assms x by (auto simp: cancelCheck_def committedHoldRefusal_def split: if_splits)
    obtain f where f: "cancel_status x = Inr f"
      using assms x Some unc ty
      by (auto simp: cancelCheck_def committedHoldRefusal_def split: if_splits sum.splits)
    show thesis
    proof (cases f)
      case True
      then have "cancelFenced x" using f by (auto simp: cancel_status_def split: if_splits)
      then show thesis using fenced assms x Some unc ty f True
        by (auto simp: cancelCheck_def committedHoldRefusal_def zero_cancelTarget_def split: if_splits)
    next
      case False
      then have "o_Status x = operationPending" using f by (auto simp: cancel_status_def split: if_splits)
      then show thesis using live assms x Some unc ty f False
        by (auto simp: cancelCheck_def committedHoldRefusal_def zero_cancelTarget_def
            split: if_splits sum.splits)
    qed
  qed
qed

lemma cancel_simulated:
  assumes "cancel_fence E p oid st = Inr (st', t')" "ledger_ok st"
  shows "simulated st st'"
proof -
  obtain t where t: "cancelCheck (v_K E) st p oid = Inr t"
    using assms(1) by (auto simp: cancel_fence_def split: sum.splits)
  then show ?thesis
  proof (cases rule: cancelCheck_Inr)
    case live
    then show ?thesis using assms(1) t fence_simulated [OF live(3,6) assms(2)]
      by (auto simp: cancel_fence_def Let_def)
  qed (use assms t simulated_refl in \<open>auto simp: cancel_fence_def\<close>)
qed

lemma named_operation:
  assumes "named_operations st i oid = [x]" "ledger_ok st"
  shows "mget (Operations st) (o_ID x) = Some x" "o_AllocationID x = i"
proof -
  have "x \<in> set (named_operations st i oid)" using assms(1) by simp
  then have x: "x \<in> set (mvals (Operations st))" "o_AllocationID x = i"
    by (auto simp: named_operations_def)
  then obtain k where "mget (Operations st) k = Some x"
    using mvals_mget [OF ledger_okD(2) [OF assms(2)]] by blast
  then show "mget (Operations st) (o_ID x) = Some x" "o_AllocationID x = i"
    using ledger_okD(5) [OF assms(2)] x(2) by auto
qed

lemma abandonCheck_Inr:
  assumes "abandonCheck st i oid = Inr t"
  shows "mget (Allocations st) i = Some (u_allocation t)" "\<not> a_Committed (u_allocation t)"
    "named_operations st (a_ID (u_allocation t)) oid = [u_operation t]"
    "o_Type (u_operation t) = adoptOperation"
    "u_alreadyFenced t \<Longrightarrow> abandonFenced (u_operation t)"
    "\<not> u_alreadyFenced t \<Longrightarrow> o_Status (u_operation t) = operationPending"
proof -
  obtain a where a: "mget (Allocations st) i = Some a" "\<not> a_Committed a"
    using assms by (auto simp: abandonCheck_def committedHoldRefusal_def split: option.splits if_splits)
  obtain x where x: "named_operations st (a_ID a) oid = [x]" "o_Type x = adoptOperation"
    using assms a
    by (auto simp: abandonCheck_def committedHoldRefusal_def split: list.splits if_splits)
  obtain f where f: "abandon_status x = Inr f"
    using assms a x by (cases "abandon_status x") (auto simp: abandonCheck_def committedHoldRefusal_def)
  have t: "t = \<lparr>u_allocation = a, u_operation = x, u_alreadyFenced = f\<rparr>"
    using assms a x f by (simp add: abandonCheck_def committedHoldRefusal_def)
  show "mget (Allocations st) i = Some (u_allocation t)" "\<not> a_Committed (u_allocation t)"
    "named_operations st (a_ID (u_allocation t)) oid = [u_operation t]"
    "o_Type (u_operation t) = adoptOperation"
    using a x t by simp_all
  show "u_alreadyFenced t \<Longrightarrow> abandonFenced (u_operation t)"
    "\<not> u_alreadyFenced t \<Longrightarrow> o_Status (u_operation t) = operationPending"
    using f t by (auto simp: abandon_status_def split: if_splits)
qed

lemma abandon_simulated:
  assumes "abandon_fence E i oid operator reason st = Inr (st', t')" "ledger_ok st"
  shows "simulated st st'"
proof -
  obtain t where t: "abandonCheck st i oid = Inr t"
    using assms(1) by (auto simp: abandon_fence_def split: sum.splits)
  show ?thesis
  proof (cases "u_alreadyFenced t")
    case True
    then show ?thesis using assms t simulated_refl by (auto simp: abandon_fence_def)
  next
    case False
    have x: "mget (Operations st) (o_ID (u_operation t)) = Some (u_operation t)"
      using named_operation(1) [OF abandonCheck_Inr(3) [OF t] assms(2)] .
    show ?thesis
      using assms(1) t False fence_simulated [OF x abandonCheck_Inr(6) [OF t False] assms(2)]
      by (auto simp: abandon_fence_def Let_def)
  qed
qed

lemma withdraw_simulated:
  assumes "mget (Allocations st) i = Some a" "\<not> a_Committed a" "ledger_ok st"
    and "Allocations st' = mdel i (Allocations st)" "Operations st' = Operations st"
  shows "simulated st st'"
proof -
  have "registry_step (abs_registry st) ((abs_registry st)\<lparr>g_rows := (g_rows (abs_registry st))(i := None)\<rparr>)"
    using assms(1,2) by (intro registry_step.withdraw [of _ _ a]) simp_all
  then show ?thesis
    using ledger_okD(1,2) [OF assms(3)] assms(4,5)
    by (simp add: simulated_def abs_registry_def r_into_rtranclp)
qed

lemma cancelled_simulated:
  assumes "cancel_delete E t st = Inr (st', res)" "ledger_ok st"
  shows "simulated st st'"
proof (cases "mget (Allocations st) (a_ID (t_allocation t))")
  case None
  then show ?thesis using assms simulated_refl by (simp add: cancel_delete_def)
next
  case (Some a)
  then show ?thesis
    using assms ledger_okD(4) [OF assms(2) Some]
    by (intro withdraw_simulated [OF Some _ assms(2)])
      (auto simp: cancel_delete_def split: if_splits)
qed

lemma abandoned_simulated:
  assumes "abandon_delete E t st = Inr (st', res)" "ledger_ok st"
  shows "simulated st st'"
proof (cases "mget (Allocations st) (a_ID (u_allocation t))")
  case None
  then show ?thesis using assms simulated_refl by (simp add: abandon_delete_def)
next
  case (Some a)
  then show ?thesis
    using assms ledger_okD(4) [OF assms(2) Some]
    by (intro withdraw_simulated [OF Some _ assms(2)])
      (auto simp: abandon_delete_def split: if_splits)
qed

lemma recovered_simulated:
  assumes "commit_recovered_txn E job invID event st = Inr (st', res)" "ledger_ok st"
    and event: "\<And>s a. Allocations (event s a) = Allocations s" "\<And>s a. Operations (event s a) = Operations s"
  shows "simulated st st'"
proof -
  let ?x = "operation_at st (o_ID (snd job))"
  consider "st' = st" | a where "mget (Allocations st) (a_ID (fst job)) = Some a"
    "o_Status ?x = operationPending" "st' \<noteq> st"
    using assms(1) by (auto simp: commit_recovered_txn_def Let_def split: option.splits if_splits)
  then show ?thesis
  proof cases
    case 1
    then show ?thesis using simulated_refl assms(2) by simp
  next
    case 2
    have x: "mget (Operations st) (o_ID (snd job)) = Some ?x" using at_Some(2) [OF 2(2)] .
    have ids: "a_ID a = a_ID (fst job)" "o_ID ?x = o_ID (snd job)"
      using ledger_okD(4) [OF assms(2) 2(1)] ledger_okD(5) [OF assms(2) x] by simp_all
    show ?thesis
    proof (rule simulated_row_op [OF assms(2) 2(1) committed_evolves x succeeded_progress [OF 2(2)]])
      show "Allocations st' = mput (a_ID (fst job)) (committed_allocation a invID (v_now E 1)) (Allocations st)"
        using assms(1) 2 ids event(1)
        by (auto simp: commit_recovered_txn_def Let_def committed_allocation_def split: if_splits)
      show "Operations st' = mput (o_ID (snd job)) (succeeded_operation ?x (a_ID a) (v_now E 1)) (Operations st)"
        using assms(1) 2 ids event(2)
        by (auto simp: commit_recovered_txn_def Let_def succeeded_operation_def split: if_splits)
    qed
  qed
qed

lemma flagged_simulated:
  assumes "flag_stuck_txn E a code st = Inr (st', res)" "ledger_ok st"
  shows "simulated st st'"
  using assms by (intro simulated_same) (auto simp: flag_stuck_txn_def split: option.splits if_splits)

text \<open>A loop over the findings leaves both tables alone.\<close>

lemma fold_unseen:
  assumes "\<And>x s. x \<in> set xs \<Longrightarrow> Allocations (f x s) = Allocations s \<and> Operations (f x s) = Operations s"
  shows "Allocations (fold f xs s) = Allocations s \<and> Operations (fold f xs s) = Operations s"
  using assms by (induction xs arbitrary: s) auto

lemma coverage_unseen:
  "Allocations (coverage_finding K d ob ia s) = Allocations s \<and>
   Operations (coverage_finding K d ob ia s) = Operations s"
  by (simp add: coverage_finding_def Let_def split: prod.split)

lemma observed_simulated:
  assumes "tick_observe_txn E d res st = Inr (st', u)" "ledger_ok st"
  shows "simulated st st'"
proof (rule simulated_same [OF assms(2)])
  let ?ob = "tick_observation E d res"
  have "st' = fold (coverage_finding (v_K E) d ?ob) (Allocations (recordObservation st ?ob))
      (recordObservation st ?ob)"
    using assms(1) by (simp add: tick_observe_txn_def Let_def)
  then show "Allocations st' = Allocations st" "Operations st' = Operations st"
    using fold_unseen [of _ "coverage_finding (v_K E) d ?ob"] coverage_unseen by simp_all
qed

lemma projection_simulated: "ledger_ok st \<Longrightarrow> simulated st (apply_projection E now r st)"
proof -
  assume ok: "ledger_ok st"
  show ?thesis
  proof (cases "mget (Allocations st) (a_ID (fst r))")
    case None
    then show ?thesis using simulated_refl [OF ok] by (simp add: apply_projection_def)
  next
    case (Some a)
    have "evolves a (a\<lparr>a_InventorySync := s\<rparr>)" for s
      by (simp add: evolves_def frozen_def state_moves_def)
    note row = simulated_row [OF ok Some this]
    show ?thesis
      using Some simulated_refl [OF ok] ledger_okD(4) [OF ok Some]
      by (auto simp: apply_projection_def Let_def split: option.split intro: row)
  qed
qed

text \<open>A loop whose every round is a simulated transaction is one.\<close>

lemma fold_simulated:
  assumes "\<And>x s. ledger_ok s \<Longrightarrow> simulated s (f x s)" "ledger_ok st"
  shows "simulated st (fold f xs st)"
  using assms(2)
proof (induction xs arbitrary: st)
  case Nil
  then show ?case using simulated_refl by simp
next
  case (Cons x xs)
  then show ?case using simulated_trans assms(1) simulated_ok by (metis fold_simps(2))
qed

lemma projected_simulated:
  assumes "projection_txn E now results st = Inr (st', u)" "ledger_ok st"
  shows "simulated st st'"
  using assms fold_simulated [of "apply_projection E now", OF projection_simulated]
  by (auto simp: projection_txn_def)

text \<open>
  The two loops that open operations. Round \<open>k\<close> draws the identifier numbered \<open>2 * k\<close>, so the
  identifiers of the rounds to come stay unused.
\<close>

definition unused_from :: "Env \<Rightarrow> nat \<Rightarrow> nat \<Rightarrow> State \<Rightarrow> bool" where
  "unused_from E k n st \<longleftrightarrow>
     (\<forall>j. k \<le> j \<and> j < n \<longrightarrow> mget (Operations st) (fresh E ''op'' (2 * j)) = None)"

lemma ids_fresh_unused: "ids_fresh E st \<Longrightarrow> unused_from E 0 (length (Allocations st)) st"
  unfolding unused_from_def by (auto intro: ids_freshD(2))

lemma fresh_distinct:
  assumes "ids_fresh E st" "i < length (Allocations st)" "j < length (Allocations st)" "i \<noteq> j"
  shows "fresh E ''op'' (2 * i) \<noteq> fresh E ''op'' (2 * j)"
proof
  assume "fresh E ''op'' (2 * i) = fresh E ''op'' (2 * j)"
  then have "2 * i = 2 * j"
    using assms inj_onD [of "fresh E ''op''" "{..< 2 + 2 * length (Allocations st)}" "2 * i" "2 * j"]
    by (auto simp: ids_fresh_def Let_def distinct_map atLeast0LessThan simp del: upt_Suc)
  then show False using assms(4) by simp
qed

lemma reclaim_round:
  assumes "reclaim_plan_one E now (k, a) (st, jobs) = (st', jobs')" "ledger_ok st"
    "mget (Allocations st) (a_ID a) = Some a" "mget (Operations st) (fresh E ''op'' (2 * k)) = None"
  shows "simulated st st' \<and> (\<forall>i. i \<noteq> a_ID a \<longrightarrow> mget (Allocations st') i = mget (Allocations st) i) \<and>
    (\<forall>j. j \<noteq> fresh E ''op'' (2 * k) \<longrightarrow> mget (Operations st') j = mget (Operations st) j)"
proof (cases "a_State a \<noteq> Quarantined \<or> \<not> a_Committed a \<or> \<not> reclaimEligible st a (v_cfg E) now")
  case True
  then show ?thesis using assms simulated_refl by (auto simp: reclaim_plan_one_def)
next
  case False
  let ?x = "reclaim_operation E now k a"
  let ?a' = "a\<lparr>a_ReleaseBlockers := [''pending_operation''], a_UpdatedAt := now\<rparr>"
  let ?s1 = "st\<lparr>Operations := mput (o_ID ?x) ?x (Operations st)\<rparr>"
  have st': "Allocations st' = mput (a_ID a) ?a' (Allocations st)"
    "Operations st' = mput (o_ID ?x) ?x (Operations st)"
    using assms(1) False by (auto simp: reclaim_plan_one_def reclaim_operation_def Let_def)
  have "may_open (mget (Operations st)) ?x"
    using eligible_quarantined(4) [of st a "v_cfg E" now] False assms(4) mget_mvals
    by (fastforce simp: may_open_def reclaim_operation_def fencing_def)
  moreover have "bind_target (mget (Allocations st)) ?x"
    by (simp add: bind_target_def reclaim_operation_def)
  ultimately have s1: "simulated st ?s1" by (intro simulated_open [OF assms(2)]) simp_all
  have "evolves a ?a'" by (simp add: evolves_def frozen_def state_moves_def)
  then have "simulated ?s1 st'"
    using assms(3) st' by (intro simulated_row [OF simulated_ok [OF assms(2) s1]]) simp_all
  then show ?thesis
    using simulated_trans [OF s1] st' by (auto simp: reclaim_operation_def)
qed

lemma reclaim_fold:
  assumes "fold (reclaim_plan_one E now) (enumerate k as) (st, jobs) = (st', jobs')" "ledger_ok st"
    "\<forall>a \<in> set as. mget (Allocations st) (a_ID a) = Some a" "distinct (map a_ID as)"
    "unused_from E k (k + length as) st"
    "\<And>i j. i < j \<Longrightarrow> j < k + length as \<Longrightarrow> fresh E ''op'' (2 * i) \<noteq> fresh E ''op'' (2 * j)"
  shows "simulated st st'"
  using assms
proof (induction as arbitrary: k st jobs)
  case Nil
  then show ?case using simulated_refl by simp
next
  case (Cons a as)
  obtain s1 j1 where s1: "reclaim_plan_one E now (k, a) (st, jobs) = (s1, j1)" by fastforce
  have r: "simulated st s1" "\<And>i. i \<noteq> a_ID a \<Longrightarrow> mget (Allocations s1) i = mget (Allocations st) i"
    "\<And>j. j \<noteq> fresh E ''op'' (2 * k) \<Longrightarrow> mget (Operations s1) j = mget (Operations st) j"
    using reclaim_round [OF s1 Cons.prems(2)] Cons.prems(3,5) by (auto simp: unused_from_def)
  have "unused_from E (Suc k) (Suc k + length as) s1"
    unfolding unused_from_def
  proof (intro allI impI)
    fix j assume j: "Suc k \<le> j \<and> j < Suc k + length as"
    then have "fresh E ''op'' (2 * j) \<noteq> fresh E ''op'' (2 * k)"
      using Cons.prems(6) [of k j] by simp
    then show "mget (Operations s1) (fresh E ''op'' (2 * j)) = None"
      using r(3) Cons.prems(5) j by (simp add: unused_from_def)
  qed
  note unused = this
  have rows: "\<forall>b \<in> set as. mget (Allocations s1) (a_ID b) = Some b"
  proof
    fix b assume b: "b \<in> set as"
    then have "a_ID b \<noteq> a_ID a" using Cons.prems(4) by (metis distinct.simps(2) image_eqI list.set_map list.simps(9))
    then show "mget (Allocations s1) (a_ID b) = Some b" using r(2) Cons.prems(3) b by simp
  qed
  have "simulated s1 st'"
  proof (rule Cons.IH [of "Suc k" s1 j1])
    show "fold (reclaim_plan_one E now) (enumerate (Suc k) as) (s1, j1) = (st', jobs')"
      using Cons.prems(1) s1 by simp
    show "fresh E ''op'' (2 * i) \<noteq> fresh E ''op'' (2 * j)" if "i < j" "j < Suc k + length as" for i j
      using Cons.prems(6) [of i j] that by simp
  qed (use rows unused Cons.prems(4) simulated_ok [OF Cons.prems(2) r(1)] in simp_all)
  then show ?case using simulated_trans r(1) by blast
qed

lemma rows_distinct:
  assumes "ledger_ok st"
  shows "distinct (map a_ID (mvals (Allocations st)))"
    "\<forall>a \<in> set (mvals (Allocations st)). mget (Allocations st) (a_ID a) = Some a"
proof -
  have rows: "mget (Allocations st) (a_ID a) = Some a \<and> a_ID a = k" if "(k, a) \<in> set (Allocations st)" for k a
    using that mrows_mget [OF ledger_okD(1) [OF assms]] ledger_okD(4) [OF assms] by metis
  then have "map a_ID (mvals (Allocations st)) = map fst (Allocations st)"
    by (auto simp: mvals_def)
  then show "distinct (map a_ID (mvals (Allocations st)))"
    using ledger_okD(1) [OF assms] by (simp add: mok_def)
  show "\<forall>a \<in> set (mvals (Allocations st)). mget (Allocations st) (a_ID a) = Some a"
  proof
    fix a assume "a \<in> set (mvals (Allocations st))"
    then obtain k where "(k, a) \<in> set (Allocations st)" by (auto simp: mvals_rows)
    then show "mget (Allocations st) (a_ID a) = Some a" using rows by blast
  qed
qed

lemma reclaim_simulated:
  assumes "reclaim_plan E st = Inr (st', jobs)" "ids_fresh E st" "ledger_ok st"
  shows "simulated st st'"
proof (rule reclaim_fold [of E "v_now E 0" 0 "mvals (Allocations st)" st "reclaim_pending st" st' jobs])
  show "fold (reclaim_plan_one E (v_now E 0)) (enumerate 0 (mvals (Allocations st)))
      (st, reclaim_pending st) = (st', jobs)"
    using assms(1) by (simp add: reclaim_plan_def)
  show "unused_from E 0 (0 + length (mvals (Allocations st))) st"
    using ids_fresh_unused [OF assms(2)] by (simp add: mvals_def)
  show "fresh E ''op'' (2 * i) \<noteq> fresh E ''op'' (2 * j)"
    if "i < j" "j < 0 + length (mvals (Allocations st))" for i j
    using fresh_distinct [OF assms(2), of i j] that by (simp add: mvals_def)
qed (use rows_distinct [OF assms(3)] assms(3) in simp_all)

section \<open>Reconciliation\<close>

text \<open>
  One round of the reconciliation loop changes no row but its own, opens at most its own operation,
  and that one is already complete.
\<close>

definition round_ok :: "string \<Rightarrow> State \<Rightarrow> State \<Rightarrow> bool" where
  "round_ok j st st' \<longleftrightarrow>
     simulated st st' \<and> (\<forall>k. k \<noteq> j \<longrightarrow> mget (Operations st') k = mget (Operations st) k)"

lemma round_unseen:
  assumes "ledger_ok st" "Allocations st' = Allocations st" "Operations st' = Operations st"
  shows "round_ok j st st'"
  using assms simulated_same by (simp add: round_ok_def)

lemma round_refl: "ledger_ok st \<Longrightarrow> round_ok j st st"
  by (simp add: round_unseen)

lemma round_finding: "ledger_ok st \<Longrightarrow> round_ok j st (workerFinding K st a c sv at)"
  by (simp add: round_unseen)

lemma round_trans: "round_ok j s s' \<Longrightarrow> round_ok j s' s'' \<Longrightarrow> round_ok j s s''"
  unfolding round_ok_def using simulated_trans by metis

lemma bind_observed_round:
  assumes "ledger_ok st" "mget (Allocations st) i = Some a" "a_State a = Reserved" "a_Committed a"
    "mget (Operations st) (fresh E ''op'' (2 * k)) = None"
  shows "round_ok (fresh E ''op'' (2 * k)) st (bind_observed E now k i a b at st)"
proof -
  let ?st' = "bind_observed E now k i a b at st"
  let ?b = "b\<lparr>b_VerifiedAt := Some at\<rparr>"
  let ?x = "observed_operation E now k a ?b" and ?a' = "bound_allocation a ?b now"
  let ?s1 = "st\<lparr>Operations := mput (o_ID ?x) ?x (Operations st)\<rparr>"
  have eq: "Allocations ?st' = mput i ?a' (Allocations st)" "Operations ?st' = Operations ?s1"
    by (simp_all add: bind_observed_def Let_def)
  have id: "o_ID ?x = fresh E ''op'' (2 * k)" by (simp add: observed_operation_def)
  have "may_open (mget (Operations st)) ?x"
    using assms(5) id by (simp add: may_open_def fencing_def observed_operation_def)
  moreover have "bind_target (mget (Allocations st)) ?x"
    using assms(2,4) ledger_okD(4) [OF assms(1,2)] by (simp add: bind_target_def observed_operation_def)
  ultimately have s1: "simulated st ?s1" by (intro simulated_open [OF assms(1)]) simp_all
  have "evolves a ?a'"
    using assms(3,4) by (simp add: evolves_def frozen_def state_moves_def bound_allocation_def)
  then have "simulated ?s1 ?st'"
    using assms(2) eq by (intro simulated_row [OF simulated_ok [OF assms(1) s1]]) simp_all
  then show ?thesis using simulated_trans [OF s1] eq id by (simp add: round_ok_def)
qed

lemma observed_row: "evolves a (a\<lparr>a_LastObservedAt := t\<rparr>)"
  by (simp add: evolves_def frozen_def state_moves_def)

lemma reconcile_reserved_round:
  assumes "ledger_ok st" "mget (Allocations st) i = Some a" "a_State a = Reserved" "a_Committed a"
    "mget (Operations st) (fresh E ''op'' (2 * k)) = None"
  shows "round_ok (fresh E ''op'' (2 * k)) st (reconcile_reserved E now k i a ob par st)"
  using bind_observed_round [OF assms] round_finding [OF assms(1)] round_refl [OF assms(1)]
  by (simp add: reconcile_reserved_def Let_def split: list.split)

lemma reconcile_observed_round:
  assumes "ledger_ok st" "mget (Allocations st) i = Some a" "a_Committed a" "a_State a \<noteq> Released"
    "mget (Operations st) (fresh E ''op'' (2 * k)) = None"
  shows "round_ok (fresh E ''op'' (2 * k)) st (reconcile_observed E now k i a ob st)"
proof -
  let ?a = "a\<lparr>a_LastObservedAt := Some (ob_FinishedAt ob)\<rparr>"
  let ?s = "st\<lparr>Allocations := mput i ?a (Allocations st)\<rparr>" and ?j = "fresh E ''op'' (2 * k)"
  have s: "simulated st ?s" by (rule simulated_row [OF assms(1,2) observed_row]) simp_all
  have ok: "ledger_ok ?s" using simulated_ok [OF assms(1) s] .
  have "a_State a \<in> {Reserved, Active, Quarantined, Released}"
    using ledger_okD(3) [OF assms(1)] assms(2) by (auto simp: registry_inv_def moved_committed_def)
  then have reserved: "round_ok ?j ?s (reconcile_reserved E now k i ?a ob par ?s)"
    if "a_State a \<noteq> Quarantined" "a_State a \<noteq> Active" for par
    using reconcile_reserved_round [OF ok, of i ?a E k now ob par] assms(3,4,5) that by simp
  have active: "round_ok ?j ?s (reconcile_active E ?a ob par ?s)" for par
    using round_finding [OF ok] round_refl [OF ok] by (simp add: reconcile_active_def)
  have "round_ok ?j ?s (reconcile_observed E now k i a ob st)"
    using reserved active round_finding [OF ok] round_refl [OF ok]
    by (simp add: reconcile_observed_def Let_def)
  then show ?thesis using round_trans [of ?j st ?s] s by (simp add: round_ok_def)
qed

lemma reconcile_round:
  assumes "ledger_ok st" "mget (Operations st) (fresh E ''op'' (2 * k)) = None"
  shows "round_ok (fresh E ''op'' (2 * k)) st (reconcile_one E now (k, i) st)"
proof (cases "mget (Allocations st) i")
  case None
  then show ?thesis using round_refl [OF assms(1)] by (simp add: reconcile_one_def)
next
  case (Some a)
  show ?thesis
    using Some reconcile_observed_round [OF assms(1) Some _ _ assms(2)] round_finding [OF assms(1)]
      round_refl [OF assms(1)]
    by (simp add: reconcile_one_def split: option.split)
qed

lemma reconcile_fold:
  assumes "ledger_ok st" "unused_from E k (k + length is) st"
    "\<And>i j. i < j \<Longrightarrow> j < k + length is \<Longrightarrow> fresh E ''op'' (2 * i) \<noteq> fresh E ''op'' (2 * j)"
  shows "simulated st (fold (reconcile_one E now) (enumerate k is) st)"
  using assms
proof (induction "is" arbitrary: k st)
  case Nil
  then show ?case using simulated_refl by simp
next
  case (Cons i "is")
  let ?s = "reconcile_one E now (k, i) st"
  have r: "simulated st ?s"
    "\<And>j. j \<noteq> fresh E ''op'' (2 * k) \<Longrightarrow> mget (Operations ?s) j = mget (Operations st) j"
    using reconcile_round [OF Cons.prems(1)] Cons.prems(2) by (auto simp: unused_from_def round_ok_def)
  have "unused_from E (Suc k) (Suc k + length is) ?s"
    unfolding unused_from_def
  proof (intro allI impI)
    fix j assume j: "Suc k \<le> j \<and> j < Suc k + length is"
    then have "fresh E ''op'' (2 * j) \<noteq> fresh E ''op'' (2 * k)"
      using Cons.prems(3) [of k j] by simp
    then show "mget (Operations ?s) (fresh E ''op'' (2 * j)) = None"
      using r(2) Cons.prems(2) j by (simp add: unused_from_def)
  qed
  then have "simulated ?s (fold (reconcile_one E now) (enumerate (Suc k) is) ?s)"
    by (rule Cons.IH [OF simulated_ok [OF Cons.prems(1) r(1)]]) (use Cons.prems(3) in simp)
  then show ?case using simulated_trans [OF r(1)] by simp
qed

lemma occupancy_unseen:
  "Allocations (occupancy_finding K d ob r t s) = Allocations s \<and>
   Operations (occupancy_finding K d ob r t s) = Operations s"
  by (simp add: occupancy_finding_def Let_def)

lemma resource_unseen:
  "Allocations (occupancy_resource E d ob ad r s) = Allocations s \<and>
   Operations (occupancy_resource E d ob ad r s) = Operations s"
proof (cases "managed_resource s d ad r")
  case True
  then show ?thesis by (simp add: occupancy_resource_def)
next
  case False
  then show ?thesis
    unfolding occupancy_resource_def
    by (simp, intro fold_unseen) (simp add: fold_unseen occupancy_unseen)
qed

lemma domain_unseen:
  "Allocations (reconcile_domain E now d s) = Allocations s \<and>
   Operations (reconcile_domain E now d s) = Operations s"
  using fold_unseen [of _ "occupancy_resource E d _ _"] resource_unseen
  by (simp add: reconcile_domain_def split: option.split)

lemma reconciled_simulated:
  assumes "reconcile_txn E st = Inr (st', u)" "ids_fresh E st" "ledger_ok st"
  shows "simulated st st'"
proof -
  let ?s1 = "st\<lparr>Findings := reset_findings (Findings st)\<rparr>"
  let ?s2 = "fold (reconcile_one E (v_now E 0)) (enumerate 0 (map fst (Allocations ?s1))) ?s1"
  have s1: "simulated st ?s1" by (rule simulated_same [OF assms(3)]) simp_all
  note ok1 = simulated_ok [OF assms(3) s1]
  have s2: "simulated ?s1 ?s2"
  proof (rule reconcile_fold [OF ok1])
    show "unused_from E 0 (0 + length (map fst (Allocations ?s1))) ?s1"
      using ids_fresh_unused [OF assms(2)] by (simp add: unused_from_def)
    show "fresh E ''op'' (2 * i) \<noteq> fresh E ''op'' (2 * j)"
      if "i < j" "j < 0 + length (map fst (Allocations ?s1))" for i j
      using fresh_distinct [OF assms(2), of i j] that by simp
  qed
  have "st' = fold (reconcile_domain E (v_now E 0)) (c_Domains (v_cfg E)) ?s2"
    using assms(1) by (simp add: reconcile_txn_def Let_def)
  then have "simulated ?s2 st'"
    using fold_unseen [of "c_Domains (v_cfg E)" "reconcile_domain E (v_now E 0)" ?s2] domain_unseen
    by (intro simulated_same [OF simulated_ok [OF ok1 s2]]) simp_all
  then show ?thesis using simulated_trans s1 s2 by blast
qed

section \<open>Planning\<close>

text \<open>
  Whichever way a candidate was found, chosen or verified, it lies in the pool and meets no hold
  and no live allocation of the domain, except the parent of a subnet.
\<close>

lemma plan_candidate_clear:
  assumes "plan_candidate K pool r snap ob st pin = Inr (c, reason, rec)"
  obtains base p where "ParsePrefix (pl_CIDR pool) = Some base" "ParsePrefix c = Some p"
    "addrs p \<subseteq> addrs base"
    "\<And>a q. a \<in> set (mvals (Allocations st)) \<Longrightarrow> ParsePrefix (a_CIDR a) = Some q \<Longrightarrow>
       \<not> a_Committed a \<or> a_State a \<noteq> Released \<and> a_DomainID a = pl_DomainID pool \<Longrightarrow>
       \<not> (a_Committed a \<and> r_Scope r = ''subnet'' \<and> a_ID a = r_ParentAllocationID r) \<Longrightarrow>
       addrs p \<inter> addrs q = {}"
proof (cases pin)
  case None
  then have "chooseCIDR pool r snap ob st = Inr (Some c)"
    using assms by (auto simp: plan_candidate_def split: sum.splits option.splits)
  then show thesis
    by (rule chooseCIDR_Some) (rule that; use not_blocked_allocation in blast)
next
  case (Some ad)
  then obtain reviewed where "pinnedCIDR pool r snap ob st ad = Inr (c, reviewed)"
    using assms by (auto simp: plan_candidate_def Let_def split: sum.splits)
  then show thesis
  proof (rule pinnedCIDR_Inr)
    fix base p
    assume p: "ParsePrefix (pl_CIDR pool) = Some base" "ParsePrefix c = Some p" "addrs p \<subseteq> addrs base"
      "valid_prefix p" and scan: "pinned_ledger_scan (mvals (Allocations st)) (pl_DomainID pool) r p = None"
    show thesis
    proof (rule that [OF p(1-3)])
      fix a q
      assume a: "a \<in> set (mvals (Allocations st))" "ParsePrefix (a_CIDR a) = Some q"
        "\<not> a_Committed a \<or> a_State a \<noteq> Released \<and> a_DomainID a = pl_DomainID pool"
        "\<not> (a_Committed a \<and> r_Scope r = ''subnet'' \<and> a_ID a = r_ParentAllocationID r)"
      show "addrs p \<inter> addrs q = {}"
        by (rule disjoint_addrs [OF p(4) a(2) pinned_ledger_scan_None [OF scan a]])
    qed
  qed
qed

lemma new_allocation_simps [simp]:
  "a_ID (new_allocation E i c) = fresh E ''alloc'' 0" "a_Request (new_allocation E i c) = pn_Request i"
  "a_TenantID (new_allocation E i c) = p_TenantID (pn_Principal i)"
  "a_DomainID (new_allocation E i c) = d_ID (pn_Domain i)" "a_CIDR (new_allocation E i c) = c"
  "a_State (new_allocation E i c) = Reserved" "a_Committed (new_allocation E i c) = False"
  by (simp_all add: new_allocation_def)

lemma hold_allowed:
  assumes cand: "plan_candidate K (pn_Pool i) (pn_Request i) snap ob st (pn_Pin i) = Inr (c, reason, rec)"
    and gates: "plan_gates cfg (pn_Principal i) (pn_Request i) (pn_Pool i) (pn_Domain i) st = None"
    and key: "find_key st (p_TenantID (pn_Principal i)) (r_AllocationKey (pn_Request i)) = None"
    and adm: "admitted i st" and fr: "ids_fresh E st" and ok: "ledger_ok st"
  shows "may_hold (mget (Allocations st)) (new_allocation E i c)"
proof -
  obtain base p where p: "ParsePrefix (pl_CIDR (pn_Pool i)) = Some base" "ParsePrefix c = Some p"
    "addrs p \<subseteq> addrs base"
    and clear: "\<And>a q. a \<in> set (mvals (Allocations st)) \<Longrightarrow> ParsePrefix (a_CIDR a) = Some q \<Longrightarrow>
       \<not> a_Committed a \<or> a_State a \<noteq> Released \<and> a_DomainID a = pl_DomainID (pn_Pool i) \<Longrightarrow>
       \<not> (a_Committed a \<and> r_Scope (pn_Request i) = ''subnet'' \<and> a_ID a = r_ParentAllocationID (pn_Request i)) \<Longrightarrow>
       addrs p \<inter> addrs q = {}"
    using plan_candidate_clear [OF cand] by metis
  let ?a = "new_allocation E i c"
  have sp: "space ?a = addrs p" using p(2) by (simp add: space_def)
  have parent: "parent_of b ?a" if "mget (Allocations st) k = Some b" "a_Committed b"
    "r_Scope (pn_Request i) = ''subnet''" "a_ID b = r_ParentAllocationID (pn_Request i)" for k b
  proof -
    have "k = r_ParentAllocationID (pn_Request i)" using ledger_okD(4) [OF ok that(1)] that(4) by simp
    then have "pl_CIDR (pn_Pool i) = a_CIDR b" using adm that(1,3) by (auto simp: admitted_def)
    then have "space b = addrs base" using p(1) by (simp add: space_def)
    then show ?thesis using sp p(3) that(3,4) by (simp add: parent_of_def)
  qed
  have disjoint: "space ?a \<inter> space b = {} \<or> parent_of b ?a"
    if b: "mget (Allocations st) k = Some b" "live b" "a_DomainID b = a_DomainID ?a" for k b
  proof (cases "ParsePrefix (a_CIDR b)")
    case None
    then show ?thesis by (simp add: space_def)
  next
    case (Some q)
    have "a_State b \<noteq> Released" "a_DomainID b = pl_DomainID (pn_Pool i)"
      using b adm by (simp_all add: live_def admitted_def)
    then show ?thesis
      using clear [OF mget_mvals [OF b(1)] Some] parent [OF b(1)] sp Some by (auto simp: space_def)
  qed
  have kid: "\<exists>b. mget (Allocations st) (a_ParentAllocationID ?a) = Some b \<and> a_Committed b \<and> live b \<and> parent_of b ?a"
    if sub: "a_Scope ?a = ''subnet''"
  proof -
    obtain b where b: "mget (Allocations st) (r_ParentAllocationID (pn_Request i)) = Some b" "a_Committed b"
      using adm sub by (auto simp: admitted_def)
    have "a_State b = Reserved \<or> a_State b = Active"
      using gates sub b(1)
      by (auto simp: plan_gates_def parent_unavailable_def Let_def split: if_splits)
    then show ?thesis
      using b parent [OF b] sub ledger_okD(4) [OF ok b(1)] by (auto simp: live_def)
  qed
  have unused: "\<not> (a_TenantID b = a_TenantID ?a \<and> a_AllocationKey b = a_AllocationKey ?a)"
    if "mget (Allocations st) k = Some b" for k b
    using key mget_mvals [OF that] by (auto simp: find_key_def find_None_iff)
  show ?thesis
    unfolding may_hold_def
    using ids_freshD(1) [OF fr, of 0] disjoint kid unused by (intro conjI) (simp, simp, simp, simp, blast+)
qed

lemma new_operation_simps [simp]:
  "o_ID (new_operation E i rec) = fresh E ''op'' 1"
  "o_DomainID (new_operation E i rec) = d_ID (pn_Domain i)"
  "o_AllocationID (new_operation E i rec) = fresh E ''alloc'' 0"
  "o_Status (new_operation E i rec) = operationPending"
  by (simp_all add: new_operation_def)

lemma persist_hold_tables:
  "Allocations (persist_hold E i c reason rec st) =
     mput (fresh E ''alloc'' 0) (new_allocation E i c) (Allocations st)"
  "Operations (persist_hold E i c reason rec st) =
     mput (fresh E ''op'' 1) (new_operation E i rec) (Operations st)"
  by (simp_all add: persist_hold_def Let_def split: option.split)

lemma plan_simulated:
  assumes "reserve_plan E i st = Inr (st', res)" "admitted i st" "ids_fresh E st" "ledger_ok st"
  shows "simulated st st'"
proof -
  let ?r = "plan_requestID (v_K E) i"
  show ?thesis
  proof (cases "mget (Requests st) ?r")
    case (Some old)
    then have "st' = st" using assms(1) by (auto simp: reserve_plan_def split: sum.splits)
    then show ?thesis using simulated_refl assms(4) by simp
  next
    case None
    note fresh_request = None
    show ?thesis
    proof (cases "find_key st (p_TenantID (pn_Principal i)) (r_AllocationKey (pn_Request i))")
      case (Some old)
      then have "Allocations st' = Allocations st \<and> Operations st' = Operations st"
        using assms(1) fresh_request
        by (auto simp: reserve_plan_def plan_replay_key_def split: option.splits)
      then show ?thesis using simulated_same assms(4) by blast
    next
      case None
      have new: "plan_new_hold E i st = Inr (st', res)"
        using assms(1) fresh_request None by (simp add: reserve_plan_def)
      let ?ob = "latest_observation st (d_ID (pn_Domain i)) (pn_Planning i)"
      have gates: "plan_gates (v_cfg E) (pn_Principal i) (pn_Request i) (pn_Pool i) (pn_Domain i) st = None"
        using new by (simp add: plan_new_hold_def split: option.splits)
      obtain c reason rec where c:
        "plan_candidate (v_K E) (pn_Pool i) (pn_Request i) (pn_Snap i) ?ob st (pn_Pin i) = Inr (c, reason, rec)"
        and st': "st' = persist_hold E i c reason rec st"
        using new gates by (auto simp: plan_new_hold_def Let_def split: if_splits sum.splits)
      have hold: "may_hold (mget (Allocations st)) (new_allocation E i c)"
        by (rule hold_allowed [OF c gates None assms(2-4)])
      have "pendingDomain st (d_ID (pn_Domain i)) = None"
        using gates by (simp add: plan_gates_def split: if_splits)
      then have "may_open (mget (Operations st)) (new_operation E i rec)"
        using ids_freshD(2) [OF assms(3), of 1] mget_mvals
        by (fastforce simp: may_open_def fencing_def pendingDomain_def find_None_iff)
      then have "registry_step (abs_registry st) ((abs_registry st)
          \<lparr>g_rows := (g_rows (abs_registry st))(a_ID (new_allocation E i c) \<mapsto> new_allocation E i c),
           g_ops := (g_ops (abs_registry st))(o_ID (new_operation E i rec) \<mapsto> new_operation E i rec)\<rparr>)"
        using hold by (intro registry_step.hold) (simp_all add: bind_target_def new_operation_type)
      then show ?thesis
        using ledger_okD(1,2) [OF assms(4)] st' persist_hold_tables
        by (simp add: simulated_def abs_registry_def r_into_rtranclp)
    qed
  qed
qed

section \<open>The simulation\<close>

lemma ledger_simulated:
  assumes "ledger_step st st'" "ledger_ok st"
  shows "simulated st st'"
  using assms
proof (induction rule: ledger_step.induct)
  case (recovered E job invID st st' u)
  then show ?case by (intro recovered_simulated [of E job invID "reservation_event E" st st' u]) simp_all
next
  case (readopted E job invID rec ob st st' u)
  then show ?case by (intro recovered_simulated [of E job invID "adoption_event E rec ob" st st' u]) simp_all
qed (simp_all add: plan_simulated commit_simulated patch_simulated bind_simulated bound_simulated
    release_simulated reclaim_simulated reclaimed_simulated cancel_simulated cancelled_simulated
    abandon_simulated abandoned_simulated flagged_simulated observed_simulated
    reconciled_simulated projected_simulated)

interpretation ledger: simulation ledger_step ledger_ok registry_step abs_registry
  by unfold_locales (use ledger_simulated simulated_ok in \<open>auto simp: simulated_def\<close>)

lemma reachable_ok: "reachable st \<Longrightarrow> ledger_ok st"
  using ledger.run_sim NewState_ok unfolding reachable_def by blast

end
