(* ===== verification/Handlers.thy ===== *)
theory Handlers
  imports Lifecycle
begin

text \<open>
  The handlers as runs of the ledger. A handler reads and writes the ledger several times, and other
  processes write in between (\<open>v_others\<close>). Provided those writes are themselves runs of ledger
  transactions, the whole execution of a handler, on every path through it, is a run of ledger
  transactions, so that the invariants of reachable states hold before, during and after it.
\<close>

section \<open>Other processes\<close>

text \<open>
  What a handler relies on from the processes that share its ledger: they only run transactions of
  the service, and none of them stores an identifier this handler draws.
\<close>

definition cooperative :: "Env \<Rightarrow> bool" where
  "cooperative E \<longleftrightarrow>
     (\<forall>k s. ledger_run s (v_others E k s)) \<and> (\<forall>k s. ids_fresh E s \<longrightarrow> ids_fresh E (v_others E k s))"

lemma quiet_cooperative: "quiet E \<Longrightarrow> cooperative E"
  by (simp add: quiet_def cooperative_def)

lemma others_run: "cooperative E \<Longrightarrow> ledger_run s (v_others E k s)"
  by (simp add: cooperative_def)

lemma others_fresh: "cooperative E \<Longrightarrow> ids_fresh E s \<Longrightarrow> ids_fresh E (v_others E k s)"
  by (simp add: cooperative_def)

lemma run_ok: "ledger_run s s' \<Longrightarrow> ledger_ok s \<Longrightarrow> ledger_ok s'"
  using ledger.run_sim by blast

text \<open>What a handler has seen of the ledger between two of its own writes.\<close>

definition follows :: "Env \<Rightarrow> State \<Rightarrow> State \<Rightarrow> bool" where
  "follows E st st' \<longleftrightarrow> ledger_run st st' \<and> (ids_fresh E st \<longrightarrow> ids_fresh E st')"

lemma follows_run: "follows E st st' \<Longrightarrow> ledger_run st st'"
  by (simp add: follows_def)

lemma follows_refl [simp]: "follows E st st"
  by (simp add: follows_def)

lemma follows_trans: "follows E s s' \<Longrightarrow> follows E s' s'' \<Longrightarrow> follows E s s''"
  unfolding follows_def by (meson rtranclp_trans)

lemma others_follow: "cooperative E \<Longrightarrow> follows E s (v_others E k s)"
  by (simp add: follows_def others_run others_fresh)

lemma view_follows: "view E k fn st = (st', res) \<Longrightarrow> cooperative E \<Longrightarrow> follows E st st'"
  using others_follow by (auto simp: view_def Let_def)

lemma update_run:
  assumes "update E k fn st = (st', res)" "cooperative E"
    and "\<And>r. fn (v_others E k st) = Inr (st', r) \<Longrightarrow> ledger_step (v_others E k st) st'"
  shows "ledger_run st st'"
proof (cases rule: update_cases [of E k fn st])
  case (fault e)
  then show ?thesis using assms(1) others_run [OF assms(2)] by simp
next
  case (ok s r)
  then have "ledger_step (v_others E k st) st'" using assms(1,3) by simp
  then show ?thesis using others_run [OF assms(2), of st k] by (meson rtranclp.rtrancl_into_rtrancl)
qed

lemma update_Inr: "update E k fn st = (st', Inr r) \<Longrightarrow> fn (v_others E k st) = Inr (st', r)"
  by (cases rule: update_cases [of E k fn st]) auto

text \<open>A committed row keeps its frozen part through every run.\<close>

lemma run_committed:
  assumes "ledger_run s s'" "ledger_ok s" "mget (Allocations s) i = Some a" "a_Committed a"
  obtains a' where "mget (Allocations s') i = Some a'" "frozen a' = frozen a" "a_Committed a'"
    "rank (a_State a) \<le> rank (a_State a')" "a_Revision a \<le> a_Revision a'"
proof -
  have "registry_step\<^sup>*\<^sup>* (abs_registry s) (abs_registry s')"
    using ledger.run_sim [OF assms(1,2)] by blast
  moreover have "persists i a (abs_registry s)" using assms(3,4) by (simp add: persists_def)
  ultimately have "persists i a (abs_registry s')" by (rule committed_row.run_keeps)
  then show thesis using that by (auto simp: persists_def)
qed

lemma run_committed_at: "ledger_run s s' \<Longrightarrow> ledger_ok s \<Longrightarrow> committed_at s i \<Longrightarrow> committed_at s' i"
  by (auto simp: committed_at_def split: option.splits elim: run_committed)

lemma run_operation:
  assumes "ledger_run s s'" "ledger_ok s" "mget (Operations s) i = Some x"
  obtains y where "mget (Operations s') i = Some y" "op_progress x y"
proof -
  have "registry_step\<^sup>*\<^sup>* (abs_registry s) (abs_registry s')"
    using ledger.run_sim [OF assms(1,2)] by blast
  moreover have "op_persists i x (abs_registry s)" using assms(3) by (simp add: op_persists_def)
  ultimately have "op_persists i x (abs_registry s')" by (rule operation_row.run_keeps)
  then show thesis using that by (auto simp: op_persists_def)
qed

section \<open>What validation establishes\<close>

lemma last_domain_id: "d_ID (last_domain cfg i) = i \<or> d_ID (last_domain cfg i) = []"
proof -
  have "d_ID (foldl (\<lambda>dm d. if d_ID d = i then d else dm) z ds) \<in> {i, d_ID z}" for z ds
    by (induction ds arbitrary: z) (auto split: if_splits)
  from this [of zero_Domain "c_Domains cfg"] show ?thesis
    by (auto simp: last_domain_def zero_Domain_def)
qed

lemma select_pool_Some:
  assumes "select_pool cfg p r parent pools sel = Inr (Some pool)"
  shows "sel = Some pool \<or> (\<exists>q \<in> set pools. pool_candidate cfg p r parent q = Some pool)"
  using assms
  by (induction cfg p r parent pools sel rule: select_pool.induct) (auto split: option.splits)

lemma validate_target_Inr:
  assumes "validate_target cfg p r parent = Inr (r', pool, dm)"
  obtains q where "q \<in> set (c_Pools cfg)" "pool_candidate cfg p r parent q = Some pool"
    "r' = r" "pl_DomainID pool = d_ID dm" "d_ID dm \<noteq> []"
proof -
  have sel: "select_pool cfg p r parent (c_Pools cfg) None = Inr (Some pool)"
    and rest: "r' = r" "dm = last_domain cfg (pl_DomainID pool)" "d_ID dm \<noteq> []"
    using assms by (auto simp: validate_target_def Let_def split: sum.splits option.splits if_splits)
  obtain q where "q \<in> set (c_Pools cfg)" "pool_candidate cfg p r parent q = Some pool"
    using select_pool_Some [OF sel] by auto
  then show thesis using that rest last_domain_id [of cfg "pl_DomainID pool"] by simp
qed

lemma candidate_subnet:
  assumes "pool_candidate cfg p r parent q = Some pool" "r_Scope r = ''subnet''"
  shows "pl_CIDR pool = a_CIDR parent" "pl_ID pool = a_PoolID parent"
  using assms by (auto simp: pool_candidate_def split: if_splits)

lemma validate_shape_scope:
  assumes "validate_shape p input = Inr r"
  shows "r_Scope r = r_Scope input" "r_ParentAllocationID r = r_ParentAllocationID input"
    "r_Scope r \<in> {''vpc'', ''subnet''}"
  using assms
  by (auto simp: validate_shape_def Let_def split: if_splits option.splits list.splits)

text \<open>What the read of the parent leaves for the planning transaction, whenever that one runs.\<close>

definition validated :: "PlanInput \<Rightarrow> State \<Rightarrow> bool" where
  "validated i st \<longleftrightarrow> admitted i st \<and> ledger_ok st"

lemma validated_run: "validated i s \<Longrightarrow> ledger_run s s' \<Longrightarrow> validated i s'"
proof -
  assume v: "validated i s" and run: "ledger_run s s'"
  have ok: "ledger_ok s" and adm: "admitted i s" using v by (simp_all add: validated_def)
  have "\<exists>b. mget (Allocations s') (r_ParentAllocationID (pn_Request i)) = Some b \<and> a_Committed b \<and>
      pl_CIDR (pn_Pool i) = a_CIDR b" if sub: "r_Scope (pn_Request i) = ''subnet''"
  proof -
    obtain b where b: "mget (Allocations s) (r_ParentAllocationID (pn_Request i)) = Some b"
      "a_Committed b" "pl_CIDR (pn_Pool i) = a_CIDR b"
      using adm sub by (auto simp: admitted_def)
    obtain b' where "mget (Allocations s') (r_ParentAllocationID (pn_Request i)) = Some b'"
      "frozen b' = frozen b" "a_Committed b'"
      using run_committed [OF run ok b(1,2)] by metis
    then show ?thesis using b(3) frozen_fields(4) by metis
  qed
  then show "validated i s'" using adm run_ok [OF run ok] by (simp add: validated_def admitted_def)
qed

lemma validateRequest_follows:
  assumes "validateRequest E p input st = (st', res)" "cooperative E"
  shows "follows E st st'"
  using assms(1) view_follows [OF _ assms(2)] others_follow [OF assms(2)]
  by (auto simp: validateRequest_def split: sum.splits if_splits LedgerHealth.splits prod.splits)

lemma validateRequest_validated:
  assumes "validateRequest E p input st = (st', Inr (r, pool, dm))" "cooperative E" "ledger_ok st"
    and i: "pn_Request i = r" "pn_Pool i = pool" "pn_Domain i = dm"
  shows "validated i st'"
proof -
  obtain r0 where shape: "validate_shape p input = Inr r0"
    using assms(1) by (auto simp: validateRequest_def split: sum.splits)
  have ok: "ledger_ok st'" using run_ok follows_run validateRequest_follows [OF assms(1,2)] assms(3) by blast
  show ?thesis
  proof (cases "r_Scope r0 = ''subnet''")
    case True
    obtain parent where parent: "validate_parent (v_cfg E) p r0 st' = Inr parent"
      and target: "validate_target (v_cfg E) p r0 parent = Inr (r, pool, dm)"
      using assms(1) shape True
      by (auto simp: validateRequest_def view_def ml_View_def Let_def
          split: sum.splits LedgerHealth.splits option.splits)
    have row: "mget (Allocations st') (r_ParentAllocationID r0) = Some parent" "a_Committed parent"
      using parent by (auto simp: validate_parent_def Let_def split: option.splits if_splits)
    obtain q where "pool_candidate (v_cfg E) p r0 parent q = Some pool" "r = r0" "pl_DomainID pool = d_ID dm"
      using validate_target_Inr [OF target] by metis
    then show ?thesis using row ok i candidate_subnet True by (auto simp: validated_def admitted_def)
  next
    case False
    then have target: "validate_target (v_cfg E) p r0 zero_Allocation = Inr (r, pool, dm)"
      using assms(1) shape by (auto simp: validateRequest_def)
    have "r = r0" "pl_DomainID pool = d_ID dm" using validate_target_Inr [OF target] by metis+
    then show ?thesis using ok i False by (simp add: validated_def admitted_def)
  qed
qed

section \<open>Reservations and adoptions\<close>

lemma reserve_evidence_follows:
  assumes "reserve_evidence E dm st = (st', res)" "cooperative E"
  shows "follows E st st'"
  using assms(1) view_follows [OF _ assms(2)]
  by (auto simp: reserve_evidence_def split: option.splits sum.splits if_splits prod.splits bool.splits)

lemma finish_hold_run:
  assumes "finish_hold E pin ev a x invID st = (st', res)" "cooperative E"
  shows "ledger_run st st'"
proof -
  obtain s r where u: "update E 4 (reserve_commit E pin ev a x invID) st = (s, r)" by fastforce
  have "ledger_run st s"
    by (rule update_run [OF u assms(2)]) (rule ledger_step.commit)
  moreover have "st' = s"
    using assms(1) u
    by (auto simp: finish_hold_def split: sum.splits CommitOutcome.splits option.splits if_splits)
  ultimately show ?thesis by simp
qed

lemma attempt_hold_run:
  assumes "attempt_hold E pin ev a x st = (st', res)" "cooperative E"
  shows "ledger_run st st'"
  using assms(1) finish_hold_run [OF _ assms(2)]
  by (auto simp: attempt_hold_def split: option.splits sum.splits if_splits)

text \<open>The answers that do not come from an inventory call of this handler never have status 201.\<close>

definition created :: "goerr + answer \<Rightarrow> bool" where
  "created res \<longleftrightarrow> (\<exists>a x. res = Inr (a, x, 201))"

lemma resultStatus_201: "resultStatus a x \<noteq> 201"
  by (simp add: resultStatus_def)

lemma replay_record_201: "replay_record st old h = Inr (a, x, status) \<Longrightarrow> status \<noteq> 201"
  by (auto simp: replay_record_def Let_def resultStatus_201 split: if_splits option.splits prod.splits)

lemma reserve_replay_201: "reserve_replay t k rid ih hh st = Inr (a, x, status) \<Longrightarrow> a \<noteq> None \<Longrightarrow> status \<noteq> 201"
  by (auto simp: reserve_replay_def Let_def resultStatus_201 dest: replay_record_201 split: option.splits)

lemma reserve_plan_201: "reserve_plan E i st = Inr (st', Replayed (a, x, status)) \<Longrightarrow> status \<noteq> 201"
  by (auto simp: reserve_plan_def plan_replay_key_def plan_new_hold_def Let_def
      dest: replay_record_201 split: option.splits sum.splits if_splits)

text \<open>
  Every path through the reservation body: either it ends before the inventory is called, or it has
  planned a hold and attempts it.
\<close>

lemma reserve_paths:
  assumes "reserve E p req key pin st = (st', res)" "cooperative E" "ledger_ok st" "ids_fresh E st"
  obtains (ended) "ledger_run st st'" "\<not> created res"
  | (attempted) s a x ev where "ledger_run st s" "attempt_hold E pin ev a x s = (st', res)"
proof (cases "key = [] \<or> ledgerReady E \<noteq> None")
  case True
  then show thesis using assms(1) ended by (auto simp: reserve_def created_def split: option.splits if_splits)
next
  case start: False
  obtain s1 v where v: "validateRequest E p req st = (s1, v)" by fastforce
  note f1 = validateRequest_follows [OF v assms(2)]
  show thesis
  proof (cases v)
    case (Inl e)
    then show thesis using assms(1) start v follows_run [OF f1] ended by (auto simp: reserve_def created_def)
  next
    case (Inr t)
    obtain r pool dm where t: "t = (r, pool, dm)" by (cases t) auto
    let ?replay = "reserve_replay (p_TenantID p) (r_AllocationKey r)
      (idempotencyID (v_K E) (p_TenantID p) (k_method (kind_of pin)) (k_path (kind_of pin)) key)
      (requestHash (v_K E) r) (requestBodyHash (v_K E) r)"
    obtain s2 w where w: "view E 1 ?replay s1 = (s2, w)" by fastforce
    obtain s3 ev where ev: "reserve_evidence E dm s2 = (s3, ev)" by fastforce
    have f2: "follows E st s2" using follows_trans [OF f1 view_follows [OF w assms(2)]] .
    have f3: "follows E st s3" using follows_trans [OF f2 reserve_evidence_follows [OF ev assms(2)]] .
    have w201: "status \<noteq> 201" if "w = Inr (Some a, x, status)" for a x status
      using w that reserve_replay_201
      by (fastforce simp: view_def ml_View_def Let_def split: option.splits)
    show thesis
    proof (cases "(\<exists>x st. w = Inr (None, x, st)) \<and> (\<exists>y. ev = Inr y)")
      case False
      have "st' \<in> {s2, s3} \<and> \<not> created res"
        using assms(1) start v Inr t w ev False w201
        by (auto simp: reserve_def created_def split: sum.splits option.splits)
      then show thesis using follows_run [OF f2] follows_run [OF f3] ended by auto
    next
      case True
      then obtain x0 n0 snap obs planning where y: "w = Inr (None, x0, n0)" "ev = Inr (snap, obs, planning)" by auto
      let ?i = "\<lparr>pn_Principal = p, pn_Request = r, pn_Pool = pool, pn_Domain = dm, pn_Key = key,
        pn_Pin = pin, pn_Snap = snap, pn_Obs = obs, pn_Planning = planning\<rparr>"
      obtain s4 out where out: "update E 3 (reserve_plan E ?i) s3 = (s4, out)" by fastforce
      have "validated ?i s1" using validateRequest_validated [OF v [unfolded Inr t] assms(2,3)] by simp
      moreover have "ledger_run s1 (v_others E 3 s3)"
        using view_follows [OF w assms(2)] reserve_evidence_follows [OF ev assms(2)]
          others_follow [OF assms(2), of s3 3] by (meson follows_run rtranclp_trans)
      ultimately have val: "validated ?i (v_others E 3 s3)" by (rule validated_run)
      have fr: "ids_fresh E (v_others E 3 s3)"
        using follows_trans [OF f3 others_follow [OF assms(2), of s3 3]] assms(4) by (simp add: follows_def)
      have "ledger_run s3 s4"
        by (rule update_run [OF out assms(2)])
          (use val fr in \<open>auto simp: validated_def intro: ledger_step.plan\<close>)
      then have run4: "ledger_run st s4" using follows_run [OF f3] by (meson rtranclp_trans)
      have plan: "status \<noteq> 201" if "out = Inr (Replayed (a, x, status))" for a x status
        using update_Inr [OF out [unfolded that]] by (auto dest: reserve_plan_201)
      have body: "reserve E p req key pin st =
          (case out of
             Inl e \<Rightarrow> (s4, Inl e)
           | Inr (Replayed (None, _, _)) \<Rightarrow>
               (s4, Inl (apiErr 503 ''ledger_error'' ''ledger returned no result''))
           | Inr (Replayed (Some a, x, status)) \<Rightarrow>
               (s4, Inr (Some a, x, (if a_Committed a then status else 202)))
           | Inr (NewHold a x evidence) \<Rightarrow> attempt_hold E pin evidence a x s4)"
        using start
        by (simp only: reserve_def de_Morgan_disj not_not v Inr t w [unfolded y] ev [unfolded y] out
            prod.case sum.case option.case if_False)
      show thesis
      proof (cases "\<exists>a x evd. out = Inr (NewHold a x evd)")
        case True
        then obtain a x evd where "out = Inr (NewHold a x evd)" by blast
        then have "attempt_hold E pin evd a x s4 = (st', res)" using assms(1) body by simp
        then show thesis using attempted run4 by blast
      next
        case False
        have "st' = s4 \<and> \<not> created res"
          using assms(1) False plan unfolding body
          by (auto simp: created_def split: sum.splits PlanOutcome.splits option.splits if_splits)
        then show thesis using ended run4 by simp
      qed
    qed
  qed
qed

lemma reserve_run:
  assumes "reserve E p req key pin st = (st', res)" "cooperative E" "ledger_ok st" "ids_fresh E st"
  shows "ledger_run st st'"
  using assms
proof (cases rule: reserve_paths)
  case (attempted s a x ev)
  then show ?thesis using attempt_hold_run [OF attempted(2) assms(2)] by (meson rtranclp_trans)
qed

lemma Adopt_run:
  assumes "Adopt E p req pin st = (st', res)" "cooperative E" "ledger_ok st" "ids_fresh E st"
  shows "ledger_run st st'"
proof (cases "adopt_inputs req pin")
  case (Some e)
  then show ?thesis using assms(1) by (simp add: Adopt_def)
next
  case None
  let ?r = "req\<lparr>r_Description := [], r_Labels := None\<rparr>"
  obtain s1 v where v: "view E 5 (adopt_precheck p ?r pin) st = (s1, v)" by fastforce
  note f1 = view_follows [OF v assms(2)]
  obtain s2 w where w: "reserve E p ?r (r_AllocationKey ?r) (Some pin) s1 = (s2, w)" by fastforce
  have ok: "ledger_ok s1" "ids_fresh E s1"
    using f1 assms(3,4) run_ok follows_run by (auto simp: follows_def)
  have "ledger_run st s2"
    using reserve_run [OF w assms(2) ok] follows_run [OF f1] by (meson rtranclp_trans)
  then show ?thesis
    using assms(1) None v w follows_run [OF f1]
    by (auto simp: Adopt_def Let_def split: sum.splits option.splits prod.splits)
qed

section \<open>The other handlers\<close>

lemma Patch_run:
  assumes "Patch E p i ds ls etag key st = (st', res)" "cooperative E"
  shows "ledger_run st st'"
proof (cases "key = []")
  case False
  then have "update E 0 (Patch_txn E p i ds ls etag key) st = (st', res)"
    using assms(1) by (simp add: Patch_def)
  then show ?thesis by (rule update_run [OF _ assms(2)]) (rule ledger_step.patch)
qed (use assms(1) in \<open>simp add: Patch_def\<close>)

lemma Release_run:
  assumes "Release E p i st = (st', res)" "cooperative E"
  shows "ledger_run st st'"
proof -
  obtain r where u: "update E 0 (release_txn E p i) st = (st', r)"
    using assms(1) by (auto simp: Release_def split: sum.splits prod.splits)
  then show ?thesis by (rule update_run [OF _ assms(2)]) (rule ledger_step.release)
qed

lemma finishBinding_run:
  assumes "finishBinding E i x b status st = (st', res)" "cooperative E" "ledger_ok st" "committed_at st i"
  shows "ledger_run st st'"
proof -
  obtain r where u: "update E 2 (finish_binding_txn E i x b) st = (st', r)"
    using assms(1) by (auto simp: finishBinding_def split: sum.splits prod.splits)
  have "committed_at (v_others E 2 st) i"
    using run_committed_at [OF others_run [OF assms(2)] assms(3,4)] .
  then show ?thesis by (intro update_run [OF u assms(2)] ledger_step.bound) simp_all
qed

lemma bind_plan_committed:
  assumes "bind_plan E p i b key op1 s = Inr (s', out)"
  shows "committed_at s' i"
  using assms
  by (auto simp: bind_plan_def committed_at_def Let_def split: option.splits if_splits)

lemma Bind_run:
  assumes "Bind E p i b key st = (st', res)" "cooperative E" "ledger_ok st" "ids_fresh E st"
  shows "ledger_run st st'"
proof (cases "key = []")
  case True
  then show ?thesis using assms(1) by (simp add: Bind_def)
next
  case False
  obtain s1 v where v: "view E 0 (bind_read p i b) st = (s1, v)" by fastforce
  note f1 = view_follows [OF v assms(2)]
  show ?thesis
  proof (cases "\<exists>br. v = Inr br \<and> br_Out br = None")
    case no: False
    then show ?thesis using assms(1) False v follows_run [OF f1]
      by (auto simp: Bind_def split: sum.splits option.splits)
  next
    case True
    then obtain br where br: "v = Inr br" "br_Out br = None" by blast
    obtain s2 w where w: "update E 1 (bind_plan E p i b key (br_Op br)) s1 = (s2, w)" by fastforce
    have fr: "ids_fresh E (v_others E 1 s1)"
      using f1 others_fresh [OF assms(2)] assms(4) by (simp add: follows_def)
    have run2: "ledger_run s1 s2"
      by (rule update_run [OF w assms(2)]) (rule ledger_step.bind [OF _ fr])
    have run: "ledger_run st s2" using follows_run [OF f1] run2 by (meson rtranclp_trans)
    have ok: "ledger_ok s2" using run_ok [OF run assms(3)] .
    have com: "committed_at s2 i" if "w = Inr out" for out
    proof -
      have "update E 1 (bind_plan E p i b key (br_Op br)) s1 = (s2, Inr out)" using w that by simp
      then show ?thesis by (rule bind_plan_committed [OF update_Inr])
    qed
    have fin: "ledger_run s2 s'" if "finishBinding E i x b 200 s2 = (s', r)" "w = Inr out" for x s' r out
      using finishBinding_run [OF that(1) assms(2) ok com [OF that(2)]] .
    have "ledger_run s2 st'"
      using assms(1) False v br w fin
      by (auto simp: Bind_def Let_def split: sum.splits option.splits if_splits)
    then show ?thesis using run by (meson rtranclp_trans)
  qed
qed

lemma CancelReservation_run:
  assumes "CancelReservation E p oid st = (st', res)" "cooperative E"
  shows "ledger_run st st'"
proof (cases "ledgerReady E \<noteq> None \<or> v_inventory E = None")
  case True
  then show ?thesis using assms(1) by (auto simp: CancelReservation_def split: option.splits)
next
  case False
  then obtain iv where iv: "ledgerReady E = None" "v_inventory E = Some iv" by auto
  obtain s1 v where v: "update E 0 (cancel_fence E p oid) st = (s1, v)" by fastforce
  have run1: "ledger_run st s1" by (rule update_run [OF v assms(2)]) (rule ledger_step.cancel)
  have run2: "ledger_run s1 s2" if "update E 1 (cancel_delete E t) s1 = (s2, w)" for t s2 w
    by (rule update_run [OF that assms(2)]) (rule ledger_step.cancelled)
  have "ledger_run s1 st'"
    using assms(1) iv v run2
    by (auto simp: CancelReservation_def Let_def split: sum.splits option.splits if_splits prod.splits)
  then show ?thesis using run1 by (meson rtranclp_trans)
qed

lemma AbandonAdoption_run:
  assumes "AbandonAdoption E i oid operator reason st = (st', res)" "cooperative E"
  shows "ledger_run st st'"
proof (cases "abandonInputs i operator reason \<noteq> None \<or> ledgerReady E \<noteq> None \<or> v_inventory E = None")
  case True
  then show ?thesis using assms(1) by (auto simp: AbandonAdoption_def split: option.splits)
next
  case False
  then obtain iv where iv: "abandonInputs i operator reason = None" "ledgerReady E = None"
    "v_inventory E = Some iv" by auto
  obtain s1 v where v: "update E 0 (abandon_fence E i oid operator reason) st = (s1, v)" by fastforce
  have run1: "ledger_run st s1" by (rule update_run [OF v assms(2)]) (rule ledger_step.abandon)
  have run2: "ledger_run s1 s2" if "update E 1 (abandon_delete E t) s1 = (s2, w)" for t s2 w
    by (rule update_run [OF that assms(2)]) (rule ledger_step.abandoned)
  have "ledger_run s1 st'"
    using assms(1) iv v run2
    by (auto simp: AbandonAdoption_def Let_def split: sum.splits option.splits prod.splits)
  then show ?thesis using run1 by (meson rtranclp_trans)
qed

end
