(* ===== verification/TickRun.thy ===== *)
theory TickRun
  imports Handlers
begin

text \<open>
  One pass of the worker as a run of the ledger. The pass writes in many transactions, and other
  processes write in between. Each phase is shown to be a run of ledger transactions; the two phases
  that draw operation identifiers ask that those are unused in the state they are stored in.
\<close>

section \<open>Phases\<close>

definition honest :: "Env \<Rightarrow> bool" where
  "honest E \<longleftrightarrow> (\<forall>k s. ledger_run s (v_others E k s))"

lemma honest_sub: "honest E \<Longrightarrow> honest (sub j E)"
  by (simp add: honest_def sub_def)

lemma cooperative_honest: "cooperative E \<Longrightarrow> honest E"
  by (simp add: honest_def cooperative_def)

lemma quiet_honest: "quiet E \<Longrightarrow> honest E"
  by (simp add: honest_def quiet_def)

lemma honest_run: "honest E \<Longrightarrow> ledger_run s (v_others E k s)"
  by (simp add: honest_def)

lemma view_run: "honest E \<Longrightarrow> ledger_run st (fst (view E k fn st))"
  by (simp add: honest_run)

lemma update_steps:
  assumes "honest E"
    and "\<And>s r. fn (v_others E k st) = Inr (s, r) \<Longrightarrow> ledger_step (v_others E k st) s"
  shows "ledger_run st (fst (update E k fn st))"
proof (cases rule: update_cases [of E k fn st])
  case (fault e)
  then show ?thesis using honest_run [OF assms(1)] by simp
next
  case (ok s r)
  then have "ledger_step (v_others E k st) s" using assms(2) by simp
  then show ?thesis using ok(2) honest_run [OF assms(1), of st k] by (simp add: rtranclp.rtrancl_into_rtrancl)
qed

lemma result_error_state [simp]: "fst (result_error r) = fst r"
  by (auto simp: result_error_def split: prod.splits sum.splits)

lemma run_trans: "ledger_run s s' \<Longrightarrow> ledger_run s' s'' \<Longrightarrow> ledger_run s s''"
  by (rule rtranclp_trans)

section \<open>Recovery\<close>

lemma recoveryEvidence_run: "honest E \<Longrightarrow> ledger_run st (fst (recoveryEvidence E a st))"
  by (auto simp: recoveryEvidence_def view_def honest_run Let_def split: option.splits sum.splits)

lemma flagStuckHold_run: "honest E \<Longrightarrow> ledger_run st (fst (flagStuckHold E a c st))"
  unfolding flagStuckHold_def result_error_state by (rule update_steps) (auto intro: ledger_step.flagged)

lemma flagAged_run: "honest E \<Longrightarrow> ledger_run st (fst (flagAgedReservation E job st))"
  by (simp add: flagAgedReservation_def Let_def flagStuckHold_run)

lemma commit_reservation_run:
  "honest E \<Longrightarrow> ledger_run st (fst (commitRecovered E job invID (reservation_event E) st))"
  unfolding commitRecovered_def result_error_state
  by (rule update_steps) (auto intro: ledger_step.recovered)

lemma commit_adoption_run:
  "honest E \<Longrightarrow> ledger_run st (fst (commitRecovered E job invID (adoption_event E rec ob) st))"
  unfolding commitRecovered_def result_error_state
  by (rule update_steps) (auto intro: ledger_step.readopted)

lemmas recovery_runs = flagStuckHold_run flagAged_run commit_reservation_run commit_adoption_run

lemma recover_reservation_run:
  assumes "honest E"
  shows "ledger_run st (fst (recover_reservation iv E job st))"
proof -
  obtain s ev where ev: "recoveryEvidence E (fst job) st = (s, ev)" by fastforce
  have "ledger_run st s" using recoveryEvidence_run [OF assms, of st "fst job"] ev by simp
  moreover have "ledger_run s (fst (recover_reservation iv E job st))"
    using recovery_runs [OF assms, of s]
    by (auto simp: recover_reservation_def ev split: option.splits sum.splits)
  ultimately show ?thesis by (rule run_trans)
qed

lemma recoverAdoption_run:
  assumes "honest E"
  shows "ledger_run st (fst (recoverAdoption iv E job st))"
proof -
  obtain s ev where ev: "recoveryEvidence E (fst job) st = (s, ev)" by fastforce
  have s: "ledger_run st s" using recoveryEvidence_run [OF assms, of st "fst job"] ev by simp
  have "ledger_run s (fst (recoverAdoption iv E job st)) \<or> ledger_run st (fst (recoverAdoption iv E job st))"
    using recovery_runs [OF assms]
    by (auto simp: recoverAdoption_def flagStuckAdoption_def Let_def ev split: option.splits sum.splits)
  then show ?thesis using s run_trans by blast
qed

lemma each_job_run:
  assumes "\<And>k j s. ledger_run s (fst (f k j s))"
  shows "ledger_run st (fst (each_job f k js st))"
proof (induction js arbitrary: k st)
  case (Cons j js)
  obtain s e where f: "f k j st = (s, e)" by fastforce
  have "ledger_run st s" using assms [of st k j] f by simp
  then show ?case using Cons.IH [of s "Suc k"] f run_trans by (auto split: option.splits)
qed simp

lemma recoverReservations_run:
  assumes "honest E"
  shows "ledger_run st (fst (recoverReservations E st))"
proof -
  obtain s v where v: "pendingRecoveryJobs E reserveOperation st = (s, v)" by fastforce
  have "ledger_run st s" using v view_run [OF assms] by (metis pendingRecoveryJobs_def fst_conv)
  moreover have "ledger_run s (fst (recoverReservations E st))"
    by (auto simp: recoverReservations_def v split: sum.splits option.splits
        intro!: each_job_run recover_reservation_run [OF honest_sub [OF assms]])
  ultimately show ?thesis by (rule run_trans)
qed

lemma recoverAdoptions_run:
  assumes "honest E"
  shows "ledger_run st (fst (recoverAdoptions E st))"
proof -
  obtain s v where v: "pendingRecoveryJobs E adoptOperation st = (s, v)" by fastforce
  have "ledger_run st s" using v view_run [OF assms] by (metis pendingRecoveryJobs_def fst_conv)
  moreover have "ledger_run s (fst (recoverAdoptions E st))"
    by (auto simp: recoverAdoptions_def v split: sum.splits option.splits
        intro!: each_job_run recoverAdoption_run [OF honest_sub [OF assms]])
  ultimately show ?thesis by (rule run_trans)
qed

section \<open>Observation, bindings and projections\<close>

lemma tick_observe_run: "honest E \<Longrightarrow> ledger_run st (tick_observe E d st)"
  unfolding tick_observe_def by (rule update_steps) (auto intro: ledger_step.observed)

lemma tick_domains_run: "honest E \<Longrightarrow> ledger_run st (tick_domains E k ds st)"
proof (induction ds arbitrary: k st)
  case (Cons d ds)
  have "ledger_run st (tick_observe (sub k E) d st)" by (rule tick_observe_run [OF honest_sub [OF Cons.prems]])
  then show ?case using Cons.IH [OF Cons.prems, of "tick_observe (sub k E) d st" "Suc k"] by simp
qed simp

lemma finish_pending_binding_run:
  assumes "honest E" "ledger_ok st" "committed_at st (a_ID (fst job))"
  shows "ledger_run st (finish_pending_binding E job st)"
proof -
  obtain a x b par where job: "job = (a, x, b, par)" by (cases job)
  have "committed_at (v_others E 2 st) (a_ID a)"
    using run_committed_at [OF honest_run [OF assms(1)] assms(2)] assms(3) job by simp
  then have "ledger_run st (fst (update E 2 (finish_binding_txn E (a_ID a) x b) st))"
    by (intro update_steps [OF assms(1)] ledger_step.bound) simp_all
  moreover have "fst (finishBinding E (a_ID a) x b 200 st) = fst (update E 2 (finish_binding_txn E (a_ID a) x b) st)"
    by (auto simp: finishBinding_def split: prod.splits sum.splits)
  ultimately show ?thesis
    by (auto simp: finish_pending_binding_def job Let_def split: sum.splits option.splits)
qed

lemma finish_pending_bindings_run:
  assumes "honest E" "ledger_ok st" "\<forall>job \<in> set js. committed_at st (a_ID (fst job))"
  shows "ledger_run st (finish_pending_bindings E k js st)"
  using assms(2,3)
proof (induction js arbitrary: k st)
  case (Cons j js)
  let ?s = "finish_pending_binding (sub k E) j st"
  have r: "ledger_run st ?s"
    using finish_pending_binding_run [OF honest_sub [OF assms(1)] Cons.prems(1)] Cons.prems(2) by simp
  have "ledger_run ?s (finish_pending_bindings E (Suc k) js ?s)"
    using Cons.prems run_committed_at [OF r] by (intro Cons.IH run_ok [OF r]) auto
  then show ?case using run_trans [OF r] by simp
qed simp

lemma pending_bindings_committed:
  assumes "ledger_ok st" "job \<in> set (pending_bindings st)"
  shows "committed_at st (a_ID (fst job))"
proof -
  obtain a x where ax: "x \<in> set (mvals (Operations st))" "mget (Allocations st) (o_AllocationID x) = Some a"
    "o_Type x = bindOperation" "fst job = a"
    using assms(2) by (auto simp: pending_bindings_def split: option.splits if_splits dest!: sym [of "Some _"])
  obtain k where "mget (Operations st) k = Some x"
    using ax(1) mvals_mget [OF ledger_okD(2) [OF assms(1)]] by blast
  then have "bind_target (mget (Allocations st)) x"
    using ledger_okD(3) [OF assms(1)] by (auto simp: registry_inv_def binds_committed_def)
  then have "a_Committed a" using ax by (simp add: bind_target_def)
  moreover have "a_ID a = o_AllocationID x" using ledger_okD(4) [OF assms(1) ax(2)] by simp
  ultimately show ?thesis using ax by (simp add: committed_at_def)
qed

lemma tick_bindings_run:
  assumes "honest E" "ledger_ok st"
  shows "ledger_run st (tick_bindings E st)"
proof -
  obtain s v where v: "view E 0 (\<lambda>s. Inr (pending_bindings s) :: goerr + _) st = (s, v)" by fastforce
  have r: "ledger_run st s" using view_run [OF assms(1), of st 0] v by (metis fst_conv)
  have jobs: "jobs = pending_bindings s" if "v = Inr jobs" for jobs
    using v that by (auto simp: view_def ml_View_def Let_def split: option.splits)
  have "ledger_run s (tick_bindings E st)"
    using finish_pending_bindings_run [OF assms(1) run_ok [OF r assms(2)]]
      pending_bindings_committed [OF run_ok [OF r assms(2)]] jobs
    by (auto simp: tick_bindings_def v split: sum.splits)
  then show ?thesis using r run_trans by blast
qed

lemma applyProjection_run:
  assumes "honest E"
  shows "ledger_run st (fst (applyProjectionResults E results flush st))"
proof -
  have u: "ledger_run s (fst (update E 2 (projection_txn E (v_now E 0) results) s))" for s
    by (rule update_steps [OF assms]) (auto intro: ledger_step.projected)
  obtain s v where v: "view E (Suc 0) (\<lambda>s. Inr (projectionResultsAlreadyApplied (v_K E) results s) :: goerr + _) st = (s, v)"
    by fastforce
  have "ledger_run st s" using view_run [OF assms, of st "Suc 0"] v by (metis fst_conv)
  then show ?thesis
    using u [of st] run_trans [OF _ u [of s], of st]
    by (auto simp: applyProjectionResults_def Let_def v split: sum.splits bool.splits)
qed

lemma syncProjections_run:
  assumes "honest E"
  shows "ledger_run st (fst (syncProjections E st))"
proof -
  obtain s v where v: "view E 0 (\<lambda>s. Inr (projection_jobs s) :: goerr + _) st = (s, v)" by fastforce
  have r: "ledger_run st s" using view_run [OF assms, of st 0] v by (metis fst_conv)
  have a: "ledger_run st s'" if "applyProjectionResults E rs fl s = (s', e)" for rs fl s' e
    using applyProjection_run [OF assms, of s rs fl] run_trans [OF r] that by simp
  show ?thesis
    using r by (auto simp: syncProjections_def v split: option.splits sum.splits prod.splits dest: a)
qed

section \<open>Reclamation\<close>

definition job_ok :: "State \<Rightarrow> reclaim_job \<Rightarrow> bool" where
  "job_ok st job \<longleftrightarrow> committed_at st (a_ID (fst job)) \<and> mget (Operations st) (o_ID (snd job)) \<noteq> None"

lemma job_ok_run:
  assumes "ledger_run s s'" "ledger_ok s" "job_ok s job"
  shows "job_ok s' job"
proof -
  obtain x where x: "mget (Operations s) (o_ID (snd job)) = Some x"
    using assms(3) by (auto simp: job_ok_def)
  obtain y where "mget (Operations s') (o_ID (snd job)) = Some y"
    using run_operation [OF assms(1,2) x] by blast
  then show ?thesis using run_committed_at [OF assms(1,2)] assms(3) by (simp add: job_ok_def)
qed

lemma reclaim_pending_ok:
  assumes "ledger_ok st" "job \<in> set (reclaim_pending st)"
  shows "job_ok st job"
proof -
  obtain a x where ax: "x \<in> set (mvals (Operations st))" "mget (Allocations st) (o_AllocationID x) = Some a"
    "a_State a = Quarantined" "job = (a, x)"
    using assms(2) by (auto simp: reclaim_pending_def split: option.splits if_splits)
  obtain k where k: "mget (Operations st) k = Some x"
    using ax(1) mvals_mget [OF ledger_okD(2) [OF assms(1)]] by blast
  then have "mget (Operations st) (o_ID x) \<noteq> None" using ledger_okD(5) [OF assms(1) k] by simp
  moreover have "a_Committed a"
    using ledger_okD(3) [OF assms(1)] ax(2,3)
    by (auto simp: registry_inv_def moved_committed_def)
  moreover have "a_ID a = o_AllocationID x" using ledger_okD(4) [OF assms(1) ax(2)] by simp
  ultimately show ?thesis using ax by (simp add: job_ok_def committed_at_def)
qed


lemma plan_one_jobs:
  assumes "\<forall>j \<in> set (snd acc). job_ok (fst acc) j"
  shows "\<forall>j \<in> set (snd (reclaim_plan_one E now ka acc)). job_ok (fst (reclaim_plan_one E now ka acc)) j"
proof -
  obtain k a where ka: "ka = (k, a)" by fastforce
  obtain st jobs where acc: "acc = (st, jobs)" by fastforce
  show ?thesis
    using assms
    by (auto simp: reclaim_plan_one_def ka acc job_ok_def committed_at_def Let_def split: option.splits)
qed

lemma plan_jobs:
  assumes "\<forall>j \<in> set (snd acc). job_ok (fst acc) j"
  shows "\<forall>j \<in> set (snd (fold (reclaim_plan_one E now) kas acc)).
    job_ok (fst (fold (reclaim_plan_one E now) kas acc)) j"
  using assms
proof (induction kas arbitrary: acc)
  case (Cons ka kas)
  then show ?case using plan_one_jobs [OF Cons.prems] by simp
qed simp

lemma reclaim_plan_jobs:
  assumes "reclaim_plan E st = Inr (st', jobs)" "ledger_ok st"
  shows "\<forall>j \<in> set jobs. job_ok st' j"
  using plan_jobs [of "(st, reclaim_pending st)" E "v_now E 0" "enumerate 0 (mvals (Allocations st))"]
    reclaim_pending_ok [OF assms(2)] assms(1)
  by (simp add: reclaim_plan_def)

lemma reclaim_run_run:
  assumes "honest E" "ledger_ok st" "job_ok st job"
  shows "ledger_run st (fst (reclaim_run E k job st))"
proof -
  define n where "n = 10 * (k + 1)"
  obtain s v where v: "view E n (reclaim_fence_read E n job) st = (s, v)" by fastforce
  have r: "ledger_run st s" using view_run [OF assms(1), of st n] v by (metis fst_conv)
  have ok: "ledger_ok s" "job_ok s job" using run_ok [OF r assms(2)] job_ok_run [OF r assms(2,3)] .
  have u: "ledger_run s (fst (update E (n + 1) (reclaim_finish E (n + 2) job failed post obs par) s))"
    for failed post obs par
  proof (rule update_steps [OF assms(1)])
    fix s' u assume f: "reclaim_finish E (n + 2) job failed post obs par (v_others E (n + 1) s) = Inr (s', u)"
    have "job_ok (v_others E (n + 1) s) job" using job_ok_run [OF honest_run [OF assms(1)] ok] .
    then show "ledger_step (v_others E (n + 1) s) s'"
      using ledger_step.reclaimed [OF f] by (simp add: job_ok_def)
  qed
  have t: "ledger_run st (fst (case update E (n + 1) (reclaim_finish E (n + 2) job failed post obs par) s of
      (st2, Inl e) \<Rightarrow> (st2, Some e) | (st2, Inr _) \<Rightarrow> (st2, None)))" for failed post obs par
    using run_trans [OF r u [of failed post obs par]] by (auto split: prod.splits sum.splits)
  note def = reclaim_run_def Let_def n_def [symmetric] v
  show ?thesis
  proof (cases "\<exists>iv par pre. v_inventory E = Some iv \<and> v = Inr (True, par) \<and>
      inv_Snapshot iv (2 * k) (domainFor (v_cfg E) (a_DomainID (fst job))) = Inr pre \<and>
      sn_Complete pre \<and> \<not> snapshotConflict (fst job) pre")
    case True
    then obtain iv par pre where "v_inventory E = Some iv" "v = Inr (True, par)"
      "inv_Snapshot iv (2 * k) (domainFor (v_cfg E) (a_DomainID (fst job))) = Inr pre"
      "sn_Complete pre" "\<not> snapshotConflict (fst job) pre" by blast
    then show ?thesis using t unfolding def by (simp del: One_nat_def add_2_eq_Suc')
  next
    case False
    then have "fst (reclaim_run E k job st) \<in> {st, s}"
      unfolding def by (auto split: option.split sum.split bool.split)
    then show ?thesis using r by auto
  qed
qed

lemma reclaim_jobs_run:
  assumes "honest E" "ledger_ok st" "\<forall>j \<in> set js. job_ok st j"
  shows "ledger_run st (fst (reclaim_jobs E k js st))"
  using assms(2,3)
proof (induction js arbitrary: k st)
  case (Cons j js)
  obtain s e where f: "reclaim_run E k j st = (s, e)" by fastforce
  have r: "ledger_run st s" using reclaim_run_run [OF assms(1) Cons.prems(1), of j k] Cons.prems(2) f by simp
  have "ledger_run s (fst (reclaim_jobs E (Suc k) js s))"
    using Cons.prems job_ok_run [OF r Cons.prems(1)] by (intro Cons.IH run_ok [OF r]) auto
  then show ?case using run_trans [OF r] f r by (auto split: option.splits)
qed simp

lemma reclaimTick_run:
  assumes "honest E" "ledger_ok st" "ids_fresh E (v_others E 0 st)"
  shows "ledger_run st (fst (reclaimTick E st))"
proof -
  obtain s v where v: "update E 0 (reclaim_plan E) st = (s, v)" by fastforce
  have r: "ledger_run st s"
    using update_steps [OF assms(1), of "reclaim_plan E" 0 st] ledger_step.reclaim [OF _ assms(3)] v
    by (metis fst_conv)
  have "job_ok s j" if "v = Inr jobs" "j \<in> set jobs" for jobs j
  proof -
    have "reclaim_plan E (v_others E 0 st) = Inr (s, jobs)" using update_Inr v that(1) by simp
    then show ?thesis
      using reclaim_plan_jobs [OF _ run_ok [OF honest_run [OF assms(1)] assms(2)]] that(2) by blast
  qed
  then have "ledger_run s (fst (reclaim_jobs E 0 jobs s))" if "v = Inr jobs" for jobs
    using that by (intro reclaim_jobs_run [OF assms(1) run_ok [OF r assms(2)]]) blast
  then show ?thesis using r run_trans [OF r] by (auto simp: reclaimTick_def v split: sum.splits)
qed

section \<open>The whole pass\<close>

text \<open>The ledger as the reconciliation and the reclamation of a pass find it.\<close>

definition before_reconcile :: "Env \<Rightarrow> State \<Rightarrow> State" where
  "before_reconcile E st =
     v_others (sub 3 E) 0 (tick_domains (sub 2 E) 0 (c_Domains (v_cfg E))
       (fst (recoverAdoptions (sub 1 E) (fst (recoverReservations (sub 0 E) st)))))"

definition before_reclaim :: "Env \<Rightarrow> State \<Rightarrow> State" where
  "before_reclaim E st =
     v_others (sub 6 E) 0 (fst (syncProjections (sub 5 E) (tick_bindings (sub 4 E)
       (fst (reconcileAllocations (sub 3 E) (tick_domains (sub 2 E) 0 (c_Domains (v_cfg E))
         (fst (recoverAdoptions (sub 1 E) (fst (recoverReservations (sub 0 E) st))))))))))"

lemma reconcile_run:
  assumes "honest E" "ids_fresh E (v_others E 0 st)"
  shows "ledger_run st (fst (reconcileAllocations E st))"
  unfolding reconcileAllocations_def result_error_state
  by (rule update_steps [OF assms(1)]) (auto intro: ledger_step.reconciled assms(2))

lemma Tick_run:
  assumes "honest E" "ledger_ok st"
    and "ids_fresh (sub 3 E) (before_reconcile E st)" "ids_fresh (sub 6 E) (before_reclaim E st)"
  shows "ledger_run st (fst (Tick E st))"
proof -
  obtain s1 e1 where 1: "recoverReservations (sub 0 E) st = (s1, e1)" by fastforce
  obtain s2 e2 where 2: "recoverAdoptions (sub 1 E) s1 = (s2, e2)" by fastforce
  let ?d = "tick_domains (sub 2 E) 0 (c_Domains (v_cfg E)) s2"
  obtain s3 e3 where 3: "reconcileAllocations (sub 3 E) ?d = (s3, e3)" by fastforce
  obtain s4 e4 where 4: "syncProjections (sub 5 E) (tick_bindings (sub 4 E) s3) = (s4, e4)" by fastforce
  note h = honest_sub [OF assms(1)]
  have r1: "ledger_run st s1" using recoverReservations_run [OF h [of 0], of st] 1 by simp
  have r2: "ledger_run st s2" using recoverAdoptions_run [OF h [of 1], of s1] 2 run_trans [OF r1] by simp
  have rd: "ledger_run st ?d" using tick_domains_run [OF h] run_trans [OF r2] by blast
  have "ids_fresh (sub 3 E) (v_others (sub 3 E) 0 ?d)"
    using assms(3) unfolding before_reconcile_def 1 2 fst_conv .
  then have r3: "ledger_run st s3" using reconcile_run [OF h [of 3], of ?d] 3 run_trans [OF rd] by simp
  have "ledger_run st (tick_bindings (sub 4 E) s3)"
    by (rule run_trans [OF r3 tick_bindings_run [OF h run_ok [OF r3 assms(2)]]])
  from run_trans [OF this syncProjections_run [OF h [of 5]]]
  have r4: "ledger_run st s4" unfolding 4 fst_conv .
  have "ids_fresh (sub 6 E) (v_others (sub 6 E) 0 s4)"
    using assms(4) unfolding before_reclaim_def 1 2 fst_conv unfolding 3 4 fst_conv unfolding 4 fst_conv .
  from run_trans [OF r4 reclaimTick_run [OF h [of 6] run_ok [OF r4 assms(2)] this]]
  have r5: "ledger_run st (fst (reclaimTick (sub 6 E) s4))" .
  show ?thesis
    unfolding Tick_def 1 2 prod.case
    by (cases "ledgerReady E"; cases e1; cases e2; cases e3; cases e4) (simp_all add: 3 4 r1 r2 r3 r4 r5)
qed


section \<open>The service as a whole\<close>

text \<open>
  One rule per entry point of the service that writes: any principal, any input, any adapter
  answers, any fault, and any writes of other processes in between.
\<close>

inductive serves :: "State \<Rightarrow> State \<Rightarrow> bool" where
  Reserve: "Reserve E p req key st = (st', res) \<Longrightarrow> cooperative E \<Longrightarrow> ids_fresh E st \<Longrightarrow> serves st st'"
| Adopt: "Adopt E p req pin st = (st', res) \<Longrightarrow> cooperative E \<Longrightarrow> ids_fresh E st \<Longrightarrow> serves st st'"
| Bind: "Bind E p i b key st = (st', res) \<Longrightarrow> cooperative E \<Longrightarrow> ids_fresh E st \<Longrightarrow> serves st st'"
| Patch: "Patch E p i ds ls etag key st = (st', r1) \<Longrightarrow> cooperative E \<Longrightarrow> serves st st'"
| Release: "Release E p i st = (st', r2) \<Longrightarrow> cooperative E \<Longrightarrow> serves st st'"
| Cancel: "CancelReservation E p oid st = (st', r3) \<Longrightarrow> cooperative E \<Longrightarrow> serves st st'"
| Abandon: "AbandonAdoption E i oid operator reason st = (st', r4) \<Longrightarrow> cooperative E \<Longrightarrow> serves st st'"
| Tick: "Tick E st = (st', e) \<Longrightarrow> honest E \<Longrightarrow> ids_fresh (sub 3 E) (before_reconcile E st) \<Longrightarrow>
    ids_fresh (sub 6 E) (before_reclaim E st) \<Longrightarrow> serves st st'"

lemma serves_run:
  assumes "serves st st'" "ledger_ok st"
  shows "ledger_run st st'"
  using assms
proof (cases rule: serves.cases)
  case (Tick E e)
  then show ?thesis using Tick_run [OF Tick(2) assms(2) Tick(3,4)] by simp
qed (auto simp: Reserve_def intro: reserve_run Adopt_run Bind_run Patch_run Release_run
    CancelReservation_run AbandonAdoption_run)

lemma served_run: "serves\<^sup>*\<^sup>* st st' \<Longrightarrow> ledger_ok st \<Longrightarrow> ledger_run st st'"
proof (induction rule: rtranclp_induct)
  case (step s s')
  then show ?case using serves_run [OF step(2) run_ok [OF step.IH [OF step.prems] step.prems]] run_trans by blast
qed simp

end
