(* ===== verification/Example.thy ===== *)
theory Example
  imports TickRun "HOL-Library.Code_Target_Nat"
begin

text \<open>
  A small concrete estate on which the properties of the development are exercised: one overlap
  domain with one /16 pool, a tenant, a trusted observation that shows nothing, an inventory that
  answers every call, and identifiers that count upwards. The digest is a stand-in that keeps its
  input, so that the ledger's tables can be read.
\<close>

definition ex_crypto :: Crypto where
  "ex_crypto = \<lparr>sha256hex = id, json_request = (\<lambda>r. r_AllocationKey r @ ''/'' @ dec (nat (r_PrefixLength r))),
     json_patch = (\<lambda>i d l e. i), json_binding = (\<lambda>i b. i @ b_ResourceID b),
     go_quote = (\<lambda>s. s), rfc3339 = (\<lambda>t. [])\<rparr>"

definition ex_backend :: Backend where
  "ex_backend = zero_Backend"

definition ex_domain :: Domain where
  "ex_domain = \<lparr>d_ID = ''corp'', d_Description = [], d_CoverageGeneration = ''g1'',
     d_Backend = ex_backend, d_CloudCoverage = [\<lparr>ce_AccountID = ''1'', ce_RoleARN = [], ce_Regions = [''r'']\<rparr>]\<rparr>"

definition ex_pool :: Pool where
  "ex_pool = \<lparr>pl_ID = ''p'', pl_DomainID = ''corp'', pl_CIDR = ''10.0.0.0/16'', pl_AddressFamily = ''ipv4'',
     pl_Scope = ''vpc'', pl_Environment = ''dev'', pl_Region = ''r'', pl_EligibleTenants = [''t''],
     pl_EligibleAccounts = [], pl_AllowedPrefixLengths = [24], pl_ExcludedCIDRs = [''10.0.0.0/24''],
     pl_MaxAllocations = 0, pl_Backend = ex_backend\<rparr>"

definition ex_config :: Config where
  "ex_config = \<lparr>c_SchemaVersion = 1, c_PolicyVersion = ''v1'', c_Domains = [ex_domain], c_Pools = [ex_pool],
     c_SubnetPolicy = \<lparr>sp_RequireParentScope = [], sp_InheritParentTarget = True,
       sp_AllowedPrefixLengths = [26], sp_MaxChildren = 0, sp_AllowNestedSubnets = False\<rparr>,
     c_Lifecycle = \<lparr>lc_ReservationExpiryEnabled = False, lc_ReservationAgeAlertHours = 24,
       lc_QuarantineHours = 1, lc_RequiredAbsenceScans = 2, lc_MinScanSpacing = 60,
       lc_MaxObservationAge = 600\<rparr>,
     c_Reconciliation = \<lparr>rc_FullScanInterval = 60, rc_ProjectionRefreshInterval = 60,
       rc_IncludeUntagged = True, rc_IncludeAssociations = True, rc_UnknownBlocksReuse = True\<rparr>,
     c_UI = \<lparr>ui_InventoryLinksEnabled = False, ui_NetBoxBaseURL = []\<rparr>,
     c_Identities = []\<rparr>"

definition ex_principal :: Principal where
  "ex_principal = \<lparr>p_Subject = ''alice'', p_TenantID = ''t'', p_Accounts = [''1''], p_Environments = [],
     p_Regions = [], p_Role = []\<rparr>"

definition ex_request :: Request where
  "ex_request = zero_Request\<lparr>r_AllocationKey := ''k1'', r_Scope := ''vpc'', r_Environment := ''dev'',
     r_Region := ''r'', r_AccountID := ''1'', r_AddressFamily := ''ipv4'', r_PrefixLength := 24\<rparr>"

text \<open>Time starts an hour after the zero time; \<open>ex_observation\<close> is complete and current.\<close>

definition ex_start :: time where
  "ex_start = 3600000000000"

definition ex_observation :: Observation where
  "ex_observation = zero_Observation\<lparr>ob_DomainID := ''corp'', ob_Generation := ''g1'', ob_Complete := True,
     ob_StartedAt := ex_start, ob_FinishedAt := ex_start\<rparr>"

definition ex_snapshot :: InventorySnapshot where
  "ex_snapshot = \<lparr>sn_Networks = [], sn_Complete = True\<rparr>"

definition ex_inventory :: Inventory where
  "ex_inventory = \<lparr>inv_Snapshot = (\<lambda>k d. Inr ex_snapshot), inv_Ensure = (\<lambda>k a i. Inr ''nb-1''),
     inv_Adopt = (\<lambda>k a i. Inr ''nb-1''), inv_AbandonAdoption = (\<lambda>k a i p. None),
     inv_CancelReservation = (\<lambda>k a i. None), inv_Sync = (\<lambda>k a. None), inv_Delete = (\<lambda>k a. None)\<rparr>"

definition ex_env :: Env where
  "ex_env = \<lparr>v_K = ex_crypto, v_cfg = ex_config, v_ledger = LedgerUp, v_fault = (\<lambda>k. None),
     v_ctx = (\<lambda>k. None), v_others = (\<lambda>k. id), v_now = (\<lambda>k. ex_start),
     v_rand = (\<lambda>k. [of_nat k]), v_inventory = Some ex_inventory,
     v_observer = Some (\<lambda>k d. Inr ex_observation)\<rparr>"

text \<open>A second environment draws other identifiers, for a second handler.\<close>

definition ex_env2 :: Env where
  "ex_env2 = ex_env\<lparr>v_rand := \<lambda>k. [1, of_nat k]\<rparr>"

section \<open>Two reservations\<close>

definition ex_request2 :: Request where
  "ex_request2 = ex_request\<lparr>r_AllocationKey := ''k2''\<rparr>"

text \<open>The rows a reservation leaves, by identifier, request and block.\<close>

definition ex_alloc :: "string \<Rightarrow> Request \<Rightarrow> string \<Rightarrow> Allocation" where
  "ex_alloc i r c =
     zero_Allocation\<lparr>a_Request := r, a_ID := i, a_TenantID := ''t'', a_DomainID := ''corp'',
       a_RequestHash := r_AllocationKey r @ ''/24'', a_CIDR := c, a_PoolID := ''p'', a_State := Reserved,
       a_Revision := 1, a_PolicyVersion := ''v1'', a_InventoryID := ''nb-1'',
       a_InventorySync := ''CURRENT'', a_CreatedAt := ex_start, a_UpdatedAt := ex_start,
       a_Committed := True\<rparr>"

definition ex_op :: "string \<Rightarrow> string \<Rightarrow> Operation" where
  "ex_op i aid =
     zero_Operation\<lparr>o_ID := i, o_Type := reserveOperation, o_Status := operationSucceeded,
       o_AllocationID := aid, o_TenantID := ''t'', o_DomainID := ''corp'',
       o_Result := Some [(''allocation_id'', aid)], o_CreatedAt := ex_start, o_UpdatedAt := ex_start\<rparr>"

definition ex_idem :: "string \<Rightarrow> Request \<Rightarrow> string \<Rightarrow> string \<Rightarrow> string \<times> Idempotency" where
  "ex_idem key r aid oid =
     (''t'' @ nul @ ''POST'' @ nul @ ''POST /v1/allocations'' @ nul @ key,
      \<lparr>i_TenantID = ''t'', i_Method = ''POST'', i_Path = ''POST /v1/allocations'', i_Key = key,
       i_Hash = r_AllocationKey r @ ''/24'', i_AllocationID = aid, i_OperationID = oid\<rparr>)"

definition ex_events :: "string \<Rightarrow> string \<Rightarrow> string \<Rightarrow> Event list" where
  "ex_events e1 e2 aid =
     [\<lparr>ev_ID = e1, ev_AllocationID = aid, ev_TenantID = ''t'', ev_Actor = ''alice'',
       ev_Action = ''RESERVE_PLANNED'', ev_Reason = ''exact candidate held before inventory mutation'',
       ev_At = ex_start, ev_Revision = 1\<rparr>,
      \<lparr>ev_ID = e2, ev_AllocationID = aid, ev_TenantID = ''t'', ev_Actor = [],
       ev_Action = ''RESERVE_COMMITTED'', ev_Reason = ''inventory exact create confirmed'',
       ev_At = ex_start, ev_Revision = 1\<rparr>]"

definition ex_st1 :: State where
  "ex_st1 =
     \<lparr>Allocations = [(''alloc_00'', ex_alloc ''alloc_00'' ex_request ''10.0.1.0/24'')],
      Operations = [(''op_01'', ex_op ''op_01'' ''alloc_00'')],
      Requests = [ex_idem ''i1'' ex_request ''alloc_00'' ''op_01''],
      Observations = [(''corp'', [ex_observation])], Findings = [],
      Events = ex_events ''evt_02'' ''evt_03'' ''alloc_00'', Coverage = [(''corp'', ''g1'')]\<rparr>"

definition ex_st2 :: State where
  "ex_st2 =
     ex_st1\<lparr>Allocations := Allocations ex_st1
              @ [(''alloc_0100'', ex_alloc ''alloc_0100'' ex_request2 ''10.0.2.0/24'')],
            Operations := Operations ex_st1 @ [(''op_0101'', ex_op ''op_0101'' ''alloc_0100'')],
            Requests := Requests ex_st1 @ [ex_idem ''i2'' ex_request2 ''alloc_0100'' ''op_0101''],
            Events := Events ex_st1 @ ex_events ''evt_0102'' ''evt_0103'' ''alloc_0100''\<rparr>"

lemma ex_reserve1:
  "Reserve ex_env ex_principal ex_request ''i1'' NewState =
     (ex_st1, Inr (Some (ex_alloc ''alloc_00'' ex_request ''10.0.1.0/24''), Some (ex_op ''op_01'' ''alloc_00''), 201))"
  by code_simp

lemma ex_reserve2:
  "Reserve ex_env2 ex_principal ex_request2 ''i2'' ex_st1 =
     (ex_st2, Inr (Some (ex_alloc ''alloc_0100'' ex_request2 ''10.0.2.0/24''),
        Some (ex_op ''op_0101'' ''alloc_0100''), 201))"
  by code_simp

lemma ex_quiet: "quiet ex_env" "quiet ex_env2"
  by (simp_all add: quiet_def ex_env_def ex_env2_def)

lemma ex_fresh1: "ids_fresh ex_env NewState"
  by code_simp

lemma ex_fresh2: "ids_fresh ex_env2 ex_st1"
  by code_simp

lemma ex_run1: "ledger_run NewState ex_st1"
  using reserve_run [OF ex_reserve1 [unfolded Reserve_def] quiet_cooperative [OF ex_quiet(1)]
      NewState_ok ex_fresh1] .

lemma ex_run2: "ledger_run ex_st1 ex_st2"
  using reserve_run [OF ex_reserve2 [unfolded Reserve_def] quiet_cooperative [OF ex_quiet(2)]
      run_ok [OF ex_run1 NewState_ok] ex_fresh2] .

lemma ex_reachable: "reachable ex_st1" "reachable ex_st2"
  using ex_run1 ex_run2 by (auto simp: reachable_def)

section \<open>A subnet, and a hold that gets stuck\<close>

definition ex_request3 :: Request where
  "ex_request3 = ex_request\<lparr>r_AllocationKey := ''k3'', r_Scope := ''subnet'', r_PrefixLength := 26,
     r_ParentAllocationID := ''alloc_00'', r_AvailabilityZoneID := ''az1''\<rparr>"

definition ex_env3 :: Env where
  "ex_env3 = ex_env\<lparr>v_rand := \<lambda>k. [2, of_nat k]\<rparr>"

definition ex_st3 :: State where
  "ex_st3 = fst (Reserve ex_env3 ex_principal ex_request3 ''i3'' ex_st1)"

definition ex_subnet :: Allocation where
  "ex_subnet = (ex_alloc ''alloc_0200'' ex_request3 ''10.0.1.0/26'')\<lparr>a_RequestHash := ''k3/26''\<rparr>"

text \<open>The inventory refuses the create call of this one, and the hold stays uncommitted.\<close>

definition ex_env4 :: Env where
  "ex_env4 = ex_env\<lparr>v_rand := \<lambda>k. [3, of_nat k],
     v_inventory := Some (ex_inventory\<lparr>inv_Ensure := \<lambda>k a i. Inl (OtherErr ''refused'')\<rparr>)\<rparr>"

definition ex_request4 :: Request where
  "ex_request4 = ex_request\<lparr>r_AllocationKey := ''k4''\<rparr>"

definition ex_hold :: Allocation where
  "ex_hold = (ex_alloc ''alloc_0300'' ex_request4 ''10.0.2.0/24'')
     \<lparr>a_InventoryID := [], a_InventorySync := ''PENDING'', a_Committed := False\<rparr>"

definition ex_pending :: Operation where
  "ex_pending = (ex_op ''op_0301'' ''alloc_0300'')\<lparr>o_Status := operationPending, o_Result := None\<rparr>"

definition ex_held :: State where
  "ex_held =
     ex_st1\<lparr>Allocations := Allocations ex_st1 @ [(''alloc_0300'', ex_hold)],
            Operations := Operations ex_st1 @ [(''op_0301'', ex_pending)],
            Requests := Requests ex_st1 @ [ex_idem ''i4'' ex_request4 ''alloc_0300'' ''op_0301''],
            Events := Events ex_st1 @ [hd (ex_events ''evt_0302'' [] ''alloc_0300'')]\<rparr>"

definition ex_finding :: Finding where
  "ex_finding = \<lparr>f_ID = ''finding_'' @ reservationStuckCode @ nul @ ''alloc_0300'', f_TenantID = ''t'',
     f_DomainID = ''corp'', f_AllocationID = ''alloc_0300'', f_Code = reservationStuckCode,
     f_Severity = ''CRITICAL'', f_Status = ''OPEN'', f_AccountID = ''1'', f_Region = ''r'',
     f_ResourceType = [], f_ResourceID = [], f_FirstObservedAt = ex_start, f_LastObservedAt = ex_start\<rparr>"

definition ex_stuck :: State where
  "ex_stuck = ex_held\<lparr>Findings := [(f_ID ex_finding, ex_finding)]\<rparr>"

lemma ex_reserve4: "fst (Reserve ex_env4 ex_principal ex_request4 ''i4'' ex_st1) = ex_held"
  by code_simp

lemma ex_flag: "flag_stuck_txn ex_env ex_hold reservationStuckCode ex_held = Inr (ex_stuck, ())"
  by code_simp

lemma ex_quiet34: "quiet ex_env3" "quiet ex_env4"
  by (simp_all add: quiet_def ex_env_def ex_env3_def ex_env4_def)

lemma ex_fresh34: "ids_fresh ex_env3 ex_st1" "ids_fresh ex_env4 ex_st1"
  by code_simp+

lemma ex_serves: "serves NewState ex_st1" "serves ex_st1 ex_st2" "serves ex_st1 ex_st3" "serves ex_st1 ex_held"
  using serves.Reserve [OF ex_reserve1 quiet_cooperative [OF ex_quiet(1)] ex_fresh1]
    serves.Reserve [OF ex_reserve2 quiet_cooperative [OF ex_quiet(2)] ex_fresh2]
    serves.Reserve [OF prod.collapse [symmetric] quiet_cooperative [OF ex_quiet34(1)] ex_fresh34(1),
      of ex_principal ex_request3 "''i3''"]
    serves.Reserve [OF prod.collapse [symmetric] quiet_cooperative [OF ex_quiet34(2)] ex_fresh34(2),
      of ex_principal ex_request4 "''i4''"]
  by (simp_all add: ex_st3_def ex_reserve4)

lemma ex_reachable34: "reachable ex_st3" "reachable ex_held"
  using ex_run1 serves_run [OF ex_serves(3)] serves_run [OF ex_serves(4)] run_ok [OF ex_run1 NewState_ok]
  by (simp_all add: reachable_def)

lemma ex_reachable_stuck: "reachable ex_stuck"
  using ex_reachable34(2) ledger_step.flagged [OF ex_flag] by (simp add: reachable_def)

lemma ex_rows:
  "mget (Allocations ex_st2) ''alloc_00'' = Some (ex_alloc ''alloc_00'' ex_request ''10.0.1.0/24'')"
  "mget (Allocations ex_st2) ''alloc_0100'' = Some (ex_alloc ''alloc_0100'' ex_request2 ''10.0.2.0/24'')"
  "mget (Allocations ex_st1) ''alloc_00'' = Some (ex_alloc ''alloc_00'' ex_request ''10.0.1.0/24'')"
  by code_simp+

lemma ex_subnet_row: "mget (Allocations ex_st3) ''alloc_0200'' = Some ex_subnet"
  by code_simp

section \<open>An adoption that does not commit\<close>

definition ex_network :: Network where
  "ex_network = \<lparr>n_ID = ''nb-9'', n_CIDR = ''10.0.9.0/24'', n_AllocationID = [], n_OperationID = [],
     n_ParentPool = False, n_Imported = True, n_Owned = False, n_ImportBatch = ''b1'',
     n_ParentAllocationID = [], n_Status = ''active'', n_AWSAccountID = ''1'', n_AWSRegion = ''r'',
     n_Contributors = None, n_ContributorsUnreadable = False, n_ContributorsReconstructed = False\<rparr>"

definition ex_resource :: Resource where
  "ex_resource = \<lparr>x_AccountID = ''1'', x_Region = ''r'', x_Type = ''vpc'', x_ID = ''vpc-9'',
     x_CIDR = ''10.0.9.0/24'', x_CIDRs = [], x_ParentID = [], x_ZoneID = [], x_Tags = [], x_State = []\<rparr>"

definition ex_pin :: Adoption where
  "ex_pin = \<lparr>ad_Operator = ''op'', ad_CIDR = ''10.0.9.0/24'', ad_NetworkID = ''nb-9'', ad_ResourceID = ''vpc-9''\<rparr>"

definition ex_env7 :: Env where
  "ex_env7 = ex_env\<lparr>v_rand := \<lambda>k. [6, of_nat k],
     v_inventory := Some (ex_inventory\<lparr>inv_Snapshot := \<lambda>k d. Inr (ex_snapshot\<lparr>sn_Networks := [ex_network]\<rparr>),
       inv_Adopt := \<lambda>k a i. Inl (OtherErr ''refused'')\<rparr>),
     v_now := \<lambda>k. ex_start + 1,
     v_observer := Some (\<lambda>k d. Inr (ex_observation\<lparr>ob_StartedAt := ex_start + 1, ob_FinishedAt := ex_start + 1,
       ob_Resources := [ex_resource]\<rparr>))\<rparr>"

definition ex_adopting :: State where
  "ex_adopting = fst (Adopt ex_env7 ex_principal ex_request2 ex_pin ex_st1)"

lemma ex_quiet7: "quiet ex_env7"
  by (simp add: quiet_def ex_env_def ex_env7_def)

lemma ex_fresh7: "ids_fresh ex_env7 ex_st1"
  by code_simp

lemma ex_serves_adopt: "serves ex_st1 ex_adopting"
  using serves.Adopt [OF prod.collapse [symmetric] quiet_cooperative [OF ex_quiet7] ex_fresh7]
  by (simp add: ex_adopting_def)

lemma ex_reachable_adopting: "reachable ex_adopting"
  using ex_run1 serves_run [OF ex_serves_adopt] run_ok [OF ex_run1 NewState_ok] by (simp add: reachable_def)

end
