(* ===== verification/AllocatorProps.thy ===== *)
theory AllocatorProps
  imports Capacity Example
begin

text \<open>
  What the address arithmetic, the allocator and the capacity report promise: the text form of
  prefixes, overlap, the first-fit search, the verification of a reviewed block, and the count of
  blocks.
\<close>

section \<open>Prefixes\<close>

text \<open>
  Parsing the text form of a valid IPv4 prefix gives the prefix back.
\<close>

theorem prefix_text_roundtrip:
  assumes "valid_prefix p" and "Is4 (ip p)"
  shows "ParsePrefix (PrefixString p) = Some p"
  by (rule ParsePrefix_PrefixString4 [OF assms])

theorem prefix_text_roundtrip_witness:
  "ParsePrefix (PrefixString \<lparr>ip = V4 167772416, pbits = 24\<rparr>) = Some \<lparr>ip = V4 167772416, pbits = 24\<rparr>"
  by (rule prefix_text_roundtrip) (simp_all add: valid_prefix_def BitLen_def Is4_def)

text \<open>
  Two valid prefixes overlap exactly when some address belongs to both, whatever their lengths
  and families.
\<close>

theorem overlap_iff_shared_address:
  assumes "valid_prefix p" and "valid_prefix q"
  shows "Overlaps p q \<longleftrightarrow> (\<exists>a. Contains p a \<and> Contains q a)"
  using Overlaps_iff_addrs [OF assms] assms by (auto simp: Contains_iff)

theorem overlap_iff_shared_address_witness:
  "\<exists>a. Contains \<lparr>ip = V4 167772160, pbits = 8\<rparr> a \<and> Contains \<lparr>ip = V4 167772416, pbits = 24\<rparr> a"
proof -
  have "Overlaps \<lparr>ip = V4 167772160, pbits = 8\<rparr> \<lparr>ip = V4 167772416, pbits = 24\<rparr>" by code_simp
  then show ?thesis
    using overlap_iff_shared_address [of "\<lparr>ip = V4 167772160, pbits = 8\<rparr>" "\<lparr>ip = V4 167772416, pbits = 24\<rparr>"]
    by (simp add: valid_prefix_def BitLen_def)
qed

section \<open>The search\<close>

definition occupies :: "Pool \<Rightarrow> InventorySnapshot \<Rightarrow> Observation \<Rightarrow> State \<Rightarrow> string \<Rightarrow> bool" where
  "occupies pool snap ob st raw \<longleftrightarrow>
     raw \<in> set (pl_ExcludedCIDRs pool) \<or>
     (\<exists>n \<in> set (sn_Networks snap). n_CIDR n = raw \<and> \<not> n_ParentPool n) \<or>
     (\<exists>x \<in> set (ob_Resources ob). raw \<in> set (x_CIDR x # x_CIDRs x)) \<or>
     (\<exists>a \<in> set (mvals (Allocations st)). a_CIDR a = raw \<and>
        (\<not> a_Committed a \<or> a_State a \<noteq> Released \<and> a_DomainID a = pl_DomainID pool))"

text \<open>
  C8. A block the allocator chooses for a VPC is an aligned IPv4 block of the requested length
  inside the pool, and it shares no address with an excluded range, an inventory network other
  than a pool container, a range of any observed cloud resource, or the block of any uncommitted hold
  or unreleased allocation of the domain.
\<close>

theorem chosen_block_is_free:
  assumes "chooseCIDR pool r snap ob st = Inr (Some s)" and "r_Scope r \<noteq> ''subnet''"
  shows "\<exists>base p. ParsePrefix (pl_CIDR pool) = Some base \<and> ParsePrefix s = Some p \<and> Is4 (ip p) \<and>
    Masked p = p \<and> int (pbits p) = r_PrefixLength r \<and> addrs p \<subseteq> addrs base \<and>
    (\<forall>raw q. occupies pool snap ob st raw \<and> ParsePrefix raw = Some q \<longrightarrow> addrs p \<inter> addrs q = {})"
proof -
  obtain base p where p: "ParsePrefix (pl_CIDR pool) = Some base" "ParsePrefix s = Some p"
    "valid_prefix p" "Is4 (ip p)" "Masked p = p" "int (pbits p) = r_PrefixLength r"
    "addrs p \<subseteq> addrs base" "\<not> candidate_blocked pool r snap ob st p"
    using chooseCIDR_Some [OF assms(1)] by metis
  have "addrs p \<inter> addrs q = {}" if "occupies pool snap ob st raw" "ParsePrefix raw = Some q" for raw q
    using that assms(2) not_blocked_excluded [OF p(8,3)] not_blocked_network [OF p(8,3)]
      not_blocked_resource [OF p(8,3)] not_blocked_allocation [OF p(8,3)]
    unfolding occupies_def by metis
  then show ?thesis using p by blast
qed

lemma ex_choose: "chooseCIDR ex_pool ex_request2 ex_snapshot ex_observation ex_st1 = Inr (Some ''10.0.2.0/24'')"
  by code_simp

theorem chosen_block_is_free_witness:
  "\<exists>base p. ParsePrefix ''10.0.0.0/16'' = Some base \<and> ParsePrefix ''10.0.2.0/24'' = Some p \<and>
     addrs p \<subseteq> addrs base"
  using chosen_block_is_free [OF ex_choose] by (auto simp: ex_request2_def ex_request_def ex_pool_def)

text \<open>
  The search is complete: for a length the pool can hold, it answers that the pool is exhausted
  exactly when every aligned block of that length in the pool is blocked.
\<close>

theorem exhausted_iff_all_blocked:
  assumes "ParsePrefix (pl_CIDR pool) = Some base" and "Is4 (ip base)"
    and "int (pbits base) \<le> r_PrefixLength r" and "r_PrefixLength r \<le> 32"
  shows "chooseCIDR pool r snap ob st = Inr None \<longleftrightarrow>
    (\<forall>q. Is4 (ip q) \<and> Masked q = q \<and> int (pbits q) = r_PrefixLength r \<and> addrs q \<subseteq> addrs base \<longrightarrow>
       candidate_blocked pool r snap ob st q)"
proof -
  have "pbits q = nat (r_PrefixLength r) \<longleftrightarrow> int (pbits q) = r_PrefixLength r" for q :: Prefix
    using assms(3) by auto
  then show ?thesis unfolding choose_iff_free [OF assms] pool_blocks_def by auto
qed

definition ex_base :: Prefix where
  "ex_base = \<lparr>ip = V4 167772160, pbits = 16\<rparr>"

lemma ex_base: "ParsePrefix (pl_CIDR ex_pool) = Some ex_base" "Is4 (ip ex_base)" "Masked ex_base = ex_base"
  "valid_prefix ex_base"
  by code_simp+

theorem exhausted_iff_all_blocked_witness:
  "\<exists>q. Is4 (ip q) \<and> Masked q = q \<and> pbits q = 24 \<and> addrs q \<subseteq> addrs ex_base \<and>
     \<not> candidate_blocked ex_pool ex_request2 ex_snapshot ex_observation ex_st1 q"
  using exhausted_iff_all_blocked [OF ex_base(1,2), of ex_request2 ex_snapshot ex_observation ex_st1] ex_choose
  by (auto simp: ex_base_def ex_request2_def ex_request_def)

lemma chosen_first:
  assumes "chooseCIDR pool r snap ob st = Inr (Some s)"
  obtains base0 baseInt n j p where "ParsePrefix (pl_CIDR pool) = Some base0"
    "aligned_base (Masked base0) baseInt n" "r_PrefixLength r = int n" "ParsePrefix s = Some p"
    "j < 2 ^ (n - pbits base0)" "candidate_at baseInt (int n) j = Some p"
    "\<forall>k q. k < j \<longrightarrow> candidate_at baseInt (int n) k = Some q \<longrightarrow> candidate_blocked pool r snap ob st q"
proof -
  obtain base0 where base: "ParsePrefix (pl_CIDR pool) = Some base0"
    "int (pbits base0) \<le> r_PrefixLength r" "r_PrefixLength r \<le> 32"
    using chooseCIDR_Some_guard [OF assms] .
  obtain baseInt n where ab: "aligned_base (Masked base0) baseInt n" "r_PrefixLength r = int n"
    "Some s = map_option PrefixString
      (choose_loop (candidate_blocked pool r snap ob st) baseInt (int n) 0 (2 ^ (n - pbits base0)))"
    using chooseCIDR_loop [OF assms base] .
  obtain p where p: "s = PrefixString p"
    "choose_loop (candidate_blocked pool r snap ob st) baseInt (int n) 0 (2 ^ (n - pbits base0)) = Some p"
    using ab(3) by (metis (no_types, lifting) map_option_eq_Some)
  obtain j where j: "j < 2 ^ (n - pbits base0)" "candidate_at baseInt (int n) j = Some p"
    "\<forall>k. 0 \<le> k \<and> k < j \<longrightarrow> (\<forall>q. candidate_at baseInt (int n) k = Some q \<longrightarrow> candidate_blocked pool r snap ob st q)"
    using ff.search_Some [OF p(2)] by blast
  have c: "Is4 (ip p)" "pbits p = n" using candidate_inside [OF ab(1) _ j(2)] j(1) by simp_all
  then have "valid_prefix p"
    using aligned_baseD(4) [OF ab(1)] by (auto simp: valid_prefix_def BitLen_def Is4_V4)
  then have "ParsePrefix s = Some p" using ParsePrefix_PrefixString4 c(1) p(1) by simp
  then show thesis using that base(1) ab(1,2) j by blast
qed

text \<open>
  The search is first-fit from the bottom of the pool: every aligned block of the requested
  length that lies in the pool below the chosen one is blocked.
\<close>

theorem chosen_block_is_lowest:
  assumes "chooseCIDR pool r snap ob st = Inr (Some s)"
    and "ParsePrefix (pl_CIDR pool) = Some base" and "ParsePrefix s = Some p"
    and "Is4 (ip q)" and "Masked q = q" and "pbits q = pbits p" and "addrs q \<subseteq> addrs base"
    and "word4 (ip q) < word4 (ip p)"
  shows "candidate_blocked pool r snap ob st q"
proof -
  obtain base0 baseInt n j p0 where c: "ParsePrefix (pl_CIDR pool) = Some base0"
    "aligned_base (Masked base0) baseInt n" "r_PrefixLength r = int n" "ParsePrefix s = Some p0"
    "j < 2 ^ (n - pbits base0)" "candidate_at baseInt (int n) j = Some p0"
    "\<forall>k q. k < j \<longrightarrow> candidate_at baseInt (int n) k = Some q \<longrightarrow> candidate_blocked pool r snap ob st q"
    by (rule chosen_first [OF assms(1)], rule that)
  have eqs: "base0 = base" "p0 = p" using c(1,4) assms(2,3) by simp_all
  note j = candidate_range [OF c(2), of j p] and inside = candidate_inside [OF c(2), of j p]
  have p: "Is4 (ip p)" "pbits p = n" "Masked p = p" using inside c(5,6) eqs by simp_all
  obtain i where i: "i < 2 ^ (n - pbits base)" "candidate_at baseInt (int n) i = Some q"
    using candidate_complete [OF c(2), of q] assms(4-7) p(2) eqs by auto
  have "unat (word4 (ip x)) = lo4 x" if "Is4 (ip x)" "Masked x = x" for x
    using word4_Masked [OF that(1)] that(2) by (simp add: lo4_def)
  then have "lo4 q < lo4 p" using assms(4,5,8) p by (simp add: word_less_nat_alt)
  then have "i < j"
    using candidate_range(1) [OF c(2), of i q] j(1) i c(5,6) eqs by simp
  then show ?thesis using c(7) i(2) by blast
qed

theorem chosen_block_is_lowest_witness:
  "candidate_blocked ex_pool ex_request2 ex_snapshot ex_observation ex_st1 \<lparr>ip = V4 167772416, pbits = 24\<rparr>"
proof (rule chosen_block_is_lowest [OF ex_choose ex_base(1)])
  show "ParsePrefix ''10.0.2.0/24'' = Some \<lparr>ip = V4 167772672, pbits = 24\<rparr>" by code_simp
  show "Masked \<lparr>ip = V4 167772416, pbits = 24\<rparr> = \<lparr>ip = V4 167772416, pbits = 24\<rparr>" by code_simp
  show "addrs \<lparr>ip = V4 167772416, pbits = 24\<rparr> \<subseteq> addrs ex_base"
    by (rule addrs_subset) (simp_all add: ex_base_def, code_simp)
qed simp_all

section \<open>The reviewed block of an adoption\<close>

lemma reviewedNetwork_loop_Inr:
  assumes "reviewedNetwork_loop ns p r nid own children acc = Inr (Some n, k)"
  shows "fst acc = Some n \<or> n \<in> set ns \<and> n_ID n = nid \<and>
    (unowned n \<or> own \<noteq> [] \<and> n_AllocationID n = own) \<and> (\<exists>q. ParsePrefix (n_CIDR n) = Some q \<and> Masked q = p)"
  using assms
  by (induction ns p r nid own children acc rule: reviewedNetwork_loop.induct)
    (auto split: option.splits if_splits)

lemma reviewedNetwork_Inr:
  assumes "reviewedNetwork snap p r nid own children = Inr n"
  shows "n \<in> set (sn_Networks snap) \<and> n_ID n = nid \<and>
    (unowned n \<or> own \<noteq> [] \<and> n_AllocationID n = own) \<and> (\<exists>q. ParsePrefix (n_CIDR n) = Some q \<and> Masked q = p)"
proof -
  obtain k where "reviewedNetwork_loop (sn_Networks snap) p r nid own children (None, 0) = Inr (Some n, k)"
    using assms by (auto simp: reviewedNetwork_def split: sum.splits option.splits nat.splits)
  from reviewedNetwork_loop_Inr [OF this] show ?thesis by simp
qed

lemma reviewedOccupancy_loop_Inr:
  assumes "reviewedOccupancy_loop xs p r rid par k = Inr m"
  shows "m = k + length (filter (\<lambda>x. resource_overlaps x p r par \<and> \<not> childOfReviewedVPC x r p rid) xs) \<and>
    (\<forall>x \<in> set xs. resource_overlaps x p r par \<longrightarrow>
       childOfReviewedVPC x r p rid \<or> reviewedResource x r p rid par)"
  using assms
  by (induction xs p r rid par k rule: reviewedOccupancy_loop.induct) (auto split: if_splits)

text \<open>
  An adoption is only verified for the block that was reviewed: the text is the canonical form
  of the reviewed block, which has the requested length, lies in the pool and meets no excluded
  range; the inventory holds the reviewed network there, imported and owned by nobody; the observation
  shows exactly one resource on it besides the subnets of the reviewed VPC, namely the reviewed one;
  and no uncommitted hold and no other unreleased allocation of the domain shares an address with it.
\<close>

theorem verified_adoption_is_reviewed:
  assumes "pinnedCIDR pool r snap ob st pin = Inr (s, n)"
  shows "\<exists>base p. ParsePrefix (pl_CIDR pool) = Some base \<and> ParsePrefix (ad_CIDR pin) = Some p \<and>
    ParsePrefix s = Some p \<and> Masked p = p \<and> int (pbits p) = r_PrefixLength r \<and> addrs p \<subseteq> addrs base \<and>
    \<not> overlapsExcluded p (pl_ExcludedCIDRs pool) \<and>
    n \<in> set (sn_Networks snap) \<and> n_ID n = ad_NetworkID pin \<and> unowned n \<and>
    length (filter (\<lambda>x. resource_overlaps x p r (parent_resource st (r_ParentAllocationID r)) \<and>
       \<not> childOfReviewedVPC x r p (ad_ResourceID pin)) (ob_Resources ob)) = 1 \<and>
    (\<forall>x \<in> set (ob_Resources ob). resource_overlaps x p r (parent_resource st (r_ParentAllocationID r)) \<and>
       \<not> childOfReviewedVPC x r p (ad_ResourceID pin) \<longrightarrow>
       reviewedResource x r p (ad_ResourceID pin) (parent_resource st (r_ParentAllocationID r))) \<and>
    (\<forall>a q. a \<in> set (mvals (Allocations st)) \<and> ParsePrefix (a_CIDR a) = Some q \<and>
       (\<not> a_Committed a \<or> a_State a \<noteq> Released \<and> a_DomainID a = pl_DomainID pool) \<and>
       \<not> (a_Committed a \<and> r_Scope r = ''subnet'' \<and> a_ID a = r_ParentAllocationID r) \<longrightarrow>
       addrs p \<inter> addrs q = {})"
proof -
  let ?par = "parent_resource st (r_ParentAllocationID r)"
  obtain base p where p: "ParsePrefix (pl_CIDR pool) = Some base" "ParsePrefix (ad_CIDR pin) = Some p"
    "Is4 (ip p)" "Masked p = p" "int (pbits p) = r_PrefixLength r" "addrs p \<subseteq> addrs base"
    "s = PrefixString p" "ParsePrefix s = Some p" "valid_prefix p"
    "\<not> overlapsExcluded p (pl_ExcludedCIDRs pool)"
    "reviewedNetwork snap p r (ad_NetworkID pin) [] (reviewedVPCChildren ob p r (ad_ResourceID pin)) = Inr n"
    "reviewedOccupancy ob p r (ad_ResourceID pin) ?par = None"
    "pinned_ledger_scan (mvals (Allocations st)) (pl_DomainID pool) r p = None"
    using pinnedCIDR_Inr [OF assms] .
  have occ: "reviewedOccupancy_loop (ob_Resources ob) p r (ad_ResourceID pin) ?par 0 = Inr 1"
    using p(12) by (auto simp: reviewedOccupancy_def split: sum.splits if_splits)
  have res: "length (filter (\<lambda>x. resource_overlaps x p r ?par \<and> \<not> childOfReviewedVPC x r p (ad_ResourceID pin))
      (ob_Resources ob)) = 1"
    "\<forall>x \<in> set (ob_Resources ob). resource_overlaps x p r ?par \<and> \<not> childOfReviewedVPC x r p (ad_ResourceID pin) \<longrightarrow>
       reviewedResource x r p (ad_ResourceID pin) ?par"
    using reviewedOccupancy_loop_Inr [OF occ] by auto
  have net: "n \<in> set (sn_Networks snap)" "n_ID n = ad_NetworkID pin" "unowned n"
    using reviewedNetwork_Inr [OF p(11)] by auto
  have "addrs p \<inter> addrs q = {}"
    if "a \<in> set (mvals (Allocations st))" "ParsePrefix (a_CIDR a) = Some q"
      "\<not> a_Committed a \<or> a_State a \<noteq> Released \<and> a_DomainID a = pl_DomainID pool"
      "\<not> (a_Committed a \<and> r_Scope r = ''subnet'' \<and> a_ID a = r_ParentAllocationID r)" for a q
    using disjoint_addrs [OF p(9) that(2)] pinned_ledger_scan_None [OF p(13) that] .
  then show ?thesis using p(1,2,4-6,8,10) net res by blast
qed

lemma ex_pinned:
  "pinnedCIDR ex_pool ex_request2 (ex_snapshot\<lparr>sn_Networks := [ex_network]\<rparr>)
     (ex_observation\<lparr>ob_Resources := [ex_resource]\<rparr>) ex_st1 ex_pin = Inr (''10.0.9.0/24'', ex_network)"
  by code_simp

theorem verified_adoption_is_reviewed_witness:
  "unowned ex_network \<and> n_ID ex_network = ''nb-9''"
  using verified_adoption_is_reviewed [OF ex_pinned] by (auto simp: ex_pin_def)

section \<open>Capacity\<close>

text \<open>
  The interval union of \<open>occupiedBlocks\<close>, on 64-bit integers, counts blocks: for a canonical
  IPv4 pool it returns the number of aligned blocks of the asked length in the pool that overlap
  at least one of the given prefixes, whatever their order, nesting or size.
\<close>

theorem occupied_blocks_counted:
  assumes "valid_prefix base" "Is4 (ip base)" "Masked base = base" "int (pbits base) \<le> bits" "bits \<le> 32"
    and "\<forall>p \<in> set ps. valid_prefix p"
  shows "\<exists>w. occupiedBlocks base bits ps = Some w \<and>
    unat w = card {q. Is4 (ip q) \<and> pbits q = nat bits \<and> Masked q = q \<and> addrs q \<subseteq> addrs base \<and>
      (\<exists>p \<in> set ps. Is4 (ip p) \<and> Overlaps q p)}"
  using occupiedBlocks_card [OF assms] by (simp add: met_blocks_def pool_blocks_def conj_assoc)

theorem occupied_blocks_counted_witness:
  "card {q. Is4 (ip q) \<and> pbits q = 24 \<and> Masked q = q \<and> addrs q \<subseteq> addrs ex_base \<and>
     (\<exists>p \<in> set [ex_base\<lparr>pbits := 23\<rparr>]. Is4 (ip p) \<and> Overlaps q p)} = 2"
proof -
  let ?ps = "[ex_base\<lparr>pbits := 23\<rparr>]"
  have "map_option unat (occupiedBlocks ex_base 24 ?ps) = Some 2" by code_simp
  then show ?thesis
    using occupied_blocks_counted [OF ex_base(4,2,3), of 24 ?ps]
    by (auto simp: ex_base_def valid_prefix_def BitLen_def)
qed

text \<open>
  C10. The capacity report agrees with the allocator: when a report is complete and every uncommitted
  hold of the ledger belongs to the pool's domain and is not released, the \<open>allocatable\<close> figure
  of a size is the number of blocks \<open>chooseCIDR\<close> would accept for a VPC, and it is zero exactly when
  \<open>chooseCIDR\<close> finds the pool exhausted.
\<close>

theorem capacity_agrees_with_allocator:
  assumes "capacity E p poolID st = (st', Inr rep)" and "cp_complete rep"
    and "capacity_pool (v_cfg E) p poolID = Some pool"
    and "capacity_snapshot E (domainFor (v_cfg E) (pl_DomainID pool)) = (snap, c)"
    and "ParsePrefix (pl_CIDR pool) = Some base" and "Is4 (ip base)" and "Masked base = base"
    and "bits \<in> set (pl_AllowedPrefixLengths pool)" and "int (pbits base) \<le> bits" and "bits \<le> 32"
    and "r_Scope r \<noteq> ''subnet''" and "r_PrefixLength r = bits"
    and "last_opt (observations_at st' (pl_DomainID pool)) = Some ob"
    and "\<forall>a \<in> set (mvals (Allocations st')).
      \<not> a_Committed a \<longrightarrow> a_DomainID a = pl_DomainID pool \<and> a_State a \<noteq> Released"
  shows "\<exists>counts w. mget (cp_by_prefix_length rep) (dec (nat bits)) = Some counts \<and>
    mget counts ''allocatable'' = Some w \<and>
    unat w = card {q \<in> pool_blocks base (nat bits). \<not> candidate_blocked pool r snap ob st' q} \<and>
    (w = 0 \<longleftrightarrow> chooseCIDR pool r snap ob st' = Inr None)"
proof -
  let ?t = "capacity_tally (v_cfg E) p pool (v_now E 0) c snap st'"
  let ?free = "{q \<in> pool_blocks base (nat bits). \<not> candidate_blocked pool r snap ob st' q}"
  have rep: "by_size base ?t (pl_AllowedPrefixLengths pool) [] = Some (cp_by_prefix_length rep)" "ta_complete ?t"
    by (rule capacity_Inr [OF assms(1)], use assms(2-5) in simp)+
  have valid: "valid_prefix base" using ParsePrefix_valid [OF assms(5)] .
  note free = free_blocks [OF rep(2) assms(13,11,14)]
  obtain counts where counts: "size_counts base ?t bits = Some counts"
    "mget (cp_by_prefix_length rep) (dec (nat bits)) = Some counts"
    using by_size_lookup [OF rep(1) assms(8-10)] by blast
  obtain w where w: "mget counts ''allocatable'' = Some w" "unat w = card ?free"
    using size_counts_allocatable [OF counts(1) rep(2) valid assms(6,7,9,10)] free by auto
  obtain start where "addrInt (ip base) = Some start" using assms(6) by (auto simp: Is4_V4)
  then have "aligned_base base start (nat bits)" using assms(6,7,9,10) unfolding aligned_base_def by linarith
  then have "finite ?free" using card_pool_blocks(2) by simp
  then have "w = 0 \<longleftrightarrow> ?free = {}" using w(2) by (metis card_0_eq unat_0 word_unat_eq_iff)
  then show ?thesis
    using counts(2) w choose_iff_free [OF assms(5,6), of r snap ob st'] assms(9,10,12) by auto
qed

lemma those_defined: "\<forall>x \<in> set xs. f x \<noteq> None \<Longrightarrow> those (map f xs) \<noteq> None"
  by (induction xs) auto

lemma by_size_defined:
  assumes "addrInt (ip base) \<noteq> None"
  shows "by_size base t ls acc \<noteq> None"
proof -
  have "occupiedBlocks base bits ps \<noteq> None" for bits ps using assms by (simp add: occupiedBlocks_def)
  then have "\<exists>counts. size_counts base t bits = Some counts" for bits
    using those_defined [of "ta_categories t" "\<lambda>(c, ps). map_option (Pair c) (occupiedBlocks base bits ps)"]
    by (auto simp: size_counts_def split: option.split prod.split)
  then obtain counts where "size_counts base t bits = Some (counts bits)" for bits by metis
  then show ?thesis by (induction ls arbitrary: acc) simp_all
qed

theorem capacity_agrees_with_allocator_witness:
  "\<exists>rep counts w. snd (capacity ex_env ex_principal ''p'' ex_st1) = Inr rep \<and>
     mget (cp_by_prefix_length rep) (dec 24) = Some counts \<and> mget counts ''allocatable'' = Some w \<and>
     (w = 0 \<longleftrightarrow> chooseCIDR ex_pool ex_request ex_snapshot ex_observation ex_st1 = Inr None)"
proof -
  let ?r = "capacity ex_env ex_principal ''p'' ex_st1"
  have pool: "capacity_pool (v_cfg ex_env) ex_principal ''p'' = Some ex_pool" by code_simp
  have snap: "capacity_snapshot ex_env (domainFor (v_cfg ex_env) (pl_DomainID ex_pool)) = (ex_snapshot, True)"
    by code_simp
  have all: "ta_complete (capacity_tally (v_cfg ex_env) ex_principal ex_pool ex_start True ex_snapshot ex_st1)"
    by code_simp
  note base = ex_base(1-3)
  have now: "v_now ex_env 0 = ex_start" by (simp add: ex_env_def)
  have view: "view ex_env 0 f ex_st1 = (ex_st1, f ex_st1)" for f
    by (simp add: view_def ml_View_def ex_env_def)
  obtain bs where bs: "by_size ex_base (capacity_tally (v_cfg ex_env) ex_principal ex_pool ex_start True ex_snapshot ex_st1)
      (pl_AllowedPrefixLengths ex_pool) [] = Some bs"
    using by_size_defined [of ex_base] by (fastforce simp: ex_base_def)
  obtain rep where r: "?r = (ex_st1, Inr rep)" "cp_complete rep"
    using pool snap all base bs by (simp add: capacity_def view now)
  have len: "24 \<in> set (pl_AllowedPrefixLengths ex_pool)" "int (pbits ex_base) \<le> 24" "(24::int) \<le> 32"
    "r_Scope ex_request \<noteq> ''subnet''" "r_PrefixLength ex_request = 24"
    by code_simp+
  have obs: "last_opt (observations_at ex_st1 (pl_DomainID ex_pool)) = Some ex_observation" by code_simp
  have holds: "\<forall>a \<in> set (mvals (Allocations ex_st1)).
      \<not> a_Committed a \<longrightarrow> a_DomainID a = pl_DomainID ex_pool \<and> a_State a \<noteq> Released"
    by code_simp
  show ?thesis
    using capacity_agrees_with_allocator [OF r pool snap base len obs holds] r(1) by auto
qed

end
