(* ===== verification/Fence.thy ===== *)
theory Fence
  imports Handlers
begin

text \<open>
  The contract the two withdrawals share. A withdrawal fences the operation of an uncommitted hold in
  one transaction and deletes the row in a second one, with the inventory in between. The locale states
  what the two transactions promise; that no late commit can overtake a fence, and that only
  uncommitted rows are ever deleted, is proved once and holds for a tenant's cancel and for an
  operator's abandon.
\<close>

locale withdrawal =
  fixes fence :: "'i \<Rightarrow> 't txn"
    and delete :: "'t \<Rightarrow> 'r txn"
    and op_of :: "'t \<Rightarrow> string"
    and row_of :: "'t \<Rightarrow> string"
    and fenced :: "Operation \<Rightarrow> bool"
  assumes fence_step: "fence i st = Inr (st', t) \<Longrightarrow> ledger_step st st'"
    and fence_rows: "ledger_ok st \<Longrightarrow> fence i st = Inr (st', t) \<Longrightarrow> Allocations st' = Allocations st"
    and fence_writes: "ledger_ok st \<Longrightarrow> fence i st = Inr (st', t) \<Longrightarrow>
      \<exists>x. mget (Operations st') (op_of t) = Some x \<and> fenced x"
    and fenced_terminal: "fenced x \<Longrightarrow> o_Status x = operationFailed"
    and delete_step: "delete t st = Inr (st', r) \<Longrightarrow> ledger_step st st'"
    and delete_row: "delete t st = Inr (st', r) \<Longrightarrow> ledger_ok st \<Longrightarrow> mget (Allocations st') (row_of t) = None"
    and delete_only: "delete t st = Inr (st', r) \<Longrightarrow> ledger_ok st \<Longrightarrow> mget (Allocations st) k = Some a \<Longrightarrow>
      mget (Allocations st') k = Some a \<or> k = row_of t \<and> \<not> a_Committed a"
begin

lemma fence_ok: "ledger_ok st \<Longrightarrow> fence i st = Inr (st', t) \<Longrightarrow> ledger_ok st'"
  using run_ok fence_step by blast

lemma fenced_for_ever:
  assumes "ledger_ok st" "fence i st = Inr (st1, t)" "ledger_run st1 st2"
  shows "o_Status (operation_at st2 (op_of t)) = operationFailed"
proof -
  obtain x where x: "mget (Operations st1) (op_of t) = Some x" "fenced x"
    using fence_writes assms(1,2) by blast
  obtain y where "mget (Operations st2) (op_of t) = Some y" "op_progress x y"
    using run_operation [OF assms(3) fence_ok [OF assms(1,2)] x(1)] .
  then show ?thesis using fenced_terminal [OF x(2)] by (auto simp: op_progress_def)
qed

lemma late_commit_stores_nothing:
  assumes "ledger_ok st" "fence i st = Inr (st1, t)" "ledger_run st1 st2"
    and "reserve_commit E pin ev held op0 invID st2 = Inr (st3, out)" "o_ID op0 = op_of t"
  shows "st3 = st2"
  using fenced_for_ever [OF assms(1-3)] assms(4,5)
  by (auto simp: reserve_commit_def commit_blocked_def Let_def split: if_splits)

lemma late_recovery_stores_nothing:
  assumes "ledger_ok st" "fence i st = Inr (st1, t)" "ledger_run st1 st2"
    and "commit_recovered_txn E job invID event st2 = Inr (st3, u)" "o_ID (snd job) = op_of t"
  shows "st3 = st2"
  using fenced_for_ever [OF assms(1-3)] assms(4,5)
  by (auto simp: commit_recovered_txn_def Let_def split: option.splits if_splits)

lemma repeated_delete:
  assumes "ledger_ok st" "delete t st = Inr (st1, r)"
  shows "mget (Allocations st1) (row_of t) = None"
    and "mget (Allocations st) k = Some a \<Longrightarrow> a_Committed a \<Longrightarrow> mget (Allocations st1) k = Some a"
  using delete_row [OF assms(2,1)] delete_only [OF assms(2,1)] by blast+

end

lemma cancel_fence_cases:
  assumes "cancel_fence E p oid st = Inr (st', t)" "ledger_ok st"
  shows "Allocations st' = Allocations st"
    "\<exists>x. mget (Operations st') oid = Some x \<and> cancelFenced x \<and> o_ID x = oid \<and> o_AllocationID x = a_ID (t_allocation t)"
    "o_ID (t_operation t) = oid"
    "t_done t \<Longrightarrow> mget (Allocations st') (a_ID (t_allocation t)) = None"
proof -
  obtain t0 where t0: "cancelCheck (v_K E) st p oid = Inr t0"
    using assms(1) by (auto simp: cancel_fence_def split: sum.splits)
  have "Allocations st' = Allocations st \<and> (\<exists>x. mget (Operations st') oid = Some x \<and> cancelFenced x \<and> o_ID x = oid
      \<and> o_AllocationID x = a_ID (t_allocation t)) \<and> o_ID (t_operation t) = oid \<and>
      (t_done t \<longrightarrow> mget (Allocations st') (a_ID (t_allocation t)) = None)"
  proof (cases rule: cancelCheck_Inr [OF t0, case_names finished fenced live])
    case finished
    then show ?thesis
      using assms(1) t0 ledger_okD(5) [OF assms(2) finished(4)] by (auto simp: cancel_fence_def)
  next
    case fenced
    then show ?thesis
      using assms(1) t0 ledger_okD(5) [OF assms(2) fenced(3)] ledger_okD(4) [OF assms(2) fenced(4)]
      by (auto simp: cancel_fence_def)
  next
    case live
    have ids: "o_ID (t_operation t0) = oid" "a_ID (t_allocation t0) = o_AllocationID (t_operation t0)"
      using ledger_okD(5) [OF assms(2) live(3)] ledger_okD(4) [OF assms(2) live(4)] by simp_all
    then show ?thesis
      using assms(1) t0 live
      by (auto simp: cancel_fence_def write_fence_def fenced_operation_def cancelFenced_def fencedWith_def Let_def)
  qed
  then show "Allocations st' = Allocations st"
    "\<exists>x. mget (Operations st') oid = Some x \<and> cancelFenced x \<and> o_ID x = oid \<and> o_AllocationID x = a_ID (t_allocation t)"
    "o_ID (t_operation t) = oid" "t_done t \<Longrightarrow> mget (Allocations st') (a_ID (t_allocation t)) = None"
    by blast+
qed

lemma cancel_delete_cases:
  assumes "cancel_delete E t st = Inr (st', r)" "ledger_ok st"
  obtains (absent) "st' = st" "mget (Allocations st) (a_ID (t_allocation t)) = None"
  | (deleted) a where "mget (Allocations st) (a_ID (t_allocation t)) = Some a" "\<not> a_Committed a"
      "Allocations st' = mdel (a_ID (t_allocation t)) (Allocations st)"
      "Requests st' = drop_requests (a_ID (t_allocation t)) (Requests st)"
      "Operations st' = Operations st" "Events st' = Events st"
proof (cases "mget (Allocations st) (a_ID (t_allocation t))")
  case None
  then show thesis using assms(1) absent by (simp add: cancel_delete_def)
next
  case (Some a)
  then have "a_ID a = a_ID (t_allocation t)" using ledger_okD(4) [OF assms(2)] by blast
  then show thesis
    using deleted [OF Some] assms(1) Some
    by (auto simp: cancel_delete_def resolveFinding_def Let_def split: if_splits option.splits)
qed

interpretation cancel: withdrawal "\<lambda>(p, oid). cancel_fence E p oid" "cancel_delete E"
  "\<lambda>t. o_ID (t_operation t)" "\<lambda>t. a_ID (t_allocation t)" cancelFenced for E
proof unfold_locales
  fix i :: "Principal \<times> string" and st st' t
  assume f: "(case i of (p, oid) \<Rightarrow> cancel_fence E p oid) st = Inr (st', t)"
  obtain p oid where i: "i = (p, oid)" by fastforce
  show "ledger_step st st'" using f i ledger_step.cancel by simp
  assume ok: "ledger_ok st"
  have "cancel_fence E p oid st = Inr (st', t)" using f i by simp
  note c = cancel_fence_cases [OF this ok]
  show "Allocations st' = Allocations st" by (rule c(1))
  show "\<exists>x. mget (Operations st') (o_ID (t_operation t)) = Some x \<and> cancelFenced x" using c(2,3) by auto
next
  show "cancelFenced x \<Longrightarrow> o_Status x = operationFailed" for x by (simp add: cancelFenced_def fencedWith_def)
next
  fix t st st' r assume d: "cancel_delete E t st = Inr (st', r)"
  show "ledger_step st st'" by (rule ledger_step.cancelled [OF d])
  assume ok: "ledger_ok st"
  show "mget (Allocations st') (a_ID (t_allocation t)) = None"
    by (cases rule: cancel_delete_cases [OF d ok]) auto
  fix k a assume "mget (Allocations st) k = Some a"
  then show "mget (Allocations st') k = Some a \<or> k = a_ID (t_allocation t) \<and> \<not> a_Committed a"
    by (cases rule: cancel_delete_cases [OF d ok]) auto
qed

lemma abandon_fence_cases:
  assumes "abandon_fence E i oid operator reason st = Inr (st', t)" "ledger_ok st"
  shows "Allocations st' = Allocations st" "a_ID (u_allocation t) = i"
    "\<exists>x. mget (Operations st') (o_ID (u_operation t)) = Some x \<and> abandonFenced x \<and> o_AllocationID x = i"
proof -
  obtain t0 where t0: "abandonCheck st i oid = Inr t0"
    using assms(1) by (auto simp: abandon_fence_def split: sum.splits)
  note c = abandonCheck_Inr [OF t0]
  have id: "a_ID (u_allocation t0) = i" using ledger_okD(4) [OF assms(2) c(1)] by simp
  note op = named_operation [OF c(3) [unfolded id] assms(2)]
  have "Allocations st' = Allocations st \<and> a_ID (u_allocation t) = i \<and>
    (\<exists>x. mget (Operations st') (o_ID (u_operation t)) = Some x \<and> abandonFenced x \<and> o_AllocationID x = i)"
  proof (cases "u_alreadyFenced t0")
    case True
    then show ?thesis using assms(1) t0 op c(5) id by (auto simp: abandon_fence_def)
  next
    case False
    then show ?thesis using assms(1) t0 op(2) id
      by (auto simp: abandon_fence_def write_fence_def fenced_operation_def abandonFenced_def fencedWith_def Let_def)
  qed
  then show "Allocations st' = Allocations st" "a_ID (u_allocation t) = i"
    "\<exists>x. mget (Operations st') (o_ID (u_operation t)) = Some x \<and> abandonFenced x \<and> o_AllocationID x = i"
    by blast+
qed

lemma abandon_delete_cases:
  assumes "abandon_delete E t st = Inr (st', r)" "ledger_ok st"
  obtains (absent) "st' = st" "mget (Allocations st) (a_ID (u_allocation t)) = None"
  | (deleted) a where "mget (Allocations st) (a_ID (u_allocation t)) = Some a" "\<not> a_Committed a"
      "Allocations st' = mdel (a_ID (u_allocation t)) (Allocations st)"
      "Operations st' = Operations st" "Events st' = Events st"
proof (cases "mget (Allocations st) (a_ID (u_allocation t))")
  case None
  then show thesis using assms(1) absent by (simp add: abandon_delete_def)
next
  case (Some a)
  then have "a_ID a = a_ID (u_allocation t)" using ledger_okD(4) [OF assms(2)] by blast
  then show thesis
    using deleted [OF Some] assms(1) Some
    by (auto simp: abandon_delete_def resolveFinding_def Let_def split: if_splits option.splits)
qed

interpretation abandon: withdrawal "\<lambda>(i, oid, operator, reason). abandon_fence E i oid operator reason"
  "abandon_delete E" "\<lambda>t. o_ID (u_operation t)" "\<lambda>t. a_ID (u_allocation t)" abandonFenced for E
proof unfold_locales
  fix i :: "string \<times> string \<times> string \<times> string" and st st' t
  assume f: "(case i of (i, oid, operator, reason) \<Rightarrow> abandon_fence E i oid operator reason) st = Inr (st', t)"
  obtain j oid operator reason where i: "i = (j, oid, operator, reason)" by (cases i)
  show "ledger_step st st'" using f i ledger_step.abandon by simp
  assume ok: "ledger_ok st"
  have "abandon_fence E j oid operator reason st = Inr (st', t)" using f i by simp
  note c = abandon_fence_cases [OF this ok]
  show "Allocations st' = Allocations st" by (rule c(1))
  show "\<exists>x. mget (Operations st') (o_ID (u_operation t)) = Some x \<and> abandonFenced x" using c(3) by auto
next
  show "abandonFenced x \<Longrightarrow> o_Status x = operationFailed" for x by (simp add: abandonFenced_def fencedWith_def)
next
  fix t st st' r assume d: "abandon_delete E t st = Inr (st', r)"
  show "ledger_step st st'" by (rule ledger_step.abandoned [OF d])
  assume ok: "ledger_ok st"
  show "mget (Allocations st') (a_ID (u_allocation t)) = None"
    by (cases rule: abandon_delete_cases [OF d ok]) auto
  fix k a assume "mget (Allocations st) k = Some a"
  then show "mget (Allocations st') k = Some a \<or> k = a_ID (u_allocation t) \<and> \<not> a_Committed a"
    by (cases rule: abandon_delete_cases [OF d ok]) auto
qed

end
