(* ===== verification/HandlerProps.thy ===== *)
theory HandlerProps
  imports Example Fence "HOL-Library.Sublist"
begin

text \<open>
  What the handlers promise one by one: replay of a request, the commit and the withdrawals, metadata
  and lifecycle, and the gates of a reclamation.
\<close>

section \<open>Requests and their replay\<close>

definition undisturbed :: "Env \<Rightarrow> bool" where
  "undisturbed E \<longleftrightarrow> quiet E \<and> (\<forall>k. v_fault E k = None) \<and> ledgerReady E = None"

lemma undisturbed_simps:
  assumes "undisturbed E"
  shows "view E k f st = (st, f st)" "v_others E k st = st" "ledgerReady E = None"
    "update E k g st = (case g st of Inl e \<Rightarrow> (st, Inl e) | Inr (st', r) \<Rightarrow> (st', Inr r))"
  using assms
  by (auto simp: undisturbed_def quiet_def view_def ml_View_def update_def ml_Update_def
      split: sum.split prod.split)

lemma undisturbed_evidence:
  "undisturbed E \<Longrightarrow> fst (reserve_evidence E dm st) = st"
  by (auto simp: reserve_evidence_def undisturbed_simps stored_observation_def
      split: option.split sum.split prod.split bool.split)

lemma undisturbed_validate:
  assumes "undisturbed E"
  shows "fst (validateRequest E p req st) = st"
  using assms
  by (auto simp: validateRequest_def undisturbed_simps split: sum.split LedgerHealth.split)

lemma ex_undisturbed: "undisturbed ex_env" "undisturbed ex_env2" "undisturbed ex_env3"
  by (simp_all add: undisturbed_def quiet_def ledgerReady_def ex_env_def ex_env2_def ex_env3_def)

lemma reserve_recorded:
  assumes "undisturbed E" and "key \<noteq> []" and "validateRequest E p req st = (st, Inr (r, pool, dm))"
    and rec: "mget (Requests st) (idempotencyID (v_K E) (p_TenantID p) (k_method (kind_of pin))
      (k_path (kind_of pin)) key) = Some old"
  shows "fst (reserve E p req key pin st) = st"
    and "replay_record st old (requestBodyHash (v_K E) r) = Inl e \<Longrightarrow> snd (reserve E p req key pin st) = Inl e"
    and "replay_record st old (requestBodyHash (v_K E) r) = Inr (Some a, x, status) \<Longrightarrow>
      snd (reserve E p req key pin st) = Inr (Some a, x, status)"
proof -
  note u = undisturbed_simps [OF assms(1)]
  have replay: "reserve_replay (p_TenantID p) (r_AllocationKey r)
      (idempotencyID (v_K E) (p_TenantID p) (k_method (kind_of pin)) (k_path (kind_of pin)) key)
      (requestHash (v_K E) r) (requestBodyHash (v_K E) r) st = replay_record st old (requestBodyHash (v_K E) r)"
    using rec by (simp add: reserve_replay_def)
  have plan: "reserve_plan E i st = (case replay_record st old (requestBodyHash (v_K E) r) of
      Inl e \<Rightarrow> Inl e | Inr ans \<Rightarrow> Inr (st, Replayed ans))"
    if "pn_Principal i = p" "pn_Key i = key" "pn_Pin i = pin" "pn_Request i = r" for i
    using rec that by (simp add: reserve_plan_def plan_requestID_def)
  show "replay_record st old (requestBodyHash (v_K E) r) = Inl e \<Longrightarrow> snd (reserve E p req key pin st) = Inl e"
    "replay_record st old (requestBodyHash (v_K E) r) = Inr (Some a, x, status) \<Longrightarrow>
      snd (reserve E p req key pin st) = Inr (Some a, x, status)"
    using assms(2,3) by (simp_all add: reserve_def u replay)
  obtain ev where ev: "reserve_evidence E dm st = (st, ev)"
    using undisturbed_evidence [OF assms(1), of dm st] by (metis prod.collapse)
  show "fst (reserve E p req key pin st) = st"
    using assms(2,3)
    by (cases ev; cases "replay_record st old (requestBodyHash (v_K E) r)")
      (auto simp: reserve_def u replay ev plan split: option.split)
qed

lemma replay_record_cases:
  "i_Hash old \<noteq> h \<Longrightarrow> replay_record st old h =
     Inl (apiErr 409 ''idempotency_mismatch'' ''the idempotency key was used with a different request'')"
  "i_Hash old = h \<Longrightarrow> mget (Allocations st) (i_AllocationID old) = Some a \<Longrightarrow> a_Committed a \<Longrightarrow>
     \<not> retired (a_State a) \<Longrightarrow> \<exists>x status. replay_record st old h = Inr (Some (copyAllocation a), x, status)"
  "i_Hash old = h \<Longrightarrow> mget (Allocations st) (i_AllocationID old) = Some a \<Longrightarrow> retired (a_State a) \<Longrightarrow>
     replay_record st old h = Inl (apiErr 409 ''allocation_key_retired'' ''allocation key is permanently retired'')"
  by (auto simp: replay_record_def stateResults_def abandoningReplay_def copyAllocation_def Let_def)

text \<open>
  C11. A reservation whose idempotency key is already recorded changes nothing: the ledger stays as it
  is, a body that differs from the recorded one is refused as \<open>idempotency_mismatch\<close>, the key of a
  retired allocation stays refused, and a live committed allocation is answered again with its current
  row: no second hold and no second block.
\<close>

theorem replayed_reservation_changes_nothing:
  assumes "undisturbed E" and "key \<noteq> []" and "snd (validateRequest E p req st) = Inr (r, pool, dm)"
    and "mget (Requests st) (idempotencyID (v_K E) (p_TenantID p) ''POST'' ''POST /v1/allocations'' key) = Some old"
    and "mget (Allocations st) (i_AllocationID old) = Some a" and "a_Committed a"
  shows "fst (Reserve E p req key st) = st \<and>
    (if i_Hash old \<noteq> requestBodyHash (v_K E) r then
       snd (Reserve E p req key st) = Inl (apiErr 409 ''idempotency_mismatch''
         ''the idempotency key was used with a different request'')
     else if retired (a_State a) then
       snd (Reserve E p req key st) = Inl (apiErr 409 ''allocation_key_retired''
         ''allocation key is permanently retired'')
     else \<exists>x status. snd (Reserve E p req key st) = Inr (Some (copyAllocation a), x, status))"
proof -
  have v: "validateRequest E p req st = (st, Inr (r, pool, dm))"
    using undisturbed_validate [OF assms(1), of p req st] assms(3) by (metis prod.collapse)
  have rec: "mget (Requests st) (idempotencyID (v_K E) (p_TenantID p) (k_method (kind_of None))
      (k_path (kind_of None)) key) = Some old"
    using assms(4) by (simp add: kind_of_def reserveKind_def)
  note r = reserve_recorded [OF assms(1,2) v rec]
  show ?thesis
    using r(1) r(2) [OF replay_record_cases(1)] r(2) [OF replay_record_cases(3) [OF _ assms(5)]]
      r(3) replay_record_cases(2) [OF _ assms(5,6)]
    by (auto simp: Reserve_def)
qed

theorem replayed_reservation_changes_nothing_witness:
  "fst (Reserve ex_env2 ex_principal ex_request ''i1'' ex_st1) = ex_st1"
proof -
  have "snd (validateRequest ex_env2 ex_principal ex_request ex_st1) = Inr (ex_request, ex_pool, ex_domain)"
    by code_simp
  moreover have "mget (Requests ex_st1) (idempotencyID (v_K ex_env2) (p_TenantID ex_principal) ''POST''
      ''POST /v1/allocations'' ''i1'') = Some (snd (ex_idem ''i1'' ex_request ''alloc_00'' ''op_01''))"
    by code_simp
  moreover have "mget (Allocations ex_st1) (i_AllocationID (snd (ex_idem ''i1'' ex_request ''alloc_00'' ''op_01'')))
      = Some (ex_alloc ''alloc_00'' ex_request ''10.0.1.0/24'')" by code_simp
  ultimately show ?thesis
    using replayed_reservation_changes_nothing [OF ex_undisturbed(2)] by (auto simp: ex_alloc_def)
qed

section \<open>Commit and withdrawal\<close>

lemma finish_hold_201:
  assumes "finish_hold E pin ev a x invID st = (st', Inr (Some a', y, 201))" "ledger_ok (v_others E 4 st)"
  shows "\<exists>b. mget (Allocations st') (a_ID a') = Some b \<and> a_Committed b \<and> a_Committed a' \<and>
    a_CIDR b = a_CIDR a'"
proof -
  let ?s = "v_others E 4 st"
  obtain s w where u: "update E 4 (reserve_commit E pin ev a x invID) st = (s, w)" by fastforce
  show ?thesis
  proof (cases w)
    case (Inl e)
    then show ?thesis using assms(1) by (simp add: finish_hold_def u split: option.splits)
  next
    case (Inr r)
    have c: "reserve_commit E pin ev a x invID ?s = Inr (s, r)" by (rule update_Inr [OF u [unfolded Inr]])
    show ?thesis
    proof (cases r)
      case (Committed a1 x1)
      then have "a' = a1" "st' = s" using assms(1) by (simp_all add: finish_hold_def u Inr)
      then show ?thesis using c Committed
        by (auto simp: reserve_commit_def committed_allocation_def Let_def split: if_splits)
    next
      case (NotCommitted a1 x1)
      then have a1: "a' = a1" "a_Committed a1" "st' = s"
        using assms(1) by (auto simp: finish_hold_def u Inr split: if_splits option.splits)
      let ?b = "allocation_at ?s (a_ID a)"
      have r: "s = ?s" "a1 = copyAllocation ?b" and id: "a_ID ?b \<noteq> []"
        using c NotCommitted by (auto simp: reserve_commit_def Let_def split: if_splits)
      note m = at_Some(1) [OF id]
      have "a_ID a1 = a_ID ?b" and k: "a_Committed a1 = a_Committed ?b" "a_CIDR a1 = a_CIDR ?b"
        unfolding r(2) copyAllocation_def by simp_all
      then have i: "a_ID a1 = a_ID a" using ledger_okD(4) [OF assms(2) m] by simp
      show ?thesis unfolding a1(1,3) i r(1) k using m a1(2) [unfolded k] by blast
    next
      case (HoldGone x1)
      then show ?thesis using assms(1) by (simp add: finish_hold_def u Inr split: option.splits)
    qed
  qed
qed

text \<open>
  A reservation that is answered with status 201 is owned: when the handler returns, the ledger
  holds the answered allocation, committed, with the answered block.
\<close>

theorem created_reservation_is_committed:
  assumes "Reserve E p req key st = (st', Inr (Some a, x, 201))"
    and "cooperative E" and "reachable st" and "ids_fresh E st"
  shows "\<exists>b. mget (Allocations st') (a_ID a) = Some b \<and> a_Committed b \<and> a_Committed a \<and> a_CIDR b = a_CIDR a"
proof -
  have ok: "ledger_ok st" using reachable_ok [OF assms(3)] .
  have body: "reserve E p req key None st = (st', Inr (Some a, x, 201))"
    using assms(1) by (simp add: Reserve_def)
  from body assms(2) ok assms(4) show ?thesis
  proof (cases rule: reserve_paths)
    case ended
    then show ?thesis by (auto simp: created_def)
  next
    case (attempted s a0 x0 ev)
    then obtain invID where fin: "finish_hold E None ev a0 x0 invID s = (st', Inr (Some a, x, 201))"
      by (auto simp: attempt_hold_def split: option.splits sum.splits if_splits)
    have "ledger_ok (v_others E 4 s)"
      using run_ok [OF rtranclp_trans [OF attempted(1) others_run [OF assms(2)]] ok] .
    then show ?thesis by (rule finish_hold_201 [OF fin])
  qed
qed

theorem created_reservation_is_committed_witness:
  "\<exists>b. mget (Allocations ex_st1) ''alloc_00'' = Some b \<and> a_Committed b \<and> a_CIDR b = ''10.0.1.0/24''"
  using created_reservation_is_committed [OF ex_reserve1 quiet_cooperative [OF ex_quiet(1)] _ ex_fresh1]
  by (auto simp: reachable_def ex_alloc_def)

definition ex_fence :: "State \<times> cancelTarget" where
  "ex_fence =
     (case cancel_fence ex_env3 ex_principal ''op_0301'' ex_stuck of
        Inr r \<Rightarrow> r | Inl _ \<Rightarrow> (ex_stuck, zero_cancelTarget))"

lemma ex_fenced: "cancel_fence ex_env3 ex_principal ''op_0301'' ex_stuck = Inr (fst ex_fence, snd ex_fence)"
  by code_simp

text \<open>
  C12. A cancelled reservation can never become owned: once the first transaction of a cancel has fenced
  the operation, no commit of that operation, neither the reservation's own nor the recovery of the
  worker, changes the ledger, whatever ran in between and however late the inventory answers.
\<close>

theorem fenced_hold_never_commits:
  assumes "reachable st" and "cancel_fence E p oid st = Inr (st1, t)" and "ledger_run st1 st2"
  shows "(\<forall>E' pin ev held op0 invID st3 out. o_ID op0 = oid \<longrightarrow>
      reserve_commit E' pin ev held op0 invID st2 = Inr (st3, out) \<longrightarrow> st3 = st2) \<and>
    (\<forall>E' job invID event st3 u. o_ID (snd job) = oid \<longrightarrow>
      commit_recovered_txn E' job invID event st2 = Inr (st3, u) \<longrightarrow> st3 = st2)"
proof -
  note ok = reachable_ok [OF assms(1)]
  have oid: "o_ID (t_operation t) = oid" using cancel_fence_cases(3) [OF assms(2) ok] .
  have f: "(case (p, oid) of (p, oid) \<Rightarrow> cancel_fence E p oid) st = Inr (st1, t)" using assms(2) by simp
  show ?thesis
    using cancel.late_commit_stores_nothing [OF ok f assms(3)]
      cancel.late_recovery_stores_nothing [OF ok f assms(3)] by (simp add: oid)
qed

theorem fenced_hold_never_commits_witness:
  "\<exists>out. reserve_commit ex_env None [] ex_hold ex_pending ''nb-1'' (fst ex_fence) = Inr (fst ex_fence, out)"
proof -
  have "\<exists>r. reserve_commit ex_env None [] ex_hold ex_pending ''nb-1'' (fst ex_fence) = Inr r"
    by (simp add: reserve_commit_def Let_def)
  then obtain st3 out where r: "reserve_commit ex_env None [] ex_hold ex_pending ''nb-1'' (fst ex_fence) = Inr (st3, out)"
    by (metis surj_pair)
  moreover have "o_ID ex_pending = ''op_0301''" by (simp add: ex_pending_def ex_op_def)
  ultimately have "st3 = fst ex_fence"
    using fenced_hold_never_commits [OF ex_reachable_stuck ex_fenced rtranclp.rtrancl_refl] by blast
  then show ?thesis using r by simp
qed

text \<open>What the first transaction of a cancel promises about its operation and its allocation.\<close>

lemma cancel_succeeds:
  assumes "CancelReservation E p oid st = (st', Some rep, None)"
  obtains t where "update E 0 (cancel_fence E p oid) st = (st', Inr t)" "t_done t"
      "rep = cancelReport (v_now E 1) (p_Subject p) t"
  | t st1 r where "update E 0 (cancel_fence E p oid) st = (st1, Inr t)" "\<not> t_done t"
      "update E 1 (cancel_delete E t) st1 = (st', Inr r)" "cr_Deleted rep"
      "h_ID (cr_Allocation rep) = a_ID (t_allocation t)"
proof -
  obtain st1 w where u: "update E 0 (cancel_fence E p oid) st = (st1, w)" by fastforce
  show thesis
  proof (cases w)
    case (Inl e)
    then show thesis using assms by (simp add: CancelReservation_def u split: option.splits)
  next
    case (Inr t)
    show thesis
    proof (cases "t_done t")
      case True
      then have "st' = st1" "rep = cancelReport (v_now E 1) (p_Subject p) t"
        using assms by (simp_all add: CancelReservation_def u Inr Let_def split: option.splits)
      then show thesis using that(1) u Inr True by blast
    next
      case False
      obtain st2 d where d: "update E 1 (cancel_delete E t) st1 = (st2, d)" by fastforce
      then obtain r where "d = Inr r" "st' = st2" "cr_Deleted rep" "h_ID (cr_Allocation rep) = a_ID (t_allocation t)"
        using assms False
        by (auto simp: CancelReservation_def u Inr Let_def cancelReport_def hold_report_def
            split: option.splits sum.splits)
      then show thesis using that(2) u Inr False d by blast
    qed
  qed
qed

lemma cancelled:
  assumes "CancelReservation E p oid st = (st', Some rep, None)" and "cooperative E" and "reachable st"
  shows "\<exists>x. mget (Operations st') oid = Some x \<and> o_Status x = operationFailed \<and>
    o_AllocationID x = h_ID (cr_Allocation rep) \<and> mget (Allocations st') (o_AllocationID x) = None \<and>
    \<not> committed_at st (o_AllocationID x) \<and> cr_Deleted rep"
proof -
  note ok = reachable_ok [OF assms(3)]
  have ok0: "ledger_ok (v_others E 0 st)" using run_ok [OF others_run [OF assms(2)] ok] .
  have run: "ledger_run st st'" using CancelReservation_run [OF assms(1,2)] .
  have gone: ?thesis
    if "mget (Operations st') oid = Some x" "o_Status x = operationFailed" "cr_Deleted rep"
      "o_AllocationID x = h_ID (cr_Allocation rep)" "mget (Allocations st') (o_AllocationID x) = None" for x
    using that run_committed_at [OF run ok] by (fastforce simp: committed_at_def)
  show ?thesis
  proof (cases rule: cancel_succeeds [OF assms(1), case_names finished deleted])
    case (finished t)
    note c = cancel_fence_cases [OF update_Inr [OF finished(1)] ok0]
    then show ?thesis
      using gone finished(2,3) cancel.fenced_terminal c(4)
      by (auto simp: cancelReport_def hold_report_def)
  next
    case (deleted t st1 r)
    note c = cancel_fence_cases [OF update_Inr [OF deleted(1)] ok0]
    obtain x where x: "mget (Operations st1) oid = Some x" "cancelFenced x" "o_AllocationID x = a_ID (t_allocation t)"
      using c(2) by blast
    have run1: "ledger_run st st1"
      using update_run [OF deleted(1) assms(2)] ledger_step.cancel by blast
    have run2: "ledger_run st1 st'"
      using update_run [OF deleted(3) assms(2)] ledger_step.cancelled by blast
    obtain y where y: "mget (Operations st') oid = Some y" "op_progress x y"
      using run_operation [OF run2 run_ok [OF run1 ok] x(1)] .
    have ok1: "ledger_ok (v_others E 1 st1)"
      using run_ok [OF others_run [OF assms(2)] run_ok [OF run1 ok]] .
    have "mget (Allocations st') (a_ID (t_allocation t)) = None"
      using cancel.delete_row [OF update_Inr [OF deleted(3)] ok1] .
    then show ?thesis
      using gone [OF y(1)] y(2) x(2,3) cancel.fenced_terminal deleted(4,5) by (auto simp: op_progress_def)
  qed
qed

text \<open>
  A cancel that reports success has withdrawn the hold: its operation is terminal, the allocation
  the operation and the report name is no longer in the ledger, and it is not one that was owned
  before the cancel.
\<close>

theorem cancel_withdraws_the_hold:
  assumes "CancelReservation E p oid st = (st', Some rep, None)" and "cooperative E" and "reachable st"
  shows "\<exists>x. mget (Operations st') oid = Some x \<and> o_Status x = operationFailed \<and>
    o_AllocationID x = h_ID (cr_Allocation rep) \<and> mget (Allocations st') (o_AllocationID x) = None \<and>
    \<not> committed_at st (o_AllocationID x) \<and> cr_Deleted rep"
  using cancelled [OF assms] .

definition ex_cancel :: "State \<times> CancelReport option \<times> goerr option" where
  "ex_cancel = CancelReservation ex_env3 ex_principal ''op_0301'' ex_stuck"

theorem cancel_withdraws_the_hold_witness:
  "mget (Allocations (fst ex_cancel)) ''alloc_0300'' = None \<and> \<not> committed_at ex_stuck ''alloc_0300''"
proof -
  have "(case ex_cancel of (_, Some rep, None) \<Rightarrow> h_ID (cr_Allocation rep) = ''alloc_0300'' | _ \<Rightarrow> False)"
    by code_simp
  then obtain rep where rep: "h_ID (cr_Allocation rep) = ''alloc_0300''"
    and c: "CancelReservation ex_env3 ex_principal ''op_0301'' ex_stuck = (fst ex_cancel, Some rep, None)"
    by (auto simp: ex_cancel_def split: prod.splits option.splits)
  show ?thesis
    using cancel_withdraws_the_hold [OF c quiet_cooperative [OF ex_quiet34(1)] ex_reachable_stuck] rep by auto
qed

lemma cancelCheck_owner:
  assumes "cancelCheck K st p oid = Inr t"
  shows "\<exists>x. mget (Operations st) oid = Some x \<and> o_Type x = reserveOperation \<and> o_TenantID x = p_TenantID p \<and>
    p_TenantID p \<noteq> []"
  using assms by (auto simp: cancelCheck_def split: option.splits if_splits)

lemma cancelled_cancel:
  assumes "mget (Operations st) oid = Some x" "cancelFenced x" "mget (Allocations st) (o_AllocationID x) = None"
    and "o_Type x = reserveOperation" "o_TenantID x = p_TenantID p" "p_TenantID p \<noteq> []"
    and "undisturbed E" "v_inventory E \<noteq> None"
  shows "\<exists>rep. CancelReservation E p oid st = (st, Some rep, None) \<and> cr_Deleted rep \<and> cr_AlreadyFenced rep \<and>
    \<not> cr_Removed rep \<and> h_ID (cr_Allocation rep) = o_AllocationID x"
  using assms(1-6,8)
  by (auto simp: undisturbed_simps [OF assms(7)] CancelReservation_def cancel_fence_def cancelCheck_def
      committedHoldRefusal_def mget0_def zero_Allocation_def zero_cancelTarget_def cancelReport_def
      hold_report_def Let_def)

text \<open>
  A cancel converges: after a successful cancel, running the same cancel again changes nothing,
  asks nothing of the inventory, and reports the same hold as deleted.
\<close>

theorem repeated_cancel_changes_nothing:
  assumes "CancelReservation E p oid st = (st', Some rep, None)" and "undisturbed E" and "reachable st"
    and "undisturbed E'" and "v_inventory E' \<noteq> None"
  shows "\<exists>rep'. CancelReservation E' p oid st' = (st', Some rep', None) \<and> cr_Deleted rep' \<and> cr_AlreadyFenced rep' \<and>
    \<not> cr_Removed rep' \<and> h_ID (cr_Allocation rep') = h_ID (cr_Allocation rep)"
proof -
  note ok = reachable_ok [OF assms(3)]
  note u = undisturbed_simps [OF assms(2)]
  have coop: "cooperative E" using assms(2) by (simp add: undisturbed_def quiet_cooperative)
  obtain t st1 where f: "update E 0 (cancel_fence E p oid) st = (st1, Inr t)"
    and st': "st' = st1 \<or> (\<exists>r. update E 1 (cancel_delete E t) st1 = (st', Inr r))"
    by (cases rule: cancel_succeeds [OF assms(1)]) blast+
  have f1: "cancel_fence E p oid st = Inr (st1, t)" using update_Inr [OF f] u(2) by simp
  obtain x where x: "mget (Operations st1) oid = Some x" "cancelFenced x"
    using cancel_fence_cases(2) [OF f1 ok] by blast
  have run1: "ledger_run st st1" using update_run [OF f coop] ledger_step.cancel by blast
  have same: "Operations st' = Operations st1"
    using st'
  proof
    assume "\<exists>r. update E 1 (cancel_delete E t) st1 = (st', Inr r)"
    then obtain r where w: "update E 1 (cancel_delete E t) st1 = (st', Inr r)" ..
    have d: "cancel_delete E t st1 = Inr (st', r)" using update_Inr [OF w] u(2) by simp
    show ?thesis by (cases rule: cancel_delete_cases [OF d run_ok [OF run1 ok]]) simp_all
  qed simp
  obtain x0 where x0: "mget (Operations st) oid = Some x0" "o_Type x0 = reserveOperation"
      "o_TenantID x0 = p_TenantID p" "p_TenantID p \<noteq> []"
    using f1 cancelCheck_owner by (fastforce simp: cancel_fence_def split: sum.splits)
  obtain y where "mget (Operations st1) oid = Some y" "op_progress x0 y" using run_operation [OF run1 ok x0(1)] .
  then have own: "o_Type x = reserveOperation" "o_TenantID x = p_TenantID p"
    using x(1) x0 by (auto simp: op_progress_def)
  have "o_AllocationID x = h_ID (cr_Allocation rep) \<and> mget (Allocations st') (o_AllocationID x) = None"
    using cancelled [OF assms(1) coop assms(3)] x(1) same by auto
  then show ?thesis using cancelled_cancel [of st' oid x p E'] x same own x0(4) assms(4,5) by auto
qed

theorem repeated_cancel_changes_nothing_witness:
  "fst (CancelReservation ex_env2 ex_principal ''op_0301'' (fst ex_cancel)) = fst ex_cancel"
proof -
  have "(case ex_cancel of (_, Some rep, None) \<Rightarrow> True | _ \<Rightarrow> False)"
    by code_simp
  then obtain rep where "CancelReservation ex_env3 ex_principal ''op_0301'' ex_stuck = (fst ex_cancel, Some rep, None)"
    by (auto simp: ex_cancel_def split: prod.splits option.splits)
  from repeated_cancel_changes_nothing [OF this ex_undisturbed(3) ex_reachable_stuck ex_undisturbed(2)]
  show ?thesis by (auto simp: ex_env_def ex_env2_def)
qed

lemma abandon_fence_type:
  assumes "abandon_fence E i oid operator reason st = Inr (st', t)" "ledger_ok st"
    and "mget (Operations st') (o_ID (u_operation t)) = Some x"
  shows "o_Type x = adoptOperation"
proof -
  obtain t0 where t0: "abandonCheck st i oid = Inr t0"
    using assms(1) by (auto simp: abandon_fence_def split: sum.splits)
  note c = abandonCheck_Inr [OF t0]
  have "a_ID (u_allocation t0) = i" using ledger_okD(4) [OF assms(2) c(1)] by simp
  note op = named_operation [OF c(3) [unfolded this] assms(2)]
  show ?thesis
    using assms(1,3) t0 op c
    by (auto simp: abandon_fence_def write_fence_def fenced_operation_def Let_def split: if_splits)
qed

lemma abandon_succeeds:
  assumes "AbandonAdoption E i oid operator reason st = (st', Some rep, None)"
  obtains t st1 r where "update E 0 (abandon_fence E i oid operator reason) st = (st1, Inr t)"
      "update E 1 (abandon_delete E t) st1 = (st', Inr r)" "ab_Deleted rep"
      "h_ID (ab_Allocation rep) = a_ID (u_allocation t)" "q_ID (ab_Operation rep) = o_ID (u_operation t)"
proof -
  obtain st1 w where u: "update E 0 (abandon_fence E i oid operator reason) st = (st1, w)" by fastforce
  show thesis
  proof (cases w)
    case (Inl e)
    then show thesis using assms by (simp add: AbandonAdoption_def u split: option.splits)
  next
    case (Inr t)
    obtain st2 d where d: "update E 1 (abandon_delete E t) st1 = (st2, d)" by fastforce
    then obtain r where "d = Inr r" "st' = st2" "ab_Deleted rep" "h_ID (ab_Allocation rep) = a_ID (u_allocation t)"
      "q_ID (ab_Operation rep) = o_ID (u_operation t)"
      using assms
      by (auto simp: AbandonAdoption_def u Inr Let_def abandonReport_def hold_report_def operation_report_def
          split: option.splits sum.splits)
    then show thesis using that u Inr d by blast
  qed
qed

text \<open>
  An abandon that reports success has withdrawn the adoption: the allocation it names is no longer
  in the ledger and was not an owned one, and its operation stays as a failed one that still carries
  the record of what was reviewed.
\<close>

theorem abandon_withdraws_the_adoption:
  assumes "AbandonAdoption E i oid operator reason st = (st', Some rep, None)" and "cooperative E" and "reachable st"
  shows "\<exists>x. mget (Operations st') (q_ID (ab_Operation rep)) = Some x \<and> o_Status x = operationFailed \<and>
    o_AllocationID x = i \<and> o_Type x = adoptOperation \<and> mget (Allocations st') i = None \<and> \<not> committed_at st i \<and>
    ab_Deleted rep \<and> h_ID (ab_Allocation rep) = i"
proof -
  note ok = reachable_ok [OF assms(3)]
  have ok0: "ledger_ok (v_others E 0 st)" using run_ok [OF others_run [OF assms(2)] ok] .
  obtain t st1 r where s: "update E 0 (abandon_fence E i oid operator reason) st = (st1, Inr t)"
      "update E 1 (abandon_delete E t) st1 = (st', Inr r)" "ab_Deleted rep"
      "h_ID (ab_Allocation rep) = a_ID (u_allocation t)" "q_ID (ab_Operation rep) = o_ID (u_operation t)"
    by (rule abandon_succeeds [OF assms(1)])
  note c = abandon_fence_cases [OF update_Inr [OF s(1)] ok0]
  obtain x where x: "mget (Operations st1) (o_ID (u_operation t)) = Some x" "abandonFenced x" "o_AllocationID x = i"
    using c(3) by blast
  have run1: "ledger_run st st1" using update_run [OF s(1) assms(2)] ledger_step.abandon by blast
  have run2: "ledger_run st1 st'" using update_run [OF s(2) assms(2)] ledger_step.abandoned by blast
  obtain y where y: "mget (Operations st') (o_ID (u_operation t)) = Some y" "op_progress x y"
    using run_operation [OF run2 run_ok [OF run1 ok] x(1)] .
  have ok1: "ledger_ok (v_others E 1 st1)"
    using run_ok [OF others_run [OF assms(2)] run_ok [OF run1 ok]] .
  have gone: "mget (Allocations st') i = None"
    using abandon.delete_row [OF update_Inr [OF s(2)] ok1] c(2) by simp
  moreover have "\<not> committed_at st i"
    using run_committed_at [OF rtranclp_trans [OF run1 run2] ok, of i] gone by (auto simp: committed_at_def)
  moreover have "o_Type x = adoptOperation"
    using abandon_fence_type [OF update_Inr [OF s(1)] ok0 x(1)] .
  ultimately show ?thesis
    using y x(2,3) s(3-5) c(2) abandon.fenced_terminal by (auto simp: op_progress_def)
qed

theorem abandon_withdraws_the_adoption_witness:
  "mget (Allocations (fst (AbandonAdoption ex_env2 ''alloc_0600'' [] ''op'' ''mistake'' ex_adopting))) ''alloc_0600'' = None"
proof -
  let ?r = "AbandonAdoption ex_env2 ''alloc_0600'' [] ''op'' ''mistake'' ex_adopting"
  have "(case snd ?r of (rep, e) \<Rightarrow> rep \<noteq> None \<and> e = None)" by code_simp
  then obtain st' rep where r: "?r = (st', Some rep, None)" by (cases ?r) auto
  show ?thesis
    using abandon_withdraws_the_adoption [OF r quiet_cooperative [OF ex_quiet(2)] ex_reachable_adopting] r by auto
qed

end
