(* ===== verification/LifecycleProps.thy ===== *)
theory LifecycleProps
  imports HandlerProps
begin

text \<open>
  The life of an owned allocation: metadata, binding, release, and the evidence without which its
  address space is never returned.
\<close>

section \<open>Metadata and release\<close>

lemma patched_request:
  assumes "patched_allocation a description labels = Inr a'"
  shows "\<exists>d l. a' = a\<lparr>a_Request := (a_Request a)\<lparr>r_Description := d, r_Labels := l\<rparr>\<rparr>"
proof -
  have "a' = a\<lparr>a_Request := (a_Request a)\<lparr>r_Description := r_Description (a_Request a'),
      r_Labels := r_Labels (a_Request a')\<rparr>\<rparr>"
    using assms by (auto simp: patched_allocation_def split: option.splits if_splits)
  then show ?thesis by blast
qed

text \<open>
  A metadata patch is an optimistic update: it succeeds only on an owned, unretired allocation of
  the caller's tenant whose revision is the one the caller read, raises the revision by one, keeps
  everything but description and labels, and touches no other row. A repeated patch with the same
  idempotency key changes nothing.
\<close>

theorem patch_is_optimistic:
  assumes "undisturbed E" and "Patch E p i description labels etag key st = (st', Inr a')"
  shows "\<exists>a. mget (Allocations st) i = Some a \<and> a_TenantID a = p_TenantID p \<and> a_Committed a \<and>
    (st' = st \<and> a' = a \<or>
     a_Revision a = etag \<and> \<not> retired (a_State a) \<and> (description \<noteq> None \<or> labels \<noteq> None) \<and>
     (\<exists>d l. a' = a\<lparr>a_Request := (a_Request a)\<lparr>r_Description := d, r_Labels := l\<rparr>,
       a_Revision := etag + 1, a_UpdatedAt := v_now E 0\<rparr>) \<and>
     Allocations st' = mput i a' (Allocations st) \<and> Operations st' = Operations st)"
proof -
  have "Patch_txn E p i description labels etag key st = Inr (st', a')"
    using assms(2)
    by (auto simp: Patch_def undisturbed_simps [OF assms(1)] split: if_splits sum.splits prod.splits)
  then show ?thesis
    by (auto simp: Patch_txn_def retired_def mget0_def zero_Allocation_def Let_def
        dest!: patched_request split: option.splits if_splits sum.splits) blast+
qed

theorem patch_is_optimistic_witness:
  "\<exists>st' a'. Patch ex_env ex_principal ''alloc_00'' (Some ''web'') None 1 ''k'' ex_st1 = (st', Inr a') \<and>
     a_Revision a' = 2 \<and> a_CIDR a' = ''10.0.1.0/24''"
proof -
  let ?r = "Patch ex_env ex_principal ''alloc_00'' (Some ''web'') None 1 ''k'' ex_st1"
  have "(case ?r of (s, Inr a) \<Rightarrow> a_Revision a = 2 | _ \<Rightarrow> False)" by code_simp
  then obtain st' a' where r: "?r = (st', Inr a')" and rev: "a_Revision a' = 2"
    by (auto split: prod.splits sum.splits)
  obtain a where a: "mget (Allocations ex_st1) ''alloc_00'' = Some a" and "a_CIDR a' = a_CIDR a"
    using patch_is_optimistic [OF ex_undisturbed(1) r] by auto
  then show ?thesis using r rev ex_rows(3) by (auto simp: ex_alloc_def)
qed

text \<open>
  C15. Release is a request, never a deletion: it succeeds only on an owned allocation of the caller's
  tenant; a live one is quarantined for the configured period, without live children and with its
  pending binding verifications failed, a retired one is left as it is, and no other row changes.
\<close>

theorem release_quarantines:
  assumes "undisturbed E" and "Release E p i st = (st', Inr (a', status))"
  shows "\<exists>a. mget (Allocations st) i = Some a \<and> a_TenantID a = p_TenantID p \<and> a_Committed a \<and>
    (if retired (a_State a) then st' = st \<and> a' = a \<and> status = (if a_State a = Released then 204 else 202)
     else status = 202 \<and> Allocations st' = mput i a' (Allocations st) \<and>
       a' = quarantined_allocation a (v_now E 0) (v_now E 0 + Hours (quarantine_hours (v_cfg E))) \<and>
       (\<forall>c \<in> set (mvals (Allocations st)). a_ParentAllocationID c = i \<longrightarrow>
          a_State c = Released \<or> a_Committed c \<and> a_State c \<noteq> Reserved \<and> a_State c \<noteq> Active) \<and>
       (\<forall>x \<in> set (mvals (Operations st')). o_AllocationID x = i \<longrightarrow> o_Type x = bindOperation \<longrightarrow>
          o_Status x \<noteq> operationPending))"
proof -
  have t: "release_txn E p i st = Inr (st', a')"
    and s: "status = (if a_State a' = Released then 204 else 202)"
    using assms(2)
    by (auto simp: Release_def undisturbed_simps [OF assms(1)] split: sum.splits prod.splits)
  obtain a where a: "mget (Allocations st) i = Some a" "a_TenantID a = p_TenantID p" "a_Committed a"
    using t by (auto simp: release_txn_def split: option.splits if_splits)
  show ?thesis
  proof (cases "retired (a_State a)")
    case True
    then show ?thesis using t s a by (auto simp: release_txn_def retired_def split: if_splits)
  next
    case False
    have pend: "o_Status x \<noteq> operationPending"
      if h: "x \<in> set (mvals (fail_pending_bindings i now ops))" "o_AllocationID x = i" "o_Type x = bindOperation"
      for x now ops
    proof -
      obtain y where "x = (if o_AllocationID y = i \<and> o_Status y = operationPending \<and> o_Type y = bindOperation
          then y\<lparr>o_Status := operationFailed, o_Error := Some (Err 409 ''allocation_key_retired''
            ''Allocation was released during binding verification.''), o_UpdatedAt := now\<rparr> else y)"
        using h(1) unfolding fail_pending_bindings_def mvals_def by force
      then show ?thesis
        using h(2,3)
        by (cases "o_AllocationID y = i \<and> o_Status y = operationPending \<and> o_Type y = bindOperation") auto
    qed
    let ?now = "v_now E 0"
    let ?q = "quarantined_allocation a ?now (?now + Hours (quarantine_hours (v_cfg E)))"
    have c: "\<not> list_ex (child_blocks_release st i) (mvals (Allocations st))"
      and w: "a' = ?q" "Allocations st' = mput i ?q (Allocations st)"
        "Operations st' = fail_pending_bindings i ?now (Operations st)"
      using t a False unfolding release_txn_def retired_def by (auto simp: Let_def split: if_splits)
    have "a_State a' = Quarantined" using w(1) by (simp add: quarantined_allocation_def)
    then have "status = 202" using s by simp
    moreover have "\<forall>c \<in> set (mvals (Allocations st)). a_ParentAllocationID c = i \<longrightarrow>
        a_State c = Released \<or> a_Committed c \<and> a_State c \<noteq> Reserved \<and> a_State c \<noteq> Active"
      using c by (auto simp: child_blocks_release_def list_ex_iff)
    moreover have "\<forall>x \<in> set (mvals (Operations st')). o_AllocationID x = i \<longrightarrow> o_Type x = bindOperation \<longrightarrow>
        o_Status x \<noteq> operationPending"
      unfolding w(3) using pend by blast
    ultimately show ?thesis using a False w(1,2) by auto
  qed
qed

theorem release_quarantines_witness:
  "\<exists>st' a'. Release ex_env ex_principal ''alloc_00'' ex_st1 = (st', Inr (a', 202)) \<and> a_State a' = Quarantined"
proof -
  let ?r = "Release ex_env ex_principal ''alloc_00'' ex_st1"
  have "(case ?r of (s, Inr _) \<Rightarrow> True | _ \<Rightarrow> False)" by code_simp
  then obtain st' a' status where r: "?r = (st', Inr (a', status))"
    by (auto split: prod.splits sum.splits)
  show ?thesis
    using release_quarantines [OF ex_undisturbed(1) r] r ex_rows(3)
    by (auto simp: ex_alloc_def retired_def quarantined_allocation_def)
qed

section \<open>Reclamation\<close>

lemma subseq_rev: "subseq xs ys \<Longrightarrow> subseq (rev xs) (rev ys)"
  by (induction rule: list_emb.induct) (auto intro: list_emb_append2 list_emb_append_mono)

lemma absence_scan_sound:
  assumes "absence_scan obs bad need spacing count previous" "0 \<le> count" "count < need"
  shows "\<exists>ss. subseq ss obs \<and> int (length ss) = need - count \<and> (\<forall>ob \<in> set ss. \<not> bad ob) \<and>
    successively (\<lambda>t t'. spacing \<le> Sub t t') ((if count = 0 then [] else [previous]) @ map ob_FinishedAt ss) \<and>
    (count = 0 \<longrightarrow> ss \<noteq> [] \<and> hd ss = hd obs)"
  using assms
proof (induction obs bad need spacing count previous rule: absence_scan.induct)
  case (2 ob obs bad need spacing count previous)
  let ?take = "count = 0 \<or> spacing \<le> Sub previous (ob_FinishedAt ob)"
  let ?c = "if ?take then count + 1 else count"
  let ?p = "if ?take then ob_FinishedAt ob else previous"
  have good: "\<not> bad ob" using 2(2) by (auto split: if_splits)
  show ?case
  proof (cases "need \<le> ?c")
    case True
    then have "?take" "need - count = 1" using 2(4) by (auto split: if_splits)
    then show ?thesis using good by (intro exI [of _ "[ob]"]) auto
  next
    case False
    have "absence_scan obs bad need spacing ?c ?p" using 2(2) good False by (simp add: Let_def)
    moreover have "0 \<le> ?c" "?c < need" using False 2(3) by auto
    ultimately obtain ss where ss: "subseq ss obs" "int (length ss) = need - ?c" "\<forall>ob \<in> set ss. \<not> bad ob"
      "successively (\<lambda>t t'. spacing \<le> Sub t t') ((if ?c = 0 then [] else [?p]) @ map ob_FinishedAt ss)"
      "?c = 0 \<longrightarrow> ss \<noteq> [] \<and> hd ss = hd obs"
      using 2(1) [OF good refl refl refl False] by blast
    show ?thesis
    proof (cases ?take)
      case True
      then have "?c = count + 1" "?p = ob_FinishedAt ob" by auto
      then show ?thesis using ss good True 2(3) by (intro exI [of _ "ob # ss"]) (auto simp: successively_Cons)
    next
      case False
      then show ?thesis using ss 2(3) by (intro exI [of _ ss]) auto
    qed
  qed
qed simp

text \<open>
  C16. Address space is never judged free on thin evidence: an allocation is eligible for reclamation
  only when it is quarantined, owned and its quarantine is over, when no child is left and nothing is
  pending in its domain, and when at least two stored scans of its domain, the latest among them, are
  trusted, were started after the release, show nothing in the block, and lie apart by the configured
  spacing.
\<close>

theorem reclaim_needs_spaced_absence:
  assumes "reclaimEligible st a cfg now"
  shows "\<exists>requested until ss.
    a_ReleaseRequestedAt a = Some requested \<and> a_QuarantineUntil a = Some until \<and> until \<le> now \<and>
    a_State a = Quarantined \<and> a_Committed a \<and>
    (\<forall>c \<in> set (mvals (Allocations st)). a_ParentAllocationID c = a_ID a \<longrightarrow> a_State c = Released) \<and>
    (\<forall>x \<in> set (mvals (Operations st)). o_DomainID x = a_DomainID a \<longrightarrow> o_Status x \<noteq> operationPending) \<and>
    subseq ss (observations_at st (a_DomainID a)) \<and> 2 \<le> length ss \<and> int (length ss) = scans_needed cfg \<and>
    List.last ss = List.last (observations_at st (a_DomainID a)) \<and>
    (\<forall>ob \<in> set ss. trustedObservation ob (domainFor cfg (a_DomainID a)) now (lc_MaxObservationAge (c_Lifecycle cfg)) \<and>
       requested \<le> ob_StartedAt ob \<and> \<not> observationConflict a ob (parent_binding_resource st a)) \<and>
    successively (\<lambda>ob ob'. Seconds (scan_spacing cfg) \<le> Sub (ob_FinishedAt ob') (ob_FinishedAt ob)) ss"
proof -
  let ?obs = "observations_at st (a_DomainID a)"
  obtain requested until where ru: "a_ReleaseRequestedAt a = Some requested" "a_QuarantineUntil a = Some until"
    using assms by (auto simp: reclaimEligible_def split: option.splits)
  note e = assms [unfolded reclaimEligible_def ru option.case prod.case]
  have scan: "absence_scan (rev ?obs) (scan_rejects st a cfg now requested) (scans_needed cfg)
      (Seconds (scan_spacing cfg)) 0 0" and ne: "?obs \<noteq> []"
    using e by (auto split: if_splits)
  have two: "2 \<le> scans_needed cfg" by (simp add: scans_needed_def Let_def)
  obtain ss where ss: "subseq ss (rev ?obs)" "int (length ss) = scans_needed cfg"
      "\<forall>ob \<in> set ss. \<not> scan_rejects st a cfg now requested ob"
      "successively (\<lambda>t t'. Seconds (scan_spacing cfg) \<le> Sub t t') (map ob_FinishedAt ss)"
      "ss \<noteq> []" "hd ss = hd (rev ?obs)"
    using absence_scan_sound [OF scan] two by auto
  have "subseq (rev ss) ?obs" using subseq_rev [OF ss(1)] by simp
  moreover have "List.last (rev ss) = List.last ?obs" using ss(5,6) ne by (simp add: last_rev hd_rev)
  moreover have "2 \<le> length (rev ss)" "int (length (rev ss)) = scans_needed cfg" using ss(2) two by auto
  moreover have "successively (\<lambda>ob ob'. Seconds (scan_spacing cfg) \<le> Sub (ob_FinishedAt ob') (ob_FinishedAt ob)) (rev ss)"
    using ss(4) by (simp add: successively_map)
  moreover have "\<forall>ob \<in> set (rev ss).
      trustedObservation ob (domainFor cfg (a_DomainID a)) now (lc_MaxObservationAge (c_Lifecycle cfg)) \<and>
      requested \<le> ob_StartedAt ob \<and> \<not> observationConflict a ob (parent_binding_resource st a)"
    using ss(3) by (auto simp: scan_rejects_def)
  moreover have "until \<le> now" "a_State a = Quarantined" "a_Committed a"
    "\<forall>c \<in> set (mvals (Allocations st)). a_ParentAllocationID c = a_ID a \<longrightarrow> a_State c = Released"
    "\<forall>x \<in> set (mvals (Operations st)). o_DomainID x = a_DomainID a \<longrightarrow> o_Status x \<noteq> operationPending"
    using e by (auto simp: list_ex_iff split: if_splits)
  ultimately show ?thesis using ru by blast
qed

lemma reclaim_finish_releases:
  assumes "reclaim_finish E k job failed post postObs paws st = Inr (st', u)" "ledger_ok st"
    and "mget (Allocations st) i = Some a" "a_State a \<noteq> Released"
    and "mget (Allocations st') i = Some a'" "a_State a' = Released"
  shows "i = a_ID (fst job) \<and> \<not> failed \<and> reclaimFence st a (o_ID (snd job)) (v_cfg E) (v_now E k) \<and>
    \<not> post_delete_bad E (k + 1) a post postObs paws"
proof -
  let ?a = "allocation_at st (a_ID (fst job))"
  have wait: "mget (Allocations (reclaim_wait st b x now ob)) i =
      (if i = a_ID b then Some (b\<lparr>a_ReleaseBlockers := [''post_delete_verification_pending'']\<rparr>) else Some a)"
    for b x now ob
    using assms(3) by (simp add: reclaim_wait_def record_optional_def split: option.split)
  have key: "?a = a \<and> i = a_ID (fst job)" if "i = a_ID ?a"
  proof -
    have "a_ID ?a \<noteq> []" using that ledger_okD(4) [OF assms(2,3)] by simp
    then have m: "mget (Allocations st) (a_ID (fst job)) = Some ?a" by (rule at_Some(1))
    then have "i = a_ID (fst job)" using that ledger_okD(4) [OF assms(2)] by metis
    then show ?thesis using m assms(3) by (metis option.inject)
  qed
  let ?go = "\<not> failed \<and> reclaimFence st ?a (o_ID (snd job)) (v_cfg E) (v_now E k) \<and>
    \<not> post_delete_bad E (k + 1) ?a post postObs paws"
  show ?thesis
  proof (cases ?go)
    case True
    then have "Allocations st' = mput (a_ID ?a) (released_allocation ?a (v_now E (k + 2))) (Allocations st)"
      using assms(1) by (auto simp: reclaim_finish_def Let_def)
    then have "i = a_ID ?a" using assms(3-6) by (auto split: if_splits)
    then show ?thesis using key True by metis
  next
    case False
    then obtain x now where "st' = reclaim_wait st ?a x now postObs"
      using assms(1) by (auto simp: reclaim_finish_def Let_def split: if_splits)
    then have "Some a' = (if i = a_ID ?a then Some (?a\<lparr>a_ReleaseBlockers := [''post_delete_verification_pending'']\<rparr>)
        else Some a)" using wait assms(5) by simp
    then show ?thesis using key assms(4,6) by (auto split: if_splits)
  qed
qed

lemma reclaim_run_releases:
  assumes "undisturbed E" and "reachable st" and "reclaim_run E k job st = (st', err)"
    and "mget (Allocations st) i = Some a" and "a_State a \<noteq> Released"
    and "mget (Allocations st') i = Some a'" and "a_State a' = Released"
  shows "\<exists>iv pre post ob. v_inventory E = Some iv \<and> i = a_ID (fst job) \<and>
    inv_Snapshot iv (2 * k) (domainFor (v_cfg E) (a_DomainID (fst job))) = Inr pre \<and>
    sn_Complete pre \<and> \<not> snapshotConflict (fst job) pre \<and> inv_Delete iv k (fst job) = None \<and>
    inv_Snapshot iv (2 * k + 1) (domainFor (v_cfg E) (a_DomainID (fst job))) = Inr post \<and>
    sn_Complete post \<and> \<not> snapshotConflict a post \<and>
    observe E k (domainFor (v_cfg E) (a_DomainID (fst job))) = Inr (Some ob) \<and>
    trustedObservation ob (domainFor (v_cfg E) (a_DomainID a)) (v_now E (10 * (k + 1) + 3))
      (lc_MaxObservationAge (c_Lifecycle (v_cfg E))) \<and>
    \<not> observationConflict a ob (parent_binding_resource st (fst job)) \<and>
    reclaimFence st a (o_ID (snd job)) (v_cfg E) (v_now E (10 * (k + 1) + 2))"
proof -
  let ?d = "domainFor (v_cfg E) (a_DomainID (fst job))"
  let ?w = "parent_binding_resource st (fst job)"
  let ?c = "reclaimFence st (allocation_at st (a_ID (fst job))) (o_ID (snd job)) (v_cfg E) (v_now E (10 * (k + 1)))"
  note u = undisturbed_simps [OF assms(1)]
  have view: "view E (10 * (k + 1)) (reclaim_fence_read E (10 * (k + 1)) job) st = (st, Inr (?c, ?w))"
    by (simp add: u(1) reclaim_fence_read_def)
  have changed: "st' \<noteq> st" using assms(4-7) by auto
  obtain iv where iv: "v_inventory E = Some iv"
    using changed assms(3) by (auto simp: reclaim_run_def split: option.splits)
  have c: "?c" using changed assms(3) unfolding reclaim_run_def iv option.case view by (auto split: bool.splits)
  obtain pre where pre: "inv_Snapshot iv (2 * k) ?d = Inr pre" "sn_Complete pre" "\<not> snapshotConflict (fst job) pre"
    using changed assms(3) unfolding reclaim_run_def iv option.case view Let_def
    by (auto split: bool.splits sum.splits if_splits)
  define post where "post = inv_Snapshot iv (2 * k + 1) ?d"
  define postObs where "postObs = (case observe E k ?d of Inl _ \<Rightarrow> None | Inr ob \<Rightarrow> ob)"
  define failed where "failed \<longleftrightarrow> inv_Delete iv k (fst job) \<noteq> None
    \<or> post_delete_bad E (10 * (k + 1) + 1) (fst job) post postObs ?w"
  let ?fin = "reclaim_finish E (10 * (k + 1) + 2) job failed post postObs ?w"
  have "reclaim_run E k job st = (case update E (10 * (k + 1) + 1) ?fin st of
      (st2, Inl e) \<Rightarrow> (st2, Some e) | (st2, Inr _) \<Rightarrow> (st2, None))"
    using c pre unfolding reclaim_run_def iv option.case view Let_def post_def postObs_def failed_def by simp
  then obtain r where fin: "?fin st = Inr (st', r)"
    using assms(3) changed u(4) [of "10 * (k + 1) + 1" ?fin st] by (auto split: sum.splits prod.splits)
  note f = reclaim_finish_releases [OF fin reachable_ok [OF assms(2)] assms(4-7)]
  have bad: "\<not> post_delete_bad E (10 * (k + 1) + 3) a post postObs ?w" using f by (simp add: add.commute)
  obtain sn where sn: "post = Inr sn" "sn_Complete sn" "\<not> snapshotConflict a sn"
    using bad by (auto simp: post_delete_bad_def split: sum.splits)
  obtain ob where ob: "postObs = Some ob"
      "trustedObservation ob (domainFor (v_cfg E) (a_DomainID a)) (v_now E (10 * (k + 1) + 3))
        (lc_MaxObservationAge (c_Lifecycle (v_cfg E)))" "\<not> observationConflict a ob ?w"
    using bad by (auto simp: post_delete_bad_def split: option.splits)
  have "observe E k ?d = Inr (Some ob)" using ob(1) by (auto simp: postObs_def split: sum.splits)
  then show ?thesis using f iv pre sn ob(2,3) by (auto simp: failed_def post_def)
qed

text \<open>
  C17. Space is returned only after verified deletion: a reclamation job turns a row into a released one
  only when the inventory reported the deletion done, when the complete inventory snapshots before and
  after it and a trusted observation after it show nothing else in the block, and when the deletion
  intent is still pending and the ledger's own evidence of absence still holds at that moment.
\<close>

theorem release_needs_verified_deletion:
  assumes "undisturbed E" and "reachable st" and "reclaim_run E k job st = (st', err)"
    and "mget (Allocations st) i = Some a" and "a_State a \<noteq> Released"
    and "mget (Allocations st') i = Some a'" and "a_State a' = Released"
  shows "\<exists>iv pre post ob. v_inventory E = Some iv \<and> i = a_ID (fst job) \<and>
    inv_Snapshot iv (2 * k) (domainFor (v_cfg E) (a_DomainID (fst job))) = Inr pre \<and>
    sn_Complete pre \<and> \<not> snapshotConflict (fst job) pre \<and> inv_Delete iv k (fst job) = None \<and>
    inv_Snapshot iv (2 * k + 1) (domainFor (v_cfg E) (a_DomainID (fst job))) = Inr post \<and>
    sn_Complete post \<and> \<not> snapshotConflict a post \<and>
    observe E k (domainFor (v_cfg E) (a_DomainID (fst job))) = Inr (Some ob) \<and>
    trustedObservation ob (domainFor (v_cfg E) (a_DomainID a)) (v_now E (10 * (k + 1) + 3))
      (lc_MaxObservationAge (c_Lifecycle (v_cfg E))) \<and>
    \<not> observationConflict a ob (parent_binding_resource st (fst job)) \<and>
    reclaimFence st a (o_ID (snd job)) (v_cfg E) (v_now E (10 * (k + 1) + 2))"
  using assms by (rule reclaim_run_releases)

text \<open>The example estate an hour later: the allocation was released, scanned twice and planned for deletion.\<close>

definition ex_later :: time where
  "ex_later = ex_start + 4600000000000"

definition ex_scan :: "time \<Rightarrow> Observation" where
  "ex_scan t = ex_observation\<lparr>ob_StartedAt := t, ob_FinishedAt := t\<rparr>"

definition ex_env5 :: Env where
  "ex_env5 = ex_env\<lparr>v_rand := \<lambda>k. [4, of_nat k], v_now := \<lambda>k. ex_later,
     v_observer := Some (\<lambda>k d. Inr (ex_scan ex_later))\<rparr>"

definition after :: "'r txn \<Rightarrow> State \<Rightarrow> State" where
  "after fn st = (case fn st of Inr (st', _) \<Rightarrow> st' | Inl _ \<Rightarrow> st)"

definition ex_scanned :: State where
  "ex_scanned =
     after (tick_observe_txn ex_env5 ex_domain (Inr (Some (ex_scan (ex_later - 100000000000)))))
      (after (tick_observe_txn ex_env5 ex_domain (Inr (Some (ex_scan (ex_later - 200000000000)))))
        (after (release_txn ex_env ex_principal ''alloc_00'') ex_st1))"

definition ex_planned :: State where
  "ex_planned = after (reclaim_plan ex_env5) ex_scanned"

definition ex_job :: reclaim_job where
  "ex_job = (case reclaim_plan ex_env5 ex_scanned of Inr (_, job # _) \<Rightarrow> job
     | _ \<Rightarrow> (zero_Allocation, zero_Operation))"

lemma after_run:
  assumes "reachable st" "\<And>st' r. fn st = Inr (st', r) \<Longrightarrow> ledger_step st st'"
  shows "reachable (after fn st)"
proof -
  have "after fn st = st \<or> ledger_step st (after fn st)"
    using assms(2) by (auto simp: after_def split: sum.split prod.split)
  then show ?thesis using assms(1) unfolding reachable_def by (metis rtranclp.rtrancl_into_rtrancl)
qed

lemma ex_scanned_reachable: "reachable ex_scanned"
  unfolding ex_scanned_def
  by (intro after_run ex_reachable) (auto intro: ledger_step.observed ledger_step.release)

lemma ex_planned_reachable: "reachable ex_planned"
proof -
  have "ids_fresh ex_env5 ex_scanned" by code_simp
  then show ?thesis
    unfolding ex_planned_def using after_run [OF ex_scanned_reachable] ledger_step.reclaim by blast
qed

lemma ex_undisturbed5: "undisturbed ex_env5"
  by (simp add: undisturbed_def quiet_def ledgerReady_def ex_env_def ex_env5_def)

theorem reclaim_needs_spaced_absence_witness:
  "\<exists>ss. subseq ss (observations_at ex_scanned ''corp'') \<and> 2 \<le> length ss"
proof -
  let ?a = "allocation_at ex_scanned ''alloc_00''"
  have e: "reclaimEligible ex_scanned ?a ex_config ex_later" and d: "a_DomainID ?a = ''corp''"
    by code_simp+
  show ?thesis using reclaim_needs_spaced_absence [OF e] unfolding d by blast
qed

theorem release_needs_verified_deletion_witness:
  "inv_Delete ex_inventory 0 (fst ex_job) = None \<and> \<not> snapshotConflict (fst ex_job) ex_snapshot"
proof -
  let ?r = "reclaim_run ex_env5 0 ex_job ex_planned"
  have r: "?r = (fst ?r, snd ?r)" by simp
  obtain a where a: "mget (Allocations ex_planned) ''alloc_00'' = Some a" "a_State a \<noteq> Released"
  proof -
    have "(case mget (Allocations ex_planned) ''alloc_00'' of Some a \<Rightarrow> a_State a \<noteq> Released | None \<Rightarrow> False)"
      by code_simp
    then show thesis using that by (auto split: option.splits)
  qed
  obtain a' where a': "mget (Allocations (fst ?r)) ''alloc_00'' = Some a'" "a_State a' = Released"
  proof -
    have "(case mget (Allocations (fst ?r)) ''alloc_00'' of Some a \<Rightarrow> a_State a = Released | None \<Rightarrow> False)"
      by code_simp
    then show thesis using that by (auto split: option.splits)
  qed
  show ?thesis
    using release_needs_verified_deletion [OF ex_undisturbed5 ex_planned_reachable r a a']
    by (auto simp: ex_env5_def ex_env_def ex_inventory_def)
qed

section \<open>Binding\<close>

lemma bind_read_Inr:
  assumes "bind_read p i b st = Inr br"
  obtains a where "mget (Allocations st) i = Some a" "a_TenantID a = p_TenantID p" "a_Committed a"
    "br_Key br = a_AllocationKey a" "br_CIDR br = a_CIDR a" "br_AZ br = a_AvailabilityZoneID a"
    "br_Parent br = bind_parent st a" "b_ResourceType b = a_Scope a" "b_AccountID b = a_AccountID a"
    "b_Region b = a_Region a"
proof -
  obtain a where a: "mget (Allocations st) i = Some a" "a_TenantID a = p_TenantID p" "a_Committed a"
    using assms by (auto simp: bind_read_def split: option.splits if_splits)
  have "br_Key br = a_AllocationKey a \<and> br_CIDR br = a_CIDR a \<and> br_AZ br = a_AvailabilityZoneID a \<and>
      br_Parent br = bind_parent st a \<and> b_ResourceType b = a_Scope a \<and> b_AccountID b = a_AccountID a \<and>
      b_Region b = a_Region a"
    using assms a by (auto simp: bind_read_def Let_def split: option.splits if_splits)
  then show thesis using that a by blast
qed

lemma finish_binding_Inr:
  assumes "finish_binding_txn E i op0 b st = Inr (st', (a', x'))"
  obtains a x where "mget (Allocations st) i = Some a" "a_State a = Reserved" "a_Binding a = None"
    "mget (Allocations st') i = Some a'" "a' = bound_allocation a (b\<lparr>b_VerifiedAt := Some (v_now E 5)\<rparr>) (v_now E 5)"
    "x = operation_at st (o_ID op0)" "o_Status x = operationPending" "x' = succeeded_operation x i (v_now E 5)"
    "\<And>j. j \<noteq> i \<Longrightarrow> mget (Allocations st') j = mget (Allocations st) j"
    "a_Scope a = ''subnet'' \<Longrightarrow> \<exists>q. mget (Allocations st) (a_ParentAllocationID a) = Some q \<and> a_State q = Active \<and> a_Binding q \<noteq> None"
  using assms that
  by (auto simp: finish_binding_txn_def Let_def split: option.splits if_splits)

lemma pending_row:
  assumes "ledger_ok st" "pendingForAllocation st i = Some x"
  shows "mget (Operations st) (o_ID x) = Some x"
proof -
  have "x \<in> set (mvals (Operations st))"
    using assms(2) by (auto simp: pendingForAllocation_def find_Some_iff)
  then obtain k where "mget (Operations st) k = Some x"
    using mvals_mget ledger_okD(2) [OF assms(1)] by metis
  then show ?thesis using ledger_okD(5) [OF assms(1)] by metis
qed

lemma bind_read_op:
  "bind_read p i b st = Inr br \<Longrightarrow> br_Op br = Some x \<Longrightarrow> pendingForAllocation st i = Some x"
  by (auto simp: bind_read_def Let_def split: option.splits if_splits)

lemma bind_plan_row:
  assumes "bind_plan E p i b key op0 st = Inr (st', Some x)"
    and "\<And>y. op0 = Some y \<Longrightarrow> pendingForAllocation st i = Some y"
    and "\<And>y. pendingForAllocation st i = Some y \<Longrightarrow> mget (Operations st) (o_ID y) = Some y"
  shows "mget (Operations st') (o_ID x) = Some x"
  using assms by (auto simp: bind_plan_def Let_def split: option.splits if_splits)


definition ex_vpc :: Resource where
  "ex_vpc = \<lparr>x_AccountID = ''1'', x_Region = ''r'', x_Type = ''vpc'', x_ID = ''vpc-1'', x_CIDR = ''10.0.1.0/24'',
     x_CIDRs = [], x_ParentID = [], x_ZoneID = [],
     x_Tags = [(''platform-ipam:allocation-id'', ''alloc_00''), (''platform-ipam:allocation-key'', ''k1'')],
     x_State = ''available''\<rparr>"

definition ex_binding :: Binding where
  "ex_binding = \<lparr>b_Provider = ''aws'', b_ResourceType = ''vpc'', b_ResourceID = ''vpc-1'', b_AccountID = ''1'',
     b_Region = ''r'', b_VerifiedAt = None\<rparr>"

definition ex_env6 :: Env where
  "ex_env6 = ex_env\<lparr>v_rand := \<lambda>k. [5, of_nat k],
     v_observer := Some (\<lambda>k d. Inr (ex_observation\<lparr>ob_Resources := [ex_vpc]\<rparr>))\<rparr>"


end
