(* ===== verification/FindingViews.thy ===== *)
theory FindingViews
  imports ServiceBase
begin

text \<open>
  The two views of the findings (\<open>Service.Findings\<close>): a tenant's own, and the operator's view of a
  whole domain, in which the per-tenant copies of one fact about a resource are collapsed into one
  row (\<open>operatorFindings\<close>, \<open>collapseOccupancy\<close>).
\<close>

section \<open>The views\<close>

record occupancyGroup =
  og_domainID :: string
  og_code :: string
  og_accountID :: string
  og_region :: string
  og_resourceType :: string
  og_resourceID :: string

definition group_key :: "Finding \<Rightarrow> occupancyGroup" where
  "group_key f = \<lparr>og_domainID = f_DomainID f, og_code = f_Code f, og_accountID = f_AccountID f,
     og_region = f_Region f, og_resourceType = f_ResourceType f, og_resourceID = f_ResourceID f\<rparr>"

definition domainLevelFinding :: "Finding \<Rightarrow> bool" where
  "domainLevelFinding f \<longleftrightarrow> f_AllocationID f = [] \<and> f_ResourceType f \<noteq> [] \<and> f_ResourceID f \<noteq> []"

definition findingSeverityRank :: "string \<Rightarrow> nat" where
  "findingSeverityRank s =
     (if s = ''CRITICAL'' then 3 else if s = ''WARNING'' then 2 else if s = ''INFO'' then 1 else 0)"

definition collapse_step :: "Finding \<Rightarrow> Finding \<Rightarrow> Finding" where
  "collapse_step f out =
     (let o1 = (if f_FirstObservedAt f < f_FirstObservedAt out
                then out\<lparr>f_FirstObservedAt := f_FirstObservedAt f\<rparr> else out);
          o2 = (if f_LastObservedAt o1 < f_LastObservedAt f
                then o1\<lparr>f_LastObservedAt := f_LastObservedAt f\<rparr> else o1);
          o3 = (if findingSeverityRank (f_Severity o2) < findingSeverityRank (f_Severity f)
                then o2\<lparr>f_Severity := f_Severity f\<rparr> else o2)
      in if f_Status f = ''OPEN'' then o3\<lparr>f_Status := ''OPEN''\<rparr> else o3)"

text \<open>\<open>members\<close> is never empty; indexing an empty slice would panic, and the model answers the zero row.\<close>

definition collapseOccupancy :: "Finding list \<Rightarrow> Finding" where
  "collapseOccupancy members =
     (case sort_by f_ID members of
        [] \<Rightarrow> zero_Finding
      | f # fs \<Rightarrow> fold collapse_step fs (f\<lparr>f_TenantID := []\<rparr>))"

definition group_add :: "Finding \<Rightarrow> (occupancyGroup \<times> Finding list) list \<Rightarrow> (occupancyGroup \<times> Finding list) list"
where
  "group_add f groups =
     AList.update (group_key f)
       ((case map_of groups (group_key f) of None \<Rightarrow> [] | Some fs \<Rightarrow> fs) @ [f]) groups"

definition finding_groups :: "Finding list \<Rightarrow> (occupancyGroup \<times> Finding list) list" where
  "finding_groups fs = fold group_add fs []"

definition operatorFindings :: "State \<Rightarrow> Finding list" where
  "operatorFindings st =
     (let stored = mvals (Findings st)
      in sort_by f_ID
           (filter (\<lambda>f. \<not> domainLevelFinding f) stored
            @ map (\<lambda>g. collapseOccupancy (snd g)) (finding_groups (filter domainLevelFinding stored))))"

text \<open>\<open>FindingsView\<close> is the closure \<open>Findings\<close> runs against the ledger.\<close>

definition FindingsView :: "Principal \<Rightarrow> State \<Rightarrow> Finding list" where
  "FindingsView p st =
     (if IsOperator p then operatorFindings st
      else sort_by f_ID (filter (\<lambda>f. f_TenantID f = p_TenantID p) (mvals (Findings st))))"

section \<open>Collapsing one group\<close>

lemma collapse_step_simps [simp]:
  "f_ID (collapse_step f out) = f_ID out" "f_TenantID (collapse_step f out) = f_TenantID out"
  "f_FirstObservedAt (collapse_step f out) = min (f_FirstObservedAt f) (f_FirstObservedAt out)"
  "f_LastObservedAt (collapse_step f out) = max (f_LastObservedAt f) (f_LastObservedAt out)"
  "findingSeverityRank (f_Severity (collapse_step f out)) =
     max (findingSeverityRank (f_Severity f)) (findingSeverityRank (f_Severity out))"
  "f_Status (collapse_step f out) = ''OPEN'' \<longleftrightarrow> f_Status f = ''OPEN'' \<or> f_Status out = ''OPEN''"
  by (simp_all add: collapse_step_def Let_def min_def max_def)

lemma collapse_step_key [simp]:
  "f_DomainID (collapse_step f out) = f_DomainID out" "f_Code (collapse_step f out) = f_Code out"
  "f_AccountID (collapse_step f out) = f_AccountID out" "f_Region (collapse_step f out) = f_Region out"
  "f_ResourceType (collapse_step f out) = f_ResourceType out"
  "f_ResourceID (collapse_step f out) = f_ResourceID out"
  by (simp_all add: collapse_step_def Let_def)

lemma Min_merge: "finite S \<Longrightarrow> Min (insert (min x y) S) = min x (Min (insert y S))"
  for x y :: "'a :: linorder"
  by (cases "S = {}") (simp_all add: min.assoc)

lemma Max_merge: "finite S \<Longrightarrow> Max (insert (max x y) S) = max x (Max (insert y S))"
  for x y :: "'a :: linorder"
  by (cases "S = {}") (simp_all add: max.assoc)

lemma Min_shift: "finite S \<Longrightarrow> Min (insert (min x y) S) = Min (insert y (insert x S))"
  for x y :: "'a :: linorder"
  by (simp add: Min_merge insert_commute [of y])

lemma Max_shift: "finite S \<Longrightarrow> Max (insert (max x y) S) = Max (insert y (insert x S))"
  for x y :: "'a :: linorder"
  by (simp add: Max_merge insert_commute [of y])

lemma fold_collapse_rest [simp]:
  "f_ID (fold collapse_step fs out) = f_ID out"
  "f_TenantID (fold collapse_step fs out) = f_TenantID out"
  "group_key (fold collapse_step fs out) = group_key out"
  "f_Status (fold collapse_step fs out) = ''OPEN'' \<longleftrightarrow> (\<exists>f \<in> insert out (set fs). f_Status f = ''OPEN'')"
  by (induction fs arbitrary: out) (auto simp: group_key_def)

lemma fold_collapse:
  "f_FirstObservedAt (fold collapse_step fs out) = Min (insert (f_FirstObservedAt out) (f_FirstObservedAt ` set fs))"
  "f_LastObservedAt (fold collapse_step fs out) = Max (insert (f_LastObservedAt out) (f_LastObservedAt ` set fs))"
  "findingSeverityRank (f_Severity (fold collapse_step fs out)) =
     Max (insert (findingSeverityRank (f_Severity out)) ((\<lambda>f. findingSeverityRank (f_Severity f)) ` set fs))"
  by (induction fs arbitrary: out) (simp_all add: Min_shift Max_shift del: Min_insert Max_insert)

lemma sort_head:
  assumes "sort_by f_ID fs = g # gs"
  shows "g \<in> set fs" "insert g (set gs) = set fs" "\<forall>f \<in> set fs. f_ID g \<le> f_ID f"
proof -
  have s: "set (g # gs) = set fs" using assms set_sort_by by metis
  then show "g \<in> set fs" "insert g (set gs) = set fs" by auto
  have "sorted (map f_ID (g # gs))" using sorted_sort_by [of f_ID fs] assms by simp
  then show "\<forall>f \<in> set fs. f_ID g \<le> f_ID f" using s by auto
qed


lemma collapseOccupancy_facts:
  assumes "fs \<noteq> []"
  shows "f_ID (collapseOccupancy fs) = Min (f_ID ` set fs)"
    and "f_TenantID (collapseOccupancy fs) = []"
    and "f_FirstObservedAt (collapseOccupancy fs) = Min (f_FirstObservedAt ` set fs)"
    and "f_LastObservedAt (collapseOccupancy fs) = Max (f_LastObservedAt ` set fs)"
    and "findingSeverityRank (f_Severity (collapseOccupancy fs)) =
           Max ((\<lambda>f. findingSeverityRank (f_Severity f)) ` set fs)"
    and "f_Status (collapseOccupancy fs) = ''OPEN'' \<longleftrightarrow> (\<exists>f \<in> set fs. f_Status f = ''OPEN'')"
    and "\<exists>f \<in> set fs. group_key (collapseOccupancy fs) = group_key f"
proof -
  have "sort_by f_ID fs \<noteq> []" using assms length_sort_by [of f_ID fs] by (metis length_0_conv)
  then obtain g gs where g: "sort_by f_ID fs = g # gs" by (cases "sort_by f_ID fs") auto
  note h = sort_head [OF g]
  have eq: "collapseOccupancy fs = fold collapse_step gs (g\<lparr>f_TenantID := []\<rparr>)"
    by (simp add: collapseOccupancy_def g)
  have im: "insert (h g) (h ` set gs) = h ` set fs" for h :: "Finding \<Rightarrow> 'c"
    using image_insert [of h g "set gs"] h(2) by simp
  show "f_TenantID (collapseOccupancy fs) = []" by (simp add: eq)
  show "f_ID (collapseOccupancy fs) = Min (f_ID ` set fs)"
    using h by (auto simp: eq intro!: Min_eqI [symmetric])
  show "f_FirstObservedAt (collapseOccupancy fs) = Min (f_FirstObservedAt ` set fs)"
    using fold_collapse(1) [of gs "g\<lparr>f_TenantID := []\<rparr>"] im [of f_FirstObservedAt] by (simp add: eq)
  show "f_LastObservedAt (collapseOccupancy fs) = Max (f_LastObservedAt ` set fs)"
    using fold_collapse(2) [of gs "g\<lparr>f_TenantID := []\<rparr>"] im [of f_LastObservedAt] by (simp add: eq)
  show "findingSeverityRank (f_Severity (collapseOccupancy fs)) =
      Max ((\<lambda>f. findingSeverityRank (f_Severity f)) ` set fs)"
    using fold_collapse(3) [of gs "g\<lparr>f_TenantID := []\<rparr>"]
      im [of "\<lambda>f. findingSeverityRank (f_Severity f)"] by (simp add: eq)
  show "f_Status (collapseOccupancy fs) = ''OPEN'' \<longleftrightarrow> (\<exists>f \<in> set fs. f_Status f = ''OPEN'')"
    using h(2) by (auto simp: eq)
  have "group_key (g\<lparr>f_TenantID := []\<rparr>) = group_key g" by (simp add: group_key_def)
  then have "group_key (collapseOccupancy fs) = group_key g" by (simp add: eq)
  then show "\<exists>f \<in> set fs. group_key (collapseOccupancy fs) = group_key f" using h(1) by blast
qed

section \<open>Grouping\<close>

definition groups_ok :: "Finding list \<Rightarrow> (occupancyGroup \<times> Finding list) list \<Rightarrow> bool" where
  "groups_ok fs groups \<longleftrightarrow> distinct (map fst groups) \<and>
     (\<forall>(k, ms) \<in> set groups. ms \<noteq> [] \<and> (\<forall>f \<in> set ms. group_key f = k)) \<and>
     \<Union> ((\<lambda>g. set (snd g)) ` set groups) = set fs"

lemma group_add_rows:
  assumes "distinct (map fst groups)"
  shows "set (group_add f groups) =
    insert (group_key f, (case map_of groups (group_key f) of None \<Rightarrow> [] | Some ms \<Rightarrow> ms) @ [f])
      {g \<in> set groups. fst g \<noteq> group_key f}"
proof -
  have d: "distinct (map fst (group_add f groups))"
    using assms by (simp add: group_add_def distinct_update)
  have "(k, v) \<in> set (group_add f groups) \<longleftrightarrow> map_of (group_add f groups) k = Some v" for k v
    using d by (simp add: map_of_eq_Some_iff)
  moreover have "(k, v) \<in> set groups \<longleftrightarrow> map_of groups k = Some v" for k v
    using assms by (simp add: map_of_eq_Some_iff)
  ultimately show ?thesis by (auto simp: group_add_def update_conv split: if_splits)
qed

lemma group_add_ok:
  assumes "groups_ok fs groups"
  shows "groups_ok (fs @ [f]) (group_add f groups)"
proof -
  define old where "old = (case map_of groups (group_key f) of None \<Rightarrow> [] | Some ms \<Rightarrow> ms)"
  define rest where "rest = {g \<in> set groups. fst g \<noteq> group_key f}"
  have d: "distinct (map fst groups)"
    and m: "\<And>k ms. (k, ms) \<in> set groups \<Longrightarrow> ms \<noteq> [] \<and> (\<forall>f \<in> set ms. group_key f = k)"
    and u: "\<Union> ((\<lambda>g. set (snd g)) ` set groups) = set fs"
    using assms by (auto simp: groups_ok_def)
  have rows: "set (group_add f groups) = insert (group_key f, old @ [f]) rest"
    by (simp add: group_add_rows [OF d] old_def rest_def)
  have old: "set old = \<Union> ((\<lambda>g. set (snd g)) ` {g \<in> set groups. fst g = group_key f})"
  proof (cases "map_of groups (group_key f)")
    case None
    then have "{g \<in> set groups. fst g = group_key f} = {}" by (force simp: map_of_eq_None_iff)
    then show ?thesis by (simp only: old_def None option.case image_empty Union_empty set_empty2 list.set)
  next
    case (Some ms)
    then have "{g \<in> set groups. fst g = group_key f} = {(group_key f, ms)}"
      using d by (auto simp: map_of_eq_Some_iff dest: eq_key_imp_eq_value)
    then show ?thesis by (simp add: old_def Some)
  qed
  have "set groups = {g \<in> set groups. fst g = group_key f} \<union> rest" by (auto simp: rest_def)
  then have "set fs = set old \<union> \<Union> ((\<lambda>g. set (snd g)) ` rest)"
    using u old UN_Un [of "\<lambda>g. set (snd g)" "{g \<in> set groups. fst g = group_key f}" rest] by argo
  moreover have "\<forall>g \<in> set old. group_key g = group_key f" using m by (auto simp: old)
  moreover have "distinct (map fst (group_add f groups))"
    using d by (simp add: group_add_def distinct_update)
  ultimately show ?thesis
    unfolding groups_ok_def rows by (auto simp: rest_def dest: m)
qed

lemma finding_groups_ok: "groups_ok fs (finding_groups fs)"
proof -
  have "groups_ok gs groups \<Longrightarrow> groups_ok (gs @ fs) (fold group_add fs groups)" for gs groups
  proof (induction fs arbitrary: gs groups)
    case (Cons f fs)
    then show ?case using group_add_ok by fastforce
  qed simp
  from this [of "[]" "[]"] show ?thesis by (simp add: finding_groups_def groups_ok_def)
qed


lemma finding_groupsD:
  assumes "(k, ms) \<in> set (finding_groups fs)"
  shows "ms \<noteq> []" "set ms \<subseteq> set fs" "\<And>f. f \<in> set ms \<Longrightarrow> group_key f = k"
proof -
  note ok = finding_groups_ok [of fs, unfolded groups_ok_def]
  show "ms \<noteq> []" "\<And>f. f \<in> set ms \<Longrightarrow> group_key f = k" using ok assms by auto
  show "set ms \<subseteq> set fs" using ok assms by force
qed

lemma finding_groups_cover:
  "f \<in> set fs \<Longrightarrow> \<exists>ms. (group_key f, ms) \<in> set (finding_groups fs) \<and> f \<in> set ms"
proof -
  assume "f \<in> set fs"
  then have "f \<in> (\<Union>g \<in> set (finding_groups fs). set (snd g))"
    using finding_groups_ok [of fs] unfolding groups_ok_def by blast
  then obtain k ms where g: "(k, ms) \<in> set (finding_groups fs)" "f \<in> set ms" by auto
  then show ?thesis using finding_groupsD(3) [OF g] by blast
qed

lemma finding_groups_members:
  "(k, ms) \<in> set (finding_groups fs) \<Longrightarrow> set ms = {f \<in> set fs. group_key f = k}"
proof -
  assume k: "(k, ms) \<in> set (finding_groups fs)"
  have "f \<in> set ms" if f: "f \<in> set fs" "group_key f = k" for f
  proof -
    obtain ms' where "(k, ms') \<in> set (finding_groups fs)" "f \<in> set ms'"
      using finding_groups_cover [OF f(1)] f(2) by blast
    then show ?thesis using k finding_groups_ok [of fs] eq_key_imp_eq_value
      unfolding groups_ok_def by metis
  qed
  then show ?thesis using finding_groupsD(2,3) [OF k] by blast
qed

lemma domain_level_key: "group_key f = group_key g \<Longrightarrow>
    f_ResourceType f = f_ResourceType g \<and> f_ResourceID f = f_ResourceID g"
  by (simp add: group_key_def)

lemma operatorFindings_rows:
  "set (operatorFindings st) =
     {f \<in> set (mvals (Findings st)). \<not> domainLevelFinding f} \<union>
     (\<lambda>g. collapseOccupancy (snd g)) ` set (finding_groups (filter domainLevelFinding (mvals (Findings st))))"
  by (simp add: operatorFindings_def Let_def) 

lemma operatorFindings_open:
  "(\<exists>f \<in> set (operatorFindings st). f_Status f = ''OPEN'') \<longleftrightarrow>
   (\<exists>f \<in> set (mvals (Findings st)). f_Status f = ''OPEN'')"
proof -
  let ?stored = "mvals (Findings st)"
  let ?gs = "finding_groups (filter domainLevelFinding ?stored)"
  have "(\<exists>g \<in> set ?gs. f_Status (collapseOccupancy (snd g)) = ''OPEN'') \<longleftrightarrow>
      (\<exists>f \<in> set ?stored. domainLevelFinding f \<and> f_Status f = ''OPEN'')" (is "?L \<longleftrightarrow> ?R")
  proof
    assume ?L
    then obtain k ms where g: "(k, ms) \<in> set ?gs" "f_Status (collapseOccupancy ms) = ''OPEN''" by auto
    then show ?R using finding_groupsD(1,2) [OF g(1)] collapseOccupancy_facts(6) [of ms] by auto
  next
    assume ?R
    then obtain f where f: "f \<in> set (filter domainLevelFinding ?stored)" "f_Status f = ''OPEN''" by auto
    then obtain ms where g: "(group_key f, ms) \<in> set ?gs" "f \<in> set ms"
      using finding_groups_cover by blast
    then have "f_Status (collapseOccupancy ms) = ''OPEN''"
      using finding_groupsD(1) [OF g(1)] collapseOccupancy_facts(6) [of ms] f(2) by blast
    then show ?L using g(1) by force
  qed
  then show ?thesis unfolding operatorFindings_rows by blast
qed

end
