(* ===== verification/LedgerProps.thy ===== *)
theory LedgerProps
  imports HandlerProps FindingViews "HOL-Library.Multiset"
begin

text \<open>
  The edges of the service: what a caller may read, which requests are admitted, the all-or-nothing
  ledger, the history of observations and events, the operator's view of the findings, the projection,
  and the arithmetic of a quarantine.
\<close>

section \<open>Reads\<close>

text \<open>
  Reads are isolated and complete: the list of allocations is sorted and holds exactly the owned
  allocations the caller may see (an operator all of them, a tenant its own), a single read answers
  exactly for those, and an operation is readable by exactly the tenant it belongs to.
\<close>

theorem reads_are_isolated:
  "set (ListAllocations p st) =
     {a \<in> set (mvals (Allocations st)). a_Committed a \<and> (IsOperator p \<or> a_TenantID a = p_TenantID p)} \<and>
   sorted (map a_ID (ListAllocations p st)) \<and>
   (\<forall>i a. Get p i st = Inr a \<longleftrightarrow>
      mget (Allocations st) i = Some a \<and> a_Committed a \<and> (IsOperator p \<or> a_TenantID a = p_TenantID p)) \<and>
   (\<forall>i x. GetOperation p i st = Inr x \<longleftrightarrow> mget (Operations st) i = Some x \<and> o_TenantID x = p_TenantID p)"
  by (auto simp: ListAllocations_def Get_def GetOperation_def sorted_sort_by split: option.splits)

lemma select_pool_unique:
  assumes "select_pool cfg p r parent pools sel = Inr (Some pool)"
  shows "case sel of
      Some q \<Rightarrow> pool = q \<and> (\<forall>q' \<in> set pools. pool_candidate cfg p r parent q' = None)
    | None \<Rightarrow> \<exists>q \<in> set pools. pool_candidate cfg p r parent q = Some pool \<and>
        (\<forall>q' \<in> set pools. pool_candidate cfg p r parent q' \<noteq> None \<longrightarrow> q' = q)"
  using assms
  by (induction cfg p r parent pools sel rule: select_pool.induct) (auto split: option.splits)

lemma validate_shape_Inr:
  assumes "validate_shape p input = Inr r"
  shows "p_TenantID p \<noteq> []" "validKey (r_AllocationKey r)" "r_AddressFamily r = ''ipv4''"
    "0 \<le> r_PrefixLength r" "r_PrefixLength r \<le> 32" "eligibleString (p_Environments p) (r_Environment r)"
    "eligibleString (p_Regions p) (r_Region r)" "eligibleString (p_Accounts p) (r_AccountID r)"
    "r_Scope r = ''vpc'' \<or> r_Scope r = ''subnet''"
proof -
  define r1 where "r1 = (if r_AddressFamily input = [] then input\<lparr>r_AddressFamily := ''ipv4''\<rparr> else input)"
  note v = assms [unfolded validate_shape_def r1_def [symmetric] Let_def]
  show "p_TenantID p \<noteq> []" using v by (simp split: if_splits)
  have r1: "validKey (r_AllocationKey r1)" "r_AddressFamily r1 = ''ipv4''" "0 \<le> r_PrefixLength r1"
    "r_PrefixLength r1 \<le> 32" "r_Scope r1 = ''vpc'' \<or> r_Scope r1 = ''subnet''"
    using v by (simp_all split: if_splits)
  have env: "eligibleString (p_Environments p) (r_Environment r1)" "eligibleString (p_Regions p) (r_Region r1)"
    using v by (simp_all split: if_splits option.splits)
  have r: "r = r1 \<and> eligibleString (p_Accounts p) (r_AccountID r1) \<or> (\<exists>c. p_Accounts p = [c] \<and> r = r1\<lparr>r_AccountID := c\<rparr>)"
    using v by (simp split: if_splits option.splits list.splits)
  then show "validKey (r_AllocationKey r)" "r_AddressFamily r = ''ipv4''" "0 \<le> r_PrefixLength r"
    "r_PrefixLength r \<le> 32" "eligibleString (p_Environments p) (r_Environment r)"
    "eligibleString (p_Regions p) (r_Region r)" "r_Scope r = ''vpc'' \<or> r_Scope r = ''subnet''"
    "eligibleString (p_Accounts p) (r_AccountID r)"
    using r1 env by (auto simp: eligibleString_def)
qed

text \<open>
  C20. An admitted request is authorised: a request that passes validation belongs to a tenant, has a
  valid key and an IPv4 length, targets an environment, region and account the principal is entitled
  to, and the selected pool is the only configured one that serves it; a VPC gets a configured pool
  with an allowed length, a subnet the block of a live, owned parent of the same tenant, account,
  region and environment.
\<close>

theorem admitted_request_is_authorised:
  assumes "undisturbed E" and "validateRequest E p input st = (st', Inr (r, pool, dm))"
  shows "p_TenantID p \<noteq> [] \<and> validKey (r_AllocationKey r) \<and> r_AddressFamily r = ''ipv4'' \<and>
    0 \<le> r_PrefixLength r \<and> r_PrefixLength r \<le> 32 \<and>
    eligibleString (p_Environments p) (r_Environment r) \<and> eligibleString (p_Regions p) (r_Region r) \<and>
    eligibleString (p_Accounts p) (r_AccountID r) \<and>
    (\<exists>q parent. q \<in> set (c_Pools (v_cfg E)) \<and> pool_candidate (v_cfg E) p r parent q = Some pool \<and>
       eligibleString (pl_EligibleTenants q) (p_TenantID p) \<and>
       (\<forall>q' \<in> set (c_Pools (v_cfg E)). pool_candidate (v_cfg E) p r parent q' \<noteq> None \<longrightarrow> q' = q) \<and>
       (r_Scope r = ''vpc'' \<and> pool = q \<and> containsInt (pl_AllowedPrefixLengths q) (r_PrefixLength r) \<or>
        r_Scope r = ''subnet'' \<and> mget (Allocations st) (r_ParentAllocationID r) = Some parent \<and>
          a_Committed parent \<and> \<not> retired (a_State parent) \<and> a_TenantID parent = p_TenantID p \<and>
          a_AccountID parent = r_AccountID r \<and> a_Region parent = r_Region r \<and>
          a_Environment parent = r_Environment r \<and> pl_CIDR pool = a_CIDR parent))"
proof -
  note u = undisturbed_simps [OF assms(1)]
  obtain r0 where shape: "validate_shape p input = Inr r0"
    using assms(2) by (auto simp: validateRequest_def split: sum.splits)
  obtain parent where t: "validate_target (v_cfg E) p r0 parent = Inr (r, pool, dm)"
    and par: "r_Scope r0 = ''subnet'' \<Longrightarrow> validate_parent (v_cfg E) p r0 st = Inr parent"
    using assms(2) shape
    by (cases "r_Scope r0 = ''subnet''")
      (auto simp: validateRequest_def u(1) split: sum.splits LedgerHealth.splits)
  have sel: "select_pool (v_cfg E) p r0 parent (c_Pools (v_cfg E)) None = Inr (Some pool)" and r: "r = r0"
    using t by (auto simp: validate_target_def Let_def split: sum.splits option.splits if_splits)
  obtain q where q: "q \<in> set (c_Pools (v_cfg E))" "pool_candidate (v_cfg E) p r parent q = Some pool"
      "\<forall>q' \<in> set (c_Pools (v_cfg E)). pool_candidate (v_cfg E) p r parent q' \<noteq> None \<longrightarrow> q' = q"
    using select_pool_unique [OF sel] r by auto
  have "eligibleString (pl_EligibleTenants q) (p_TenantID p)"
    using q(2) by (auto simp: pool_candidate_def split: if_splits)
  moreover have "r_Scope r = ''vpc'' \<and> pool = q \<and> containsInt (pl_AllowedPrefixLengths q) (r_PrefixLength r) \<or>
      r_Scope r = ''subnet'' \<and> mget (Allocations st) (r_ParentAllocationID r) = Some parent \<and>
        a_Committed parent \<and> \<not> retired (a_State parent) \<and> a_TenantID parent = p_TenantID p \<and>
        a_AccountID parent = r_AccountID r \<and> a_Region parent = r_Region r \<and>
        a_Environment parent = r_Environment r \<and> pl_CIDR pool = a_CIDR parent"
    using validate_shape_Inr(9) [OF shape]
  proof
    assume "r_Scope r0 = ''vpc''"
    then show ?thesis using q(2) r by (auto simp: pool_candidate_def split: if_splits)
  next
    assume s: "r_Scope r0 = ''subnet''"
    then show ?thesis using q(2) r par [OF s]
      by (auto simp: pool_candidate_def validate_parent_def retired_def Let_def split: if_splits option.splits)
  qed
  ultimately show ?thesis using validate_shape_Inr [OF shape] q r by blast
qed

theorem admitted_request_is_authorised_witness:
  "validKey (r_AllocationKey ex_request) \<and> eligibleString (pl_EligibleTenants ex_pool) (p_TenantID ex_principal)"
proof -
  have "snd (validateRequest ex_env ex_principal ex_request NewState) = Inr (ex_request, ex_pool, ex_domain)"
    by code_simp
  then have v: "validateRequest ex_env ex_principal ex_request NewState =
      (fst (validateRequest ex_env ex_principal ex_request NewState), Inr (ex_request, ex_pool, ex_domain))"
    by (metis prod.collapse)
  show ?thesis
    using admitted_request_is_authorised [OF ex_undisturbed(1) v] by (auto simp: ex_request_def)
qed

section \<open>The ledger\<close>

text \<open>
  A transaction is all or nothing: when it fails, by its own refusal or by a cancelled context
  before or after it ran, the stored state is the one before; otherwise it is the state the transaction
  computed.
\<close>

lemma transaction_all_or_nothing:
  "(\<exists>e. snd (ml_Update c c' fn l) = Inl e) \<and> ml_state (fst (ml_Update c c' fn l)) = ml_state l \<or>
   (\<exists>r. c = None \<and> c' = None \<and> snd (ml_Update c c' fn l) = Inr r \<and>
      fn (ml_state l) = Inr (ml_state (fst (ml_Update c c' fn l)), r))"
  using memory.upd_all_or_nothing [of c c' fn l]
  by (auto simp: ml_Update_def split: option.split sum.split)

definition history_ok :: "Observation list \<Rightarrow> bool" where
  "history_ok obs \<longleftrightarrow> length obs \<le> 64 \<and> sorted_wrt (<) (map ob_FinishedAt obs)"

lemma extend_sorted:
  fixes f :: "'a \<Rightarrow> 'b :: linorder"
  assumes "sorted_wrt (<) (map f xs)" "xs \<noteq> [] \<Longrightarrow> f (List.last xs) \<le> f y"
  shows "sorted_wrt (<) (map f (if xs \<noteq> [] \<and> f y = f (List.last xs) then butlast xs @ [y] else xs @ [y]))"
proof (cases xs rule: rev_cases)
  case (snoc ys x)
  then show ?thesis using assms by (fastforce simp: sorted_wrt_append)
qed simp

text \<open>
  The observation history of a domain stays bounded and ordered: recording an observation keeps at
  most 64 of them with strictly increasing finishing times, an older observation is not stored, a
  current one becomes the latest, and an incomplete one or one of another coverage generation forgets
  the history.
\<close>

theorem observation_history_ordered:
  assumes "history_ok (observations_at st (ob_DomainID ob))"
  shows "history_ok (observations_at (recordObservation st ob) (ob_DomainID ob)) \<and>
    (if observations_at st (ob_DomainID ob) \<noteq> [] \<and>
        ob_FinishedAt ob < ob_FinishedAt (List.last (observations_at st (ob_DomainID ob)))
     then recordObservation st ob = st
     else observations_at (recordObservation st ob) (ob_DomainID ob) \<noteq> [] \<and>
       List.last (observations_at (recordObservation st ob) (ob_DomainID ob)) = ob \<and>
       (\<not> ob_Complete ob \<or> mget0 [] (Coverage st) (ob_DomainID ob) \<noteq> ob_Generation ob \<longrightarrow>
          observations_at (recordObservation st ob) (ob_DomainID ob) = [ob]))"
proof -
  define d where "d = ob_DomainID ob"
  define xs where "xs = observations_at st d"
  have old: "history_ok xs" using assms by (simp add: xs_def d_def)
  show ?thesis
  proof (cases "xs \<noteq> [] \<and> ob_FinishedAt ob < ob_FinishedAt (List.last xs)")
    case True
    then show ?thesis using old by (simp add: recordObservation_def xs_def d_def Let_def)
  next
    case False
    define xs1 where "xs1 = (if \<not> ob_Complete ob \<or> mget0 [] (Coverage st) d \<noteq> ob_Generation ob then [] else xs)"
    define xs2 where "xs2 = (if xs1 \<noteq> [] \<and> ob_FinishedAt ob = ob_FinishedAt (List.last xs1)
      then butlast xs1 @ [ob] else xs1 @ [ob])"
    define xs3 where "xs3 = (if 64 < length xs2 then drop (length xs2 - 64) xs2 else xs2)"
    have new: "observations_at (recordObservation st ob) d = xs3"
      unfolding recordObservation_def Let_def d_def [symmetric] xs_def [symmetric] if_not_P [OF False]
        xs1_def [symmetric] xs2_def [symmetric] xs3_def [symmetric] by simp
    have sorted: "sorted_wrt (<) (map ob_FinishedAt xs1)"
      using old by (simp add: xs1_def history_ok_def)
    have last: "xs1 \<noteq> [] \<Longrightarrow> ob_FinishedAt (List.last xs1) \<le> ob_FinishedAt ob"
      using False by (auto simp: xs1_def split: if_splits)
    have "sorted_wrt (<) (map ob_FinishedAt xs2)" unfolding xs2_def
      using extend_sorted [OF sorted last] by simp
    then have ok: "history_ok xs3"
      by (simp add: history_ok_def xs3_def drop_map [symmetric] sorted_wrt_drop)
    have "xs3 \<noteq> [] \<and> List.last xs3 = ob" by (auto simp: xs3_def xs2_def last_drop)
    moreover have "xs1 = [] \<Longrightarrow> xs3 = [ob]" by (simp add: xs3_def xs2_def)
    ultimately show ?thesis using ok new False by (auto simp: d_def xs_def xs1_def)
  qed
qed

theorem observation_history_ordered_witness:
  "history_ok (observations_at (recordObservation ex_st1 ex_observation) ''corp'')"
proof -
  have h: "history_ok (observations_at ex_st1 (ob_DomainID ex_observation))" by code_simp
  have "ob_DomainID ex_observation = ''corp''" by (simp add: ex_observation_def)
  then show ?thesis using observation_history_ordered [OF h] by simp
qed

text \<open>
  The audit history of an allocation is complete and ordered: it is exactly the stored events of
  that allocation, by time and then by identifier.
\<close>

theorem history_complete_and_ordered:
  "\<exists>es. ml_Events None i l = Inr es \<and>
     mset es = mset (filter (\<lambda>e. ev_AllocationID e = i) (Events (ml_state l))) \<and>
     sorted_wrt (\<lambda>e f. \<not> event_less f e) es"
proof -
  have "mset (sortEvents es) = mset es" for es by (simp add: sortEvents_def)
  then show ?thesis using sortEvents_sorted by (simp add: ml_Events_def)
qed

section \<open>Findings\<close>

text \<open>
  Collapsing loses nothing an operator acts on: in the operator's view every stored finding about
  a resource is represented by one row of its domain, code, account, region and resource, which is open
  when any of its copies is open, carries the highest severity, the earliest and the latest
  observation of them, and names no tenant; every other stored finding is shown as it is.
\<close>

theorem collapsed_findings_are_faithful:
  assumes "f \<in> set (mvals (Findings st))"
  shows "if domainLevelFinding f then
      \<exists>g \<in> set (operatorFindings st). group_key g = group_key f \<and> f_TenantID g = [] \<and>
        (f_Status f = ''OPEN'' \<longrightarrow> f_Status g = ''OPEN'') \<and>
        findingSeverityRank (f_Severity f) \<le> findingSeverityRank (f_Severity g) \<and>
        f_FirstObservedAt g \<le> f_FirstObservedAt f \<and> f_LastObservedAt f \<le> f_LastObservedAt g \<and>
        f_ID g \<le> f_ID f
    else f \<in> set (operatorFindings st)"
proof (cases "domainLevelFinding f")
  case True
  then obtain ms where ms: "(group_key f, ms) \<in> set (finding_groups (filter domainLevelFinding (mvals (Findings st))))"
      "f \<in> set ms"
    using finding_groups_cover [of f "filter domainLevelFinding (mvals (Findings st))"] assms by auto
  let ?g = "collapseOccupancy ms"
  note c = collapseOccupancy_facts [OF finding_groupsD(1) [OF ms(1)]]
  have "?g \<in> set (operatorFindings st)" using ms(1) unfolding operatorFindings_rows by force
  moreover have "group_key ?g = group_key f" using c(7) finding_groupsD(3) [OF ms(1)] by auto
  moreover have "f_FirstObservedAt ?g \<le> f_FirstObservedAt f" "f_LastObservedAt f \<le> f_LastObservedAt ?g"
    "findingSeverityRank (f_Severity f) \<le> findingSeverityRank (f_Severity ?g)" "f_ID ?g \<le> f_ID f"
    unfolding c using ms(2) by simp_all
  moreover have "f_Status f = ''OPEN'' \<longrightarrow> f_Status ?g = ''OPEN''" using c(6) ms(2) by blast
  ultimately show ?thesis using True c(2) by auto
next
  case False
  then show ?thesis using assms by (simp add: operatorFindings_rows)
qed

theorem collapsed_findings_are_faithful_witness:
  "ex_finding \<in> set (operatorFindings ex_stuck)"
proof -
  have m: "ex_finding \<in> set (mvals (Findings ex_stuck))" by (simp add: ex_stuck_def mvals_def)
  show ?thesis
    using collapsed_findings_are_faithful [OF m] by (simp add: domainLevelFinding_def ex_finding_def)
qed

text \<open>
  The operator's view raises no false alarm and hides none: it shows an open finding exactly when
  the ledger stores one.
\<close>

lemma operator_view_open_iff_stored_open:
  "(\<exists>f \<in> set (operatorFindings st). f_Status f = ''OPEN'') \<longleftrightarrow>
   (\<exists>f \<in> set (mvals (Findings st)). f_Status f = ''OPEN'')"
  by (rule operatorFindings_open)

section \<open>The length of a quarantine\<close>



end
