(* ===== verification/Configuration.thy ===== *)
theory Configuration
  imports NetIP Domain
begin

text \<open>
  Configuration: the process settings and the pool configuration, and the rules they must satisfy
  before the service starts (\<open>Settings.Validate\<close>, \<open>Validate\<close> and \<open>IdentitiesWithoutPool\<close> of
  \<open>internal/config/config.go\<close>). Parsing of URLs is a parameter; reading the files and decoding YAML is
  not modelled.
\<close>

section \<open>Process settings\<close>

record URL =
  u_Scheme :: string
  u_User :: bool
  u_Host :: string
  u_RawQuery :: string
  u_Fragment :: string

record UrlLib =
  url_Parse :: "string \<Rightarrow> URL option"
  query_Get :: "URL \<Rightarrow> string \<Rightarrow> string"

record Settings =
  s_UIInventoryLinks :: string
  s_UINetBoxURL :: string
  s_Environment :: string
  s_DatabaseURL :: string
  s_ConfigFile :: string
  s_IdentityFile :: string
  s_AuthMode :: string
  s_LocalToken :: string
  s_LocalSubject :: string
  s_LocalExtraCredentials :: string
  s_NetBoxURL :: string
  s_NetBoxToken :: string
  s_AWSMode :: string
  s_FakeCloudFile :: string
  s_ListenAddr :: string
  s_OIDCIssuer :: string
  s_OIDCAudience :: string
  s_AWSEndpointURL :: string
  s_AWSEC2EndpointURL :: string
  s_AWSSTSEndpointURL :: string

definition refuse :: "bool \<Rightarrow> string \<Rightarrow> goerr option" where
  "refuse c msg = (if c then Some (OtherErr msg) else None)"

lemma refuse_None [simp]: "refuse c msg = None \<longleftrightarrow> \<not> c"
  by (simp add: refuse_def)

text \<open>The environment variables: an empty or unset variable takes its default.\<close>

definition env_get :: "(string \<Rightarrow> string) \<Rightarrow> string \<Rightarrow> string \<Rightarrow> string" where
  "env_get getenv key fallback = (let s = getenv (''IPAM_'' @ key) in if s \<noteq> [] then s else fallback)"

definition Environment :: "(string \<Rightarrow> string) \<Rightarrow> Settings" where
  "Environment getenv =
     \<lparr>s_UIInventoryLinks = env_get getenv ''UI_INVENTORY_LINKS_ENABLED'' [],
      s_UINetBoxURL = env_get getenv ''UI_NETBOX_BASE_URL'' [],
      s_Environment = env_get getenv ''ENVIRONMENT'' ''development'',
      s_DatabaseURL = env_get getenv ''DATABASE_URL'' [],
      s_ConfigFile = env_get getenv ''CONFIG_FILE'' ''examples/config/pools.yaml'',
      s_IdentityFile = env_get getenv ''IDENTITY_FILE'' [],
      s_AuthMode = env_get getenv ''AUTH_MODE'' ''local'',
      s_LocalToken = env_get getenv ''LOCAL_TOKEN'' [],
      s_LocalSubject = env_get getenv ''LOCAL_SUBJECT'' ''developer'',
      s_LocalExtraCredentials = env_get getenv ''LOCAL_EXTRA_CREDENTIALS'' [],
      s_NetBoxURL = env_get getenv ''NETBOX_URL'' [],
      s_NetBoxToken = env_get getenv ''NETBOX_TOKEN'' [],
      s_AWSMode = env_get getenv ''AWS_MODE'' ''fake'',
      s_FakeCloudFile = env_get getenv ''FAKE_CLOUD_FILE'' [],
      s_ListenAddr = env_get getenv ''LISTEN_ADDR'' '':8080'',
      s_OIDCIssuer = env_get getenv ''OIDC_ISSUER'' [],
      s_OIDCAudience = env_get getenv ''OIDC_AUDIENCE'' [],
      s_AWSEndpointURL = getenv ''AWS_ENDPOINT_URL'',
      s_AWSEC2EndpointURL = getenv ''AWS_ENDPOINT_URL_EC2'',
      s_AWSSTSEndpointURL = getenv ''AWS_ENDPOINT_URL_STS''\<rparr>"

definition secureOrigin :: "UrlLib \<Rightarrow> string \<Rightarrow> bool \<Rightarrow> goerr option" where
  "secureOrigin N raw allowHTTP =
     refuse (case url_Parse N raw of
               None \<Rightarrow> True
             | Some u \<Rightarrow> u_Host u = [] \<or> u_User u \<or> u_RawQuery u \<noteq> [] \<or> u_Fragment u \<noteq> [] \<or>
                 u_Scheme u \<noteq> ''https'' \<and> \<not> (allowHTTP \<and> u_Scheme u = ''http''))
       ''expected a credential-free HTTPS URL''"

definition ParseBool :: "string \<Rightarrow> bool option" where
  "ParseBool s =
     (if s \<in> {''1'', ''t'', ''T'', ''TRUE'', ''true'', ''True''} then Some True
      else if s \<in> {''0'', ''f'', ''F'', ''FALSE'', ''false'', ''False''} then Some False else None)"

definition netbox_settings :: "UrlLib \<Rightarrow> Settings \<Rightarrow> goerr option list" where
  "netbox_settings N s =
     [map_option (\<lambda>e. OtherErr (''IPAM_NETBOX_URL: '' @ err_text e))
        (secureOrigin N (s_NetBoxURL s) (s_Environment s = ''development'')),
      refuse (s_NetBoxToken s = []) ''IPAM_NETBOX_TOKEN is required'']"

definition extra_credentials :: "Settings \<Rightarrow> goerr option" where
  "extra_credentials s =
     refuse (s_LocalExtraCredentials s \<noteq> [] \<and> s_Environment s \<noteq> ''development'')
       ''IPAM_LOCAL_EXTRA_CREDENTIALS is permitted only when IPAM_ENVIRONMENT is development''"

definition database_settings :: "UrlLib \<Rightarrow> Settings \<Rightarrow> goerr option list" where
  "database_settings N s =
     [refuse (s_DatabaseURL s = []) ''IPAM_DATABASE_URL is required'',
      refuse (s_Environment s \<noteq> ''development'' \<and>
              (case url_Parse N (s_DatabaseURL s) of
                 None \<Rightarrow> True | Some u \<Rightarrow> query_Get N u ''sslmode'' \<noteq> ''verify-full''))
        ''stage/prod database URL requires sslmode=verify-full'']"

definition interface_settings :: "UrlLib \<Rightarrow> Settings \<Rightarrow> goerr option list" where
  "interface_settings N s =
     [refuse (s_UIInventoryLinks s \<noteq> [] \<and> ParseBool (s_UIInventoryLinks s) = None)
        ''IPAM_UI_INVENTORY_LINKS_ENABLED must be a boolean'',
      refuse (s_UINetBoxURL s \<noteq> [] \<and> secureOrigin N (s_UINetBoxURL s) (s_Environment s = ''development'') \<noteq> None)
        ''IPAM_UI_NETBOX_BASE_URL must be a valid browser origin'',
      refuse (s_AuthMode s \<noteq> ''local'' \<and> s_AuthMode s \<noteq> ''oidc'') ''IPAM_AUTH_MODE must be local or oidc'']"

definition SettingsValidate :: "UrlLib \<Rightarrow> Settings \<Rightarrow> string \<Rightarrow> goerr option" where
  "SettingsValidate N s mode =
     first_error
       (refuse (s_Environment s \<notin> {''development'', ''stage'', ''prod''})
          ''IPAM_ENVIRONMENT must be development, stage, or prod'' #
        (if mode = ''seed'' then extra_credentials s # netbox_settings N s
         else database_settings N s @
           (if mode = ''migrate'' then []
            else
              [refuse (s_Environment s \<noteq> ''development'' \<and>
                       (s_AWSEndpointURL s \<noteq> [] \<or> s_AWSEC2EndpointURL s \<noteq> [] \<or> s_AWSSTSEndpointURL s \<noteq> []))
                 ''custom AWS endpoints are permitted only when IPAM_ENVIRONMENT is development''] @
              (if mode \<noteq> ''adopt'' then interface_settings N s else []) @
              [extra_credentials s,
               refuse (s_AWSMode s \<noteq> ''fake'' \<and> s_AWSMode s \<noteq> ''live'') ''IPAM_AWS_MODE must be fake or live'',
               refuse (s_Environment s \<noteq> ''development'' \<and> s_AWSMode s \<noteq> ''live'')
                 ''stage/prod require live AWS observations'',
               refuse (s_Environment s \<noteq> ''development'' \<and> mode = ''api'' \<and> s_AuthMode s \<noteq> ''oidc'')
                 ''stage/prod require OIDC authentication'',
               refuse (s_AuthMode s = ''local'' \<and> mode = ''api'' \<and> length (s_LocalToken s) < 24)
                 ''development API requires IPAM_LOCAL_TOKEN of at least 24 characters'',
               refuse (mode = ''api'' \<and> s_AuthMode s = ''oidc'' \<and>
                       (secureOrigin N (s_OIDCIssuer s) False \<noteq> None \<or> s_OIDCAudience s = []))
                 ''OIDC requires HTTPS issuer and explicit API audience''] @
              netbox_settings N s @
              [refuse (s_AWSMode s = ''fake'' \<and> s_FakeCloudFile s = [])
                 ''fake observation requires IPAM_FAKE_CLOUD_FILE''])))"

section \<open>Pool configuration\<close>

definition is_alnum :: "char \<Rightarrow> bool" where
  "is_alnum c \<longleftrightarrow> (let n = byte_of c in 48 \<le> n \<and> n \<le> 57 \<or> 65 \<le> n \<and> n \<le> 90 \<or> 97 \<le> n \<and> n \<le> 122)"

text \<open>\<open>^[0-9]{12}$\<close> and \<open>^[A-Za-z0-9][A-Za-z0-9_.-]{0,127}$\<close>.\<close>

definition accountPattern :: "string \<Rightarrow> bool" where
  "accountPattern s \<longleftrightarrow> length s = 12 \<and> list_all isdigit s"

definition identifierPattern :: "string \<Rightarrow> bool" where
  "identifierPattern s =
     (case s of
        [] \<Rightarrow> False
      | c # cs \<Rightarrow> is_alnum c \<and> list_all (\<lambda>d. is_alnum d \<or> d \<in> set ''_.-'') cs \<and> length cs \<le> 127)"

definition private_ranges :: "Prefix list" where
  "private_ranges = [\<lparr>ip = V4 0x0A000000, pbits = 8\<rparr>, \<lparr>ip = V4 0xAC100000, pbits = 12\<rparr>, \<lparr>ip = V4 0xC0A80000, pbits = 16\<rparr>]"

definition lifecycle_rules :: "Config \<Rightarrow> string \<Rightarrow> goerr option list" where
  "lifecycle_rules c environment =
     (let l = c_Lifecycle c; r = c_Reconciliation c
      in [refuse (c_SchemaVersion c \<noteq> 1 \<or> c_PolicyVersion c = [] \<or> c_Domains c = [] \<or> c_Pools c = [])
            ''schema_version=1, policy_version, domains and pools are required'',
          refuse (lc_ReservationExpiryEnabled l \<or> lc_QuarantineHours l < 0 \<or> lc_RequiredAbsenceScans l < 2 \<or>
                  lc_MinScanSpacing l < 1 \<or> lc_MaxObservationAge l < 1)
            ''unsafe lifecycle policy'',
          refuse (environment \<noteq> ''development'' \<and> (lc_QuarantineHours l < 168 \<or> lc_MinScanSpacing l < 300))
            ''stage/prod require at least seven-day quarantine and five-minute absence scan spacing'',
          refuse (\<not> rc_IncludeUntagged r \<or> \<not> rc_IncludeAssociations r \<or> \<not> rc_UnknownBlocksReuse r \<or>
                  rc_FullScanInterval r < 1 \<or> rc_ProjectionRefreshInterval r < 0)
            ''reconciliation must include all occupancy and block UNKNOWN reuse''])"

fun check_regions :: "string \<Rightarrow> string list \<Rightarrow> string list \<Rightarrow> goerr + string list" where
  "check_regions account [] cells = Inr cells"
| "check_regions account (r # rs) cells =
     (let k = account @ '':'' @ r
      in if r = [] \<or> k \<in> set cells then Inl (OtherErr ''empty or duplicate coverage cell'')
         else check_regions account rs (k # cells))"

fun check_coverage :: "Cell list \<Rightarrow> string list \<Rightarrow> goerr option" where
  "check_coverage [] cells = None"
| "check_coverage (cell # rest) cells =
     (if \<not> accountPattern (ce_AccountID cell) \<or> ce_Regions cell = [] \<or>
         \<not> HasPrefix (ce_RoleARN cell) (''arn:aws:iam::'' @ ce_AccountID cell @ '':role/'')
      then Some (OtherErr ''invalid AWS coverage role or account'')
      else case check_regions (ce_AccountID cell) (ce_Regions cell) cells of
             Inl e \<Rightarrow> Some e
           | Inr cells' \<Rightarrow> check_coverage rest cells')"

fun check_domains :: "Domain list \<Rightarrow> Domain gomap \<Rightarrow> goerr + Domain gomap" where
  "check_domains [] domains = Inr domains"
| "check_domains (d # ds) domains =
     (if \<not> identifierPattern (d_ID d) \<or> d_CoverageGeneration d = [] \<or> d_CloudCoverage d = [] \<or>
         \<not> bk_RequireUniquePrefixes (d_Backend d) \<or> bk_Type (d_Backend d) \<noteq> ''netbox''
      then Inl (OtherErr ''invalid domain, coverage or inventory uniqueness'')
      else if mget domains (d_ID d) \<noteq> None then Inl (OtherErr (''duplicate domain '' @ d_ID d))
      else case check_coverage (d_CloudCoverage d) [] of
             Some e \<Rightarrow> Inl e
           | None \<Rightarrow> check_domains ds (mput (d_ID d) d domains))"

definition pool_covered :: "Domain \<Rightarrow> Pool \<Rightarrow> string \<Rightarrow> bool" where
  "pool_covered d p a = list_ex (\<lambda>cell. ce_AccountID cell = a \<and> pl_Region p \<in> set (ce_Regions cell)) (d_CloudCoverage d)"

definition exclusion_invalid :: "Prefix \<Rightarrow> string \<Rightarrow> bool" where
  "exclusion_invalid prefix raw =
     (case ParsePrefix raw of
        None \<Rightarrow> True
      | Some x \<Rightarrow> x \<noteq> Masked x \<or> pbits x < pbits prefix \<or> \<not> Contains prefix (ip x))"

fun check_peers :: "Pool \<Rightarrow> Prefix \<Rightarrow> Pool list \<Rightarrow> goerr option" where
  "check_peers p prefix [] = None"
| "check_peers p prefix (q # qs) =
     (if pl_DomainID q \<noteq> pl_DomainID p then check_peers p prefix qs
      else case ParsePrefix (pl_CIDR q) of
             None \<Rightarrow> Some (Panic ''MustParsePrefix'')
           | Some other \<Rightarrow>
               if Overlaps prefix other then Some (OtherErr ''peer allocation pools overlap'')
               else check_peers p prefix qs)"

definition pool_policy :: "Domain \<Rightarrow> Prefix \<Rightarrow> Pool \<Rightarrow> goerr option list" where
  "pool_policy d prefix p =
     [refuse (\<not> list_ex (\<lambda>q. pbits q \<le> pbits prefix \<and> Contains q (ip prefix)) private_ranges) ''v1 pools must be RFC1918'',
      refuse (pl_Scope p \<noteq> ''vpc'' \<or> pl_AddressFamily p \<noteq> ''ipv4'' \<or> pl_Environment p = [] \<or> pl_Region p = [] \<or>
              pl_AllowedPrefixLengths p = [] \<or> pl_MaxAllocations p < 1 \<or> bk_ParentPrefixID (pl_Backend p) < 1 \<or>
              pl_EligibleTenants p = [] \<or> pl_EligibleAccounts p = [])
        ''incomplete pool policy'',
      refuse (list_ex blank (pl_EligibleTenants p)) ''pool eligible_tenants entries must not be empty'',
      refuse (\<not> list_all (pool_covered d p) (pl_EligibleAccounts p)) ''pool target lacks domain cloud coverage'',
      refuse (list_ex (\<lambda>b. b < 16 \<or> 28 < b \<or> b < int (pbits prefix)) (pl_AllowedPrefixLengths p))
        ''invalid VPC allocation length'',
      refuse (list_ex (exclusion_invalid prefix) (pl_ExcludedCIDRs p)) ''invalid pool exclusion'']"

definition check_pool :: "Domain gomap \<Rightarrow> Pool list \<Rightarrow> Pool \<Rightarrow> goerr option" where
  "check_pool domains before p =
     (case mget domains (pl_DomainID p) of
        None \<Rightarrow> Some (OtherErr ''invalid pool identity/domain'')
      | Some d \<Rightarrow>
          if pl_ID p \<in> set (map pl_ID before) \<or> \<not> identifierPattern (pl_ID p)
          then Some (OtherErr ''invalid pool identity/domain'')
          else case ParsePrefix (pl_CIDR p) of
                 None \<Rightarrow> Some (OtherErr ''pool CIDR must be canonical IPv4'')
               | Some prefix \<Rightarrow>
                   if \<not> Is4 (ip prefix) \<or> prefix \<noteq> Masked prefix
                   then Some (OtherErr ''pool CIDR must be canonical IPv4'')
                   else first_error (pool_policy d prefix p @ [check_peers p prefix before]))"

fun check_pools :: "Domain gomap \<Rightarrow> Pool list \<Rightarrow> Pool list \<Rightarrow> goerr option" where
  "check_pools domains before [] = None"
| "check_pools domains before (p # ps) =
     (case check_pool domains before p of
        Some e \<Rightarrow> Some e
      | None \<Rightarrow> check_pools domains (before @ [p]) ps)"

definition subnet_rules :: "SubnetPolicy \<Rightarrow> goerr option list" where
  "subnet_rules sp =
     [refuse (sp_RequireParentScope sp \<noteq> ''vpc'' \<or> \<not> sp_InheritParentTarget sp \<or> sp_AllowNestedSubnets sp \<or>
              sp_MaxChildren sp < 1 \<or> sp_AllowedPrefixLengths sp = [])
        ''invalid subnet policy'',
      refuse (list_ex (\<lambda>b. b < 16 \<or> 28 < b) (sp_AllowedPrefixLengths sp)) ''invalid subnet prefix length'']"

definition unscoped :: string where
  "unscoped = ''identity mapping must be unique and explicitly scoped''"

definition check_identity :: "string list \<Rightarrow> Principal \<Rightarrow> goerr option" where
  "check_identity subjects p =
     (if p_Subject p = [] \<or> p_Subject p \<in> set subjects then Some (OtherErr unscoped)
      else if p_Role p \<noteq> [] \<and> \<not> IsOperator p
      then Some (OtherErr (''identity role must be empty or '' @ [CHR 0x22] @ OperatorRole @ [CHR 0x22]))
      else if IsOperator p then
        refuse (p_TenantID p \<noteq> [] \<or> p_Accounts p \<noteq> [] \<or> p_Environments p \<noteq> [] \<or> p_Regions p \<noteq> [])
          ''an operator identity must carry no tenant_id, accounts, environments or regions''
      else if p_TenantID p = [] \<or> p_Accounts p = [] \<or> p_Environments p = [] \<or> p_Regions p = []
      then Some (OtherErr unscoped)
      else refuse (\<not> list_all accountPattern (p_Accounts p)) ''invalid identity account'')"

fun check_identities :: "string list \<Rightarrow> Principal list \<Rightarrow> goerr option" where
  "check_identities subjects [] = None"
| "check_identities subjects (p # ps) =
     (case check_identity subjects p of
        Some e \<Rightarrow> Some e
      | None \<Rightarrow> check_identities (p_Subject p # subjects) ps)"

definition Validate :: "UrlLib \<Rightarrow> Config \<Rightarrow> string \<Rightarrow> goerr option" where
  "Validate N c environment =
     (case first_error
        (refuse (ui_InventoryLinksEnabled (c_UI c) \<and>
             secureOrigin N (ui_NetBoxBaseURL (c_UI c)) (environment = ''development'') \<noteq> None)
           ''enabled inventory links require ui.netbox_base_url'' # lifecycle_rules c environment) of
        Some e \<Rightarrow> Some e
      | None \<Rightarrow>
          (case check_domains (c_Domains c) [] of
             Inl e \<Rightarrow> Some e
           | Inr domains \<Rightarrow>
               first_error (check_pools domains [] (c_Pools c) # subnet_rules (c_SubnetPolicy c) @
                 [check_identities [] (c_Identities c)])))"

definition IdentitiesWithoutPool :: "Config \<Rightarrow> Principal list" where
  "IdentitiesWithoutPool cfg =
     filter (\<lambda>p. \<not> IsOperator p \<and> p_TenantID p \<notin> set (concat (map pl_EligibleTenants (c_Pools cfg))))
       (c_Identities cfg)"

section \<open>What a validated configuration guarantees\<close>

lemma check_domains_Inr:
  assumes "check_domains ds domains = Inr domains'" "mok domains" "\<And>k d. mget domains k = Some d \<Longrightarrow> d_ID d = k"
  shows "mok domains' \<and> distinct (map d_ID ds) \<and>
    (\<forall>d. d \<in> set (mvals domains') \<longleftrightarrow> d \<in> set (mvals domains) \<or> d \<in> set ds) \<and>
    (\<forall>k d. mget domains' k = Some d \<longrightarrow> d_ID d = k) \<and> (\<forall>d \<in> set ds. mget domains (d_ID d) = None) \<and>
    (\<forall>d \<in> set ds. check_coverage (d_CloudCoverage d) [] = None \<and> d_CoverageGeneration d \<noteq> [])"
  using assms
proof (induction ds domains rule: check_domains.induct)
  case (1 domains)
  then show ?case by auto
next
  case (2 d ds domains)
  let ?m = "mput (d_ID d) d domains"
  have c: "mget domains (d_ID d) = None" "check_coverage (d_CloudCoverage d) [] = None" "d_CoverageGeneration d \<noteq> []"
    "check_domains ds ?m = Inr domains'" and guard: "\<not> (\<not> identifierPattern (d_ID d) \<or> d_CoverageGeneration d = [] \<or>
      d_CloudCoverage d = [] \<or> \<not> bk_RequireUniquePrefixes (d_Backend d) \<or> bk_Type (d_Backend d) \<noteq> ''netbox'')"
    using 2(2) by (auto split: if_splits option.splits)
  have ok: "mok ?m" using 2(3) by simp
  have ids: "\<And>k d'. mget ?m k = Some d' \<Longrightarrow> d_ID d' = k" using 2(4) by (auto split: if_splits)
  note IH = 2(1) [OF guard _ c(2) c(4) ok ids, simplified c(1), simplified]
  have vals: "d' \<in> set (mvals ?m) \<longleftrightarrow> d' \<in> set (mvals domains) \<or> d' = d" for d'
    unfolding mvals_mget [OF ok] mvals_mget [OF 2(3)] using c(1)
    by (auto split: if_splits) (metis option.distinct(1))
  show ?case using IH vals c by (auto split: if_splits)
qed

lemma check_peers_None:
  assumes "check_peers p prefix qs = None" "q \<in> set qs" "pl_DomainID q = pl_DomainID p"
  shows "\<exists>other. ParsePrefix (pl_CIDR q) = Some other \<and> \<not> Overlaps prefix other"
  using assms by (induction qs) (auto split: if_splits option.splits)

lemma check_pool_None:
  assumes "check_pool domains before p = None"
  obtains d prefix where "mget domains (pl_DomainID p) = Some d" "pl_ID p \<notin> set (map pl_ID before)"
    "ParsePrefix (pl_CIDR p) = Some prefix" "Is4 (ip prefix)" "Masked prefix = prefix"
    "\<forall>e \<in> set (pool_policy d prefix p). e = None" "check_peers p prefix before = None"
proof -
  obtain d where d: "mget domains (pl_DomainID p) = Some d" using assms by (auto simp: check_pool_def split: option.splits)
  obtain prefix where "ParsePrefix (pl_CIDR p) = Some prefix"
    using assms d by (auto simp: check_pool_def split: option.splits if_splits)
  then show thesis using that d assms by (auto simp: check_pool_def first_error_None split: if_splits)
qed

definition pools_ok :: "Domain gomap \<Rightarrow> Pool list \<Rightarrow> bool" where
  "pools_ok domains ps \<longleftrightarrow> distinct (map pl_ID ps) \<and>
     (\<forall>p \<in> set ps. \<exists>d prefix. mget domains (pl_DomainID p) = Some d \<and> ParsePrefix (pl_CIDR p) = Some prefix \<and>
        Is4 (ip prefix) \<and> Masked prefix = prefix \<and> (\<forall>e \<in> set (pool_policy d prefix p). e = None)) \<and>
     sorted_wrt (\<lambda>p q. pl_DomainID p = pl_DomainID q \<longrightarrow>
        (\<exists>a b. ParsePrefix (pl_CIDR p) = Some a \<and> ParsePrefix (pl_CIDR q) = Some b \<and> \<not> Overlaps b a)) ps"

lemma check_pools_None:
  assumes "check_pools domains before ps = None" "pools_ok domains before"
  shows "pools_ok domains (before @ ps)"
  using assms
proof (induction ps arbitrary: before)
  case (Cons p ps)
  have c: "check_pool domains before p = None" "check_pools domains (before @ [p]) ps = None"
    using Cons(2) by (auto split: option.splits)
  obtain d prefix where p: "mget domains (pl_DomainID p) = Some d" "pl_ID p \<notin> set (map pl_ID before)"
    "ParsePrefix (pl_CIDR p) = Some prefix" "Is4 (ip prefix)" "Masked prefix = prefix"
    "\<forall>e \<in> set (pool_policy d prefix p). e = None" "check_peers p prefix before = None"
    using check_pool_None [OF c(1)] .
  have "pools_ok domains (before @ [p])"
    using Cons(3) p check_peers_None [OF p(7)] by (fastforce simp: pools_ok_def sorted_wrt_append)
  then show ?case using Cons(1) [OF c(2)] by simp
qed simp

lemma Validate_None:
  assumes "Validate N c environment = None"
  obtains domains where "check_domains (c_Domains c) [] = Inr domains" "pools_ok domains (c_Pools c)"
    "\<forall>e \<in> set (lifecycle_rules c environment). e = None" "\<forall>e \<in> set (subnet_rules (c_SubnetPolicy c)). e = None"
    "check_identities [] (c_Identities c) = None"
proof -
  obtain domains where d: "check_domains (c_Domains c) [] = Inr domains"
    using assms by (auto simp: Validate_def split: option.splits sum.splits)
  have l: "\<forall>e \<in> set (lifecycle_rules c environment). e = None"
    using assms by (auto simp: Validate_def first_error_None split: option.splits)
  have "check_pools domains [] (c_Pools c) = None \<and> (\<forall>e \<in> set (subnet_rules (c_SubnetPolicy c)). e = None) \<and>
      check_identities [] (c_Identities c) = None"
    using assms d by (auto simp: Validate_def first_error_None split: option.splits)
  moreover have "pools_ok domains []" by (simp add: pools_ok_def)
  ultimately show thesis using that d l check_pools_None [of domains "[]"] by auto
qed

definition scoped :: "Principal \<Rightarrow> bool" where
  "scoped p \<longleftrightarrow>
     (if IsOperator p then p_TenantID p = [] \<and> p_Accounts p = [] \<and> p_Environments p = [] \<and> p_Regions p = []
      else p_TenantID p \<noteq> [] \<and> p_Role p = [] \<and> p_Accounts p \<noteq> [] \<and> p_Environments p \<noteq> [] \<and> p_Regions p \<noteq> [])"

lemma check_identity_None:
  "check_identity subjects p = None \<Longrightarrow> p_Subject p \<notin> set subjects \<and> scoped p"
  by (simp add: check_identity_def scoped_def split: if_splits)

lemma check_identities_None:
  "check_identities subjects ps = None \<Longrightarrow>
     distinct (map p_Subject ps) \<and> set (map p_Subject ps) \<inter> set subjects = {} \<and> list_all scoped ps"
proof (induction subjects ps rule: check_identities.induct)
  case (2 subjects p ps)
  then have c: "check_identity subjects p = None" "check_identities (p_Subject p # subjects) ps = None"
    by (auto split: option.splits)
  show ?case using 2(1) [OF c] check_identity_None [OF c(1)] by auto
qed simp

end
