(* ===== verification/ConfigProps.thy ===== *)
theory ConfigProps
  imports Configuration Example
begin

text \<open>What a configuration that passed validation guarantees to the service that runs with it.\<close>

lemma private_ranges_parsed:
  "map Some private_ranges = map ParsePrefix [''10.0.0.0/8'', ''172.16.0.0/12'', ''192.168.0.0/16'']"
  by code_simp

lemma pool_in_private:
  assumes "ParsePrefix s = Some prefix" "q \<in> set private_ranges" "pbits q \<le> pbits prefix" "Contains q (ip prefix)"
  shows "addrs prefix \<subseteq> addrs q"
  using assms addrs_subset [of q prefix] ParsePrefix_valid [OF assms(1)]
  by (auto simp: Contains_iff)

lemma pools_okD:
  assumes "pools_ok domains ps" "p \<in> set ps"
  shows "\<exists>d prefix. mget domains (pl_DomainID p) = Some d \<and> ParsePrefix (pl_CIDR p) = Some prefix \<and>
    Is4 (ip prefix) \<and> Masked prefix = prefix \<and> (\<forall>e \<in> set (pool_policy d prefix p). e = None)"
  using assms by (simp only: pools_ok_def)

text \<open>
  C26. A validated configuration is consistent: domains and pools have unique identifiers, every pool
  belongs to a configured domain and is a canonical private IPv4 block whose allowed lengths fit in it,
  no two pools of one domain share an address, every identity has its own subject and is either an
  operator without a tenant or a fully scoped tenant.
\<close>

theorem validated_configuration_is_consistent:
  assumes "Validate N c environment = None"
  shows "distinct (map d_ID (c_Domains c)) \<and> distinct (map pl_ID (c_Pools c)) \<and>
    (\<forall>p \<in> set (c_Pools c). \<exists>prefix. ParsePrefix (pl_CIDR p) = Some prefix \<and> Is4 (ip prefix) \<and>
       Masked prefix = prefix \<and> (\<exists>d \<in> set (c_Domains c). d_ID d = pl_DomainID p) \<and>
       (\<exists>q \<in> set private_ranges. addrs prefix \<subseteq> addrs q) \<and> pl_EligibleTenants p \<noteq> [] \<and>
       [] \<notin> set (pl_EligibleTenants p) \<and>
       (\<forall>b \<in> set (pl_AllowedPrefixLengths p). 16 \<le> b \<and> b \<le> 28 \<and> int (pbits prefix) \<le> b)) \<and>
    (\<forall>i j a b. i < length (c_Pools c) \<longrightarrow> j < length (c_Pools c) \<longrightarrow> i \<noteq> j \<longrightarrow>
       pl_DomainID (c_Pools c ! i) = pl_DomainID (c_Pools c ! j) \<longrightarrow>
       ParsePrefix (pl_CIDR (c_Pools c ! i)) = Some a \<longrightarrow> ParsePrefix (pl_CIDR (c_Pools c ! j)) = Some b \<longrightarrow>
       addrs a \<inter> addrs b = {}) \<and>
    distinct (map p_Subject (c_Identities c)) \<and> list_all scoped (c_Identities c)"
proof -
  obtain domains where d: "check_domains (c_Domains c) [] = Inr domains" and p: "pools_ok domains (c_Pools c)"
    and i: "check_identities [] (c_Identities c) = None"
    by (rule Validate_None [OF assms])
  have dom: "distinct (map d_ID (c_Domains c))" "\<And>k d. mget domains k = Some d \<Longrightarrow> d_ID d = k \<and> d \<in> set (c_Domains c)"
    using check_domains_Inr [OF d] mget_mvals [of domains] by (auto simp: mvals_def)
  have pool: "\<exists>prefix. ParsePrefix (pl_CIDR p) = Some prefix \<and> Is4 (ip prefix) \<and>
       Masked prefix = prefix \<and> (\<exists>d \<in> set (c_Domains c). d_ID d = pl_DomainID p) \<and>
       (\<exists>q \<in> set private_ranges. addrs prefix \<subseteq> addrs q) \<and> pl_EligibleTenants p \<noteq> [] \<and>
       [] \<notin> set (pl_EligibleTenants p) \<and>
       (\<forall>b \<in> set (pl_AllowedPrefixLengths p). 16 \<le> b \<and> b \<le> 28 \<and> int (pbits prefix) \<le> b)"
    if mem: "p \<in> set (c_Pools c)" for p
  proof -
    obtain d prefix where q: "mget domains (pl_DomainID p) = Some d" "ParsePrefix (pl_CIDR p) = Some prefix"
        "Is4 (ip prefix)" "Masked prefix = prefix" "\<forall>e \<in> set (pool_policy d prefix p). e = None"
      using pools_okD [OF p mem] by blast
    have "\<exists>q \<in> set private_ranges. addrs prefix \<subseteq> addrs q"
      using q(5) pool_in_private [OF q(2)] by (auto simp: pool_policy_def list_ex_iff)
    moreover have "pl_EligibleTenants p \<noteq> []" "[] \<notin> set (pl_EligibleTenants p)"
      using q(5) by (auto simp: pool_policy_def list_ex_iff)
    moreover have "\<forall>b \<in> set (pl_AllowedPrefixLengths p). 16 \<le> b \<and> b \<le> 28 \<and> int (pbits prefix) \<le> b"
      using q(5) by (auto simp: pool_policy_def list_ex_iff not_less)
    ultimately show ?thesis using q(1-4) dom(2) by blast
  qed
  have apart: "addrs a \<inter> addrs b = {}"
    if "i < j" "j < length (c_Pools c)" "pl_DomainID (c_Pools c ! i) = pl_DomainID (c_Pools c ! j)"
      "ParsePrefix (pl_CIDR (c_Pools c ! i)) = Some a" "ParsePrefix (pl_CIDR (c_Pools c ! j)) = Some b" for i j a b
  proof -
    have "\<not> Overlaps b a"
      using p that sorted_wrt_nth_less [of _ "c_Pools c" i j] unfolding pools_ok_def by fastforce
    then show ?thesis
      using Overlaps_iff_addrs [OF ParsePrefix_valid [OF that(5)] ParsePrefix_valid [OF that(4)]] by blast
  qed
  have "addrs a \<inter> addrs b = {}"
    if "i < length (c_Pools c)" "j < length (c_Pools c)" "i \<noteq> j"
      "pl_DomainID (c_Pools c ! i) = pl_DomainID (c_Pools c ! j)"
      "ParsePrefix (pl_CIDR (c_Pools c ! i)) = Some a" "ParsePrefix (pl_CIDR (c_Pools c ! j)) = Some b" for i j a b
    using apart [of i j a b] apart [of j i b a] that by (cases "i < j") (auto simp: Int_commute)
  then show ?thesis
    using dom(1) p pool check_identities_None [OF i] unfolding pools_ok_def by blast
qed

definition ex_urls :: UrlLib where
  "ex_urls = \<lparr>url_Parse = (\<lambda>s. Some \<lparr>u_Scheme = ''https'', u_User = False, u_Host = s, u_RawQuery = [], u_Fragment = []\<rparr>),
     query_Get = (\<lambda>u k. ''verify-full'')\<rparr>"

definition ex_cell :: Cell where
  "ex_cell = \<lparr>ce_AccountID = ''123456789012'', ce_RoleARN = ''arn:aws:iam::123456789012:role/ipam'', ce_Regions = [''r'']\<rparr>"

definition ex_valid_pool :: Pool where
  "ex_valid_pool = ex_pool\<lparr>pl_EligibleAccounts := [''123456789012''], pl_MaxAllocations := 4,
     pl_Backend := zero_Backend\<lparr>bk_ParentPrefixID := 7\<rparr>\<rparr>"

definition ex_valid :: Config where
  "ex_valid = ex_config\<lparr>
     c_Domains := [ex_domain\<lparr>d_CloudCoverage := [ex_cell], d_Backend := zero_Backend\<lparr>bk_Type := ''netbox'',
       bk_RequireUniquePrefixes := True\<rparr>\<rparr>],
     c_Pools := [ex_valid_pool, ex_valid_pool\<lparr>pl_ID := ''p2'', pl_CIDR := ''10.1.0.0/16'', pl_ExcludedCIDRs := []\<rparr>],
     c_SubnetPolicy := (c_SubnetPolicy ex_config)\<lparr>sp_RequireParentScope := ''vpc'', sp_MaxChildren := 8\<rparr>,
     c_Identities := [\<lparr>p_Subject = ''alice'', p_TenantID = ''t'', p_Accounts = [''123456789012''],
       p_Environments = [''dev''], p_Regions = [''r''], p_Role = []\<rparr>]\<rparr>"

theorem validated_configuration_is_consistent_witness:
  "list_all scoped (c_Identities ex_valid) \<and> distinct (map pl_ID (c_Pools ex_valid))"
proof -
  have "Validate ex_urls ex_valid ''development'' = None" by code_simp
  from validated_configuration_is_consistent [OF this] show ?thesis by blast
qed

text \<open>
  Stage and production fail closed: settings that validate for the API outside development use
  OIDC with a credential-free HTTPS issuer and an explicit audience, live cloud observations, a
  database connection that verifies the server, an HTTPS inventory with a token, and carry neither
  extra local credentials nor custom cloud endpoints; the configuration beside them has at least a
  week of quarantine and five minutes between absence scans.
\<close>

theorem production_settings_fail_closed:
  assumes "SettingsValidate N s ''api'' = None" and "s_Environment s \<noteq> ''development''"
    and "Validate N c (s_Environment s) = None"
  shows "s_AuthMode s = ''oidc'' \<and> s_AWSMode s = ''live'' \<and> s_OIDCAudience s \<noteq> [] \<and>
    (\<exists>u. url_Parse N (s_OIDCIssuer s) = Some u \<and> u_Scheme u = ''https'' \<and> \<not> u_User u \<and> u_Host u \<noteq> []) \<and>
    (\<exists>u. url_Parse N (s_DatabaseURL s) = Some u \<and> query_Get N u ''sslmode'' = ''verify-full'') \<and>
    (\<exists>u. url_Parse N (s_NetBoxURL s) = Some u \<and> u_Scheme u = ''https'' \<and> \<not> u_User u) \<and> s_NetBoxToken s \<noteq> [] \<and>
    s_LocalExtraCredentials s = [] \<and> s_AWSEndpointURL s = [] \<and> s_AWSEC2EndpointURL s = [] \<and>
    s_AWSSTSEndpointURL s = [] \<and>
    168 \<le> lc_QuarantineHours (c_Lifecycle c) \<and> 300 \<le> lc_MinScanSpacing (c_Lifecycle c) \<and>
    2 \<le> lc_RequiredAbsenceScans (c_Lifecycle c)"
proof -
  have "168 \<le> lc_QuarantineHours (c_Lifecycle c) \<and> 300 \<le> lc_MinScanSpacing (c_Lifecycle c) \<and>
      2 \<le> lc_RequiredAbsenceScans (c_Lifecycle c)"
    by (rule Validate_None [OF assms(3)]) (use assms(2) in \<open>auto simp: lifecycle_rules_def Let_def\<close>)
  then show ?thesis
    using assms(1,2)
    by (auto simp: SettingsValidate_def first_error_None database_settings_def extra_credentials_def
        netbox_settings_def secureOrigin_def split: option.splits)
qed

definition ex_settings :: Settings where
  "ex_settings = (Environment (\<lambda>k. []))\<lparr>s_Environment := ''prod'', s_DatabaseURL := ''db'', s_AuthMode := ''oidc'',
     s_AWSMode := ''live'', s_OIDCIssuer := ''idp'', s_OIDCAudience := ''ipam'', s_NetBoxURL := ''nb'', s_NetBoxToken := ''x''\<rparr>"

definition ex_prod :: Config where
  "ex_prod = ex_valid\<lparr>c_Lifecycle := (c_Lifecycle ex_valid)\<lparr>lc_QuarantineHours := 168, lc_MinScanSpacing := 300\<rparr>\<rparr>"

theorem production_settings_fail_closed_witness:
  "s_AuthMode ex_settings = ''oidc'' \<and> 168 \<le> lc_QuarantineHours (c_Lifecycle ex_prod)"
proof -
  have s: "SettingsValidate ex_urls ex_settings ''api'' = None" by code_simp
  have d: "s_Environment ex_settings \<noteq> ''development''" by code_simp
  have c: "Validate ex_urls ex_prod (s_Environment ex_settings) = None" by code_simp
  show ?thesis using production_settings_fail_closed [OF s d c] by blast
qed

end
