(* ===== verification/Assess.thy ===== *)
theory Assess
  imports NetIP "HOL-Library.Product_Lexorder"
begin

text \<open>
  The estate assessment, its evidence and its sweep (\<open>types.go\<close>, \<open>identity.go\<close> and \<open>sweep.go\<close> of
  \<open>internal/assess\<close>): observed VPC address associations and fixed ranges are turned into address
  intervals, duplicates are collapsed, and one pass over the sorted intervals finds every pair that
  shares an address. The string types \<open>Tri\<close>, \<open>ResourceType\<close> and \<open>AttemptOutcome\<close> of the code may
  hold any text that was read, so they stay strings.
\<close>

section \<open>Evidence\<close>

record ResourceRecord =
  rr_AccountID :: string
  rr_AccountName :: string
  rr_Region :: string
  rr_Type :: string
  rr_ResourceID :: string
  rr_CIDR :: string
  rr_AssociationID :: "string option"
  rr_Primary :: string
  rr_ParentID :: string
  rr_AZID :: string
  rr_Name :: string
  rr_State :: string
  rr_ObservedAt :: "string option"
  rr_SourceFile :: string
  rr_SourceRow :: int

definition TypeVPC :: string where "TypeVPC = ''vpc''"
definition TypeSubnet :: string where "TypeSubnet = ''subnet''"
definition TriUnknown :: string where "TriUnknown = ''unknown''"

definition primary :: "ResourceRecord \<Rightarrow> string" where
  "primary r = (if rr_Primary r = [] then TriUnknown else rr_Primary r)"

text \<open>The separator \<open>\x1f\<close> of the composed keys.\<close>

definition us :: string where
  "us = [CHR 0x1F]"

definition vpcKey :: "ResourceRecord \<Rightarrow> string" where
  "vpcKey r =
     rr_AccountID r @ us @ rr_Region r @ us @ (if rr_Type r = TypeSubnet then rr_ParentID r else rr_ResourceID r)"

definition Identity :: "ResourceRecord \<Rightarrow> string" where
  "Identity r =
     ''aws:'' @ rr_AccountID r @ '':'' @ rr_Region r @ '':'' @ rr_ResourceID r @ '':'' @ rr_CIDR r @
     (case rr_AssociationID r of
        None \<Rightarrow> []
      | Some a \<Rightarrow> if a \<noteq> [] then '':'' @ a else [])"

record AccountRecord =
  ac_AccountID :: string
  ac_Name :: string
  ac_Status :: string

definition StageDescribe :: string where "StageDescribe = ''describe''"

record FailureRow =
  fl_AccountID :: string
  fl_AccountName :: string
  fl_Region :: string
  fl_Stage :: string
  fl_Error :: string
  fl_SourceFile :: string
  fl_SourceRow :: int

definition AttemptSucceeded :: string where "AttemptSucceeded = ''succeeded''"
definition AttemptFailed :: string where "AttemptFailed = ''failed''"
definition AttemptPartial :: string where "AttemptPartial = ''partial''"
definition AttemptNotAttempted :: string where "AttemptNotAttempted = ''not_attempted''"

record RunAttempt =
  at_AccountID :: string
  at_Region :: string
  at_Outcome :: string
  at_Stage :: string
  at_RowCount :: "int option"

record RunRecord =
  rn_StartedAt :: string
  rn_FinishedAt :: string
  rn_RoleName :: string
  rn_ManagementCredentials :: bool
  rn_ConfiguredRegions :: "string list"
  rn_ScriptVersion :: string
  rn_Attempts :: "RunAttempt list"
  rn_SourceFile :: string

record Input =
  in_Records :: "ResourceRecord list"
  in_Accounts :: "AccountRecord list"
  in_Failures :: "FailureRow list"
  in_Run :: "RunRecord option"

text \<open>The first required field that is absent, with the row it is absent from.\<close>

datatype AssessError = MissingField string int string | TooManyRelationships nat nat

definition missing_field :: "ResourceRecord \<Rightarrow> AssessError option" where
  "missing_field r =
     map_option (\<lambda>(name, _). MissingField (rr_SourceFile r) (rr_SourceRow r) name)
       (find (\<lambda>(_, val). val = [])
          [(''cidr'', rr_CIDR r), (''account_id'', rr_AccountID r), (''region'', rr_Region r),
           (''type'', rr_Type r), (''resource_id'', rr_ResourceID r)])"

definition ValidateInput :: "Input \<Rightarrow> AssessError option" where
  "ValidateInput inp = first_error (map missing_field (in_Records inp))"

section \<open>Associations\<close>

record FixedRange =
  fr_CIDR :: string
  fr_Description :: string
  fr_Owner :: string
  fr_SourceFile :: string
  fr_SourceRow :: int

record association =
  as_start :: "32 word"
  as_end :: "32 word"
  as_vpcKey :: string
  as_fixed :: bool
  as_rec :: ResourceRecord
  as_fx :: FixedRange
  as_identity :: string

definition zero_ResourceRecord :: ResourceRecord where
  "zero_ResourceRecord = \<lparr>rr_AccountID = [], rr_AccountName = [], rr_Region = [], rr_Type = [], rr_ResourceID = [],
     rr_CIDR = [], rr_AssociationID = None, rr_Primary = [], rr_ParentID = [], rr_AZID = [], rr_Name = [],
     rr_State = [], rr_ObservedAt = None, rr_SourceFile = [], rr_SourceRow = 0\<rparr>"

definition zero_FixedRange :: FixedRange where
  "zero_FixedRange = \<lparr>fr_CIDR = [], fr_Description = [], fr_Owner = [], fr_SourceFile = [], fr_SourceRow = 0\<rparr>"

text \<open>The inclusive interval of a canonical IPv4 prefix, computed in 64 bits and truncated to 32.\<close>

definition cidrInterval :: "string \<Rightarrow> (32 word \<times> 32 word) option" where
  "cidrInterval cidr =
     (case ParsePrefix cidr of
        None \<Rightarrow> None
      | Some p \<Rightarrow>
          if \<not> Is4 (ip p) \<or> p \<noteq> Masked p then None
          else
            let start = word4 (ip p); size = (push_bit (32 - pbits p) 1 :: 64 word)
            in Some (start, ucast ((ucast start :: 64 word) + size - 1)))"

definition dedupeKey :: "ResourceRecord \<Rightarrow> string" where
  "dedupeKey r =
     rr_AccountID r @ us @ rr_Region r @ us @ rr_ResourceID r @ us @ rr_CIDR r @ us @
     (case rr_AssociationID r of None \<Rightarrow> [] | Some a \<Rightarrow> a)"

definition sourceLess :: "ResourceRecord \<Rightarrow> ResourceRecord \<Rightarrow> bool" where
  "sourceLess a b =
     (if rr_SourceFile a \<noteq> rr_SourceFile b then rr_SourceFile a < rr_SourceFile b
      else rr_SourceRow a < rr_SourceRow b)"

definition canonical :: "ResourceRecord list \<Rightarrow> ResourceRecord" where
  "canonical grp = foldl (\<lambda>best r. if sourceLess r best then r else best) (hd grp) (tl grp)"

definition dedupeAssociations :: "ResourceRecord list \<Rightarrow> ResourceRecord list \<times> nat" where
  "dedupeAssociations records =
     (let vpcs = filter (\<lambda>r. rr_Type r = TypeVPC) records;
          order = sort (remdups (map dedupeKey vpcs));
          grp = (\<lambda>key. filter (\<lambda>r. dedupeKey r = key) vpcs)
      in (map (\<lambda>key. canonical (grp key)) order, sum_list (map (\<lambda>key. length (grp key) - 1) order)))"

record Note =
  nt_Kind :: string
  nt_Message :: string
  nt_SourceFile :: string
  nt_SourceRow :: int

definition NoteInvalidCIDR :: string where "NoteInvalidCIDR = ''invalid-cidr''"

definition vpc_association :: "ResourceRecord \<Rightarrow> association option" where
  "vpc_association r =
     map_option (\<lambda>(s, e). \<lparr>as_start = s, as_end = e, as_vpcKey = vpcKey r, as_fixed = False, as_rec = r,
         as_fx = zero_FixedRange, as_identity = Identity r\<rparr>)
       (cidrInterval (rr_CIDR r))"

definition invalid_vpc_note :: "ResourceRecord \<Rightarrow> Note" where
  "invalid_vpc_note r =
     \<lparr>nt_Kind = NoteInvalidCIDR, nt_Message = ''resource '' @ rr_ResourceID r @ '' has CIDR '' @ rr_CIDR r @
        '', which is not a canonical IPv4 prefix; excluded from every comparison'',
      nt_SourceFile = rr_SourceFile r, nt_SourceRow = rr_SourceRow r\<rparr>"

definition fixedIdentity :: "FixedRange \<Rightarrow> string" where
  "fixedIdentity fx = ''fixed:'' @ fr_CIDR fx"

definition fixed_order :: "FixedRange list \<Rightarrow> FixedRange list" where
  "fixed_order = sort_key (\<lambda>f. (fr_CIDR f, fr_Description f, fr_Owner f, fr_SourceFile f, fr_SourceRow f))"

definition invalid_fixed_note :: "FixedRange \<Rightarrow> Note" where
  "invalid_fixed_note fx =
     \<lparr>nt_Kind = NoteInvalidCIDR, nt_Message = ''fixed range '' @ fr_CIDR fx @
        '' is not a canonical IPv4 prefix; excluded from every comparison'',
      nt_SourceFile = fr_SourceFile fx, nt_SourceRow = fr_SourceRow fx\<rparr>"

fun fixed_associations :: "string list \<Rightarrow> FixedRange list \<Rightarrow> association list \<times> Note list" where
  "fixed_associations seen [] = ([], [])"
| "fixed_associations seen (fx # rest) =
     (case cidrInterval (fr_CIDR fx) of
        None \<Rightarrow> (let (items, notes) = fixed_associations seen rest in (items, invalid_fixed_note fx # notes))
      | Some (s, e) \<Rightarrow>
          if fr_CIDR fx \<in> set seen then fixed_associations seen rest
          else let (items, notes) = fixed_associations (fr_CIDR fx # seen) rest
               in (\<lparr>as_start = s, as_end = e, as_vpcKey = [], as_fixed = True, as_rec = zero_ResourceRecord,
                     as_fx = fx, as_identity = fixedIdentity fx\<rparr> # items, notes))"

definition buildAssociations :: "ResourceRecord list \<Rightarrow> FixedRange list \<Rightarrow> association list \<times> Note list" where
  "buildAssociations records fixed =
     (let (items, notes) = fixed_associations [] (fixed_order fixed)
      in (List.map_filter vpc_association records @ items,
          map invalid_vpc_note (filter (\<lambda>r. cidrInterval (rr_CIDR r) = None) records) @ notes))"

section \<open>The sweep\<close>

datatype Kind = KindEqualCIDR | KindContains

record rawRelationship =
  rl_kind :: Kind
  rl_x :: association
  rl_y :: association

definition sweep_order :: "association list \<Rightarrow> association list" where
  "sweep_order = sort_key (\<lambda>a. (as_start a, - uint (as_end a), as_identity a))"

definition relate :: "association \<Rightarrow> association \<Rightarrow> rawRelationship option" where
  "relate cur s =
     (if as_fixed s \<and> as_fixed cur then None
      else if \<not> as_fixed s \<and> \<not> as_fixed cur \<and> as_vpcKey s = as_vpcKey cur then None
      else if as_start s = as_start cur \<and> as_end s = as_end cur
      then Some \<lparr>rl_kind = KindEqualCIDR, rl_x = s, rl_y = cur\<rparr>
      else Some \<lparr>rl_kind = KindContains, rl_x = s, rl_y = cur\<rparr>)"

fun sweep_loop :: "association list \<Rightarrow> association list \<Rightarrow> rawRelationship list" where
  "sweep_loop opened [] = []"
| "sweep_loop opened (cur # rest) =
     (let kept = filter (\<lambda>s. as_start cur \<le> as_end s) opened
      in List.map_filter (relate cur) kept @ sweep_loop (kept @ [cur]) rest)"

definition sweep :: "association list \<Rightarrow> rawRelationship list" where
  "sweep items = sweep_loop [] (sweep_order items)"

section \<open>The sweep against the comparison of all pairs\<close>

definition meets :: "association \<Rightarrow> association \<Rightarrow> bool" where
  "meets a b \<longleftrightarrow> {as_start a .. as_end a} \<inter> {as_start b .. as_end b} \<noteq> {}"

text \<open>Every item against every earlier one.\<close>

fun all_pairs :: "association list \<Rightarrow> association list \<Rightarrow> rawRelationship list" where
  "all_pairs earlier [] = []"
| "all_pairs earlier (cur # rest) =
     List.map_filter (relate cur) (filter (meets cur) earlier) @ all_pairs (earlier @ [cur]) rest"

definition proper :: "association \<Rightarrow> bool" where
  "proper a \<longleftrightarrow> as_start a \<le> as_end a"

lemma meets_iff:
  "proper a \<Longrightarrow> proper b \<Longrightarrow> as_start b \<le> as_start a \<Longrightarrow> meets a b \<longleftrightarrow> as_start a \<le> as_end b"
  unfolding meets_def proper_def by fastforce

lemma sweep_loop_all_pairs:
  assumes "sorted (map as_start (earlier @ rest))" "\<forall>a \<in> set (earlier @ rest). proper a"
    and "\<forall>c \<in> set rest. filter (\<lambda>s. as_start c \<le> as_end s) opened = filter (\<lambda>s. as_start c \<le> as_end s) earlier"
  shows "sweep_loop opened rest = all_pairs earlier rest"
  using assms
proof (induction rest arbitrary: opened earlier)
  case (Cons cur rest)
  let ?kept = "filter (\<lambda>s. as_start cur \<le> as_end s) opened"
  have kept: "?kept = filter (meets cur) earlier"
  proof -
    have "?kept = filter (\<lambda>s. as_start cur \<le> as_end s) earlier" using Cons(4) by simp
    also have "\<dots> = filter (meets cur) earlier"
      using Cons(2,3) by (intro filter_cong) (auto simp: sorted_append meets_iff)
    finally show ?thesis .
  qed
  have "filter (\<lambda>s. as_start c \<le> as_end s) (?kept @ [cur]) = filter (\<lambda>s. as_start c \<le> as_end s) (earlier @ [cur])"
    if c: "c \<in> set rest" for c
  proof -
    have "as_start cur \<le> as_start c" using Cons(2) c by (auto simp: sorted_append)
    then have "filter (\<lambda>s. as_start c \<le> as_end s) ?kept = filter (\<lambda>s. as_start c \<le> as_end s) opened"
      by (auto intro: filter_cong)
    also have "\<dots> = filter (\<lambda>s. as_start c \<le> as_end s) earlier" using Cons(4) c by simp
    finally show ?thesis by simp
  qed
  then have "sweep_loop (?kept @ [cur]) rest = all_pairs (earlier @ [cur]) rest"
    using Cons(2,3) by (intro Cons(1)) auto
  then show ?case by (simp add: kept [symmetric])
qed simp

lemma sweep_order_simps:
  "set (sweep_order items) = set items" "sorted (map as_start (sweep_order items))"
proof -
  show "set (sweep_order items) = set items" by (simp add: sweep_order_def)
  have "sorted (map (\<lambda>a. (as_start a, - uint (as_end a), as_identity a)) (sweep_order items))"
    by (simp add: sweep_order_def)
  then show "sorted (map as_start (sweep_order items))"
    by (simp add: sorted_map) (auto elim!: sorted_wrt_mono_rel [rotated] simp: less_eq_prod_def)
qed

lemma sweep_all_pairs:
  assumes "\<forall>a \<in> set items. proper a"
  shows "sweep items = all_pairs [] (sweep_order items)"
  unfolding sweep_def using assms sweep_order_simps [of items] by (intro sweep_loop_all_pairs) auto

section \<open>Intervals of canonical prefixes\<close>

text \<open>The prefix an interval stands for.\<close>

definition interval_of :: "Prefix \<Rightarrow> association \<Rightarrow> bool" where
  "interval_of p a \<longleftrightarrow> valid_prefix p \<and> Is4 (ip p) \<and> unat (as_start a) = lo4 p \<and> unat (as_end a) = hi4 p"

lemma cidrInterval_Some:
  assumes "cidrInterval cidr = Some (s, e)"
  obtains p where "ParsePrefix cidr = Some p" "Is4 (ip p)" "Masked p = p" "valid_prefix p"
    "unat s = lo4 p" "unat e = hi4 p"
proof -
  obtain p where p: "ParsePrefix cidr = Some p" "Is4 (ip p)" "Masked p = p" "s = word4 (ip p)"
      "e = ucast ((ucast s :: 64 word) + push_bit (32 - pbits p) 1 - 1)"
    using assms by (auto simp: cidrInterval_def Let_def split: option.splits if_splits)
  have v: "valid_prefix p" using ParsePrefix_valid [OF p(1)] .
  then have b: "pbits p \<le> 32" using p(2) by (auto simp: valid_prefix_def BitLen_def Is4_V4)
  have lo: "unat s = lo4 p" using word4_Masked [OF p(2)] p(3,4) by (simp add: lo4_def)
  have size: "unat (push_bit (32 - pbits p) 1 :: 64 word) = size4 p"
  proof -
    have "(2 :: nat) ^ (32 - pbits p) < 2 ^ 64" by (intro power_strict_increasing) auto
    then show ?thesis using unat_push [of "1 :: 64 word" "32 - pbits p"] by (simp add: size4_def)
  qed
  have h: "lo4 p + size4 p = hi4 p + 1" "hi4 p < 2 ^ 32"
    using size4_pos [of p] hi4_less [OF v p(2)] by (simp_all add: hi4_def)
  have "unat s < 2 ^ 32" using lo h lo4_le_hi4 [of p] by linarith
  then have "unat s < 2 ^ 64" by simp
  then have "unat (ucast s :: 64 word) = lo4 p" using lo by (simp add: unsigned_ucast_eq take_bit_nat_eq_self)
  then have "unat ((ucast s :: 64 word) + push_bit (32 - pbits p) 1) = hi4 p + 1"
    using size h by (simp add: unat_word_ariths)
  then have "unat ((ucast s :: 64 word) + push_bit (32 - pbits p) 1 - 1) = hi4 p"
    by (simp add: unat_sub_if')
  then have "unat e = hi4 p" using h(2) p(5) by (simp add: unsigned_ucast_eq take_bit_nat_eq_self)
  then show thesis using that p v lo by blast
qed

lemma build_intervals:
  assumes "a \<in> set (fst (buildAssociations records fixed))"
  obtains p where "interval_of p a"
proof -
  have vpc: "\<exists>p. interval_of p a" if r: "vpc_association r = Some a" for r
  proof -
    obtain s e where se: "cidrInterval (rr_CIDR r) = Some (s, e)" "as_start a = s" "as_end a = e"
      using r by (auto simp: vpc_association_def)
    show ?thesis by (rule cidrInterval_Some [OF se(1)]) (auto simp: interval_of_def se)
  qed
  have fixd: "\<exists>p. interval_of p a" if "a \<in> set (fst (fixed_associations seen fs))" for seen fs
    using that
  proof (induction seen fs rule: fixed_associations.induct)
    case (2 seen fx rest)
    show ?case
    proof (cases "cidrInterval (fr_CIDR fx)")
      case None
      then show ?thesis using 2 by (auto split: prod.splits)
    next
      case (Some se)
      obtain s e where se: "cidrInterval (fr_CIDR fx) = Some (s, e)" using Some by (cases se) auto
      obtain q where q: "unat s = lo4 q" "unat e = hi4 q" "valid_prefix q" "Is4 (ip q)"
        by (rule cidrInterval_Some [OF se])
      show ?thesis
        using 2 se q by (fastforce simp: interval_of_def split: prod.splits if_splits)
    qed
  qed simp
  have "(\<exists>r. vpc_association r = Some a) \<or> a \<in> set (fst (fixed_associations [] (fixed_order fixed)))"
    using assms by (auto simp: buildAssociations_def List.map_filter_def split: prod.splits)
  then show thesis using that vpc fixd by blast
qed

lemma interval_proper: "interval_of p a \<Longrightarrow> proper a"
  using lo4_le_hi4 [of p] by (simp add: interval_of_def proper_def word_le_nat_alt)

lemma interval_meets:
  assumes "interval_of p a" "interval_of q b"
  shows "meets a b \<longleftrightarrow> Overlaps p q"
proof -
  have "meets a b \<longleftrightarrow> as_start a \<le> as_end b \<and> as_start b \<le> as_end a"
    using interval_proper [OF assms(1)] interval_proper [OF assms(2)] unfolding meets_def proper_def by fastforce
  then show ?thesis
    using assms Overlaps_ranges [of p q] by (auto simp: interval_of_def word_le_nat_alt)
qed

text \<open>Two canonical blocks that share an address are nested, so the one that starts first or, from the
  same start, ends last contains the other.\<close>

lemma interval_contains:
  assumes p: "interval_of p a" and q: "interval_of q b" and m: "meets b a"
    and first: "as_start a < as_start b \<or> as_start a = as_start b \<and> as_end b \<le> as_end a"
  shows "{as_start b .. as_end b} \<subseteq> {as_start a .. as_end a}"
proof -
  have ov: "Overlaps p q" using m interval_meets [OF q p] by (simp add: Overlaps_sym)
  have range: "lo4 p \<le> lo4 q \<and> hi4 q \<le> hi4 p"
  proof (cases "pbits p \<le> pbits q")
    case True
    then have sub: "addrs q \<subseteq> addrs p"
      using addrs_nested [of q p] p q ov by (simp add: interval_of_def Overlaps_sym)
    have "V4 (as_start b) \<in> addrs q" "V4 (as_end b) \<in> addrs q"
      using q mem_range4 lo4_le_hi4 [of q] by (auto simp: interval_of_def)
    then show ?thesis using sub p q mem_range4 [of p] by (auto simp: interval_of_def)
  next
    case False
    then have sub: "addrs p \<subseteq> addrs q" using addrs_nested [of p q] p q ov by (simp add: interval_of_def)
    have "V4 (as_start a) \<in> addrs p" "V4 (as_end a) \<in> addrs p"
      using p mem_range4 lo4_le_hi4 [of p] by (auto simp: interval_of_def)
    then have "lo4 q \<le> lo4 p" "hi4 p \<le> hi4 q" using sub p q mem_range4 [of q] by (auto simp: interval_of_def)
    moreover have "lo4 p \<le> lo4 q" "lo4 p = lo4 q \<Longrightarrow> hi4 q \<le> hi4 p"
      using first p q by (auto simp: interval_of_def word_less_nat_alt word_le_nat_alt)
    ultimately show ?thesis by simp
  qed
  then show ?thesis using p q by (auto simp: interval_of_def word_le_nat_alt)
qed

lemma all_pairs_members:
  "r \<in> set (all_pairs earlier rest) \<longleftrightarrow>
     (\<exists>cur \<in> set rest. \<exists>s \<in> set earlier. meets cur s \<and> relate cur s = Some r) \<or>
     (\<exists>i j. i < j \<and> j < length rest \<and> meets (rest ! j) (rest ! i) \<and> relate (rest ! j) (rest ! i) = Some r)"
proof (induction rest arbitrary: earlier)
  case (Cons cur rest)
  have split: "(\<exists>i j. i < j \<and> j < length (cur # rest) \<and> P ((cur # rest) ! j) ((cur # rest) ! i)) \<longleftrightarrow>
      (\<exists>c \<in> set rest. P c cur) \<or> (\<exists>i j. i < j \<and> j < length rest \<and> P (rest ! j) (rest ! i))" (is "?L \<longleftrightarrow> ?R") for P
  proof
    assume ?L
    then obtain i j where ij: "i < j" "j < length (cur # rest)" "P ((cur # rest) ! j) ((cur # rest) ! i)" by blast
    then obtain j' where j': "j = Suc j'" by (cases j) auto
    show ?R
    proof (cases i)
      case 0
      then show ?thesis using ij j' by (auto intro!: bexI [of _ "rest ! j'"])
    next
      case (Suc i')
      then show ?thesis using ij j' by auto
    qed
  next
    assume ?R
    then show ?L
    proof
      assume "\<exists>c \<in> set rest. P c cur"
      then obtain j where "j < length rest" "P (rest ! j) cur" by (auto simp: in_set_conv_nth)
      then show ?thesis by (intro exI [of _ 0] exI [of _ "Suc j"]) simp
    next
      assume "\<exists>i j. i < j \<and> j < length rest \<and> P (rest ! j) (rest ! i)"
      then obtain i j where "i < j" "j < length rest" "P (rest ! j) (rest ! i)" by blast
      then show ?thesis by (intro exI [of _ "Suc i"] exI [of _ "Suc j"]) simp
    qed
  qed
  have head: "r \<in> set (List.map_filter (relate cur) (filter (meets cur) earlier)) \<longleftrightarrow>
      (\<exists>s \<in> set earlier. meets cur s \<and> relate cur s = Some r)"
    by (force simp: List.map_filter_def)
  show ?case
    unfolding all_pairs.simps set_append Un_iff head Cons
      split [of "\<lambda>c s. meets c s \<and> relate c s = Some r"] by auto
qed simp

end
