(* ===== verification/AssessReport.thy ===== *)
theory AssessReport
  imports Assess ServiceBase
begin

text \<open>
  The assessment's report (\<open>matrix.go\<close>, \<open>conflict.go\<close>, \<open>coverage.go\<close>, \<open>notes.go\<close>, \<open>summary.go\<close>,
  \<open>report.go\<close> and \<open>assess.go\<close> of \<open>internal/assess\<close>): ownership and connectivity groups, the impact of a
  conflict, what was and was not read, and the counts and the sentence of the summary. Decoding JSON and
  writing the report are not modelled; SHA-256 and quoting are the parameters of \<open>Crypto\<close>.
\<close>

definition itoa :: "int \<Rightarrow> string" where
  "itoa n = (if n < 0 then ''-'' @ dec (nat (- n)) else dec (nat n))"

section \<open>Ownership and the connectivity matrix\<close>

record Group =
  gr_ID :: string
  gr_Members :: "string list"

record Matrix =
  mx_Version :: int
  mx_Groups :: "Group list"
  mx_MustCommunicate :: "(string \<times> string) list"
  mx_MustStayIsolated :: "(string \<times> string) list"
  mx_SharedServices :: "string list"

definition zero_Matrix :: Matrix where
  "zero_Matrix = \<lparr>mx_Version = 0, mx_Groups = [], mx_MustCommunicate = [], mx_MustStayIsolated = [], mx_SharedServices = []\<rparr>"

record OwnershipEntry =
  ow_AccountID :: string
  ow_VPCID :: string
  ow_Product :: string
  ow_Environment :: string
  ow_Owner :: string

type_synonym Ownership = "OwnershipEntry list"

fun lookup_loop :: "OwnershipEntry list \<Rightarrow> string \<Rightarrow> string \<Rightarrow> OwnershipEntry option \<Rightarrow> OwnershipEntry option" where
  "lookup_loop [] accountID vpcID found = found"
| "lookup_loop (e # es) accountID vpcID found =
     (if ow_AccountID e \<noteq> accountID then lookup_loop es accountID vpcID found
      else if ow_VPCID e = vpcID \<and> vpcID \<noteq> [] then Some e
      else if ow_VPCID e = [] then lookup_loop es accountID vpcID (Some e)
      else lookup_loop es accountID vpcID found)"

definition lookup_owner :: "Ownership \<Rightarrow> string \<Rightarrow> string \<Rightarrow> OwnershipEntry option" where
  "lookup_owner os accountID vpcID = lookup_loop os accountID vpcID None"

definition unknownOwnership :: string where
  "unknownOwnership = ''unknown''"

definition valueOr :: "string \<Rightarrow> string \<Rightarrow> string" where
  "valueOr v fallback = (if v = [] then fallback else v)"

definition resolve :: "Ownership \<Rightarrow> string \<Rightarrow> string \<Rightarrow> string \<times> string \<times> string" where
  "resolve os accountID vpcID =
     (case lookup_owner os accountID vpcID of
        None \<Rightarrow> (unknownOwnership, unknownOwnership, unknownOwnership)
      | Some e \<Rightarrow> (valueOr (ow_Product e) unknownOwnership, valueOr (ow_Environment e) unknownOwnership,
                  valueOr (ow_Owner e) unknownOwnership))"

record Decision =
  de_Decision :: string
  de_Remediation :: string
  de_Responsible :: string
  de_ReviewedBy :: string
  de_ReviewedAt :: string

record groupAssignment =
  ga_groupID :: string
  ga_assigned :: bool
  ga_ambiguous :: bool

definition unassigned :: groupAssignment where
  "unassigned = \<lparr>ga_groupID = [], ga_assigned = False, ga_ambiguous = False\<rparr>"

record vpcIdentity =
  vi_accountID :: string
  vi_vpcID :: string
  vi_product :: string

definition matchingGroups :: "Matrix \<Rightarrow> (string \<Rightarrow> bool) \<Rightarrow> string list" where
  "matchingGroups m match = sort (map gr_ID (filter (\<lambda>g. list_ex match (gr_Members g)) (mx_Groups m)))"

definition resolveMatches :: "string list \<Rightarrow> groupAssignment" where
  "resolveMatches ids =
     (if length ids = 1 then unassigned\<lparr>ga_groupID := hd ids, ga_assigned := True\<rparr>
      else unassigned\<lparr>ga_ambiguous := True\<rparr>)"

definition matchVPCGroup :: "Matrix \<Rightarrow> Ownership \<Rightarrow> vpcIdentity \<Rightarrow> groupAssignment" where
  "matchVPCGroup m os v =
     (let byVPC = matchingGroups m (\<lambda>member. member = vi_vpcID v);
          product = fst (resolve os (vi_accountID v) (vi_vpcID v));
          byProduct = (if product \<noteq> [] \<and> product \<noteq> unknownOwnership
                       then matchingGroups m (\<lambda>member. member = product) else []);
          byAccount = matchingGroups m (\<lambda>member. member = vi_accountID v)
      in if byVPC \<noteq> [] then resolveMatches byVPC
         else if byProduct \<noteq> [] then resolveMatches byProduct
         else if byAccount \<noteq> [] then resolveMatches byAccount
         else unassigned)"

definition assignGroups :: "Matrix \<Rightarrow> Ownership \<Rightarrow> vpcIdentity gomap \<Rightarrow> groupAssignment gomap" where
  "assignGroups m os vpcKeys = map (\<lambda>(k, v). (k, matchVPCGroup m os v)) vpcKeys"

datatype MatrixRelation =
  RelationMustCommunicate | RelationMustStayIsolated | RelationUndecided | RelationNotInMatrix

datatype Impact = ImpactConfirmed | ImpactPotential | ImpactUnknown

definition isSharedService :: "Matrix \<Rightarrow> string \<Rightarrow> bool" where
  "isSharedService m groupID \<longleftrightarrow> groupID \<in> set (mx_SharedServices m)"

definition pairListed :: "(string \<times> string) list \<Rightarrow> string \<Rightarrow> string \<Rightarrow> bool" where
  "pairListed pairs a b \<longleftrightarrow> list_ex (\<lambda>p. fst p = a \<and> snd p = b \<or> fst p = b \<and> snd p = a) pairs"

definition matrixRelation :: "Matrix \<Rightarrow> string \<Rightarrow> string \<Rightarrow> bool \<Rightarrow> bool \<Rightarrow> MatrixRelation" where
  "matrixRelation m groupA groupB assignedA assignedB =
     (if \<not> assignedA \<or> \<not> assignedB then RelationNotInMatrix
      else if groupA = groupB then RelationMustCommunicate
      else if isSharedService m groupA \<or> isSharedService m groupB then RelationMustCommunicate
      else if pairListed (mx_MustCommunicate m) groupA groupB then RelationMustCommunicate
      else if pairListed (mx_MustStayIsolated m) groupA groupB then RelationMustStayIsolated
      else RelationUndecided)"

definition impactFor :: "bool \<Rightarrow> MatrixRelation \<Rightarrow> bool \<Rightarrow> bool \<Rightarrow> Impact" where
  "impactFor hasMatrix relation assignedA assignedB =
     (if \<not> hasMatrix then ImpactUnknown
      else case relation of
        RelationMustCommunicate \<Rightarrow> ImpactConfirmed
      | RelationMustStayIsolated \<Rightarrow> ImpactPotential
      | RelationUndecided \<Rightarrow> ImpactPotential
      | RelationNotInMatrix \<Rightarrow> if assignedA \<or> assignedB then ImpactPotential else ImpactUnknown)"

section \<open>Conflicts\<close>

datatype Position = NoPosition | PositionOuter | PositionInner

record Side =
  sd_Identity :: string
  sd_AccountID :: string
  sd_AccountName :: string
  sd_Region :: string
  sd_VPCID :: string
  sd_CIDR :: string
  sd_AssociationID :: "string option"
  sd_Primary :: string
  sd_Name :: string
  sd_State :: string
  sd_ObservedAt :: "string option"
  sd_Product :: string
  sd_Environment :: string
  sd_Owner :: string
  sd_Group :: string
  sd_Ambiguous :: bool
  sd_Position :: Position
  sd_Fixed :: bool
  sd_SourceFile :: string
  sd_SourceRow :: int

record Conflict =
  cf_ID :: string
  cf_Kind :: Kind
  cf_Impact :: Impact
  cf_MatrixRelation :: MatrixRelation
  cf_Intersection :: string
  cf_Fixed :: bool
  cf_Sides :: "Side list"
  cf_IsolationNote :: string
  cf_Decision :: "Decision option"

definition kind_text :: "Kind \<Rightarrow> string" where
  "kind_text k = (case k of KindEqualCIDR \<Rightarrow> ''equal-cidr'' | KindContains \<Rightarrow> ''contains'')"

definition ConflictID :: "Crypto \<Rightarrow> Kind \<Rightarrow> string \<Rightarrow> string \<Rightarrow> string" where
  "ConflictID K kind identityA identityB =
     (let (a, b) = (if identityB < identityA then (identityB, identityA) else (identityA, identityB))
      in ''c-'' @ take 16 (sha256hex K (kind_text kind @ nul @ a @ nul @ b)))"

definition positionFor :: "Kind \<Rightarrow> bool \<Rightarrow> Position" where
  "positionFor kind outer =
     (if kind \<noteq> KindContains then NoPosition else if outer then PositionOuter else PositionInner)"

definition sideFrom :: "association \<Rightarrow> Position \<Rightarrow> Side" where
  "sideFrom a role =
     (if as_fixed a then
        \<lparr>sd_Identity = as_identity a, sd_AccountID = [], sd_AccountName = [], sd_Region = [], sd_VPCID = [],
         sd_CIDR = fr_CIDR (as_fx a), sd_AssociationID = None, sd_Primary = [], sd_Name = fr_Description (as_fx a),
         sd_State = [], sd_ObservedAt = None, sd_Product = unknownOwnership, sd_Environment = unknownOwnership,
         sd_Owner = valueOr (fr_Owner (as_fx a)) unknownOwnership, sd_Group = [], sd_Ambiguous = False,
         sd_Position = role, sd_Fixed = True, sd_SourceFile = fr_SourceFile (as_fx a),
         sd_SourceRow = fr_SourceRow (as_fx a)\<rparr>
      else
        let r = as_rec a
        in \<lparr>sd_Identity = Identity r, sd_AccountID = rr_AccountID r, sd_AccountName = rr_AccountName r,
            sd_Region = rr_Region r, sd_VPCID = rr_ResourceID r, sd_CIDR = rr_CIDR r,
            sd_AssociationID = rr_AssociationID r, sd_Primary = primary r, sd_Name = rr_Name r,
            sd_State = rr_State r, sd_ObservedAt = rr_ObservedAt r, sd_Product = [], sd_Environment = [],
            sd_Owner = [], sd_Group = [], sd_Ambiguous = False, sd_Position = role, sd_Fixed = False,
            sd_SourceFile = rr_SourceFile r, sd_SourceRow = rr_SourceRow r\<rparr>)"

definition note_vpc :: "Ownership \<Rightarrow> association \<Rightarrow> vpcIdentity gomap \<Rightarrow> vpcIdentity gomap" where
  "note_vpc os a m =
     (if as_fixed a then m
      else let r = as_rec a; key = vpcKey r
           in if mget m key \<noteq> None then m
              else mput key \<lparr>vi_accountID = rr_AccountID r, vi_vpcID = rr_ResourceID r,
                     vi_product = fst (resolve os (rr_AccountID r) (rr_ResourceID r))\<rparr> m)"

definition vpc_keys :: "Ownership \<Rightarrow> rawRelationship list \<Rightarrow> vpcIdentity gomap" where
  "vpc_keys os rels = fold (\<lambda>rel m. note_vpc os (rl_y rel) (note_vpc os (rl_x rel) m)) rels []"

definition assignSide :: "Ownership \<Rightarrow> groupAssignment gomap \<Rightarrow> association \<Rightarrow> Side \<Rightarrow> Side \<times> string \<times> bool" where
  "assignSide os assignments a side =
     (if as_fixed a then (side, [], False)
      else
        let (product, env, owner) = resolve os (rr_AccountID (as_rec a)) (rr_ResourceID (as_rec a));
            side1 = side\<lparr>sd_Product := product, sd_Environment := env, sd_Owner := owner\<rparr>;
            asg = mget0 unassigned assignments (vpcKey (as_rec a))
        in if ga_ambiguous asg then (side1\<lparr>sd_Ambiguous := True\<rparr>, [], False)
           else if ga_assigned asg then (side1\<lparr>sd_Group := ga_groupID asg\<rparr>, ga_groupID asg, True)
           else (side1, [], False))"

definition isolation_note :: string where
  "isolation_note = ''the matrix marks these groups must_stay_isolated; isolation is a policy intention enforced by route tables and security controls, not a property of the addresses, and the overlapping ranges make a later change of that decision expensive''"

definition cidrString :: "association \<Rightarrow> string" where
  "cidrString a = (if as_fixed a then fr_CIDR (as_fx a) else rr_CIDR (as_rec a))"

definition conflict_of ::
  "Crypto \<Rightarrow> Ownership \<Rightarrow> Matrix \<Rightarrow> bool \<Rightarrow> Decision gomap \<Rightarrow> groupAssignment gomap \<Rightarrow> rawRelationship \<Rightarrow> Conflict" where
  "conflict_of K os m hasMatrix decisions assignments rel =
     (let (sideX, groupX, assignedX) = assignSide os assignments (rl_x rel) (sideFrom (rl_x rel) (positionFor (rl_kind rel) True));
          (sideY, groupY, assignedY) = assignSide os assignments (rl_y rel) (sideFrom (rl_y rel) (positionFor (rl_kind rel) False));
          relation = matrixRelation m groupX groupY assignedX assignedY;
          cid = ConflictID K (rl_kind rel) (as_identity (rl_x rel)) (as_identity (rl_y rel))
      in \<lparr>cf_ID = cid, cf_Kind = rl_kind rel, cf_Impact = impactFor hasMatrix relation assignedX assignedY,
          cf_MatrixRelation = relation, cf_Intersection = cidrString (rl_y rel),
          cf_Fixed = (as_fixed (rl_x rel) \<or> as_fixed (rl_y rel)),
          cf_Sides = (if sd_Identity sideY < sd_Identity sideX then [sideY, sideX] else [sideX, sideY]),
          cf_IsolationNote = (if relation = RelationMustStayIsolated then isolation_note else []),
          cf_Decision = mget decisions cid\<rparr>)"

definition NoteAmbiguousGroup :: string where
  "NoteAmbiguousGroup = ''ambiguous-group-assignment''"

definition ambiguous_note :: "vpcIdentity \<Rightarrow> Note" where
  "ambiguous_note v =
     \<lparr>nt_Kind = NoteAmbiguousGroup, nt_Message = ''VPC '' @ vi_vpcID v @ '' in account '' @ vi_accountID v @
        '' matches more than one connectivity group; every conflict touching it on either side is impact unknown'',
      nt_SourceFile = [], nt_SourceRow = 0\<rparr>"

definition zero_vpcIdentity :: vpcIdentity where
  "zero_vpcIdentity = \<lparr>vi_accountID = [], vi_vpcID = [], vi_product = []\<rparr>"

definition buildConflicts ::
  "Crypto \<Rightarrow> rawRelationship list \<Rightarrow> Ownership \<Rightarrow> Matrix \<Rightarrow> bool \<Rightarrow> Decision gomap \<Rightarrow> Conflict list \<times> Note list" where
  "buildConflicts K rels os m hasMatrix decisions =
     (let vpcKeys = vpc_keys os rels;
          assignments = assignGroups m os vpcKeys;
          ambiguousKeys = sort (map fst (filter (\<lambda>ka. ga_ambiguous (snd ka)) assignments))
      in (map (conflict_of K os m hasMatrix decisions assignments) rels,
          map (\<lambda>key. ambiguous_note (mget0 zero_vpcIdentity vpcKeys key)) ambiguousKeys))"

definition side_identity :: "Conflict \<Rightarrow> nat \<Rightarrow> string" where
  "side_identity c i = sd_Identity (cf_Sides c ! i)"

definition sortConflicts :: "Conflict list \<Rightarrow> Conflict list" where
  "sortConflicts = sort_key (\<lambda>c. (kind_text (cf_Kind c), side_identity c 0, side_identity c 1, cf_ID c))"

section \<open>Coverage\<close>

record RowCountMismatchEntry =
  rc_AccountID :: string
  rc_Region :: string
  rc_Recorded :: int
  rc_Present :: int

definition sortRowCountMismatches :: "RowCountMismatchEntry list \<Rightarrow> RowCountMismatchEntry list" where
  "sortRowCountMismatches = sort_key (\<lambda>e. (rc_AccountID e, rc_Region e))"

text \<open>An account and a region, the empty region standing for the whole account.\<close>

type_synonym AccountRegion = "string \<times> string"

record FailedEntry =
  fe_AccountID :: string
  fe_AccountName :: string
  fe_Region :: string
  fe_Stage :: string
  fe_Error :: string

record Coverage =
  cv_Complete :: bool
  cv_Failed :: "FailedEntry list"
  cv_Partial :: "AccountRegion list"
  cv_NotAttempted :: "AccountRegion list"
  cv_ReadEmpty :: "AccountRegion list"
  cv_RunMissing :: bool
  cv_AccountsMissing :: bool
  cv_RowCountShort :: "RowCountMismatchEntry list"
  cv_RowCountExceeded :: "RowCountMismatchEntry list"

definition dedupeAccountRegions :: "AccountRegion list \<Rightarrow> AccountRegion list" where
  "dedupeAccountRegions rs = remdups_adj (sort rs)"

text \<open>The rows that count: a row that names its source counts once for each file and line.\<close>

fun present_rows :: "string list \<Rightarrow> ResourceRecord list \<Rightarrow> ResourceRecord list" where
  "present_rows seen [] = []"
| "present_rows seen (r # rest) =
     (if rr_SourceFile r \<noteq> [] \<or> rr_SourceRow r \<noteq> 0 then
        let key = rr_SourceFile r @ us @ itoa (rr_SourceRow r)
        in if key \<in> set seen then present_rows seen rest else r # present_rows (key # seen) rest
      else r # present_rows seen rest)"

definition presentRowCounts :: "ResourceRecord list \<Rightarrow> AccountRegion \<Rightarrow> int" where
  "presentRowCounts records ar =
     int (length (filter (\<lambda>r. (rr_AccountID r, rr_Region r) = ar) (present_rows [] records)))"

definition row_count_entry :: "ResourceRecord list \<Rightarrow> RunAttempt \<Rightarrow> RowCountMismatchEntry option" where
  "row_count_entry records a =
     (if at_Outcome a \<noteq> AttemptSucceeded \<and> at_Outcome a \<noteq> AttemptPartial then None
      else map_option (\<lambda>recorded. \<lparr>rc_AccountID = at_AccountID a, rc_Region = at_Region a, rc_Recorded = recorded,
                         rc_Present = presentRowCounts records (at_AccountID a, at_Region a)\<rparr>) (at_RowCount a))"

definition rowCountMismatches :: "Input \<Rightarrow> RowCountMismatchEntry list \<times> RowCountMismatchEntry list" where
  "rowCountMismatches inp =
     (case in_Run inp of
        None \<Rightarrow> ([], [])
      | Some run \<Rightarrow>
          let entries = List.map_filter (row_count_entry (in_Records inp)) (rn_Attempts run)
          in (sortRowCountMismatches (filter (\<lambda>e. rc_Present e < rc_Recorded e) entries),
              sortRowCountMismatches (filter (\<lambda>e. rc_Present e > rc_Recorded e) entries)))"

definition runSource :: "RunRecord \<Rightarrow> string" where
  "runSource run = (if rn_SourceFile run \<noteq> [] then rn_SourceFile run else ''the run record'')"

definition failure_entry :: "FailureRow \<Rightarrow> FailedEntry" where
  "failure_entry f = \<lparr>fe_AccountID = fl_AccountID f, fe_AccountName = fl_AccountName f, fe_Region = fl_Region f,
     fe_Stage = fl_Stage f, fe_Error = fl_Error f\<rparr>"

text \<open>The default branch of the switch over an attempt's outcome.\<close>

definition failed_attempt :: "Crypto \<Rightarrow> RunRecord \<Rightarrow> AccountRegion list \<Rightarrow> RunAttempt \<Rightarrow> FailedEntry option" where
  "failed_attempt K run recorded a =
     (if at_Outcome a \<in> {AttemptNotAttempted, AttemptPartial, AttemptSucceeded} then None
      else if (at_AccountID a, at_Region a) \<in> set recorded then None
      else Some \<lparr>fe_AccountID = at_AccountID a, fe_AccountName = [], fe_Region = at_Region a, fe_Stage = at_Stage a,
             fe_Error = (if at_Outcome a \<noteq> AttemptFailed
                         then ''outcome '' @ go_quote K (at_Outcome a) @ '' in '' @ runSource run @ '' is not one this version knows''
                         else ''recorded in '' @ runSource run @ '' and in no failure row'')\<rparr>)"

definition attempts_with :: "string \<Rightarrow> RunRecord \<Rightarrow> AccountRegion list" where
  "attempts_with outcome run =
     map (\<lambda>a. (at_AccountID a, at_Region a)) (filter (\<lambda>a. at_Outcome a = outcome) (rn_Attempts run))"

definition regions_with_rows :: "Input \<Rightarrow> AccountRegion list" where
  "regions_with_rows inp = map (\<lambda>r. (rr_AccountID r, rr_Region r)) (filter (\<lambda>r. rr_Type r = TypeVPC) (in_Records inp))"

definition failed_describe :: "Input \<Rightarrow> AccountRegion list" where
  "failed_describe inp =
     map (\<lambda>f. (fl_AccountID f, fl_Region f)) (filter (\<lambda>f. fl_Region f \<noteq> [] \<and> fl_Stage f = StageDescribe) (in_Failures inp))"

definition activeAccounts :: "Input \<Rightarrow> string list" where
  "activeAccounts inp = map ac_AccountID (filter (\<lambda>a. ac_Status a = ''ACTIVE'') (in_Accounts inp))"

definition attemptedAccounts :: "Input \<Rightarrow> string list" where
  "attemptedAccounts inp =
     (case in_Run inp of
        None \<Rightarrow> map fst (regions_with_rows inp) @ map fl_AccountID (in_Failures inp)
      | Some run \<Rightarrow> map at_AccountID (rn_Attempts run))"

definition computeCoverage :: "Crypto \<Rightarrow> Input \<Rightarrow> Coverage" where
  "computeCoverage K inp =
     (let hasRows = regions_with_rows inp;
          failureRecorded = map (\<lambda>f. (fl_AccountID f, fl_Region f)) (in_Failures inp);
          failed = sort_key (\<lambda>e. (fe_AccountID e, fe_Region e, fe_Stage e, fe_Error e))
            (map failure_entry (in_Failures inp) @
             (case in_Run inp of
                None \<Rightarrow> []
              | Some run \<Rightarrow> List.map_filter (failed_attempt K run failureRecorded) (rn_Attempts run)));
          partial = dedupeAccountRegions
            (filter (\<lambda>ar. ar \<in> set hasRows) (failed_describe inp) @
             (case in_Run inp of None \<Rightarrow> [] | Some run \<Rightarrow> attempts_with AttemptPartial run));
          unvisited = map (\<lambda>acct. (acct, [])) (filter (\<lambda>acct. acct \<notin> set (attemptedAccounts inp)) (activeAccounts inp));
          notAttempted = dedupeAccountRegions
            ((case in_Run inp of None \<Rightarrow> [] | Some run \<Rightarrow> attempts_with AttemptNotAttempted run) @ unvisited);
          readEmpty = dedupeAccountRegions
            (case in_Run inp of
               None \<Rightarrow> []
             | Some run \<Rightarrow> filter (\<lambda>ar. ar \<notin> set hasRows) (attempts_with AttemptSucceeded run));
          runMissing = (in_Run inp = None);
          accountsMissing = (in_Accounts inp = []);
          (short, exceeded) = rowCountMismatches inp
      in \<lparr>cv_Complete = (failed = [] \<and> partial = [] \<and> notAttempted = [] \<and> \<not> runMissing \<and> \<not> accountsMissing \<and>
             short = [] \<and> exceeded = []),
          cv_Failed = failed, cv_Partial = partial, cv_NotAttempted = notAttempted, cv_ReadEmpty = readEmpty,
          cv_RunMissing = runMissing, cv_AccountsMissing = accountsMissing, cv_RowCountShort = short,
          cv_RowCountExceeded = exceeded\<rparr>)"

text \<open>The entries that leave a statement open, in the order the code notes them.\<close>

definition coverage_gaps :: "Coverage \<Rightarrow> AccountRegion list" where
  "coverage_gaps c =
     map (\<lambda>f. (fe_AccountID f, fe_Region f)) (cv_Failed c) @ cv_Partial c @ cv_NotAttempted c @
     map (\<lambda>e. (rc_AccountID e, rc_Region e)) (cv_RowCountShort c)"

definition incompleteAccountsAndRegionPairs :: "Coverage \<Rightarrow> nat \<times> nat" where
  "incompleteAccountsAndRegionPairs c =
     (length (remdups (map fst (coverage_gaps c))),
      length (remdups (filter (\<lambda>ar. snd ar \<noteq> []) (coverage_gaps c))))"

section \<open>Notes\<close>

definition plain_note :: "string \<Rightarrow> string \<Rightarrow> Note" where
  "plain_note kind message = \<lparr>nt_Kind = kind, nt_Message = message, nt_SourceFile = [], nt_SourceRow = 0\<rparr>"

definition row_note :: "string \<Rightarrow> string \<Rightarrow> ResourceRecord \<Rightarrow> Note" where
  "row_note kind message r =
     \<lparr>nt_Kind = kind, nt_Message = message, nt_SourceFile = rr_SourceFile r, nt_SourceRow = rr_SourceRow r\<rparr>"

definition NoteReachability :: string where "NoteReachability = ''reachability-disclaimer''"
definition NoteSubnetParentMissing :: string where "NoteSubnetParentMissing = ''subnet-parent-missing''"
definition NoteSubnetOutsideParent :: string where "NoteSubnetOutsideParent = ''subnet-outside-parent''"
definition NoteVPCIDReusedAcrossAccounts :: string where
  "NoteVPCIDReusedAcrossAccounts = ''vpc-id-reused-across-accounts''"
definition NoteHighFanoutCIDR :: string where "NoteHighFanoutCIDR = ''high-fanout-cidr''"
definition NoteRowCountExceedsRecorded :: string where
  "NoteRowCountExceedsRecorded = ''row-count-exceeds-recorded''"

definition rowCountExceededNotes :: "RowCountMismatchEntry list \<Rightarrow> Note list" where
  "rowCountExceededNotes entries =
     map (\<lambda>e. plain_note NoteRowCountExceedsRecorded
           (''account '' @ rc_AccountID e @ '' region '' @ rc_Region e @ '': run.json recorded row_count '' @
            itoa (rc_Recorded e) @ '', but '' @ itoa (rc_Present e) @
            '' rows are present in the networks input -- more than the collector itself counted for this account and region''))
       entries"

definition reachabilityNote :: Note where
  "reachabilityNote = plain_note NoteReachability
     ''no route table, Transit Gateway attachment, propagation or traffic test was read; nothing in this report asserts that any two workloads can or cannot reach each other''"

definition subnet_note :: "ResourceRecord list \<Rightarrow> ResourceRecord \<Rightarrow> Note option" where
  "subnet_note vpcs r =
     (let parentKey = rr_AccountID r @ us @ rr_Region r @ us @ rr_ParentID r;
          parents = filter (\<lambda>v. vpcKey v = parentKey) vpcs
      in if parents = [] then
           Some (row_note NoteSubnetParentMissing
             (''subnet '' @ rr_ResourceID r @ '' in account '' @ rr_AccountID r @ '' region '' @ rr_Region r @
              '' names parent VPC '' @ rr_ParentID r @ '', which was not read'') r)
         else case cidrInterval (rr_CIDR r) of
           None \<Rightarrow> None
         | Some (s, e) \<Rightarrow>
             if list_ex (\<lambda>(s', e'). s' \<le> s \<and> e \<le> e') (List.map_filter (\<lambda>v. cidrInterval (rr_CIDR v)) parents) then None
             else Some (row_note NoteSubnetOutsideParent
               (''subnet '' @ rr_ResourceID r @ '' ('' @ rr_CIDR r @
                '') lies outside every CIDR association recorded for its parent VPC '' @ rr_ParentID r @
                ''; that VPC's association set was read incompletely'') r))"

definition subnetNotes :: "ResourceRecord list \<Rightarrow> ResourceRecord list \<Rightarrow> Note list" where
  "subnetNotes records vpcs =
     List.map_filter (subnet_note vpcs) (filter (\<lambda>r. rr_Type r = TypeSubnet) records)"

text \<open>How \<open>%v\<close> prints a list of strings.\<close>

fun spaced :: "string list \<Rightarrow> string" where
  "spaced [] = []"
| "spaced [x] = x"
| "spaced (x # y # ys) = x @ '' '' @ spaced (y # ys)"

definition vpcIDReuseNotes :: "ResourceRecord list \<Rightarrow> Note list" where
  "vpcIDReuseNotes vpcs =
     (let accts = (\<lambda>vpcID. sort (remdups (map rr_AccountID (filter (\<lambda>r. rr_ResourceID r = vpcID) vpcs))))
      in map (\<lambda>vpcID. plain_note NoteVPCIDReusedAcrossAccounts
               (''VPC id '' @ vpcID @ '' appears under '' @ dec (length (accts vpcID)) @ '' different accounts (['' @
                spaced (accts vpcID) @ '']); treated as a data error, not as one resource or as independent ones''))
           (filter (\<lambda>vpcID. length (accts vpcID) > 1) (sort (remdups (map rr_ResourceID vpcs)))))"

definition highFanoutThreshold :: nat where "highFanoutThreshold = 20"

definition fanout_key :: "association \<Rightarrow> string" where
  "fanout_key a = dec (unat (as_start a)) @ ''-'' @ dec (unat (as_end a))"

definition highFanoutNotes :: "association list \<Rightarrow> Note list" where
  "highFanoutNotes items =
     (let grp = (\<lambda>key. filter (\<lambda>a. fanout_key a = key) items)
      in map (\<lambda>key. plain_note NoteHighFanoutCIDR
               (''CIDR '' @ cidrString (hd (grp key)) @ '' is shared by '' @ dec (length (grp key)) @
                '' resources, producing '' @ dec (length (grp key) * (length (grp key) - 1) div 2) @ '' pairwise relationships''))
           (filter (\<lambda>key. \<not> length (grp key) < highFanoutThreshold) (sort (remdups (map fanout_key items)))))"

definition sortNotes :: "Note list \<Rightarrow> Note list" where
  "sortNotes = sort_key (\<lambda>n. (nt_Kind n \<noteq> NoteReachability, nt_Kind n, nt_Message n, nt_SourceFile n, nt_SourceRow n))"

section \<open>Summary\<close>

definition decisionCounts :: "Conflict list \<Rightarrow> Decision gomap \<Rightarrow> nat \<times> nat \<times> nat" where
  "decisionCounts conflicts decisions =
     (length (filter (\<lambda>c. cf_Decision c \<noteq> None) conflicts),
      length (filter (\<lambda>c. cf_Decision c = None) conflicts),
      length (filter (\<lambda>i. i \<notin> set (map cf_ID conflicts)) (map fst decisions)))"

definition implicatedVPCCount :: "Coverage \<Rightarrow> ResourceRecord list \<Rightarrow> nat" where
  "implicatedVPCCount coverage survivors =
     (let gaps = coverage_gaps coverage
      in length (remdups (map vpcKey (filter
           (\<lambda>r. (rr_AccountID r, []) \<in> set gaps \<or> rr_Region r \<noteq> [] \<and> (rr_AccountID r, rr_Region r) \<in> set gaps) survivors))))"

record Summary =
  su_Sentence :: string
  su_TotalRelationships :: nat
  su_ByKind :: "(Kind \<times> nat) list"
  su_ByImpact :: "(Impact \<times> nat) list"
  su_FixedRelationships :: nat
  su_IncompleteAccounts :: nat
  su_IncompleteRegionPairs :: nat
  su_ImplicatedVPCs :: nat
  su_DuplicateObservations :: nat
  su_UnknownOwnershipSides :: nat
  su_DecisionsDecided :: nat
  su_DecisionsUndecided :: nat
  su_DecisionsStale :: nat

definition impact_counts :: "nat \<Rightarrow> (Impact \<Rightarrow> nat) \<Rightarrow> string" where
  "impact_counts n byImpact =
     ''across the AWS network data actually observed, '' @ dec n @
     '' VPC/CIDR relationship(s) prevent the intended connectivity ('' @ dec (byImpact ImpactConfirmed) @ '' confirmed, '' @
     dec (byImpact ImpactPotential) @ '' potential, '' @ dec (byImpact ImpactUnknown) @ '' unknown)''"

definition no_conflict_sentence :: string where
  "no_conflict_sentence = ''no conflicting relationship was observed in the scope read''"

definition renderSentence :: "bool \<Rightarrow> nat \<Rightarrow> nat \<Rightarrow> (Impact \<Rightarrow> nat) \<Rightarrow> nat \<Rightarrow> nat \<Rightarrow> string \<Rightarrow> string" where
  "renderSentence complete n fixedCount byImpact incompleteAccounts incompleteRegionPairs stamp =
     (if \<not> complete then
        let gap = ''this report cannot make a complete statement for '' @ dec incompleteAccounts @ '' account(s) and '' @
              dec incompleteRegionPairs @ '' account-region pair(s) because coverage is missing''
        in if n = 0 \<and> fixedCount = 0
           then gap @ ''; no VPC/CIDR relationship was found in the scope that was read, but an incomplete scope is not evidence that none exist''
           else impact_counts n byImpact @ ''; '' @ gap
      else if n = 0 then no_conflict_sentence @ (if stamp \<noteq> [] then '' at '' @ stamp else [])
      else impact_counts n byImpact)"

definition computeSummary ::
  "Coverage \<Rightarrow> Conflict list \<Rightarrow> nat \<Rightarrow> ResourceRecord list \<Rightarrow> Decision gomap \<Rightarrow> string \<Rightarrow> Summary" where
  "computeSummary coverage conflicts duplicateObservations survivors decisions stamp =
     (let counted = filter (\<lambda>c. \<not> cf_Fixed c) conflicts;
          fixedCount = length (filter cf_Fixed conflicts);
          byKind = (\<lambda>k. length (filter (\<lambda>c. cf_Kind c = k) counted));
          byImpact = (\<lambda>i. length (filter (\<lambda>c. cf_Impact c = i) counted));
          (incompleteAccounts, incompleteRegionPairs) = incompleteAccountsAndRegionPairs coverage;
          (decided, undecided, stale) = decisionCounts conflicts decisions
      in \<lparr>su_Sentence = renderSentence (cv_Complete coverage) (length counted) fixedCount byImpact incompleteAccounts
            incompleteRegionPairs stamp,
          su_TotalRelationships = length counted,
          su_ByKind = map (\<lambda>k. (k, byKind k)) [KindEqualCIDR, KindContains],
          su_ByImpact = map (\<lambda>i. (i, byImpact i)) [ImpactConfirmed, ImpactPotential, ImpactUnknown],
          su_FixedRelationships = fixedCount, su_IncompleteAccounts = incompleteAccounts,
          su_IncompleteRegionPairs = incompleteRegionPairs, su_ImplicatedVPCs = implicatedVPCCount coverage survivors,
          su_DuplicateObservations = duplicateObservations,
          su_UnknownOwnershipSides = length (filter (\<lambda>s. sd_Owner s = unknownOwnership) (concat (map cf_Sides conflicts))),
          su_DecisionsDecided = decided, su_DecisionsUndecided = undecided, su_DecisionsStale = stale\<rparr>)"

section \<open>The report\<close>

record Report =
  rp_ReportVersion :: int
  rp_Stamp :: string
  rp_Inputs :: "(string \<times> string) list"
  rp_InputLimits :: "string list"
  rp_Coverage :: Coverage
  rp_Summary :: Summary
  rp_Conflicts :: "Conflict list"
  rp_Notes :: "Note list"

definition buildDigests :: "Crypto \<Rightarrow> (string \<times> string) list \<Rightarrow> (string \<times> string) list" where
  "buildDigests K files = sort_key fst (map (\<lambda>(path, content). (path, sha256hex K content)) files)"

definition Clean :: "Report \<Rightarrow> bool" where
  "Clean r \<longleftrightarrow> cv_Complete (rp_Coverage r) \<and> \<not> list_ex (\<lambda>c. cf_Impact c = ImpactConfirmed) (rp_Conflicts r)"

definition defaultMaxRelationships :: int where "defaultMaxRelationships = 100000"

record Options =
  opt_Matrix :: "Matrix option"
  opt_Ownership :: Ownership
  opt_Fixed :: "FixedRange list"
  opt_Decisions :: "Decision gomap"
  opt_Stamp :: string
  opt_MaxRelationships :: int
  opt_InputFiles :: "(string \<times> string) list"

definition computeInputLimits :: "ResourceRecord list \<Rightarrow> RunRecord option \<Rightarrow> bool \<Rightarrow> string list" where
  "computeInputLimits survivors run accountsSupplied =
     sort ((if list_ex (\<lambda>r. rr_AssociationID r = None) survivors then [''association-id-missing''] else []) @
           (if list_ex (\<lambda>r. rr_ObservedAt r = None) survivors then [''observation-time-missing''] else []) @
           (if list_ex (\<lambda>r. primary r = TriUnknown) survivors then [''primary-missing''] else []) @
           (case run of
              None \<Rightarrow> [''attempted-set-unknown'']
            | Some rn \<Rightarrow>
                if list_ex (\<lambda>a. (at_Outcome a = AttemptSucceeded \<or> at_Outcome a = AttemptPartial) \<and> at_RowCount a = None)
                     (rn_Attempts rn)
                then [''row-count-missing''] else []) @
           (if \<not> accountsSupplied then [''expected-accounts-unknown''] else []))"

definition Assess :: "Crypto \<Rightarrow> Input \<Rightarrow> Options \<Rightarrow> AssessError + Report" where
  "Assess K inp opts =
     (case ValidateInput inp of
        Some e \<Rightarrow> Inl e
      | None \<Rightarrow>
          let (survivors, duplicateObservations) = dedupeAssociations (in_Records inp);
              (items, cidrNotes) = buildAssociations survivors (opt_Fixed opts);
              rels = sweep items;
              limit = (if opt_MaxRelationships opts \<le> 0 then defaultMaxRelationships else opt_MaxRelationships opts)
          in if int (length rels) > limit then Inl (TooManyRelationships (length rels) (nat limit))
             else
               let matrix = (case opt_Matrix opts of None \<Rightarrow> zero_Matrix | Some m \<Rightarrow> m);
                   (conflicts0, groupNotes) = buildConflicts K rels (opt_Ownership opts) matrix (opt_Matrix opts \<noteq> None)
                     (opt_Decisions opts);
                   conflicts = sortConflicts conflicts0;
                   coverage = computeCoverage K inp
               in Inr \<lparr>rp_ReportVersion = 1, rp_Stamp = opt_Stamp opts, rp_Inputs = buildDigests K (opt_InputFiles opts),
                    rp_InputLimits = computeInputLimits survivors (in_Run inp) (in_Accounts inp \<noteq> []),
                    rp_Coverage = coverage,
                    rp_Summary = computeSummary coverage conflicts duplicateObservations survivors (opt_Decisions opts)
                      (opt_Stamp opts),
                    rp_Conflicts = conflicts,
                    rp_Notes = sortNotes ([reachabilityNote] @ cidrNotes @ subnetNotes (in_Records inp) survivors @
                      vpcIDReuseNotes survivors @ groupNotes @ highFanoutNotes items @
                      rowCountExceededNotes (cv_RowCountExceeded coverage))\<rparr>)"

end
