(* ===== verification/AssessProps.thy ===== *)
theory AssessProps
  imports AssessReport Example "HOL-Library.Multiset"
begin

text \<open>
  What the assessment promises: the sweep against the comparison of all pairs, when coverage is complete
  and what the summary may then say, and when an overlap is confirmed to block a connection.
\<close>

section \<open>Shared facts\<close>

lemma relate_Some:
  assumes "relate cur s = Some r"
  shows "rl_x r = s" "rl_y r = cur"
    and "rl_kind r = KindEqualCIDR \<longleftrightarrow> as_start s = as_start cur \<and> as_end s = as_end cur"
    and "\<not> (as_fixed s \<and> as_fixed cur)" "\<not> as_fixed s \<and> \<not> as_fixed cur \<Longrightarrow> as_vpcKey s \<noteq> as_vpcKey cur"
  using assms by (auto simp: relate_def split: if_splits)

lemma sweep_order_first:
  assumes "i < j" "j < length (sweep_order items)"
  shows "as_start (sweep_order items ! i) < as_start (sweep_order items ! j) \<or>
    as_start (sweep_order items ! i) = as_start (sweep_order items ! j) \<and>
    as_end (sweep_order items ! j) \<le> as_end (sweep_order items ! i)"
proof -
  have "sorted (map (\<lambda>a. (as_start a, - uint (as_end a), as_identity a)) (sweep_order items))"
    by (simp add: sweep_order_def)
  then have "(\<lambda>a. (as_start a, - uint (as_end a), as_identity a)) (sweep_order items ! i) \<le>
      (\<lambda>a. (as_start a, - uint (as_end a), as_identity a)) (sweep_order items ! j)"
    using assms sorted_nth_mono [of "map _ _" i j] by fastforce
  then show ?thesis by (auto simp: less_eq_prod_def word_le_def [of "as_end _"])
qed

lemma sweep_members:
  assumes "\<forall>a \<in> set items. proper a"
  shows "r \<in> set (sweep items) \<longleftrightarrow>
    (\<exists>i j. i < j \<and> j < length items \<and> meets (sweep_order items ! j) (sweep_order items ! i) \<and>
       relate (sweep_order items ! j) (sweep_order items ! i) = Some r)"
  using sweep_all_pairs [OF assms] by (simp add: all_pairs_members sweep_order_def)

lemma built_proper: "\<forall>a \<in> set (fst (buildAssociations records fixed)). proper a"
  by (blast elim: build_intervals intro: interval_proper)

lemma sweep_kinds:
  assumes items: "items = fst (buildAssociations records fixed)" and r: "r \<in> set (sweep items)"
  shows "if rl_kind r = KindEqualCIDR
    then {as_start (rl_y r) .. as_end (rl_y r)} = {as_start (rl_x r) .. as_end (rl_x r)}
    else {as_start (rl_y r) .. as_end (rl_y r)} \<subset> {as_start (rl_x r) .. as_end (rl_x r)}"
proof -
  have len: "length (sweep_order items) = length items" by (simp add: sweep_order_def)
  obtain i j where ij: "i < j" "j < length items" "meets (sweep_order items ! j) (sweep_order items ! i)"
      "relate (sweep_order items ! j) (sweep_order items ! i) = Some r"
    using r sweep_members [of items r] built_proper items by auto
  let ?a = "sweep_order items ! i" and ?b = "sweep_order items ! j"
  have mem: "?a \<in> set items" "?b \<in> set items"
    using ij len nth_mem [of i "sweep_order items"] nth_mem [of j "sweep_order items"] sweep_order_simps(1) [of items] by auto
  obtain p where p: "interval_of p ?a" using mem(1) items build_intervals by blast
  obtain q where q: "interval_of q ?b" using mem(2) items build_intervals by blast
  have sub: "{as_start ?b .. as_end ?b} \<subseteq> {as_start ?a .. as_end ?a}"
    using ij len by (intro interval_contains [OF p q ij(3)] sweep_order_first) auto
  have pp: "as_start ?a \<le> as_end ?a" "as_start ?b \<le> as_end ?b"
    using interval_proper [OF p] interval_proper [OF q] by (auto simp: proper_def)
  show ?thesis
    using relate_Some(1,2,3) [OF ij(4)] sub pp by (auto simp: psubset_eq Icc_eq_Icc)
qed

section \<open>The sweep\<close>

text \<open>
  C28. The sweep over the associations of an assessment finds exactly what the comparison of every pair
  finds, each pair once: two associations are related when their address ranges share an address and
  they are neither both fixed nor of one VPC. An equal-cidr relationship joins equal ranges, and in
  every other one the range of the second side lies strictly inside that of the first.
\<close>

theorem sweep_finds_every_overlap:
  assumes "items = fst (buildAssociations records fixed)"
  shows "sweep items = all_pairs [] (sweep_order items) \<and> mset (sweep_order items) = mset items \<and>
    (\<forall>r. r \<in> set (sweep items) \<longleftrightarrow>
      (\<exists>i j. i < j \<and> j < length items \<and> meets (sweep_order items ! j) (sweep_order items ! i) \<and>
         relate (sweep_order items ! j) (sweep_order items ! i) = Some r)) \<and>
    (\<forall>r \<in> set (sweep items).
      if rl_kind r = KindEqualCIDR
      then {as_start (rl_y r) .. as_end (rl_y r)} = {as_start (rl_x r) .. as_end (rl_x r)}
      else {as_start (rl_y r) .. as_end (rl_y r)} \<subset> {as_start (rl_x r) .. as_end (rl_x r)})"
proof (intro conjI ballI)
  have ok: "\<forall>a \<in> set items. proper a" using built_proper assms by simp
  show "sweep items = all_pairs [] (sweep_order items)" by (rule sweep_all_pairs [OF ok])
  show "mset (sweep_order items) = mset items" by (simp add: sweep_order_def)
  show "\<forall>r. r \<in> set (sweep items) \<longleftrightarrow>
      (\<exists>i j. i < j \<and> j < length items \<and> meets (sweep_order items ! j) (sweep_order items ! i) \<and>
         relate (sweep_order items ! j) (sweep_order items ! i) = Some r)"
    using sweep_members [OF ok] by blast
  show "if rl_kind r = KindEqualCIDR
      then {as_start (rl_y r) .. as_end (rl_y r)} = {as_start (rl_x r) .. as_end (rl_x r)}
      else {as_start (rl_y r) .. as_end (rl_y r)} \<subset> {as_start (rl_x r) .. as_end (rl_x r)}"
    if "r \<in> set (sweep items)" for r
    using sweep_kinds [OF assms that] .
qed

text \<open>Two VPCs of two accounts, one inside the other, read completely.\<close>

definition ex_vpc :: "string \<Rightarrow> string \<Rightarrow> string \<Rightarrow> ResourceRecord" where
  "ex_vpc acct vpc cidr = zero_ResourceRecord\<lparr>rr_AccountID := acct, rr_Region := ''r1'', rr_Type := TypeVPC,
     rr_ResourceID := vpc, rr_CIDR := cidr\<rparr>"

definition ex_vpcs :: "ResourceRecord list" where
  "ex_vpcs = [ex_vpc ''1'' ''v1'' ''10.0.0.0/16'', ex_vpc ''2'' ''v2'' ''10.0.4.0/24'']"

definition ex_outer :: "ResourceRecord list" where
  "ex_outer = [ex_vpc ''1'' ''v1'' ''10.0.0.0/16'']"

definition ex_fixed :: "FixedRange list" where
  "ex_fixed = [zero_FixedRange\<lparr>fr_CIDR := ''10.0.5.0/24''\<rparr>]"

lemma ex_intervals:
  "cidrInterval ''10.0.0.0/16'' = Some (167772160, 167837695)"
  "cidrInterval ''10.0.4.0/24'' = Some (167773184, 167773439)"
  "cidrInterval ''10.0.5.0/24'' = Some (167773440, 167773695)"
  by code_simp+

lemmas ex_assess_defs =
  ex_vpcs_def ex_outer_def ex_vpc_def ex_fixed_def zero_ResourceRecord_def zero_FixedRange_def TypeVPC_def TypeSubnet_def
  ex_intervals buildAssociations_def fixed_order_def List.map_filter_def vpc_association_def Identity_def
  fixedIdentity_def sweep_def sweep_order_def relate_def vpcKey_def us_def

lemma ex_sweep:
  "map (\<lambda>r. (rl_kind r, as_identity (rl_x r), as_identity (rl_y r))) (sweep (fst (buildAssociations ex_vpcs ex_fixed))) =
    [(KindContains, ''aws:1:r1:v1:10.0.0.0/16'', ''aws:2:r1:v2:10.0.4.0/24''),
     (KindContains, ''aws:1:r1:v1:10.0.0.0/16'', ''fixed:10.0.5.0/24'')]"
  by (simp add: ex_assess_defs)

theorem sweep_finds_every_overlap_witness:
  "\<exists>r \<in> set (sweep (fst (buildAssociations ex_vpcs ex_fixed))).
     as_identity (rl_y r) = ''fixed:10.0.5.0/24'' \<and>
     {as_start (rl_y r) .. as_end (rl_y r)} \<subset> {as_start (rl_x r) .. as_end (rl_x r)}"
proof -
  let ?rels = "sweep (fst (buildAssociations ex_vpcs ex_fixed))"
  have "(KindContains, ''aws:1:r1:v1:10.0.0.0/16'', ''fixed:10.0.5.0/24'') \<in>
      set (map (\<lambda>r. (rl_kind r, as_identity (rl_x r), as_identity (rl_y r))) ?rels)"
    unfolding ex_sweep by simp
  then obtain r where "r \<in> set ?rels" "rl_kind r = KindContains" "as_identity (rl_y r) = ''fixed:10.0.5.0/24''" by auto
  then show ?thesis using sweep_finds_every_overlap [OF refl, of ex_vpcs ex_fixed] by (intro bexI [of _ r]) auto
qed

section \<open>Coverage\<close>

lemma remdups_adj_sort_Nil [simp]: "dedupeAccountRegions rs = [] \<longleftrightarrow> rs = []"
  unfolding dedupeAccountRegions_def by (metis remdups_adj_Nil_iff set_empty set_sort)

lemma map_filter_Nil: "List.map_filter f xs = [] \<longleftrightarrow> (\<forall>x \<in> set xs. f x = None)"
  by (auto simp: List.map_filter_def filter_empty_conv)

lemma sort_key_Nil [simp]: "sort_key f xs = [] \<longleftrightarrow> xs = []"
  by (metis set_empty set_sort)

text \<open>A row count that was recorded agrees with the rows present.\<close>

definition counted_right :: "Input \<Rightarrow> RunAttempt \<Rightarrow> bool" where
  "counted_right inp a \<longleftrightarrow>
     (case at_RowCount a of
        None \<Rightarrow> True
      | Some n \<Rightarrow> presentRowCounts (in_Records inp) (at_AccountID a, at_Region a) = n)"

lemma rowCountMismatches_Nil:
  assumes "in_Run inp = Some run" "\<forall>a \<in> set (rn_Attempts run). at_Outcome a = AttemptSucceeded"
  shows "fst (rowCountMismatches inp) = [] \<and> snd (rowCountMismatches inp) = [] \<longleftrightarrow>
    (\<forall>a \<in> set (rn_Attempts run). counted_right inp a)"
proof -
  let ?e = "List.map_filter (row_count_entry (in_Records inp)) (rn_Attempts run)"
  have "fst (rowCountMismatches inp) = [] \<and> snd (rowCountMismatches inp) = [] \<longleftrightarrow>
      (\<forall>e \<in> set ?e. rc_Present e = rc_Recorded e)"
    using assms(1) by (auto simp: rowCountMismatches_def sortRowCountMismatches_def filter_empty_conv Let_def not_less intro!: antisym)
  also have "\<dots> \<longleftrightarrow> (\<forall>a \<in> set (rn_Attempts run). counted_right inp a)"
    using assms(2) by (force simp: List.map_filter_def row_count_entry_def counted_right_def split: option.splits)
  finally show ?thesis .
qed

lemma outcome_simps [simp]:
  "AttemptSucceeded \<noteq> AttemptPartial" "AttemptSucceeded \<noteq> AttemptNotAttempted" "AttemptSucceeded \<noteq> AttemptFailed"
  "AttemptPartial \<noteq> AttemptSucceeded" "AttemptNotAttempted \<noteq> AttemptSucceeded" "AttemptFailed \<noteq> AttemptSucceeded"
  by (simp_all add: AttemptSucceeded_def AttemptPartial_def AttemptNotAttempted_def AttemptFailed_def)

lemma coverage_complete:
  "cv_Complete (computeCoverage K inp) \<longleftrightarrow>
    (\<exists>run. in_Run inp = Some run \<and> in_Accounts inp \<noteq> [] \<and> in_Failures inp = [] \<and>
      (\<forall>a \<in> set (rn_Attempts run). at_Outcome a = AttemptSucceeded \<and> counted_right inp a) \<and>
      (\<forall>acct \<in> set (in_Accounts inp). ac_Status acct = ''ACTIVE'' \<longrightarrow>
         (\<exists>a \<in> set (rn_Attempts run). at_AccountID a = ac_AccountID acct)))"
proof (cases "in_Run inp")
  case None
  then show ?thesis by (simp add: computeCoverage_def Let_def split: prod.split)
next
  case (Some run)
  let ?m = "rowCountMismatches inp"
  have "cv_Complete (computeCoverage K inp) \<longleftrightarrow>
      in_Failures inp = [] \<and> (\<forall>a \<in> set (rn_Attempts run). at_Outcome a = AttemptSucceeded) \<and>
      (\<forall>acct \<in> set (in_Accounts inp). ac_Status acct = ''ACTIVE'' \<longrightarrow>
         ac_AccountID acct \<in> at_AccountID ` set (rn_Attempts run)) \<and>
      in_Accounts inp \<noteq> [] \<and> fst ?m = [] \<and> snd ?m = []"
    using Some
    by (cases ?m) (auto simp: computeCoverage_def Let_def map_filter_Nil failed_attempt_def attempts_with_def
      filter_empty_conv attemptedAccounts_def failed_describe_def activeAccounts_def)
  moreover have "x \<in> at_AccountID ` set (rn_Attempts run) \<longleftrightarrow> (\<exists>a \<in> set (rn_Attempts run). at_AccountID a = x)" for x
    by auto
  ultimately show ?thesis using Some rowCountMismatches_Nil [OF Some] by auto
qed

text \<open>The sentence of an incomplete report never starts like that of a complete one.\<close>

lemma renderSentence_no_conflict:
  assumes "renderSentence complete n fixedCount byImpact ia ir stamp = no_conflict_sentence @ x"
  shows "complete" "n = 0"
  using assms by (auto simp: renderSentence_def no_conflict_sentence_def impact_counts_def Let_def split: if_splits)

lemma sentence_all_fixed:
  "cv_Complete coverage \<Longrightarrow> \<forall>c \<in> set conflicts. cf_Fixed c \<Longrightarrow>
    su_Sentence (computeSummary coverage conflicts duplicates survivors decisions []) = no_conflict_sentence"
  by (simp add: computeSummary_def renderSentence_def Let_def split: prod.split)

lemma Assess_Inr:
  assumes "Assess K inp opts = Inr r"
  obtains items where "items = fst (buildAssociations (fst (dedupeAssociations (in_Records inp))) (opt_Fixed opts))"
    and "rp_Conflicts r = sortConflicts (fst (buildConflicts K (sweep items) (opt_Ownership opts)
           (case opt_Matrix opts of None \<Rightarrow> zero_Matrix | Some m \<Rightarrow> m) (opt_Matrix opts \<noteq> None) (opt_Decisions opts)))"
    and "rp_Coverage r = computeCoverage K inp"
    and "rp_Summary r = computeSummary (rp_Coverage r) (rp_Conflicts r) (snd (dedupeAssociations (in_Records inp)))
           (fst (dedupeAssociations (in_Records inp))) (opt_Decisions opts) (opt_Stamp opts)"
  using assms
  by (auto simp: Assess_def ValidateInput_def Let_def split: option.splits prod.splits if_splits)

lemma Assess_returns:
  assumes "ValidateInput inp = None" "opt_MaxRelationships opts = 0"
    and "length (sweep (fst (buildAssociations (fst (dedupeAssociations (in_Records inp))) (opt_Fixed opts)))) \<le> 100000"
  shows "\<exists>r. Assess K inp opts = Inr r"
  using assms by (auto simp: Assess_def Let_def defaultMaxRelationships_def split: prod.split)

definition ex_input :: "ResourceRecord list \<Rightarrow> Input" where
  "ex_input records = \<lparr>in_Records = records,
     in_Accounts = map (\<lambda>r. \<lparr>ac_AccountID = rr_AccountID r, ac_Name = [], ac_Status = ''ACTIVE''\<rparr>) records,
     in_Failures = [],
     in_Run = Some \<lparr>rn_StartedAt = [], rn_FinishedAt = [], rn_RoleName = [], rn_ManagementCredentials = False,
       rn_ConfiguredRegions = [''r1''], rn_ScriptVersion = ''2'',
       rn_Attempts = map (\<lambda>r. \<lparr>at_AccountID = rr_AccountID r, at_Region = rr_Region r, at_Outcome = AttemptSucceeded,
         at_Stage = [], at_RowCount = Some 1\<rparr>) records,
       rn_SourceFile = []\<rparr>\<rparr>"

definition ex_options :: "Matrix option \<Rightarrow> FixedRange list \<Rightarrow> Options" where
  "ex_options m fixed = \<lparr>opt_Matrix = m, opt_Ownership = [], opt_Fixed = fixed, opt_Decisions = [], opt_Stamp = [],
     opt_MaxRelationships = 0, opt_InputFiles = []\<rparr>"

lemma ex_dedupe:
  "fst (dedupeAssociations ex_vpcs) = ex_vpcs" "fst (dedupeAssociations ex_outer) = ex_outer"
  by (simp_all add: dedupeAssociations_def ex_assess_defs dedupeKey_def canonical_def Let_def)

lemma ex_sweep_sizes:
  "length (sweep (fst (buildAssociations ex_vpcs []))) \<le> 100000"
  "length (sweep (fst (buildAssociations ex_outer ex_fixed))) \<le> 100000"
  by (simp_all add: ex_assess_defs)

lemma ex_valid: "ValidateInput (ex_input ex_vpcs) = None" "ValidateInput (ex_input ex_outer) = None"
  by (simp_all add: ValidateInput_def missing_field_def ex_input_def ex_assess_defs)

lemma ex_runs:
  obtains r where "Assess ex_crypto (ex_input ex_vpcs) (ex_options m []) = Inr r"
  using Assess_returns [of "ex_input ex_vpcs" "ex_options m []"] ex_valid ex_sweep_sizes ex_dedupe
  by (auto simp: ex_input_def ex_options_def)

lemma ex_fixed_runs:
  obtains r where "Assess ex_crypto (ex_input ex_outer) (ex_options m ex_fixed) = Inr r"
  using Assess_returns [of "ex_input ex_outer" "ex_options m ex_fixed"] ex_valid ex_sweep_sizes ex_dedupe
  by (auto simp: ex_input_def ex_options_def)

text \<open>
  The coverage of a report is complete exactly when an account list and a run record were supplied,
  no failure was recorded, every attempt of the run succeeded with as many rows as it says, and every
  active account was attempted. Only such a report may say that no conflicting relationship was
  observed, and only when no two VPCs are related; a clean report is complete and confirms no conflict.
\<close>

theorem complete_coverage_means_everything_was_read:
  assumes "Assess K inp opts = Inr r"
  shows "(cv_Complete (rp_Coverage r) \<longleftrightarrow>
      (\<exists>run. in_Run inp = Some run \<and> in_Accounts inp \<noteq> [] \<and> in_Failures inp = [] \<and>
        (\<forall>a \<in> set (rn_Attempts run). at_Outcome a = AttemptSucceeded \<and> counted_right inp a) \<and>
        (\<forall>acct \<in> set (in_Accounts inp). ac_Status acct = ''ACTIVE'' \<longrightarrow>
           (\<exists>a \<in> set (rn_Attempts run). at_AccountID a = ac_AccountID acct)))) \<and>
    (\<forall>x. su_Sentence (rp_Summary r) = no_conflict_sentence @ x \<longrightarrow>
      cv_Complete (rp_Coverage r) \<and> (\<forall>c \<in> set (rp_Conflicts r). cf_Fixed c)) \<and>
    (Clean r \<longrightarrow> cv_Complete (rp_Coverage r) \<and> (\<forall>c \<in> set (rp_Conflicts r). cf_Impact c \<noteq> ImpactConfirmed))"
proof (rule Assess_Inr [OF assms])
  assume c: "rp_Coverage r = computeCoverage K inp"
    and s: "rp_Summary r = computeSummary (rp_Coverage r) (rp_Conflicts r) (snd (dedupeAssociations (in_Records inp)))
           (fst (dedupeAssociations (in_Records inp))) (opt_Decisions opts) (opt_Stamp opts)"
  have "cv_Complete (rp_Coverage r)" "\<forall>c \<in> set (rp_Conflicts r). cf_Fixed c"
    if "su_Sentence (rp_Summary r) = no_conflict_sentence @ x" for x
    using that
    using renderSentence_no_conflict
    by (fastforce simp: s computeSummary_def Let_def filter_empty_conv split: prod.splits)+
  then show ?thesis using coverage_complete [of K inp] by (simp add: c Clean_def list_ex_iff)
qed

theorem complete_coverage_means_everything_was_read_witness:
  "\<exists>r. Assess ex_crypto (ex_input ex_vpcs) (ex_options None []) = Inr r \<and> cv_Complete (rp_Coverage r)"
proof (rule ex_runs [of None])
  fix r
  assume r: "Assess ex_crypto (ex_input ex_vpcs) (ex_options None []) = Inr r"
  have "\<forall>a \<in> set (rn_Attempts (the (in_Run (ex_input ex_vpcs)))). counted_right (ex_input ex_vpcs) a"
    by (simp add: ex_input_def ex_assess_defs counted_right_def presentRowCounts_def)
  then have "cv_Complete (rp_Coverage r)"
    using complete_coverage_means_everything_was_read [OF r] by (auto simp: ex_input_def ex_vpcs_def)
  then show ?thesis using r by blast
qed

section \<open>Impact\<close>

lemma set_sortConflicts [simp]: "set (sortConflicts cs) = set cs"
  by (simp add: sortConflicts_def)

lemma assignSide_fields:
  assumes "assignSide os asg a side = (side', g, assigned)"
  shows "assigned \<Longrightarrow> \<not> as_fixed a" "assigned \<Longrightarrow> sd_Group side' = g"
    "assigned \<Longrightarrow> sd_Ambiguous side' = sd_Ambiguous side" "sd_Identity side' = sd_Identity side"
  using assms by (auto simp: assignSide_def Let_def split: prod.splits if_splits)

lemma impact_confirmed:
  "impactFor h (matrixRelation m g1 g2 b1 b2) b1 b2 = ImpactConfirmed \<longleftrightarrow>
    h \<and> b1 \<and> b2 \<and> (g1 = g2 \<or> isSharedService m g1 \<or> isSharedService m g2 \<or> pairListed (mx_MustCommunicate m) g1 g2)"
  by (simp add: impactFor_def matrixRelation_def)

text \<open>The groups that must communicate: one group, a shared service, or a listed pair.\<close>

definition connected_groups :: "Matrix \<Rightarrow> string \<Rightarrow> string \<Rightarrow> bool" where
  "connected_groups m g1 g2 \<longleftrightarrow>
     g1 = g2 \<or> g1 \<in> set (mx_SharedServices m) \<or> g2 \<in> set (mx_SharedServices m) \<or>
     (g1, g2) \<in> set (mx_MustCommunicate m) \<or> (g2, g1) \<in> set (mx_MustCommunicate m)"

lemma connected_groups_sym: "connected_groups m g1 g2 = connected_groups m g2 g1"
  by (auto simp: connected_groups_def)

lemma conflict_of_confirmed:
  assumes "cf_Impact (conflict_of K os m h decisions asg rel) = ImpactConfirmed"
  shows "h \<and> \<not> cf_Fixed (conflict_of K os m h decisions asg rel) \<and>
    (\<exists>s1 s2. cf_Sides (conflict_of K os m h decisions asg rel) = [s1, s2] \<and> \<not> sd_Ambiguous s1 \<and> \<not> sd_Ambiguous s2 \<and>
       connected_groups m (sd_Group s1) (sd_Group s2))"
proof -
  let ?sx = "sideFrom (rl_x rel) (positionFor (rl_kind rel) True)"
  let ?sy = "sideFrom (rl_y rel) (positionFor (rl_kind rel) False)"
  obtain sx gx bx where x: "assignSide os asg (rl_x rel) ?sx = (sx, gx, bx)" by (cases "assignSide os asg (rl_x rel) ?sx")
  obtain sy gy b where y: "assignSide os asg (rl_y rel) ?sy = (sy, gy, b)" by (cases "assignSide os asg (rl_y rel) ?sy")
  have im: "h" "bx" "b" "gx = gy \<or> isSharedService m gx \<or> isSharedService m gy \<or> pairListed (mx_MustCommunicate m) gx gy"
    using assms by (simp_all add: conflict_of_def x y Let_def impact_confirmed)
  then have con: "connected_groups m gx gy"
    by (auto simp: connected_groups_def isSharedService_def pairListed_def list_ex_iff)
  have clear: "\<not> sd_Ambiguous (sideFrom a p)" for a p by (simp add: sideFrom_def Let_def)
  show ?thesis
    using im(1-3) con connected_groups_sym [of m gx gy] assignSide_fields [OF x] assignSide_fields [OF y] clear
    by (simp add: conflict_of_def x y Let_def)
qed

text \<open>
  An overlap is confirmed to block a connection only on the word of a supplied connectivity matrix:
  both sides are VPCs, neither is ambiguous, and their groups are the same, listed as having to
  communicate, or a shared service. Without a matrix every conflict has an unknown impact, and a
  conflict with a fixed range is never confirmed.
\<close>

theorem impact_comes_from_the_matrix:
  assumes "Assess K inp opts = Inr r" "c \<in> set (rp_Conflicts r)"
  shows "(opt_Matrix opts = None \<longrightarrow> cf_Impact c = ImpactUnknown) \<and>
    (cf_Impact c = ImpactConfirmed \<longrightarrow> \<not> cf_Fixed c \<and>
      (\<exists>m s1 s2. opt_Matrix opts = Some m \<and> cf_Sides c = [s1, s2] \<and> \<not> sd_Ambiguous s1 \<and> \<not> sd_Ambiguous s2 \<and>
         connected_groups m (sd_Group s1) (sd_Group s2)))"
proof -
  obtain asg rel where c: "c = conflict_of K (opt_Ownership opts) (case opt_Matrix opts of None \<Rightarrow> zero_Matrix | Some m \<Rightarrow> m)
      (opt_Matrix opts \<noteq> None) (opt_Decisions opts) asg rel"
    by (rule Assess_Inr [OF assms(1)]) (use assms(2) in \<open>auto simp: buildConflicts_def Let_def\<close>)
  have "cf_Impact c = ImpactUnknown" if "opt_Matrix opts = None"
    using that by (simp add: c conflict_of_def impactFor_def Let_def split: prod.split)
  moreover have "\<not> cf_Fixed c \<and> (\<exists>m s1 s2. opt_Matrix opts = Some m \<and> cf_Sides c = [s1, s2] \<and> \<not> sd_Ambiguous s1 \<and>
      \<not> sd_Ambiguous s2 \<and> connected_groups m (sd_Group s1) (sd_Group s2))" if i: "cf_Impact c = ImpactConfirmed"
    using conflict_of_confirmed [OF i [unfolded c]] unfolding c by (cases "opt_Matrix opts") auto
  ultimately show ?thesis by blast
qed

definition ex_matrix :: "string list \<Rightarrow> string list \<Rightarrow> Matrix" where
  "ex_matrix xs ys = zero_Matrix\<lparr>mx_Groups := [\<lparr>gr_ID = ''g1'', gr_Members = xs\<rparr>, \<lparr>gr_ID = ''g2'', gr_Members = ys\<rparr>]\<rparr>"

lemmas ex_impact_defs =
  ex_dedupe ex_options_def ex_matrix_def zero_Matrix_def sortConflicts_def buildConflicts_def conflict_of_def
  assignSide_def sideFrom_def resolve_def lookup_owner_def assignGroups_def vpc_keys_def note_vpc_def
  matchVPCGroup_def matchingGroups_def resolveMatches_def unassigned_def matrixRelation_def impactFor_def
  mput_def mget_def mget0_def Let_def

lemma ex_conflicts:
  assumes "Assess ex_crypto (ex_input ex_vpcs) (ex_options (Some m) []) = Inr r"
  shows "rp_Conflicts r =
    sortConflicts (fst (buildConflicts ex_crypto (sweep (fst (buildAssociations ex_vpcs []))) [] m True []))"
  by (rule Assess_Inr [OF assms]) (simp add: ex_input_def ex_options_def ex_dedupe)

lemma ex_confirmed:
  "map cf_Impact (sortConflicts (fst (buildConflicts ex_crypto (sweep (fst (buildAssociations ex_vpcs []))) []
     (ex_matrix [''1'', ''2''] []) True []))) = [ImpactConfirmed]"
  by (simp add: ex_impact_defs ex_assess_defs)

theorem impact_comes_from_the_matrix_witness:
  "\<exists>r. Assess ex_crypto (ex_input ex_vpcs) (ex_options (Some (ex_matrix [''1'', ''2''] [])) []) = Inr r \<and>
     (\<exists>c \<in> set (rp_Conflicts r). cf_Impact c = ImpactConfirmed \<and> \<not> cf_Fixed c)"
proof (rule ex_runs [of "Some (ex_matrix [''1'', ''2''] [])"])
  fix r
  assume r: "Assess ex_crypto (ex_input ex_vpcs) (ex_options (Some (ex_matrix [''1'', ''2''] [])) []) = Inr r"
  obtain c where "c \<in> set (rp_Conflicts r)" "cf_Impact c = ImpactConfirmed"
    using ex_confirmed unfolding ex_conflicts [OF r, symmetric] by auto
  then show ?thesis using r impact_comes_from_the_matrix [OF r] by blast
qed

section \<open>Where the report departs from its description\<close>

text \<open>
  A VPC of account 1 that belongs to two groups overlaps a VPC of account 2 that belongs to one. The note
  the report writes for the ambiguous VPC says that every conflict touching it has an unknown impact; the
  conflict is reported as potential.
\<close>

lemma ex_ambiguous:
  "map (\<lambda>c. (cf_Impact c, map sd_Ambiguous (cf_Sides c)))
     (sortConflicts (fst (buildConflicts ex_crypto (sweep (fst (buildAssociations ex_vpcs []))) []
       (ex_matrix [''1'', ''2''] [''1'']) True []))) = [(ImpactPotential, [True, False])]"
  by (simp add: ex_impact_defs ex_assess_defs)

lemma ambiguous_side_is_not_unknown:
  "\<exists>r. Assess ex_crypto (ex_input ex_vpcs) (ex_options (Some (ex_matrix [''1'', ''2''] [''1''])) []) = Inr r \<and>
     (\<exists>c \<in> set (rp_Conflicts r). list_ex sd_Ambiguous (cf_Sides c) \<and> cf_Impact c = ImpactPotential)"
proof (rule ex_runs [of "Some (ex_matrix [''1'', ''2''] [''1''])"])
  fix r
  assume r: "Assess ex_crypto (ex_input ex_vpcs) (ex_options (Some (ex_matrix [''1'', ''2''] [''1''])) []) = Inr r"
  have "(ImpactPotential, [True, False]) \<in> set (map (\<lambda>c. (cf_Impact c, map sd_Ambiguous (cf_Sides c))) (rp_Conflicts r))"
    using ex_ambiguous unfolding ex_conflicts [OF r, symmetric] by simp
  then obtain c where "c \<in> set (rp_Conflicts r)" "cf_Impact c = ImpactPotential" "map sd_Ambiguous (cf_Sides c) = [True, False]"
    by auto
  then show ?thesis using r by (intro exI [of _ r] conjI bexI [of _ c]) auto
qed

text \<open>
  A VPC that contains a fixed range, read completely: the report has a conflict, and its sentence says
  that no conflicting relationship was observed.
\<close>

lemma ex_fixed_conflict:
  "map cf_Fixed (sortConflicts (fst (buildConflicts ex_crypto (sweep (fst (buildAssociations ex_outer ex_fixed))) []
     zero_Matrix False []))) = [True]"
  by (simp add: ex_impact_defs ex_assess_defs)

lemma fixed_conflict_is_not_in_the_sentence:
  "\<exists>r. Assess ex_crypto (ex_input ex_outer) (ex_options None ex_fixed) = Inr r \<and>
     rp_Conflicts r \<noteq> [] \<and> su_Sentence (rp_Summary r) = no_conflict_sentence"
proof (rule ex_fixed_runs [of None])
  fix r
  assume r: "Assess ex_crypto (ex_input ex_outer) (ex_options None ex_fixed) = Inr r"
  have cs: "map cf_Fixed (rp_Conflicts r) = [True]"
    by (rule Assess_Inr [OF r]) (simp add: ex_input_def ex_options_def ex_dedupe ex_fixed_conflict)
  have "cv_Complete (rp_Coverage r)"
    by (rule Assess_Inr [OF r])
      (simp add: coverage_complete ex_input_def ex_assess_defs counted_right_def presentRowCounts_def)
  moreover have "\<forall>c \<in> set (rp_Conflicts r). cf_Fixed c" using cs by auto
  ultimately have "su_Sentence (rp_Summary r) = no_conflict_sentence"
    using sentence_all_fixed by (rule_tac Assess_Inr [OF r]) (simp add: ex_options_def)
  then show ?thesis using r cs by auto
qed

end
