(* ===== verification/AdoptPlan.thy ===== *)
theory AdoptPlan
  imports Reserve
begin

text \<open>
  The read-only adoption plan (\<open>adopt_plan.go\<close>): \<open>PlanAdoption\<close> runs the checks of \<open>Adopt\<close> without
  writing, and this theory relates its verdict to what \<open>Adopt\<close> then does. Its ledger accesses have the
  indices of the same reads of \<open>Adopt\<close>; access 3 is the planning transaction there and a read here.
\<close>

record AdoptionVerdict =
  vd_Allocation :: Allocation
  vd_Existing :: bool
  vd_Pending :: bool

definition existing_verdict :: "Allocation \<Rightarrow> AdoptionVerdict" where
  "existing_verdict a = \<lparr>vd_Allocation = a, vd_Existing = True, vd_Pending = (\<not> a_Committed a)\<rparr>"

definition verdict_replay ::
  "string \<Rightarrow> string \<Rightarrow> string \<Rightarrow> string \<Rightarrow> string \<Rightarrow> State \<Rightarrow> goerr + AdoptionVerdict option" where
  "verdict_replay tenant key requestID immutableHash httpHash st =
     (case mget (Requests st) requestID of
        Some old \<Rightarrow>
          if i_Hash old \<noteq> httpHash then
            Inl (apiErr 409 ''idempotency_mismatch''
              ''the idempotency key was used with a different request'')
          else
            (case fst (stateResults st old) of
               None \<Rightarrow> Inr None
             | Some a \<Rightarrow>
                 if retired (a_State a) then
                   Inl (apiErr 409 ''allocation_key_retired'' ''allocation key is permanently retired'')
                 else case abandoningReplay st (Some a) of
                   Some e \<Rightarrow> Inl e
                 | None \<Rightarrow> Inr (Some (existing_verdict a)))
      | None \<Rightarrow>
          (case find_key st tenant key of
             None \<Rightarrow> Inr None
           | Some old \<Rightarrow>
               (case replay_guard st old immutableHash of
                  Some e \<Rightarrow> Inl e
                | None \<Rightarrow> Inr (Some (existing_verdict (copyAllocation old))))))"

definition verdict_allocation :: "Env \<Rightarrow> Principal \<Rightarrow> Request \<Rightarrow> Pool \<Rightarrow> Domain \<Rightarrow> string \<Rightarrow> Allocation" where
  "verdict_allocation E p r pool dm verified =
     zero_Allocation\<lparr>a_Request := r, a_TenantID := p_TenantID p, a_DomainID := d_ID dm,
       a_RequestHash := requestHash (v_K E) r, a_CIDR := verified, a_PoolID := pl_ID pool,
       a_State := Reserved, a_PolicyVersion := c_PolicyVersion (v_cfg E)\<rparr>"

definition verdict_fresh ::
  "Env \<Rightarrow> Principal \<Rightarrow> Request \<Rightarrow> Pool \<Rightarrow> Domain \<Rightarrow> Adoption \<Rightarrow> InventorySnapshot \<Rightarrow> Observation \<Rightarrow> State \<Rightarrow>
   goerr + AdoptionVerdict" where
  "verdict_fresh E p r pool dm pin snap planning st =
     (case plan_gates (v_cfg E) p r pool dm st of
        Some e \<Rightarrow> Inl e
      | None \<Rightarrow>
          let latest = latest_observation st (d_ID dm) planning
          in if \<not> trustedObservation latest dm (v_now E 2) (lc_MaxObservationAge (c_Lifecycle (v_cfg E))) then
               Inl (apiErr 503 ''dependency_unavailable''
                 ''complete current cloud observation is required'')
             else
               (case pinnedCIDR pool r snap latest st pin of
                  Inl e \<Rightarrow> Inl e
                | Inr (verified, _) \<Rightarrow>
                    Inr \<lparr>vd_Allocation = verdict_allocation E p r pool dm verified, vd_Existing = False,
                         vd_Pending = False\<rparr>))"

definition PlanAdoption ::
  "Env \<Rightarrow> Principal \<Rightarrow> Request \<Rightarrow> Adoption \<Rightarrow> State \<Rightarrow> State \<times> (goerr + AdoptionVerdict)" where
  "PlanAdoption E p req0 pin st =
     (case adopt_inputs req0 pin of
        Some e \<Rightarrow> (st, Inl e)
      | None \<Rightarrow>
          let req = req0\<lparr>r_Description := [], r_Labels := None\<rparr>
          in case view E 5 (adopt_precheck p req pin) st of
               (st1, Inl e) \<Rightarrow> (st1, Inl e)
             | (st1, Inr _) \<Rightarrow>
                 (case ledgerReady E of
                    Some e \<Rightarrow> (st1, Inl e)
                  | None \<Rightarrow>
                      (case validateRequest E p req st1 of
                         (st2, Inl e) \<Rightarrow> (st2, Inl e)
                       | (st2, Inr (r, pool, dm)) \<Rightarrow>
                           (case view E 1 (verdict_replay (p_TenantID p) (r_AllocationKey r)
                                    (idempotencyID (v_K E) (p_TenantID p) (k_method adoptKind) (k_path adoptKind)
                                       (r_AllocationKey r))
                                    (requestHash (v_K E) r) (requestBodyHash (v_K E) r)) st2 of
                              (st3, Inl e) \<Rightarrow> (st3, Inl e)
                            | (st3, Inr (Some vd)) \<Rightarrow> (st3, Inr vd)
                            | (st3, Inr None) \<Rightarrow>
                                (case reserve_evidence E dm st3 of
                                   (st4, Inl e) \<Rightarrow> (st4, Inl e)
                                 | (st4, Inr (snap, _, planning)) \<Rightarrow>
                                     view E 3 (verdict_fresh E p r pool dm pin snap planning) st4)))))"

end
