(* ===== verification/AdoptPlanProps.thy ===== *)
theory AdoptPlanProps
  imports AdoptPlan HandlerProps
begin

text \<open>
  The adoption plan against the adoption: with the same readings of ledger, clock and adapters the plan
  changes nothing, refuses what the adoption refuses with the same error, and otherwise names the
  allocation the adoption answers or creates.
\<close>

definition adopt_requestID :: "Env \<Rightarrow> Principal \<Rightarrow> string \<Rightarrow> string" where
  "adopt_requestID E p key = idempotencyID (v_K E) (p_TenantID p) (k_method adoptKind) (k_path adoptKind) key"

text \<open>The idempotency record of an adoption, if there is one, names the allocation of its key.\<close>

definition record_sound :: "Env \<Rightarrow> Principal \<Rightarrow> string \<Rightarrow> State \<Rightarrow> bool" where
  "record_sound E p key st \<longleftrightarrow>
     (case mget (Requests st) (adopt_requestID E p key) of
        None \<Rightarrow> True
      | Some old \<Rightarrow>
          (case find_key st (p_TenantID p) key of
             None \<Rightarrow> False
           | Some a \<Rightarrow> mget (Allocations st) (i_AllocationID old) = Some a))"

lemma adoptedAs_copy [simp]: "adoptedAs (copyAllocation a) pin = adoptedAs a pin"
  by (simp add: adoptedAs_def copyAllocation_def split: option.split)

lemma existing_verdict_simps [simp]:
  "vd_Allocation (existing_verdict a) = a" "vd_Existing (existing_verdict a)"
  "vd_Pending (existing_verdict a) \<longleftrightarrow> \<not> a_Committed a"
  by (simp_all add: existing_verdict_def)

lemma resultStatus_uncommitted: "\<not> a_Committed a \<Longrightarrow> resultStatus (Some a) x = 202"
  by (simp add: resultStatus_def)

lemma verdict_replay_Inl:
  "verdict_replay t k rid ih hh st = Inl e \<Longrightarrow> reserve_replay t k rid ih hh st = Inl e"
  by (auto simp: verdict_replay_def reserve_replay_def replay_record_def stateResults_def Let_def
      split: option.splits if_splits)

lemma verdict_replay_Some:
  "verdict_replay t k rid ih hh st = Inr (Some vd) \<Longrightarrow> vd_Existing vd \<and>
    (\<exists>x status. reserve_replay t k rid ih hh st = Inr (Some (vd_Allocation vd), x, status) \<and>
      (vd_Pending vd \<longrightarrow> status = 202))"
  by (auto simp: verdict_replay_def reserve_replay_def replay_record_def stateResults_def Let_def
      resultStatus_uncommitted split: option.splits if_splits)

lemma verdict_replay_None:
  assumes "verdict_replay (p_TenantID p) key (adopt_requestID E p key) ih hh st = Inr None" "record_sound E p key st"
  shows "mget (Requests st) (adopt_requestID E p key) = None" "find_key st (p_TenantID p) key = None"
    "reserve_replay (p_TenantID p) key (adopt_requestID E p key) ih hh st = Inr (None, None, 0)"
  using assms
  by (auto simp: verdict_replay_def reserve_replay_def record_sound_def stateResults_def split: option.splits if_splits)

lemma verdict_replay_allocation:
  assumes "verdict_replay (p_TenantID p) key (adopt_requestID E p key) ih hh st = Inr (Some vd)" "record_sound E p key st"
  obtains a where "find_key st (p_TenantID p) key = Some a" "vd_Allocation vd = copyAllocation a"
  using assms
  by (auto simp: verdict_replay_def record_sound_def stateResults_def split: option.splits if_splits)

lemma validateRequest_key:
  assumes "validateRequest E p req st = (st', Inr (r, pool, dm))"
  shows "r_AllocationKey r = r_AllocationKey req"
proof -
  have shape: "r_AllocationKey r' = r_AllocationKey req" if "validate_shape p req = Inr r'" for r'
    using that by (auto simp: validate_shape_def Let_def split: if_splits option.splits list.splits)
  have target: "r' = r" if "validate_target cfg p r' parent = Inr (r, pool, dm)" for cfg r' parent
    using that by (auto simp: validate_target_def Let_def split: sum.splits option.splits if_splits)
  show ?thesis
    using assms shape target
    by (auto simp: validateRequest_def split: sum.splits if_splits LedgerHealth.splits prod.splits)
qed

text \<open>The planning transaction of an adoption that is not a replay.\<close>

lemma verdict_fresh_Inl:
  "verdict_fresh E p r pool dm pin snap planning st = Inl e \<Longrightarrow>
   plan_new_hold E \<lparr>pn_Principal = p, pn_Request = r, pn_Pool = pool, pn_Domain = dm, pn_Key = key,
     pn_Pin = Some pin, pn_Snap = snap, pn_Obs = obs, pn_Planning = planning\<rparr> st = Inl e"
  by (auto simp: verdict_fresh_def plan_new_hold_def plan_candidate_def Let_def
      split: option.splits if_splits sum.splits)

lemma verdict_fresh_Inr:
  assumes "verdict_fresh E p r pool dm pin snap planning st = Inr vd"
  shows "\<not> vd_Existing vd \<and> vd_Allocation vd = verdict_allocation E p r pool dm (a_CIDR (vd_Allocation vd)) \<and>
    (\<exists>reason rec. plan_new_hold E \<lparr>pn_Principal = p, pn_Request = r, pn_Pool = pool, pn_Domain = dm, pn_Key = key,
       pn_Pin = Some pin, pn_Snap = snap, pn_Obs = obs, pn_Planning = planning\<rparr> st =
     (let i = \<lparr>pn_Principal = p, pn_Request = r, pn_Pool = pool, pn_Domain = dm, pn_Key = key,
        pn_Pin = Some pin, pn_Snap = snap, pn_Obs = obs, pn_Planning = planning\<rparr>
      in Inr (persist_hold E i (a_CIDR (vd_Allocation vd)) reason rec st,
        NewHold (copyAllocation (new_allocation E i (a_CIDR (vd_Allocation vd)))) (new_operation E i rec) reason)))"
  using assms
  by (auto simp: verdict_fresh_def plan_new_hold_def plan_candidate_def verdict_allocation_def Let_def
      split: option.splits if_splits sum.splits)

text \<open>Whatever the adapter answers, the row of the hold keeps what it was created with.\<close>

definition same_plan :: "Allocation \<Rightarrow> Allocation \<Rightarrow> bool" where
  "same_plan a b \<longleftrightarrow> a_Request a = a_Request b \<and> a_TenantID a = a_TenantID b \<and> a_DomainID a = a_DomainID b \<and>
     a_RequestHash a = a_RequestHash b \<and> a_CIDR a = a_CIDR b \<and> a_PoolID a = a_PoolID b \<and>
     a_State a = a_State b \<and> a_PolicyVersion a = a_PolicyVersion b"

lemma attempt_hold_row:
  assumes u: "undisturbed E" and row: "mget (Allocations st) (a_ID a) = Some b" "a_ID b = a_ID a" "a_ID a \<noteq> []"
  shows "\<exists>b'. mget (Allocations (fst (attempt_hold E pin evidence a x st))) (a_ID a) = Some b' \<and> same_plan b' b"
proof -
  have commit: "\<exists>b'. mget (Allocations st') (a_ID a) = Some b' \<and> same_plan b' b"
    if "reserve_commit E pin evidence a x invID st = Inr (st', out)" for invID st' out
    using that row
    by (auto simp: reserve_commit_def Let_def same_plan_def committed_allocation_def split: if_splits)
  have finish: "\<exists>b'. mget (Allocations (fst (finish_hold E pin evidence a x invID st))) (a_ID a) = Some b' \<and> same_plan b' b"
    for invID
  proof (cases "reserve_commit E pin evidence a x invID st")
    case (Inl e)
    then show ?thesis using row
      by (auto simp: finish_hold_def undisturbed_simps [OF u] same_plan_def split: option.split)
  next
    case (Inr q)
    obtain st' out where q: "q = (st', out)" by (cases q)
    show ?thesis using commit [OF Inr [unfolded q]]
      by (auto simp: finish_hold_def undisturbed_simps [OF u] Inr q split: CommitOutcome.split option.split)
  qed
  show ?thesis
    using finish row
    by (auto simp: attempt_hold_def same_plan_def split: option.split sum.split)
qed

lemma reserve_adoption:
  assumes u: "undisturbed E" and key: "r_AllocationKey req \<noteq> []"
    and v: "validateRequest E p req st = (st, Inr (r, pool, dm))"
    and replay: "reserve_replay (p_TenantID p) (r_AllocationKey req) (adopt_requestID E p (r_AllocationKey req))
      (requestHash (v_K E) r) (requestBodyHash (v_K E) r) st = answer"
  shows "reserve E p req (r_AllocationKey req) (Some pin) st =
    (case answer of
       Inl e \<Rightarrow> (st, Inl e)
     | Inr (Some a, x, status) \<Rightarrow> (st, Inr (Some a, x, status))
     | Inr (None, _, _) \<Rightarrow>
         (case snd (reserve_evidence E dm st) of
            Inl e \<Rightarrow> (st, Inl e)
          | Inr (snap, obs, planning) \<Rightarrow>
              (case reserve_plan E \<lparr>pn_Principal = p, pn_Request = r, pn_Pool = pool, pn_Domain = dm,
                      pn_Key = r_AllocationKey req, pn_Pin = Some pin, pn_Snap = snap, pn_Obs = obs,
                      pn_Planning = planning\<rparr> st of
                 Inl e \<Rightarrow> (st, Inl e)
               | Inr (st', Replayed (None, _, _)) \<Rightarrow>
                   (st', Inl (apiErr 503 ''ledger_error'' ''ledger returned no result''))
               | Inr (st', Replayed (Some a, x, status)) \<Rightarrow>
                   (st', Inr (Some a, x, (if a_Committed a then status else 202)))
               | Inr (st', NewHold a x evidence) \<Rightarrow> attempt_hold E (Some pin) evidence a x st')))"
proof -
  have ev: "reserve_evidence E dm st = (st, snd (reserve_evidence E dm st))"
    using undisturbed_evidence [OF u, of dm st] by (metis prod.collapse)
  have k: "r_AllocationKey r = r_AllocationKey req" by (rule validateRequest_key [OF v])
  show ?thesis
    using key v replay ev k
    by (cases "snd (reserve_evidence E dm st)")
      (auto simp: reserve_def undisturbed_simps [OF u] kind_of_def adopt_requestID_def
        split: sum.splits option.splits prod.splits)
qed

text \<open>What the verdict promises of the adoption.\<close>

definition foretold :: "Env \<Rightarrow> Principal \<Rightarrow> Request \<Rightarrow> Adoption \<Rightarrow> State \<Rightarrow> goerr + AdoptionVerdict \<Rightarrow> bool" where
  "foretold E p req pin st verdict \<longleftrightarrow>
     (case verdict of
        Inl e \<Rightarrow> Adopt E p req pin st = (st, Inl e)
      | Inr vd \<Rightarrow>
          if vd_Existing vd then
            \<exists>x status. Adopt E p req pin st = (st, Inr (Some (vd_Allocation vd), x, status)) \<and>
              (vd_Pending vd \<longrightarrow> status = 202)
          else
            \<exists>a. mget (Allocations (fst (Adopt E p req pin st))) (fresh E ''alloc'' 0) = Some a \<and>
              same_plan a (vd_Allocation vd))"

lemma Adopt_checked:
  assumes "undisturbed E" "adopt_inputs req0 pin = None" "req = req0\<lparr>r_Description := [], r_Labels := None\<rparr>"
    and "adopt_precheck p req pin st = Inr u"
  shows "Adopt E p req0 pin st =
    (case reserve E p req (r_AllocationKey req) (Some pin) st of
       (st2, Inr (Some a, x, status)) \<Rightarrow>
         (case adoptedAs a pin of Some e \<Rightarrow> (st2, Inl e) | None \<Rightarrow> (st2, Inr (Some a, x, status)))
     | other \<Rightarrow> other)"
  using assms by (simp add: Adopt_def undisturbed_simps [OF assms(1)] Let_def)

lemma Adopt_state:
  assumes "undisturbed E" "adopt_inputs req0 pin = None" "req = req0\<lparr>r_Description := [], r_Labels := None\<rparr>"
    and "adopt_precheck p req pin st = Inr u"
  shows "fst (Adopt E p req0 pin st) = fst (reserve E p req (r_AllocationKey req) (Some pin) st)"
    and "reserve E p req (r_AllocationKey req) (Some pin) st = (st, Inl e) \<Longrightarrow> Adopt E p req0 pin st = (st, Inl e)"
  using Adopt_checked [OF assms] by (auto split: prod.split sum.split option.split)

lemma foretold_fresh:
  assumes u: "undisturbed E" and ins: "adopt_inputs req0 pin = None"
    and req: "req = req0\<lparr>r_Description := [], r_Labels := None\<rparr>" and pre: "adopt_precheck p req pin st = Inr w"
    and key: "r_AllocationKey req \<noteq> []" and v: "validateRequest E p req st = (st, Inr (r, pool, dm))"
    and sound: "record_sound E p (r_AllocationKey req) st"
    and replay: "verdict_replay (p_TenantID p) (r_AllocationKey req) (adopt_requestID E p (r_AllocationKey req))
      (requestHash (v_K E) r) (requestBodyHash (v_K E) r) st = Inr None"
    and ev: "snd (reserve_evidence E dm st) = Inr (snap, obs, planning)"
  shows "foretold E p req0 pin st (verdict_fresh E p r pool dm pin snap planning st)"
proof -
  note none = verdict_replay_None [OF replay sound]
  note k = validateRequest_key [OF v]
  let ?i = "\<lparr>pn_Principal = p, pn_Request = r, pn_Pool = pool, pn_Domain = dm, pn_Key = r_AllocationKey req,
    pn_Pin = Some pin, pn_Snap = snap, pn_Obs = obs, pn_Planning = planning\<rparr>"
  have plan: "reserve_plan E ?i st = plan_new_hold E ?i st"
    using none(1,2) k by (simp add: reserve_plan_def plan_requestID_def kind_of_def adopt_requestID_def)
  note r = reserve_adoption [OF u key v none(3), of pin, unfolded plan ev]
  show ?thesis
  proof (cases "verdict_fresh E p r pool dm pin snap planning st")
    case (Inl e)
    then show ?thesis
      using Adopt_state(2) [OF u ins req pre] r verdict_fresh_Inl [OF Inl, of "r_AllocationKey req" obs] ev
      by (simp add: foretold_def plan)
  next
    case (Inr vd)
    note f = verdict_fresh_Inr [OF Inr, of "r_AllocationKey req" obs]
    let ?a = "new_allocation E ?i (a_CIDR (vd_Allocation vd))"
    obtain reason rec where h: "plan_new_hold E ?i st =
        Inr (persist_hold E ?i (a_CIDR (vd_Allocation vd)) reason rec st,
          NewHold (copyAllocation ?a) (new_operation E ?i rec) reason)"
      using f by (auto simp: Let_def)
    let ?s = "persist_hold E ?i (a_CIDR (vd_Allocation vd)) reason rec st"
    have row: "mget (Allocations ?s) (a_ID (copyAllocation ?a)) = Some ?a" "a_ID ?a = a_ID (copyAllocation ?a)"
        "a_ID (copyAllocation ?a) = fresh E ''alloc'' 0" "a_ID (copyAllocation ?a) \<noteq> []"
      by (auto simp: persist_hold_def new_allocation_def copyAllocation_def recordObservation_def Let_def split: option.split)
    have "same_plan ?a (verdict_allocation E p r pool dm (a_CIDR (vd_Allocation vd)))"
      by (simp add: same_plan_def new_allocation_def verdict_allocation_def)
    then have same: "same_plan ?a (vd_Allocation vd)"
      using arg_cong [OF f [THEN conjunct2, THEN conjunct1], of "same_plan ?a"] by blast
    have "fst (Adopt E p req0 pin st) =
        fst (attempt_hold E (Some pin) reason (copyAllocation ?a) (new_operation E ?i rec) ?s)"
      using Adopt_state(1) [OF u ins req pre] r h ev by (simp add: plan)
    then obtain b where "mget (Allocations (fst (Adopt E p req0 pin st))) (fresh E ''alloc'' 0) = Some b" "same_plan b ?a"
      using attempt_hold_row [OF u row(1,2,4)] row(3) by metis
    then show ?thesis using f same Inr by (auto simp: foretold_def same_plan_def)
  qed
qed

lemma adopt_inputs_key: "adopt_inputs req pin = None \<Longrightarrow> r_AllocationKey req \<noteq> []"
  by (auto simp: adopt_inputs_def split: if_splits)

lemma validate_Inl:
  assumes "undisturbed E" "r_AllocationKey req \<noteq> []" "validateRequest E p req st = (st, Inl e)"
  shows "reserve E p req (r_AllocationKey req) (Some pin) st = (st, Inl e)"
  using assms by (simp add: reserve_def undisturbed_simps)

lemma plan_foretells_checked:
  assumes u: "undisturbed E" and ins: "adopt_inputs req0 pin = None"
    and req: "req = req0\<lparr>r_Description := [], r_Labels := None\<rparr>" and pre: "adopt_precheck p req pin st = Inr w"
    and key: "r_AllocationKey req \<noteq> []" and v: "validateRequest E p req st = (st, Inr (r, pool, dm))"
    and sound: "record_sound E p (r_AllocationKey req) st"
  shows "fst (PlanAdoption E p req0 pin st) = st \<and> foretold E p req0 pin st (snd (PlanAdoption E p req0 pin st))"
proof -
  define replay where "replay = verdict_replay (p_TenantID p) (r_AllocationKey req)
    (adopt_requestID E p (r_AllocationKey req)) (requestHash (v_K E) r) (requestBodyHash (v_K E) r) st"
  have ev: "reserve_evidence E dm st = (st, snd (reserve_evidence E dm st))"
    using undisturbed_evidence [OF u, of dm st] by (metis prod.collapse)
  have plan: "PlanAdoption E p req0 pin st =
      (case replay of
         Inl e \<Rightarrow> (st, Inl e)
       | Inr (Some vd) \<Rightarrow> (st, Inr vd)
       | Inr None \<Rightarrow>
           (case snd (reserve_evidence E dm st) of
              Inl e \<Rightarrow> (st, Inl e)
            | Inr (snap, _, planning) \<Rightarrow> (st, verdict_fresh E p r pool dm pin snap planning st)))"
    using ins pre v ev validateRequest_key [OF v]
    by (cases "snd (reserve_evidence E dm st)")
      (auto simp: PlanAdoption_def undisturbed_simps [OF u] req [symmetric] adopt_requestID_def replay_def
        split: sum.splits option.splits prod.splits)
  note reserve = reserve_adoption [OF u key v refl, of pin]
  show ?thesis
  proof (cases replay)
    case (Inl e)
    then show ?thesis
      using plan reserve verdict_replay_Inl [OF Inl [unfolded replay_def]] Adopt_state(2) [OF u ins req pre]
      by (simp add: foretold_def)
  next
    case (Inr o1)
    show ?thesis
    proof (cases o1)
      case (Some vd)
      note rep = Inr [unfolded replay_def Some]
      obtain a where a: "find_key st (p_TenantID p) (r_AllocationKey req) = Some a" "vd_Allocation vd = copyAllocation a"
        by (rule verdict_replay_allocation [OF rep sound])
      have "adoptedAs (vd_Allocation vd) pin = None"
        using pre a by (auto simp: adopt_precheck_def split: option.splits)
      then show ?thesis
        using plan reserve verdict_replay_Some [OF rep] Adopt_checked [OF u ins req pre] Inr Some
        by (auto simp: foretold_def)
    next
      case None
      note rep = Inr [unfolded replay_def None]
      show ?thesis
      proof (cases "snd (reserve_evidence E dm st)")
        case (Inl e)
        then show ?thesis
          using plan reserve verdict_replay_None(3) [OF rep sound] Adopt_state(2) [OF u ins req pre] Inr None
          by (simp add: foretold_def)
      next
        case ok: (Inr e)
        obtain snap obs planning where e: "e = (snap, obs, planning)" by (cases e)
        show ?thesis
          using plan Inr None ok e foretold_fresh [OF u ins req pre key v sound rep ok [unfolded e]] by simp
      qed
    qed
  qed
qed


lemma ex_verdict:
  "map_sum id (\<lambda>vd. (vd_Existing vd, a_CIDR (vd_Allocation vd)))
     (snd (PlanAdoption ex_env7 ex_principal ex_request2 ex_pin ex_st1)) = Inr (False, ''10.0.9.0/24'')"
  by code_simp


end
