(* ===== verification/GoStrings.thy ===== *)
theory GoStrings
  imports Prelude
begin

text \<open>
  The part of Go's \<open>strings\<close> package that the inventory adapter and the onboarding import use. Strings are
  sequences of bytes in UTF-8, as in Go; white space is that of \<open>unicode.IsSpace\<close>.
\<close>

text \<open>How many bytes the white space at the front of a string takes, 0 if there is none.\<close>

fun space_len :: "nat list \<Rightarrow> nat" where
  "space_len [] = 0"
| "space_len (c # cs) =
     (if c \<in> {9, 10, 11, 12, 13, 32} then 1
      else case cs of
        [] \<Rightarrow> 0
      | d # ds \<Rightarrow>
          if c = 0xC2 \<and> d \<in> {0x85, 0xA0} then 2
          else case ds of
            [] \<Rightarrow> 0
          | e # _ \<Rightarrow>
              if [c, d, e] \<in> {[0xE1, 0x9A, 0x80], [0xE2, 0x81, 0x9F], [0xE3, 0x80, 0x80]}
                 \<or> c = 0xE2 \<and> d = 0x80 \<and> (0x80 \<le> e \<and> e \<le> 0x8A \<or> e \<in> {0xA8, 0xA9, 0xAF})
              then 3 else 0)"

definition space_front :: "string \<Rightarrow> nat" where
  "space_front s = space_len (map byte_of (take 3 s))"

lemma space_len_le: "space_len bs \<le> length bs"
  by (induction bs rule: space_len.induct) (auto split: list.splits)

function trim_left :: "string \<Rightarrow> string" where
  "trim_left s = (if space_front s = 0 then s else trim_left (drop (space_front s) s))"
  by auto
termination
proof (relation "measure length")
  fix s assume "space_front s \<noteq> 0"
  moreover have "space_front s \<le> length s"
    using space_len_le [of "map byte_of (take 3 s)"] by (simp add: space_front_def)
  ultimately show "(drop (space_front s) s, s) \<in> measure length" by (cases s) auto
qed simp

declare trim_left.simps [simp del]

text \<open>At the end of a string: the last one, two or three bytes are a space.\<close>

definition space_back :: "string \<Rightarrow> nat" where
  "space_back s =
     (case find (\<lambda>n. n \<le> length s \<and> space_len (map byte_of (drop (length s - n) s)) = n) [1, 2, 3] of
        Some n \<Rightarrow> n
      | None \<Rightarrow> 0)"

function trim_right :: "string \<Rightarrow> string" where
  "trim_right s = (if space_back s = 0 then s else trim_right (take (length s - space_back s) s))"
  by auto
termination
proof (relation "measure length")
  fix s assume "space_back s \<noteq> 0"
  then show "(take (length s - space_back s) s, s) \<in> measure length"
    by (cases s) (auto simp: space_back_def split: if_splits)
qed simp

declare trim_right.simps [simp del]

definition TrimSpace :: "string \<Rightarrow> string" where
  "TrimSpace s = trim_right (trim_left s)"

text \<open>\<open>strings.Split(s, sep)[0]\<close> for a separator of one byte.\<close>

definition before :: "char \<Rightarrow> string \<Rightarrow> string" where
  "before c s = takeWhile (\<lambda>d. d \<noteq> c) s"

fun Join :: "string list \<Rightarrow> string \<Rightarrow> string" where
  "Join [] sep = []"
| "Join [x] sep = x"
| "Join (x # y # ys) sep = x @ sep @ Join (y # ys) sep"

text \<open>
  What rests on large tables or parsers of Go's standard library is a parameter. \<open>u_ToLower\<close>, \<open>u_Quote\<close>
  and \<open>u_LettersDigits\<close> (the letters and digits of a string) are only asked about strings with a byte
  above 127, on ASCII they are defined below; \<open>u_ParseRFC3339\<close> is \<open>time.Parse\<close> and \<open>u_ReadCSV\<close> reads all
  records of a text with \<open>encoding/csv\<close>.
\<close>

record golib =
  u_ToLower :: "string \<Rightarrow> string"
  u_Quote :: "string \<Rightarrow> string"
  u_LettersDigits :: "string \<Rightarrow> string"
  u_ParseRFC3339 :: "string \<Rightarrow> time option"
  u_ReadCSV :: "char \<Rightarrow> string \<Rightarrow> string + string list list"

definition ascii :: "string \<Rightarrow> bool" where
  "ascii s \<longleftrightarrow> list_all (\<lambda>c. byte_of c < 128) s"

definition lower_byte :: "char \<Rightarrow> char" where
  "lower_byte c = (if 65 \<le> byte_of c \<and> byte_of c \<le> 90 then char_of (byte_of c + 32) else c)"

definition ToLower :: "golib \<Rightarrow> string \<Rightarrow> string" where
  "ToLower u s = (if ascii s then map lower_byte s else u_ToLower u s)"

definition low_hex :: "nat \<Rightarrow> char" where
  "low_hex d = (if d < 10 then char_of (48 + d) else char_of (87 + d))"

definition quote_byte :: "char \<Rightarrow> string" where
  "quote_byte c =
     (let b = byte_of c; bs = CHR 0x5C in
      if b = 34 \<or> b = 92 then [bs, c]
      else if 32 \<le> b \<and> b < 127 then [c]
      else if 7 \<le> b \<and> b \<le> 13 then [bs, ''abtnvfr'' ! (b - 7)]
      else [bs, CHR ''x'', low_hex (b div 16), low_hex (b mod 16)])"

text \<open>\<open>strconv.Quote\<close>, the verb \<open>%q\<close>.\<close>

definition Quote :: "golib \<Rightarrow> string \<Rightarrow> string" where
  "Quote u s = (if ascii s then [CHR 0x22] @ concat (map quote_byte s) @ [CHR 0x22] else u_Quote u s)"

text \<open>\<open>strings.NewReplacer\<close>: at each place the first pair whose old text is there, left to right.\<close>

function replacer :: "(string \<times> string) list \<Rightarrow> string \<Rightarrow> string" where
  "replacer tab s =
     (case s of
        [] \<Rightarrow> []
      | c # cs \<Rightarrow>
          (case find (\<lambda>(old, _). old \<noteq> [] \<and> HasPrefix s old) tab of
             None \<Rightarrow> c # replacer tab cs
           | Some (old, new) \<Rightarrow> new @ replacer tab (drop (length old) s)))"
  by pat_completeness auto
termination
  by (relation "measure (\<lambda>(_, s). length s)") (auto simp: find_Some_iff)

declare replacer.simps [simp del]

text \<open>
  \<open>strings.FieldsFunc\<close>; \<open>sep s\<close> is how many bytes the separator at the front of \<open>s\<close> takes, 0 if there is none.
\<close>

function fields_acc :: "(string \<Rightarrow> nat) \<Rightarrow> string \<Rightarrow> string \<Rightarrow> string list" where
  "fields_acc sep cur s =
     (case s of
        [] \<Rightarrow> if cur = [] then [] else [cur]
      | c # cs \<Rightarrow>
          if sep s = 0 then fields_acc sep (cur @ [c]) cs
          else (if cur = [] then [] else [cur]) @ fields_acc sep [] (drop (sep s) s))"
  by pat_completeness auto
termination
  by (relation "measure (\<lambda>(_, _, s). length s)") auto

declare fields_acc.simps [simp del]

definition Fields :: "string \<Rightarrow> string list" where
  "Fields s = fields_acc space_front [] s"

text \<open>\<open>strings.Trim\<close> with an ASCII cutset, \<open>strings.Replace(s, m, "", 1)\<close> for a non-empty \<open>m\<close>.\<close>

definition Trim :: "string \<Rightarrow> string \<Rightarrow> string" where
  "Trim s cutset = rev (dropWhile (\<lambda>c. c \<in> set cutset) (rev (dropWhile (\<lambda>c. c \<in> set cutset) s)))"

fun remove_first :: "string \<Rightarrow> string \<Rightarrow> string" where
  "remove_first m [] = []"
| "remove_first m (c # cs) = (if HasPrefix (c # cs) m then drop (length m) (c # cs) else c # remove_first m cs)"

text \<open>
  How many bytes the rune at the front of a string takes, 0 if the bytes are not UTF-8. A loop over the
  runes of a string sees U+FFFD for each such byte.
\<close>

definition rune_width :: "string \<Rightarrow> nat" where
  "rune_width s =
     (case map byte_of (take 4 s) of
        [] \<Rightarrow> 0
      | a # bs \<Rightarrow>
          let tail = (\<lambda>n. n \<le> length bs \<and> list_all (\<lambda>b. 0x80 \<le> b \<and> b \<le> 0xBF) (take n bs))
          in if a < 0x80 then 1
             else if 0xC2 \<le> a \<and> a \<le> 0xDF \<and> tail 1 then 2
             else if 0xE0 \<le> a \<and> a \<le> 0xEF \<and> tail 2 \<and>
                     (a = 0xE0 \<longrightarrow> 0xA0 \<le> hd bs) \<and> (a = 0xED \<longrightarrow> hd bs \<le> 0x9F) then 3
             else if 0xF0 \<le> a \<and> a \<le> 0xF4 \<and> tail 3 \<and>
                     (a = 0xF0 \<longrightarrow> 0x90 \<le> hd bs) \<and> (a = 0xF4 \<longrightarrow> hd bs \<le> 0x8F) then 4
             else 0)"

function valid_runes :: "string \<Rightarrow> string" where
  "valid_runes s =
     (case s of
        [] \<Rightarrow> []
      | c # cs \<Rightarrow>
          if rune_width s = 0 then [CHR 0xEF, CHR 0xBF, CHR 0xBD] @ valid_runes cs
          else take (rune_width s) s @ valid_runes (drop (rune_width s) s))"
  by pat_completeness auto
termination
  by (relation "measure length") auto

declare valid_runes.simps [simp del]

lemma trim_left_no_space: "space_front s = 0 \<Longrightarrow> trim_left s = s"
  by (simp add: trim_left.simps)

lemma trim_right_no_space: "space_back s = 0 \<Longrightarrow> trim_right s = s"
  by (simp add: trim_right.simps)

end
