(* ===== verification/Ranges.thy ===== *)
theory Ranges
  imports NetIP GoStrings
begin

text \<open>
  Address ranges as prefixes: the greedy decomposition of a start/end range into aligned blocks, which
  the inventory adapter uses to read a range as occupied space (\<open>rangeCIDRs\<close>, \<open>prefixLast\<close>,
  \<open>coveringPrefix\<close> of \<open>netbox/client.go\<close>).
\<close>

section \<open>Addresses in order\<close>

text \<open>\<open>Addr.Compare\<close>: by length first, then by value; \<open>Addr.Next\<close> is invalid after the last address.\<close>

definition addr_nat :: "Addr \<Rightarrow> nat" where
  "addr_nat a = (case a of V4 w \<Rightarrow> unat w | V6 w \<Rightarrow> unat w)"

definition Compare :: "Addr \<Rightarrow> Addr \<Rightarrow> int" where
  "Compare a b =
     (if BitLen a \<noteq> BitLen b then (if BitLen a < BitLen b then - 1 else 1)
      else if addr_nat a < addr_nat b then - 1 else if addr_nat a = addr_nat b then 0 else 1)"

definition Next :: "Addr \<Rightarrow> Addr option" where
  "Next a =
     (case a of
        V4 w \<Rightarrow> if w = - 1 then None else Some (V4 (w + 1))
      | V6 w \<Rightarrow> if w = - 1 then None else Some (V6 (w + 1)))"

section \<open>The last address of a prefix\<close>

text \<open>The loop that sets the host bits, one at a time.\<close>

definition set_low :: "nat \<Rightarrow> 'a::len word \<Rightarrow> 'a word" where
  "set_low host w = fold (\<lambda>i v. or v (push_bit i 1)) [0..<host] w"

definition prefixLast :: "Prefix \<Rightarrow> Addr" where
  "prefixLast p =
     (case ip (Masked p) of
        V4 w \<Rightarrow> V4 (set_low (32 - pbits p) w)
      | V6 w \<Rightarrow> V6 (set_low (128 - pbits p) w))"

section \<open>The decomposition\<close>

definition fits :: "Addr \<Rightarrow> Addr \<Rightarrow> nat \<Rightarrow> bool" where
  "fits cur stop b =
     (let p = Masked \<lparr>ip = cur, pbits = b\<rparr> in Compare (ip p) cur = 0 \<and> Compare (prefixLast p) stop \<le> 0)"

definition chosen_block :: "Addr \<Rightarrow> Addr \<Rightarrow> Prefix option" where
  "chosen_block cur stop =
     map_option (\<lambda>b. Masked \<lparr>ip = cur, pbits = b\<rparr>) (find (fits cur stop) [0..<Suc (BitLen cur)])"

text \<open>
  One pass of the loop per block, at most \<open>limit\<close> of them: the blocks found, where the loop stopped, and
  whether it stopped because no block fitted.
\<close>

fun range_loop :: "nat \<Rightarrow> Addr \<Rightarrow> Addr \<Rightarrow> Prefix list \<times> Addr \<times> bool" where
  "range_loop limit cur stop =
     (if limit = 0 \<or> \<not> Compare cur stop \<le> 0 then ([], cur, False)
      else case chosen_block cur stop of
        None \<Rightarrow> ([], cur, True)
      | Some p \<Rightarrow>
          (case Next (prefixLast p) of
             None \<Rightarrow> ([p], cur, False)
           | Some nxt \<Rightarrow>
               let (ps, at, failed) = range_loop (limit - 1) nxt stop in (p # ps, at, failed)))"

declare range_loop.simps [simp del]

definition coveringPrefix :: "Addr \<Rightarrow> Addr \<Rightarrow> Prefix" where
  "coveringPrefix a b =
     (case find (\<lambda>bits. Contains (Masked \<lparr>ip = a, pbits = bits\<rparr>) b) [0..<Suc (BitLen a)] of
        Some bits \<Rightarrow> Masked \<lparr>ip = a, pbits = bits\<rparr>
      | None \<Rightarrow> \<lparr>ip = a, pbits = BitLen a\<rparr>)"

definition maxRangeBlocks :: nat where "maxRangeBlocks = 4096"

text \<open>\<open>rangeCIDRs\<close> from two parsed addresses on.\<close>

definition range_prefixes :: "Addr \<Rightarrow> Addr \<Rightarrow> string + Prefix list" where
  "range_prefixes a b =
     (if BitLen a \<noteq> BitLen b \<or> Compare a b > 0 then Inl ''invalid IP range''
      else
        let (ps, cur, failed) = range_loop maxRangeBlocks a b
        in if failed then Inl ''could not cover IP range''
           else Inr (ps @ (if Compare cur b \<le> 0 then [coveringPrefix cur b] else [])))"

definition rangeCIDRs :: "string \<Rightarrow> string \<Rightarrow> string + string list" where
  "rangeCIDRs start stop =
     (case (ParseAddr (before CHR ''/'' (TrimSpace start)), ParseAddr (before CHR ''/'' (TrimSpace stop))) of
        (Some a, Some b) \<Rightarrow> map_sum id (map PrefixString) (range_prefixes a b)
      | _ \<Rightarrow> Inl ''ParseAddr'')"

section \<open>Addresses as numbers\<close>

lemma addr_nat_less: "addr_nat a < 2 ^ BitLen a"
  using unsigned_less [where 'a = nat and 'b = 32] unsigned_less [where 'a = nat and 'b = 128]
  by (cases a) (simp_all add: addr_nat_def BitLen_def)

lemma addr_eq_iff: "BitLen a = BitLen b \<Longrightarrow> a = b \<longleftrightarrow> addr_nat a = addr_nat b"
  by (cases a; cases b) (simp_all add: addr_nat_def BitLen_def word_unat_eq_iff)

lemma Compare_le: "BitLen a = BitLen b \<Longrightarrow> Compare a b \<le> 0 \<longleftrightarrow> addr_nat a \<le> addr_nat b"
  by (auto simp: Compare_def)

lemma Compare_0: "BitLen a = BitLen b \<Longrightarrow> Compare a b = 0 \<longleftrightarrow> addr_nat a = addr_nat b"
  by (auto simp: Compare_def)

lemma BitLen_keep [simp]: "BitLen (keep_top b a) = BitLen a"
  by (cases a) (simp_all add: BitLen_def keep_top_def)

lemma bit_set_low: "bit (set_low host w) n \<longleftrightarrow> n < LENGTH('a) \<and> (bit w n \<or> n < host)" for w :: "'a::len word"
proof (induction host)
  case 0
  then show ?case by (auto simp: set_low_def bit_imp_le_length)
next
  case (Suc host)
  have "set_low (Suc host) w = or (set_low host w) (push_bit host 1)" by (simp add: set_low_def)
  then show ?case using Suc by (auto simp: bit_or_iff bit_exp_iff less_Suc_eq)
qed

lemma unat_masked:
  fixes w :: "'a::len word"
  assumes "h \<le> LENGTH('a)"
  shows "unat (push_bit h (drop_bit h w)) = unat w div 2 ^ h * 2 ^ h"
proof -
  have "unat w div 2 ^ h * 2 ^ h \<le> unat w" by simp
  then have "unat w div 2 ^ h * 2 ^ h < 2 ^ LENGTH('a)" using unsigned_less [of w, where 'a = nat] le_less_trans by blast
  then show ?thesis using unat_push [of "drop_bit h w" h] by (simp add: unat_drop)
qed

lemma set_low_masked:
  fixes w :: "'a::len word"
  assumes h: "h \<le> LENGTH('a)"
  shows "unat (set_low h (push_bit h (drop_bit h w))) = unat w div 2 ^ h * 2 ^ h + (2 ^ h - 1)"
proof -
  let ?m = "push_bit h (drop_bit h w)"
  have "bit (set_low h ?m) n = bit (or ?m (mask h)) n" for n
    by (auto simp: bit_set_low bit_or_iff bit_mask_iff bit_push_bit_iff)
  then have eq: "set_low h ?m = or ?m (mask h)" by (rule bit_word_eqI)
  have "and ?m (mask h) = 0" by (rule bit_word_eqI) (auto simp: bit_and_iff bit_mask_iff bit_push_bit_iff)
  then have or: "or ?m (mask h) = ?m + mask h" by (metis disjunctive_add_eq_or)
  have mask: "unat (mask h :: 'a word) = 2 ^ h - 1"
    using h by transfer (simp add: nat_mask_eq mask_nat_def min_def)
  have "unat w div 2 ^ h < 2 ^ (LENGTH('a) - h)"
  proof -
    have "unat w < 2 ^ (LENGTH('a) - h) * 2 ^ h"
      using unsigned_less [of w, where 'a = nat] h by (simp flip: power_add)
    then show ?thesis by (simp add: less_mult_imp_div_less)
  qed
  then have "(unat w div 2 ^ h + 1) * 2 ^ h \<le> 2 ^ (LENGTH('a) - h) * 2 ^ h"
    by (intro mult_right_mono) auto
  then have "unat w div 2 ^ h * 2 ^ h + 2 ^ h \<le> 2 ^ LENGTH('a)" using h by (simp flip: power_add)
  then have "unat ?m + unat (mask h :: 'a word) < 2 ^ LENGTH('a)"
    using unat_masked [OF h, of w] mask zero_less_power [of "2 :: nat" h] by linarith
  then show ?thesis
    using eq or mask unat_masked [OF h, of w] by (simp add: unat_word_ariths)
qed

lemma addr_nat_Masked:
  assumes "valid_prefix p"
  shows "addr_nat (ip (Masked p)) =
    addr_nat (ip p) div 2 ^ (BitLen (ip p) - pbits p) * 2 ^ (BitLen (ip p) - pbits p)"
  using assms
  by (cases "ip p") (simp_all add: Masked_def keep_top_def addr_nat_def BitLen_def valid_prefix_def unat_masked)

lemma prefixLast_nat:
  assumes "valid_prefix p"
  shows "addr_nat (prefixLast p) = addr_nat (ip (Masked p)) + (2 ^ (BitLen (ip p) - pbits p) - 1)"
    and "BitLen (prefixLast p) = BitLen (ip p)"
  using assms
  by (cases "ip p"; simp add: prefixLast_def Masked_def keep_top_def addr_nat_def BitLen_def valid_prefix_def
      set_low_masked unat_masked)+

lemma div_mult_self: "(n :: nat) div m * m = n \<longleftrightarrow> m dvd n"
  by (metis dvd_div_mult_self dvd_triv_right)

lemma fits_iff:
  assumes "b \<le> BitLen cur" "BitLen stop = BitLen cur"
  shows "fits cur stop b \<longleftrightarrow>
    2 ^ (BitLen cur - b) dvd addr_nat cur \<and> addr_nat cur + 2 ^ (BitLen cur - b) \<le> Suc (addr_nat stop)"
proof -
  let ?p = "\<lparr>ip = cur, pbits = b\<rparr>" and ?n = "2 ^ (BitLen cur - b) :: nat"
  have v: "valid_prefix ?p" "valid_prefix (Masked ?p)" using assms(1) by (simp_all add: valid_prefix_def Masked_def)
  have m: "addr_nat (ip (Masked ?p)) = addr_nat cur div ?n * ?n" using addr_nat_Masked [OF v(1)] by simp
  have l: "addr_nat (prefixLast (Masked ?p)) = addr_nat (ip (Masked ?p)) + (?n - 1)"
    "BitLen (prefixLast (Masked ?p)) = BitLen cur" "BitLen (ip (Masked ?p)) = BitLen cur"
    using prefixLast_nat [OF v(2)] by simp_all
  have "fits cur stop b \<longleftrightarrow> addr_nat cur div ?n * ?n = addr_nat cur \<and> addr_nat cur div ?n * ?n + (?n - 1) \<le> addr_nat stop"
    using assms(2) l m by (simp add: fits_def Let_def Compare_0 Compare_le)
  then show ?thesis using div_mult_self [of "addr_nat cur" ?n] by auto
qed

section \<open>The block the loop takes\<close>

lemma Masked_aligned:
  assumes "b \<le> BitLen cur" "2 ^ (BitLen cur - b) dvd addr_nat cur"
  shows "Masked \<lparr>ip = cur, pbits = b\<rparr> = \<lparr>ip = cur, pbits = b\<rparr>"
proof -
  let ?p = "\<lparr>ip = cur, pbits = b\<rparr>"
  have "addr_nat (ip (Masked ?p)) = addr_nat cur"
    using addr_nat_Masked [of ?p] assms by (simp add: valid_prefix_def)
  then have "ip (Masked ?p) = cur" using addr_eq_iff [of "ip (Masked ?p)" cur] by simp
  then show ?thesis by (simp add: Masked_def)
qed

text \<open>The largest aligned block that starts at \<open>cur\<close> and ends by \<open>stop\<close>.\<close>

definition greedy :: "nat \<Rightarrow> nat \<Rightarrow> nat \<Rightarrow> nat \<Rightarrow> bool" where
  "greedy W c s k \<longleftrightarrow> k \<le> W \<and> 2 ^ k dvd c \<and> c + 2 ^ k \<le> Suc s \<and>
     (k < W \<longrightarrow> \<not> (2 ^ Suc k dvd c \<and> c + 2 ^ Suc k \<le> Suc s))"

lemma chosen_block_greedy:
  assumes "BitLen stop = BitLen cur" "addr_nat cur \<le> addr_nat stop"
  obtains k where "greedy (BitLen cur) (addr_nat cur) (addr_nat stop) k"
    "chosen_block cur stop = Some \<lparr>ip = cur, pbits = BitLen cur - k\<rparr>"
proof -
  let ?W = "BitLen cur"
  have "fits cur stop ?W" using assms by (simp add: fits_iff)
  then have "\<exists>b. find (fits cur stop) [0..<Suc ?W] = Some b"
    by (metis (mono_tags, lifting) atLeastLessThan_iff find_None_iff lessI not_Some_eq set_upt zero_le)
  then obtain b where b: "find (fits cur stop) [0..<Suc ?W] = Some b" by blast
  then obtain i where "i < length [0..<Suc ?W]" "fits cur stop ([0..<Suc ?W] ! i)" "b = [0..<Suc ?W] ! i"
      "\<forall>j < i. \<not> fits cur stop ([0..<Suc ?W] ! j)"
    unfolding find_Some_iff by blast
  then have i: "i < Suc ?W" "fits cur stop b" "b = i" "\<forall>j < i. \<not> fits cur stop j"
    by (simp_all del: upt_Suc)
  define k where "k = ?W - b"
  have bk: "b \<le> ?W" "b = ?W - k" "k \<le> ?W" using i by (auto simp: k_def)
  have fit: "2 ^ k dvd addr_nat cur" "addr_nat cur + 2 ^ k \<le> Suc (addr_nat stop)"
    using i(2) fits_iff [OF bk(1) assms(1)] by (simp_all add: k_def)
  have "\<not> (2 ^ Suc k dvd addr_nat cur \<and> addr_nat cur + 2 ^ Suc k \<le> Suc (addr_nat stop))" if "k < ?W"
  proof -
    have b': "b - 1 < i" "b - 1 \<le> ?W" "?W - (b - 1) = Suc k" using that bk(1) i(3) unfolding k_def by linarith+
    then show ?thesis using i(4) fits_iff [OF b'(2) assms(1)] by metis
  qed
  then have "greedy ?W (addr_nat cur) (addr_nat stop) k" using fit bk by (simp add: greedy_def)
  moreover have "chosen_block cur stop = Some \<lparr>ip = cur, pbits = ?W - k\<rparr>"
    using b fit Masked_aligned [of "?W - k" cur] bk by (simp add: chosen_block_def)
  ultimately show thesis by (rule that)
qed

text \<open>One pass of the loop in numbers.\<close>

lemma word_top:
  fixes w :: "'a::len word"
  shows "w = - 1 \<longleftrightarrow> Suc (unat w) = 2 ^ LENGTH('a)"
    and "Suc (unat w) < 2 ^ LENGTH('a) \<Longrightarrow> unat (w + 1) = Suc (unat w)"
  using zero_less_power [of "2 :: nat" "LENGTH('a)"]
  by (auto simp: word_unat_eq_iff unsigned_minus_1_eq_mask mask_nat_def unat_word_ariths)

lemma Next_nat:
  "Suc (addr_nat a) = 2 ^ BitLen a \<Longrightarrow> Next a = None"
  "Suc (addr_nat a) < 2 ^ BitLen a \<Longrightarrow> \<exists>b. Next a = Some b \<and> BitLen b = BitLen a \<and> addr_nat b = Suc (addr_nat a)"
  using word_top [where 'a = 32] word_top [where 'a = 128]
  by (cases a; auto simp: Next_def addr_nat_def BitLen_def)+

section \<open>How many blocks, and which addresses\<close>

text \<open>The blocks of a list follow one another without a gap, from \<open>c\<close> up to \<open>e\<close>.\<close>

fun tiles :: "nat \<Rightarrow> nat \<Rightarrow> Prefix list \<Rightarrow> nat \<Rightarrow> bool" where
  "tiles W c [] e \<longleftrightarrow> c = e"
| "tiles W c (p # ps) e \<longleftrightarrow>
     BitLen (ip p) = W \<and> pbits p \<le> W \<and> Masked p = p \<and> addr_nat (ip p) = c \<and> tiles W (c + 2 ^ (W - pbits p)) ps e"

lemma range_loop_step:
  assumes "limit \<noteq> 0" "BitLen stop = W" "BitLen cur = W" "addr_nat cur \<le> addr_nat stop"
  obtains k where "greedy W (addr_nat cur) (addr_nat stop) k"
    and "addr_nat cur + 2 ^ k = 2 ^ W \<and> range_loop limit cur stop = ([\<lparr>ip = cur, pbits = W - k\<rparr>], cur, False) \<or>
      (\<exists>nxt ps at failed. BitLen nxt = W \<and> addr_nat nxt = addr_nat cur + 2 ^ k \<and> addr_nat nxt < 2 ^ W \<and>
         range_loop (limit - 1) nxt stop = (ps, at, failed) \<and>
         range_loop limit cur stop = (\<lparr>ip = cur, pbits = W - k\<rparr> # ps, at, failed))"
proof -
  obtain k where k: "greedy W (addr_nat cur) (addr_nat stop) k"
      "chosen_block cur stop = Some \<lparr>ip = cur, pbits = W - k\<rparr>"
    using chosen_block_greedy [of stop cur] assms by metis
  let ?p = "\<lparr>ip = cur, pbits = W - k\<rparr>"
  have g: "k \<le> W" "2 ^ k dvd addr_nat cur" "addr_nat cur + 2 ^ k \<le> Suc (addr_nat stop)" using k(1) by (auto simp: greedy_def)
  have "Masked ?p = ?p" using Masked_aligned [of "W - k" cur] g assms(3) by simp
  moreover have "valid_prefix ?p" using assms(3) by (simp add: valid_prefix_def)
  ultimately have l: "addr_nat (prefixLast ?p) = addr_nat cur + (2 ^ k - 1)" "BitLen (prefixLast ?p) = W"
    using prefixLast_nat [of ?p] g assms(3) by simp_all
  then have suc: "Suc (addr_nat (prefixLast ?p)) = addr_nat cur + 2 ^ k" by simp
  have cmp: "Compare cur stop \<le> 0" using assms by (simp add: Compare_le)
  show thesis
  proof (cases "addr_nat cur + 2 ^ k = 2 ^ W")
    case True
    then have "Next (prefixLast ?p) = None" using Next_nat(1) [of "prefixLast ?p"] l suc by simp
    then have "range_loop limit cur stop = ([?p], cur, False)"
      using assms(1) cmp k(2) by (subst range_loop.simps) simp
    then show thesis using that k(1) True by blast
  next
    case False
    then have less: "addr_nat cur + 2 ^ k < 2 ^ W" using addr_nat_less [of "prefixLast ?p"] l suc by simp
    then obtain nxt where n: "Next (prefixLast ?p) = Some nxt" "BitLen nxt = W" "addr_nat nxt = addr_nat cur + 2 ^ k"
      using Next_nat(2) [of "prefixLast ?p"] l suc by auto
    obtain ps at failed where r: "range_loop (limit - 1) nxt stop = (ps, at, failed)" by (cases "range_loop (limit - 1) nxt stop")
    have "range_loop limit cur stop = (?p # ps, at, failed)"
      using assms(1) cmp k(2) n(1) r by (subst range_loop.simps) simp
    then show thesis using that k(1) n r less by metis
  qed
qed

lemma range_loop_done: "limit = 0 \<or> \<not> Compare cur stop \<le> 0 \<Longrightarrow> range_loop limit cur stop = ([], cur, False)"
  by (subst range_loop.simps) auto

text \<open>Once the rest of the range is shorter than the alignment of its start, each block halves it.\<close>

lemma range_loop_shrinking:
  assumes "BitLen stop = W" "BitLen cur = W" "m \<le> W" "2 ^ m dvd addr_nat cur" "Suc (addr_nat stop) < addr_nat cur + 2 ^ m"
  shows "length (fst (range_loop limit cur stop)) \<le> m"
  using assms(2-)
proof (induction limit arbitrary: cur m)
  case 0
  then show ?case by (simp add: range_loop_done)
next
  case (Suc limit)
  let ?c = "addr_nat cur" and ?s = "addr_nat stop"
  show ?case
  proof (cases "?c \<le> ?s")
    case False
    then show ?thesis using assms(1) Suc.prems(1) by (simp add: range_loop_done Compare_le)
  next
    case True
    show ?thesis
    proof (rule range_loop_step [OF _ assms(1) Suc.prems(1) True, of "Suc limit"])
      fix k
      assume g: "greedy W ?c ?s k"
        and r: "?c + 2 ^ k = 2 ^ W \<and> range_loop (Suc limit) cur stop = ([\<lparr>ip = cur, pbits = W - k\<rparr>], cur, False) \<or>
          (\<exists>nxt ps at failed. BitLen nxt = W \<and> addr_nat nxt = ?c + 2 ^ k \<and> addr_nat nxt < 2 ^ W \<and>
             range_loop (Suc limit - 1) nxt stop = (ps, at, failed) \<and>
             range_loop (Suc limit) cur stop = (\<lparr>ip = cur, pbits = W - k\<rparr> # ps, at, failed))"
      have "(2 :: nat) ^ k < 2 ^ m" using g Suc.prems(4) unfolding greedy_def by linarith
      then have km: "k < m" by simp
      then have "2 ^ Suc k dvd ?c" using Suc.prems(3) by (metis Suc_leI dvd_trans le_imp_power_dvd)
      then have tail: "Suc ?s < ?c + 2 ^ k + 2 ^ k" using g km Suc.prems(2) by (simp add: greedy_def)
      have "2 ^ k dvd ?c + 2 ^ k" using g by (simp add: greedy_def)
      then have "length (fst (range_loop limit nxt stop)) \<le> k" if "BitLen nxt = W" "addr_nat nxt = ?c + 2 ^ k" for nxt
        using Suc.IH [of nxt k] that tail km Suc.prems(2) by simp
      then show ?thesis using r km by (fastforce simp: Suc_le_eq)
    qed simp
  qed
qed

lemma odd_step: "2 ^ k dvd c \<Longrightarrow> \<not> 2 ^ Suc k dvd c \<Longrightarrow> 2 ^ Suc k dvd c + 2 ^ k" for c :: nat
proof -
  assume c: "2 ^ k dvd c" "\<not> 2 ^ Suc k dvd c"
  then obtain q where q: "c = 2 ^ k * q" by blast
  then have "odd q" using c(2) by auto
  then have "2 ^ k * 2 dvd 2 ^ k * (q + 1)" by (intro mult_dvd_mono) auto
  then show ?thesis using q by (simp add: add_mult_distrib2 mult.commute add.commute)
qed

lemma range_loop_length:
  assumes "BitLen stop = W" "BitLen cur = W" "j \<le> W" "2 ^ j dvd addr_nat cur"
  shows "length (fst (range_loop limit cur stop)) \<le> W - j + W"
  using assms(2-)
proof (induction limit arbitrary: cur j)
  case 0
  then show ?case by (simp add: range_loop_done)
next
  case (Suc limit)
  let ?c = "addr_nat cur" and ?s = "addr_nat stop"
  have W: "0 < W" using Suc.prems(1) by (cases cur) (auto simp: BitLen_def)
  show ?case
  proof (cases "?c \<le> ?s")
    case False
    then show ?thesis using assms(1) Suc.prems(1) by (simp add: range_loop_done Compare_le)
  next
    case True
    show ?thesis
    proof (rule range_loop_step [OF _ assms(1) Suc.prems(1) True, of "Suc limit"])
      fix k
      assume g: "greedy W ?c ?s k"
        and r: "?c + 2 ^ k = 2 ^ W \<and> range_loop (Suc limit) cur stop = ([\<lparr>ip = cur, pbits = W - k\<rparr>], cur, False) \<or>
          (\<exists>nxt ps at failed. BitLen nxt = W \<and> addr_nat nxt = ?c + 2 ^ k \<and> addr_nat nxt < 2 ^ W \<and>
             range_loop (Suc limit - 1) nxt stop = (ps, at, failed) \<and>
             range_loop (Suc limit) cur stop = (\<lparr>ip = cur, pbits = W - k\<rparr> # ps, at, failed))"
      show ?thesis
      proof (cases "k < W \<and> \<not> 2 ^ Suc k dvd ?c")
        case True
        have d: "2 ^ Suc k dvd ?c + 2 ^ k" using g True by (intro odd_step) (auto simp: greedy_def)
        have "j \<le> k"
        proof (rule ccontr)
          assume "\<not> j \<le> k"
          then have "2 ^ Suc k dvd ?c" using Suc.prems(3) by (metis dvd_trans le_imp_power_dvd not_less_eq_eq)
          then show False using True by blast
        qed
        moreover have "length (fst (range_loop limit nxt stop)) \<le> W - Suc k + W"
          if "BitLen nxt = W" "addr_nat nxt = ?c + 2 ^ k" for nxt
          using Suc.IH [of nxt "Suc k"] that d True by simp
        ultimately show ?thesis using r True W by fastforce
      next
        case False
        show ?thesis
        proof (cases "k < W")
          case True
          then have "Suc ?s < ?c + 2 ^ Suc k" "2 ^ Suc k dvd ?c" using False g by (auto simp: greedy_def)
          then show ?thesis
            using range_loop_shrinking [of stop W cur "Suc k" "Suc limit"] assms(1) Suc.prems(1) True by simp
        next
          case False
          then have "k = W" using g by (simp add: greedy_def)
          then have "\<not> ?c + 2 ^ k < 2 ^ W" by simp
          then show ?thesis using r W by auto
        qed
      qed
    qed simp
  qed
qed

lemma range_loop_tiles:
  assumes "BitLen stop = W" "BitLen cur = W" "addr_nat cur \<le> Suc (addr_nat stop)"
    and "range_loop limit cur stop = (ps, at, failed)"
  shows "\<not> failed \<and> BitLen at = W \<and> (\<exists>e. tiles W (addr_nat cur) ps e \<and> e \<le> Suc (addr_nat stop) \<and>
    (length ps < limit \<longrightarrow> e = Suc (addr_nat stop)) \<and>
    (if e = 2 ^ W then addr_nat at \<le> addr_nat stop else addr_nat at = e))"
  using assms(2-)
proof (induction limit arbitrary: cur ps)
  case 0
  have "addr_nat cur < 2 ^ W" using addr_nat_less [of cur] 0 by simp
  then show ?case using 0 by (simp add: range_loop_done)
next
  case (Suc limit)
  let ?c = "addr_nat cur" and ?s = "addr_nat stop"
  show ?case
  proof (cases "?c \<le> ?s")
    case False
    have "?c < 2 ^ W" using addr_nat_less [of cur] Suc.prems(1) by simp
    then show ?thesis using False Suc.prems assms(1) by (simp add: range_loop_done Compare_le)
  next
    case True
    show ?thesis
    proof (rule range_loop_step [OF _ assms(1) Suc.prems(1) True, of "Suc limit"])
      fix k
      assume g: "greedy W ?c ?s k"
        and r: "?c + 2 ^ k = 2 ^ W \<and> range_loop (Suc limit) cur stop = ([\<lparr>ip = cur, pbits = W - k\<rparr>], cur, False) \<or>
          (\<exists>nxt ps at failed. BitLen nxt = W \<and> addr_nat nxt = ?c + 2 ^ k \<and> addr_nat nxt < 2 ^ W \<and>
             range_loop (Suc limit - 1) nxt stop = (ps, at, failed) \<and>
             range_loop (Suc limit) cur stop = (\<lparr>ip = cur, pbits = W - k\<rparr> # ps, at, failed))"
      have k: "k \<le> W" "2 ^ k dvd ?c" "?c + 2 ^ k \<le> Suc ?s" using g by (auto simp: greedy_def)
      have m: "Masked \<lparr>ip = cur, pbits = W - k\<rparr> = \<lparr>ip = cur, pbits = W - k\<rparr>"
        using Masked_aligned [of "W - k" cur] k Suc.prems(1) by simp
      have top: "?s < 2 ^ W" using addr_nat_less [of stop] assms(1) by simp
      from r show ?thesis
      proof (elim disjE conjE exE)
        assume "?c + 2 ^ k = 2 ^ W" "range_loop (Suc limit) cur stop = ([\<lparr>ip = cur, pbits = W - k\<rparr>], cur, False)"
        then show ?thesis using Suc.prems k m True top by (auto intro!: exI [of _ "2 ^ W"])
      next
        fix nxt ps1 at1 failed1
        assume n: "BitLen nxt = W" "addr_nat nxt = ?c + 2 ^ k" "range_loop (Suc limit - 1) nxt stop = (ps1, at1, failed1)"
          "range_loop (Suc limit) cur stop = (\<lparr>ip = cur, pbits = W - k\<rparr> # ps1, at1, failed1)"
        then have ps: "ps = \<lparr>ip = cur, pbits = W - k\<rparr> # ps1" "at1 = at" "failed1 = failed" using Suc.prems(3) by auto
        have "range_loop limit nxt stop = (ps1, at, failed)" using n(3) ps by simp
        note IH = Suc.IH [OF n(1) _ this, unfolded n(2), OF k(3)]
        then show ?thesis using ps k m Suc.prems(1) by auto
      qed
    qed simp
  qed
qed

lemma coveringPrefix_all:
  assumes "BitLen b = BitLen a"
  shows "coveringPrefix a b = Masked \<lparr>ip = a, pbits = 0\<rparr>"
proof -
  have "Contains (Masked \<lparr>ip = a, pbits = 0\<rparr>) b"
    using assms by (cases a; cases b) (auto simp: Contains_def Masked_def keep_top_def valid_prefix_def BitLen_def drop_bit_word_beyond)
  then show ?thesis by (simp add: coveringPrefix_def upt_conv_Cons del: upt_Suc)
qed

lemma range_loop_exact:
  assumes "BitLen a = BitLen b" "addr_nat a \<le> addr_nat b"
  obtains ps at where "range_loop maxRangeBlocks a b = (ps, at, False)" "length ps \<le> 2 * BitLen a"
    and "tiles (BitLen a) (addr_nat a) ps (Suc (addr_nat b))" "BitLen at = BitLen a"
    and "Compare at b \<le> 0 \<longleftrightarrow> Suc (addr_nat b) = 2 ^ BitLen a"
proof -
  let ?W = "BitLen a"
  obtain ps at failed where r: "range_loop maxRangeBlocks a b = (ps, at, failed)" by (cases "range_loop maxRangeBlocks a b")
  have len: "length ps \<le> 2 * ?W" using range_loop_length [of b ?W a 0 maxRangeBlocks] assms r by simp
  then have less: "length ps < maxRangeBlocks" by (cases a) (auto simp: BitLen_def maxRangeBlocks_def)
  obtain e where t: "\<not> failed" "BitLen at = ?W" "tiles ?W (addr_nat a) ps e" "e = Suc (addr_nat b)"
      "if e = 2 ^ ?W then addr_nat at \<le> addr_nat b else addr_nat at = e"
    using range_loop_tiles [of b ?W a maxRangeBlocks ps at failed] assms r less by auto
  have "Compare at b \<le> 0 \<longleftrightarrow> Suc (addr_nat b) = 2 ^ ?W" using t assms(1) by (auto simp: Compare_le split: if_splits)
  then show thesis using that [of ps at] r len t by simp
qed

lemma range_prefixes_loop:
  assumes "BitLen a = BitLen b" "addr_nat a \<le> addr_nat b" "range_loop maxRangeBlocks a b = (ps, at, False)"
    and "BitLen at = BitLen a" "Compare at b \<le> 0 \<longleftrightarrow> Suc (addr_nat b) = 2 ^ BitLen a"
  shows "range_prefixes a b = Inr (ps @ (if Suc (addr_nat b) = 2 ^ BitLen a then [Masked \<lparr>ip = a, pbits = 0\<rparr>] else []))"
proof -
  have "Masked \<lparr>ip = at, pbits = 0\<rparr> = Masked \<lparr>ip = a, pbits = 0\<rparr>"
    using assms(4) by (cases at; cases a) (simp_all add: Masked_def keep_top_def BitLen_def drop_bit_word_beyond)
  moreover have "Compare a b \<le> 0" using assms by (simp add: Compare_le)
  ultimately show ?thesis using assms coveringPrefix_all [of b at] by (simp add: range_prefixes_def)
qed

lemma range_prefixes_exact:
  assumes "BitLen a = BitLen b" "addr_nat a \<le> addr_nat b"
  obtains ps where "length ps \<le> 2 * BitLen a" "tiles (BitLen a) (addr_nat a) ps (Suc (addr_nat b))"
    and "range_prefixes a b = Inr (ps @ (if Suc (addr_nat b) = 2 ^ BitLen a then [Masked \<lparr>ip = a, pbits = 0\<rparr>] else []))"
  using range_loop_exact [OF assms] range_prefixes_loop [OF assms] that by metis

lemma mem_addrs_nat:
  assumes "valid_prefix p" "Masked p = p"
  shows "x \<in> addrs p \<longleftrightarrow>
    BitLen x = BitLen (ip p) \<and> addr_nat (ip p) \<le> addr_nat x \<and> addr_nat x < addr_nat (ip p) + 2 ^ (BitLen (ip p) - pbits p)"
proof -
  let ?n = "2 ^ (BitLen (ip p) - pbits p) :: nat"
  have "x \<in> addrs p \<longleftrightarrow> BitLen x = BitLen (ip p) \<and> addr_nat x div ?n = addr_nat (ip p) div ?n"
    by (cases x; cases "ip p") (auto simp: addrs_def addr_nat_def BitLen_def drop_bit_eq_div_unat)
  moreover have "addr_nat (ip p) div ?n * ?n = addr_nat (ip p)" using addr_nat_Masked [OF assms(1)] assms(2) by simp
  ultimately show ?thesis using div_range [of ?n "addr_nat x" "addr_nat (ip p) div ?n"] by (auto simp: algebra_simps)
qed

lemma tiles_range: "tiles W c ps e \<Longrightarrow> c \<le> e"
  by (induction ps arbitrary: c) (auto intro: le_trans [OF le_add1])

lemma tiles_union:
  "tiles W c ps e \<Longrightarrow> \<Union> (addrs ` set ps) = {x. BitLen x = W \<and> c \<le> addr_nat x \<and> addr_nat x < e}"
proof (induction ps arbitrary: c)
  case (Cons p ps)
  have p: "addrs p = {x. BitLen x = W \<and> c \<le> addr_nat x \<and> addr_nat x < c + 2 ^ (W - pbits p)}"
    using Cons.prems mem_addrs_nat [of p] by (auto simp: valid_prefix_def)
  have rest: "tiles W (c + 2 ^ (W - pbits p)) ps e" using Cons.prems by simp
  have "c + 2 ^ (W - pbits p) \<le> e" by (rule tiles_range [OF rest])
  then show ?case using Cons.IH [OF rest] p by auto
qed auto

lemma tiles_disjoint: "tiles W c ps e \<Longrightarrow> sorted_wrt (\<lambda>p q. addrs p \<inter> addrs q = {}) ps"
proof (induction ps arbitrary: c)
  case (Cons p ps)
  have p: "addrs p = {x. BitLen x = W \<and> c \<le> addr_nat x \<and> addr_nat x < c + 2 ^ (W - pbits p)}"
    using Cons.prems mem_addrs_nat [of p] by (auto simp: valid_prefix_def)
  have rest: "tiles W (c + 2 ^ (W - pbits p)) ps e" using Cons.prems by simp
  have "addrs p \<inter> addrs q = {}" if "q \<in> set ps" for q
  proof -
    have "addrs q \<subseteq> {x. BitLen x = W \<and> c + 2 ^ (W - pbits p) \<le> addr_nat x \<and> addr_nat x < e}"
      using tiles_union [OF rest] that by blast
    then show ?thesis using p by fastforce
  qed
  then show ?case using Cons.IH [OF rest] by simp
qed simp

end
