(* ===== verification/OnboardPlan.thy ===== *)
theory OnboardPlan
  imports Domain Ranges Assess
begin

text \<open>
  The onboarding import, from a normalized table to what would be written (\<open>types.go\<close>,
  \<open>contributors.go\<close> and \<open>plan.go\<close> of \<open>internal/onboard\<close>): the rows of a table, the contributors a
  group of rows stands for, and \<open>Plan\<close>, which classifies every row against the configured pools and a
  snapshot of the inventory and reports the writes that survive and a finding for everything else.
\<close>

section \<open>Tables\<close>

datatype TableKind = NoKind | KindAccounts | KindNetworks | KindRanges

datatype Level = LevelInfo | LevelWarning | LevelError

record Diagnostic =
  dg_Level :: Level
  dg_Row :: int
  dg_Column :: string
  dg_Message :: string

record AccountRow =
  ar_SourceRow :: int
  ar_AccountID :: string
  ar_AccountName :: string
  ar_Environment :: string
  ar_TenantID :: string
  ar_Regions :: "string list"
  ar_RoleARN :: string
  ar_Owner :: string
  ar_Description :: string

record NetworkRow =
  nr_SourceRow :: int
  nr_CIDR :: string
  nr_AccountID :: string
  nr_Region :: string
  nr_Type :: string
  nr_ResourceID :: string
  nr_ParentID :: string
  nr_AZID :: string
  nr_Name :: string
  nr_Environment :: string
  nr_State :: string
  nr_Primary :: string
  nr_Description :: string
  nr_AssociationID :: string
  nr_ObservedAt :: string
  nr_ObservedAtParsed :: time
  nr_SourceFile :: string
  nr_AssociationIDColumnPresent :: bool
  nr_ObservedAtColumnPresent :: bool

record RangeRow =
  rg_SourceRow :: int
  rg_CIDR :: string
  rg_StartAddress :: string
  rg_EndAddress :: string
  rg_Description :: string
  rg_Owner :: string
  rg_Source :: string

record Table =
  tb_Kind :: TableKind
  tb_Accounts :: "AccountRow list"
  tb_Networks :: "NetworkRow list"
  tb_Ranges :: "RangeRow list"
  tb_Diagnostics :: "Diagnostic list"

section \<open>Contributors\<close>

definition TriTrue :: string where "TriTrue = ''true''"
definition TriFalse :: string where "TriFalse = ''false''"

definition mapPrimary :: "golib \<Rightarrow> string \<Rightarrow> string" where
  "mapPrimary u raw =
     (let w = ToLower u (TrimSpace raw)
      in if w = ''true'' then TriTrue else if w = ''false'' then TriFalse else TriUnknown)"

definition MapNetworkRow :: "golib \<Rightarrow> NetworkRow \<Rightarrow> ResourceRecord" where
  "MapNetworkRow u row =
     (let rt = ToLower u (TrimSpace (nr_Type row))
      in \<lparr>rr_AccountID = nr_AccountID row, rr_AccountName = [], rr_Region = nr_Region row, rr_Type = rt,
          rr_ResourceID = nr_ResourceID row, rr_CIDR = nr_CIDR row,
          rr_AssociationID =
            (if rt = TypeVPC \<and> nr_AssociationIDColumnPresent row then Some (nr_AssociationID row) else None),
          rr_Primary = mapPrimary u (nr_Primary row), rr_ParentID = nr_ParentID row, rr_AZID = nr_AZID row,
          rr_Name = nr_Name row, rr_State = nr_State row,
          rr_ObservedAt = (if nr_ObservedAtColumnPresent row then Some (nr_ObservedAt row) else None),
          rr_SourceFile = nr_SourceFile row, rr_SourceRow = nr_SourceRow row\<rparr>)"

definition presentValue :: "string option \<Rightarrow> string option" where
  "presentValue p = (if p = None \<or> p = Some [] then None else p)"

definition row_contributor :: "golib \<Rightarrow> string \<Rightarrow> NetworkRow \<Rightarrow> Contributor" where
  "row_contributor u batch row =
     (let r = MapNetworkRow u row
      in \<lparr>ct_Identity = Identity r, ct_AccountID = nr_AccountID row, ct_Region = nr_Region row,
          ct_Type = rr_Type r, ct_ResourceID = nr_ResourceID row, ct_ParentID = nr_ParentID row,
          ct_AssociationID = presentValue (rr_AssociationID r), ct_ObservedAt = presentValue (rr_ObservedAt r),
          ct_FirstSeenBatch = batch, ct_LastSeenBatch = batch,
          ct_SourceFile = nr_SourceFile row, ct_SourceRow = nr_SourceRow row\<rparr>)"

definition contributor_key :: "Contributor \<Rightarrow> string \<times> int \<times> string" where
  "contributor_key c = (ct_SourceFile c, ct_SourceRow c, ct_Identity c)"

definition ContributorsForRows :: "golib \<Rightarrow> NetworkRow list \<Rightarrow> string \<Rightarrow> Contributor list" where
  "ContributorsForRows u rows batch = sort_key contributor_key (map (row_contributor u batch) rows)"

section \<open>Reports\<close>

datatype WriteKind = WritePrefix | WriteRange

record WriteEntry =
  we_Kind :: WriteKind
  we_CIDR :: string
  we_StartAddress :: string
  we_EndAddress :: string
  we_SourceRows :: "int list"

record PlanFinding =
  pf_Level :: Level
  pf_Rule :: string
  pf_Rows :: "int list"
  pf_CIDR :: string
  pf_Message :: string

record PlanReport =
  pr_Writes :: "WriteEntry list"
  pr_Findings :: "PlanFinding list"

definition finding_key :: "PlanFinding \<Rightarrow> string \<times> string \<times> int \<times> string" where
  "finding_key f = (pf_CIDR f, pf_Rule f, (case pf_Rows f of [] \<Rightarrow> 0 | r # _ \<Rightarrow> r), pf_Message f)"

definition HasErrors :: "PlanReport \<Rightarrow> bool" where
  "HasErrors r \<longleftrightarrow> list_ex (\<lambda>f. pf_Level f = LevelError) (pr_Findings r)"

definition writeKey :: "WriteEntry \<Rightarrow> string" where
  "writeKey w =
     (if we_Kind w = WriteRange then ''1|'' @ we_StartAddress w @ ''|'' @ we_EndAddress w
      else ''0|'' @ we_CIDR w)"

definition finishReport :: "WriteEntry list \<Rightarrow> PlanFinding list \<Rightarrow> PlanReport" where
  "finishReport writes findings =
     \<lparr>pr_Writes = sort_key writeKey writes, pr_Findings = sort_key finding_key findings\<rparr>"

definition findDomain :: "Config \<Rightarrow> string \<Rightarrow> Domain option" where
  "findDomain cfg domainID = find (\<lambda>d. d_ID d = domainID) (c_Domains cfg)"

definition finding :: "Level \<Rightarrow> string \<Rightarrow> int list \<Rightarrow> string \<Rightarrow> string \<Rightarrow> PlanFinding" where
  "finding level rule rows cidr message =
     \<lparr>pf_Level = level, pf_Rule = rule, pf_Rows = rows, pf_CIDR = cidr, pf_Message = message\<rparr>"

section \<open>Accounts\<close>

definition accountIDPattern :: "string \<Rightarrow> bool" where
  "accountIDPattern s \<longleftrightarrow> length s = 12 \<and> list_all isdigit s"

definition account_findings :: "golib \<Rightarrow> AccountRow \<Rightarrow> PlanFinding list" where
  "account_findings u r =
     (if \<not> accountIDPattern (ar_AccountID r)
      then [finding LevelError ''invalid-account-id'' [ar_SourceRow r] []
              (''account id '' @ Quote u (ar_AccountID r) @ '' is not 12 digits'')]
      else []) @
     (let want = ''arn:aws:iam::'' @ ar_AccountID r @ '':role/''
      in if ar_RoleARN r \<noteq> [] \<and>
            (length (ar_RoleARN r) \<le> length want \<or> take (length want) (ar_RoleARN r) \<noteq> want)
         then [finding LevelError ''invalid-role-arn'' [ar_SourceRow r] []
                 (''role_arn '' @ Quote u (ar_RoleARN r) @ '' is not arn:aws:iam::'' @ ar_AccountID r @ '':role/<name>'')]
         else [])"

definition planAccounts :: "golib \<Rightarrow> AccountRow list \<Rightarrow> PlanFinding list" where
  "planAccounts u rows = concat (map (account_findings u) rows)"

section \<open>Prefix candidates\<close>

record candidate =
  cd_sourceRow :: int
  cd_raw :: string

definition networkCandidates :: "NetworkRow list \<Rightarrow> candidate list" where
  "networkCandidates rows = map (\<lambda>r. \<lparr>cd_sourceRow = nr_SourceRow r, cd_raw = nr_CIDR r\<rparr>) rows"

definition rangeCIDRCandidates :: "RangeRow list \<Rightarrow> candidate list" where
  "rangeCIDRCandidates rows = map (\<lambda>r. \<lparr>cd_sourceRow = rg_SourceRow r, cd_raw = rg_CIDR r\<rparr>) rows"

record prefixGroup =
  pg_cidr :: Prefix
  pg_rows :: "int list"

definition zero_prefixGroup :: prefixGroup where
  "zero_prefixGroup = \<lparr>pg_cidr = \<lparr>ip = V4 0, pbits = 0\<rparr>, pg_rows = []\<rparr>"

text \<open>The re-validation of a row's CIDR: canonical IPv4 or nothing.\<close>

definition canonical4 :: "string \<Rightarrow> Prefix option" where
  "canonical4 raw =
     (case ParsePrefix raw of
        None \<Rightarrow> None
      | Some p \<Rightarrow> if \<not> Is4 (ip p) \<or> p \<noteq> Masked p then None else Some p)"

definition pool_prefix :: "Pool \<Rightarrow> Prefix option" where
  "pool_prefix p = map_option Masked (ParsePrefix (pl_CIDR p))"

definition holds_for :: "('a \<Rightarrow> bool) \<Rightarrow> 'a option \<Rightarrow> bool" where
  "holds_for P x = (case x of None \<Rightarrow> False | Some a \<Rightarrow> P a)"

definition exactPool :: "Prefix \<Rightarrow> Pool list \<Rightarrow> Pool option" where
  "exactPool cidr pools = find (\<lambda>p. holds_for (\<lambda>pc. pc = cidr) (pool_prefix p)) pools"

definition ancestorOfPool :: "Prefix \<Rightarrow> Pool list \<Rightarrow> Pool option" where
  "ancestorOfPool cidr pools =
     find (\<lambda>p. holds_for (\<lambda>pc. pbits pc > pbits cidr \<and> Contains cidr (ip pc)) (pool_prefix p)) pools"

definition insideAnyPool :: "Prefix \<Rightarrow> Pool list \<Rightarrow> bool" where
  "insideAnyPool cidr pools =
     list_ex (\<lambda>p. holds_for (\<lambda>pc. pbits pc \<le> pbits cidr \<and> Contains pc (ip cidr)) (pool_prefix p)) pools"

definition childOfManagedVPC :: "Prefix \<Rightarrow> Prefix \<Rightarrow> Network \<Rightarrow> bool" where
  "childOfManagedVPC cidr managed n =
     (if n_ParentAllocationID n \<noteq> [] \<or> n_ParentPool n then False
      else pbits cidr > pbits (Masked managed) \<and> Contains (Masked managed) (ip cidr))"

definition overlapsManaged :: "Prefix \<Rightarrow> InventorySnapshot \<Rightarrow> Network option" where
  "overlapsManaged cidr snap =
     find (\<lambda>n. n_AllocationID n \<noteq> [] \<and>
               holds_for (\<lambda>nc. Overlaps cidr nc \<and> \<not> childOfManagedVPC cidr nc n) (ParsePrefix (n_CIDR n)))
       (sn_Networks snap)"

definition insideManagedVPC :: "Prefix \<Rightarrow> InventorySnapshot \<Rightarrow> Network option" where
  "insideManagedVPC cidr snap =
     find (\<lambda>n. n_AllocationID n \<noteq> [] \<and>
               holds_for (\<lambda>nc. Overlaps cidr nc \<and> childOfManagedVPC cidr nc n) (ParsePrefix (n_CIDR n)))
       (sn_Networks snap)"

definition alreadyUnmanaged :: "Prefix \<Rightarrow> InventorySnapshot \<Rightarrow> Network option" where
  "alreadyUnmanaged cidr snap =
     find (\<lambda>n. n_AllocationID n = [] \<and> \<not> n_ParentPool n \<and>
               holds_for (\<lambda>nc. nc = cidr) (ParsePrefix (n_CIDR n)))
       (sn_Networks snap)"

definition rowsForPrefix :: "NetworkRow list \<Rightarrow> Prefix \<Rightarrow> NetworkRow list" where
  "rowsForPrefix rows cidr = filter (\<lambda>r. canonical4 (nr_CIDR r) = Some cidr) rows"

definition contributorIdentities :: "golib \<Rightarrow> NetworkRow list \<Rightarrow> string list" where
  "contributorIdentities u rows =
     rev (fold (\<lambda>c out. if ct_Identity c \<in> set out then out else ct_Identity c # out)
            (ContributorsForRows u rows []) [])"

section \<open>Comparing contributors\<close>

definition new_finding :: "string \<Rightarrow> Contributor \<Rightarrow> PlanFinding" where
  "new_finding cidr c =
     finding LevelInfo ''contributor-new'' [ct_SourceRow c] cidr
       (cidr @ '': '' @ ct_Identity c @ '' is a contributor this table names that the prefix does not carry yet'')"

definition stale_finding :: "string \<Rightarrow> Contributor \<Rightarrow> PlanFinding" where
  "stale_finding cidr c =
     finding LevelInfo ''contributor-stale-source'' [ct_SourceRow c] cidr
       (cidr @ '': '' @ ct_Identity c @ '' has no recorded observation time and could never be removal evidence'')"

definition absent_finding :: "string \<Rightarrow> Contributor \<Rightarrow> PlanFinding" where
  "absent_finding cidr c =
     finding LevelWarning ''contributor-absent'' [] cidr
       (cidr @ '': '' @ ct_Identity c @
        '' is a recorded contributor this table does not name; a table is a scope, not a census, so nothing is removed'')"

text \<open>The two loops; the middle argument is \<open>seenNew\<close> and \<open>seenAbsent\<close>.\<close>

fun want_findings :: "string \<Rightarrow> string set \<Rightarrow> string list \<Rightarrow> Contributor list \<Rightarrow> PlanFinding list" where
  "want_findings cidr have seenNew [] = []"
| "want_findings cidr have seenNew (c # cs) =
     (let new = ct_ResourceID c \<noteq> [] \<and> ct_Identity c \<notin> have \<and> ct_Identity c \<notin> set seenNew
      in (if new then [new_finding cidr c] else []) @
         (if ct_ObservedAt c = None then [stale_finding cidr c] else []) @
         want_findings cidr have (if new then ct_Identity c # seenNew else seenNew) cs)"

fun absent_findings :: "string \<Rightarrow> string set \<Rightarrow> string list \<Rightarrow> Contributor list \<Rightarrow> PlanFinding list" where
  "absent_findings cidr wantIdentity seenAbsent [] = []"
| "absent_findings cidr wantIdentity seenAbsent (c # cs) =
     (if ct_ResourceID c = [] \<or> ct_Identity c \<in> wantIdentity \<or> ct_Identity c \<in> set seenAbsent
      then absent_findings cidr wantIdentity seenAbsent cs
      else absent_finding cidr c # absent_findings cidr wantIdentity (ct_Identity c # seenAbsent) cs)"

definition contributorFindings :: "golib \<Rightarrow> NetworkRow list \<Rightarrow> Network \<Rightarrow> PlanFinding list" where
  "contributorFindings u rows net =
     (let cidr = n_CIDR net
      in if n_ContributorsUnreadable net
         then [finding LevelWarning ''contributor-unreadable'' [] cidr
                 (cidr @ '': platform_import_contributors could not be decoded as a contributor list; treated as unknown, never reconstructed silently'')]
         else case n_Contributors net of
           None \<Rightarrow>
             [finding LevelInfo ''contributor-unknown'' [] cidr
                (cidr @ '' carries no contributor list; it was imported before ADR 0016, and a refresh would reconstruct one from this table'')]
         | Some recorded \<Rightarrow>
             let want = ContributorsForRows u rows []
             in want_findings cidr (set (map ct_Identity recorded)) [] want @
                absent_findings cidr (set (map ct_Identity want)) [] recorded)"

section \<open>Planning prefixes\<close>

text \<open>First loop: rows that resolve to the same CIDR form a group, in the order of their first row.\<close>

definition group_candidate ::
    "golib \<Rightarrow> candidate \<Rightarrow> PlanFinding list \<times> prefixGroup gomap \<times> string list \<Rightarrow>
     PlanFinding list \<times> prefixGroup gomap \<times> string list" where
  "group_candidate u c = (\<lambda>(findings, groups, order).
     case canonical4 (cd_raw c) of
       None \<Rightarrow>
         (findings @ [finding LevelError ''invalid-cidr'' [cd_sourceRow c] (cd_raw c)
                        (Quote u (cd_raw c) @ '' is not a canonical IPv4 CIDR'')], groups, order)
     | Some p \<Rightarrow>
         let key = PrefixString p
         in case mget groups key of
              None \<Rightarrow>
                (findings, mput key \<lparr>pg_cidr = p, pg_rows = [cd_sourceRow c]\<rparr> groups, order @ [key])
            | Some g \<Rightarrow>
                (findings, mput key (g\<lparr>pg_rows := pg_rows g @ [cd_sourceRow c]\<rparr>) groups, order))"

definition duplicate_findings :: "golib \<Rightarrow> NetworkRow list option \<Rightarrow> prefixGroup \<Rightarrow> PlanFinding list" where
  "duplicate_findings u networkRows g =
     (let rows = sort (pg_rows g); cidr = PrefixString (pg_cidr g)
      in if length rows > 1
         then
           let msg = dec (length rows) @ '' rows resolve to the same CIDR '' @ cidr @ ''; collapsed to one write'';
               ids = (case networkRows of
                   None \<Rightarrow> []
                 | Some nrs \<Rightarrow> contributorIdentities u (rowsForPrefix nrs (pg_cidr g)))
           in [finding LevelWarning ''duplicate-cidr'' rows cidr
                 (if ids \<noteq> [] then msg @ '', naming contributors '' @ Join ids '', '' else msg)]
         else [])"

text \<open>Second loop: one group, checked in the order of the code, each check ending the group's turn.\<close>

definition plan_group ::
    "golib \<Rightarrow> Pool list \<Rightarrow> InventorySnapshot \<Rightarrow> NetworkRow list option \<Rightarrow> prefixGroup \<Rightarrow>
     WriteEntry list \<times> PlanFinding list" where
  "plan_group u pools snap networkRows g =
     (let rows = sort (pg_rows g); p = pg_cidr g; cidr = PrefixString p; dup = duplicate_findings u networkRows g
      in case exactPool p pools of
           Some pool \<Rightarrow>
             ([], dup @ [finding LevelError ''pool-exact-match'' rows cidr
                           (cidr @ '' is configured pool '' @ pl_ID pool @ [CHR 0x27] @ ''s own CIDR'')])
         | None \<Rightarrow>
      case ancestorOfPool p pools of
           Some pool \<Rightarrow>
             ([], dup @ [finding LevelError ''pool-ancestor'' rows cidr
                           (cidr @ '' contains pool '' @ pl_ID pool @ '' ('' @ pl_CIDR pool @
                            ''); Snapshot ignores it as an ancestor, so it would block nothing'')])
         | None \<Rightarrow>
      case overlapsManaged p snap of
           Some net \<Rightarrow>
             ([], dup @ [finding LevelError ''overlaps-managed'' rows cidr
                           (cidr @ '' overlaps platform-managed network '' @ n_CIDR net @ '' (allocation '' @
                            n_AllocationID net @ '')'')])
         | None \<Rightarrow>
      let inside = (case insideManagedVPC p snap of
              None \<Rightarrow> []
            | Some parent \<Rightarrow>
                [finding LevelInfo ''inside-managed-vpc'' rows cidr
                   (cidr @ '' is inside platform-managed VPC '' @ n_CIDR parent @ '' (allocation '' @
                    n_AllocationID parent @ ''); importing it as unmanaged occupancy'')])
      in case alreadyUnmanaged p snap of
           Some net \<Rightarrow>
             ([], dup @ inside @
                [finding LevelInfo ''already-unmanaged'' rows cidr
                   (cidr @ '' is already present as unmanaged occupancy; apply would write nothing'')] @
                (case networkRows of
                   None \<Rightarrow> []
                 | Some nrs \<Rightarrow> contributorFindings u (rowsForPrefix nrs p) net))
         | None \<Rightarrow>
             ([\<lparr>we_Kind = WritePrefix, we_CIDR = cidr, we_StartAddress = [], we_EndAddress = [],
                we_SourceRows = rows\<rparr>],
              dup @ inside @
                (if insideAnyPool p pools then []
                 else [finding LevelInfo ''outside-pool'' rows cidr
                         (cidr @ '' is outside every configured pool'')])))"

definition planPrefixCandidates ::
    "golib \<Rightarrow> candidate list \<Rightarrow> Pool list \<Rightarrow> InventorySnapshot \<Rightarrow> NetworkRow list option \<Rightarrow>
     WriteEntry list \<times> PlanFinding list" where
  "planPrefixCandidates u candidates pools snap networkRows =
     (let (findings, groups, order) = fold (group_candidate u) candidates ([], [], []);
          outs = map (\<lambda>key. plan_group u pools snap networkRows (mget0 zero_prefixGroup groups key)) order
      in (concat (map fst outs), findings @ concat (map snd outs)))"

section \<open>Planning ranges\<close>

text \<open>
  \<open>lastAddr\<close> reads the address as four bytes, which panics on an IPv6 address that does not hold an
  IPv4 one: \<open>None\<close> is that panic, here and in everything that calls it.
\<close>

definition As4 :: "Addr \<Rightarrow> 32 word option" where
  "As4 a = (case a of V4 w \<Rightarrow> Some w | V6 w \<Rightarrow> if drop_bit 32 w = 0xFFFF then Some (ucast w) else None)"

definition lastAddr :: "Prefix \<Rightarrow> Addr option" where
  "lastAddr p = map_option (\<lambda>v. V4 (set_low (32 - pbits p) v)) (As4 (ip (Masked p)))"

text \<open>The first element that satisfies a test, where the test may panic.\<close>

fun find_panic :: "('a \<Rightarrow> bool option) \<Rightarrow> 'a list \<Rightarrow> 'a option option" where
  "find_panic t [] = Some None"
| "find_panic t (x # xs) =
     (case t x of None \<Rightarrow> None | Some True \<Rightarrow> Some (Some x) | Some False \<Rightarrow> find_panic t xs)"

definition test_prefix :: "(Prefix \<Rightarrow> bool option) \<Rightarrow> Prefix option \<Rightarrow> bool option" where
  "test_prefix t x = (case x of None \<Rightarrow> Some False | Some p \<Rightarrow> t p)"

definition spansPool :: "Addr \<Rightarrow> Addr \<Rightarrow> Pool list \<Rightarrow> Pool option option" where
  "spansPool start stop pools =
     find_panic (\<lambda>p. test_prefix (\<lambda>pc.
         if Compare start (ip pc) \<le> 0 then map_option (\<lambda>l. Compare stop l \<ge> 0) (lastAddr pc) else Some False)
       (pool_prefix p)) pools"

definition rangeInsideAnyPool :: "Addr \<Rightarrow> Addr \<Rightarrow> Pool list \<Rightarrow> bool" where
  "rangeInsideAnyPool start stop pools =
     list_ex (\<lambda>p. holds_for (\<lambda>pc. Contains pc start \<and> Contains pc stop) (pool_prefix p)) pools"

definition rangeChildOfManagedVPC :: "Addr \<Rightarrow> Addr \<Rightarrow> Prefix \<Rightarrow> Network \<Rightarrow> bool option" where
  "rangeChildOfManagedVPC start stop managed n =
     (if n_ParentAllocationID n \<noteq> [] \<or> n_ParentPool n then Some False
      else map_option (\<lambda>l.
             let first = ip (Masked managed)
             in \<not> (Compare start first < 0 \<or> Compare stop l > 0) \<and>
                (Compare start first > 0 \<or> Compare stop l < 0))
           (lastAddr (Masked managed)))"

definition rangeOverlapsManaged :: "Addr \<Rightarrow> Addr \<Rightarrow> InventorySnapshot \<Rightarrow> Network option option" where
  "rangeOverlapsManaged start stop snap =
     find_panic (\<lambda>n.
         if n_AllocationID n = [] then Some False
         else test_prefix (\<lambda>nc.
           case lastAddr nc of
             None \<Rightarrow> None
           | Some l \<Rightarrow>
               if Compare start l > 0 \<or> Compare stop (ip nc) < 0 then Some False
               else map_option Not (rangeChildOfManagedVPC start stop nc n))
         (ParsePrefix (n_CIDR n)))
       (sn_Networks snap)"

definition rangeInsideManagedVPC :: "Addr \<Rightarrow> Addr \<Rightarrow> InventorySnapshot \<Rightarrow> Network option option" where
  "rangeInsideManagedVPC start stop snap =
     find_panic (\<lambda>n.
         if n_AllocationID n = [] then Some False
         else test_prefix (\<lambda>nc. rangeChildOfManagedVPC start stop nc n) (ParsePrefix (n_CIDR n)))
       (sn_Networks snap)"

text \<open>
  \<open>rangeBlockCount\<close>: the loop runs while a block is left below the limit; the result is the number of
  blocks and the address at which the loop stopped.
\<close>

definition chosen4 :: "Addr \<Rightarrow> Addr \<Rightarrow> Prefix option option" where
  "chosen4 cur stop =
     map_option (map_option (\<lambda>b. Masked \<lparr>ip = cur, pbits = b\<rparr>))
       (find_panic (\<lambda>b.
           let p = Masked \<lparr>ip = cur, pbits = b\<rparr>
           in if Compare (ip p) cur = 0 then map_option (\<lambda>l. Compare l stop \<le> 0) (lastAddr p) else Some False)
         [0..<Suc (BitLen cur)])"

function count_loop :: "nat \<Rightarrow> nat \<Rightarrow> Addr \<Rightarrow> Addr \<Rightarrow> (nat \<times> Addr) option" where
  "count_loop limit blocks cur stop =
     (if \<not> Compare cur stop \<le> 0 \<or> limit \<le> blocks then Some (blocks, cur)
      else case chosen4 cur stop of
        None \<Rightarrow> None
      | Some None \<Rightarrow> Some (Suc blocks, cur)
      | Some (Some p) \<Rightarrow>
          (case lastAddr p of
             None \<Rightarrow> None
           | Some l \<Rightarrow>
               (case Next l of
                  None \<Rightarrow> Some (Suc blocks, cur)
                | Some nxt \<Rightarrow> count_loop limit (Suc blocks) nxt stop)))"
  by pat_completeness auto
termination by (relation "measure (\<lambda>(limit, blocks, _, _). limit - blocks)") auto

declare count_loop.simps [simp del]

definition rangeBlockCount :: "Addr \<Rightarrow> Addr \<Rightarrow> nat \<Rightarrow> (nat \<times> bool) option" where
  "rangeBlockCount start stop limit =
     map_option (\<lambda>(blocks, cur). (blocks, Compare cur stop \<le> 0)) (count_loop limit 0 start stop)"

definition maxOnboardRangeBlocks :: nat where "maxOnboardRangeBlocks = 4096"

record rangeGroup =
  rq_start :: Addr
  rq_end :: Addr
  rq_rows :: "int list"

definition zero_rangeGroup :: rangeGroup where
  "zero_rangeGroup = \<lparr>rq_start = V4 0, rq_end = V4 0, rq_rows = []\<rparr>"

definition range_label :: "Addr \<Rightarrow> Addr \<Rightarrow> string" where
  "range_label start stop = AddrString start @ ''-'' @ AddrString stop"

definition group_range ::
    "RangeRow \<Rightarrow> PlanFinding list \<times> rangeGroup gomap \<times> string list \<Rightarrow>
     PlanFinding list \<times> rangeGroup gomap \<times> string list" where
  "group_range r = (\<lambda>(findings, groups, order).
     let bad = (\<lambda>msg. (findings @ [finding LevelError ''invalid-cidr'' [rg_SourceRow r] [] msg], groups, order));
         invalid = bad (''range '' @ rg_StartAddress r @ ''-'' @ rg_EndAddress r @ '' is not a valid IPv4 address pair'')
     in case (ParseAddr (rg_StartAddress r), ParseAddr (rg_EndAddress r)) of
       (Some start, Some stop) \<Rightarrow>
         if \<not> Is4 start \<or> \<not> Is4 stop then invalid
         else if Compare start stop > 0
         then bad (''range '' @ range_label start stop @ '' ends before it starts'')
         else
           let key = range_label start stop
           in (case mget groups key of
                 None \<Rightarrow>
                   (findings, mput key \<lparr>rq_start = start, rq_end = stop, rq_rows = [rg_SourceRow r]\<rparr> groups,
                    order @ [key])
               | Some g \<Rightarrow>
                   (findings, mput key (g\<lparr>rq_rows := rq_rows g @ [rg_SourceRow r]\<rparr>) groups, order))
     | _ \<Rightarrow> invalid)"

definition plan_range_group ::
    "Pool list \<Rightarrow> InventorySnapshot \<Rightarrow> rangeGroup \<Rightarrow> (WriteEntry list \<times> PlanFinding list) option" where
  "plan_range_group pools snap g =
     (let rows = sort (rq_rows g); start = rq_start g; stop = rq_end g; label = range_label start stop;
          dup = (if length rows > 1
                 then [finding LevelWarning ''duplicate-cidr'' rows label
                         (dec (length rows) @ '' rows resolve to the same range '' @ label @ ''; collapsed to one write'')]
                 else [])
      in case spansPool start stop pools of
           None \<Rightarrow> None
         | Some (Some pool) \<Rightarrow>
             Some ([], dup @ [finding LevelError ''range-spans-pool'' rows label
                                (''range '' @ label @ '' spans pool '' @ pl_ID pool @ '' ('' @ pl_CIDR pool @ '')'')])
         | Some None \<Rightarrow>
      case rangeOverlapsManaged start stop snap of
           None \<Rightarrow> None
         | Some (Some net) \<Rightarrow>
             Some ([], dup @ [finding LevelError ''overlaps-managed'' rows label
                                (''range '' @ label @ '' overlaps platform-managed network '' @ n_CIDR net @
                                 '' (allocation '' @ n_AllocationID net @ '')'')])
         | Some None \<Rightarrow>
      case rangeInsideManagedVPC start stop snap of
           None \<Rightarrow> None
         | Some inside \<Rightarrow>
      map_option (\<lambda>(blocks, hitCap).
          ([\<lparr>we_Kind = WriteRange, we_CIDR = [], we_StartAddress = AddrString start,
             we_EndAddress = AddrString stop, we_SourceRows = rows\<rparr>],
           dup @
           (case inside of
              None \<Rightarrow> []
            | Some parent \<Rightarrow>
                [finding LevelInfo ''inside-managed-vpc'' rows label
                   (''range '' @ label @ '' is inside platform-managed VPC '' @ n_CIDR parent @ '' (allocation '' @
                    n_AllocationID parent @ ''); importing it as unmanaged occupancy'')]) @
           (if hitCap
            then [finding LevelWarning ''range-too-large'' rows label
                    (''range '' @ label @ '' needs more than '' @ dec maxOnboardRangeBlocks @ '' CIDR blocks (found '' @
                     dec blocks @ ''); a later snapshot substitutes one covering, over-blocking prefix'')]
            else []) @
           (if rangeInsideAnyPool start stop pools then []
            else [finding LevelInfo ''outside-pool'' rows label
                    (''range '' @ label @ '' is outside every configured pool'')])))
        (rangeBlockCount start stop maxOnboardRangeBlocks))"

fun all_or_panic :: "('a \<Rightarrow> 'b option) \<Rightarrow> 'a list \<Rightarrow> 'b list option" where
  "all_or_panic f [] = Some []"
| "all_or_panic f (x # xs) =
     (case f x of None \<Rightarrow> None | Some y \<Rightarrow> map_option (Cons y) (all_or_panic f xs))"

definition planRangeCandidates ::
    "RangeRow list \<Rightarrow> Pool list \<Rightarrow> InventorySnapshot \<Rightarrow> (WriteEntry list \<times> PlanFinding list) option" where
  "planRangeCandidates rows pools snap =
     (let (findings, groups, order) = fold group_range rows ([], [], [])
      in map_option (\<lambda>outs. (concat (map fst outs), findings @ concat (map snd outs)))
           (all_or_panic (\<lambda>key. plan_range_group pools snap (mget0 zero_rangeGroup groups key)) order))"

section \<open>The plan\<close>

definition diagnostic_finding :: "Diagnostic \<Rightarrow> PlanFinding" where
  "diagnostic_finding d =
     finding (dg_Level d) ''normalize'' (if dg_Row d \<noteq> 0 then [dg_Row d] else []) []
       (if dg_Column d \<noteq> [] then dg_Column d @ '': '' @ dg_Message d else dg_Message d)"

definition Plan :: "golib \<Rightarrow> Table \<Rightarrow> Config \<Rightarrow> string \<Rightarrow> InventorySnapshot \<Rightarrow> PlanReport option" where
  "Plan u table cfg domainID snap =
     (let findings = map diagnostic_finding (tb_Diagnostics table)
      in case findDomain cfg domainID of
        None \<Rightarrow>
          Some (finishReport [] (findings @
            [finding LevelError ''unknown-domain'' [] [] (''unknown domain '' @ Quote u domainID)]))
      | Some d \<Rightarrow>
          if bk_VRFID (d_Backend d) = 0
          then Some (finishReport [] (findings @
            [finding LevelError ''domain-no-vrf'' [] [] (''domain '' @ Quote u domainID @ '' has no VRF configured'')]))
          else if \<not> sn_Complete snap
          then Some (finishReport [] (findings @
            [finding LevelError ''incomplete-snapshot'' [] []
               ''the inventory snapshot is not complete; an unreadable inventory is not an empty one'']))
          else
            let pools = filter (\<lambda>p. pl_DomainID p = d_ID d) (c_Pools cfg)
            in case tb_Kind table of
                 NoKind \<Rightarrow> Some (finishReport [] findings)
               | KindAccounts \<Rightarrow> Some (finishReport [] (findings @ planAccounts u (tb_Accounts table)))
               | KindNetworks \<Rightarrow>
                   (let (w, f) = planPrefixCandidates u (networkCandidates (tb_Networks table)) pools snap
                                   (Some (tb_Networks table))
                    in Some (finishReport w (findings @ f)))
               | KindRanges \<Rightarrow>
                   (let cidrRows = filter (\<lambda>r. rg_CIDR r \<noteq> []) (tb_Ranges table);
                        rangeRows = filter (\<lambda>r. rg_CIDR r = []) (tb_Ranges table);
                        (w, f) = planPrefixCandidates u (rangeCIDRCandidates cidrRows) pools snap None
                    in map_option (\<lambda>(w', f'). finishReport (w @ w') (findings @ f @ f'))
                         (planRangeCandidates rangeRows pools snap)))"

end
