(* ===== verification/ImportRows.thy ===== *)
theory ImportRows
  imports OnboardPlan
begin

text \<open>
  Reading an import table (\<open>headers.go\<close>, \<open>normalize.go\<close> and the text part of \<open>read.go\<close> of
  \<open>internal/onboard\<close>): a header row is matched against the known column names, which decides the kind of
  the table, and every cell below it is cleaned and turned into the fields of a row. The regular
  expressions of the code are written as the functions they denote.
\<close>

section \<open>Cells\<close>

definition bom :: string where
  "bom = [CHR 0xEF, CHR 0xBB, CHR 0xBF]"

definition invisible :: "(string \<times> string) list" where
  "invisible =
     [([CHR 0xC2, CHR 0xA0], '' ''), ([CHR 0xE2, CHR 0x80, CHR 0x8B], []), ([CHR 0xE2, CHR 0x80, CHR 0x8C], []),
      ([CHR 0xE2, CHR 0x80, CHR 0x8D], []), (bom, []),
      ([CHR 0xE2, CHR 0x80, CHR 0x98], [CHR 0x27]), ([CHR 0xE2, CHR 0x80, CHR 0x99], [CHR 0x27]),
      ([CHR 0xE2, CHR 0x80, CHR 0x9C], [CHR 0x22]), ([CHR 0xE2, CHR 0x80, CHR 0x9D], [CHR 0x22])]"

definition cleanCell :: "string \<Rightarrow> string" where
  "cleanCell s = TrimSpace (replacer invisible s)"

text \<open>
  \<open>\d{1,3}(\.\d{1,3}){3}/\d{1,2}\<close> at the front of a string: the text it matches. A run of digits before a
  dot or a slash can only be matched whole, so there is nothing to go back on.
\<close>

definition octet_then :: "char \<Rightarrow> string \<Rightarrow> (string \<times> string) option" where
  "octet_then c s =
     (let ds = takeWhile isdigit s; rest = dropWhile isdigit s
      in if 1 \<le> length ds \<and> length ds \<le> 3 \<and> rest \<noteq> [] \<and> hd rest = c then Some (ds @ [c], tl rest) else None)"

definition cidr_at :: "string \<Rightarrow> string option" where
  "cidr_at s =
     (case octet_then (CHR ''.'') s of
        None \<Rightarrow> None
      | Some (a, s1) \<Rightarrow>
     (case octet_then (CHR ''.'') s1 of
        None \<Rightarrow> None
      | Some (b, s2) \<Rightarrow>
     (case octet_then (CHR ''.'') s2 of
        None \<Rightarrow> None
      | Some (c, s3) \<Rightarrow>
     (case octet_then (CHR ''/'') s3 of
        None \<Rightarrow> None
      | Some (d, s4) \<Rightarrow>
          let bits = takeWhile isdigit (take 2 s4)
          in if bits = [] then None else Some (a @ b @ c @ d @ bits)))))"

fun cidrToken :: "string \<Rightarrow> string option" where
  "cidrToken [] = None"
| "cidrToken (c # cs) = (case cidr_at (c # cs) of Some m \<Rightarrow> Some m | None \<Rightarrow> cidrToken cs)"

text \<open>
  \<open>^(.+?)\s*-\s*(.+)$\<close> on a cell that does not end in white space: the shortest first part after which a
  dash and a rest without a newline follow.
\<close>

definition re_space :: "char \<Rightarrow> bool" where
  "re_space c \<longleftrightarrow> byte_of c \<in> {9, 10, 12, 13, 32}"

fun rangeDash :: "string \<Rightarrow> string \<Rightarrow> (string \<times> string) option" where
  "rangeDash front s =
     (let after = dropWhile re_space s; rest = dropWhile re_space (tl after)
      in if front \<noteq> [] \<and> after \<noteq> [] \<and> hd after = CHR ''-'' \<and> rest \<noteq> [] \<and> CHR 0x0A \<notin> set rest
         then Some (front, rest)
         else case s of
           [] \<Rightarrow> None
         | c # cs \<Rightarrow> if c = CHR 0x0A then None else rangeDash (front @ [c]) cs)"

declare rangeDash.simps [simp del]

text \<open>\<open>^[0-9]+(\.[0-9]+)?[eE]\+?[0-9]+$\<close> and \<open>^[0-9]+$\<close>.\<close>

definition all_digits :: "string \<Rightarrow> bool" where
  "all_digits s \<longleftrightarrow> s \<noteq> [] \<and> list_all isdigit s"

definition exponent :: "string \<Rightarrow> bool" where
  "exponent s \<longleftrightarrow>
     s \<noteq> [] \<and> hd s \<in> {CHR ''e'', CHR ''E''} \<and>
     all_digits (if tl s \<noteq> [] \<and> hd (tl s) = CHR ''+'' then tl (tl s) else tl s)"

definition scientificNotation :: "string \<Rightarrow> bool" where
  "scientificNotation s \<longleftrightarrow>
     (let rest = dropWhile isdigit s
      in s \<noteq> [] \<and> isdigit (hd s) \<and>
         (if rest \<noteq> [] \<and> hd rest = CHR ''.''
          then takeWhile isdigit (tl rest) \<noteq> [] \<and> exponent (dropWhile isdigit (tl rest))
          else exponent rest))"

section \<open>Headers\<close>

definition headerAliases :: "(string \<times> string) list" where
  "headerAliases =
     [(''accountid'', ''account_id''), (''accountnr'', ''account_id''), (''awskonto'', ''account_id''),
      (''awsaccount'', ''account_id''), (''accountname'', ''account_name''), (''cidr'', ''cidr''),
      (''cidrblock'', ''cidr''), (''iprange'', ''cidr''), (''netz'', ''cidr''), (''network'', ''cidr''),
      (''prefix'', ''cidr''), (''region'', ''region''), (''regions'', ''regions''), (''vpcid'', ''resource_id''),
      (''subnetid'', ''resource_id''), (''resourceid'', ''resource_id''), (''az'', ''az_id''), (''azid'', ''az_id''),
      (''availabilityzoneid'', ''az_id''), (''env'', ''environment''), (''environment'', ''environment''),
      (''tenant'', ''tenant_id''), (''tenantid'', ''tenant_id''), (''owner'', ''owner''),
      (''description'', ''description''), (''notes'', ''description''), (''start'', ''start_address''),
      (''startaddress'', ''start_address''), (''end'', ''end_address''), (''endaddress'', ''end_address''),
      (''rolearn'', ''role_arn''), (''type'', ''type''), (''name'', ''name''), (''state'', ''state''),
      (''primary'', ''primary''), (''parentid'', ''parent_id''), (''source'', ''source''),
      (''associationid'', ''association_id''), (''cidrassociationid'', ''association_id''),
      (''vpccidrassociationid'', ''association_id''), (''observedat'', ''observed_at''),
      (''observed'', ''observed_at''), (''observationtime'', ''observed_at''), (''observeddate'', ''observed_at'')]"

definition knownColumns :: "TableKind \<Rightarrow> string list option" where
  "knownColumns kind =
     (case kind of
        NoKind \<Rightarrow> None
      | KindAccounts \<Rightarrow>
          Some [''account_id'', ''account_name'', ''environment'', ''tenant_id'', ''regions'', ''role_arn'', ''owner'',
                ''description'']
      | KindNetworks \<Rightarrow>
          Some [''cidr'', ''account_id'', ''region'', ''type'', ''resource_id'', ''parent_id'', ''az_id'', ''name'',
                ''environment'', ''state'', ''primary'', ''description'', ''association_id'', ''observed_at'']
      | KindRanges \<Rightarrow> Some [''cidr'', ''start_address'', ''end_address'', ''description'', ''owner'', ''source''])"

definition letter_or_digit :: "char \<Rightarrow> bool" where
  "letter_or_digit c \<longleftrightarrow> isdigit c \<or> 97 \<le> byte_of c \<and> byte_of c \<le> 122 \<or> 65 \<le> byte_of c \<and> byte_of c \<le> 90"

definition normalizeHeaderKey :: "golib \<Rightarrow> string \<Rightarrow> string" where
  "normalizeHeaderKey u s =
     (let l = ToLower u s in if ascii l then filter letter_or_digit l else u_LettersDigits u l)"

text \<open>The resolved columns: the index of a header and its name, for every header that is not blank.\<close>

type_synonym columns = "(nat \<times> string) list"

definition resolved_columns :: "golib \<Rightarrow> string list \<Rightarrow> columns" where
  "resolved_columns u headers =
     concat (map (\<lambda>(i, h).
       let clean = cleanCell h
       in if clean = [] then []
          else [(i, case map_of headerAliases (normalizeHeaderKey u clean) of Some canon \<Rightarrow> canon | None \<Rightarrow> clean)])
       (enumerate 0 headers))"

definition ResolveHeaders :: "golib \<Rightarrow> string list \<Rightarrow> string + TableKind \<times> columns" where
  "ResolveHeaders u headers =
     (let columns = resolved_columns u headers; resolved = (\<lambda>c. c \<in> set (map snd columns))
      in if resolved ''cidr'' \<and> resolved ''account_id'' \<and> resolved ''region'' then Inr (KindNetworks, columns)
         else if resolved ''cidr'' \<and> resolved ''account_id''
         then Inl (''table has cidr and account_id but no region column, so it cannot be read as networks; '' @
                   ''add a region column, or remove account_id to import plain ranges (headers seen: '' @
                   Join headers '', '' @ '')'')
         else if resolved ''cidr'' \<or> resolved ''start_address'' \<and> resolved ''end_address'' then Inr (KindRanges, columns)
         else if resolved ''account_id'' then Inr (KindAccounts, columns)
         else Inl (''could not resolve a required column for accounts (account_id), networks (cidr, account_id, region), '' @
                   ''or ranges (cidr, or start_address and end_address); headers seen: '' @
                   Join (filter (\<lambda>c. c \<noteq> []) (map cleanCell headers)) '', ''))"

section \<open>Values of a row\<close>

definition headerHasColumn :: "columns \<Rightarrow> string \<Rightarrow> bool" where
  "headerHasColumn columns name \<longleftrightarrow> list_ex (\<lambda>(_, c). c = name) columns"

definition allEmpty :: "string list \<Rightarrow> bool" where
  "allEmpty cells \<longleftrightarrow> list_all (\<lambda>c. c = []) cells"

text \<open>Whether one column speaks against a row being the header again.\<close>

definition header_differs :: "golib \<Rightarrow> string list \<Rightarrow> nat \<times> string \<Rightarrow> bool" where
  "header_differs u cells = (\<lambda>(i, name).
     length cells \<le> i \<or>
     cells ! i \<noteq> [] \<and>
       (let key = normalizeHeaderKey u (cells ! i)
        in case map_of headerAliases key of
             Some canon \<Rightarrow> canon \<noteq> name
           | None \<Rightarrow> key \<noteq> normalizeHeaderKey u name))"

definition isRepeatedHeaderRow :: "golib \<Rightarrow> string list \<Rightarrow> columns \<Rightarrow> bool" where
  "isRepeatedHeaderRow u cells columns \<longleftrightarrow>
     \<not> list_ex (header_differs u cells) columns \<and> list_ex (\<lambda>(i, _). cells ! i \<noteq> []) columns"

text \<open>\<open>columnLetter\<close>: the loop prepends a letter per digit of base 26.\<close>

fun column_letters :: "nat \<Rightarrow> string \<Rightarrow> string" where
  "column_letters n letters =
     (if n = 0 then letters else column_letters ((n - 1) div 26) (char_of (65 + (n - 1) mod 26) # letters))"

declare column_letters.simps [simp del]

definition columnLetter :: "nat \<Rightarrow> string" where
  "columnLetter index = column_letters (index + 1) []"

definition split_cell :: "columns \<Rightarrow> string list \<Rightarrow> nat \<times> string \<Rightarrow> string gomap \<times> string list \<Rightarrow> string gomap \<times> string list" where
  "split_cell columns known = (\<lambda>(i, v) (values, extras).
     if v = [] then (values, extras)
     else
       let name = (case map_of columns i of Some name \<Rightarrow> name | None \<Rightarrow> ''column '' @ columnLetter i)
       in if name \<in> set known
          then (mput name (case mget values name of Some existing \<Rightarrow> existing @ ''; '' @ v | None \<Rightarrow> v) values, extras)
          else (values, extras @ [name @ '': '' @ v]))"

definition splitKnown :: "string list \<Rightarrow> columns \<Rightarrow> string list \<Rightarrow> string gomap \<times> string list" where
  "splitKnown cells columns known = fold (split_cell columns known) (enumerate 0 cells) ([], [])"

definition joinDescription :: "string \<Rightarrow> string \<Rightarrow> string list \<Rightarrow> string" where
  "joinDescription explicit decoration extras =
     Join ((if decoration \<noteq> [] then [decoration] else []) @ (if explicit \<noteq> [] then [explicit] else []) @ extras) ''; ''"

definition splitRegions :: "string \<Rightarrow> string list" where
  "splitRegions s =
     fields_acc (\<lambda>t. if t \<noteq> [] \<and> hd t \<in> {CHR '';'', CHR '',''} then 1 else space_front t) [] s"

text \<open>The loop of \<open>splitCIDRList\<close>, with the depth of brackets and the part so far.\<close>

fun split_list :: "nat \<Rightarrow> string \<Rightarrow> string \<Rightarrow> string list" where
  "split_list depth cur [] = [cur]"
| "split_list depth cur (r # s) =
     (if r \<in> {CHR ''('', CHR ''[''} then split_list (Suc depth) (cur @ [r]) s
      else if r \<in> {CHR '')'', CHR '']''} then split_list (depth - 1) (cur @ [r]) s
      else if r \<in> {CHR '','', CHR '';'', CHR 0x0A} \<and> depth = 0 then cur # split_list depth [] s
      else split_list depth (cur @ [r]) s)"

definition splitCIDRList :: "string \<Rightarrow> string list" where
  "splitCIDRList s = filter (\<lambda>p. p \<noteq> []) (map TrimSpace (split_list 0 [] (valid_runes s)))"

definition cleanDecoration :: "string \<Rightarrow> string" where
  "cleanDecoration s = Join (Fields (Trim s ('' '' @ [CHR 0x09, CHR 0x0A] @ ''()[]{}:;,-''))) '' ''"

section \<open>Addresses in cells\<close>

text \<open>\<open>netip.ParseAddr\<close> with the zone of an IPv6 address, which a prefix cannot have.\<close>

definition ParseAddrZone :: "string \<Rightarrow> (Addr \<times> string) option" where
  "ParseAddrZone s =
     (case ParseAddr s of
        Some a \<Rightarrow> Some (a, [])
      | None \<Rightarrow>
          let addr = takeWhile (\<lambda>c. c \<noteq> CHR ''%'') s; zone = tl (dropWhile (\<lambda>c. c \<noteq> CHR ''%'') s)
          in if zone \<noteq> [] then
               (case ParseAddr addr of Some (V6 w) \<Rightarrow> Some (V6 w, zone) | _ \<Rightarrow> None)
             else None)"

definition looksLikeIPv6 :: "string \<Rightarrow> bool" where
  "looksLikeIPv6 s \<longleftrightarrow>
     CHR '':'' \<in> set s \<and>
     (case ParseAddrZone (TrimSpace (before CHR ''/'' s)) of Some (a, _) \<Rightarrow> \<not> Is4 a | None \<Rightarrow> False)"

definition diagnostic :: "Level \<Rightarrow> int \<Rightarrow> string \<Rightarrow> string \<Rightarrow> Diagnostic" where
  "diagnostic level row column message = \<lparr>dg_Level = level, dg_Row = row, dg_Column = column, dg_Message = message\<rparr>"

text \<open>The right side is the CIDR and the decoration, both empty for a blank cell.\<close>

definition processCIDRCell :: "golib \<Rightarrow> int \<Rightarrow> string \<Rightarrow> string \<Rightarrow> Diagnostic + string \<times> string" where
  "processCIDRCell u row column raw =
     (let s = cleanCell raw
      in if s = [] then Inr ([], [])
         else case cidrToken s of
           Some m \<Rightarrow>
             (case ParsePrefix m of
                None \<Rightarrow> Inl (diagnostic LevelError row column (Quote u m @ '' is not a valid CIDR''))
              | Some prefix \<Rightarrow>
                  if \<not> Is4 (ip prefix)
                  then Inl (diagnostic LevelWarning row column
                              (Quote u m @ '' is an IPv6 value; v1 allocates IPv4 only, row skipped''))
                  else if prefix \<noteq> Masked prefix
                  then Inl (diagnostic LevelError row column
                              (Quote u m @ '' is not a canonical CIDR (host bits set); refusing to mask it silently''))
                  else Inr (PrefixString prefix, cleanDecoration (remove_first m s)))
         | None \<Rightarrow>
             if looksLikeIPv6 s
             then Inl (diagnostic LevelWarning row column
                         (Quote u s @ '' is an IPv6 value; v1 allocates IPv4 only, row skipped''))
             else Inl (diagnostic LevelError row column (Quote u s @ '' does not contain a recognizable CIDR'')))"

text \<open>The right side is the pair of addresses, or nothing when the cell is not a range.\<close>

definition processRangeDash :: "golib \<Rightarrow> int \<Rightarrow> string \<Rightarrow> string \<Rightarrow> Diagnostic + (string \<times> string) option" where
  "processRangeDash u row column raw =
     (let s = cleanCell raw
      in case rangeDash [] s of
           None \<Rightarrow> Inr None
         | Some (x, y) \<Rightarrow>
             (case (ParseAddrZone (TrimSpace x), ParseAddrZone (TrimSpace y)) of
                (Some (a, _), Some (b, _)) \<Rightarrow>
                  if \<not> Is4 a \<or> \<not> Is4 b
                  then Inl (diagnostic LevelWarning row column
                              (Quote u s @ '' is an IPv6 range; v1 allocates IPv4 only, row skipped''))
                  else Inr (Some (AddrString a, AddrString b))
              | _ \<Rightarrow> Inr None))"

definition normalizeRangeAddress :: "golib \<Rightarrow> int \<Rightarrow> string \<Rightarrow> string \<Rightarrow> Diagnostic + string" where
  "normalizeRangeAddress u row column raw =
     (let s = cleanCell raw
      in if s = [] then Inl (diagnostic LevelError row column (''range row is missing '' @ column))
         else case ParseAddrZone s of
           None \<Rightarrow> Inl (diagnostic LevelError row column (Quote u s @ '' is not a valid IP address''))
         | Some (addr, _) \<Rightarrow>
             if \<not> Is4 addr
             then Inl (diagnostic LevelWarning row column (Quote u s @ '' is IPv6; v1 allocates IPv4 only, row skipped''))
             else Inr (AddrString addr))"

text \<open>The account identifier and, for a repaired one or a lost one, a diagnostic.\<close>

definition normalizeAccountID :: "golib \<Rightarrow> int \<Rightarrow> string \<Rightarrow> string \<times> Diagnostic option" where
  "normalizeAccountID u row raw =
     (let s = cleanCell raw; stripped = filter (\<lambda>c. c \<noteq> CHR ''-'' \<and> c \<noteq> CHR '' '') s
      in if s = [] then ([], None)
         else if scientificNotation stripped
         then ([], Some (diagnostic LevelError row ''account_id''
                 (''account id '' @ Quote u s @ '' is in scientific notation; the original digits are lost'')))
         else if all_digits stripped \<and> length stripped < 12
         then
           let padded = replicate (12 - length stripped) CHR ''0'' @ stripped
           in (padded, Some (diagnostic LevelWarning row ''account_id''
                 (''account id '' @ Quote u s @ '' has fewer than 12 digits; left-padded to '' @ Quote u padded)))
         else (stripped, None))"

section \<open>Rows\<close>

text \<open>
  The account identifier of a row: the diagnostics so far and, unless the identifier is lost, its repaired
  form. An absent cell stays empty.
\<close>

definition account_cell :: "golib \<Rightarrow> int \<Rightarrow> string \<Rightarrow> string option \<times> Diagnostic list" where
  "account_cell u row accountID =
     (if accountID = [] then (Some [], [])
      else case normalizeAccountID u row accountID of
        (padded, None) \<Rightarrow> (Some padded, [])
      | (padded, Some diag) \<Rightarrow> (if dg_Level diag = LevelError then None else Some padded, [diag]))"

definition buildAccountRow ::
    "golib \<Rightarrow> int \<Rightarrow> string list \<Rightarrow> columns \<Rightarrow> string list \<Rightarrow> AccountRow option \<times> Diagnostic list" where
  "buildAccountRow u row cells columns known =
     (let (values, extras) = splitKnown cells columns known; val = mget0 [] values
      in case account_cell u row (val ''account_id'') of
           (None, diags) \<Rightarrow> (None, diags)
         | (Some accountID, diags) \<Rightarrow>
             (Some \<lparr>ar_SourceRow = row, ar_AccountID = accountID, ar_AccountName = val ''account_name'',
                ar_Environment = val ''environment'', ar_TenantID = val ''tenant_id'',
                ar_Regions = splitRegions (val ''regions''), ar_RoleARN = val ''role_arn'', ar_Owner = val ''owner'',
                ar_Description = joinDescription (val ''description'') [] extras\<rparr>, diags))"

definition network_row ::
    "golib \<Rightarrow> int \<Rightarrow> string gomap \<Rightarrow> string list \<Rightarrow> bool \<Rightarrow> bool \<Rightarrow> string \<Rightarrow> string \<Rightarrow> string \<Rightarrow> NetworkRow" where
  "network_row u row values extras assocPresent observedPresent accountID cidr decoration =
     (let val = mget0 [] values
      in \<lparr>nr_SourceRow = row, nr_CIDR = cidr, nr_AccountID = accountID, nr_Region = val ''region'',
          nr_Type = val ''type'', nr_ResourceID = val ''resource_id'', nr_ParentID = val ''parent_id'',
          nr_AZID = val ''az_id'', nr_Name = val ''name'', nr_Environment = val ''environment'',
          nr_State = val ''state'', nr_Primary = val ''primary'',
          nr_Description = joinDescription (val ''description'') decoration extras,
          nr_AssociationID = val ''association_id'', nr_ObservedAt = val ''observed_at'',
          nr_ObservedAtParsed =
            (if val ''observed_at'' \<noteq> []
             then (case u_ParseRFC3339 u (val ''observed_at'') of Some t \<Rightarrow> t | None \<Rightarrow> 0) else 0),
          nr_SourceFile = [], nr_AssociationIDColumnPresent = assocPresent,
          nr_ObservedAtColumnPresent = observedPresent\<rparr>)"

definition network_part ::
    "golib \<Rightarrow> int \<Rightarrow> string gomap \<Rightarrow> string list \<Rightarrow> bool \<Rightarrow> bool \<Rightarrow> string \<Rightarrow> string \<Rightarrow> Diagnostic + NetworkRow option" where
  "network_part u row values extras assocPresent observedPresent accountID part =
     (case processCIDRCell u row ''cidr'' part of
        Inl diag \<Rightarrow> Inl diag
      | Inr (cidr, decoration) \<Rightarrow>
          Inr (if cidr = [] then None
               else Some (network_row u row values extras assocPresent observedPresent accountID cidr decoration)))"

text \<open>The rows and diagnostics of the parts of one cell, in order.\<close>

fun parts_loop :: "(string \<Rightarrow> Diagnostic + 'a option) \<Rightarrow> string list \<Rightarrow> 'a list \<times> Diagnostic list" where
  "parts_loop f [] = ([], [])"
| "parts_loop f (p # ps) =
     (let (out, diags) = parts_loop f ps
      in case f p of
           Inl diag \<Rightarrow> (out, diag # diags)
         | Inr None \<Rightarrow> (out, diags)
         | Inr (Some r) \<Rightarrow> (r # out, diags))"

definition buildNetworkRows ::
    "golib \<Rightarrow> int \<Rightarrow> string list \<Rightarrow> columns \<Rightarrow> string list \<Rightarrow> bool \<Rightarrow> bool \<Rightarrow> NetworkRow list \<times> Diagnostic list" where
  "buildNetworkRows u row cells columns known assocPresent observedPresent =
     (let (values, extras) = splitKnown cells columns known; val = mget0 [] values
      in if val ''cidr'' = [] then ([], [diagnostic LevelError row ''cidr'' ''networks row has no cidr value''])
         else case account_cell u row (val ''account_id'') of
           (None, diags) \<Rightarrow> ([], diags)
         | (Some accountID, diags) \<Rightarrow>
             let loop = parts_loop (network_part u row values extras assocPresent observedPresent accountID)
                   (splitCIDRList (val ''cidr''))
             in (fst loop, diags @ snd loop))"

definition range_row :: "int \<Rightarrow> string \<Rightarrow> string \<Rightarrow> string \<Rightarrow> string \<Rightarrow> string \<Rightarrow> string \<Rightarrow> RangeRow" where
  "range_row row cidr start stop description owner source =
     \<lparr>rg_SourceRow = row, rg_CIDR = cidr, rg_StartAddress = start, rg_EndAddress = stop,
      rg_Description = description, rg_Owner = owner, rg_Source = source\<rparr>"

definition rangeTokenToRow ::
    "golib \<Rightarrow> int \<Rightarrow> string \<Rightarrow> string \<Rightarrow> string \<Rightarrow> string \<Rightarrow> string list \<Rightarrow> Diagnostic + RangeRow option" where
  "rangeTokenToRow u row token desc owner source extras =
     (case processRangeDash u row ''cidr'' token of
        Inl diag \<Rightarrow> Inl diag
      | Inr (Some (start, stop)) \<Rightarrow> Inr (Some (range_row row [] start stop (joinDescription desc [] extras) owner source))
      | Inr None \<Rightarrow>
          (case processCIDRCell u row ''cidr'' token of
             Inl diag \<Rightarrow> Inl diag
           | Inr (cidr, decoration) \<Rightarrow>
               Inr (if cidr = [] then None
                    else Some (range_row row cidr [] [] (joinDescription desc decoration extras) owner source))))"

definition buildRangeRows ::
    "golib \<Rightarrow> int \<Rightarrow> string list \<Rightarrow> columns \<Rightarrow> string list \<Rightarrow> RangeRow list \<times> Diagnostic list" where
  "buildRangeRows u row cells columns known =
     (let (values, extras) = splitKnown cells columns known; val = mget0 [] values
      in if val ''start_address'' \<noteq> [] \<or> val ''end_address'' \<noteq> []
         then
           (case (normalizeRangeAddress u row ''start_address'' (val ''start_address''),
                  normalizeRangeAddress u row ''end_address'' (val ''end_address'')) of
              (Inr s, Inr e) \<Rightarrow>
                ([range_row row [] s e (joinDescription (val ''description'') [] extras) (val ''owner'') (val ''source'')], [])
            | (Inl d, Inr _) \<Rightarrow> ([], [d])
            | (Inr _, Inl d) \<Rightarrow> ([], [d])
            | (Inl d, Inl d') \<Rightarrow> ([], [d, d']))
         else if val ''cidr'' = []
         then ([], [diagnostic LevelError row ''cidr'' ''ranges row has neither cidr nor start/end address''])
         else parts_loop (\<lambda>part.
                rangeTokenToRow u row part (val ''description'') (val ''owner'') (val ''source'') extras)
              (splitCIDRList (val ''cidr'')))"

text \<open>One pass of the loop of \<open>Normalize\<close>.\<close>

definition normalize_row ::
    "golib \<Rightarrow> columns \<Rightarrow> string list \<Rightarrow> nat \<times> string list \<Rightarrow> Table \<Rightarrow> Table" where
  "normalize_row u columns known = (\<lambda>(i, raw) table.
     let sourceRow = int i + 1; cells = map cleanCell raw
     in if allEmpty cells \<or> isRepeatedHeaderRow u cells columns then table
        else case tb_Kind table of
          NoKind \<Rightarrow> table
        | KindAccounts \<Rightarrow>
            (let (row, diags) = buildAccountRow u sourceRow cells columns known
             in table\<lparr>tb_Diagnostics := tb_Diagnostics table @ diags,
                  tb_Accounts := tb_Accounts table @ (case row of None \<Rightarrow> [] | Some r \<Rightarrow> [r])\<rparr>)
        | KindNetworks \<Rightarrow>
            (let (rows, diags) = buildNetworkRows u sourceRow cells columns known
                   (headerHasColumn columns ''association_id'') (headerHasColumn columns ''observed_at'')
             in table\<lparr>tb_Diagnostics := tb_Diagnostics table @ diags, tb_Networks := tb_Networks table @ rows\<rparr>)
        | KindRanges \<Rightarrow>
            (let (rows, diags) = buildRangeRows u sourceRow cells columns known
             in table\<lparr>tb_Diagnostics := tb_Diagnostics table @ diags, tb_Ranges := tb_Ranges table @ rows\<rparr>))"

definition empty_table :: "TableKind \<Rightarrow> Table" where
  "empty_table kind = \<lparr>tb_Kind = kind, tb_Accounts = [], tb_Networks = [], tb_Ranges = [], tb_Diagnostics = []\<rparr>"

text \<open>The text of the kind is only printed when it is unknown, where it is the empty string.\<close>

definition Normalize :: "golib \<Rightarrow> TableKind \<Rightarrow> columns \<Rightarrow> string list list \<Rightarrow> Table" where
  "Normalize u kind columns rows =
     (case knownColumns kind of
        None \<Rightarrow> (empty_table kind)\<lparr>tb_Diagnostics := [diagnostic LevelError 0 [] (''unknown table kind '' @ Quote u [])]\<rparr>
      | Some known \<Rightarrow> fold (normalize_row u columns known) (enumerate 0 rows) (empty_table kind))"

section \<open>Text tables\<close>

definition shiftRows :: "Table \<Rightarrow> int \<Rightarrow> Table" where
  "shiftRows t offset =
     t\<lparr>tb_Diagnostics := map (\<lambda>d. if dg_Row d > 0 then d\<lparr>dg_Row := dg_Row d + offset\<rparr> else d) (tb_Diagnostics t),
       tb_Accounts := map (\<lambda>r. r\<lparr>ar_SourceRow := ar_SourceRow r + offset\<rparr>) (tb_Accounts t),
       tb_Networks := map (\<lambda>r. r\<lparr>nr_SourceRow := nr_SourceRow r + offset\<rparr>) (tb_Networks t),
       tb_Ranges := map (\<lambda>r. r\<lparr>rg_SourceRow := rg_SourceRow r + offset\<rparr>) (tb_Ranges t)\<rparr>"

fun lines :: "string \<Rightarrow> string \<Rightarrow> string list" where
  "lines cur [] = [cur]"
| "lines cur (c # cs) = (if c = CHR 0x0A then cur # lines [] cs else lines (cur @ [c]) cs)"

definition firstNonBlankLine :: "string \<Rightarrow> string" where
  "firstNonBlankLine text =
     (case find (\<lambda>line. TrimSpace line \<noteq> []) (map (\<lambda>line. rev (dropWhile (\<lambda>c. c = CHR 0x0D) (rev line))) (lines [] text)) of
        Some line \<Rightarrow> line
      | None \<Rightarrow> [])"

definition detectDelimiter :: "string \<Rightarrow> string \<Rightarrow> char" where
  "detectDelimiter ext headerLine =
     (let tabs = count_list headerLine (CHR 0x09); commas = count_list headerLine (CHR '','');
          semis = count_list headerLine (CHR '';'')
      in if ext = ''.csv'' then (if semis > commas then CHR '';'' else CHR '','')
         else if ext = ''.tsv'' \<or> ext = ''.txt'' then CHR 0x09
         else if tabs > commas \<and> tabs > semis then CHR 0x09
         else if semis > commas then CHR '';'' else CHR '','')"

definition isBlankRecord :: "string list \<Rightarrow> bool" where
  "isBlankRecord r \<longleftrightarrow> list_all (\<lambda>f. TrimSpace f = []) r"

text \<open>\<open>filepath.Ext\<close>: from the last dot after the last slash.\<close>

definition Ext :: "string \<Rightarrow> string" where
  "Ext name =
     (let base = rev (takeWhile (\<lambda>c. c \<noteq> CHR ''/'') (rev name)); tail = takeWhile (\<lambda>c. c \<noteq> CHR ''.'') (rev base)
      in if CHR ''.'' \<in> set base then CHR ''.'' # rev tail else [])"

text \<open>\<open>ReadText\<close> on the bytes read; a read error is not the table's.\<close>

definition ReadText :: "golib \<Rightarrow> string \<Rightarrow> string \<Rightarrow> string + Table" where
  "ReadText u name data =
     (let text = (if HasPrefix data bom then drop 3 data else data);
          delim = detectDelimiter (ToLower u (Ext name)) (firstNonBlankLine text)
      in case u_ReadCSV u delim text of
           Inl err \<Rightarrow> Inl (name @ '': '' @ err)
         | Inr records \<Rightarrow>
             let idx = length (takeWhile isBlankRecord records)
             in (case drop idx records of
                   [] \<Rightarrow> Inl (name @ '': no header row found (file is empty or every row is blank)'')
                 | headers # dataRows \<Rightarrow>
                     (case ResolveHeaders u headers of
                        Inl err \<Rightarrow> Inl (name @ '': '' @ err)
                      | Inr (kind, columns) \<Rightarrow> Inr (shiftRows (Normalize u kind columns dataRows) (int idx + 1)))))"

end
