(* ===== verification/OnboardFacts.thy ===== *)
theory OnboardFacts
  imports OnboardPlan
begin

text \<open>
  What the planning loops compute. Both of them, for prefixes and for address ranges, first group the rows
  of a table by what they resolve to; the locale states that pattern once. The classification of a group is
  then characterised by the address space it covers.
\<close>

section \<open>Grouping rows\<close>

locale row_groups =
  fixes step :: "'row \<Rightarrow> 'f list \<times> 'g gomap \<times> string list \<Rightarrow> 'f list \<times> 'g gomap \<times> string list"
    and classify :: "'row \<Rightarrow> 'i option"
    and label :: "'i \<Rightarrow> string"
    and number :: "'row \<Rightarrow> int"
    and item :: "'g \<Rightarrow> 'i"
    and rows :: "'g \<Rightarrow> int list"
  assumes rejected: "classify r = None \<Longrightarrow> \<exists>f. \<forall>fs gs os. step r (fs, gs, os) = (fs @ [f], gs, os)"
    and fresh: "classify r = Some i \<Longrightarrow> mget gs (label i) = None \<Longrightarrow>
      \<exists>g. item g = i \<and> rows g = [number r] \<and> step r (fs, gs, os) = (fs, mput (label i) g gs, os @ [label i])"
    and again: "classify r = Some i \<Longrightarrow> mget gs (label i) = Some g \<Longrightarrow>
      \<exists>g'. item g' = item g \<and> rows g' = rows g @ [number r] \<and> step r (fs, gs, os) = (fs, mput (label i) g' gs, os)"
    and label_inj: "classify r = Some i \<Longrightarrow> classify r' = Some i' \<Longrightarrow> label i = label i' \<Longrightarrow> i = i'"
begin

text \<open>The state after a number of rows: every item once, with the rows that resolve to it in order.\<close>

definition grouped :: "'row list \<Rightarrow> 'f list \<times> 'g gomap \<times> string list \<Rightarrow> bool" where
  "grouped rs = (\<lambda>(fs, gs, os).
     distinct os \<and> set os = {label i |i. \<exists>r \<in> set rs. classify r = Some i} \<and>
     (\<forall>key. key \<notin> set os \<longrightarrow> mget gs key = None) \<and>
     (\<forall>r i. r \<in> set rs \<longrightarrow> classify r = Some i \<longrightarrow>
        (\<exists>g. mget gs (label i) = Some g \<and> item g = i \<and>
             rows g = map number (filter (\<lambda>r. classify r = Some i) rs))))"

lemma grouped_put:
  assumes old: "grouped rs (fs, gs, os)" and r: "classify r = Some i"
    and g: "item g = i" "rows g = map number (filter (\<lambda>r. classify r = Some i) (rs @ [r]))"
    and os': "distinct os'" "set os' = insert (label i) (set os)"
  shows "grouped (rs @ [r]) (fs', mput (label i) g gs, os')"
proof -
  have "set os' = {label j |j. \<exists>r' \<in> set (rs @ [r]). classify r' = Some j}"
    using old r os'(2) by (auto simp: grouped_def)
  moreover have "mget (mput (label i) g gs) key = None" if "key \<notin> set os'" for key
    using old that os'(2) by (auto simp: grouped_def)
  moreover have "\<exists>g'. mget (mput (label i) g gs) (label j) = Some g' \<and> item g' = j \<and>
      rows g' = map number (filter (\<lambda>r. classify r = Some j) (rs @ [r]))"
    if r': "r' \<in> set (rs @ [r])" "classify r' = Some j" for r' j
  proof (cases "j = i")
    case True
    then show ?thesis using g by simp
  next
    case False
    then have "label j \<noteq> label i" "r' \<in> set rs" "classify r \<noteq> Some j" using label_inj [OF r'(2) r] r r' by auto
    then show ?thesis using old r'(2) by (simp add: grouped_def)
  qed
  ultimately show ?thesis using os'(1) unfolding grouped_def by blast
qed

lemma grouped_step:
  assumes "grouped rs (fs, gs, os)"
  shows "grouped (rs @ [r]) (step r (fs, gs, os))"
proof (cases "classify r")
  case None
  then obtain f where "step r (fs, gs, os) = (fs @ [f], gs, os)" using rejected by blast
  then show ?thesis using assms None by (auto simp: grouped_def)
next
  case (Some i)
  have rows_of: "\<exists>g. mget gs (label i) = Some g \<and> item g = i \<and> rows g = map number (filter (\<lambda>r. classify r = Some i) rs)"
    if "r' \<in> set rs" "classify r' = Some i" for r'
    using assms that by (simp add: grouped_def)
  have known: "mget gs (label i) \<noteq> None \<longleftrightarrow> label i \<in> set os"
    using assms label_inj [OF _ Some] by (fastforce simp: grouped_def)
  show ?thesis
  proof (cases "mget gs (label i)")
    case None
    moreover have "filter (\<lambda>r. classify r = Some i) rs = []"
      using rows_of None by (fastforce simp: filter_empty_conv)
    moreover obtain g where "item g = i" "rows g = [number r]" "step r (fs, gs, os) = (fs, mput (label i) g gs, os @ [label i])"
      using fresh [OF Some None] by blast
    ultimately show ?thesis using grouped_put [OF assms Some, of g "os @ [label i]"] assms known Some
      by (simp add: grouped_def [of rs])
  next
    case g: (Some g)
    then obtain r' where r': "r' \<in> set rs" "classify r' = Some i"
      using known assms label_inj [OF _ Some] by (fastforce simp: grouped_def)
    then have "item g = i" "rows g = map number (filter (\<lambda>r. classify r = Some i) rs)" using rows_of [OF r'] g by auto
    moreover obtain g' where "item g' = item g" "rows g' = rows g @ [number r]"
        "step r (fs, gs, os) = (fs, mput (label i) g' gs, os)"
      using again [OF Some g] by blast
    ultimately show ?thesis using grouped_put [OF assms Some, of g' os] assms known Some g
      by (auto simp: grouped_def [of rs])
  qed
qed

lemma grouped_fold: "grouped rs (fold step rs ([], [], []))"
proof (induction rs rule: rev_induct)
  case Nil
  then show ?case by (simp add: grouped_def)
next
  case (snoc r rs)
  then show ?case by (cases "fold step rs ([], [], [])") (use grouped_step in auto)
qed

lemma step_findings: "fst (step r (fs, gs, os)) = fs @ (if classify r = None then fst (step r ([], [], [])) else [])"
proof (cases "classify r")
  case None
  then obtain f where "\<And>fs gs os. step r (fs, gs, os) = (fs @ [f], gs, os)" using rejected by blast
  then show ?thesis using None by simp
next
  case (Some i)
  have "fst (step r (fs, gs, os)) = fs"
    using fresh [OF Some, of gs fs os] again [OF Some, of gs _ fs os] by (cases "mget gs (label i)") force+
  then show ?thesis using Some by simp
qed

lemma fold_findings:
  "fst (fold step rs ([], [], [])) = concat (map (\<lambda>r. fst (step r ([], [], []))) (filter (\<lambda>r. classify r = None) rs))"
proof (induction rs rule: rev_induct)
  case (snoc r rs)
  obtain fs gs os where "fold step rs ([], [], []) = (fs, gs, os)" by (cases "fold step rs ([], [], [])")
  then show ?case using snoc step_findings [of r fs gs os] by simp
qed simp

end

definition range_pair :: "RangeRow \<Rightarrow> (Addr \<times> Addr) option" where
  "range_pair r =
     (case (ParseAddr (rg_StartAddress r), ParseAddr (rg_EndAddress r)) of
        (Some a, Some b) \<Rightarrow> if Is4 a \<and> Is4 b \<and> addr_nat a \<le> addr_nat b then Some (a, b) else None
      | _ \<Rightarrow> None)"

lemma canonical4_Some:
  "canonical4 raw = Some p \<longleftrightarrow> ParsePrefix raw = Some p \<and> Is4 (ip p) \<and> Masked p = p"
  by (auto simp: canonical4_def split: option.splits)

lemma canonical4_valid: "canonical4 raw = Some p \<Longrightarrow> valid_prefix p"
  by (auto simp: canonical4_Some intro: ParsePrefix_valid)

lemma canonical4_label: "canonical4 raw = Some p \<Longrightarrow> ParsePrefix (PrefixString p) = Some p"
  using canonical4_valid [of raw p] by (simp add: ParsePrefix_PrefixString4 canonical4_Some)

lemma range_label_parts:
  assumes "Is4 a" "Is4 b"
  shows "ParseAddr (takeWhile (\<lambda>c. c \<noteq> CHR ''-'') (range_label a b)) = Some a"
    and "ParseAddr (tl (dropWhile (\<lambda>c. c \<noteq> CHR ''-'') (range_label a b))) = Some b"
proof -
  obtain v w where vw: "a = V4 v" "b = V4 w" using assms by (auto simp: Is4_V4)
  have "\<forall>c \<in> set (string4 v). c \<noteq> CHR ''-''"
    using dec_no [of "CHR ''-''"] by (auto simp: string4_def isdigit_def)
  then have "takeWhile (\<lambda>c. c \<noteq> CHR ''-'') (range_label a b) = string4 v"
      "tl (dropWhile (\<lambda>c. c \<noteq> CHR ''-'') (range_label a b)) = string4 w"
    using vw by (simp_all add: range_label_def AddrString_def takeWhile_append2 dropWhile_append2)
  then show "ParseAddr (takeWhile (\<lambda>c. c \<noteq> CHR ''-'') (range_label a b)) = Some a"
    and "ParseAddr (tl (dropWhile (\<lambda>c. c \<noteq> CHR ''-'') (range_label a b))) = Some b"
    using vw by (simp_all add: ParseAddr_string4)
qed

lemma range_pair_Some:
  "range_pair r = Some (a, b) \<longleftrightarrow>
   ParseAddr (rg_StartAddress r) = Some a \<and> ParseAddr (rg_EndAddress r) = Some b \<and> Is4 a \<and> Is4 b \<and> addr_nat a \<le> addr_nat b"
  by (auto simp: range_pair_def split: option.splits)

lemma group_range_rejects:
  assumes "range_pair r = None"
  shows "\<exists>msg. \<forall>fs gs os.
    group_range r (fs, gs, os) = (fs @ [finding LevelError ''invalid-cidr'' [rg_SourceRow r] [] msg], gs, os)"
proof (cases "\<exists>a b. ParseAddr (rg_StartAddress r) = Some a \<and> ParseAddr (rg_EndAddress r) = Some b \<and> Is4 a \<and> Is4 b")
  case True
  then obtain a b where ab: "ParseAddr (rg_StartAddress r) = Some a" "ParseAddr (rg_EndAddress r) = Some b" "Is4 a" "Is4 b" by blast
  then have "Compare a b > 0" using assms Compare_le [of a b] by (auto simp: range_pair_def Is4_V4 BitLen_def)
  then show ?thesis using ab by (auto simp: group_range_def Let_def)
next
  case False
  then show ?thesis
    by (intro exI [of _ "''range '' @ rg_StartAddress r @ ''-'' @ rg_EndAddress r @ '' is not a valid IPv4 address pair''"])
      (auto simp: group_range_def Let_def split: option.splits)
qed

interpretation pg: row_groups "group_candidate u" "\<lambda>c. canonical4 (cd_raw c)" PrefixString cd_sourceRow pg_cidr pg_rows
  for u
proof
  show "i = i'" if "canonical4 (cd_raw r) = Some i" "canonical4 (cd_raw r') = Some i'" "PrefixString i = PrefixString i'" for r i r' i'
    using that canonical4_label by (metis option.inject)
  fix r i fs and gs :: "prefixGroup gomap" and os
  show "\<exists>f. \<forall>fs gs os. group_candidate u r (fs, gs, os) = (fs @ [f], gs, os)" if "canonical4 (cd_raw r) = None"
    using that by (simp add: group_candidate_def Let_def)
  show "\<exists>g. pg_cidr g = i \<and> pg_rows g = [cd_sourceRow r] \<and>
      group_candidate u r (fs, gs, os) = (fs, mput (PrefixString i) g gs, os @ [PrefixString i])"
    if "canonical4 (cd_raw r) = Some i" "mget gs (PrefixString i) = None"
    using that by (intro exI [of _ "\<lparr>pg_cidr = i, pg_rows = [cd_sourceRow r]\<rparr>"]) (simp add: group_candidate_def Let_def)
  show "\<exists>g'. pg_cidr g' = pg_cidr g \<and> pg_rows g' = pg_rows g @ [cd_sourceRow r] \<and>
      group_candidate u r (fs, gs, os) = (fs, mput (PrefixString i) g' gs, os)"
    if "canonical4 (cd_raw r) = Some i" "mget gs (PrefixString i) = Some g" for g
    using that by (intro exI [of _ "g\<lparr>pg_rows := pg_rows g @ [cd_sourceRow r]\<rparr>"]) (simp add: group_candidate_def Let_def)
qed

interpretation rg: row_groups group_range range_pair "\<lambda>(a, b). range_label a b" rg_SourceRow
    "\<lambda>g. (rq_start g, rq_end g)" rq_rows
proof
  fix r :: RangeRow and i :: "Addr \<times> Addr" and gs :: "rangeGroup gomap" and fs os
  show "\<exists>f. \<forall>fs gs os. group_range r (fs, gs, os) = (fs @ [f], gs, os)" if "range_pair r = None"
    using group_range_rejects [OF that] by blast
  obtain a b where i: "i = (a, b)" by (cases i)
  have ok: "Compare a b \<le> 0" if "range_pair r = Some i" 
    using that i Compare_le [of a b] by (auto simp: range_pair_Some Is4_V4 BitLen_def)
  show "\<exists>g. (rq_start g, rq_end g) = i \<and> rq_rows g = [rg_SourceRow r] \<and>
      group_range r (fs, gs, os) = (fs, mput (case i of (a, b) \<Rightarrow> range_label a b) g gs, os @ [case i of (a, b) \<Rightarrow> range_label a b])"
    if "range_pair r = Some i" "mget gs (case i of (a, b) \<Rightarrow> range_label a b) = None"
    using that ok [OF that(1)] i
    by (intro exI [of _ "\<lparr>rq_start = a, rq_end = b, rq_rows = [rg_SourceRow r]\<rparr>"])
      (auto simp: range_pair_Some group_range_def Let_def)
  show "\<exists>g'. (rq_start g', rq_end g') = (rq_start g, rq_end g) \<and> rq_rows g' = rq_rows g @ [rg_SourceRow r] \<and>
      group_range r (fs, gs, os) = (fs, mput (case i of (a, b) \<Rightarrow> range_label a b) g' gs, os)"
    if "range_pair r = Some i" "mget gs (case i of (a, b) \<Rightarrow> range_label a b) = Some g" for g
    using that ok [OF that(1)] i
    by (intro exI [of _ "g\<lparr>rq_rows := rq_rows g @ [rg_SourceRow r]\<rparr>"]) (auto simp: range_pair_Some group_range_def Let_def)
  show "i = i'" if "range_pair r = Some i" "range_pair r' = Some i'"
      "(case i of (a, b) \<Rightarrow> range_label a b) = (case i' of (a, b) \<Rightarrow> range_label a b)" for r' i'
    using that i range_label_parts by (cases i') (auto simp: range_pair_Some, (metis option.inject)+)
qed

section \<open>Which groups are written\<close>

definition importable :: "Pool list \<Rightarrow> InventorySnapshot \<Rightarrow> Prefix \<Rightarrow> bool" where
  "importable pools snap p \<longleftrightarrow>
     exactPool p pools = None \<and> ancestorOfPool p pools = None \<and> overlapsManaged p snap = None \<and>
     alreadyUnmanaged p snap = None"

definition prefix_write :: "candidate list \<Rightarrow> Prefix \<Rightarrow> WriteEntry" where
  "prefix_write cands p =
     \<lparr>we_Kind = WritePrefix, we_CIDR = PrefixString p, we_StartAddress = [], we_EndAddress = [],
      we_SourceRows = sort (map cd_sourceRow (filter (\<lambda>c. canonical4 (cd_raw c) = Some p) cands))\<rparr>"

text \<open>What explains that a row is not written: an error, or that the inventory holds it already.\<close>

definition explains :: "int \<Rightarrow> PlanFinding \<Rightarrow> bool" where
  "explains row f \<longleftrightarrow> row \<in> set (pf_Rows f) \<and> (pf_Level f = LevelError \<or> pf_Rule f = ''already-unmanaged'')"

lemma finding_sel [simp]:
  "pf_Level (finding l r rs c m) = l" "pf_Rule (finding l r rs c m) = r" "pf_Rows (finding l r rs c m) = rs"
  "pf_CIDR (finding l r rs c m) = c"
  by (simp_all add: finding_def)

lemma plan_group_writes:
  "fst (plan_group u pools snap nrs g) =
    (if importable pools snap (pg_cidr g)
     then [\<lparr>we_Kind = WritePrefix, we_CIDR = PrefixString (pg_cidr g), we_StartAddress = [], we_EndAddress = [],
            we_SourceRows = sort (pg_rows g)\<rparr>]
     else [])"
  by (simp add: plan_group_def importable_def Let_def split: option.split)

lemma plan_group_explains:
  assumes "\<not> importable pools snap (pg_cidr g)" "row \<in> set (pg_rows g)"
  shows "\<exists>f \<in> set (snd (plan_group u pools snap nrs g)). explains row f"
  using assms by (auto simp: plan_group_def importable_def explains_def Let_def split: option.split)

lemma group_of:
  assumes loop: "fold (group_candidate u) cands ([], [], []) = (fs, gs, os)"
    and c: "c \<in> set cands" "canonical4 (cd_raw c) = Some p"
  shows "PrefixString p \<in> set os \<and> pg_cidr (mget0 zero_prefixGroup gs (PrefixString p)) = p \<and>
    pg_rows (mget0 zero_prefixGroup gs (PrefixString p)) =
      map cd_sourceRow (filter (\<lambda>c. canonical4 (cd_raw c) = Some p) cands)"
proof -
  have "\<exists>g. mget gs (PrefixString p) = Some g \<and> pg_cidr g = p \<and>
      pg_rows g = map cd_sourceRow (filter (\<lambda>c. canonical4 (cd_raw c) = Some p) cands)"
    using pg.grouped_fold [of cands u] c by (simp add: loop pg.grouped_def)
  moreover have "PrefixString p \<in> set os"
    using pg.grouped_fold [of cands u] c by (auto simp: loop pg.grouped_def)
  ultimately show ?thesis by (auto simp: mget0_def)
qed

lemma group_key:
  assumes "fold (group_candidate u) cands ([], [], []) = (fs, gs, os)" "key \<in> set os"
  obtains c p where "c \<in> set cands" "canonical4 (cd_raw c) = Some p" "key = PrefixString p"
  using pg.grouped_fold [of cands u] assms by (auto simp: pg.grouped_def)

lemma planPrefix_writes:
  "set (fst (planPrefixCandidates u cands pools snap nrs)) =
    {prefix_write cands p |p. importable pools snap p \<and> (\<exists>c \<in> set cands. canonical4 (cd_raw c) = Some p)}" (is "?W = ?S")
proof -
  obtain fs gs os where loop: "fold (group_candidate u) cands ([], [], []) = (fs, gs, os)"
    by (cases "fold (group_candidate u) cands ([], [], [])")
  let ?g = "mget0 zero_prefixGroup gs"
  have W: "?W = (\<Union>key \<in> set os. set (fst (plan_group u pools snap nrs (?g key))))"
    by (simp add: planPrefixCandidates_def loop)
  have one: "set (fst (plan_group u pools snap nrs (?g (PrefixString p)))) = (if importable pools snap p then {prefix_write cands p} else {})"
    if "c \<in> set cands" "canonical4 (cd_raw c) = Some p" for c p
    using group_of [OF loop that] by (simp add: plan_group_writes prefix_write_def)
  show ?thesis
  proof (intro equalityI subsetI)
    fix w assume "w \<in> ?W"
    then obtain key where key: "key \<in> set os" "w \<in> set (fst (plan_group u pools snap nrs (?g key)))" using W by auto
    obtain c p where "c \<in> set cands" "canonical4 (cd_raw c) = Some p" "key = PrefixString p" using group_key [OF loop key(1)] .
    then show "w \<in> ?S" using one key(2) by (fastforce split: if_splits)
  next
    fix w assume "w \<in> ?S"
    then obtain c p where "importable pools snap p" "c \<in> set cands" "canonical4 (cd_raw c) = Some p" "w = prefix_write cands p" by blast
    then show "w \<in> ?W" using one group_of [OF loop] W by fastforce
  qed
qed

lemma planPrefix_distinct: "distinct (map we_CIDR (fst (planPrefixCandidates u cands pools snap nrs)))"
proof -
  obtain fs gs os where loop: "fold (group_candidate u) cands ([], [], []) = (fs, gs, os)"
    by (cases "fold (group_candidate u) cands ([], [], [])")
  let ?g = "mget0 zero_prefixGroup gs"
  have cidr: "PrefixString (pg_cidr (?g key)) = key" if "key \<in> set os" for key
    using group_key [OF loop that] group_of [OF loop] by metis
  have "map we_CIDR (fst (planPrefixCandidates u cands pools snap nrs)) = filter (\<lambda>key. importable pools snap (pg_cidr (?g key))) ks"
    if "set ks \<subseteq> set os" "ks = os" for ks
  proof -
    have "map we_CIDR (concat (map (\<lambda>key. fst (plan_group u pools snap nrs (?g key))) ks)) =
        filter (\<lambda>key. importable pools snap (pg_cidr (?g key))) ks"
      using that(1) by (induction ks) (auto simp: plan_group_writes cidr)
    then show ?thesis by (simp add: planPrefixCandidates_def loop that(2) comp_def)
  qed
  moreover have "distinct os" using pg.grouped_fold [of cands u] by (simp add: loop pg.grouped_def)
  ultimately show ?thesis by simp
qed

lemma planPrefix_explains:
  assumes c: "c \<in> set cands" "\<nexists>p. canonical4 (cd_raw c) = Some p \<and> importable pools snap p"
  shows "\<exists>f \<in> set (snd (planPrefixCandidates u cands pools snap nrs)). explains (cd_sourceRow c) f"
proof -
  obtain fs gs os where loop: "fold (group_candidate u) cands ([], [], []) = (fs, gs, os)"
    by (cases "fold (group_candidate u) cands ([], [], [])")
  let ?g = "mget0 zero_prefixGroup gs"
  have F: "set (snd (planPrefixCandidates u cands pools snap nrs)) =
      set fs \<union> (\<Union>key \<in> set os. set (snd (plan_group u pools snap nrs (?g key))))"
    by (simp add: planPrefixCandidates_def loop)
  show ?thesis
  proof (cases "canonical4 (cd_raw c)")
    case None
    then obtain f where f: "set (fst (group_candidate u c ([], [], []))) = {f}" "explains (cd_sourceRow c) f"
      by (auto simp: group_candidate_def explains_def)
    then have "f \<in> set fs" using pg.fold_findings [of u cands] c(1) None by (auto simp: loop)
    then show ?thesis using F f(2) by blast
  next
    case (Some p)
    have "\<exists>f \<in> set (snd (plan_group u pools snap nrs (?g (PrefixString p)))). explains (cd_sourceRow c) f"
      using group_of [OF loop c(1) Some] c Some by (intro plan_group_explains) auto
    then show ?thesis using F group_of [OF loop c(1) Some] by blast
  qed
qed

section \<open>The space a write covers\<close>

definition between :: "Addr \<Rightarrow> Addr \<Rightarrow> Addr set" where
  "between a b = {x. BitLen x = BitLen a \<and> addr_nat a \<le> addr_nat x \<and> addr_nat x \<le> addr_nat b}"

definition write_space :: "WriteEntry \<Rightarrow> Addr set" where
  "write_space w =
     (case we_Kind w of
        WritePrefix \<Rightarrow> (case ParsePrefix (we_CIDR w) of None \<Rightarrow> {} | Some p \<Rightarrow> addrs p)
      | WriteRange \<Rightarrow>
          (case (ParseAddr (we_StartAddress w), ParseAddr (we_EndAddress w)) of
             (Some a, Some b) \<Rightarrow> between a b
           | _ \<Rightarrow> {}))"

text \<open>
  The promise of a planned write: IPv4 space that swallows no pool of the domain and meets platform-managed
  space only from strictly inside a managed VPC.
\<close>

definition safe_space :: "Pool list \<Rightarrow> InventorySnapshot \<Rightarrow> Addr set \<Rightarrow> bool" where
  "safe_space pools snap S \<longleftrightarrow>
     S \<noteq> {} \<and> (\<forall>x \<in> S. Is4 x) \<and>
     (\<forall>pool \<in> set pools. \<forall>pc. ParsePrefix (pl_CIDR pool) = Some pc \<longrightarrow> \<not> addrs pc \<subseteq> S) \<and>
     (\<forall>n \<in> set (sn_Networks snap). \<forall>nc. n_AllocationID n \<noteq> [] \<longrightarrow> ParsePrefix (n_CIDR n) = Some nc \<longrightarrow> Masked nc = nc \<longrightarrow>
        S \<inter> addrs nc = {} \<or> n_ParentAllocationID n = [] \<and> \<not> n_ParentPool n \<and> S \<subset> addrs nc)"

lemma addrs_family: "x \<in> addrs p \<Longrightarrow> BitLen x = BitLen (ip p)"
  by (auto simp: addrs_def BitLen_def split: Addr.splits)

lemma addrs_interval:
  assumes "valid_prefix p" "Masked p = p"
  shows "addrs p = {x. BitLen x = BitLen (ip p) \<and> addr_nat (ip p) \<le> addr_nat x \<and>
    addr_nat x < addr_nat (ip p) + 2 ^ (BitLen (ip p) - pbits p)}"
  using mem_addrs_nat [OF assms] by blast

lemma valid_Masked [simp]: "valid_prefix (Masked p) = valid_prefix p"
  by (simp add: valid_prefix_def)

lemma BitLen_prefixLast [simp]: "BitLen (prefixLast p) = BitLen (ip p)"
  by (cases "ip p") (simp_all add: prefixLast_def BitLen_def Masked_def keep_top_def)

lemma prefixLast_Suc:
  assumes "valid_prefix p"
  shows "Suc (addr_nat (prefixLast p)) = addr_nat (ip (Masked p)) + 2 ^ (BitLen (ip p) - pbits p)"
proof -
  have "(0 :: nat) < 2 ^ (BitLen (ip p) - pbits p)" by simp
  then show ?thesis unfolding prefixLast_nat [OF assms] by linarith
qed

lemma prefixLast_le: "valid_prefix p \<Longrightarrow> addr_nat (ip (Masked p)) \<le> addr_nat (prefixLast p)"
  using prefixLast_nat [of p] le_add1 by metis

lemma prefixLast_in: "valid_prefix p \<Longrightarrow> prefixLast p \<in> addrs p"
  using prefixLast_Suc [of p] prefixLast_le [of p] mem_addrs_nat [of "Masked p" "prefixLast p"] by simp

lemma addrs_subset_bits:
  assumes p: "valid_prefix p" and q: "valid_prefix q" and sub: "addrs p \<subseteq> addrs q"
  shows "pbits q \<le> pbits p"
proof -
  let ?W = "BitLen (ip p)" and ?lo = "addr_nat (ip (Masked p))"
  have len: "BitLen (ip q) = ?W" using addrs_family [of "ip p" q] sub addr_in_addrs [of p] by (metis subsetD)
  have "ip (Masked p) \<in> addrs (Masked q)" "prefixLast p \<in> addrs (Masked q)"
    using sub prefixLast_in [OF p] addr_in_addrs [of "Masked p"] by (auto simp del: addr_in_addrs)
  then have "?lo + (2 ^ (?W - pbits p) - 1) < ?lo + 2 ^ (?W - pbits q)"
    using p q len mem_addrs_nat [of "Masked q"] prefixLast_nat [OF p] by fastforce
  then have "(2 :: nat) ^ (?W - pbits p) \<le> 2 ^ (?W - pbits q)" by (simp add: le_diff_conv less_Suc_eq_le [symmetric])
  then show ?thesis using p q len by (auto simp: valid_prefix_def)
qed

lemma same_bits_same_block:
  assumes "addrs p \<subseteq> addrs q" "pbits p = pbits q"
  shows "Masked p = Masked q"
proof -
  have "ip p \<in> addrs q" using assms(1) by auto
  then show ?thesis using assms(2)
    by (cases "ip p"; cases "ip q") (auto simp: addrs_def Masked_def keep_top_def)
qed

lemma find_none: "find P xs = None \<longleftrightarrow> (\<forall>x \<in> set xs. \<not> P x)"
  by (auto simp: find_None_iff)

lemma importable_safe:
  assumes p: "valid_prefix p" "Masked p = p" "Is4 (ip p)" and ok: "importable pools snap p"
  shows "safe_space pools snap (addrs p)"
proof -
  have "\<not> addrs pc \<subseteq> addrs p" if pool: "pool \<in> set pools" "ParsePrefix (pl_CIDR pool) = Some pc" for pool pc
  proof
    assume sub: "addrs pc \<subseteq> addrs p"
    have pc: "valid_prefix pc" using pool(2) by (rule ParsePrefix_valid)
    have "pbits p \<le> pbits pc" by (rule addrs_subset_bits [OF pc p(1) sub])
    moreover have "Masked pc \<noteq> p" "\<not> (pbits pc > pbits p \<and> Contains p (ip (Masked pc)))"
      using ok pool by (auto simp: importable_def exactPool_def ancestorOfPool_def find_none holds_for_def pool_prefix_def)
    moreover have "Contains p (ip (Masked pc))"
      using sub p(1) addr_in_addrs [of "Masked pc"] by (auto simp: Contains_iff simp del: addr_in_addrs)
    ultimately show False using same_bits_same_block [OF sub] p(2) by auto
  qed
  moreover have "addrs p \<inter> addrs nc = {} \<or> n_ParentAllocationID n = [] \<and> \<not> n_ParentPool n \<and> addrs p \<subset> addrs nc"
    if n: "n \<in> set (sn_Networks snap)" "n_AllocationID n \<noteq> []" "ParsePrefix (n_CIDR n) = Some nc" for n nc
  proof -
    have nc: "valid_prefix nc" using n(3) by (rule ParsePrefix_valid)
    have "\<not> Overlaps p nc \<or> childOfManagedVPC p nc n"
      using ok n by (auto simp: importable_def overlapsManaged_def find_none holds_for_def)
    moreover have "addrs p \<subset> addrs nc" if "childOfManagedVPC p nc n"
    proof -
      have c: "pbits nc < pbits p" "Contains (Masked nc) (ip p)" using that by (auto simp: childOfManagedVPC_def split: if_splits)
      then have "addrs p \<subseteq> addrs nc" using addrs_subset [of "Masked nc" p] by simp
      moreover have "\<not> addrs nc \<subseteq> addrs p" using addrs_subset_bits [OF nc p(1)] c(1) by auto
      ultimately show ?thesis by blast
    qed
    ultimately show ?thesis using Overlaps_iff_addrs [OF p(1) nc] by (auto simp: childOfManagedVPC_def split: if_splits)
  qed
  moreover have "Is4 x" if "x \<in> addrs p" for x using addrs_family [OF that] p(3) by (cases x) (auto simp: BitLen_def Is4_V4)
  moreover have "addrs p \<noteq> {}" using addr_in_addrs [of p] by blast
  ultimately show ?thesis by (auto simp: safe_space_def)
qed

section \<open>Ranges\<close>

lemma find_panic_none: "find_panic t xs = Some None \<Longrightarrow> x \<in> set xs \<Longrightarrow> t x = Some False"
  by (induction xs) (auto split: option.splits bool.splits)

lemma lastAddr4: "Is4 (ip p) \<Longrightarrow> lastAddr p = Some (prefixLast p)"
  by (cases "ip p") (simp_all add: lastAddr_def As4_def prefixLast_def Masked_def keep_top_def)

lemma prefixLast_Masked [simp]: "prefixLast (Masked p) = prefixLast p"
  by (simp add: prefixLast_def split: Addr.split)

lemma BitLen_4: "Is4 a \<longleftrightarrow> BitLen a = 32"
  by (cases a) (simp_all add: BitLen_def)

lemma Compare_gt: "BitLen a = BitLen b \<Longrightarrow> Compare a b > 0 \<longleftrightarrow> addr_nat b < addr_nat a"
  using Compare_le [of a b] by linarith

lemma Compare_lt: "BitLen a = BitLen b \<Longrightarrow> Compare a b < 0 \<longleftrightarrow> addr_nat a < addr_nat b"
  by (auto simp: Compare_def)

lemma addrs_between:
  assumes "valid_prefix p"
  shows "addrs p = between (ip (Masked p)) (prefixLast p)"
proof -
  have "x \<in> addrs (Masked p) \<longleftrightarrow> x \<in> between (ip (Masked p)) (prefixLast p)" for x
    using assms mem_addrs_nat [of "Masked p" x] by (simp add: between_def prefixLast_Suc [symmetric] less_Suc_eq_le)
  then show ?thesis by auto
qed

lemma between_sub:
  assumes "BitLen a = BitLen c" "BitLen b = BitLen a" "addr_nat a \<le> addr_nat b" 
  shows "between a b \<subseteq> between c d \<longleftrightarrow> addr_nat c \<le> addr_nat a \<and> addr_nat b \<le> addr_nat d"
proof
  have "a \<in> between a b" "b \<in> between a b" using assms by (auto simp: between_def)
  moreover assume "between a b \<subseteq> between c d"
  ultimately show "addr_nat c \<le> addr_nat a \<and> addr_nat b \<le> addr_nat d" by (auto simp: between_def)
qed (use assms in \<open>auto simp: between_def\<close>)

definition range_importable :: "Pool list \<Rightarrow> InventorySnapshot \<Rightarrow> Addr \<Rightarrow> Addr \<Rightarrow> bool" where
  "range_importable pools snap a b \<longleftrightarrow> spansPool a b pools = Some None \<and> rangeOverlapsManaged a b snap = Some None"

lemma range_pools:
  assumes ab: "Is4 a" "Is4 b" and ok: "spansPool a b pools = Some None"
    and pool: "pool \<in> set pools" "ParsePrefix (pl_CIDR pool) = Some pc"
  shows "\<not> addrs pc \<subseteq> between a b"
proof
  assume sub: "addrs pc \<subseteq> between a b"
  have pc: "valid_prefix pc" using pool(2) by (rule ParsePrefix_valid)
  have "ip pc \<in> between a b" using sub addr_in_addrs [of pc] by blast
  then have len: "BitLen (ip pc) = 32" "Is4 (ip pc)" using ab(1) by (auto simp: between_def BitLen_4)
  have "addr_nat a \<le> addr_nat (ip (Masked pc)) \<and> addr_nat (prefixLast pc) \<le> addr_nat b"
    using sub prefixLast_le [OF pc] len ab unfolding addrs_between [OF pc] by (subst (asm) between_sub) (simp_all add: BitLen_4)
  then have "Compare a (ip (Masked pc)) \<le> 0" "Compare b (prefixLast pc) \<ge> 0"
    using len ab Compare_le [of a] Compare_lt [of b "prefixLast pc"] by (auto simp: BitLen_4)
  then show False
    using find_panic_none [OF ok [unfolded spansPool_def] pool(1)] pool(2) len(2) lastAddr4 [of "Masked pc"]
    by (simp add: pool_prefix_def test_prefix_def)
qed

lemma range_test:
  assumes ab: "Is4 a" "Is4 b" and ok: "rangeOverlapsManaged a b snap = Some None"
    and n: "n \<in> set (sn_Networks snap)" "n_AllocationID n \<noteq> []" "ParsePrefix (n_CIDR n) = Some nc" "Masked nc = nc"
    and nc: "Is4 (ip nc)"
  shows "addr_nat (prefixLast nc) < addr_nat a \<or> addr_nat b < addr_nat (ip nc) \<or>
      n_ParentAllocationID n = [] \<and> \<not> n_ParentPool n \<and> addr_nat (ip nc) \<le> addr_nat a \<and> addr_nat b \<le> addr_nat (prefixLast nc) \<and>
      (addr_nat (ip nc) < addr_nat a \<or> addr_nat b < addr_nat (prefixLast nc))"
proof -
  have "BitLen a = 32" "BitLen b = 32" "BitLen (ip nc) = 32" using ab nc by (simp_all add: BitLen_4)
  then have cmp: "Compare a (prefixLast nc) > 0 \<longleftrightarrow> addr_nat (prefixLast nc) < addr_nat a" "Compare b (ip nc) < 0 \<longleftrightarrow> addr_nat b < addr_nat (ip nc)"
      "Compare a (ip nc) < 0 \<longleftrightarrow> addr_nat a < addr_nat (ip nc)" "Compare b (prefixLast nc) > 0 \<longleftrightarrow> addr_nat (prefixLast nc) < addr_nat b"
      "Compare a (ip nc) > 0 \<longleftrightarrow> addr_nat (ip nc) < addr_nat a" "Compare b (prefixLast nc) < 0 \<longleftrightarrow> addr_nat b < addr_nat (prefixLast nc)"
    by (simp_all add: Compare_gt Compare_lt)
  have "Compare a (prefixLast nc) > 0 \<or> Compare b (ip nc) < 0 \<or> rangeChildOfManagedVPC a b nc n = Some True"
    using find_panic_none [OF ok [unfolded rangeOverlapsManaged_def] n(1)] n(2,3) nc
    by (auto simp: test_prefix_def lastAddr4 split: if_splits)
  moreover have "rangeChildOfManagedVPC a b nc n =
      (if n_ParentAllocationID n \<noteq> [] \<or> n_ParentPool n then Some False
       else Some (\<not> (Compare a (ip nc) < 0 \<or> Compare b (prefixLast nc) > 0) \<and> (Compare a (ip nc) > 0 \<or> Compare b (prefixLast nc) < 0)))"
    using nc n(4) by (simp add: rangeChildOfManagedVPC_def lastAddr4 Let_def)
  ultimately show ?thesis unfolding cmp by (auto split: if_splits)
qed

lemma range_managed:
  assumes ab: "Is4 a" "Is4 b" "addr_nat a \<le> addr_nat b" and ok: "rangeOverlapsManaged a b snap = Some None"
    and n: "n \<in> set (sn_Networks snap)" "n_AllocationID n \<noteq> []" "ParsePrefix (n_CIDR n) = Some nc" "Masked nc = nc"
  shows "between a b \<inter> addrs nc = {} \<or> n_ParentAllocationID n = [] \<and> \<not> n_ParentPool n \<and> between a b \<subset> addrs nc"
proof (cases "Is4 (ip nc)")
  case False
  have "x \<notin> addrs nc" if "x \<in> between a b" for x
    using that addrs_family [of x nc] ab(1) False by (auto simp: between_def BitLen_4)
  then show ?thesis by blast
next
  case True
  have nc: "valid_prefix nc" using n(3) by (rule ParsePrefix_valid)
  have len: "BitLen a = 32" "BitLen b = 32" "BitLen (ip nc) = 32" "BitLen (prefixLast nc) = 32" using ab True by (simp_all add: BitLen_4)
  have space: "addrs nc = between (ip nc) (prefixLast nc)" using addrs_between [OF nc] n(4) by simp
  have le: "addr_nat (ip nc) \<le> addr_nat (prefixLast nc)" using prefixLast_le [OF nc] n(4) by simp
  have "between a b \<inter> addrs nc = {}" if "addr_nat (prefixLast nc) < addr_nat a \<or> addr_nat b < addr_nat (ip nc)"
    using that space by (auto simp: between_def)
  moreover have "between a b \<subset> addrs nc"
    if "addr_nat (ip nc) \<le> addr_nat a" "addr_nat b \<le> addr_nat (prefixLast nc)"
      "addr_nat (ip nc) < addr_nat a \<or> addr_nat b < addr_nat (prefixLast nc)"
  proof -
    have "between a b \<subseteq> addrs nc" using between_sub [of a "ip nc" b "prefixLast nc"] space that ab(3) len by simp
    moreover have "\<not> addrs nc \<subseteq> between a b" using between_sub [of "ip nc" a "prefixLast nc" b] space that le len by auto
    ultimately show ?thesis by blast
  qed
  ultimately show ?thesis using range_test [OF ab(1,2) ok n True] by blast
qed

lemma range_importable_safe:
  assumes "Is4 a" "Is4 b" "addr_nat a \<le> addr_nat b" "range_importable pools snap a b"
  shows "safe_space pools snap (between a b)"
proof -
  have "a \<in> between a b" using assms by (simp add: between_def)
  moreover have "\<forall>x \<in> between a b. Is4 x" using assms(1) by (simp add: between_def BitLen_4)
  ultimately show ?thesis
    using assms range_pools [OF assms(1,2)] range_managed [OF assms(1-3)]
    unfolding safe_space_def range_importable_def by blast
qed

text \<open>The count of blocks follows the decomposition of the inventory adapter, block for block.\<close>

lemma find_panic_total: "(\<And>x. x \<in> set xs \<Longrightarrow> t x = Some (P x)) \<Longrightarrow> find_panic t xs = Some (find P xs)"
  by (induction xs) (auto split: bool.splits)

lemma chosen4_chosen:
  assumes "Is4 cur"
  shows "chosen4 cur stop = Some (chosen_block cur stop)"
proof -
  have "find_panic (\<lambda>b. let p = Masked \<lparr>ip = cur, pbits = b\<rparr>
          in if Compare (ip p) cur = 0 then map_option (\<lambda>l. Compare l stop \<le> 0) (lastAddr p) else Some False)
        [0..<Suc (BitLen cur)] = Some (find (fits cur stop) [0..<Suc (BitLen cur)])"
    using assms by (intro find_panic_total) (simp add: fits_def lastAddr4 Let_def)
  then show ?thesis by (simp add: chosen4_def chosen_block_def del: upt_Suc)
qed

lemma Next_4: "Next a = Some b \<Longrightarrow> Is4 a \<Longrightarrow> Is4 b"
  by (auto simp: Next_def split: Addr.splits if_splits)

lemma Is4_prefixLast: "Is4 (prefixLast p) = Is4 (ip p)"
  by (simp add: BitLen_4)

lemma chosen_block_4: "chosen_block cur stop = Some p \<Longrightarrow> Is4 (ip p) = Is4 cur"
  by (auto simp: chosen_block_def)

lemma count_loop_range:
  assumes "Is4 cur" "range_loop limit cur stop = (ps, at, failed)"
  shows "count_loop (limit + blocks) blocks cur stop = Some (blocks + length ps + (if failed then 1 else 0), at)"
  using assms
proof (induction limit arbitrary: cur ps blocks)
  case 0
  then show ?case by (simp add: range_loop.simps [of 0] count_loop.simps)
next
  case (Suc limit)
  note unfold = range_loop.simps [of "Suc limit"] count_loop.simps [of "Suc (limit + blocks)" blocks]
  show ?case
  proof (cases "Compare cur stop \<le> 0 \<and> chosen_block cur stop \<noteq> None")
    case False
    then show ?thesis using Suc.prems by (auto simp: unfold chosen4_chosen split: if_splits)
  next
    case True
    then obtain p where p: "Compare cur stop \<le> 0" "chosen_block cur stop = Some p" by auto
    have last: "lastAddr p = Some (prefixLast p)" "Is4 (prefixLast p)"
      using lastAddr4 [of p] chosen_block_4 [OF p(2)] Suc.prems(1) by (simp_all add: Is4_prefixLast)
    show ?thesis
    proof (cases "Next (prefixLast p)")
      case None
      then show ?thesis using Suc.prems p last by (auto simp: unfold chosen4_chosen)
    next
      case (Some nxt)
      obtain qs at' f where q: "range_loop limit nxt stop = (qs, at', f)" by (cases "range_loop limit nxt stop")
      then have eq: "ps = p # qs" "at' = at" "f = failed" using Suc.prems p Some by (auto simp: unfold)
      then show ?thesis
        using Suc.IH [OF Next_4 [OF Some last(2)] q [unfolded eq], of "Suc blocks"] Suc.prems(1) p last Some
        by (simp add: unfold chosen4_chosen)
    qed
  qed
qed

lemma rangeBlockCount_exact:
  assumes "Is4 a" "Is4 b" "addr_nat a \<le> addr_nat b"
  obtains ps where "rangeBlockCount a b maxOnboardRangeBlocks = Some (length ps, Suc (addr_nat b) = 2 ^ 32)"
    and "length ps \<le> 64" "tiles 32 (addr_nat a) ps (Suc (addr_nat b))"
    and "range_prefixes a b = Inr (ps @ (if Suc (addr_nat b) = 2 ^ 32 then [Masked \<lparr>ip = a, pbits = 0\<rparr>] else []))"
proof -
  have len: "BitLen a = 32" "BitLen b = 32" using assms by (simp_all add: BitLen_4)
  obtain ps at where r: "range_loop maxRangeBlocks a b = (ps, at, False)" "length ps \<le> 64"
      "tiles 32 (addr_nat a) ps (Suc (addr_nat b))" "Compare at b \<le> 0 \<longleftrightarrow> Suc (addr_nat b) = 2 ^ 32" "BitLen at = 32"
  proof (rule range_loop_exact [of a b])
    fix ps at
    assume "range_loop maxRangeBlocks a b = (ps, at, False)" "length ps \<le> 2 * BitLen a" "BitLen at = BitLen a"
      "tiles (BitLen a) (addr_nat a) ps (Suc (addr_nat b))" "Compare at b \<le> 0 \<longleftrightarrow> Suc (addr_nat b) = 2 ^ BitLen a"
    then show thesis using that [of ps at] len by simp
  qed (use assms(3) len in simp_all)
  have "count_loop maxOnboardRangeBlocks 0 a b = Some (length ps, at)"
    using count_loop_range [OF assms(1) r(1), of 0] by (simp add: maxOnboardRangeBlocks_def maxRangeBlocks_def)
  then have "rangeBlockCount a b maxOnboardRangeBlocks = Some (length ps, Suc (addr_nat b) = 2 ^ 32)"
    using r(4) by (simp add: rangeBlockCount_def)
  moreover have "range_prefixes a b = Inr (ps @ (if Suc (addr_nat b) = 2 ^ 32 then [Masked \<lparr>ip = a, pbits = 0\<rparr>] else []))"
    using range_prefixes_loop [OF _ assms(3) r(1)] r(4,5) len by simp
  ultimately show thesis using that r by blast
qed

definition range_write :: "RangeRow list \<Rightarrow> Addr \<Rightarrow> Addr \<Rightarrow> WriteEntry" where
  "range_write rows a b =
     \<lparr>we_Kind = WriteRange, we_CIDR = [], we_StartAddress = AddrString a, we_EndAddress = AddrString b,
      we_SourceRows = sort (map rg_SourceRow (filter (\<lambda>r. range_pair r = Some (a, b)) rows))\<rparr>"

lemma plan_range_group_out:
  assumes "plan_range_group pools snap g = Some out"
  shows "fst out =
      (if range_importable pools snap (rq_start g) (rq_end g)
       then [\<lparr>we_Kind = WriteRange, we_CIDR = [], we_StartAddress = AddrString (rq_start g),
              we_EndAddress = AddrString (rq_end g), we_SourceRows = sort (rq_rows g)\<rparr>]
       else [])"
    and "\<not> range_importable pools snap (rq_start g) (rq_end g) \<Longrightarrow> row \<in> set (rq_rows g) \<Longrightarrow>
      \<exists>f \<in> set (snd out). explains row f"
  using assms
  by (auto simp: plan_range_group_def range_importable_def explains_def Let_def split: option.splits)

lemma all_or_panic_out: "all_or_panic f xs = Some ys \<Longrightarrow> y \<in> set ys \<Longrightarrow> \<exists>x \<in> set xs. f x = Some y"
  by (induction xs arbitrary: ys) (auto split: option.splits)

lemma all_or_panic_in: "all_or_panic f xs = Some ys \<Longrightarrow> x \<in> set xs \<Longrightarrow> \<exists>y \<in> set ys. f x = Some y"
  by (induction xs arbitrary: ys) (auto split: option.splits)

lemma range_group_of:
  assumes loop: "fold group_range rows ([], [], []) = (fs, gs, os)"
    and r: "r \<in> set rows" "range_pair r = Some (a, b)"
  shows "range_label a b \<in> set os \<and> rq_start (mget0 zero_rangeGroup gs (range_label a b)) = a \<and>
    rq_end (mget0 zero_rangeGroup gs (range_label a b)) = b \<and>
    rq_rows (mget0 zero_rangeGroup gs (range_label a b)) = map rg_SourceRow (filter (\<lambda>r. range_pair r = Some (a, b)) rows)"
proof -
  have g: "rg.grouped rows (fs, gs, os)" using rg.grouped_fold [of rows] by (simp add: loop)
  have "\<exists>g. mget gs (range_label a b) = Some g \<and> (rq_start g, rq_end g) = (a, b) \<and>
      rq_rows g = map rg_SourceRow (filter (\<lambda>r. range_pair r = Some (a, b)) rows)"
    using g r unfolding rg.grouped_def by fastforce
  moreover have "range_label a b \<in> set os"
    using g r unfolding rg.grouped_def by force
  ultimately show ?thesis by (auto simp: mget0_def)
qed

lemma range_group_key:
  assumes "fold group_range rows ([], [], []) = (fs, gs, os)" "key \<in> set os"
  obtains r a b where "r \<in> set rows" "range_pair r = Some (a, b)" "key = range_label a b"
  using rg.grouped_fold [of rows] assms by (force simp: rg.grouped_def)

lemma planRange_parts:
  assumes "planRangeCandidates rows pools snap = Some (ws, fs)"
  obtains fs0 gs os where "fold group_range rows ([], [], []) = (fs0, gs, os)" "set fs0 \<subseteq> set fs"
    and "\<And>w. w \<in> set ws \<Longrightarrow> \<exists>key \<in> set os. \<exists>out. plan_range_group pools snap (mget0 zero_rangeGroup gs key) = Some out \<and> w \<in> set (fst out)"
    and "\<And>key. key \<in> set os \<Longrightarrow> \<exists>out. plan_range_group pools snap (mget0 zero_rangeGroup gs key) = Some out \<and>
      set (fst out) \<subseteq> set ws \<and> set (snd out) \<subseteq> set fs"
proof -
  obtain fs0 gs os where loop: "fold group_range rows ([], [], []) = (fs0, gs, os)" by (cases "fold group_range rows ([], [], [])")
  obtain outs where outs: "all_or_panic (\<lambda>key. plan_range_group pools snap (mget0 zero_rangeGroup gs key)) os = Some outs"
      "ws = concat (map fst outs)" "fs = fs0 @ concat (map snd outs)"
    using assms by (auto simp: planRangeCandidates_def loop)
  have "\<exists>key \<in> set os. \<exists>out. plan_range_group pools snap (mget0 zero_rangeGroup gs key) = Some out \<and> w \<in> set (fst out)"
    if "w \<in> set ws" for w
    using that outs(2) all_or_panic_out [OF outs(1)] by fastforce
  moreover have "\<exists>out. plan_range_group pools snap (mget0 zero_rangeGroup gs key) = Some out \<and>
      set (fst out) \<subseteq> set ws \<and> set (snd out) \<subseteq> set fs" if "key \<in> set os" for key
    using that outs(2,3) all_or_panic_in [OF outs(1)] by fastforce
  ultimately show thesis using that loop outs(3) by simp
qed

lemma planRange_writes:
  assumes plan: "planRangeCandidates rows pools snap = Some (ws, fs)" and w: "w \<in> set ws"
  obtains a b where "Is4 a" "Is4 b" "addr_nat a \<le> addr_nat b" "range_importable pools snap a b" "w = range_write rows a b"
    and "\<exists>r \<in> set rows. range_pair r = Some (a, b)"
proof -
  obtain fs0 gs os where parts: "fold group_range rows ([], [], []) = (fs0, gs, os)"
      "\<And>w. w \<in> set ws \<Longrightarrow> \<exists>key \<in> set os. \<exists>out. plan_range_group pools snap (mget0 zero_rangeGroup gs key) = Some out \<and> w \<in> set (fst out)"
    using planRange_parts [OF plan] by metis
  obtain key out where key: "key \<in> set os" "plan_range_group pools snap (mget0 zero_rangeGroup gs key) = Some out" "w \<in> set (fst out)"
    using parts(2) [OF w] by blast
  obtain r a b where r: "r \<in> set rows" "range_pair r = Some (a, b)" "key = range_label a b" using range_group_key [OF parts(1) key(1)] .
  then show thesis
    using range_group_of [OF parts(1) r(1,2)] plan_range_group_out(1) [OF key(2)] key(3)
    by (intro that [of a b]) (auto simp: range_write_def range_pair_Some split: if_splits)
qed

lemma planRange_written:
  assumes plan: "planRangeCandidates rows pools snap = Some (ws, fs)"
    and r: "r \<in> set rows" "range_pair r = Some (a, b)" "range_importable pools snap a b"
  shows "range_write rows a b \<in> set ws"
proof -
  obtain fs0 gs os where parts: "fold group_range rows ([], [], []) = (fs0, gs, os)"
      "\<And>key. key \<in> set os \<Longrightarrow> \<exists>out. plan_range_group pools snap (mget0 zero_rangeGroup gs key) = Some out \<and>
        set (fst out) \<subseteq> set ws \<and> set (snd out) \<subseteq> set fs"
    using planRange_parts [OF plan] by metis
  note g = range_group_of [OF parts(1) r(1,2)]
  obtain out where out: "plan_range_group pools snap (mget0 zero_rangeGroup gs (range_label a b)) = Some out" "set (fst out) \<subseteq> set ws"
    using parts(2) g by blast
  then show ?thesis using plan_range_group_out(1) [OF out(1)] g r(3) by (auto simp: range_write_def)
qed

lemma planRange_explains:
  assumes plan: "planRangeCandidates rows pools snap = Some (ws, fs)"
    and r: "r \<in> set rows" "\<nexists>a b. range_pair r = Some (a, b) \<and> range_importable pools snap a b"
  shows "\<exists>f \<in> set fs. explains (rg_SourceRow r) f"
proof -
  obtain fs0 gs os where parts: "fold group_range rows ([], [], []) = (fs0, gs, os)" "set fs0 \<subseteq> set fs"
      "\<And>key. key \<in> set os \<Longrightarrow> \<exists>out. plan_range_group pools snap (mget0 zero_rangeGroup gs key) = Some out \<and>
        set (fst out) \<subseteq> set ws \<and> set (snd out) \<subseteq> set fs"
    using planRange_parts [OF plan] by metis
  show ?thesis
  proof (cases "range_pair r")
    case None
    then obtain f where f: "set (fst (group_range r ([], [], []))) = {f}" "explains (rg_SourceRow r) f"
      using group_range_rejects [OF None] by (auto simp: explains_def)
    then have "f \<in> set fs0" using rg.fold_findings [of rows] r(1) None by (auto simp: parts(1))
    then show ?thesis using f(2) parts(2) by blast
  next
    case (Some ab)
    then obtain a b where ab: "range_pair r = Some (a, b)" by (cases ab) auto
    note g = range_group_of [OF parts(1) r(1) ab]
    obtain out where out: "plan_range_group pools snap (mget0 zero_rangeGroup gs (range_label a b)) = Some out" "set (snd out) \<subseteq> set fs"
      using parts(3) g by blast
    have "\<exists>f \<in> set (snd out). explains (rg_SourceRow r) f"
      using g r ab by (intro plan_range_group_out(2) [OF out(1)]) auto
    then show ?thesis using out(2) by blast
  qed
qed

end
