(* ===== verification/OnboardProps.thy ===== *)
theory OnboardProps
  imports OnboardFacts Example
begin

text \<open>
  The properties of the onboarding import: which writes a plan may contain, that it accounts for every row,
  that a plan which has been applied leaves nothing to write, and how an address range is turned into
  prefixes by the inventory adapter and counted by the plan.
\<close>

section \<open>The parts of a plan\<close>

lemma finishReport_sets [simp]:
  "set (pr_Writes (finishReport w f)) = set w" "set (pr_Findings (finishReport w f)) = set f"
  by (simp_all add: finishReport_def)

abbreviation domain_pools :: "Config \<Rightarrow> Domain \<Rightarrow> Pool list" where
  "domain_pools cfg d \<equiv> filter (\<lambda>p. pl_DomainID p = d_ID d) (c_Pools cfg)"

abbreviation cidr_rows :: "Table \<Rightarrow> RangeRow list" where
  "cidr_rows table \<equiv> filter (\<lambda>r. rg_CIDR r \<noteq> []) (tb_Ranges table)"

abbreviation range_rows :: "Table \<Rightarrow> RangeRow list" where
  "range_rows table \<equiv> filter (\<lambda>r. rg_CIDR r = []) (tb_Ranges table)"

text \<open>A plan is made against a configured domain with a VRF and a complete snapshot, or it is an error.\<close>

definition plannable :: "Config \<Rightarrow> string \<Rightarrow> InventorySnapshot \<Rightarrow> Domain \<Rightarrow> bool" where
  "plannable cfg domainID snap d \<longleftrightarrow>
     findDomain cfg domainID = Some d \<and> bk_VRFID (d_Backend d) \<noteq> 0 \<and> sn_Complete snap"

lemma Plan_unplannable:
  assumes "\<nexists>d. plannable cfg domainID snap d"
  shows "\<exists>f. pf_Level f = LevelError \<and>
    Plan u table cfg domainID snap = Some (finishReport [] (map diagnostic_finding (tb_Diagnostics table) @ [f]))"
proof -
  consider "findDomain cfg domainID = None" | d where "findDomain cfg domainID = Some d" "bk_VRFID (d_Backend d) = 0 \<or> \<not> sn_Complete snap"
    using assms by (fastforce simp: plannable_def)
  then show ?thesis
  proof cases
    case 1
    then show ?thesis by (simp add: Plan_def Let_def) (use finding_sel(1) in blast)
  next
    case 2
    then show ?thesis by (simp add: Plan_def Let_def) (use finding_sel(1) in blast)
  qed
qed

lemma Plan_networks:
  assumes "plannable cfg domainID snap d" "tb_Kind table = KindNetworks"
    and "planPrefixCandidates u (networkCandidates (tb_Networks table)) (domain_pools cfg d) snap (Some (tb_Networks table)) = (ws, fs)"
  shows "Plan u table cfg domainID snap = Some (finishReport ws (map diagnostic_finding (tb_Diagnostics table) @ fs))"
  using assms by (simp add: plannable_def Plan_def Let_def)

lemma Plan_ranges:
  assumes "plannable cfg domainID snap d" "tb_Kind table = KindRanges"
    and "planPrefixCandidates u (rangeCIDRCandidates (cidr_rows table)) (domain_pools cfg d) snap None = (ws, fs)"
  shows "Plan u table cfg domainID snap =
    map_option (\<lambda>(ws', fs'). finishReport (ws @ ws') (map diagnostic_finding (tb_Diagnostics table) @ fs @ fs'))
      (planRangeCandidates (range_rows table) (domain_pools cfg d) snap)"
  using assms by (simp add: plannable_def Plan_def Let_def)

lemma Plan_ranges_Some:
  assumes "plannable cfg domainID snap d" "tb_Kind table = KindRanges"
    and "planPrefixCandidates u (rangeCIDRCandidates (cidr_rows table)) (domain_pools cfg d) snap None = (ws, fs)"
    and "Plan u table cfg domainID snap = Some r"
  obtains ws' fs' where "planRangeCandidates (range_rows table) (domain_pools cfg d) snap = Some (ws', fs')"
    and "r = finishReport (ws @ ws') (map diagnostic_finding (tb_Diagnostics table) @ fs @ fs')"
  using assms(4) unfolding Plan_ranges [OF assms(1-3)] map_option_eq_Some by auto

lemma Plan_other:
  assumes "plannable cfg domainID snap d" "tb_Kind table = NoKind \<or> tb_Kind table = KindAccounts"
  shows "\<exists>fs. Plan u table cfg domainID snap = Some (finishReport [] fs)"
  using assms by (auto simp: plannable_def Plan_def Let_def)

text \<open>Where a write of the plan comes from.\<close>

lemma Plan_write_cases:
  assumes plan: "Plan u table cfg domainID snap = Some r" and w: "w \<in> set (pr_Writes r)"
  obtains (prefix) d p cands where "plannable cfg domainID snap d" "importable (domain_pools cfg d) snap p"
      "w = prefix_write cands p" "\<exists>c \<in> set cands. canonical4 (cd_raw c) = Some p"
    | (range) d a b where "plannable cfg domainID snap d" "range_importable (domain_pools cfg d) snap a b"
      "Is4 a" "Is4 b" "addr_nat a \<le> addr_nat b" "w = range_write (range_rows table) a b"
      "\<exists>r \<in> set (range_rows table). range_pair r = Some (a, b)"
proof -
  obtain d where d: "plannable cfg domainID snap d" using Plan_unplannable [of cfg domainID snap u table] assms by fastforce
  have via: thesis if "planPrefixCandidates u cands (domain_pools cfg d) snap nrs = (ws, fs)" "w \<in> set ws" for cands nrs ws fs
  proof -
    have "w \<in> set (fst (planPrefixCandidates u cands (domain_pools cfg d) snap nrs))" using that by simp
    then obtain p where "w = prefix_write cands p" "importable (domain_pools cfg d) snap p" "\<exists>c \<in> set cands. canonical4 (cd_raw c) = Some p"
      unfolding planPrefix_writes by blast
    then show thesis using prefix [OF d] by blast
  qed
  consider "tb_Kind table = KindNetworks" | "tb_Kind table = KindRanges" | "tb_Kind table = NoKind \<or> tb_Kind table = KindAccounts"
    by (cases "tb_Kind table") auto
  then show thesis
  proof cases
    case 1
    obtain ws fs where x: "planPrefixCandidates u (networkCandidates (tb_Networks table)) (domain_pools cfg d) snap (Some (tb_Networks table)) = (ws, fs)"
      by fastforce
    then have "w \<in> set ws" using Plan_networks [OF d 1 x] assms by auto
    then show thesis by (rule via [OF x])
  next
    case 2
    obtain ws fs where x: "planPrefixCandidates u (rangeCIDRCandidates (cidr_rows table)) (domain_pools cfg d) snap None = (ws, fs)"
      by fastforce
    then obtain ws' fs' where y: "planRangeCandidates (range_rows table) (domain_pools cfg d) snap = Some (ws', fs')" "w \<in> set ws \<or> w \<in> set ws'"
      using Plan_ranges_Some [OF d 2 x plan] w by (metis Un_iff finishReport_sets(1) set_append)
    then show thesis
    proof (elim disjE)
      assume "w \<in> set ws"
      then show thesis by (rule via [OF x])
    next
      assume "w \<in> set ws'"
      then show thesis using planRange_writes [OF y(1)] range [OF d] by metis
    qed
  next
    case 3
    then show thesis using Plan_other [OF d 3, of u] assms by auto
  qed
qed

section \<open>A concrete import\<close>

definition ex_golib :: golib where
  "ex_golib = \<lparr>u_ToLower = id, u_Quote = id, u_LettersDigits = id, u_ParseRFC3339 = (\<lambda>_. None), u_ReadCSV = (\<lambda>_ s. Inr [[s]])\<rparr>"

definition ex_vrf_config :: Config where
  "ex_vrf_config = ex_config\<lparr>c_Domains := [ex_domain\<lparr>d_Backend := ex_backend\<lparr>bk_VRFID := 7\<rparr>\<rparr>]\<rparr>"

definition ex_row :: "int \<Rightarrow> string \<Rightarrow> NetworkRow" where
  "ex_row n cidr = \<lparr>nr_SourceRow = n, nr_CIDR = cidr, nr_AccountID = ''1'', nr_Region = ''r'', nr_Type = ''vpc'',
     nr_ResourceID = ''vpc-'' @ dec (nat n), nr_ParentID = [], nr_AZID = [], nr_Name = [], nr_Environment = [],
     nr_State = [], nr_Primary = ''true'', nr_Description = [], nr_AssociationID = [], nr_ObservedAt = [],
     nr_ObservedAtParsed = 0, nr_SourceFile = ''f'', nr_AssociationIDColumnPresent = False,
     nr_ObservedAtColumnPresent = False\<rparr>"

definition ex_table :: Table where
  "ex_table = \<lparr>tb_Kind = KindNetworks, tb_Accounts = [],
     tb_Networks = [ex_row 1 ''10.0.5.0/24'', ex_row 2 ''10.0.1.64/26''],
     tb_Ranges = [], tb_Diagnostics = []\<rparr>"

text \<open>A managed VPC at 10.0.1.0/24 and an imported network at 10.0.9.0/24.\<close>

definition ex_managed :: Network where
  "ex_managed = ex_network\<lparr>n_ID := ''nb-1'', n_CIDR := ''10.0.1.0/24'', n_AllocationID := ''alloc_00''\<rparr>"

definition ex_estate :: InventorySnapshot where
  "ex_estate = \<lparr>sn_Networks = [ex_managed, ex_network], sn_Complete = True\<rparr>"

abbreviation ex_p :: Prefix where "ex_p \<equiv> \<lparr>ip = V4 0x0A000140, pbits = 26\<rparr>"

lemma ex_importable:
  "canonical4 ''10.0.1.64/26'' = Some ex_p" "domain_pools ex_vrf_config (ex_domain\<lparr>d_Backend := ex_backend\<lparr>bk_VRFID := 7\<rparr>\<rparr>) = [ex_pool]"
  "importable [ex_pool] ex_estate ex_p" "PrefixString ex_p = ''10.0.1.64/26''"
  by code_simp+

lemma ex_plannable: "plannable ex_vrf_config ''corp'' ex_estate (ex_domain\<lparr>d_Backend := ex_backend\<lparr>bk_VRFID := 7\<rparr>\<rparr>)"
  by code_simp

lemma ex_plan:
  obtains r where "Plan ex_golib ex_table ex_vrf_config ''corp'' ex_estate = Some r"
    and "prefix_write (networkCandidates (tb_Networks ex_table)) ex_p \<in> set (pr_Writes r)"
proof -
  let ?cands = "networkCandidates (tb_Networks ex_table)"
  obtain ws fs where x: "planPrefixCandidates ex_golib ?cands [ex_pool] ex_estate (Some (tb_Networks ex_table)) = (ws, fs)" by fastforce
  have "\<exists>c \<in> set ?cands. canonical4 (cd_raw c) = Some ex_p"
    using ex_importable(1) by (simp add: networkCandidates_def ex_table_def ex_row_def)
  then have "prefix_write ?cands ex_p \<in> set (fst (planPrefixCandidates ex_golib ?cands [ex_pool] ex_estate (Some (tb_Networks ex_table))))"
    unfolding planPrefix_writes using ex_importable(3) by blast
  moreover have "Plan ex_golib ex_table ex_vrf_config ''corp'' ex_estate =
      Some (finishReport ws (map diagnostic_finding (tb_Diagnostics ex_table) @ fs))"
    using Plan_networks [OF ex_plannable, of ex_table ex_golib ws fs] x unfolding ex_importable(2) by (simp add: ex_table_def)
  ultimately show thesis using that x by simp
qed

section \<open>Safety of the planned writes\<close>

lemma write_space_prefix: "canonical4 raw = Some p \<Longrightarrow> write_space (prefix_write cands p) = addrs p"
  by (simp add: write_space_def prefix_write_def canonical4_label)

lemma write_space_range: "Is4 a \<Longrightarrow> Is4 b \<Longrightarrow> write_space (range_write rows a b) = between a b"
  by (auto simp: write_space_def range_write_def Is4_V4 AddrString_def ParseAddr_string4)

lemma pool_of_domain:
  "findDomain cfg domainID = Some d \<Longrightarrow> d_ID d = domainID"
  by (auto simp: findDomain_def find_Some_iff)

lemma sorted_rows_nonempty: "c \<in> set xs \<Longrightarrow> P c \<Longrightarrow> sort (map f (filter P xs)) \<noteq> []"
  by (metis filter_empty_conv list.map_disc_iff set_empty set_sort)



section \<open>Every row is accounted for\<close>

lemma prefix_row_accounted:
  assumes c: "c \<in> set cands" and plan: "planPrefixCandidates u cands pools snap nrs = (ws, fs)"
  shows "(\<exists>w \<in> set ws. cd_sourceRow c \<in> set (we_SourceRows w) \<and> ParsePrefix (we_CIDR w) = ParsePrefix (cd_raw c)) \<or>
    (\<exists>f \<in> set fs. explains (cd_sourceRow c) f)"
proof (cases "\<exists>p. canonical4 (cd_raw c) = Some p \<and> importable pools snap p")
  case True
  then obtain p where p: "canonical4 (cd_raw c) = Some p" "importable pools snap p" by blast
  then have "prefix_write cands p \<in> set (fst (planPrefixCandidates u cands pools snap nrs))"
    unfolding planPrefix_writes using c by blast
  then have "prefix_write cands p \<in> set ws" by (simp add: plan)
  moreover have "cd_sourceRow c \<in> set (we_SourceRows (prefix_write cands p))" using c p(1) by (auto simp: prefix_write_def)
  moreover have "ParsePrefix (we_CIDR (prefix_write cands p)) = ParsePrefix (cd_raw c)"
    using canonical4_label [OF p(1)] p(1) by (simp add: prefix_write_def canonical4_Some)
  ultimately show ?thesis by blast
next
  case False
  then have "\<exists>f \<in> set (snd (planPrefixCandidates u cands pools snap nrs)). explains (cd_sourceRow c) f"
    by (intro planPrefix_explains [OF c])
  then show ?thesis by (simp add: plan)
qed

lemma range_row_accounted:
  assumes r: "r \<in> set rows" and plan: "planRangeCandidates rows pools snap = Some (ws, fs)"
  shows "(\<exists>w \<in> set ws. rg_SourceRow r \<in> set (we_SourceRows w) \<and>
      ParseAddr (we_StartAddress w) = ParseAddr (rg_StartAddress r) \<and> ParseAddr (we_EndAddress w) = ParseAddr (rg_EndAddress r)) \<or>
    (\<exists>f \<in> set fs. explains (rg_SourceRow r) f)"
proof (cases "\<exists>a b. range_pair r = Some (a, b) \<and> range_importable pools snap a b")
  case True
  then obtain a b where ab: "range_pair r = Some (a, b)" "range_importable pools snap a b" by blast
  have "range_write rows a b \<in> set ws" by (rule planRange_written [OF plan r ab])
  moreover have "rg_SourceRow r \<in> set (we_SourceRows (range_write rows a b))" using r ab(1) by (auto simp: range_write_def)
  moreover have "ParseAddr (AddrString a) = Some a" "ParseAddr (AddrString b) = Some b"
    using ab(1) by (auto simp: range_pair_Some Is4_V4 AddrString_def ParseAddr_string4)
  ultimately show ?thesis using ab(1) by (intro disjI1 bexI [of _ "range_write rows a b"]) (auto simp: range_write_def range_pair_Some)
next
  case False
  then show ?thesis using planRange_explains [OF plan r] by blast
qed

text \<open>What a report says of a row it does not write.\<close>

definition accounted :: "PlanReport \<Rightarrow> int \<Rightarrow> (WriteEntry \<Rightarrow> bool) \<Rightarrow> bool" where
  "accounted r row same \<longleftrightarrow>
     (\<exists>w \<in> set (pr_Writes r). row \<in> set (we_SourceRows w) \<and> same w) \<or>
     (\<exists>f \<in> set (pr_Findings r). row \<in> set (pf_Rows f) \<and> (pf_Level f = LevelError \<or> pf_Rule f = ''already-unmanaged''))"

lemma accountedI:
  assumes "(\<exists>w \<in> set ws. row \<in> set (we_SourceRows w) \<and> same w) \<or> (\<exists>f \<in> set fs. explains row f)"
    and "set ws \<subseteq> set (pr_Writes r)" "set fs \<subseteq> set (pr_Findings r)"
  shows "accounted r row same"
  using assms unfolding accounted_def explains_def by blast

lemma networks_accounted:
  assumes d: "plannable cfg domainID snap d" and k: "tb_Kind table = KindNetworks"
    and plan: "Plan u table cfg domainID snap = Some r" and row: "row \<in> set (tb_Networks table)"
  shows "accounted r (nr_SourceRow row) (\<lambda>w. ParsePrefix (we_CIDR w) = ParsePrefix (nr_CIDR row))"
proof -
  let ?c = "\<lparr>cd_sourceRow = nr_SourceRow row, cd_raw = nr_CIDR row\<rparr>"
  obtain ws fs where x: "planPrefixCandidates u (networkCandidates (tb_Networks table)) (domain_pools cfg d) snap (Some (tb_Networks table)) = (ws, fs)"
    by fastforce
  have c: "?c \<in> set (networkCandidates (tb_Networks table))" using row by (auto simp: networkCandidates_def)
  show ?thesis
    using prefix_row_accounted [OF c x] Plan_networks [OF d k x] plan by (intro accountedI [of ws _ _ fs]) auto
qed

lemma ranges_accounted:
  assumes d: "plannable cfg domainID snap d" and k: "tb_Kind table = KindRanges"
    and plan: "Plan u table cfg domainID snap = Some r" and row: "row \<in> set (tb_Ranges table)"
  shows "accounted r (rg_SourceRow row) (\<lambda>w.
    if rg_CIDR row \<noteq> [] then ParsePrefix (we_CIDR w) = ParsePrefix (rg_CIDR row)
    else ParseAddr (we_StartAddress w) = ParseAddr (rg_StartAddress row) \<and>
         ParseAddr (we_EndAddress w) = ParseAddr (rg_EndAddress row))"
proof -
  let ?c = "\<lparr>cd_sourceRow = rg_SourceRow row, cd_raw = rg_CIDR row\<rparr>"
  obtain ws fs where x: "planPrefixCandidates u (rangeCIDRCandidates (cidr_rows table)) (domain_pools cfg d) snap None = (ws, fs)"
    by fastforce
  obtain ws' fs' where y: "planRangeCandidates (range_rows table) (domain_pools cfg d) snap = Some (ws', fs')"
      "r = finishReport (ws @ ws') (map diagnostic_finding (tb_Diagnostics table) @ fs @ fs')"
    using Plan_ranges_Some [OF d k x plan] .
  show ?thesis
  proof (cases "rg_CIDR row = []")
    case True
    then have "row \<in> set (range_rows table)" using row by simp
    from range_row_accounted [OF this y(1)] show ?thesis using y(2) True by (intro accountedI [of ws' _ _ fs']) auto
  next
    case False
    then have "?c \<in> set (rangeCIDRCandidates (cidr_rows table))" using row by (auto simp: rangeCIDRCandidates_def)
    from prefix_row_accounted [OF this x] show ?thesis using y(2) False by (intro accountedI [of ws _ _ fs]) auto
  qed
qed

text \<open>
  No row of a networks or ranges table is dropped without a word: against a configured domain with a VRF
  and a complete snapshot, every row is among the source rows of a write of the same address space, or a
  finding names the row and is an error or says that the inventory holds the space already.
\<close>

theorem every_row_is_accounted_for:
  assumes "Plan u table cfg domainID snap = Some r"
    and "findDomain cfg domainID = Some d" "bk_VRFID (d_Backend d) \<noteq> 0" "sn_Complete snap"
  shows "(tb_Kind table = KindNetworks \<longrightarrow> (\<forall>row \<in> set (tb_Networks table).
      accounted r (nr_SourceRow row) (\<lambda>w. ParsePrefix (we_CIDR w) = ParsePrefix (nr_CIDR row)))) \<and>
    (tb_Kind table = KindRanges \<longrightarrow> (\<forall>row \<in> set (tb_Ranges table).
      accounted r (rg_SourceRow row) (\<lambda>w.
        if rg_CIDR row \<noteq> [] then ParsePrefix (we_CIDR w) = ParsePrefix (rg_CIDR row)
        else ParseAddr (we_StartAddress w) = ParseAddr (rg_StartAddress row) \<and>
             ParseAddr (we_EndAddress w) = ParseAddr (rg_EndAddress row))))"
proof -
  have "plannable cfg domainID snap d" using assms by (simp add: plannable_def)
  then show ?thesis using networks_accounted ranges_accounted assms(1) by blast
qed

theorem every_row_is_accounted_for_witness:
  "\<exists>r. Plan ex_golib ex_table ex_vrf_config ''corp'' ex_estate = Some r \<and>
     accounted r 2 (\<lambda>w. ParsePrefix (we_CIDR w) = ParsePrefix ''10.0.1.64/26'')"
proof -
  obtain r where r: "Plan ex_golib ex_table ex_vrf_config ''corp'' ex_estate = Some r" using ex_plan .
  have "ex_row 2 ''10.0.1.64/26'' \<in> set (tb_Networks ex_table)" "tb_Kind ex_table = KindNetworks" by (simp_all add: ex_table_def)
  then have "accounted r (nr_SourceRow (ex_row 2 ''10.0.1.64/26'')) (\<lambda>w. ParsePrefix (we_CIDR w) = ParsePrefix (nr_CIDR (ex_row 2 ''10.0.1.64/26'')))"
    using every_row_is_accounted_for [OF r] ex_plannable unfolding plannable_def by blast
  then show ?thesis using r by (auto simp: ex_row_def)
qed

section \<open>Planning again after a write\<close>

text \<open>
  An inventory in which a plan has been carried out: complete, with the same platform-managed networks, all
  the unmanaged networks it had, and one for every prefix the plan wrote.
\<close>

definition carried_out :: "PlanReport \<Rightarrow> InventorySnapshot \<Rightarrow> InventorySnapshot \<Rightarrow> bool" where
  "carried_out r snap snap' \<longleftrightarrow>
     sn_Complete snap' \<and>
     filter (\<lambda>n. n_AllocationID n \<noteq> []) (sn_Networks snap') = filter (\<lambda>n. n_AllocationID n \<noteq> []) (sn_Networks snap) \<and>
     (\<forall>n \<in> set (sn_Networks snap). n_AllocationID n = [] \<longrightarrow> n \<in> set (sn_Networks snap')) \<and>
     (\<forall>w \<in> set (pr_Writes r). we_Kind w = WritePrefix \<longrightarrow>
        (\<exists>n \<in> set (sn_Networks snap'). n_AllocationID n = [] \<and> \<not> n_ParentPool n \<and> n_CIDR n = we_CIDR w))"

lemma find_filter: "find (\<lambda>x. P x \<and> Q x) xs = find Q (filter P xs)"
  by (induction xs) auto

lemma carried_out_managed: "carried_out r snap snap' \<Longrightarrow> overlapsManaged p snap' = overlapsManaged p snap"
  by (simp add: carried_out_def overlapsManaged_def find_filter)

lemma carried_out_unmanaged:
  assumes "carried_out r snap snap'" "alreadyUnmanaged p snap \<noteq> None"
  shows "alreadyUnmanaged p snap' \<noteq> None"
  using assms unfolding carried_out_def alreadyUnmanaged_def find_none by blast

lemma importable_carried_out:
  "carried_out r snap snap' \<Longrightarrow> importable pools snap' p \<Longrightarrow> importable pools snap p"
  using carried_out_managed carried_out_unmanaged by (fastforce simp: importable_def)

lemma written_is_present:
  assumes "carried_out r snap snap'" "prefix_write cands p \<in> set (pr_Writes r)" "canonical4 raw = Some p"
  shows "\<not> importable pools snap' p"
proof -
  obtain n where "n \<in> set (sn_Networks snap')" "n_AllocationID n = []" "\<not> n_ParentPool n" "n_CIDR n = PrefixString p"
    using assms(1,2) by (force simp: carried_out_def prefix_write_def)
  then have "alreadyUnmanaged p snap' \<noteq> None"
    using canonical4_label [OF assms(3)] by (auto simp: alreadyUnmanaged_def find_none holds_for_def)
  then show ?thesis by (simp add: importable_def)
qed

text \<open>
  Planning is idempotent: after the writes of a networks plan are in the inventory, planning the same
  table again writes nothing.
\<close>

theorem replanning_writes_nothing:
  assumes "tb_Kind table = KindNetworks" "sn_Complete snap" "Plan u table cfg domainID snap = Some r"
    and "carried_out r snap snap'"
  shows "\<exists>r'. Plan u table cfg domainID snap' = Some r' \<and> pr_Writes r' = []"
proof (cases "\<exists>d. plannable cfg domainID snap' d")
  case False
  then show ?thesis using Plan_unplannable [of cfg domainID snap' u table] by (auto simp: finishReport_def)
next
  case True
  then obtain d where d: "plannable cfg domainID snap' d" by blast
  let ?cands = "networkCandidates (tb_Networks table)" and ?pools = "domain_pools cfg d"
  obtain ws' fs' where x': "planPrefixCandidates u ?cands ?pools snap' (Some (tb_Networks table)) = (ws', fs')" by fastforce
  have "w \<notin> set ws'" for w
  proof
    assume "w \<in> set ws'"
    then have "w \<in> set (fst (planPrefixCandidates u ?cands ?pools snap' (Some (tb_Networks table))))" by (simp add: x')
    then obtain c p where p: "importable ?pools snap' p" "c \<in> set ?cands" "canonical4 (cd_raw c) = Some p"
      unfolding planPrefix_writes by blast
    then have "prefix_write ?cands p \<in> set (fst (planPrefixCandidates u ?cands ?pools snap (Some (tb_Networks table))))"
      unfolding planPrefix_writes using importable_carried_out [OF assms(4)] by blast
    moreover have "plannable cfg domainID snap d" using d assms(2) by (simp add: plannable_def)
    ultimately have "prefix_write ?cands p \<in> set (pr_Writes r)"
      using Plan_networks [OF _ assms(1) prod.collapse [symmetric]] assms(3) by auto
    then show False using written_is_present [OF assms(4) _ p(3)] p(1) by blast
  qed
  then have "ws' = []" by (metis list.set_intros(1) neq_Nil_conv)
  then show ?thesis using Plan_networks [OF d assms(1) x'] by (auto simp: finishReport_def)
qed

theorem replanning_writes_nothing_witness:
  "\<exists>r snap'. Plan ex_golib ex_table ex_vrf_config ''corp'' ex_estate = Some r \<and> pr_Writes r \<noteq> [] \<and>
     carried_out r ex_estate snap' \<and> (\<exists>r'. Plan ex_golib ex_table ex_vrf_config ''corp'' snap' = Some r' \<and> pr_Writes r' = [])"
proof -
  obtain r where r: "Plan ex_golib ex_table ex_vrf_config ''corp'' ex_estate = Some r"
      "prefix_write (networkCandidates (tb_Networks ex_table)) ex_p \<in> set (pr_Writes r)"
    using ex_plan .
  let ?snap' = "\<lparr>sn_Networks = sn_Networks ex_estate @ map (\<lambda>w. ex_network\<lparr>n_CIDR := we_CIDR w\<rparr>) (pr_Writes r), sn_Complete = True\<rparr>"
  have "\<exists>n \<in> set (sn_Networks ?snap'). n_AllocationID n = [] \<and> \<not> n_ParentPool n \<and> n_CIDR n = we_CIDR w" if "w \<in> set (pr_Writes r)" for w
    using that by (intro bexI [of _ "ex_network\<lparr>n_CIDR := we_CIDR w\<rparr>"]) (auto simp: ex_network_def)
  then have "carried_out r ex_estate ?snap'" by (simp add: carried_out_def ex_network_def)
  moreover have "tb_Kind ex_table = KindNetworks" "sn_Complete ex_estate" by (simp_all add: ex_table_def ex_estate_def)
  ultimately have "\<exists>r'. Plan ex_golib ex_table ex_vrf_config ''corp'' ?snap' = Some r' \<and> pr_Writes r' = []"
    using replanning_writes_nothing [OF _ _ r(1)] by blast
  then show ?thesis using r \<open>carried_out r ex_estate ?snap'\<close> by (metis empty_iff empty_set)
qed

section \<open>Address ranges\<close>

text \<open>
  C38. The adapter reads an address range as prefixes that are pairwise disjoint and cover exactly the range,
  at most two for every bit of an address, so the limit of 4096 blocks is never reached. Only for a range that
  ends at the last address of its family it adds one more prefix, the whole address space.
\<close>

theorem range_is_covered_exactly:
  assumes "ParseAddr (before CHR ''/'' (TrimSpace start)) = Some a" "ParseAddr (before CHR ''/'' (TrimSpace stop)) = Some b"
    and "BitLen a = BitLen b" "addr_nat a \<le> addr_nat b"
  shows "\<exists>ps. rangeCIDRs start stop =
        Inr (map PrefixString (ps @ (if Suc (addr_nat b) = 2 ^ BitLen a then [Masked \<lparr>ip = a, pbits = 0\<rparr>] else []))) \<and>
      length ps \<le> 2 * BitLen a \<and> sorted_wrt (\<lambda>p q. addrs p \<inter> addrs q = {}) ps \<and>
      \<Union> (addrs ` set ps) = {x. BitLen x = BitLen a \<and> addr_nat a \<le> addr_nat x \<and> addr_nat x \<le> addr_nat b}"
proof -
  obtain ps where ps: "length ps \<le> 2 * BitLen a" "tiles (BitLen a) (addr_nat a) ps (Suc (addr_nat b))"
      "range_prefixes a b = Inr (ps @ (if Suc (addr_nat b) = 2 ^ BitLen a then [Masked \<lparr>ip = a, pbits = 0\<rparr>] else []))"
    using range_prefixes_exact [OF assms(3,4)] .
  then have "rangeCIDRs start stop =
      Inr (map PrefixString (ps @ (if Suc (addr_nat b) = 2 ^ BitLen a then [Masked \<lparr>ip = a, pbits = 0\<rparr>] else [])))"
    using assms(1,2) by (simp add: rangeCIDRs_def)
  then show ?thesis using ps tiles_disjoint [OF ps(2)] tiles_union [OF ps(2)] by (auto simp: less_Suc_eq_le)
qed

theorem range_is_covered_exactly_witness:
  "\<exists>ps. rangeCIDRs ''10.0.3.5/24 '' ''10.0.3.9'' = Inr (map PrefixString ps) \<and> length ps \<le> 64 \<and>
     \<Union> (addrs ` set ps) = {x. BitLen x = 32 \<and> 0x0A000305 \<le> addr_nat x \<and> addr_nat x \<le> 0x0A000309}"
proof -
  have "ParseAddr (before CHR ''/'' (TrimSpace ''10.0.3.5/24 '')) = Some (V4 0x0A000305)"
      "ParseAddr (before CHR ''/'' (TrimSpace ''10.0.3.9'')) = Some (V4 0x0A000309)" by code_simp+
  from range_is_covered_exactly [OF this] obtain ps where
      "rangeCIDRs ''10.0.3.5/24 '' ''10.0.3.9'' = Inr (map PrefixString ps)" "length ps \<le> 64"
      "\<Union> (addrs ` set ps) = {x. BitLen x = BitLen (V4 0x0A000305) \<and> addr_nat (V4 0x0A000305) \<le> addr_nat x \<and> addr_nat x \<le> addr_nat (V4 0x0A000309)}"
    by (auto simp: BitLen_def addr_nat_def)
  moreover have "BitLen (V4 0x0A000305) = 32" "addr_nat (V4 0x0A000305) = 0x0A000305" "addr_nat (V4 0x0A000309) = 0x0A000309"
    by (simp_all add: BitLen_def addr_nat_def)
  ultimately show ?thesis by auto
qed

text \<open>
  The plan's count of the blocks of a range is the number of prefixes the adapter decomposes it into, at
  most 64, so a range is never too large for the limit of 4096. The flag that reports a range as too large is
  raised exactly for a range that ends at 255.255.255.255, whatever its size.
\<close>

theorem block_count_agrees_with_adapter:
  assumes "Is4 a" "Is4 b" "addr_nat a \<le> addr_nat b"
  shows "\<exists>ps. range_prefixes a b = Inr (ps @ (if Suc (addr_nat b) = 2 ^ 32 then [Masked \<lparr>ip = a, pbits = 0\<rparr>] else [])) \<and>
    length ps \<le> 64 \<and> rangeBlockCount a b maxOnboardRangeBlocks = Some (length ps, Suc (addr_nat b) = 2 ^ 32)"
  using rangeBlockCount_exact [OF assms] by metis

theorem block_count_agrees_with_adapter_witness:
  "\<exists>ps. range_prefixes (V4 0xFFFFFFFF) (V4 0xFFFFFFFF) = Inr (ps @ [\<lparr>ip = V4 0, pbits = 0\<rparr>]) \<and>
    rangeBlockCount (V4 0xFFFFFFFF) (V4 0xFFFFFFFF) maxOnboardRangeBlocks = Some (length ps, True)"
proof -
  have "Masked \<lparr>ip = V4 0xFFFFFFFF, pbits = 0\<rparr> = \<lparr>ip = V4 0, pbits = 0\<rparr>" by code_simp
  then show ?thesis using block_count_agrees_with_adapter [of "V4 0xFFFFFFFF" "V4 0xFFFFFFFF"] by (auto simp: addr_nat_def)
qed

end
