(* ===== verification/ImportProps.thy ===== *)
theory ImportProps
  imports ImportRows OnboardProps
begin

text \<open>
  The properties of reading an import table: the rows it produces are in the form the plan expects, and
  every row of the file is kept, reported or accounted for.
\<close>

section \<open>Cells\<close>

definition canonical_text :: "string \<Rightarrow> bool" where
  "canonical_text s \<longleftrightarrow> (\<exists>p. canonical4 s = Some p \<and> s = PrefixString p)"

definition address_text :: "string \<Rightarrow> bool" where
  "address_text s \<longleftrightarrow> (\<exists>w. ParseAddr s = Some (V4 w) \<and> s = AddrString (V4 w))"

lemma address_text_AddrString: "Is4 a \<Longrightarrow> address_text (AddrString a)"
  by (auto simp: address_text_def Is4_V4 AddrString_def ParseAddr_string4)

lemma processCIDRCell_canonical:
  assumes "processCIDRCell u row column raw = Inr (cidr, decoration)" "cidr \<noteq> []"
  shows "canonical_text cidr"
proof -
  obtain m p where p: "ParsePrefix m = Some p" "Is4 (ip p)" "p = Masked p" "cidr = PrefixString p"
    using assms by (auto simp: processCIDRCell_def Let_def split: if_splits option.splits)
  have "ParsePrefix (PrefixString p) = Some p" using p(2) ParsePrefix_valid [OF p(1)] by (rule ParsePrefix_PrefixString4 [rotated])
  then show ?thesis using p by (auto simp: canonical_text_def canonical4_Some)
qed

lemma processCIDRCell_blank: "processCIDRCell u row column raw = Inr ([], decoration) \<Longrightarrow> cleanCell raw = []"
  by (auto simp: processCIDRCell_def Let_def PrefixString_def split: if_splits option.splits)

lemma processRangeDash_addresses:
  "processRangeDash u row column raw = Inr (Some (x, y)) \<Longrightarrow> address_text x \<and> address_text y"
  by (auto simp: processRangeDash_def Let_def address_text_AddrString split: option.splits if_splits)

lemma normalizeRangeAddress_address: "normalizeRangeAddress u row column raw = Inr x \<Longrightarrow> address_text x"
  by (auto simp: normalizeRangeAddress_def Let_def address_text_AddrString split: option.splits if_splits)

lemma cell_diagnostics:
  "processCIDRCell u row column raw = Inl d \<Longrightarrow> dg_Row d = row"
  "processRangeDash u row column raw = Inl d \<Longrightarrow> dg_Row d = row"
  "normalizeRangeAddress u row column raw = Inl d \<Longrightarrow> dg_Row d = row"
  "normalizeAccountID u row raw = (s, Some d) \<Longrightarrow> dg_Row d = row"
  by (auto simp: processCIDRCell_def processRangeDash_def normalizeRangeAddress_def normalizeAccountID_def diagnostic_def Let_def
      split: option.splits if_splits)

lemma parts_loop_row: "r \<in> set (fst (parts_loop f ps)) \<Longrightarrow> \<exists>p \<in> set ps. f p = Inr (Some r)"
  by (induction f ps rule: parts_loop.induct) (auto split: sum.splits option.splits prod.splits)

lemma parts_loop_cases:
  assumes "p \<in> set ps"
  shows "case f p of Inl d \<Rightarrow> d \<in> set (snd (parts_loop f ps)) | Inr None \<Rightarrow> True | Inr (Some r) \<Rightarrow> r \<in> set (fst (parts_loop f ps))"
  using assms by (induction f ps rule: parts_loop.induct) (auto split: sum.splits option.splits prod.splits)

section \<open>Rows\<close>

definition canonical_network :: "NetworkRow \<Rightarrow> bool" where
  "canonical_network r \<longleftrightarrow> canonical_text (nr_CIDR r)"

definition canonical_range :: "RangeRow \<Rightarrow> bool" where
  "canonical_range r \<longleftrightarrow>
     canonical_text (rg_CIDR r) \<and> rg_StartAddress r = [] \<and> rg_EndAddress r = [] \<or>
     rg_CIDR r = [] \<and> address_text (rg_StartAddress r) \<and> address_text (rg_EndAddress r)"

lemma buildNetworkRows_rows:
  assumes "r \<in> set (fst (buildNetworkRows u row cells columns known ap op))"
  shows "canonical_network r \<and> nr_SourceRow r = row"
proof -
  obtain vals extras where sk: "splitKnown cells columns known = (vals, extras)" by fastforce
  obtain accountID part where "network_part u row vals extras ap op accountID part = Inr (Some r)"
    using assms unfolding buildNetworkRows_def sk
    by (auto simp: Let_def dest!: parts_loop_row split: if_splits prod.splits option.splits)
  then show ?thesis using processCIDRCell_canonical
    by (auto simp: network_part_def canonical_network_def network_row_def Let_def split: sum.splits if_splits)
qed

lemma rangeTokenToRow_canonical:
  assumes "rangeTokenToRow u row token desc owner source extras = Inr (Some r)"
  shows "canonical_range r \<and> rg_SourceRow r = row"
  using assms processRangeDash_addresses [of u row "''cidr''" token] processCIDRCell_canonical [of u row "''cidr''" token]
  by (auto simp: rangeTokenToRow_def canonical_range_def range_row_def split: sum.splits option.splits prod.splits if_splits)

lemma buildRangeRows_rows:
  assumes "r \<in> set (fst (buildRangeRows u row cells columns known))"
  shows "canonical_range r \<and> rg_SourceRow r = row"
proof -
  obtain vals extras where sk: "splitKnown cells columns known = (vals, extras)" by fastforce
  let ?val = "mget0 [] vals"
  consider s e where "normalizeRangeAddress u row ''start_address'' (?val ''start_address'') = Inr s"
      "normalizeRangeAddress u row ''end_address'' (?val ''end_address'') = Inr e"
      "r = range_row row [] s e (joinDescription (?val ''description'') [] extras) (?val ''owner'') (?val ''source'')"
    | token where "rangeTokenToRow u row token (?val ''description'') (?val ''owner'') (?val ''source'') extras = Inr (Some r)"
    using assms unfolding buildRangeRows_def sk
    by (auto simp: Let_def dest!: parts_loop_row split: if_splits sum.splits)
  then show ?thesis
  proof cases
    case 1
    then show ?thesis using normalizeRangeAddress_address by (auto simp: canonical_range_def range_row_def)
  next
    case 2
    then show ?thesis by (rule rangeTokenToRow_canonical)
  qed
qed

section \<open>Tables\<close>

text \<open>What a row of the file adds to a table; a blank row and a repeated header add nothing.\<close>

definition skipped :: "golib \<Rightarrow> columns \<Rightarrow> string list \<Rightarrow> bool" where
  "skipped u columns raw \<longleftrightarrow> allEmpty (map cleanCell raw) \<or> isRepeatedHeaderRow u (map cleanCell raw) columns"

definition row_networks :: "golib \<Rightarrow> columns \<Rightarrow> string list \<Rightarrow> nat \<times> string list \<Rightarrow> NetworkRow list \<times> Diagnostic list" where
  "row_networks u columns known = (\<lambda>(i, raw).
     if skipped u columns raw then ([], [])
     else buildNetworkRows u (int i + 1) (map cleanCell raw) columns known
       (headerHasColumn columns ''association_id'') (headerHasColumn columns ''observed_at''))"

definition row_ranges :: "golib \<Rightarrow> columns \<Rightarrow> string list \<Rightarrow> nat \<times> string list \<Rightarrow> RangeRow list \<times> Diagnostic list" where
  "row_ranges u columns known = (\<lambda>(i, raw).
     if skipped u columns raw then ([], []) else buildRangeRows u (int i + 1) (map cleanCell raw) columns known)"

definition row_accounts :: "golib \<Rightarrow> columns \<Rightarrow> string list \<Rightarrow> nat \<times> string list \<Rightarrow> AccountRow option \<times> Diagnostic list" where
  "row_accounts u columns known = (\<lambda>(i, raw).
     if skipped u columns raw then (None, []) else buildAccountRow u (int i + 1) (map cleanCell raw) columns known)"

lemma normalize_kind: "tb_Kind (fold (normalize_row u columns known) xs t) = tb_Kind t"
  by (induction xs arbitrary: t) (auto simp: normalize_row_def Let_def split: prod.splits TableKind.splits)

lemma normalize_networks:
  assumes "tb_Kind t = KindNetworks"
  shows "tb_Networks (fold (normalize_row u columns known) xs t) = tb_Networks t @ concat (map (fst \<circ> row_networks u columns known) xs) \<and>
    tb_Diagnostics (fold (normalize_row u columns known) xs t) = tb_Diagnostics t @ concat (map (snd \<circ> row_networks u columns known) xs) \<and>
    tb_Ranges (fold (normalize_row u columns known) xs t) = tb_Ranges t"
  using assms
  by (induction xs arbitrary: t)
    (auto simp: normalize_row_def row_networks_def skipped_def Let_def split: prod.splits)

lemma normalize_ranges:
  assumes "tb_Kind t = KindRanges"
  shows "tb_Ranges (fold (normalize_row u columns known) xs t) = tb_Ranges t @ concat (map (fst \<circ> row_ranges u columns known) xs) \<and>
    tb_Diagnostics (fold (normalize_row u columns known) xs t) = tb_Diagnostics t @ concat (map (snd \<circ> row_ranges u columns known) xs) \<and>
    tb_Networks (fold (normalize_row u columns known) xs t) = tb_Networks t"
  using assms
  by (induction xs arbitrary: t)
    (auto simp: normalize_row_def row_ranges_def skipped_def Let_def split: prod.splits)

lemma normalize_accounts:
  assumes "tb_Kind t = KindAccounts"
  shows "tb_Accounts (fold (normalize_row u columns known) xs t) =
      tb_Accounts t @ concat (map (\<lambda>x. case fst (row_accounts u columns known x) of None \<Rightarrow> [] | Some r \<Rightarrow> [r]) xs) \<and>
    tb_Diagnostics (fold (normalize_row u columns known) xs t) = tb_Diagnostics t @ concat (map (snd \<circ> row_accounts u columns known) xs) \<and>
    tb_Networks (fold (normalize_row u columns known) xs t) = tb_Networks t \<and> tb_Ranges (fold (normalize_row u columns known) xs t) = tb_Ranges t"
  using assms
  by (induction xs arbitrary: t)
    (auto simp: normalize_row_def row_accounts_def skipped_def Let_def split: prod.splits option.splits)

lemma row_networks_canonical: "r \<in> set (fst (row_networks u columns known x)) \<Longrightarrow> canonical_network r"
  using buildNetworkRows_rows by (fastforce simp: row_networks_def split: prod.splits if_splits)

lemma row_ranges_canonical: "r \<in> set (fst (row_ranges u columns known x)) \<Longrightarrow> canonical_range r"
  using buildRangeRows_rows by (fastforce simp: row_ranges_def split: prod.splits if_splits)

lemma empty_table_sel [simp]:
  "tb_Kind (empty_table kind) = kind" "tb_Networks (empty_table kind) = []" "tb_Ranges (empty_table kind) = []"
  "tb_Accounts (empty_table kind) = []" "tb_Diagnostics (empty_table kind) = []"
  by (simp_all add: empty_table_def)

lemma Normalize_canonical:
  "(\<forall>r \<in> set (tb_Networks (Normalize u kind columns rows)). canonical_network r) \<and>
   (\<forall>r \<in> set (tb_Ranges (Normalize u kind columns rows)). canonical_range r)"
proof (cases kind)
  case NoKind
  then show ?thesis by (simp add: Normalize_def knownColumns_def)
next
  case KindAccounts
  then show ?thesis by (simp add: Normalize_def knownColumns_def normalize_accounts)
next
  case KindNetworks
  then show ?thesis
    by (auto simp: Normalize_def knownColumns_def normalize_networks intro: row_networks_canonical)
next
  case KindRanges
  then show ?thesis
    by (auto simp: Normalize_def knownColumns_def normalize_ranges intro: row_ranges_canonical)
qed

lemma ReadText_Normalize:
  assumes "ReadText u name data = Inr table"
  obtains kind columns rows n where "table = shiftRows (Normalize u kind columns rows) n" "n \<ge> 1"
  using assms by (fastforce simp: ReadText_def Let_def split: sum.splits list.splits prod.splits)

lemma shiftRows_sel [simp]:
  "tb_Kind (shiftRows t n) = tb_Kind t"
  "tb_Networks (shiftRows t n) = map (\<lambda>r. r\<lparr>nr_SourceRow := nr_SourceRow r + n\<rparr>) (tb_Networks t)"
  "tb_Ranges (shiftRows t n) = map (\<lambda>r. r\<lparr>rg_SourceRow := rg_SourceRow r + n\<rparr>) (tb_Ranges t)"
  by (simp_all add: shiftRows_def)

lemma canonical_shift [simp]:
  "canonical_network (r\<lparr>nr_SourceRow := n\<rparr>) = canonical_network r"
  "canonical_range (q\<lparr>rg_SourceRow := n\<rparr>) = canonical_range q"
  by (simp_all add: canonical_network_def canonical_range_def)

lemma ReadText_canonical:
  assumes "ReadText u name data = Inr table"
  shows "(\<forall>r \<in> set (tb_Networks table). canonical_network r) \<and> (\<forall>r \<in> set (tb_Ranges table). canonical_range r)"
proof (rule ReadText_Normalize [OF assms])
  fix kind columns rows n
  assume "table = shiftRows (Normalize u kind columns rows) n"
  then show ?thesis using Normalize_canonical [of u kind columns rows] by simp
qed

text \<open>Which findings of a plan call a CIDR invalid.\<close>

lemma want_rules: "f \<in> set (want_findings cidr have seen cs) \<Longrightarrow> pf_Rule f \<noteq> ''invalid-cidr''"
  by (induction cs arbitrary: seen) (auto simp: new_finding_def stale_finding_def Let_def split: if_splits)

lemma absent_rules: "f \<in> set (absent_findings cidr want seen cs) \<Longrightarrow> pf_Rule f \<noteq> ''invalid-cidr''"
  by (induction cs arbitrary: seen) (auto simp: absent_finding_def split: if_splits)

lemma contributor_rules: "f \<in> set (contributorFindings u rows net) \<Longrightarrow> pf_Rule f \<noteq> ''invalid-cidr''"
  using want_rules absent_rules by (fastforce simp: contributorFindings_def Let_def split: option.splits if_splits)

lemma plan_group_rules: "f \<in> set (snd (plan_group u pools snap nrs g)) \<Longrightarrow> pf_Rule f \<noteq> ''invalid-cidr''"
  using contributor_rules
  by (auto simp: plan_group_def duplicate_findings_def Let_def split: option.splits if_splits)

lemma planPrefix_no_invalid:
  assumes "\<forall>c \<in> set cands. canonical4 (cd_raw c) \<noteq> None" "f \<in> set (snd (planPrefixCandidates u cands pools snap nrs))"
  shows "pf_Rule f \<noteq> ''invalid-cidr''"
proof -
  obtain fs gs os where loop: "fold (group_candidate u) cands ([], [], []) = (fs, gs, os)"
    by (cases "fold (group_candidate u) cands ([], [], [])")
  have "fs = []" using pg.fold_findings [of u cands] assms(1) by (simp add: loop)
  then show ?thesis using assms(2) plan_group_rules by (auto simp: planPrefixCandidates_def loop)
qed

lemma Plan_no_invalid:
  assumes "tb_Kind table = KindNetworks" "\<forall>r \<in> set (tb_Networks table). canonical_network r"
    and plan: "Plan u table cfg domainID snap = Some rep" and f: "f \<in> set (pr_Findings rep)"
  shows "pf_Rule f \<noteq> ''invalid-cidr''"
proof (cases "\<exists>d. plannable cfg domainID snap d")
  case True
  then obtain d where d: "plannable cfg domainID snap d" by blast
  obtain ws fs where x: "planPrefixCandidates u (networkCandidates (tb_Networks table)) (domain_pools cfg d) snap (Some (tb_Networks table)) = (ws, fs)"
    by fastforce
  have "\<forall>c \<in> set (networkCandidates (tb_Networks table)). canonical4 (cd_raw c) \<noteq> None"
    using assms(2) by (auto simp: networkCandidates_def canonical_network_def canonical_text_def)
  then have "pf_Rule f \<noteq> ''invalid-cidr''" if "f \<in> set fs" using planPrefix_no_invalid [of _ f u] that x by (metis snd_conv)
  then show ?thesis using Plan_networks [OF d assms(1) x] plan f by (auto simp: diagnostic_finding_def)
next
  case False
  then show ?thesis using plan f
    by (auto simp: plannable_def Plan_def diagnostic_finding_def Let_def split: option.splits if_splits)
qed

text \<open>
  Reading a table leaves nothing for the plan to repair: every row of a networks table carries the
  canonical text of an IPv4 prefix, every row of a ranges table either that or the canonical text of two IPv4
  addresses, and so a plan of a networks table that was read never calls a CIDR invalid.
\<close>

theorem imported_rows_are_canonical:
  assumes "ReadText u name data = Inr table"
  shows "(\<forall>r \<in> set (tb_Networks table). canonical_network r) \<and> (\<forall>r \<in> set (tb_Ranges table). canonical_range r) \<and>
    (tb_Kind table = KindNetworks \<longrightarrow> (\<forall>cfg domainID snap rep. Plan u table cfg domainID snap = Some rep \<longrightarrow>
       (\<forall>f \<in> set (pr_Findings rep). pf_Rule f \<noteq> ''invalid-cidr'')))"
  using ReadText_canonical [OF assms] Plan_no_invalid by blast

definition ex_library :: golib where
  "ex_library = ex_golib\<lparr>u_ReadCSV := (\<lambda>_ _. Inr
     [[''CIDR-Block'', ''Account Nr.'', ''Region'', ''Team''],
      [''10.0.5.0/24 (prod)'', ''12-34'', ''eu-1'', ''net''], ['','', ''1'', ''eu-1'', []]])\<rparr>"

lemma ex_read:
  "(case ReadText ex_library ''t.csv'' ''x'' of
      Inl _ \<Rightarrow> False
    | Inr t \<Rightarrow> tb_Kind t = KindNetworks \<and>
        map (\<lambda>r. (nr_SourceRow r, nr_CIDR r, nr_AccountID r, nr_Description r)) (tb_Networks t) =
          [(2, ''10.0.5.0/24'', ''000000001234'', ''prod; Team: net'')] \<and>
        map dg_Row (tb_Diagnostics t) = [2, 3])"
  by code_simp

theorem imported_rows_are_canonical_witness:
  "\<exists>t. ReadText ex_library ''t.csv'' ''x'' = Inr t \<and> tb_Networks t \<noteq> [] \<and> (\<forall>r \<in> set (tb_Networks t). canonical_network r)"
proof -
  obtain t where t: "ReadText ex_library ''t.csv'' ''x'' = Inr t" "tb_Networks t \<noteq> []"
    using ex_read by (auto split: sum.splits)
  then show ?thesis using imported_rows_are_canonical [OF t(1)] by blast
qed

section \<open>No row is lost\<close>

lemma account_cell_lost: "account_cell u row s = (None, diags) \<Longrightarrow> \<exists>d \<in> set diags. dg_Row d = row"
  using cell_diagnostics(4) by (fastforce simp: account_cell_def split: if_splits prod.splits option.splits)

lemma network_part_kept:
  assumes "cleanCell part \<noteq> []"
  shows "case network_part u row vals extras ap op a part of
    Inl d \<Rightarrow> dg_Row d = row | Inr None \<Rightarrow> False | Inr (Some r) \<Rightarrow> nr_SourceRow r = row"
  using assms cell_diagnostics(1) processCIDRCell_blank
  by (fastforce simp: network_part_def network_row_def Let_def split: sum.split)

lemma range_part_kept:
  assumes "cleanCell part \<noteq> []"
  shows "case rangeTokenToRow u row part desc owner source extras of
    Inl d \<Rightarrow> dg_Row d = row | Inr None \<Rightarrow> False | Inr (Some r) \<Rightarrow> rg_SourceRow r = row"
  using assms cell_diagnostics(1,2) processCIDRCell_blank
  by (fastforce simp: rangeTokenToRow_def range_row_def split: sum.split option.split)

definition cidr_value :: "columns \<Rightarrow> string list \<Rightarrow> string list \<Rightarrow> string" where
  "cidr_value columns known raw = mget0 [] (fst (splitKnown (map cleanCell raw) columns known)) ''cidr''"

text \<open>A CIDR cell of separators only, such as a lone comma: no part of it holds anything.\<close>

definition only_separators :: "string \<Rightarrow> bool" where
  "only_separators s \<longleftrightarrow> s \<noteq> [] \<and> (\<forall>part \<in> set (splitCIDRList s). cleanCell part = [])"

lemma parts_kept:
  assumes "part \<in> set ps" "case f part of Inl d \<Rightarrow> Q d | Inr None \<Rightarrow> False | Inr (Some r) \<Rightarrow> P r"
  shows "(\<exists>r \<in> set (fst (parts_loop f ps)). P r) \<or> (\<exists>d \<in> set (snd (parts_loop f ps)). Q d)"
  using parts_loop_cases [OF assms(1), of f] assms(2) by (auto split: sum.splits option.splits)

lemma buildNetworkRows_kept:
  assumes "\<not> only_separators (cidr_value columns known raw)"
  shows "(\<exists>r \<in> set (fst (buildNetworkRows u row (map cleanCell raw) columns known ap op)). nr_SourceRow r = row) \<or>
    (\<exists>d \<in> set (snd (buildNetworkRows u row (map cleanCell raw) columns known ap op)). dg_Row d = row)"
proof -
  obtain vals extras where sk: "splitKnown (map cleanCell raw) columns known = (vals, extras)" by fastforce
  obtain a diags where ac: "account_cell u row (mget0 [] vals ''account_id'') = (a, diags)" by fastforce
  consider "mget0 [] vals ''cidr'' = []" | "mget0 [] vals ''cidr'' \<noteq> []" "a = None"
    | part acc where "part \<in> set (splitCIDRList (mget0 [] vals ''cidr''))" "cleanCell part \<noteq> []" "mget0 [] vals ''cidr'' \<noteq> []" "a = Some acc"
    using assms by (auto simp: only_separators_def cidr_value_def sk)
  then show ?thesis
  proof cases
    case 1
    then show ?thesis by (simp add: buildNetworkRows_def sk diagnostic_def)
  next
    case 2
    then show ?thesis using account_cell_lost [of u row "mget0 [] vals ''account_id''" diags] ac by (simp add: buildNetworkRows_def sk)
  next
    case 3
    show ?thesis
      using parts_kept [OF 3(1), where f = "network_part u row vals extras ap op acc" and Q = "\<lambda>d. dg_Row d = row" and P = "\<lambda>r. nr_SourceRow r = row"]
        network_part_kept [OF 3(2)] 3(3,4) by (auto simp: buildNetworkRows_def sk ac Let_def)
  qed
qed

lemma buildRangeRows_kept:
  assumes "\<not> only_separators (cidr_value columns known raw)"
  shows "(\<exists>r \<in> set (fst (buildRangeRows u row (map cleanCell raw) columns known)). rg_SourceRow r = row) \<or>
    (\<exists>d \<in> set (snd (buildRangeRows u row (map cleanCell raw) columns known)). dg_Row d = row)"
proof -
  obtain vals extras where sk: "splitKnown (map cleanCell raw) columns known = (vals, extras)" by fastforce
  let ?val = "mget0 [] vals" and ?f = "\<lambda>part. rangeTokenToRow u row part (mget0 [] vals ''description'') (mget0 [] vals ''owner'') (mget0 [] vals ''source'') extras"
  consider "?val ''start_address'' \<noteq> [] \<or> ?val ''end_address'' \<noteq> []"
    | "?val ''start_address'' = []" "?val ''end_address'' = []" "?val ''cidr'' = []"
    | part where "?val ''start_address'' = []" "?val ''end_address'' = []" "?val ''cidr'' \<noteq> []"
        "part \<in> set (splitCIDRList (?val ''cidr''))" "cleanCell part \<noteq> []"
    using assms by (auto simp: only_separators_def cidr_value_def sk)
  then show ?thesis
  proof cases
    case 1
    then show ?thesis using cell_diagnostics(3)
      by (auto simp: buildRangeRows_def sk range_row_def Let_def split: sum.split)
  next
    case 2
    then show ?thesis by (simp add: buildRangeRows_def sk diagnostic_def)
  next
    case 3
    then show ?thesis
      using parts_kept [OF 3(4), where f = ?f and Q = "\<lambda>d. dg_Row d = row" and P = "\<lambda>r. rg_SourceRow r = row"] range_part_kept [OF 3(5)]
      by (simp add: buildRangeRows_def sk Let_def)
  qed
qed

lemma buildAccountRow_kept:
  "(\<exists>r. fst (buildAccountRow u row cells columns known) = Some r \<and> ar_SourceRow r = row) \<or>
   (\<exists>d \<in> set (snd (buildAccountRow u row cells columns known)). dg_Row d = row)"
  using account_cell_lost by (fastforce simp: buildAccountRow_def Let_def split: prod.split option.split)

lemma enumerate_mem: "i < length rows \<Longrightarrow> (i, rows ! i) \<in> set (enumerate 0 rows)"
  by (auto simp: in_set_enumerate_eq)

text \<open>
  C32. No row of a file is lost: every row that is neither blank nor the header again ends up as a row of the
  table under its own number or in a diagnostic with that number. The one exception is a CIDR cell that holds
  nothing but separators.
\<close>

theorem no_row_is_lost:
  assumes "knownColumns kind = Some known" "i < length rows" "\<not> skipped u columns (rows ! i)"
    and "\<not> only_separators (cidr_value columns known (rows ! i))"
  shows "(\<exists>d \<in> set (tb_Diagnostics (Normalize u kind columns rows)). dg_Row d = int i + 1) \<or>
    (\<exists>r \<in> set (tb_Accounts (Normalize u kind columns rows)). ar_SourceRow r = int i + 1) \<or>
    (\<exists>r \<in> set (tb_Networks (Normalize u kind columns rows)). nr_SourceRow r = int i + 1) \<or>
    (\<exists>r \<in> set (tb_Ranges (Normalize u kind columns rows)). rg_SourceRow r = int i + 1)"
proof (cases kind)
  case NoKind
  then show ?thesis using assms(1) by (simp add: knownColumns_def)
next
  case KindAccounts
  have "row_accounts u columns known (i, rows ! i) = buildAccountRow u (int i + 1) (map cleanCell (rows ! i)) columns known"
    using assms(3) by (simp add: row_accounts_def)
  then show ?thesis
    using buildAccountRow_kept [of u "int i + 1" "map cleanCell (rows ! i)" columns known] enumerate_mem [OF assms(2)] KindAccounts assms(1)
    by (fastforce simp: Normalize_def normalize_accounts)
next
  case KindNetworks
  have "row_networks u columns known (i, rows ! i) = buildNetworkRows u (int i + 1) (map cleanCell (rows ! i)) columns known
      (headerHasColumn columns ''association_id'') (headerHasColumn columns ''observed_at'')"
    using assms(3) by (simp add: row_networks_def)
  then show ?thesis
    using buildNetworkRows_kept [OF assms(4), of u "int i + 1" "headerHasColumn columns ''association_id''" "headerHasColumn columns ''observed_at''"]
      enumerate_mem [OF assms(2)] KindNetworks assms(1)
    by (fastforce simp: Normalize_def normalize_networks)
next
  case KindRanges
  have "row_ranges u columns known (i, rows ! i) = buildRangeRows u (int i + 1) (map cleanCell (rows ! i)) columns known"
    using assms(3) by (simp add: row_ranges_def)
  then show ?thesis
    using buildRangeRows_kept [OF assms(4), of u "int i + 1"] enumerate_mem [OF assms(2)] KindRanges assms(1)
    by (fastforce simp: Normalize_def normalize_ranges)
qed

theorem no_row_is_lost_witness:
  "(\<exists>d \<in> set (tb_Diagnostics (Normalize ex_golib KindRanges [(0, ''cidr'')] [[''10.0.0.1/24'']])). dg_Row d = 1) \<or>
   (\<exists>r \<in> set (tb_Ranges (Normalize ex_golib KindRanges [(0, ''cidr'')] [[''10.0.0.1/24'']])). rg_SourceRow r = 1)"
proof -
  have "knownColumns KindRanges = Some [''cidr'', ''start_address'', ''end_address'', ''description'', ''owner'', ''source'']" by (simp add: knownColumns_def)
  moreover have "\<not> skipped ex_golib [(0, ''cidr'')] [''10.0.0.1/24'']" by code_simp
  moreover have "\<not> only_separators (cidr_value [(0, ''cidr'')] [''cidr'', ''start_address'', ''end_address'', ''description'', ''owner'', ''source''] [''10.0.0.1/24''])" by code_simp
  moreover have "tb_Accounts (Normalize ex_golib KindRanges [(0, ''cidr'')] [[''10.0.0.1/24'']]) = []"
      "tb_Networks (Normalize ex_golib KindRanges [(0, ''cidr'')] [[''10.0.0.1/24'']]) = []" by code_simp+
  ultimately show ?thesis using no_row_is_lost [of KindRanges _ 0 "[[''10.0.0.1/24'']]" ex_golib "[(0, ''cidr'')]"] by simp
qed

text \<open>The exception is real: a networks row whose CIDR cell is a lone comma leaves no trace.\<close>

lemma comma_cell_is_dropped:
  "(let t = Normalize ex_golib KindNetworks [(0, ''cidr''), (1, ''account_id''), (2, ''region'')] [['','', ''123456789012'', ''eu-1'']]
    in tb_Networks t = [] \<and> tb_Diagnostics t = [])"
  by code_simp

text \<open>The CIDR pattern is not anchored: three digits after the slash are read as two and a decoration.\<close>

lemma long_prefix_length_is_cut:
  "processCIDRCell ex_golib 1 ''cidr'' ''10.0.0.0/240'' = Inr (''10.0.0.0/24'', ''0'')"
  by code_simp

section \<open>Unknown columns\<close>

lemma Join_parts: "x \<in> set xs \<Longrightarrow> \<exists>a b. Join xs sep = a @ x @ b"
proof (induction xs sep rule: Join.induct)
  case (2 x' sep)
  then show ?case by (intro exI [of _ "[]"]) simp
next
  case (3 x' y ys sep)
  show ?case
  proof (cases "x = x'")
    case True
    then show ?thesis by (intro exI [of _ "[]"] exI [of _ "sep @ Join (y # ys) sep"]) simp
  next
    case False
    then obtain a b where "Join (y # ys) sep = a @ x @ b" using 3 by auto
    then show ?thesis by (intro exI [of _ "x' @ sep @ a"] exI [of _ b]) simp
  qed
qed simp

lemma split_cell_extras:
  "e \<in> set (snd st) \<Longrightarrow> e \<in> set (snd (split_cell columns known x st))"
  by (cases st; cases x) (auto simp: split_cell_def Let_def)

lemma fold_extras: "e \<in> set (snd st) \<Longrightarrow> e \<in> set (snd (fold (split_cell columns known) xs st))"
  by (induction xs arbitrary: st) (simp_all add: split_cell_extras del: split_paired_All split_paired_Ex)

text \<open>A value under a header that the kind of table does not know is part of the row's description.\<close>

lemma unknown_column_kept:
  assumes "(i, v) \<in> set (enumerate 0 cells)" "v \<noteq> []" "map_of columns i = Some name" "name \<notin> set known"
  shows "\<exists>a b. joinDescription explicit decoration (snd (splitKnown cells columns known)) = a @ (name @ '': '' @ v) @ b"
proof -
  have "name @ '': '' @ v \<in> set (snd (fold (split_cell columns known) xs st))" if "(i, v) \<in> set xs" for xs st
    using that
  proof (induction xs arbitrary: st)
    case (Cons x xs)
    show ?case
    proof (cases "x = (i, v)")
      case True
      then have "name @ '': '' @ v \<in> set (snd (split_cell columns known x st))"
        using assms(2-4) by (cases st) (simp add: split_cell_def)
      then show ?thesis by (simp add: fold_extras)
    next
      case False
      then show ?thesis using Cons by simp
    qed
  qed simp
  then have "name @ '': '' @ v \<in> set (snd (splitKnown cells columns known))" using assms(1) by (simp add: splitKnown_def)
  then show ?thesis unfolding joinDescription_def by (intro Join_parts) simp
qed

end
