(* ===== verification/MigratePlan.thy ===== *)
theory MigratePlan
  imports GoStrings
begin

text \<open>
  The reviewed migration plan and its structural validation (\<open>plan.go\<close> and \<open>plan_validate.go\<close> of
  \<open>internal/migrate\<close>): which documents are refused before any evidence is read. The dependency check is
  the depth-first search of the code with its three colours; it is shown to end and to refuse exactly the
  plans whose dependencies form a cycle.
\<close>

section \<open>The plan\<close>

record Approval =
  ap_ApprovedBy :: string
  ap_ApprovedAt :: string
  ap_Approves :: string

record Wave =
  wv_ID :: string
  wv_Name :: string
  wv_Window :: string
  wv_Owner :: string
  wv_Approval :: "Approval option"
  wv_SourceFile :: string

record Subject =
  sj_AccountID :: string
  sj_Region :: string
  sj_VPCID :: string

definition SubjectIdentity :: "Subject \<Rightarrow> string" where
  "SubjectIdentity s = ''aws:'' @ sj_AccountID s @ '':'' @ sj_Region s @ '':'' @ sj_VPCID s"

text \<open>A disposition is text; the four below are the defined ones.\<close>

definition DispositionReplace :: string where "DispositionReplace = ''replace''"
definition DispositionKeep :: string where "DispositionKeep = ''keep''"
definition DispositionRetire :: string where "DispositionRetire = ''retire''"
definition DispositionUndecided :: string where "DispositionUndecided = ''undecided''"

record Target =
  tg_TenantID :: string
  tg_AllocationKey :: string
  tg_Scope :: string
  tg_Environment :: string
  tg_Region :: string
  tg_AccountID :: string
  tg_PrefixLength :: "int option"
  tg_ParentAllocationKey :: string

definition target_key :: "Target \<Rightarrow> string \<times> string" where
  "target_key t = (tg_TenantID t, tg_AllocationKey t)"

definition overspecified :: "Target \<Rightarrow> bool" where
  "overspecified t \<longleftrightarrow>
     tg_Scope t \<noteq> [] \<or> tg_Environment t \<noteq> [] \<or> tg_Region t \<noteq> [] \<or> tg_AccountID t \<noteq> [] \<or>
     tg_PrefixLength t \<noteq> None \<or> tg_ParentAllocationKey t \<noteq> []"

record Blocker =
  bl_ID :: string
  bl_Description :: string

record Verification =
  vf_ID :: string
  vf_Description :: string
  vf_RanBy :: string
  vf_RanAt :: string
  vf_Outcome :: string

record Move =
  mv_Subject :: Subject
  mv_Disposition :: string
  mv_Wave :: string
  mv_Owner :: string
  mv_Approval :: "Approval option"
  mv_DependsOn :: "Subject list"
  mv_Blockers :: "Blocker list"
  mv_Rollback :: string
  mv_Verification :: "Verification list"
  mv_Resolves :: "string list"
  mv_Notes :: string
  mv_Target :: "Target option"
  mv_SourceFile :: string

record MigrationPlan =
  mp_Version :: int
  mp_PlanID :: string
  mp_Waves :: "Wave list"
  mp_Moves :: "Move list"

definition Merge :: "MigrationPlan list \<Rightarrow> MigrationPlan" where
  "Merge plans =
     \<lparr>mp_Version = (case plans of [] \<Rightarrow> 0 | p # _ \<Rightarrow> mp_Version p),
      mp_PlanID = (case plans of [] \<Rightarrow> [] | p # _ \<Rightarrow> mp_PlanID p),
      mp_Waves = concat (map mp_Waves plans), mp_Moves = concat (map mp_Moves plans)\<rparr>"

section \<open>Refusals\<close>

datatype RefusalKind =
    RefusalDuplicateSubject | RefusalDuplicateTargetKey | RefusalUndefinedWave | RefusalUndefinedDependency
  | RefusalDependencyCycle | RefusalMissingTarget | RefusalOverspecifiedTarget | RefusalUnknownDisposition
  | RefusalIncompleteSubject | RefusalDuplicateWave

record StructuralError =
  se_File :: string
  se_Key :: string
  se_Kind :: RefusalKind
  se_Detail :: string

definition refusal :: "RefusalKind \<Rightarrow> string \<Rightarrow> string \<Rightarrow> string \<Rightarrow> StructuralError" where
  "refusal kind file key detail = \<lparr>se_File = file, se_Key = key, se_Kind = kind, se_Detail = detail\<rparr>"

definition move_id :: "Move \<Rightarrow> string" where
  "move_id m = SubjectIdentity (mv_Subject m)"

fun duplicate_subjects :: "Move gomap \<Rightarrow> Move list \<Rightarrow> StructuralError option" where
  "duplicate_subjects seen [] = None"
| "duplicate_subjects seen (m # ms) =
     (case mget seen (move_id m) of
        Some prior \<Rightarrow>
          Some (refusal RefusalDuplicateSubject (mv_SourceFile m) (move_id m)
                  (''subject '' @ move_id m @ '' already has a move in '' @ mv_SourceFile prior))
      | None \<Rightarrow> duplicate_subjects (mput (move_id m) m seen) ms)"

definition validateDuplicateSubjects :: "MigrationPlan \<Rightarrow> StructuralError option" where
  "validateDuplicateSubjects p = duplicate_subjects [] (mp_Moves p)"

fun duplicate_targets :: "((string \<times> string) \<times> Move) list \<Rightarrow> Move list \<Rightarrow> StructuralError option" where
  "duplicate_targets seen [] = None"
| "duplicate_targets seen (m # ms) =
     (case mv_Target m of
        None \<Rightarrow> duplicate_targets seen ms
      | Some t \<Rightarrow>
          let k = target_key t
          in if k = ([], []) then duplicate_targets seen ms
             else case map_of seen k of
               Some prior \<Rightarrow>
                 Some (refusal RefusalDuplicateTargetKey (mv_SourceFile m) (fst k @ ''/'' @ snd k)
                         (''target key '' @ fst k @ ''/'' @ snd k @ '' already used by the move for subject '' @
                          move_id prior @ '' in '' @ mv_SourceFile prior))
             | None \<Rightarrow> duplicate_targets (AList.update k m seen) ms)"

definition validateDuplicateTargetKeys :: "MigrationPlan \<Rightarrow> StructuralError option" where
  "validateDuplicateTargetKeys p = duplicate_targets [] (mp_Moves p)"

text \<open>The definitions of waves: the first definition of each, or the refusal of one that differs.\<close>

fun wave_definitions :: "golib \<Rightarrow> Wave gomap \<Rightarrow> Wave list \<Rightarrow> StructuralError + Wave gomap" where
  "wave_definitions u seen [] = Inr seen"
| "wave_definitions u seen (w # ws) =
     (case mget seen (wv_ID w) of
        Some first \<Rightarrow>
          if first\<lparr>wv_SourceFile := []\<rparr> \<noteq> w\<lparr>wv_SourceFile := []\<rparr>
          then Inl (refusal RefusalDuplicateWave (wv_SourceFile w) (wv_ID w)
                      (''wave '' @ Quote u (wv_ID w) @ '' is defined differently in '' @ wv_SourceFile first))
          else wave_definitions u seen ws
      | None \<Rightarrow> wave_definitions u (mput (wv_ID w) w seen) ws)"

definition dispositions :: "string list" where
  "dispositions = [DispositionReplace, DispositionKeep, DispositionRetire, DispositionUndecided]"

text \<open>One move, checked in the order of the code.\<close>

definition validate_move :: "golib \<Rightarrow> string list \<Rightarrow> string list \<Rightarrow> Move \<Rightarrow> StructuralError option" where
  "validate_move u waveIDs subjects m =
     (let refuse = (\<lambda>kind key detail. Some (refusal kind (mv_SourceFile m) key detail)); s = mv_Subject m
      in if sj_AccountID s = [] \<or> sj_Region s = [] \<or> sj_VPCID s = []
         then refuse RefusalIncompleteSubject (move_id m) ''a subject names an account, a region and a VPC id, all three''
         else if mv_Disposition m \<notin> set dispositions
         then refuse RefusalUnknownDisposition (move_id m)
                (''disposition '' @ Quote u (mv_Disposition m) @ '' is not one of replace, keep, retire, undecided'')
         else if mv_Wave m \<notin> set waveIDs
         then refuse RefusalUndefinedWave (mv_Wave m)
                (''move '' @ move_id m @ '' names wave '' @ Quote u (mv_Wave m) @ '', which no supplied document defines'')
         else case find (\<lambda>dep. SubjectIdentity dep \<notin> set subjects) (mv_DependsOn m) of
           Some dep \<Rightarrow>
             refuse RefusalUndefinedDependency (SubjectIdentity dep)
               (''move '' @ move_id m @ '' depends_on '' @ SubjectIdentity dep @ '', which no move in the supplied documents defines'')
         | None \<Rightarrow>
             if mv_Disposition m = DispositionReplace \<and> mv_Target m = None
             then refuse RefusalMissingTarget (move_id m) ''a replace move must carry a target''
             else if mv_Disposition m = DispositionKeep \<and> (\<exists>t \<in> set_option (mv_Target m). overspecified t)
             then refuse RefusalOverspecifiedTarget (move_id m)
                    (''a keep move'' @ [CHR 0x27] @ ''s target may name only tenant_id and allocation_key -- adoption pins the CIDR the VPC already has'')
             else None)"

section \<open>The search for a cycle\<close>

definition adjacency :: "MigrationPlan \<Rightarrow> string \<Rightarrow> string list" where
  "adjacency p node =
     concat (map (\<lambda>m. if move_id m = node then map SubjectIdentity (mv_DependsOn m) else []) (mp_Moves p))"

definition last_move_file :: "MigrationPlan \<Rightarrow> string \<Rightarrow> string" where
  "last_move_file p node = (case find (\<lambda>m. move_id m = node) (rev (mp_Moves p)) of Some m \<Rightarrow> mv_SourceFile m | None \<Rightarrow> [])"

datatype color = White | Gray | Black

text \<open>\<open>path[start:]\<close> from the first place of \<open>next\<close>, closed by \<open>next\<close>.\<close>

definition cycle_error :: "MigrationPlan \<Rightarrow> string list \<Rightarrow> string \<Rightarrow> string \<Rightarrow> StructuralError" where
  "cycle_error p path node nxt =
     (let cycle = (if nxt \<in> set path then dropWhile (\<lambda>n. n \<noteq> nxt) path else path) @ [nxt]
      in refusal RefusalDependencyCycle (last_move_file p node) nxt (''depends_on cycle: '' @ Join cycle '' -> ''))"

text \<open>
  The successors of a node, one after the other; \<open>visit\<close> on a white one. \<open>path\<close> is an argument because the
  code has restored it whenever a call returns without a cycle. The first argument of \<open>visit\<close> bounds the
  depth of the recursion; \<open>None\<close> is that it was not enough.
\<close>

fun visit_successors ::
    "(string \<Rightarrow> color gomap \<Rightarrow> (StructuralError + color gomap) option) \<Rightarrow> (string \<Rightarrow> StructuralError) \<Rightarrow> string list \<Rightarrow>
     color gomap \<Rightarrow> (StructuralError + color gomap) option" where
  "visit_successors v cyc [] colors = Some (Inr colors)"
| "visit_successors v cyc (nxt # ns) colors =
     (case mget0 White colors nxt of
        White \<Rightarrow>
          (case v nxt colors of
             None \<Rightarrow> None
           | Some (Inl e) \<Rightarrow> Some (Inl e)
           | Some (Inr colors') \<Rightarrow> visit_successors v cyc ns colors')
      | Gray \<Rightarrow> Some (Inl (cyc nxt))
      | Black \<Rightarrow> visit_successors v cyc ns colors)"

fun visit :: "nat \<Rightarrow> MigrationPlan \<Rightarrow> string list \<Rightarrow> string \<Rightarrow> color gomap \<Rightarrow> (StructuralError + color gomap) option" where
  "visit 0 p path node colors = None"
| "visit (Suc depth) p path node colors =
     (case visit_successors (visit depth p (path @ [node])) (cycle_error p (path @ [node]) node) (adjacency p node) (mput node Gray colors) of
        Some (Inr colors') \<Rightarrow> Some (Inr (mput node Black colors'))
      | other \<Rightarrow> other)"

fun visit_moves :: "nat \<Rightarrow> MigrationPlan \<Rightarrow> Move list \<Rightarrow> color gomap \<Rightarrow> (StructuralError + color gomap) option" where
  "visit_moves depth p [] colors = Some (Inr colors)"
| "visit_moves depth p (m # ms) colors =
     (if mget0 White colors (move_id m) = White
      then (case visit depth p [] (move_id m) colors of
              Some (Inr colors') \<Rightarrow> visit_moves depth p ms colors'
            | other \<Rightarrow> other)
      else visit_moves depth p ms colors)"

text \<open>As deep as there are subjects and dependencies to visit.\<close>

definition search_depth :: "MigrationPlan \<Rightarrow> nat" where
  "search_depth p = Suc (length (mp_Moves p) + length (concat (map mv_DependsOn (mp_Moves p))))"

definition validateDependencyCycle :: "MigrationPlan \<Rightarrow> StructuralError option option" where
  "validateDependencyCycle p =
     map_option (\<lambda>r. case r of Inl e \<Rightarrow> Some e | Inr _ \<Rightarrow> None) (visit_moves (search_depth p) p (mp_Moves p) [])"

definition ValidatePlan :: "golib \<Rightarrow> MigrationPlan \<Rightarrow> StructuralError option option" where
  "ValidatePlan u p =
     (case first_error [validateDuplicateSubjects p, validateDuplicateTargetKeys p] of
        Some e \<Rightarrow> Some (Some e)
      | None \<Rightarrow>
          (case wave_definitions u [] (mp_Waves p) of
             Inl e \<Rightarrow> Some (Some e)
           | Inr waves \<Rightarrow>
               (case first_error (map (validate_move u (map fst waves) (map move_id (mp_Moves p))) (mp_Moves p)) of
                  Some e \<Rightarrow> Some (Some e)
                | None \<Rightarrow> validateDependencyCycle p)))"

end
