(* ===== verification/MigrateDerive.thy ===== *)
theory MigrateDerive
  imports AssessReport MigratePlan
begin

text \<open>
  The derived progress of a migration (\<open>derive.go\<close>, \<open>derive_facts.go\<close>, \<open>evidence.go\<close>, \<open>report.go\<close> and
  \<open>report_templates.go\<close> of \<open>internal/migrate\<close>): for every planned move the fact about its subject, the fact
  about its target and the conflicts that touch it, from the assessment and from exported allocations. What
  a reviewer typed is carried beside them. Encoding the report is not modelled.
\<close>

definition subject_key :: "Subject \<Rightarrow> string" where
  "subject_key s = sj_AccountID s @ us @ sj_Region s @ us @ sj_VPCID s"

section \<open>Allocation evidence\<close>

definition StateActive :: string where "StateActive = ''ACTIVE''"
definition StateQuarantined :: string where "StateQuarantined = ''QUARANTINED''"
definition StateReleased :: string where "StateReleased = ''RELEASED''"

record EvidenceAllocation =
  ea_TenantID :: string
  ea_AllocationKey :: string
  ea_Scope :: string
  ea_Environment :: string
  ea_Region :: string
  ea_AccountID :: string
  ea_PrefixLength :: "int option"
  ea_ParentAllocationKey :: string
  ea_State :: string
  ea_BindingVerifiedAt :: string

record EvidenceFile =
  ef_ReadAt :: string
  ef_Scope :: string
  ef_Allocations :: "EvidenceAllocation list"
  ef_SourceFile :: string

record DerivedEvidenceAllocation =
  da_TenantID :: string
  da_AllocationKey :: string
  da_Scope :: string
  da_Environment :: string
  da_Region :: string
  da_AccountID :: string
  da_PrefixLength :: int
  da_ParentAllocationKey :: string
  da_State :: string
  da_VerifiedAt :: "string option"

record DerivedEvidenceFile =
  df_Scope :: string
  df_ReadAt :: string
  df_Allocations :: "DerivedEvidenceAllocation list"
  df_Path :: string
  df_Content :: string

definition derived_allocation :: "EvidenceAllocation \<Rightarrow> DerivedEvidenceAllocation" where
  "derived_allocation a =
     \<lparr>da_TenantID = ea_TenantID a, da_AllocationKey = ea_AllocationKey a, da_Scope = ea_Scope a,
      da_Environment = ea_Environment a, da_Region = ea_Region a, da_AccountID = ea_AccountID a,
      da_PrefixLength = (case ea_PrefixLength a of None \<Rightarrow> 0 | Some n \<Rightarrow> n),
      da_ParentAllocationKey = ea_ParentAllocationKey a, da_State = ea_State a,
      da_VerifiedAt = (if ea_BindingVerifiedAt a \<noteq> [] then Some (ea_BindingVerifiedAt a) else None)\<rparr>"

definition toDerivedEvidenceFile :: "EvidenceFile \<Rightarrow> string \<Rightarrow> DerivedEvidenceFile" where
  "toDerivedEvidenceFile ev raw =
     \<lparr>df_Scope = ef_Scope ev, df_ReadAt = ef_ReadAt ev, df_Allocations = map derived_allocation (ef_Allocations ev),
      df_Path = ef_SourceFile ev, df_Content = raw\<rparr>"

definition scopeOperator :: string where "scopeOperator = ''operator''"

record evidenceIndex =
  ei_files :: "DerivedEvidenceFile list"
  ei_scopes :: "string list"
  ei_hasOperator :: bool
  ei_anyScopeMissing :: bool
  ei_byKey :: "((string \<times> string) \<times> DerivedEvidenceAllocation) list"

definition index_allocation ::
    "DerivedEvidenceAllocation \<Rightarrow> ((string \<times> string) \<times> DerivedEvidenceAllocation) list \<Rightarrow>
     ((string \<times> string) \<times> DerivedEvidenceAllocation) list" where
  "index_allocation a byKey = AList.update (da_TenantID a, da_AllocationKey a) a byKey"

definition index_file :: "DerivedEvidenceFile \<Rightarrow> evidenceIndex \<Rightarrow> evidenceIndex" where
  "index_file f idx =
     (let scoped = (if df_Scope f = [] then idx\<lparr>ei_anyScopeMissing := True\<rparr>
                    else idx\<lparr>ei_scopes := List.insert (df_Scope f) (ei_scopes idx),
                             ei_hasOperator := ei_hasOperator idx \<or> df_Scope f = scopeOperator\<rparr>)
      in scoped\<lparr>ei_byKey := fold index_allocation (df_Allocations f) (ei_byKey scoped)\<rparr>)"

text \<open>Files in the order of their paths; of two rows for one key the later one stays.\<close>

definition buildEvidenceIndex :: "DerivedEvidenceFile list \<Rightarrow> evidenceIndex" where
  "buildEvidenceIndex files =
     (let sorted_files = sort_key df_Path files
      in fold index_file sorted_files
           \<lparr>ei_files = sorted_files, ei_scopes = [], ei_hasOperator = False, ei_anyScopeMissing = False, ei_byKey = []\<rparr>)"

definition visibleForTenant :: "evidenceIndex \<Rightarrow> string \<Rightarrow> bool" where
  "visibleForTenant idx tenantID \<longleftrightarrow> ei_hasOperator idx \<or> tenantID \<in> set (ei_scopes idx)"

definition lookup_evidence :: "evidenceIndex \<Rightarrow> string \<Rightarrow> string \<Rightarrow> DerivedEvidenceAllocation option" where
  "lookup_evidence idx tenantID allocationKey = map_of (ei_byKey idx) (tenantID, allocationKey)"

definition evidence_complete :: "evidenceIndex \<Rightarrow> bool \<Rightarrow> string list \<Rightarrow> bool" where
  "evidence_complete idx assessmentCoverageComplete targetTenants \<longleftrightarrow>
     assessmentCoverageComplete \<and> ei_files idx \<noteq> [] \<and> list_all (visibleForTenant idx) targetTenants"

definition sortedScopes :: "evidenceIndex \<Rightarrow> string list" where
  "sortedScopes idx = sort (ei_scopes idx)"

definition sortedReadInstants :: "evidenceIndex \<Rightarrow> string list" where
  "sortedReadInstants idx = sort (remdups (filter (\<lambda>r. r \<noteq> []) (map df_ReadAt (ei_files idx))))"

definition evidence_digests :: "Crypto \<Rightarrow> DerivedEvidenceFile list \<Rightarrow> (string \<times> string) list" where
  "evidence_digests K files = map (\<lambda>f. (df_Path f, sha256hex K (df_Content f))) files"

definition sortedDigests :: "Crypto \<Rightarrow> evidenceIndex \<Rightarrow> (string \<times> string) list" where
  "sortedDigests K idx = sort_key fst (evidence_digests K (ei_files idx))"

definition evidenceScopeIncompleteFor :: "evidenceIndex \<Rightarrow> string list \<Rightarrow> string list" where
  "evidenceScopeIncompleteFor idx targetTenants = sort (filter (\<lambda>t. \<not> visibleForTenant idx t) targetTenants)"

definition inputLimits :: "evidenceIndex \<Rightarrow> string list \<Rightarrow> string list" where
  "inputLimits idx targetTenants =
     sort ((if ei_files idx = [] then [''no-evidence-supplied''] else []) @
           (if ei_anyScopeMissing idx then [''evidence-scope-missing''] else []) @
           (if evidenceScopeIncompleteFor idx targetTenants \<noteq> [] then [''evidence-scope-not-covered''] else []))"

section \<open>The fact about a subject\<close>

datatype SubjectFact = SubjectObserved | SubjectNotObserved | SubjectUnknown

definition subject_fact_text :: "SubjectFact \<Rightarrow> string" where
  "subject_fact_text f = (case f of SubjectObserved \<Rightarrow> ''observed'' | SubjectNotObserved \<Rightarrow> ''not-observed'' | SubjectUnknown \<Rightarrow> ''unknown'')"

definition orWhole :: "string \<Rightarrow> string" where
  "orWhole region = (if region = [] then ''(whole account)'' else region)"

text \<open>The first coverage entry that leaves the account and region open, as the reason it gives.\<close>

definition coverageIncompleteFor :: "Coverage \<Rightarrow> string \<Rightarrow> string \<Rightarrow> string option" where
  "coverageIncompleteFor c accountID region =
     (let place = (\<lambda>a r. ''account '' @ a @ '' region '' @ r)
      in if cv_RunMissing c then Some ''run.json is missing; coverage cannot be determined for any account or region''
         else if cv_AccountsMissing c then Some ''accounts.json is missing; the expected account set is unknown''
         else first_error
           [map_option (\<lambda>f. place (fe_AccountID f) (orWhole (fe_Region f)) @ '': failed at stage '' @ fe_Stage f @ '' (failures.csv)'')
              (find (\<lambda>f. fe_AccountID f = accountID \<and> (fe_Region f = [] \<or> fe_Region f = region)) (cv_Failed c)),
            map_option (\<lambda>(a, r). place a r @ '': partial (describe failed after some rows were written)'')
              (find (\<lambda>(a, r). a = accountID \<and> r = region) (cv_Partial c)),
            map_option (\<lambda>(a, r). place a (orWhole r) @ '': not attempted'')
              (find (\<lambda>(a, r). a = accountID \<and> (r = [] \<or> r = region)) (cv_NotAttempted c)),
            map_option (\<lambda>m. place (rc_AccountID m) (rc_Region m) @ '': run.json recorded '' @ itoa (rc_Recorded m) @ '' rows, only '' @
                          itoa (rc_Present m) @ '' present (row_count_short)'')
              (find (\<lambda>m. rc_AccountID m = accountID \<and> rc_Region m = region) (cv_RowCountShort c))])"

definition knownSubjectSet :: "Input \<Rightarrow> string list" where
  "knownSubjectSet inp =
     map (\<lambda>r. subject_key \<lparr>sj_AccountID = rr_AccountID r, sj_Region = rr_Region r, sj_VPCID = rr_ResourceID r\<rparr>)
       (filter (\<lambda>r. rr_Type r = TypeVPC) (in_Records inp))"

definition knownAccountSet :: "Input \<Rightarrow> string list" where
  "knownAccountSet inp = map ac_AccountID (in_Accounts inp)"

definition unmatched_reason :: string where
  "unmatched_reason = ''the account id does not appear in the observed account list at all; the report cannot tell a typo from a resource outside the scope that was read''"

definition subjectFact :: "Subject \<Rightarrow> Coverage \<Rightarrow> string list \<Rightarrow> string list \<Rightarrow> SubjectFact \<times> string \<times> bool" where
  "subjectFact s coverage knownSubjects knownAccounts =
     (if subject_key s \<in> set knownSubjects then (SubjectObserved, [], False)
      else if sj_AccountID s \<notin> set knownAccounts then (SubjectUnknown, unmatched_reason, True)
      else case coverageIncompleteFor coverage (sj_AccountID s) (sj_Region s) of
        Some reason \<Rightarrow> (SubjectUnknown, reason, False)
      | None \<Rightarrow> (SubjectNotObserved, [], False))"

section \<open>The fact about a target\<close>

datatype TargetFact = TargetNone | TargetReserved | TargetActive | TargetRetired | TargetMismatched | TargetUnknown

definition target_fact_text :: "TargetFact \<Rightarrow> string" where
  "target_fact_text f =
     (case f of TargetNone \<Rightarrow> ''none'' | TargetReserved \<Rightarrow> ''reserved'' | TargetActive \<Rightarrow> ''active'' | TargetRetired \<Rightarrow> ''retired''
      | TargetMismatched \<Rightarrow> ''mismatched'' | TargetUnknown \<Rightarrow> ''unknown'')"

definition prefixLengthText :: "int option \<Rightarrow> string" where
  "prefixLengthText n = (case n of None \<Rightarrow> [] | Some k \<Rightarrow> itoa k)"

definition target_mismatches :: "Target \<Rightarrow> DerivedEvidenceAllocation \<Rightarrow> string list" where
  "target_mismatches t a =
     map fst (filter (\<lambda>(name, want, got). want \<noteq> got)
       [(''scope'', tg_Scope t, da_Scope a), (''environment'', tg_Environment t, da_Environment a),
        (''region'', tg_Region t, da_Region a), (''account_id'', tg_AccountID t, da_AccountID a),
        (''prefix_length'', prefixLengthText (tg_PrefixLength t), itoa (da_PrefixLength a)),
        (''parent_allocation_key'', tg_ParentAllocationKey t, da_ParentAllocationKey a)])"

definition targetFact :: "Move \<Rightarrow> evidenceIndex \<Rightarrow> TargetFact \<times> string list" where
  "targetFact m idx =
     (case mv_Target m of
        None \<Rightarrow> (TargetNone, [])
      | Some t \<Rightarrow>
          if \<not> visibleForTenant idx (tg_TenantID t) then (TargetUnknown, [])
          else case lookup_evidence idx (tg_TenantID t) (tg_AllocationKey t) of
            None \<Rightarrow> (TargetNone, [])
          | Some a \<Rightarrow>
              if da_State a = StateQuarantined \<or> da_State a = StateReleased then (TargetRetired, [])
              else
                let mismatches = (if mv_Disposition m \<noteq> DispositionKeep then target_mismatches t a else [])
                in if mismatches \<noteq> [] then (TargetMismatched, sort mismatches)
                   else if da_State a = StateActive \<and> (case da_VerifiedAt a of None \<Rightarrow> False | Some v \<Rightarrow> v \<noteq> [])
                   then (TargetActive, [])
                   else (TargetReserved, []))"

section \<open>Conflicts\<close>

datatype ResolveStatus = ResolvePresent | ResolveStale

record ResolveResult =
  rs_ConflictID :: string
  rs_Status :: ResolveStatus

definition conflictIDSet :: "Conflict list \<Rightarrow> string list" where
  "conflictIDSet conflicts = map cf_ID conflicts"

definition side_keys :: "Conflict \<Rightarrow> string list" where
  "side_keys c = map (\<lambda>s. subject_key \<lparr>sj_AccountID = sd_AccountID s, sj_Region = sd_Region s, sj_VPCID = sd_VPCID s\<rparr>)
     (filter (\<lambda>s. \<not> sd_Fixed s) (cf_Sides c))"

text \<open>What the index holds under a key: the conflicts with an observed side there, each once.\<close>

definition touchingConflicts :: "Conflict list \<Rightarrow> string \<Rightarrow> Conflict list" where
  "touchingConflicts conflicts key = filter (\<lambda>c. key \<in> set (side_keys c)) conflicts"

definition moveConflictResults :: "Move \<Rightarrow> (string \<Rightarrow> Conflict list) \<Rightarrow> string list \<Rightarrow> ResolveResult list \<times> string list" where
  "moveConflictResults m touching reportConflictIDs =
     (let ids = remdups_adj (sort (mv_Resolves m))
      in (map (\<lambda>i. \<lparr>rs_ConflictID = i, rs_Status = (if i \<in> set reportConflictIDs then ResolvePresent else ResolveStale)\<rparr>) ids,
          sort (filter (\<lambda>i. i \<notin> set ids) (map cf_ID (touching (subject_key (mv_Subject m)))))))"

definition fullyEvidenced :: "SubjectFact \<Rightarrow> TargetFact \<Rightarrow> ResolveResult list \<Rightarrow> string list \<Rightarrow> bool" where
  "fullyEvidenced subject target resolves unclaimed \<longleftrightarrow>
     \<not> (subject \<noteq> SubjectNotObserved \<or> target \<noteq> TargetActive \<or> unclaimed \<noteq> []) \<and>
     list_all (\<lambda>r. rs_Status r = ResolveStale) resolves"

definition unplannedConflictIDs :: "Conflict list \<Rightarrow> Move list \<Rightarrow> string list" where
  "unplannedConflictIDs conflicts moves =
     (let planned = map (\<lambda>m. subject_key (mv_Subject m)) moves
      in sort (map cf_ID (filter (\<lambda>c. \<not> list_ex (\<lambda>k. k \<in> set planned) (side_keys c)) conflicts)))"

definition targetTenantSet :: "Move list \<Rightarrow> string list" where
  "targetTenantSet moves =
     sort (remdups (filter (\<lambda>t. t \<noteq> []) (concat (map (\<lambda>m. case mv_Target m of None \<Rightarrow> [] | Some t \<Rightarrow> [tg_TenantID t]) moves))))"

section \<open>Moves and waves\<close>

text \<open>
  Approvals, blockers and verifications are carried over field by field, so the result types of the report
  are those of the plan.
\<close>

record MoveResult =
  mr_Subject :: string
  mr_AccountID :: string
  mr_Region :: string
  mr_VPCID :: string
  mr_Disposition :: string
  mr_WaveID :: string
  mr_Owner :: string
  mr_Target :: "Target option"
  mr_Approval :: "Approval option"
  mr_DependsOn :: "string list"
  mr_Blockers :: "Blocker list"
  mr_Rollback :: string
  mr_Verifications :: "Verification list"
  mr_Notes :: string
  mr_SubjectFact :: SubjectFact
  mr_SubjectFactReason :: string
  mr_Unmatched :: bool
  mr_TargetFact :: TargetFact
  mr_TargetMismatchFields :: "string list"
  mr_Resolves :: "ResolveResult list"
  mr_Unclaimed :: "string list"
  mr_FullyEvidenced :: bool
  mr_KeepBlockedByConflict :: bool

definition deriveMove ::
    "Coverage \<Rightarrow> evidenceIndex \<Rightarrow> (string \<Rightarrow> Conflict list) \<Rightarrow> string list \<Rightarrow> string list \<Rightarrow> string list \<Rightarrow> Move \<Rightarrow> MoveResult" where
  "deriveMove coverage idx touching knownSubjects knownAccounts reportConflictIDs m =
     (let (sFact, sReason, unmatched) = subjectFact (mv_Subject m) coverage knownSubjects knownAccounts;
          (tFact, mismatchFields) = targetFact m idx;
          (resolves, unclaimed) = moveConflictResults m touching reportConflictIDs
      in \<lparr>mr_Subject = SubjectIdentity (mv_Subject m), mr_AccountID = sj_AccountID (mv_Subject m),
          mr_Region = sj_Region (mv_Subject m), mr_VPCID = sj_VPCID (mv_Subject m),
          mr_Disposition = mv_Disposition m, mr_WaveID = mv_Wave m, mr_Owner = mv_Owner m, mr_Target = mv_Target m,
          mr_Approval = mv_Approval m, mr_DependsOn = map SubjectIdentity (mv_DependsOn m), mr_Blockers = mv_Blockers m,
          mr_Rollback = mv_Rollback m, mr_Verifications = mv_Verification m, mr_Notes = mv_Notes m,
          mr_SubjectFact = sFact, mr_SubjectFactReason = sReason, mr_Unmatched = unmatched,
          mr_TargetFact = tFact, mr_TargetMismatchFields = mismatchFields, mr_Resolves = resolves, mr_Unclaimed = unclaimed,
          mr_FullyEvidenced = fullyEvidenced sFact tFact resolves unclaimed,
          mr_KeepBlockedByConflict =
            (mv_Disposition m = DispositionKeep \<and> touching (subject_key (mv_Subject m)) \<noteq> [])\<rparr>)"

definition sortMoves :: "MoveResult list \<Rightarrow> MoveResult list" where
  "sortMoves = sort_key (\<lambda>m. (mr_WaveID m, mr_Subject m))"

type_synonym FactCount = "string \<times> nat"

definition subjectFactCounts :: "MoveResult list \<Rightarrow> FactCount list" where
  "subjectFactCounts moves =
     map (\<lambda>f. (subject_fact_text f, length (filter (\<lambda>m. mr_SubjectFact m = f) moves)))
       [SubjectObserved, SubjectNotObserved, SubjectUnknown]"

definition targetFactCounts :: "MoveResult list \<Rightarrow> FactCount list" where
  "targetFactCounts moves =
     map (\<lambda>f. (target_fact_text f, length (filter (\<lambda>m. mr_TargetFact m = f) moves)))
       [TargetNone, TargetReserved, TargetActive, TargetRetired, TargetMismatched, TargetUnknown]"

record WaveRollup =
  wr_ID :: string
  wr_Name :: string
  wr_Owner :: string
  wr_Approval :: "Approval option"
  wr_MovesTotal :: nat
  wr_FullyEvidenced :: nat
  wr_BySubjectFact :: "FactCount list"
  wr_ByTargetFact :: "FactCount list"

definition rollupOne :: "Wave \<Rightarrow> MoveResult list \<Rightarrow> WaveRollup" where
  "rollupOne w moves =
     \<lparr>wr_ID = wv_ID w, wr_Name = wv_Name w, wr_Owner = wv_Owner w, wr_Approval = wv_Approval w,
      wr_MovesTotal = length moves, wr_FullyEvidenced = length (filter mr_FullyEvidenced moves),
      wr_BySubjectFact = subjectFactCounts moves, wr_ByTargetFact = targetFactCounts moves\<rparr>"

definition buildWaveRollups :: "Wave list \<Rightarrow> MoveResult list \<Rightarrow> WaveRollup list" where
  "buildWaveRollups waves moves =
     sort_key wr_ID (map (\<lambda>w. rollupOne w (filter (\<lambda>m. mr_WaveID m = wv_ID w) moves)) waves)"

section \<open>The report\<close>

record DerivedCounts =
  dc_MovesTotal :: nat
  dc_FullyEvidenced :: nat
  dc_BySubjectFact :: "FactCount list"
  dc_ByTargetFact :: "FactCount list"
  dc_ResolvedPresent :: nat
  dc_ResolvedStale :: nat
  dc_UnclaimedConflicts :: nat
  dc_UnplannedConflicts :: nat
  dc_UnmatchedSubjects :: nat

record TypedCounts =
  ty_MovesByDisposition :: "FactCount list"
  ty_MovesApproved :: nat
  ty_WavesTotal :: nat
  ty_WavesApproved :: nat
  ty_VerificationsByOutcome :: "FactCount list"
  ty_BlockersTotal :: nat
  ty_KeepBlockedByConflict :: nat

record ProgressSummary =
  ps_Sentence :: string
  ps_Derived :: DerivedCounts
  ps_Typed :: TypedCounts

definition progressSentence :: "bool \<Rightarrow> nat \<Rightarrow> nat \<Rightarrow> nat \<Rightarrow> nat \<Rightarrow> string list \<Rightarrow> bool \<Rightarrow> string" where
  "progressSentence evComplete movesTotal evidenced missingAccounts missingRegionPairs uncoveredTenants noEvidenceSupplied =
     (if \<not> evComplete then
        let clauses =
              (if missingAccounts > 0 \<or> missingRegionPairs > 0
               then [''the underlying assessment could not read '' @ dec missingAccounts @ '' account(s) and '' @
                     dec missingRegionPairs @ '' account-region pair(s)''] else []) @
              (if noEvidenceSupplied then [''no allocation evidence was supplied at all'']
               else if uncoveredTenants \<noteq> []
               then [''no evidence could have seen '' @ dec (length uncoveredTenants) @ '' tenant(s)'' @ [CHR 0x27] @
                     '' allocations ('' @ Join uncoveredTenants '', '' @ '')''] else []);
            named = (if clauses = [] then [''the evidence behind this report'' @ [CHR 0x27] @ ''s facts is not fully accounted for''] else clauses)
        in ''this progress report cannot make a full statement: '' @ Join named ''; ''
      else ''every account and account-region pair this plan'' @ [CHR 0x27] @
           ''s subjects touch was read, and evidence was supplied for every tenant this plan'' @ [CHR 0x27] @ ''s targets name; '' @
           dec evidenced @ '' of '' @ dec movesTotal @ '' move(s) have subject, target and conflicts all affirmative at once'')"

definition derivedCounts :: "MoveResult list \<Rightarrow> string list \<Rightarrow> DerivedCounts" where
  "derivedCounts moves unplanned =
     (let resolved = concat (map mr_Resolves moves)
      in \<lparr>dc_MovesTotal = length moves, dc_FullyEvidenced = length (filter mr_FullyEvidenced moves),
          dc_BySubjectFact = subjectFactCounts moves, dc_ByTargetFact = targetFactCounts moves,
          dc_ResolvedPresent = length (filter (\<lambda>r. rs_Status r = ResolvePresent) resolved),
          dc_ResolvedStale = length (filter (\<lambda>r. rs_Status r \<noteq> ResolvePresent) resolved),
          dc_UnclaimedConflicts = sum_list (map (\<lambda>m. length (mr_Unclaimed m)) moves),
          dc_UnplannedConflicts = length unplanned, dc_UnmatchedSubjects = length (filter mr_Unmatched moves)\<rparr>)"

definition typedCounts :: "MoveResult list \<Rightarrow> WaveRollup list \<Rightarrow> TypedCounts" where
  "typedCounts moves waves =
     (let outcomes = map vf_Outcome (concat (map mr_Verifications moves))
      in \<lparr>ty_MovesByDisposition = map (\<lambda>d. (d, length (filter (\<lambda>m. mr_Disposition m = d) moves))) dispositions,
          ty_MovesApproved = length (filter (\<lambda>m. mr_Approval m \<noteq> None) moves),
          ty_WavesTotal = length waves, ty_WavesApproved = length (filter (\<lambda>w. wr_Approval w \<noteq> None) waves),
          ty_VerificationsByOutcome = map (\<lambda>o'. (o', length (filter (\<lambda>x. x = o') outcomes))) (sort (remdups outcomes)),
          ty_BlockersTotal = sum_list (map (\<lambda>m. length (mr_Blockers m)) moves),
          ty_KeepBlockedByConflict = length (filter mr_KeepBlockedByConflict moves)\<rparr>)"

definition buildSummary ::
    "MoveResult list \<Rightarrow> WaveRollup list \<Rightarrow> string list \<Rightarrow> bool \<Rightarrow> Report \<Rightarrow> evidenceIndex \<Rightarrow> string list \<Rightarrow> ProgressSummary" where
  "buildSummary moves waves unplanned evComplete report idx targetTenants =
     (let derived = derivedCounts moves unplanned
      in \<lparr>ps_Sentence = progressSentence evComplete (length moves) (dc_FullyEvidenced derived)
            (su_IncompleteAccounts (rp_Summary report)) (su_IncompleteRegionPairs (rp_Summary report))
            (evidenceScopeIncompleteFor idx targetTenants) (ei_files idx = []),
          ps_Derived = derived, ps_Typed = typedCounts moves waves\<rparr>)"

definition disclaimerNotes :: "Report \<Rightarrow> string list" where
  "disclaimerNotes report =
     (let carried = (case find (\<lambda>n. nt_Kind n = NoteReachability) (rp_Notes report) of Some n \<Rightarrow> nt_Message n | None \<Rightarrow> []);
          reach = (if carried = []
            then ''no route table, Transit Gateway attachment, propagation or traffic test was read; nothing in this report asserts that any two workloads can or cannot reach each other''
            else carried)
      in [reach, ''this report describes address compatibility for the target design the plan names, and nothing about routes, Transit Gateway attachments, propagations, security controls, DNS or application connectivity''])"

record EmbeddedAssessment =
  em_Inputs :: "(string \<times> string) list"
  em_InputLimits :: "string list"
  em_Coverage :: Coverage
  em_Summary :: Summary

record EvidenceReport =
  er_Complete :: bool
  er_Scopes :: "string list"
  er_ReadInstants :: "string list"
  er_Digests :: "(string \<times> string) list"

record ProgressReport =
  pr_ReportVersion :: int
  pr_Stamp :: string
  pr_Inputs :: "(string \<times> string) list"
  pr_InputLimits :: "string list"
  pr_Assessment :: EmbeddedAssessment
  pr_Evidence :: EvidenceReport
  pr_Summary :: ProgressSummary
  pr_Waves :: "WaveRollup list"
  pr_Moves :: "MoveResult list"
  pr_Unplanned :: "string list"
  pr_Notes :: "string list"

definition buildTopLevelDigests :: "Crypto \<Rightarrow> (string \<times> string) list \<Rightarrow> DerivedEvidenceFile list \<Rightarrow> (string \<times> string) list" where
  "buildTopLevelDigests K planFiles evidenceFiles =
     sort_key fst (map (\<lambda>(path, content). (path, sha256hex K content)) planFiles @ evidence_digests K evidenceFiles)"

text \<open>The stamp and the plan files are the two fields of \<open>Options\<close>.\<close>

definition Derive ::
    "Crypto \<Rightarrow> MigrationPlan \<Rightarrow> Report \<Rightarrow> Input \<Rightarrow> DerivedEvidenceFile list \<Rightarrow> string \<Rightarrow> (string \<times> string) list \<Rightarrow> ProgressReport" where
  "Derive K plan report inp evidence stamp planFiles =
     (let idx = buildEvidenceIndex evidence;
          moves = sortMoves (map (deriveMove (rp_Coverage report) idx (touchingConflicts (rp_Conflicts report))
                    (knownSubjectSet inp) (knownAccountSet inp) (conflictIDSet (rp_Conflicts report))) (mp_Moves plan));
          unplanned = unplannedConflictIDs (rp_Conflicts report) (mp_Moves plan);
          targetTenants = targetTenantSet (mp_Moves plan);
          evComplete = evidence_complete idx (cv_Complete (rp_Coverage report)) targetTenants;
          waves = buildWaveRollups (mp_Waves plan) moves
      in \<lparr>pr_ReportVersion = 1, pr_Stamp = stamp, pr_Inputs = buildTopLevelDigests K planFiles (ei_files idx),
          pr_InputLimits = inputLimits idx targetTenants,
          pr_Assessment = \<lparr>em_Inputs = rp_Inputs report, em_InputLimits = rp_InputLimits report,
                           em_Coverage = rp_Coverage report, em_Summary = rp_Summary report\<rparr>,
          pr_Evidence = \<lparr>er_Complete = evComplete, er_Scopes = sortedScopes idx, er_ReadInstants = sortedReadInstants idx,
                         er_Digests = sortedDigests K idx\<rparr>,
          pr_Summary = buildSummary moves waves unplanned evComplete report idx targetTenants,
          pr_Waves = waves, pr_Moves = moves, pr_Unplanned = unplanned, pr_Notes = disclaimerNotes report\<rparr>)"

text \<open>The exit status 0 of \<open>onboard progress\<close>.\<close>

definition progressClean :: "ProgressReport \<Rightarrow> bool" where
  "progressClean r \<longleftrightarrow>
     er_Complete (pr_Evidence r) \<and>
     \<not> (dc_MovesTotal (ps_Derived (pr_Summary r)) = 0 \<or>
        dc_FullyEvidenced (ps_Derived (pr_Summary r)) \<noteq> dc_MovesTotal (ps_Derived (pr_Summary r))) \<and>
     dc_UnplannedConflicts (ps_Derived (pr_Summary r)) = 0"

end
