(* ===== verification/MigrateFacts.thy ===== *)
theory MigrateFacts
  imports MigratePlan
begin

text \<open>
  What the validation of a migration plan establishes. The search for a cycle is proved against the
  dependency relation: its recursion is never deeper than there are subjects, a refusal stands for a real
  cycle, and a search that ends has coloured every subject black, which leaves no room for one.
\<close>

section \<open>Dependencies\<close>

definition depends :: "MigrationPlan \<Rightarrow> (string \<times> string) set" where
  "depends p = {(a, b). b \<in> set (adjacency p a)}"

definition nodes :: "MigrationPlan \<Rightarrow> string set" where
  "nodes p = set (map move_id (mp_Moves p)) \<union> set (map SubjectIdentity (concat (map mv_DependsOn (mp_Moves p))))"

abbreviation colored :: "color gomap \<Rightarrow> string \<Rightarrow> color" where
  "colored \<equiv> mget0 White"

lemma finite_nodes [simp]: "finite (nodes p)"
  by (simp add: nodes_def)

lemma depends_nodes: "(a, b) \<in> depends p \<Longrightarrow> a \<in> nodes p \<and> b \<in> nodes p"
  by (auto simp: depends_def adjacency_def nodes_def split: if_splits)

lemma card_nodes: "card (nodes p) < search_depth p"
proof -
  let ?a = "map move_id (mp_Moves p)" and ?b = "map SubjectIdentity (concat (map mv_DependsOn (mp_Moves p)))"
  have "card (nodes p) \<le> length (?a @ ?b)" unfolding nodes_def by (metis card_length set_append)
  then show ?thesis by (simp add: search_depth_def)
qed

section \<open>The search\<close>

text \<open>The gray nodes are the path, and black nodes are closed under dependencies and on no cycle.\<close>

definition search_inv :: "MigrationPlan \<Rightarrow> string list \<Rightarrow> color gomap \<Rightarrow> bool" where
  "search_inv p path c \<longleftrightarrow>
     (\<forall>n. colored c n = Gray \<longleftrightarrow> n \<in> set path) \<and>
     (\<forall>n s. colored c n = Black \<longrightarrow> (n, s) \<in> depends p \<longrightarrow> colored c s = Black) \<and>
     (\<forall>n. colored c n = Black \<longrightarrow> (n, n) \<notin> (depends p)\<^sup>+)"

definition darker :: "color gomap \<Rightarrow> color gomap \<Rightarrow> bool" where
  "darker c c' \<longleftrightarrow> (\<forall>n. colored c n = Black \<longrightarrow> colored c' n = Black)"

definition cyclic :: "MigrationPlan \<Rightarrow> StructuralError \<Rightarrow> bool" where
  "cyclic p e \<longleftrightarrow> se_Kind e = RefusalDependencyCycle \<and> (se_Key e, se_Key e) \<in> (depends p)\<^sup>+"

text \<open>What a visit of a node, reached from every node of the path, comes to.\<close>

definition visited :: "MigrationPlan \<Rightarrow> string list \<Rightarrow> string set \<Rightarrow> color gomap \<Rightarrow> (StructuralError + color gomap) option \<Rightarrow> bool" where
  "visited p path ns c r \<longleftrightarrow>
     (case r of
        None \<Rightarrow> False
      | Some (Inl e) \<Rightarrow> cyclic p e
      | Some (Inr c') \<Rightarrow> search_inv p path c' \<and> darker c c' \<and> (\<forall>n \<in> ns. colored c' n = Black))"

definition reaches :: "MigrationPlan \<Rightarrow> string list \<Rightarrow> string \<Rightarrow> bool" where
  "reaches p path node \<longleftrightarrow> (\<forall>n \<in> set path. (n, node) \<in> (depends p)\<^sup>+)"

lemma on_path: "search_inv p path c \<Longrightarrow> n \<in> set path \<longleftrightarrow> colored c n = Gray"
  by (simp add: search_inv_def)

lemma black_closed:
  assumes "search_inv p path c" "colored c a = Black" "(a, b) \<in> (depends p)\<^sup>*"
  shows "colored c b = Black"
  using assms(3,2) by (induction rule: rtrancl_induct) (use assms(1) in \<open>auto simp: search_inv_def\<close>)

lemma visit_successors_visited:
  assumes v: "\<And>n c. search_inv p path c \<Longrightarrow> colored c n = White \<Longrightarrow> reaches p path n \<Longrightarrow> n \<in> nodes p \<Longrightarrow>
      visited p path {n} c (v n c)"
    and cyc: "\<And>n. n \<in> set path \<Longrightarrow> reaches p path n \<Longrightarrow> cyclic p (cyc n)"
    and ns: "\<forall>n \<in> set ns. reaches p path n \<and> n \<in> nodes p" and inv: "search_inv p path c"
  shows "visited p path (set ns) c (visit_successors v cyc ns c)"
  using ns inv
proof (induction ns arbitrary: c)
  case Nil
  then show ?case by (simp add: visited_def darker_def)
next
  case (Cons n ns)
  show ?case
  proof (cases "colored c n")
    case White
    have step: "visited p path {n} c (v n c)" using Cons.prems White by (intro v) auto
    show ?thesis
    proof (cases "v n c")
      case None
      then show ?thesis using step by (simp add: visited_def)
    next
      case (Some r)
      show ?thesis
      proof (cases r)
        case (Inl e)
        then show ?thesis using step Some White by (simp add: visited_def)
      next
        case (Inr c')
        then have c': "search_inv p path c'" "darker c c'" "colored c' n = Black" using step Some by (simp_all add: visited_def)
        have "visited p path (set ns) c' (visit_successors v cyc ns c')" using Cons c'(1) by simp
        then show ?thesis using Some Inr White c'(2,3)
          by (auto simp: visited_def darker_def split: option.splits sum.splits)
      qed
    qed
  next
    case Gray
    then have "n \<in> set path" using Cons.prems(2) on_path by blast
    then show ?thesis using Cons.prems(1) cyc Gray by (simp add: visited_def)
  next
    case Black
    have "visited p path (set ns) c (visit_successors v cyc ns c)" using Cons by simp
    then show ?thesis using Black by (auto simp: visited_def darker_def split: option.splits sum.splits)
  qed
qed

lemma finish_node:
  assumes inv: "search_inv p (path @ [node]) c" and new: "node \<notin> set path"
    and succ: "\<forall>n \<in> set (adjacency p node). colored c n = Black"
  shows "search_inv p path (mput node Black c)"
proof -
  have gray: "colored c node = Gray" using inv by (simp add: search_inv_def)
  have "(node, node) \<notin> (depends p)\<^sup>+"
  proof
    assume "(node, node) \<in> (depends p)\<^sup>+"
    then obtain s where s: "(node, s) \<in> depends p" "(s, node) \<in> (depends p)\<^sup>*" by (meson tranclD)
    then have "colored c s = Black" using succ by (simp add: depends_def)
    then show False using black_closed [OF inv _ s(2)] gray by simp
  qed
  moreover have "colored c s = Black" if "(node, s) \<in> depends p" for s using succ that by (simp add: depends_def)
  ultimately show ?thesis using inv new by (auto simp: search_inv_def)
qed

lemma cycle_error_cyclic: "n \<in> set path \<Longrightarrow> reaches p path n \<Longrightarrow> cyclic p (cycle_error p path node n)"
  by (simp add: cyclic_def cycle_error_def refusal_def reaches_def Let_def)

lemma visit_visited:
  assumes "search_inv p path c" "colored c node = White" "reaches p path node" "node \<in> nodes p"
    and "card (nodes p - set path) \<le> depth"
  shows "visited p path {node} c (visit depth p path node c)"
  using assms
proof (induction depth arbitrary: path node c)
  case 0
  then have "node \<in> nodes p - set path" using on_path [of p path c node] by simp
  moreover have "nodes p - set path = {}" using 0 by simp
  ultimately show ?case by simp
next
  case (Suc depth)
  let ?path = "path @ [node]" and ?c = "mput node Gray c"
  have new: "node \<notin> set path" using Suc.prems(2) on_path [OF Suc.prems(1)] by simp
  have inv: "search_inv p ?path ?c"
    using Suc.prems(1,2) by (auto simp: search_inv_def)
  have deep: "card (nodes p - set ?path) \<le> depth"
  proof -
    have "nodes p - set ?path = nodes p - set path - {node}" by auto
    then have "card (nodes p - set ?path) = card (nodes p - set path) - 1" using Suc.prems(4) new by simp
    then show ?thesis using Suc.prems(5) by simp
  qed
  have onward: "reaches p ?path n \<and> n \<in> nodes p" if "n \<in> set (adjacency p node)" for n
  proof -
    have "(node, n) \<in> depends p" using that by (simp add: depends_def)
    then show ?thesis using Suc.prems(3) depends_nodes by (auto simp: reaches_def intro: trancl_into_trancl)
  qed
  let ?r = "visit_successors (visit depth p ?path) (cycle_error p ?path node) (adjacency p node) ?c"
  have r: "visited p ?path (set (adjacency p node)) ?c ?r"
    using Suc.IH deep onward inv by (intro visit_successors_visited cycle_error_cyclic) auto
  show ?case
  proof (cases ?r)
    case None
    then show ?thesis using r by (simp add: visited_def)
  next
    case (Some x)
    show ?thesis
    proof (cases x)
      case (Inl e)
      then show ?thesis using r Some by (simp add: visited_def)
    next
      case (Inr c')
      then have "search_inv p ?path c'" "darker ?c c'" "\<forall>n \<in> set (adjacency p node). colored c' n = Black"
        using r Some by (simp_all add: visited_def)
      then show ?thesis using finish_node new Some Inr Suc.prems(2) by (auto simp: visited_def darker_def)
    qed
  qed
qed

lemma visit_moves_visited:
  assumes "search_inv p [] c" "set ms \<subseteq> set (mp_Moves p)" "card (nodes p) \<le> depth"
  shows "visited p [] (set (map move_id ms)) c (visit_moves depth p ms c)"
  using assms
proof (induction ms arbitrary: c)
  case Nil
  then show ?case by (simp add: visited_def darker_def)
next
  case (Cons m ms)
  show ?case
  proof (cases "colored c (move_id m) = White")
    case True
    have v: "visited p [] {move_id m} c (visit depth p [] (move_id m) c)"
      using Cons.prems True by (intro visit_visited) (auto simp: reaches_def nodes_def)
    show ?thesis
    proof (cases "visit depth p [] (move_id m) c")
      case None
      then show ?thesis using v by (simp add: visited_def)
    next
      case (Some x)
      show ?thesis
      proof (cases x)
        case (Inl e)
        then show ?thesis using v Some True by (simp add: visited_def)
      next
        case (Inr c')
        then have c': "search_inv p [] c'" "darker c c'" "colored c' (move_id m) = Black" using v Some by (simp_all add: visited_def)
        have "visited p [] (set (map move_id ms)) c' (visit_moves depth p ms c')" using Cons c'(1) by simp
        then show ?thesis using Some Inr True c'(2,3) by (auto simp: visited_def darker_def split: option.splits sum.splits)
      qed
    qed
  next
    case False
    then have "colored c (move_id m) = Black" using Cons.prems(1) by (cases "colored c (move_id m)") (auto simp: search_inv_def)
    moreover have "visited p [] (set (map move_id ms)) c (visit_moves depth p ms c)" using Cons by simp
    ultimately show ?thesis using False by (auto simp: visited_def darker_def split: option.splits sum.splits)
  qed
qed

lemma validateDependencyCycle_decides:
  obtains r where "validateDependencyCycle p = Some r" "r = None \<longleftrightarrow> acyclic (depends p)" "\<And>e. r = Some e \<Longrightarrow> cyclic p e"
proof -
  have v: "visited p [] (set (map move_id (mp_Moves p))) [] (visit_moves (search_depth p) p (mp_Moves p) [])"
    using card_nodes [of p] by (intro visit_moves_visited) (auto simp: search_inv_def mget0_def)
  then obtain x where x: "visit_moves (search_depth p) p (mp_Moves p) [] = Some x" by (auto simp: visited_def split: option.splits)
  show thesis
  proof (cases x)
    case (Inl e)
    then have "cyclic p e" using v x by (simp add: visited_def)
    then show thesis using x Inl that [of "Some e"] by (auto simp: validateDependencyCycle_def cyclic_def acyclic_def)
  next
    case (Inr c)
    then have c: "search_inv p [] c" "\<forall>m \<in> set (mp_Moves p). colored c (move_id m) = Black" using v x by (simp_all add: visited_def)
    have "acyclic (depends p)" unfolding acyclic_def
    proof (intro allI notI)
      fix n assume n: "(n, n) \<in> (depends p)\<^sup>+"
      then obtain s where "(n, s) \<in> depends p" by (meson tranclD)
      then obtain m where "m \<in> set (mp_Moves p)" "move_id m = n" by (auto simp: depends_def adjacency_def split: if_splits)
      then show False using c n by (auto simp: search_inv_def)
    qed
    then show thesis using x Inr that [of None] by (auto simp: validateDependencyCycle_def)
  qed
qed

end
