(* ===== verification/MigrateProps.thy ===== *)
theory MigrateProps
  imports MigrateFacts
begin

text \<open>
  The properties of the migration plan. A plan passes \<open>Validate\<close> exactly when it is well formed by a
  definition that says nothing of the order of the checks or of the search for a cycle, and the search ends.
\<close>

section \<open>Well-formed plans\<close>

definition target_keys :: "Move list \<Rightarrow> (string \<times> string) list" where
  "target_keys ms = filter (\<lambda>k. k \<noteq> ([], [])) (concat (map (\<lambda>m. case mv_Target m of None \<Rightarrow> [] | Some t \<Rightarrow> [target_key t]) ms))"

definition same_wave :: "Wave \<Rightarrow> Wave \<Rightarrow> bool" where
  "same_wave v w \<longleftrightarrow> v\<lparr>wv_SourceFile := []\<rparr> = w\<lparr>wv_SourceFile := []\<rparr>"

definition well_formed_move :: "MigrationPlan \<Rightarrow> Move \<Rightarrow> bool" where
  "well_formed_move p m \<longleftrightarrow>
     sj_AccountID (mv_Subject m) \<noteq> [] \<and> sj_Region (mv_Subject m) \<noteq> [] \<and> sj_VPCID (mv_Subject m) \<noteq> [] \<and>
     mv_Disposition m \<in> {''replace'', ''keep'', ''retire'', ''undecided''} \<and>
     (\<exists>w \<in> set (mp_Waves p). wv_ID w = mv_Wave m) \<and>
     (\<forall>d \<in> set (mv_DependsOn m). \<exists>m' \<in> set (mp_Moves p). SubjectIdentity d = move_id m') \<and>
     (mv_Disposition m = ''replace'' \<longrightarrow> mv_Target m \<noteq> None) \<and>
     (mv_Disposition m = ''keep'' \<longrightarrow> (\<forall>t. mv_Target m = Some t \<longrightarrow> \<not> overspecified t))"

definition well_formed_plan :: "MigrationPlan \<Rightarrow> bool" where
  "well_formed_plan p \<longleftrightarrow>
     distinct (map move_id (mp_Moves p)) \<and> distinct (target_keys (mp_Moves p)) \<and>
     (\<forall>v \<in> set (mp_Waves p). \<forall>w \<in> set (mp_Waves p). wv_ID v = wv_ID w \<longrightarrow> same_wave v w) \<and>
     (\<forall>m \<in> set (mp_Moves p). well_formed_move p m) \<and> acyclic (depends p)"

lemma duplicate_subjects_None:
  "duplicate_subjects seen ms = None \<longleftrightarrow>
   distinct (map move_id ms) \<and> (\<forall>m \<in> set ms. mget seen (move_id m) = None)"
proof (induction seen ms rule: duplicate_subjects.induct)
  case (2 seen m ms)
  show ?case
  proof (cases "mget seen (move_id m)")
    case None
    have "move_id m \<notin> move_id ` set ms \<and> (\<forall>m' \<in> set ms. mget seen (move_id m') = None) \<longleftrightarrow>
        (\<forall>m' \<in> set ms. mget (mput (move_id m) m seen) (move_id m') = None)"
      by (auto simp: image_iff)
    then show ?thesis using 2 [OF None] None by auto
  qed simp
qed simp

lemma target_keys_simps [simp]:
  "target_keys [] = []"
  "target_keys (m # ms) =
     (case mv_Target m of None \<Rightarrow> [] | Some t \<Rightarrow> if target_key t = ([], []) then [] else [target_key t]) @ target_keys ms"
  by (auto simp: target_keys_def split: option.splits)

lemma duplicate_targets_None:
  "duplicate_targets seen ms = None \<longleftrightarrow>
   distinct (target_keys ms) \<and> (\<forall>k \<in> set (target_keys ms). map_of seen k = None)"
proof (induction ms arbitrary: seen)
  case (Cons m ms)
  show ?case
  proof (cases "mv_Target m")
    case (Some t)
    show ?thesis
    proof (cases "target_key t = ([], [])")
      case False
      show ?thesis
      proof (cases "map_of seen (target_key t)")
        case None
        have "target_key t \<notin> set (target_keys ms) \<and> (\<forall>k \<in> set (target_keys ms). map_of seen k = None) \<longleftrightarrow>
            (\<forall>k \<in> set (target_keys ms). map_of (AList.update (target_key t) m seen) k = None)"
          by (auto simp: AList.update_conv')
        then show ?thesis using Cons [of "AList.update (target_key t) m seen"] Some None False by (auto simp: Let_def)
      qed (use Some False in \<open>simp add: Let_def\<close>)
    qed (use Some Cons in \<open>simp add: Let_def\<close>)
  qed (use Cons in simp)
qed simp

lemma same_wave_eq: "same_wave a a" "same_wave a b \<Longrightarrow> same_wave b a" "same_wave a b \<Longrightarrow> same_wave a c \<Longrightarrow> same_wave b c"
  by (auto simp: same_wave_def)

lemma wave_definitions_Cons:
  "wave_definitions u seen (w # ws) =
     (case mget seen (wv_ID w) of
        None \<Rightarrow> wave_definitions u (mput (wv_ID w) w seen) ws
      | Some v \<Rightarrow>
          if same_wave v w then wave_definitions u seen ws
          else Inl (refusal RefusalDuplicateWave (wv_SourceFile w) (wv_ID w)
                      (''wave '' @ Quote u (wv_ID w) @ '' is defined differently in '' @ wv_SourceFile v)))"
  by (simp add: same_wave_def split: option.split)

definition waves_agree :: "Wave gomap \<Rightarrow> Wave list \<Rightarrow> bool" where
  "waves_agree seen ws \<longleftrightarrow>
     (\<forall>w \<in> set ws. \<forall>v. mget seen (wv_ID w) = Some v \<longrightarrow> same_wave v w) \<and>
     (\<forall>v \<in> set ws. \<forall>w \<in> set ws. wv_ID v = wv_ID w \<longrightarrow> same_wave v w)"

lemma waves_agree_new:
  assumes "mget seen (wv_ID w) = None"
  shows "waves_agree seen (w # ws) \<longleftrightarrow> waves_agree (mput (wv_ID w) w seen) ws"
proof
  assume "waves_agree seen (w # ws)"
  then show "waves_agree (mput (wv_ID w) w seen) ws" by (simp add: waves_agree_def)
next
  assume r: "waves_agree (mput (wv_ID w) w seen) ws"
  have "same_wave w x" if "x \<in> set ws" "wv_ID x = wv_ID w" for x using r that by (simp add: waves_agree_def)
  moreover have "same_wave v x" if "x \<in> set ws" "mget seen (wv_ID x) = Some v" for x v
  proof -
    have "wv_ID x \<noteq> wv_ID w" using that assms by auto
    then show ?thesis using r that by (simp add: waves_agree_def)
  qed
  ultimately show "waves_agree seen (w # ws)"
    using r assms same_wave_eq(1,2) unfolding waves_agree_def by (metis option.distinct(1) set_ConsD)
qed

lemma waves_agree_old:
  assumes "mget seen (wv_ID w) = Some v"
  shows "waves_agree seen (w # ws) \<longleftrightarrow> same_wave v w \<and> waves_agree seen ws"
proof
  assume "waves_agree seen (w # ws)"
  then show "same_wave v w \<and> waves_agree seen ws" using assms by (simp add: waves_agree_def)
next
  assume r: "same_wave v w \<and> waves_agree seen ws"
  then have "same_wave w x" if "x \<in> set ws" "wv_ID x = wv_ID w" for x
    using assms that same_wave_eq(3) [of v w x] by (simp add: waves_agree_def)
  then show "waves_agree seen (w # ws)"
    using r assms same_wave_eq(1,2) unfolding waves_agree_def by (metis option.inject set_ConsD)
qed

lemma wave_definitions_Inr: "(\<exists>r. wave_definitions u seen ws = Inr r) \<longleftrightarrow> waves_agree seen ws"
proof (induction ws arbitrary: seen)
  case Nil
  then show ?case by (simp add: waves_agree_def)
next
  case (Cons w ws)
  then show ?case unfolding wave_definitions_Cons
    by (cases "mget seen (wv_ID w)") (simp_all add: waves_agree_new waves_agree_old)
qed

lemma wave_definitions_keys:
  "wave_definitions u seen ws = Inr r \<Longrightarrow> fst ` set r = fst ` set seen \<union> wv_ID ` set ws"
proof (induction ws arbitrary: seen)
  case (Cons w ws)
  show ?case
  proof (cases "mget seen (wv_ID w)")
    case None
    then have "fst ` set r = fst ` set (mput (wv_ID w) w seen) \<union> wv_ID ` set ws" using Cons by (simp add: wave_definitions_Cons del: wave_definitions.simps)
    then show ?thesis by (simp add: mput_def dom_update)
  next
    case (Some v)
    then have "wv_ID w \<in> fst ` set seen" by (force simp: mget_def dest: map_of_SomeD)
    moreover have "fst ` set r = fst ` set seen \<union> wv_ID ` set ws"
      using Cons Some by (simp add: wave_definitions_Cons split: if_splits del: wave_definitions.simps)
    ultimately show ?thesis by auto
  qed
qed simp

lemma validate_move_None_iff:
  "validate_move u waves subjects m = None \<longleftrightarrow>
     sj_AccountID (mv_Subject m) \<noteq> [] \<and> sj_Region (mv_Subject m) \<noteq> [] \<and> sj_VPCID (mv_Subject m) \<noteq> [] \<and>
     mv_Disposition m \<in> set dispositions \<and> mv_Wave m \<in> set waves \<and>
     find (\<lambda>dep. SubjectIdentity dep \<notin> set subjects) (mv_DependsOn m) = None \<and>
     (mv_Disposition m = DispositionReplace \<longrightarrow> mv_Target m \<noteq> None) \<and>
     (mv_Disposition m = DispositionKeep \<longrightarrow> \<not> (\<exists>t \<in> set_option (mv_Target m). overspecified t))"
  unfolding validate_move_def Let_def
  by (cases "find (\<lambda>dep. SubjectIdentity dep \<notin> set subjects) (mv_DependsOn m)") simp_all

lemma validate_move_None:
  assumes "set waves = wv_ID ` set (mp_Waves p)"
  shows "validate_move u waves (map move_id (mp_Moves p)) m = None \<longleftrightarrow> well_formed_move p m"
proof -
  have wave: "mv_Wave m \<in> set waves \<longleftrightarrow> (\<exists>w \<in> set (mp_Waves p). wv_ID w = mv_Wave m)"
    unfolding assms image_iff by metis
  have deps: "find (\<lambda>dep. SubjectIdentity dep \<notin> set (map move_id (mp_Moves p))) (mv_DependsOn m) = None \<longleftrightarrow>
      (\<forall>d \<in> set (mv_DependsOn m). \<exists>m' \<in> set (mp_Moves p). SubjectIdentity d = move_id m')"
    by (auto simp: find_None_iff image_iff)
  have disp: "set dispositions = {''replace'', ''keep'', ''retire'', ''undecided''}"
    by (simp add: dispositions_def DispositionReplace_def DispositionKeep_def DispositionRetire_def DispositionUndecided_def)
  have over: "\<not> (\<exists>t \<in> set_option (mv_Target m). overspecified t) \<longleftrightarrow> (\<forall>t. mv_Target m = Some t \<longrightarrow> \<not> overspecified t)"
    by (cases "mv_Target m") simp_all
  show ?thesis
    by (simp only: validate_move_None_iff well_formed_move_def wave deps disp over DispositionReplace_def DispositionKeep_def)
qed

text \<open>No refusal before the search speaks of a cycle.\<close>

lemma first_error_Some: "first_error xs = Some e \<Longrightarrow> Some e \<in> set xs"
proof (induction xs)
  case (Cons x xs)
  then show ?case by (cases x) auto
qed simp

lemma early_refusals:
  "duplicate_subjects seen ms = Some e \<Longrightarrow> se_Kind e = RefusalDuplicateSubject"
  "duplicate_targets tseen ms = Some e \<Longrightarrow> se_Kind e = RefusalDuplicateTargetKey"
  "wave_definitions u wseen ws = Inl e \<Longrightarrow> se_Kind e = RefusalDuplicateWave"
proof -
  show "duplicate_subjects seen ms = Some e \<Longrightarrow> se_Kind e = RefusalDuplicateSubject"
    by (induction ms arbitrary: seen) (auto simp: refusal_def split: option.splits)
  show "duplicate_targets tseen ms = Some e \<Longrightarrow> se_Kind e = RefusalDuplicateTargetKey"
    by (induction ms arbitrary: tseen) (auto simp: refusal_def Let_def split: option.splits if_splits)
  show "wave_definitions u wseen ws = Inl e \<Longrightarrow> se_Kind e = RefusalDuplicateWave"
    by (induction ws arbitrary: wseen) (auto simp: refusal_def split: option.splits if_splits)
qed

lemma validate_move_kind: "validate_move u waves subjects m = Some e \<Longrightarrow> se_Kind e \<noteq> RefusalDependencyCycle"
  unfolding validate_move_def Let_def
  by (cases "find (\<lambda>dep. SubjectIdentity dep \<notin> set subjects) (mv_DependsOn m)") (auto simp: refusal_def split: if_splits)

lemma ValidatePlan_decides:
  obtains r where "ValidatePlan u p = Some r" "r = None \<longleftrightarrow> well_formed_plan p"
    "\<And>e. r = Some e \<Longrightarrow> se_Kind e = RefusalDependencyCycle \<Longrightarrow> cyclic p e"
proof -
  let ?early = "first_error [validateDuplicateSubjects p, validateDuplicateTargetKeys p]"
  have early: "?early = None \<longleftrightarrow> distinct (map move_id (mp_Moves p)) \<and> distinct (target_keys (mp_Moves p))"
    by (simp add: first_error_None validateDuplicateSubjects_def validateDuplicateTargetKeys_def duplicate_subjects_None duplicate_targets_None)
  have agree: "waves_agree [] (mp_Waves p) \<longleftrightarrow> (\<forall>v \<in> set (mp_Waves p). \<forall>w \<in> set (mp_Waves p). wv_ID v = wv_ID w \<longrightarrow> same_wave v w)"
    by (simp add: waves_agree_def)
  show thesis
  proof (cases ?early)
    case (Some e)
    then have "se_Kind e \<noteq> RefusalDependencyCycle"
      by (auto dest!: first_error_Some early_refusals(1,2) [OF sym] simp: validateDuplicateSubjects_def validateDuplicateTargetKeys_def)
    then show thesis using Some early that [of "Some e"] by (auto simp: ValidatePlan_def well_formed_plan_def)
  next
    case noneEarly: None
    show thesis
    proof (cases "wave_definitions u [] (mp_Waves p)")
      case (Inl e)
      then have "\<not> waves_agree [] (mp_Waves p)" using wave_definitions_Inr by (metis Inl_Inr_False)
      moreover have "se_Kind e = RefusalDuplicateWave" using early_refusals(3) [OF Inl] .
      ultimately show thesis using Inl noneEarly agree that [of "Some e"] by (simp add: ValidatePlan_def well_formed_plan_def)
    next
      case (Inr waves)
      then have "waves_agree [] (mp_Waves p)" using wave_definitions_Inr by blast
      moreover have keys: "set (map fst waves) = wv_ID ` set (mp_Waves p)" using wave_definitions_keys [OF Inr] by simp
      let ?moves = "first_error (map (validate_move u (map fst waves) (map move_id (mp_Moves p))) (mp_Moves p))"
      have moves: "?moves = None \<longleftrightarrow> (\<forall>m \<in> set (mp_Moves p). well_formed_move p m)"
        using validate_move_None [OF keys] by (simp add: first_error_None)
      obtain r where r: "validateDependencyCycle p = Some r" "r = None \<longleftrightarrow> acyclic (depends p)" "\<And>e. r = Some e \<Longrightarrow> cyclic p e"
        using validateDependencyCycle_decides [of p] by blast
      show thesis
      proof (cases ?moves)
        case None
        then show thesis using Inr noneEarly early agree calculation moves r that [of r]
          by (simp add: ValidatePlan_def well_formed_plan_def)
      next
        case (Some e)
        then have "se_Kind e \<noteq> RefusalDependencyCycle" by (auto dest!: first_error_Some validate_move_kind [OF sym])
        then show thesis using Some Inr noneEarly moves that [of "Some e"] by (auto simp: ValidatePlan_def well_formed_plan_def)
      qed
    qed
  qed
qed

section \<open>Validation\<close>

text \<open>
  C39. Validating a migration plan always ends, although the search for a dependency cycle recurses over the
  graph the plan draws, and it passes exactly the well-formed plans: one move for each subject, no target key
  used twice, one definition of each wave, every move with a whole subject, a known disposition, a defined
  wave and defined dependencies, a target for every replacement, no more than its key for a VPC that is kept,
  and no subject that depends on itself through any chain of moves. A refusal for a cycle names a subject
  that is on one.
\<close>

theorem validation_decides_well_formedness:
  "(\<exists>r. ValidatePlan u p = Some r) \<and>
   (ValidatePlan u p = Some None \<longleftrightarrow> well_formed_plan p) \<and>
   (\<forall>e. ValidatePlan u p = Some (Some e) \<and> se_Kind e = RefusalDependencyCycle \<longrightarrow>
      (se_Key e, se_Key e) \<in> (depends p)\<^sup>+)"
proof -
  obtain r where "ValidatePlan u p = Some r" "r = None \<longleftrightarrow> well_formed_plan p"
    "\<And>e. r = Some e \<Longrightarrow> se_Kind e = RefusalDependencyCycle \<Longrightarrow> cyclic p e"
    using ValidatePlan_decides [of u p] by blast
  then show ?thesis by (auto simp: cyclic_def)
qed

definition ex_subject :: "string \<Rightarrow> Subject" where
  "ex_subject vpc = \<lparr>sj_AccountID = ''111'', sj_Region = ''r1'', sj_VPCID = vpc\<rparr>"

definition ex_move :: "string \<Rightarrow> string list \<Rightarrow> Move" where
  "ex_move vpc deps = \<lparr>mv_Subject = ex_subject vpc, mv_Disposition = ''retire'', mv_Wave = ''w1'', mv_Owner = ''net'',
     mv_Approval = None, mv_DependsOn = map ex_subject deps, mv_Blockers = [], mv_Rollback = [], mv_Verification = [],
     mv_Resolves = [], mv_Notes = [], mv_Target = None, mv_SourceFile = ''plan.yaml''\<rparr>"

definition ex_wave :: Wave where
  "ex_wave = \<lparr>wv_ID = ''w1'', wv_Name = ''first'', wv_Window = [], wv_Owner = ''net'', wv_Approval = None, wv_SourceFile = ''plan.yaml''\<rparr>"

definition ex_plan_of :: "Move list \<Rightarrow> MigrationPlan" where
  "ex_plan_of ms = \<lparr>mp_Version = 1, mp_PlanID = ''p'', mp_Waves = [ex_wave], mp_Moves = ms\<rparr>"

definition ex_ring :: MigrationPlan where
  "ex_ring = ex_plan_of [ex_move ''vpc-a'' [''vpc-b''], ex_move ''vpc-b'' [''vpc-c''], ex_move ''vpc-c'' [''vpc-b'']]"

definition ex_lib :: golib where
  "ex_lib = \<lparr>u_ToLower = id, u_Quote = id, u_LettersDigits = id, u_ParseRFC3339 = (\<lambda>_. None), u_ReadCSV = (\<lambda>_ s. Inr [[s]])\<rparr>"

lemma ex_ring_refused:
  "ValidatePlan ex_lib ex_ring =
     Some (Some (refusal RefusalDependencyCycle ''plan.yaml'' ''aws:111:r1:vpc-b''
       ''depends_on cycle: aws:111:r1:vpc-b -> aws:111:r1:vpc-c -> aws:111:r1:vpc-b''))"
  by code_simp

theorem validation_decides_well_formedness_witness:
  "\<not> well_formed_plan ex_ring \<and> (''aws:111:r1:vpc-b'', ''aws:111:r1:vpc-b'') \<in> (depends ex_ring)\<^sup>+ \<and>
   well_formed_plan (ex_plan_of [ex_move ''vpc-a'' [''vpc-b''], ex_move ''vpc-b'' []])"
proof (intro conjI)
  show "\<not> well_formed_plan ex_ring"
    using validation_decides_well_formedness [of ex_lib ex_ring] ex_ring_refused by auto
  show "(''aws:111:r1:vpc-b'', ''aws:111:r1:vpc-b'') \<in> (depends ex_ring)\<^sup>+"
    using validation_decides_well_formedness [of ex_lib ex_ring] ex_ring_refused by (auto simp: refusal_def)
  have "ValidatePlan ex_lib (ex_plan_of [ex_move ''vpc-a'' [''vpc-b''], ex_move ''vpc-b'' []]) = Some None" by code_simp
  then show "well_formed_plan (ex_plan_of [ex_move ''vpc-a'' [''vpc-b''], ex_move ''vpc-b'' []])"
    using validation_decides_well_formedness [of ex_lib "ex_plan_of [ex_move ''vpc-a'' [''vpc-b''], ex_move ''vpc-b'' []]"] by blast
qed

end
