(* ===== verification/ProgressProps.thy ===== *)
theory ProgressProps
  imports AssessProps MigrateDerive MigrateProps
begin

text \<open>
  The properties of the derived migration progress: what a fully evidenced move and a clean report stand
  for, that no typed field moves a derived fact, and that the roll-ups of the waves add up.
\<close>

section \<open>The evidence index\<close>

definition last_row :: "DerivedEvidenceFile list \<Rightarrow> string \<times> string \<Rightarrow> DerivedEvidenceAllocation option" where
  "last_row files k =
     find (\<lambda>a. (da_TenantID a, da_AllocationKey a) = k) (rev (concat (map df_Allocations (sort_key df_Path files))))"

lemma fold_index_allocation:
  "map_of (fold index_allocation as byKey) k =
     (case find (\<lambda>a. (da_TenantID a, da_AllocationKey a) = k) (rev as) of None \<Rightarrow> map_of byKey k | Some a \<Rightarrow> Some a)"
  by (induction as arbitrary: byKey) (auto simp: find_append index_allocation_def AList.update_conv' split: option.splits)

lemma fold_index_file:
  "set (ei_scopes (fold index_file fs idx)) = {df_Scope f | f. f \<in> set fs \<and> df_Scope f \<noteq> []} \<union> set (ei_scopes idx)"
  "ei_hasOperator (fold index_file fs idx) \<longleftrightarrow> ei_hasOperator idx \<or> (\<exists>f \<in> set fs. df_Scope f = scopeOperator)"
  "map_of (ei_byKey (fold index_file fs idx)) k =
     (case find (\<lambda>a. (da_TenantID a, da_AllocationKey a) = k) (rev (concat (map df_Allocations fs))) of
        None \<Rightarrow> map_of (ei_byKey idx) k | Some a \<Rightarrow> Some a)"
  by (induction fs arbitrary: idx)
    (auto simp: index_file_def Let_def fold_index_allocation find_append scopeOperator_def split: option.splits)

definition covers_tenant :: "DerivedEvidenceFile list \<Rightarrow> string \<Rightarrow> bool" where
  "covers_tenant files tenant \<longleftrightarrow> (\<exists>f \<in> set files. df_Scope f \<noteq> [] \<and> (df_Scope f = ''operator'' \<or> df_Scope f = tenant))"

lemma index_lookups:
  "visibleForTenant (buildEvidenceIndex files) tenant \<longleftrightarrow> covers_tenant files tenant"
  "lookup_evidence (buildEvidenceIndex files) tenant key = last_row files (tenant, key)"
  by (auto simp: visibleForTenant_def lookup_evidence_def buildEvidenceIndex_def Let_def fold_index_file covers_tenant_def
      scopeOperator_def last_row_def split: option.split) force

section \<open>Facts\<close>

definition open_place :: "Coverage \<Rightarrow> string \<Rightarrow> string \<Rightarrow> bool" where
  "open_place c account region \<longleftrightarrow>
     cv_RunMissing c \<or> cv_AccountsMissing c \<or>
     (\<exists>f \<in> set (cv_Failed c). fe_AccountID f = account \<and> fe_Region f \<in> {[], region}) \<or>
     (account, region) \<in> set (cv_Partial c) \<or>
     (account, []) \<in> set (cv_NotAttempted c) \<or> (account, region) \<in> set (cv_NotAttempted c) \<or>
     (\<exists>m \<in> set (cv_RowCountShort c). rc_AccountID m = account \<and> rc_Region m = region)"

lemma coverageIncompleteFor_None: "coverageIncompleteFor c account region = None \<longleftrightarrow> \<not> open_place c account region"
  by (auto simp: coverageIncompleteFor_def open_place_def Let_def first_error_None find_None_iff)

text \<open>The subject of a move is gone: it was looked for where it was, and not found.\<close>

definition gone :: "Report \<Rightarrow> Input \<Rightarrow> Subject \<Rightarrow> bool" where
  "gone report inp s \<longleftrightarrow>
     \<not> (\<exists>r \<in> set (in_Records inp). rr_Type r = ''vpc'' \<and>
          subject_key \<lparr>sj_AccountID = rr_AccountID r, sj_Region = rr_Region r, sj_VPCID = rr_ResourceID r\<rparr> = subject_key s) \<and>
     (\<exists>a \<in> set (in_Accounts inp). ac_AccountID a = sj_AccountID s) \<and>
     \<not> open_place (rp_Coverage report) (sj_AccountID s) (sj_Region s)"

lemma subjectFact_gone:
  "fst (subjectFact s (rp_Coverage report) (knownSubjectSet inp) (knownAccountSet inp)) = SubjectNotObserved \<longleftrightarrow> gone report inp s"
proof -
  have "subject_key s \<in> set (knownSubjectSet inp) \<longleftrightarrow>
      (\<exists>r \<in> set (in_Records inp). rr_Type r = ''vpc'' \<and>
         subject_key \<lparr>sj_AccountID = rr_AccountID r, sj_Region = rr_Region r, sj_VPCID = rr_ResourceID r\<rparr> = subject_key s)"
    unfolding knownSubjectSet_def TypeVPC_def set_map set_filter image_iff by (smt (verit) mem_Collect_eq)
  moreover have "sj_AccountID s \<in> set (knownAccountSet inp) \<longleftrightarrow> (\<exists>a \<in> set (in_Accounts inp). ac_AccountID a = sj_AccountID s)"
    unfolding knownAccountSet_def set_map image_iff by metis
  ultimately show ?thesis using coverageIncompleteFor_None [of "rp_Coverage report" "sj_AccountID s" "sj_Region s"]
    by (cases "coverageIncompleteFor (rp_Coverage report) (sj_AccountID s) (sj_Region s)") (simp_all add: subjectFact_def gone_def)
qed

lemma itoa_inject: "itoa m = itoa n \<longleftrightarrow> m = n"
proof
  assume eq: "itoa m = itoa n"
  have dec: "a = b" if "dec a = dec b" for a b using digits_nat_dec that by metis
  have sign: "dec k \<noteq> CHR ''-'' # x" for k x
    using dec_digits [of k] by (cases "dec k") (auto simp: isdigit_def)
  consider "m < 0" "n < 0" | "m < 0" "0 \<le> n" | "0 \<le> m" "n < 0" | "0 \<le> m" "0 \<le> n" by linarith
  then show "m = n"
  proof cases
    case 1
    then have "dec (nat (- m)) = dec (nat (- n))" using eq by (simp add: itoa_def)
    then show ?thesis using dec 1 by fastforce
  next
    case 4
    then have "dec (nat m) = dec (nat n)" using eq by (simp add: itoa_def)
    then show ?thesis using dec 4 by fastforce
  qed (use eq sign [symmetric] sign in \<open>simp_all add: itoa_def\<close>)
qed simp

text \<open>The target of a move is in force: the last exported row of its key is active and verified, and as planned.\<close>

definition as_planned :: "Target \<Rightarrow> DerivedEvidenceAllocation \<Rightarrow> bool" where
  "as_planned t a \<longleftrightarrow>
     tg_Scope t = da_Scope a \<and> tg_Environment t = da_Environment a \<and> tg_Region t = da_Region a \<and>
     tg_AccountID t = da_AccountID a \<and> tg_PrefixLength t = Some (da_PrefixLength a) \<and>
     tg_ParentAllocationKey t = da_ParentAllocationKey a"

definition in_force :: "DerivedEvidenceFile list \<Rightarrow> Move \<Rightarrow> bool" where
  "in_force files m \<longleftrightarrow>
     (\<exists>t a. mv_Target m = Some t \<and> covers_tenant files (tg_TenantID t) \<and>
        last_row files (tg_TenantID t, tg_AllocationKey t) = Some a \<and>
        da_State a = ''ACTIVE'' \<and> da_VerifiedAt a \<notin> {None, Some []} \<and> (mv_Disposition m \<noteq> ''keep'' \<longrightarrow> as_planned t a))"

lemma target_mismatches_Nil: "target_mismatches t a = [] \<longleftrightarrow> as_planned t a"
proof -
  have "itoa k \<noteq> []" for k by (simp add: itoa_def)
  then have "prefixLengthText (tg_PrefixLength t) = itoa (da_PrefixLength a) \<longleftrightarrow> tg_PrefixLength t = Some (da_PrefixLength a)"
    by (auto simp: prefixLengthText_def itoa_inject dest: sym split: option.splits)
  then show ?thesis unfolding target_mismatches_def as_planned_def by (auto split: if_splits)
qed

lemma targetFact_active: "fst (targetFact m (buildEvidenceIndex files)) = TargetActive \<longleftrightarrow> in_force files m"
proof (cases "mv_Target m")
  case None
  then show ?thesis by (simp add: targetFact_def in_force_def)
next
  case (Some t)
  show ?thesis
  proof (cases "last_row files (tg_TenantID t, tg_AllocationKey t)")
    case None
    then show ?thesis using Some by (simp add: targetFact_def in_force_def index_lookups)
  next
    case row: (Some a)
    have "(case da_VerifiedAt a of None \<Rightarrow> False | Some v \<Rightarrow> v \<noteq> []) \<longleftrightarrow> da_VerifiedAt a \<notin> {None, Some []}"
      by (cases "da_VerifiedAt a") auto
    then show ?thesis using Some row target_mismatches_Nil [of t a]
      by (simp add: targetFact_def in_force_def index_lookups Let_def StateActive_def StateQuarantined_def StateReleased_def
          DispositionKeep_def)
  qed
qed

text \<open>No conflict of the report touches the subject, and none the move claims is left.\<close>

definition unconflicted :: "Report \<Rightarrow> Move \<Rightarrow> bool" where
  "unconflicted report m \<longleftrightarrow>
     (\<forall>c \<in> set (rp_Conflicts report). subject_key (mv_Subject m) \<notin> set (side_keys c) \<and> cf_ID c \<notin> set (mv_Resolves m))"

lemma moveConflictResults_unconflicted:
  assumes "moveConflictResults m (touchingConflicts (rp_Conflicts report)) (conflictIDSet (rp_Conflicts report)) = (resolves, open_ids)"
  shows "open_ids = [] \<and> list_all (\<lambda>r. rs_Status r = ResolveStale) resolves \<longleftrightarrow> unconflicted report m"
proof -
  have "list_all (\<lambda>r. rs_Status r = ResolveStale) resolves \<longleftrightarrow> (\<forall>c \<in> set (rp_Conflicts report). cf_ID c \<notin> set (mv_Resolves m))"
    using assms by (force simp: moveConflictResults_def Let_def conflictIDSet_def list_all_iff)
  moreover have "open_ids = [] \<longleftrightarrow>
      (\<forall>c \<in> set (rp_Conflicts report). subject_key (mv_Subject m) \<in> set (side_keys c) \<longrightarrow> cf_ID c \<in> set (mv_Resolves m))"
    using assms by (auto simp: moveConflictResults_def Let_def touchingConflicts_def filter_empty_conv)
  ultimately show ?thesis by (auto simp: unconflicted_def)
qed

definition move_result :: "Report \<Rightarrow> Input \<Rightarrow> DerivedEvidenceFile list \<Rightarrow> Move \<Rightarrow> MoveResult" where
  "move_result report inp files = deriveMove (rp_Coverage report) (buildEvidenceIndex files) (touchingConflicts (rp_Conflicts report))
     (knownSubjectSet inp) (knownAccountSet inp) (conflictIDSet (rp_Conflicts report))"

lemma move_result_evidenced:
  "mr_FullyEvidenced (move_result report inp files m) \<longleftrightarrow>
     gone report inp (mv_Subject m) \<and> in_force files m \<and> unconflicted report m"
proof -
  obtain resolves open_ids where r:
    "moveConflictResults m (touchingConflicts (rp_Conflicts report)) (conflictIDSet (rp_Conflicts report)) = (resolves, open_ids)"
    by fastforce
  show ?thesis
    using moveConflictResults_unconflicted [OF r] subjectFact_gone [of "mv_Subject m" report inp] targetFact_active [of m files] r
    by (auto simp: move_result_def deriveMove_def fullyEvidenced_def Let_def split: prod.splits)
qed

lemma Derive_moves: "pr_Moves (Derive K plan report inp files stamp planFiles) = sortMoves (map (move_result report inp files) (mp_Moves plan))"
  by (simp add: Derive_def Let_def move_result_def)

lemma Derive_counts:
  "ps_Derived (pr_Summary (Derive K plan report inp files stamp planFiles)) =
     derivedCounts (pr_Moves (Derive K plan report inp files stamp planFiles)) (unplannedConflictIDs (rp_Conflicts report) (mp_Moves plan))"
  by (simp add: Derive_def Let_def buildSummary_def)

section \<open>Evidence\<close>


section \<open>Typed fields\<close>

text \<open>What the facts about a move are asked with, and a result without what was only typed.\<close>

definition same_question :: "Move \<Rightarrow> Move \<Rightarrow> bool" where
  "same_question m m' \<longleftrightarrow>
     mv_Subject m = mv_Subject m' \<and> mv_Disposition m = mv_Disposition m' \<and> mv_Wave m = mv_Wave m' \<and>
     mv_Target m = mv_Target m' \<and> mv_Resolves m = mv_Resolves m'"

definition derived_part :: "MoveResult \<Rightarrow> MoveResult" where
  "derived_part r = r\<lparr>mr_Owner := [], mr_Approval := None, mr_DependsOn := [], mr_Blockers := [], mr_Rollback := [],
     mr_Verifications := [], mr_Notes := []\<rparr>"

lemma map_sort_key: "map f (sort_key (\<lambda>x. k (f x)) xs) = sort_key k (map f xs)"
proof (induction xs)
  case (Cons x xs)
  have "map f (insort_key (\<lambda>x. k (f x)) x ys) = insort_key k (f x) (map f ys)" for ys
    by (induction ys) simp_all
  then show ?case using Cons by simp
qed simp

lemma derived_part_fields [simp]:
  "mr_SubjectFact (derived_part r) = mr_SubjectFact r" "mr_TargetFact (derived_part r) = mr_TargetFact r"
  "mr_FullyEvidenced (derived_part r) = mr_FullyEvidenced r" "mr_Unmatched (derived_part r) = mr_Unmatched r"
  "mr_Resolves (derived_part r) = mr_Resolves r" "mr_Unclaimed (derived_part r) = mr_Unclaimed r"
  "mr_WaveID (derived_part r) = mr_WaveID r" "mr_Subject (derived_part r) = mr_Subject r"
  by (simp_all add: derived_part_def)

lemma derivedCounts_derived_part: "derivedCounts (map derived_part ms) unplanned = derivedCounts ms unplanned"
  by (simp add: derivedCounts_def subjectFactCounts_def targetFactCounts_def filter_map comp_def)

lemma move_result_same_question:
  assumes "same_question m m'"
  shows "derived_part (move_result report inp files m) = derived_part (move_result report inp files m')"
proof -
  have eq: "mv_Subject m = mv_Subject m'" "mv_Disposition m = mv_Disposition m'" "mv_Wave m = mv_Wave m'"
    "mv_Target m = mv_Target m'" "mv_Resolves m = mv_Resolves m'"
    using assms by (simp_all add: same_question_def)
  have "targetFact m idx = targetFact m' idx" "moveConflictResults m t ids = moveConflictResults m' t ids" for idx t ids
    unfolding targetFact_def moveConflictResults_def eq by simp_all
  then show ?thesis by (simp add: move_result_def deriveMove_def derived_part_def Let_def eq split: prod.split)
qed

lemma same_question_moves:
  assumes "list_all2 same_question ms ms'"
  shows "map (derived_part \<circ> move_result report inp files) ms = map (derived_part \<circ> move_result report inp files) ms'"
    and "map (\<lambda>m. subject_key (mv_Subject m)) ms = map (\<lambda>m. subject_key (mv_Subject m)) ms'"
    and "map mv_Target ms = map mv_Target ms'"
  using assms by (induction rule: list_all2_induct) (auto simp: move_result_same_question, auto simp: same_question_def)

lemma targetTenantSet_targets:
  "targetTenantSet ms = sort (remdups (filter (\<lambda>t. t \<noteq> [])
     (concat (map (\<lambda>x. case x of None \<Rightarrow> [] | Some t \<Rightarrow> [tg_TenantID t]) (map mv_Target ms)))))"
  by (simp add: targetTenantSet_def comp_def)

text \<open>
  Owners, approvals, dependencies, blockers, rollback notes, verification outcomes and remarks, of moves
  and of waves, change no derived fact: two plans that ask for the same moves get the same facts about every
  move in the same order, the same derived counts, the same unplanned conflicts, the same sentence and the
  same verdict on whether the report is clean.
\<close>

theorem typed_fields_change_no_fact:
  assumes "list_all2 same_question (mp_Moves p) (mp_Moves q)"
  shows "let a = Derive K p report inp files stamp planFiles; b = Derive K q report inp files stamp planFiles
     in map derived_part (pr_Moves a) = map derived_part (pr_Moves b) \<and>
        ps_Derived (pr_Summary a) = ps_Derived (pr_Summary b) \<and> ps_Sentence (pr_Summary a) = ps_Sentence (pr_Summary b) \<and>
        pr_Evidence a = pr_Evidence b \<and> pr_Unplanned a = pr_Unplanned b \<and> pr_InputLimits a = pr_InputLimits b \<and>
        progressClean a = progressClean b"
proof -
  let ?a = "Derive K p report inp files stamp planFiles" and ?b = "Derive K q report inp files stamp planFiles"
  have sorted: "map derived_part (sortMoves rs) = sortMoves (map derived_part rs)" for rs
    using map_sort_key [of derived_part "\<lambda>m. (mr_WaveID m, mr_Subject m)" rs] by (simp add: sortMoves_def)
  have moves: "map derived_part (pr_Moves ?a) = map derived_part (pr_Moves ?b)"
    using same_question_moves(1) [OF assms] by (simp add: Derive_moves sorted)
  then have len: "length (pr_Moves ?a) = length (pr_Moves ?b)" by (metis length_map)
  have unplanned: "unplannedConflictIDs (rp_Conflicts report) (mp_Moves p) = unplannedConflictIDs (rp_Conflicts report) (mp_Moves q)"
    using same_question_moves(2) [OF assms] by (simp add: unplannedConflictIDs_def)
  have tenants: "targetTenantSet (mp_Moves p) = targetTenantSet (mp_Moves q)"
    unfolding targetTenantSet_targets same_question_moves(3) [OF assms] ..
  have counts: "ps_Derived (pr_Summary ?a) = ps_Derived (pr_Summary ?b)"
    unfolding Derive_counts unplanned by (metis derivedCounts_derived_part moves)
  have "pr_Evidence ?a = pr_Evidence ?b" "pr_Unplanned ?a = pr_Unplanned ?b" "pr_InputLimits ?a = pr_InputLimits ?b"
    by (simp_all add: Derive_def Let_def tenants unplanned)
  moreover have "ps_Sentence (pr_Summary ?a) = ps_Sentence (pr_Summary ?b)"
    using counts len by (simp add: Derive_def Let_def buildSummary_def tenants unplanned)
  ultimately show ?thesis using moves counts by (simp add: Let_def progressClean_def)
qed

section \<open>Clean reports\<close>

text \<open>A conflict touches the subject of a move or it is listed as unplanned.\<close>

lemma conflict_planned_or_not:
  assumes "c \<in> set conflicts"
  shows "cf_ID c \<in> set (unplannedConflictIDs conflicts ms) \<or> (\<exists>m \<in> set ms. subject_key (mv_Subject m) \<in> set (side_keys c))"
  using assms by (auto simp: unplannedConflictIDs_def Let_def list_ex_iff)

lemma all_filtered: "length (filter P xs) = length xs \<longleftrightarrow> (\<forall>x \<in> set xs. P x)"
  by (metis filter_True filter_id_conv length_filter_less linorder_neq_iff)

text \<open>
  When the progress report is clean, the status with which \<open>onboard progress\<close> exits 0, the assessment it
  rests on has complete coverage and reports no conflict at all, planned or not; the plan has moves, and of
  every one of them the old VPC is gone and the target is in force. No target is mismatched, no conflict is
  left unclaimed and no VPC that is kept is blocked.
\<close>

theorem clean_progress_has_no_conflict:
  assumes "progressClean (Derive K plan report inp files stamp planFiles)"
  shows "rp_Conflicts report = [] \<and> cv_Complete (rp_Coverage report) \<and> mp_Moves plan \<noteq> [] \<and>
    (\<forall>m \<in> set (mp_Moves plan). gone report inp (mv_Subject m) \<and> in_force files m) \<and>
    (\<forall>r \<in> set (pr_Moves (Derive K plan report inp files stamp planFiles)).
       mr_TargetFact r = TargetActive \<and> mr_Unclaimed r = [] \<and> \<not> mr_KeepBlockedByConflict r)"
proof -
  let ?R = "Derive K plan report inp files stamp planFiles"
  have "length (filter mr_FullyEvidenced (pr_Moves ?R)) = length (pr_Moves ?R)" and some: "pr_Moves ?R \<noteq> []"
    and unplanned: "unplannedConflictIDs (rp_Conflicts report) (mp_Moves plan) = []"
    using assms unfolding progressClean_def Derive_counts by (simp_all add: derivedCounts_def Let_def)
  then have full: "mr_FullyEvidenced (move_result report inp files m)" if "m \<in> set (mp_Moves plan)" for m
    using that unfolding all_filtered by (simp add: Derive_moves sortMoves_def)
  then have moves: "gone report inp (mv_Subject m) \<and> in_force files m \<and> unconflicted report m" if "m \<in> set (mp_Moves plan)" for m
    using that by (simp add: move_result_evidenced)
  have none: "rp_Conflicts report = []"
  proof (rule ccontr)
    assume "rp_Conflicts report \<noteq> []"
    then obtain c where "c \<in> set (rp_Conflicts report)" by (meson list.set_sel(1))
    then show False using conflict_planned_or_not [of c "rp_Conflicts report" "mp_Moves plan"] unplanned moves
      by (auto simp: unconflicted_def)
  qed
  have "cv_Complete (rp_Coverage report)"
    using assms by (simp add: progressClean_def Derive_def Let_def evidence_complete_def)
  moreover have "mp_Moves plan \<noteq> []" using some by (auto simp: Derive_moves sortMoves_def)
  moreover have "mr_TargetFact r = TargetActive \<and> mr_Unclaimed r = [] \<and> \<not> mr_KeepBlockedByConflict r" if r: "r \<in> set (pr_Moves ?R)" for r
  proof -
    obtain m where m: "m \<in> set (mp_Moves plan)" "r = move_result report inp files m"
      using r by (auto simp: Derive_moves sortMoves_def)
    then show ?thesis using full [OF m(1)] none
      by (auto simp: move_result_def deriveMove_def fullyEvidenced_def touchingConflicts_def Let_def split: prod.splits)
  qed
  ultimately show ?thesis using none moves by blast
qed

section \<open>Waves\<close>

lemma partition_count:
  assumes "distinct ks" "\<forall>x \<in> set xs. g x \<in> set ks"
  shows "sum_list (map (\<lambda>k. length (filter P (filter (\<lambda>x. g x = k) xs))) ks) = length (filter P xs)"
  using assms(2)
proof (induction xs)
  case (Cons x xs)
  have one: "sum_list (map (\<lambda>k. if g x = k then 1 else 0) ks) = (1 :: nat)"
    using assms(1) Cons.prems by (simp add: sum_list_distinct_conv_sum_set)
  have "length (filter P (filter (\<lambda>y. g y = k) (x # xs))) =
      (if P x then (if g x = k then 1 else 0) else 0) + length (filter P (filter (\<lambda>y. g y = k) xs))" for k
    by simp
  then have "sum_list (map (\<lambda>k. length (filter P (filter (\<lambda>y. g y = k) (x # xs)))) ks) =
      sum_list (map (\<lambda>k. if P x then (if g x = k then 1 else 0) else 0) ks) +
      sum_list (map (\<lambda>k. length (filter P (filter (\<lambda>y. g y = k) xs))) ks)"
    by (simp only: sum_list_addf)
  also have "\<dots> = (if P x then 1 else 0) + length (filter P xs)"
    using Cons one by simp
  finally show ?case by simp
qed simp

lemma sum_list_sort_key: "sum_list (map f (sort_key k xs)) = (sum_list (map f xs) :: nat)"
  by (metis mset_map mset_sort sum_mset_sum_list)

lemma wave_sums:
  assumes "distinct (map wv_ID waves)" "\<forall>r \<in> set rs. mr_WaveID r \<in> set (map wv_ID waves)"
    and "\<And>w ms. f (rollupOne w ms) = length (filter P ms)"
  shows "sum_list (map f (buildWaveRollups waves rs)) = length (filter P rs)"
proof -
  have "sum_list (map f (buildWaveRollups waves rs)) =
      sum_list (map (\<lambda>k. length (filter P (filter (\<lambda>r. mr_WaveID r = k) rs))) (map wv_ID waves))"
    unfolding buildWaveRollups_def sum_list_sort_key map_map comp_def assms(3) ..
  also have "\<dots> = length (filter P rs)" by (rule partition_count [OF assms(1,2)])
  finally show ?thesis .
qed

lemma well_formed_wave: "well_formed_move p m \<Longrightarrow> mv_Wave m \<in> wv_ID ` set (mp_Waves p)"
  unfolding well_formed_move_def image_iff by metis

lemma fact_counts_nth:
  "i < 3 \<Longrightarrow> snd (subjectFactCounts ms ! i) =
     length (filter (\<lambda>m. mr_SubjectFact m = [SubjectObserved, SubjectNotObserved, SubjectUnknown] ! i) ms)"
  "i < 6 \<Longrightarrow> snd (targetFactCounts ms ! i) =
     length (filter (\<lambda>m. mr_TargetFact m =
       [TargetNone, TargetReserved, TargetActive, TargetRetired, TargetMismatched, TargetUnknown] ! i) ms)"
  unfolding subjectFactCounts_def targetFactCounts_def by (subst nth_map; simp)+

text \<open>
  In the report of a validated plan whose files define every wave once, the waves partition the moves:
  their totals, their fully evidenced moves and their moves with each subject fact and each target fact add
  up to the derived counts of the whole report.
\<close>

theorem wave_rollups_add_up:
  assumes valid: "ValidatePlan u plan = Some None" and once: "distinct (map wv_ID (mp_Waves plan))"
    and R: "R = Derive K plan report inp files stamp planFiles"
  shows "sum_list (map wr_MovesTotal (pr_Waves R)) = dc_MovesTotal (ps_Derived (pr_Summary R)) \<and>
    sum_list (map wr_FullyEvidenced (pr_Waves R)) = dc_FullyEvidenced (ps_Derived (pr_Summary R)) \<and>
    (\<forall>i < 3. sum_list (map (\<lambda>w. snd (wr_BySubjectFact w ! i)) (pr_Waves R)) = snd (dc_BySubjectFact (ps_Derived (pr_Summary R)) ! i)) \<and>
    (\<forall>i < 6. sum_list (map (\<lambda>w. snd (wr_ByTargetFact w ! i)) (pr_Waves R)) = snd (dc_ByTargetFact (ps_Derived (pr_Summary R)) ! i))"
proof -
  have "well_formed_plan plan" using ValidatePlan_decides [of u plan] valid by (metis option.inject)
  then have "\<forall>m \<in> set (mp_Moves plan). mv_Wave m \<in> set (map wv_ID (mp_Waves plan))"
    using well_formed_wave by (simp add: well_formed_plan_def)
  then have named: "\<forall>r \<in> set (pr_Moves R). mr_WaveID r \<in> set (map wv_ID (mp_Waves plan))"
    by (simp add: R Derive_moves sortMoves_def move_result_def deriveMove_def Let_def split: prod.split)
  have waves: "pr_Waves R = buildWaveRollups (mp_Waves plan) (pr_Moves R)"
    by (simp add: R Derive_def Let_def)
  have counts: "ps_Derived (pr_Summary R) = derivedCounts (pr_Moves R) (unplannedConflictIDs (rp_Conflicts report) (mp_Moves plan))"
    unfolding R by (rule Derive_counts)
  note sums = wave_sums [OF once named, folded waves]
  have "sum_list (map wr_MovesTotal (pr_Waves R)) = length (filter (\<lambda>_. True) (pr_Moves R))"
    by (rule sums) (simp add: rollupOne_def)
  moreover have "sum_list (map wr_FullyEvidenced (pr_Waves R)) = length (filter mr_FullyEvidenced (pr_Moves R))"
    by (rule sums) (simp add: rollupOne_def)
  moreover have "sum_list (map (\<lambda>w. snd (wr_BySubjectFact w ! i)) (pr_Waves R)) =
      length (filter (\<lambda>m. mr_SubjectFact m = [SubjectObserved, SubjectNotObserved, SubjectUnknown] ! i) (pr_Moves R))" if "i < 3" for i
    by (rule sums) (use that in \<open>simp add: rollupOne_def fact_counts_nth\<close>)
  moreover have "sum_list (map (\<lambda>w. snd (wr_ByTargetFact w ! i)) (pr_Waves R)) =
      length (filter (\<lambda>m. mr_TargetFact m = [TargetNone, TargetReserved, TargetActive, TargetRetired, TargetMismatched, TargetUnknown] ! i)
        (pr_Moves R))" if "i < 6" for i
    by (rule sums) (use that in \<open>simp add: rollupOne_def fact_counts_nth\<close>)
  ultimately show ?thesis
    unfolding counts by (simp add: derivedCounts_def Let_def fact_counts_nth)
qed

section \<open>Concrete plans\<close>

definition ex_vpc_subject :: "string \<Rightarrow> Subject" where
  "ex_vpc_subject region = \<lparr>sj_AccountID = ''1'', sj_Region = region, sj_VPCID = ''v0''\<rparr>"

definition ex_target :: Target where
  "ex_target = \<lparr>tg_TenantID = ''t'', tg_AllocationKey = ''k'', tg_Scope = ''s'', tg_Environment = ''e'', tg_Region = ''r1'',
     tg_AccountID = ''1'', tg_PrefixLength = Some 24, tg_ParentAllocationKey = []\<rparr>"

definition ex_replace :: "string \<Rightarrow> Move" where
  "ex_replace region = (ex_move ''v0'' [])\<lparr>mv_Subject := ex_vpc_subject region, mv_Disposition := ''replace'',
     mv_Target := Some ex_target\<rparr>"

definition ex_row :: DerivedEvidenceAllocation where
  "ex_row = \<lparr>da_TenantID = ''t'', da_AllocationKey = ''k'', da_Scope = ''s'', da_Environment = ''e'', da_Region = ''r1'',
     da_AccountID = ''1'', da_PrefixLength = 24, da_ParentAllocationKey = [], da_State = ''ACTIVE'', da_VerifiedAt = Some ''now''\<rparr>"

definition ex_export :: "DerivedEvidenceFile list" where
  "ex_export = [\<lparr>df_Scope = ''t'', df_ReadAt = ''now'', df_Allocations = [ex_row], df_Path = ''a.json'', df_Content = []\<rparr>]"

definition ex_assessed :: Report where
  "ex_assessed = \<lparr>rp_ReportVersion = 1, rp_Stamp = [], rp_Inputs = [], rp_InputLimits = [],
     rp_Coverage = computeCoverage ex_crypto (ex_input ex_outer),
     rp_Summary = computeSummary (computeCoverage ex_crypto (ex_input ex_outer)) [] 0 ex_outer [] [],
     rp_Conflicts = [], rp_Notes = [reachabilityNote]\<rparr>"

definition ex_progress :: "MigrationPlan \<Rightarrow> ProgressReport" where
  "ex_progress plan = Derive ex_crypto plan ex_assessed (ex_input ex_outer) ex_export [] []"

text \<open>The run attempted the region \<open>r1\<close> of the account only.\<close>

lemma ex_clean:
  "progressClean (ex_progress (ex_plan_of [ex_replace ''r1'']))"
  "progressClean (ex_progress (ex_plan_of [ex_replace ''r9'']))"
  by code_simp+

text \<open>
  A VPC planned in a region that the run never attempted counts as looked for and gone: no coverage entry
  names the region, so the report is clean although the account was read in \<open>r1\<close> alone.
\<close>

lemma unvisited_region_counts_as_gone:
  "\<forall>run. in_Run (ex_input ex_outer) = Some run \<longrightarrow> (\<forall>a \<in> set (rn_Attempts run). at_Region a \<noteq> ''r9'')"
  "mr_SubjectFact (move_result ex_assessed (ex_input ex_outer) ex_export (ex_replace ''r9'')) = SubjectNotObserved"
  "progressClean (ex_progress (ex_plan_of [ex_replace ''r9'']))"
  using ex_clean(2) by (auto simp: ex_input_def ex_outer_def ex_vpc_def) code_simp

text \<open>
  Two files may carry the same definition of a wave they share; its roll-up is then in the report twice, and
  an approved wave counts as two approved waves.
\<close>

definition ex_shared_plan :: MigrationPlan where
  "ex_shared_plan =
     (let w = ex_wave\<lparr>wv_Approval := Some \<lparr>ap_ApprovedBy = ''a'', ap_ApprovedAt = ''b'', ap_Approves = ''c''\<rparr>\<rparr>
      in (ex_plan_of [ex_replace ''r1''])\<lparr>mp_Waves := [w, w\<lparr>wv_SourceFile := ''other.yaml''\<rparr>]\<rparr>)"

lemma shared_wave_counts_twice:
  "ValidatePlan ex_lib ex_shared_plan = Some None"
  "map wr_MovesTotal (pr_Waves (ex_progress ex_shared_plan)) = [1, 1]"
  "dc_MovesTotal (ps_Derived (pr_Summary (ex_progress ex_shared_plan))) = 1"
  "ty_WavesApproved (ps_Typed (pr_Summary (ex_progress ex_shared_plan))) = 2"
  by code_simp+

theorem clean_progress_has_no_conflict_witness:
  "rp_Conflicts ex_assessed = [] \<and> cv_Complete (rp_Coverage ex_assessed) \<and>
   gone ex_assessed (ex_input ex_outer) (ex_vpc_subject ''r1'') \<and> in_force ex_export (ex_replace ''r1'')"
  using clean_progress_has_no_conflict [of ex_crypto "ex_plan_of [ex_replace ''r1'']" ex_assessed "ex_input ex_outer" ex_export "[]" "[]"]
    ex_clean(1) by (simp add: ex_progress_def ex_plan_of_def ex_replace_def)

theorem typed_fields_change_no_fact_witness:
  "progressClean (ex_progress (ex_plan_of [(ex_replace ''r1'')\<lparr>mv_Owner := ''nobody'', mv_Notes := ''not moved yet''\<rparr>]))"
proof -
  let ?p = "ex_plan_of [ex_replace ''r1'']"
    and ?q = "ex_plan_of [(ex_replace ''r1'')\<lparr>mv_Owner := ''nobody'', mv_Notes := ''not moved yet''\<rparr>]"
  have "list_all2 same_question (mp_Moves ?p) (mp_Moves ?q)" by (simp add: ex_plan_of_def same_question_def)
  from typed_fields_change_no_fact [OF this, of ex_crypto ex_assessed "ex_input ex_outer" ex_export "[]" "[]"]
  show ?thesis using ex_clean(1) unfolding ex_progress_def Let_def by blast
qed

theorem wave_rollups_add_up_witness:
  "sum_list (map wr_FullyEvidenced (pr_Waves (ex_progress (ex_plan_of [ex_replace ''r1''])))) = 1"
proof -
  let ?R = "ex_progress (ex_plan_of [ex_replace ''r1''])"
  have "ValidatePlan ex_lib (ex_plan_of [ex_replace ''r1'']) = Some None" by code_simp
  moreover have "distinct (map wv_ID (mp_Waves (ex_plan_of [ex_replace ''r1''])))" by (simp add: ex_plan_of_def)
  ultimately have "sum_list (map wr_FullyEvidenced (pr_Waves ?R)) = dc_FullyEvidenced (ps_Derived (pr_Summary ?R))"
    using wave_rollups_add_up [of ex_lib _ ?R] unfolding ex_progress_def by blast
  also have "\<dots> = 1" by code_simp
  finally show ?thesis .
qed

end
