(* ===== verification/Netbox.thy ===== *)
theory Netbox
  imports ServiceBase Ranges "HOL-Library.State_Monad"
begin

text \<open>
  The inventory adapter's view of NetBox (\<open>client.go\<close>, \<open>adopt.go\<close> and \<open>occupancy.go\<close> of
  \<open>internal/netbox\<close>): the objects it decodes, the requests it sends, its errors and the checks its
  operations share. NetBox is third-party code, so its answer to the \<open>n\<close>-th request of an operation is an
  arbitrary function, and an operation is a computation over the list of the requests sent so far. A listing
  stands for all of its pages; encoding JSON and following page links are not modelled.
\<close>

section \<open>Values\<close>

text \<open>A decoded JSON value. Numbers are the integers that identifiers are.\<close>

datatype jval = JNull | JBool bool | JNum int | JStr string | JList "jval list" | JObj "(string \<times> jval) list"

text \<open>
  The parameters: the digests and formats of the service, \<open>fmt.Sprint\<close> on a value that is no string,
  the typed decoding of a contributor list (\<open>None\<close> is an error) and its encoding, and \<open>time.Parse\<close>.
\<close>

record nblib =
  nl_K :: Crypto
  nl_Sprint :: "jval \<Rightarrow> string"
  nl_decode :: "jval \<Rightarrow> Contributor list option"
  nl_encode :: "Contributor list \<Rightarrow> jval"
  nl_ParseTime :: "string \<Rightarrow> time option"

definition allocationIDCF :: string where "allocationIDCF = ''platform_allocation_id''"
definition allocationKeyCF :: string where "allocationKeyCF = ''platform_allocation_key''"
definition operationIDCF :: string where "operationIDCF = ''platform_operation_id''"
definition stateCF :: string where "stateCF = ''platform_state''"
definition parentAllocationIDCF :: string where "parentAllocationIDCF = ''platform_parent_allocation_id''"
definition ImportedTag :: string where "ImportedTag = ''platform-ipam-imported''"
definition ImportBatchField :: string where "ImportBatchField = ''platform_import_batch''"
definition ImportSourceField :: string where "ImportSourceField = ''platform_import_source''"
definition ImportContributorsField :: string where "ImportContributorsField = ''platform_import_contributors''"
definition ImportContributorsReconstructedField :: string where
  "ImportContributorsReconstructedField = ''platform_import_contributors_reconstructed''"
definition awsAccountCF :: string where "awsAccountCF = ''platform_aws_account_id''"
definition awsRegionCF :: string where "awsRegionCF = ''platform_aws_region''"
definition awsResourceCF :: string where "awsResourceCF = ''platform_aws_resource_id''"

fun intID :: "jval \<Rightarrow> int" and id_field :: "(string \<times> jval) list \<Rightarrow> int" where
  "intID (JNum n) = n"
| "intID (JObj o') = id_field o'"
| "intID v = 0"
| "id_field [] = 0"
| "id_field ((k, v) # rest) = (if k = ''id'' then intID v else id_field rest)"

definition stringCF :: "nblib \<Rightarrow> jval gomap \<Rightarrow> string \<Rightarrow> string" where
  "stringCF L cfs key =
     (case mget cfs key of
        None \<Rightarrow> []
      | Some JNull \<Rightarrow> []
      | Some (JStr s) \<Rightarrow> s
      | Some v \<Rightarrow>
          (case v of
             JObj o' \<Rightarrow>
               (case mget o' ''value'' of
                  Some (JStr s) \<Rightarrow> if key = stateCF \<or> key = ''platform_drift_status'' then s else nl_Sprint L v
                | _ \<Rightarrow> nl_Sprint L v)
           | _ \<Rightarrow> nl_Sprint L v))"

text \<open>The contributors, \<open>None\<close> for no list at all, and whether the field could not be read.\<close>

definition contributorsCF :: "nblib \<Rightarrow> jval gomap \<Rightarrow> string \<Rightarrow> Contributor list option \<times> bool" where
  "contributorsCF L cfs key =
     (case mget cfs key of
        None \<Rightarrow> (None, False)
      | Some JNull \<Rightarrow> (None, False)
      | Some v \<Rightarrow> (case nl_decode L v of None \<Rightarrow> (None, True) | Some cs \<Rightarrow> (Some cs, False)))"

definition boolCF :: "jval gomap \<Rightarrow> string \<Rightarrow> bool" where
  "boolCF cfs key = (case mget cfs key of Some (JBool b) \<Rightarrow> b | _ \<Rightarrow> False)"

section \<open>Objects\<close>

text \<open>A prefix; of its tags only the slugs are read. Custom fields may be missing.\<close>

record nbprefix =
  px_ID :: int
  px_Prefix :: string
  px_VRF :: jval
  px_Status :: string
  px_CustomFields :: "jval gomap option"
  px_Tags :: "string list"
  px_Description :: string

definition fields_of :: "nbprefix \<Rightarrow> jval gomap" where
  "fields_of x = (case px_CustomFields x of None \<Rightarrow> [] | Some m \<Rightarrow> m)"

abbreviation px_string :: "nblib \<Rightarrow> nbprefix \<Rightarrow> string \<Rightarrow> string" where
  "px_string L x \<equiv> stringCF L (fields_of x)"

definition imported :: "nbprefix \<Rightarrow> bool" where
  "imported x \<longleftrightarrow> ImportedTag \<in> set (px_Tags x)"

definition ownershipFields :: "string list" where
  "ownershipFields = [allocationIDCF, allocationKeyCF, operationIDCF, stateCF]"

definition owned :: "nblib \<Rightarrow> nbprefix \<Rightarrow> bool" where
  "owned L x \<longleftrightarrow> list_ex (\<lambda>field. px_string L x field \<noteq> []) ownershipFields"

definition prefix_vrf :: "nbprefix \<Rightarrow> int" where
  "prefix_vrf x = intID (px_VRF x)"

record ipAddress =
  ia_ID :: int
  ia_Address :: string
  ia_VRF :: jval

record ipRange =
  ir_ID :: int
  ir_StartAddress :: string
  ir_EndAddress :: string
  ir_VRF :: jval
  ir_CustomFields :: "jval gomap"

section \<open>Requests and answers\<close>

text \<open>The fields of a payload; a field that is \<open>None\<close> is not sent.\<close>

record nb_payload =
  np_Prefix :: "string option"
  np_Range :: "(string \<times> string) option"
  np_VRF :: "int option"
  np_Status :: "string option"
  np_Description :: "string option"
  np_Tags :: "string list option"
  np_Fields :: "jval gomap"

text \<open>The last argument of a conditional write is the \<open>If-Match\<close> header, empty when it is not sent.\<close>

datatype nb_request =
    ListPrefixes
  | ListPrefixesAt string
  | ListPrefixesMarked string
  | ListVRFs
  | ListAddresses
  | ListRanges "int option"
  | GetPrefix string
  | PostPrefix nb_payload
  | PostRange nb_payload
  | PatchPrefix string nb_payload string
  | DeletePrefix string string

datatype nb_http = HTTPError int | NoAnswer goerr

datatype nb_body =
    Prefixes "nbprefix list"
  | VRFs "int list"
  | Addresses "ipAddress list"
  | IPRanges "ipRange list"
  | Detail nbprefix string
  | RangeDetail ipRange
  | NoBody

type_synonym net = "nat \<Rightarrow> nb_request \<Rightarrow> nb_http + nb_body"
type_synonym 'a nb = "(nb_request list, 'a) state"

definition call :: "net \<Rightarrow> nb_request \<Rightarrow> (nb_http + nb_body) nb" where
  "call net r = State (\<lambda>t. (net (length t) r, t @ [r]))"

text \<open>A body of another shape than the request asks for does not decode.\<close>

definition undecodable :: nb_http where
  "undecodable = NoAnswer (OtherErr ''decode'')"

definition as_prefixes :: "nb_http + nb_body \<Rightarrow> nb_http + nbprefix list" where
  "as_prefixes r = (case r of Inl e \<Rightarrow> Inl e | Inr (Prefixes xs) \<Rightarrow> Inr xs | Inr _ \<Rightarrow> Inl undecodable)"

definition as_detail :: "nb_http + nb_body \<Rightarrow> nb_http + nbprefix \<times> string" where
  "as_detail r = (case r of Inl e \<Rightarrow> Inl e | Inr (Detail x etag) \<Rightarrow> Inr (x, etag) | Inr _ \<Rightarrow> Inl undecodable)"

definition as_ranges :: "nb_http + nb_body \<Rightarrow> nb_http + ipRange list" where
  "as_ranges r = (case r of Inl e \<Rightarrow> Inl e | Inr (IPRanges xs) \<Rightarrow> Inr xs | Inr _ \<Rightarrow> Inl undecodable)"

definition as_range :: "nb_http + nb_body \<Rightarrow> nb_http + ipRange" where
  "as_range r = (case r of Inl e \<Rightarrow> Inl e | Inr (RangeDetail x) \<Rightarrow> Inr x | Inr _ \<Rightarrow> Inl undecodable)"

section \<open>Errors\<close>

text \<open>The sentinels of the package; the texts around them are left out.\<close>

datatype nb_kind =
    ErrAdoptInvalid | ErrAdoptNotFound | ErrAdoptConflict | ErrAdoptManaged | ErrAdoptNotImported | ErrAdoptReadBack
  | ErrAbandonInvalid | ErrAbandonAmbiguous | ErrAbandonNotOurs | ErrAbandonConflict | ErrAbandonReadBack | ErrAbandonUncertain
  | ErrCancelInvalid | ErrCancelAmbiguous | ErrCancelNotOurs | ErrCancelImported | ErrCancelConflict | ErrCancelReadBack
  | ErrCancelUncertain
  | ErrOccupancyManaged | ErrOccupancyPool | ErrOccupancyConflict | ErrOccupancyInvalid | ErrOccupancyNoVRF
  | ErrRefreshNotFound | ErrRefreshUnreadable | ErrRefreshReadBack
  | ErrRemovalNotFound | ErrRemovalReconstructed | ErrRemovalIDMismatch | ErrRemovalReadBack | ErrRemovalUncertain
  | ErrPlain

text \<open>
  An error of an operation: a decision on evidence, an error whose chain carries
  \<open>domain.ErrInventoryUncertain\<close>, one that NetBox answered, or the cause itself.
\<close>

datatype nb_error = Decision nb_kind | Unanswered nb_kind nb_http | Answered nb_kind nb_http | Cause nb_http

definition StatusPreconditionFailed :: int where "StatusPreconditionFailed = 412"
definition StatusNotFound :: int where "StatusNotFound = 404"

definition unanswered :: "nb_http \<Rightarrow> bool" where
  "unanswered e = (case e of NoAnswer _ \<Rightarrow> True | HTTPError status \<Rightarrow> status \<ge> 500 \<or> status = 429)"

definition answeredWith :: "nb_http \<Rightarrow> int \<Rightarrow> bool" where
  "answeredWith e status = (case e of NoAnswer _ \<Rightarrow> False | HTTPError s \<Rightarrow> s = status)"

definition uncertain :: "nb_kind \<Rightarrow> nb_http \<Rightarrow> nb_error" where
  "uncertain kind e = (if unanswered e then Unanswered kind e else Answered kind e)"

text \<open>The error as the service distinguishes it (\<open>uncertainInventoryError\<close>).\<close>

definition nb_goerr :: "nb_error \<Rightarrow> goerr" where
  "nb_goerr e =
     (case e of
        Decision _ \<Rightarrow> OtherErr ''netbox decision''
      | Unanswered _ _ \<Rightarrow> InventoryUncertain ''no answer from netbox''
      | Answered _ _ \<Rightarrow> OtherErr ''netbox refused''
      | Cause (NoAnswer g) \<Rightarrow> g
      | Cause (HTTPError _) \<Rightarrow> OtherErr ''netbox HTTP status'')"

section \<open>Configured domains and pools\<close>

record client =
  nc_L :: nblib
  nc_domains :: "Domain gomap"
  nc_pools :: "Pool gomap"
  nc_refresh :: duration

definition New :: "nblib \<Rightarrow> Config \<Rightarrow> duration \<Rightarrow> client" where
  "New L cfg refresh =
     \<lparr>nc_L = L, nc_domains = fold (\<lambda>d. mput (d_ID d) d) (c_Domains cfg) [],
      nc_pools = fold (\<lambda>p. mput (pl_ID p) p) (c_Pools cfg) [], nc_refresh = refresh\<rparr>"

definition parsePrefix :: "string \<Rightarrow> Prefix option" where
  "parsePrefix s = ParsePrefix (TrimSpace s)"

definition poolVRF :: "Domain \<Rightarrow> Pool \<Rightarrow> int" where
  "poolVRF d p = (if bk_VRFID (pl_Backend p) \<noteq> 0 then bk_VRFID (pl_Backend p) else bk_VRFID (d_Backend d))"

definition bad_pool :: "Domain \<Rightarrow> Pool \<Rightarrow> bool" where
  "bad_pool d p \<longleftrightarrow>
     pl_CIDR p = [] \<or> parsePrefix (pl_CIDR p) = None \<or>
     poolVRF d p \<noteq> bk_VRFID (d_Backend d) \<and> bk_VRFID (d_Backend d) \<noteq> 0"

definition domainPools :: "client \<Rightarrow> Domain \<Rightarrow> nb_error + Pool list" where
  "domainPools c d =
     (let pools = filter (\<lambda>p. pl_DomainID p = d_ID d) (mvals (nc_pools c))
      in if list_ex (bad_pool d) pools then Inl (Decision ErrPlain) else Inr pools)"

definition allocationDomain :: "client \<Rightarrow> Allocation \<Rightarrow> nb_error + Domain \<times> Pool" where
  "allocationDomain c a =
     (case (mget (nc_domains c) (a_DomainID a), mget (nc_pools c) (a_PoolID a)) of
        (Some d, Some p) \<Rightarrow> if pl_DomainID p \<noteq> d_ID d then Inl (Decision ErrPlain) else Inr (d, p)
      | _ \<Rightarrow> Inl (Decision ErrPlain))"

definition occupancyDomain :: "client \<Rightarrow> Domain \<Rightarrow> nb_error + Domain \<times> Pool list" where
  "occupancyDomain c d =
     (if d_ID d = [] then Inl (Decision ErrPlain)
      else case mget (nc_domains c) (d_ID d) of
        None \<Rightarrow> Inl (Decision ErrPlain)
      | Some cfg \<Rightarrow>
          if bk_VRFID (d_Backend cfg) = 0 then Inl (Decision ErrOccupancyNoVRF)
          else if bk_VRFID (d_Backend d) \<noteq> 0 \<and> bk_VRFID (d_Backend d) \<noteq> bk_VRFID (d_Backend cfg) then Inl (Decision ErrPlain)
          else map_sum id (Pair cfg) (domainPools c cfg))"

section \<open>Addresses of an operation\<close>

definition occupancyPrefix :: "string \<Rightarrow> nb_error + Prefix" where
  "occupancyPrefix s =
     (case parsePrefix s of
        None \<Rightarrow> Inl (Decision ErrOccupancyInvalid)
      | Some p \<Rightarrow> if p \<noteq> Masked p \<or> \<not> Is4 (ip p) then Inl (Decision ErrOccupancyInvalid) else Inr p)"

definition hostAddr :: "string \<Rightarrow> Addr option" where
  "hostAddr s = ParseAddr (before CHR ''/'' (TrimSpace s))"

definition occupancyAddr :: "string \<Rightarrow> nb_error + Addr" where
  "occupancyAddr s =
     (case hostAddr s of
        None \<Rightarrow> Inl (Decision ErrOccupancyInvalid)
      | Some a \<Rightarrow> if \<not> Is4 a then Inl (Decision ErrOccupancyInvalid) else Inr a)"

definition adoptCIDR :: "string \<Rightarrow> Pool \<Rightarrow> nb_error + Prefix" where
  "adoptCIDR s p =
     (case occupancyPrefix s of
        Inl _ \<Rightarrow> Inl (Decision ErrAdoptInvalid)
      | Inr cidr \<Rightarrow>
          (case parsePrefix (pl_CIDR p) of
             None \<Rightarrow> Inl (Decision ErrPlain)
           | Some raw \<Rightarrow>
               let pc = Masked raw
               in if cidr = pc \<or> \<not> Contains pc (ip cidr) \<or> pbits cidr < pbits pc then Inl (Decision ErrAdoptInvalid)
                  else Inr cidr))"

text \<open>The first pool that a prefix is, or contains; the first that a range spans.\<close>

definition pool_conflict :: "Prefix \<Rightarrow> Pool \<Rightarrow> nb_error option" where
  "pool_conflict cidr p =
     (case parsePrefix (pl_CIDR p) of
        None \<Rightarrow> Some (Decision ErrPlain)
      | Some raw \<Rightarrow>
          let pc = Masked raw
          in if pc = cidr \<or> pbits cidr < pbits pc \<and> Contains cidr (ip pc) then Some (Decision ErrOccupancyPool) else None)"

definition refusePoolPrefix :: "Prefix \<Rightarrow> Pool list \<Rightarrow> nb_error option" where
  "refusePoolPrefix cidr pools = first_error (map (pool_conflict cidr) pools)"

definition refusePoolSpan :: "Addr \<Rightarrow> Addr \<Rightarrow> Pool list \<Rightarrow> nb_error option" where
  "refusePoolSpan start stop pools =
     first_error (map (\<lambda>p. case parsePrefix (pl_CIDR p) of
         None \<Rightarrow> Some (Decision ErrPlain)
       | Some raw \<Rightarrow>
           let pc = Masked raw
           in if Compare start (ip pc) \<le> 0 \<and> Compare stop (prefixLast pc) \<ge> 0 then Some (Decision ErrOccupancyPool) else None) pools)"

section \<open>Shared reads and checks\<close>

definition itoaID :: "int \<Rightarrow> string" where
  "itoaID n = (if n < 0 then ''-'' @ dec (nat (- n)) else dec (nat n))"

definition adoptRead :: "net \<Rightarrow> int \<Rightarrow> (nb_http + nbprefix \<times> string) nb" where
  "adoptRead net i = do { r \<leftarrow> call net (GetPrefix (itoaID i)); State_Monad.return (as_detail r) }"

text \<open>The listings are filtered again; a prefix that does not parse fails the listing at a CIDR.\<close>

definition prefixesAt :: "net \<Rightarrow> Prefix \<Rightarrow> int \<Rightarrow> (nb_http + nbprefix list) nb" where
  "prefixesAt net cidr vrfID = do {
     r \<leftarrow> call net (ListPrefixesAt (PrefixString cidr));
     State_Monad.return (case as_prefixes r of
         Inl e \<Rightarrow> Inl e
       | Inr xs \<Rightarrow>
           if list_ex (\<lambda>x. parsePrefix (px_Prefix x) = None) xs then Inl undecodable
           else Inr (filter (\<lambda>x. parsePrefix (px_Prefix x) = Some cidr \<and> prefix_vrf x = vrfID) xs)) }"

definition findByMarker :: "nblib \<Rightarrow> net \<Rightarrow> string \<Rightarrow> (nb_http + nbprefix list) nb" where
  "findByMarker L net allocationID = do {
     r \<leftarrow> call net (ListPrefixesMarked allocationID);
     State_Monad.return (map_sum id (filter (\<lambda>x. px_string L x allocationIDCF = allocationID)) (as_prefixes r)) }"

definition rangesIn :: "net \<Rightarrow> int \<Rightarrow> (nb_http + ipRange list) nb" where
  "rangesIn net vrfID = do {
     r \<leftarrow> call net (ListRanges (Some vrfID));
     State_Monad.return (map_sum id (filter (\<lambda>x. intID (ir_VRF x) = vrfID)) (as_ranges r)) }"

definition validateExisting :: "nblib \<Rightarrow> nbprefix \<Rightarrow> Allocation \<Rightarrow> string \<Rightarrow> int \<Rightarrow> bool" where
  "validateExisting L x a opID vrfID \<longleftrightarrow>
     px_CustomFields x \<noteq> None \<and> px_string L x allocationIDCF = a_ID a \<and> px_string L x operationIDCF = opID \<and>
     px_Prefix x = a_CIDR a \<and> prefix_vrf x = vrfID"

definition state_text :: "AllocState \<Rightarrow> string" where
  "state_text s =
     (case s of NoState \<Rightarrow> [] | Reserved \<Rightarrow> ''RESERVED'' | Active \<Rightarrow> ''ACTIVE'' | Quarantined \<Rightarrow> ''QUARANTINED'' | Released \<Rightarrow> ''RELEASED'')"

definition ownedFields :: "nblib \<Rightarrow> Allocation \<Rightarrow> string \<Rightarrow> jval gomap" where
  "ownedFields L a operationID =
     [(allocationIDCF, JStr (a_ID a)), (allocationKeyCF, JStr (a_AllocationKey a)), (operationIDCF, JStr operationID),
      (parentAllocationIDCF, JStr (a_ParentAllocationID a)), (''platform_tenant_id'', JStr (a_TenantID a)),
      (''platform_environment'', JStr (a_Environment a)), (''platform_pool_id'', JStr (a_PoolID a)),
      (''platform_policy_version'', JStr (a_PolicyVersion a)), (stateCF, JStr (state_text (a_State a))),
      (awsAccountCF, JStr (a_AccountID a)), (awsRegionCF, JStr (a_Region a)),
      (''platform_aws_az_id'', JStr (a_AvailabilityZoneID a))] @
     (case a_Binding a of None \<Rightarrow> [] | Some b \<Rightarrow> [(awsResourceCF, JStr (b_ResourceID b))]) @
     (case a_LastObservedAt a of None \<Rightarrow> [] | Some t \<Rightarrow> [(''platform_last_observed_at'', JStr (rfc3339 (nl_K L) t))]) @
     (case a_QuarantineUntil a of None \<Rightarrow> [] | Some t \<Rightarrow> [(''platform_quarantine_until'', JStr (rfc3339 (nl_K L) t))])"

text \<open>Fields of the object that are not among the given ones are sent back as they were read.\<close>

definition keep_unowned :: "jval gomap \<Rightarrow> jval gomap \<Rightarrow> jval gomap" where
  "keep_unowned current cfs = cfs @ filter (\<lambda>(k, _). k \<notin> fst ` set cfs) current"

definition patch_payload :: "string option \<Rightarrow> jval gomap \<Rightarrow> nb_payload" where
  "patch_payload status cfs = \<lparr>np_Prefix = None, np_Range = None, np_VRF = None, np_Status = status,
     np_Description = None, np_Tags = None, np_Fields = cfs\<rparr>"

lemma run_call [simp]: "run_state (call net r) t = (net (length t) r, t @ [r])"
  by (simp add: call_def)

end
