(* ===== verification/NetboxOwned.thy ===== *)
theory NetboxOwned
  imports Netbox
begin

text \<open>
  The operations of the inventory adapter on prefixes that belong to allocations (\<open>client.go\<close>,
  \<open>adopt.go\<close>, \<open>abandon.go\<close> and \<open>cancel.go\<close> of \<open>internal/netbox\<close>): create one, take over an imported one,
  give it back, delete it, and keep its fields up to date.
\<close>

abbreviation answer :: "'a \<Rightarrow> 'a nb" where
  "answer \<equiv> State_Monad.return"

abbreviation decided :: "nb_kind \<Rightarrow> (nb_error + 'a) nb" where
  "decided kind \<equiv> answer (Inl (Decision kind))"

section \<open>Reservations\<close>

definition recoverAfterCreateError :: "client \<Rightarrow> net \<Rightarrow> Allocation \<Rightarrow> string \<Rightarrow> int \<Rightarrow> nb_http \<Rightarrow> (nb_error + string) nb" where
  "recoverAfterCreateError c net a opID vrfID original = do {
     found \<leftarrow> findByMarker (nc_L c) net (a_ID a);
     case found of
       Inr [x] \<Rightarrow>
         if validateExisting (nc_L c) x a opID vrfID then answer (Inr (itoaID (px_ID x))) else decided ErrPlain
     | Inr (_ # _ # _) \<Rightarrow> decided ErrPlain
     | _ \<Rightarrow> answer (Inl (uncertain ErrPlain original)) }"

definition ensure_create :: "client \<Rightarrow> net \<Rightarrow> Allocation \<Rightarrow> string \<Rightarrow> int \<Rightarrow> (nb_error + string) nb" where
  "ensure_create c net a opID vrfID = do {
     r \<leftarrow> call net (PostPrefix \<lparr>np_Prefix = Some (a_CIDR a), np_Range = None, np_VRF = Some vrfID, np_Status = Some ''reserved'',
            np_Description = None, np_Tags = None, np_Fields = ownedFields (nc_L c) a opID\<rparr>);
     case as_detail r of
       Inl e \<Rightarrow> recoverAfterCreateError c net a opID vrfID e
     | Inr (x, _) \<Rightarrow>
         if \<not> validateExisting (nc_L c) x a opID vrfID \<or> px_ID x = 0 then decided ErrPlain
         else answer (Inr (itoaID (px_ID x))) }"

text \<open>The exact-CIDR lookup compares the text of the prefix.\<close>

definition ensure_absent :: "client \<Rightarrow> net \<Rightarrow> Allocation \<Rightarrow> string \<Rightarrow> int \<Rightarrow> (nb_error + string) nb" where
  "ensure_absent c net a opID vrfID = do {
     r \<leftarrow> call net (ListPrefixesAt (a_CIDR a));
     case as_prefixes r of
       Inl e \<Rightarrow> answer (Inl (uncertain ErrPlain e))
     | Inr xs \<Rightarrow>
         if list_ex (\<lambda>x. px_Prefix x = a_CIDR a \<and> prefix_vrf x = vrfID) xs then decided ErrPlain
         else ensure_create c net a opID vrfID }"

definition Ensure :: "client \<Rightarrow> net \<Rightarrow> Allocation \<Rightarrow> string \<Rightarrow> (nb_error + string) nb" where
  "Ensure c net a opID =
     (if a_ID a = [] \<or> a_CIDR a = [] \<or> opID = [] then decided ErrPlain
      else case allocationDomain c a of
        Inl e \<Rightarrow> answer (Inl e)
      | Inr (d, p) \<Rightarrow>
          (case (parsePrefix (a_CIDR a), parsePrefix (pl_CIDR p)) of
             (Some ac, Some pc) \<Rightarrow>
               if \<not> Contains pc (ip ac) \<or> pbits ac < pbits pc then decided ErrPlain
               else do {
                 found \<leftarrow> findByMarker (nc_L c) net (a_ID a);
                 case found of
                   Inl e \<Rightarrow> answer (Inl (uncertain ErrPlain e))
                 | Inr [] \<Rightarrow> ensure_absent c net a opID (poolVRF d p)
                 | Inr [x] \<Rightarrow>
                     if validateExisting (nc_L c) x a opID (poolVRF d p) then answer (Inr (itoaID (px_ID x)))
                     else decided ErrPlain
                 | Inr _ \<Rightarrow> decided ErrPlain }
           | _ \<Rightarrow> decided ErrPlain))"

section \<open>Projection\<close>

definition field_or_null :: "jval gomap \<Rightarrow> string \<Rightarrow> jval" where
  "field_or_null cfs key = (case mget cfs key of None \<Rightarrow> JNull | Some v \<Rightarrow> v)"

definition sameProjectionValue :: "nblib \<Rightarrow> string \<Rightarrow> jval \<Rightarrow> jval \<Rightarrow> bool" where
  "sameProjectionValue L key desired current =
     (case desired of
        JNull \<Rightarrow> current = JNull \<or> current = JStr []
      | JStr want \<Rightarrow>
          if want = [] \<and> current = JNull then True
          else (case (if key = stateCF \<or> key = ''platform_drift_status'' then JStr (stringCF L [(key, current)] key) else current) of
             JStr got \<Rightarrow>
               if key = ''platform_quarantine_until''
               then (case (nl_ParseTime L want, nl_ParseTime L got) of (Some wt, Some gt) \<Rightarrow> wt = gt | _ \<Rightarrow> False)
               else want = got
           | _ \<Rightarrow> False)
      | _ \<Rightarrow> False)"

definition shouldRefreshObservationStamp :: "nblib \<Rightarrow> jval \<Rightarrow> jval \<Rightarrow> time \<Rightarrow> duration \<Rightarrow> bool" where
  "shouldRefreshObservationStamp L desired current now interval =
     (case desired of
        JNull \<Rightarrow> current \<noteq> JNull \<and> current \<noteq> JStr []
      | JStr want \<Rightarrow>
          (case nl_ParseTime L want of
             None \<Rightarrow> True
           | Some wt \<Rightarrow>
               (case current of
                  JStr got \<Rightarrow>
                    if got = [] then True
                    else (case nl_ParseTime L got of None \<Rightarrow> True | Some gt \<Rightarrow> wt > gt \<and> Sub now gt \<ge> interval)
                | _ \<Rightarrow> True))
      | _ \<Rightarrow> True)"

definition optionalFields :: "string list" where
  "optionalFields = [awsResourceCF, ''platform_last_observed_at'', ''platform_quarantine_until'']"

definition observedStamp :: string where
  "observedStamp = ''platform_last_observed_at''"

text \<open>The owned fields of a projection, the optional ones cleared when the ledger has no value for them.\<close>

definition sync_fields :: "nblib \<Rightarrow> Allocation \<Rightarrow> string \<Rightarrow> jval gomap" where
  "sync_fields L a op =
     (let cfs = ownedFields L a op
      in cfs @ map (\<lambda>k. (k, JNull)) (filter (\<lambda>k. k \<notin> fst ` set cfs) optionalFields))"

definition sync_patch :: "client \<Rightarrow> net \<Rightarrow> time \<Rightarrow> Allocation \<Rightarrow> nbprefix \<Rightarrow> nb_error option nb" where
  "sync_patch c net now a x =
     (let L = nc_L c; current = fields_of x;
          wanted = sync_fields L a (px_string L x operationIDCF);
          refreshStamp = shouldRefreshObservationStamp L (field_or_null wanted observedStamp) (field_or_null current observedStamp)
            now (nc_refresh c);
          cfs = (if refreshStamp then wanted else mput observedStamp (field_or_null current observedStamp) wanted);
          changed = list_ex (\<lambda>(k, v). k \<noteq> observedStamp \<and> \<not> sameProjectionValue L k v (field_or_null current k)) cfs;
          status = (if a_State a = Active then ''active'' else ''reserved'')
      in if \<not> changed \<and> \<not> refreshStamp \<and> px_Status x = status \<and> nc_refresh c > 0 then answer None
         else do {
           r \<leftarrow> call net (PatchPrefix (a_InventoryID a) (patch_payload (Some status) (keep_unowned current cfs)) []);
           answer (case r of Inl e \<Rightarrow> Some (Cause e) | Inr _ \<Rightarrow> None) })"

definition holds_allocation :: "nblib \<Rightarrow> Domain \<Rightarrow> Pool \<Rightarrow> Allocation \<Rightarrow> nbprefix \<Rightarrow> bool" where
  "holds_allocation L d p a x \<longleftrightarrow>
     prefix_vrf x = poolVRF d p \<and> px_Prefix x = a_CIDR a \<and> px_string L x allocationIDCF = a_ID a"

definition Sync :: "client \<Rightarrow> net \<Rightarrow> time \<Rightarrow> Allocation \<Rightarrow> nb_error option nb" where
  "Sync c net now a =
     (if a_InventoryID a = [] then answer (Some (Decision ErrPlain))
      else case allocationDomain c a of
        Inl e \<Rightarrow> answer (Some e)
      | Inr (d, p) \<Rightarrow> do {
          r \<leftarrow> call net (GetPrefix (a_InventoryID a));
          case as_detail r of
            Inl e \<Rightarrow> answer (Some (Cause e))
          | Inr (x, _) \<Rightarrow>
              if \<not> holds_allocation (nc_L c) d p a x then answer (Some (Decision ErrPlain))
              else sync_patch c net now a x })"

section \<open>Deletion\<close>

fun mentions :: "string \<Rightarrow> string \<Rightarrow> bool" where
  "mentions w [] = (w = [])"
| "mentions w (c # cs) = (HasPrefix (c # cs) w \<or> mentions w cs)"

text \<open>\<open>strings.Contains(err.Error(), "HTTP 404")\<close>.\<close>

definition says_404 :: "nb_http \<Rightarrow> bool" where
  "says_404 e = (case e of HTTPError s \<Rightarrow> s = StatusNotFound | NoAnswer g \<Rightarrow> mentions ''HTTP 404'' (err_text g))"

definition delete_confirm :: "client \<Rightarrow> net \<Rightarrow> Allocation \<Rightarrow> nb_error option nb" where
  "delete_confirm c net a = do {
     r \<leftarrow> call net (DeletePrefix (a_InventoryID a) []);
     case r of
       Inl e \<Rightarrow> do {
         found \<leftarrow> findByMarker (nc_L c) net (a_ID a);
         answer (if found = Inr [] then None else Some (Cause e)) }
     | Inr _ \<Rightarrow> do {
         back \<leftarrow> call net (GetPrefix (a_InventoryID a));
         answer (case back of
             Inr _ \<Rightarrow> Some (Decision ErrPlain)
           | Inl e \<Rightarrow> if says_404 e then None else Some (Cause e)) } }"

definition Delete :: "client \<Rightarrow> net \<Rightarrow> Allocation \<Rightarrow> nb_error option nb" where
  "Delete c net a =
     (if a_InventoryID a = [] then answer (Some (Decision ErrPlain))
      else case allocationDomain c a of
        Inl e \<Rightarrow> answer (Some e)
      | Inr (d, p) \<Rightarrow> do {
          r \<leftarrow> call net (GetPrefix (a_InventoryID a));
          case as_detail r of
            Inl e \<Rightarrow> answer (Some (Cause e))
          | Inr (x, _) \<Rightarrow>
              if \<not> holds_allocation (nc_L c) d p a x then answer (Some (Decision ErrPlain))
              else delete_confirm c net a })"

section \<open>Adoption\<close>

definition adopt_read_back :: "client \<Rightarrow> net \<Rightarrow> Allocation \<Rightarrow> string \<Rightarrow> int \<Rightarrow> int \<Rightarrow> (nb_error + string) nb" where
  "adopt_read_back c net a op i vrfID = do {
     after \<leftarrow> adoptRead net i;
     answer (case after of
         Inl e \<Rightarrow> Inl (uncertain ErrPlain e)
       | Inr (x, _) \<Rightarrow>
           if \<not> validateExisting (nc_L c) x a op vrfID \<or> \<not> imported x then Inl (Decision ErrAdoptReadBack)
           else Inr (itoaID i)) }"

definition adopt_write :: "client \<Rightarrow> net \<Rightarrow> Allocation \<Rightarrow> string \<Rightarrow> int \<Rightarrow> int \<Rightarrow> nbprefix \<Rightarrow> string \<Rightarrow> (nb_error + string) nb" where
  "adopt_write c net a op i vrfID current etag = do {
     claimed \<leftarrow> findByMarker (nc_L c) net (a_ID a);
     case claimed of
       Inl e \<Rightarrow> answer (Inl (uncertain ErrPlain e))
     | Inr others \<Rightarrow>
         if list_ex (\<lambda>x. px_ID x \<noteq> i) others then decided ErrAdoptConflict
         else do {
           r \<leftarrow> call net (PatchPrefix (itoaID i)
                  (patch_payload (Some ''reserved'') (keep_unowned (fields_of current) (ownedFields (nc_L c) a op))) etag);
           case r of
             Inl e \<Rightarrow>
               if answeredWith e StatusPreconditionFailed then decided ErrAdoptConflict
               else answer (Inl (uncertain ErrPlain e))
           | Inr _ \<Rightarrow> adopt_read_back c net a op i vrfID } }"

definition adopt_current ::
    "client \<Rightarrow> net \<Rightarrow> Allocation \<Rightarrow> string \<Rightarrow> Prefix \<Rightarrow> int \<Rightarrow> int \<Rightarrow> nbprefix \<Rightarrow> string \<Rightarrow> (nb_error + string) nb" where
  "adopt_current c net a op cidr vrfID i current etag =
     (let L = nc_L c
      in if parsePrefix (px_Prefix current) \<noteq> Some cidr \<or> prefix_vrf current \<noteq> vrfID then decided ErrAdoptConflict
         else if px_string L current allocationIDCF = a_ID a then
           (if \<not> validateExisting L current a op vrfID \<or> px_string L current allocationKeyCF \<noteq> a_AllocationKey a
            then decided ErrAdoptConflict else answer (Inr (itoaID i)))
         else if owned L current then decided ErrAdoptManaged
         else if \<not> imported current then decided ErrAdoptNotImported
         else adopt_write c net a op i vrfID current etag)"

definition Client_Adopt :: "client \<Rightarrow> net \<Rightarrow> Allocation \<Rightarrow> string \<Rightarrow> (nb_error + string) nb" where
  "Client_Adopt c net a op =
     (if a_ID a = [] \<or> a_CIDR a = [] \<or> op = [] then decided ErrAdoptInvalid
      else case allocationDomain c a of
        Inl e \<Rightarrow> answer (Inl e)
      | Inr (d, p) \<Rightarrow>
          (case adoptCIDR (a_CIDR a) p of
             Inl e \<Rightarrow> answer (Inl e)
           | Inr cidr \<Rightarrow> do {
               existing \<leftarrow> prefixesAt net cidr (poolVRF d p);
               case existing of
                 Inl e \<Rightarrow> answer (Inl (uncertain ErrPlain e))
               | Inr [] \<Rightarrow> decided ErrAdoptNotFound
               | Inr [x] \<Rightarrow>
                   if px_ID x = 0 then decided ErrAdoptConflict
                   else do {
                     got \<leftarrow> adoptRead net (px_ID x);
                     case got of
                       Inl e \<Rightarrow> answer (Inl (uncertain ErrPlain e))
                     | Inr (current, etag) \<Rightarrow> adopt_current c net a op cidr (poolVRF d p) (px_ID x) current etag }
               | Inr _ \<Rightarrow> decided ErrAdoptConflict }))"

section \<open>Withdrawal\<close>

text \<open>
  Cancel and abandon search for the one prefix that carries the allocation's marker, read it again with its
  ETag and then act. \<open>None\<close> is success without anything left to do.
\<close>

definition claimed_prefix ::
    "client \<Rightarrow> net \<Rightarrow> Allocation \<Rightarrow> nb_kind \<Rightarrow> nb_kind \<Rightarrow> nb_kind \<Rightarrow> (nbprefix \<Rightarrow> nb_error option) \<Rightarrow>
     (int \<Rightarrow> nbprefix \<Rightarrow> string \<Rightarrow> nb_error option nb) \<Rightarrow> nb_error option nb" where
  "claimed_prefix c net a unsure ambiguous conflict refuse act = do {
     claimed \<leftarrow> findByMarker (nc_L c) net (a_ID a);
     case claimed of
       Inl e \<Rightarrow> answer (Some (uncertain unsure e))
     | Inr [] \<Rightarrow> answer None
     | Inr [x] \<Rightarrow>
         if px_ID x = 0 then answer (Some (Decision conflict))
         else (case refuse x of
             Some e \<Rightarrow> answer (Some e)
           | None \<Rightarrow> do {
               got \<leftarrow> adoptRead net (px_ID x);
               case got of
                 Inl e \<Rightarrow> answer (Some (uncertain unsure e))
               | Inr (current, etag) \<Rightarrow>
                   let marker = px_string (nc_L c) current allocationIDCF
                   in if marker \<noteq> a_ID a
                      then answer (if marker = [] \<and> \<not> owned (nc_L c) current then None else Some (Decision conflict))
                      else (case refuse current of Some e \<Rightarrow> answer (Some e) | None \<Rightarrow> act (px_ID x) current etag) })
     | Inr _ \<Rightarrow> answer (Some (Decision ambiguous)) }"

definition clearingOurOwnOperation :: "nblib \<Rightarrow> string \<Rightarrow> nbprefix \<Rightarrow> nb_error option" where
  "clearingOurOwnOperation L op x = (if px_string L x operationIDCF \<noteq> op then Some (Decision ErrAbandonNotOurs) else None)"

definition prefixStatuses :: "string list" where
  "prefixStatuses = [''container'', ''active'', ''reserved'', ''deprecated'']"

definition abandonStatus :: "string \<Rightarrow> string" where
  "abandonStatus prior = (if prior \<in> set prefixStatuses then prior else ''active'')"

text \<open>The keys of an adoption emptied, the two the import had written put back when they are recorded.\<close>

definition cleared_fields :: "nblib \<Rightarrow> Allocation \<Rightarrow> string \<Rightarrow> PriorInventory \<Rightarrow> jval gomap" where
  "cleared_fields L a op prior =
     map (\<lambda>(k, _). (k, if k = awsAccountCF \<and> pi_AccountID prior \<noteq> [] then JStr (pi_AccountID prior)
                       else if k = awsRegionCF \<and> pi_Region prior \<noteq> [] then JStr (pi_Region prior) else JNull))
       (ownedFields L a op)"

definition abandon_clear :: "client \<Rightarrow> net \<Rightarrow> Allocation \<Rightarrow> string \<Rightarrow> PriorInventory \<Rightarrow> int \<Rightarrow> string \<Rightarrow> nb_error option nb" where
  "abandon_clear c net a op prior i etag = do {
     r \<leftarrow> call net (PatchPrefix (itoaID i)
            (patch_payload (Some (abandonStatus (pi_Status prior))) (cleared_fields (nc_L c) a op prior)) etag);
     case r of
       Inl e \<Rightarrow>
         answer (Some (if answeredWith e StatusPreconditionFailed then Decision ErrAbandonConflict else uncertain ErrAbandonUncertain e))
     | Inr _ \<Rightarrow> do {
         after \<leftarrow> adoptRead net i;
         answer (case after of
             Inl e \<Rightarrow> Some (uncertain ErrAbandonUncertain e)
           | Inr (x, _) \<Rightarrow> if owned (nc_L c) x \<or> \<not> imported x then Some (Decision ErrAbandonReadBack) else None) } }"

definition Client_AbandonAdoption :: "client \<Rightarrow> net \<Rightarrow> Allocation \<Rightarrow> string \<Rightarrow> PriorInventory \<Rightarrow> nb_error option nb" where
  "Client_AbandonAdoption c net a op prior =
     (if a_ID a = [] \<or> op = [] then answer (Some (Decision ErrAbandonInvalid))
      else claimed_prefix c net a ErrAbandonUncertain ErrAbandonAmbiguous ErrAbandonConflict (clearingOurOwnOperation (nc_L c) op)
             (\<lambda>i current etag. abandon_clear c net a op prior i etag))"

definition deletingOurOwnReservation :: "nblib \<Rightarrow> string \<Rightarrow> nbprefix \<Rightarrow> nb_error option" where
  "deletingOurOwnReservation L op x =
     (if px_string L x operationIDCF \<noteq> op then Some (Decision ErrCancelNotOurs)
      else if imported x then Some (Decision ErrCancelImported) else None)"

text \<open>A conditional delete, confirmed by a read that is answered 404.\<close>

definition delete_and_confirm :: "net \<Rightarrow> int \<Rightarrow> string \<Rightarrow> nb_kind \<Rightarrow> nb_kind \<Rightarrow> nb_kind \<Rightarrow> nb_error option nb" where
  "delete_and_confirm net i etag unsure conflict readBack = do {
     r \<leftarrow> call net (DeletePrefix (itoaID i) etag);
     if (case r of Inl e \<Rightarrow> answeredWith e StatusPreconditionFailed | Inr _ \<Rightarrow> False) then answer (Some (Decision conflict))
     else (case (case r of Inl e \<Rightarrow> if answeredWith e StatusNotFound then None else Some e | Inr _ \<Rightarrow> None) of
         Some e \<Rightarrow> answer (Some (uncertain unsure e))
       | None \<Rightarrow> do {
           back \<leftarrow> adoptRead net i;
           answer (case back of
               Inr _ \<Rightarrow> Some (Decision readBack)
             | Inl e \<Rightarrow> if answeredWith e StatusNotFound then None else Some (uncertain unsure e)) }) }"

definition Client_CancelReservation :: "client \<Rightarrow> net \<Rightarrow> Allocation \<Rightarrow> string \<Rightarrow> nb_error option nb" where
  "Client_CancelReservation c net a op =
     (if a_ID a = [] \<or> op = [] then answer (Some (Decision ErrCancelInvalid))
      else claimed_prefix c net a ErrCancelUncertain ErrCancelAmbiguous ErrCancelConflict (deletingOurOwnReservation (nc_L c) op)
             (\<lambda>i current etag. delete_and_confirm net i etag ErrCancelUncertain ErrCancelConflict ErrCancelReadBack))"

end
