(* ===== verification/NetboxSnapshot.thy ===== *)
theory NetboxSnapshot
  imports NetboxOwned Ledger
begin

text \<open>
  The snapshot of a domain's NetBox objects (\<open>Snapshot\<close> of \<open>internal/netbox/client.go\<close>) and the adapter as
  the inventory port the service calls.
\<close>

section \<open>Prefixes\<close>

definition is_pool :: "Pool list \<Rightarrow> Prefix \<Rightarrow> bool" where
  "is_pool pools cidr \<longleftrightarrow> list_ex (\<lambda>q. parsePrefix (pl_CIDR q) = Some cidr) pools"

definition is_ancestor :: "Pool list \<Rightarrow> Prefix \<Rightarrow> bool" where
  "is_ancestor pools cidr \<longleftrightarrow>
     list_ex (\<lambda>q. case parsePrefix (pl_CIDR q) of None \<Rightarrow> False
       | Some pc \<Rightarrow> pbits pc > pbits cidr \<and> Contains cidr (ip pc)) pools"

definition prefix_network :: "nblib \<Rightarrow> bool \<Rightarrow> Prefix \<Rightarrow> nbprefix \<Rightarrow> Network" where
  "prefix_network L pool cidr x =
     (let (cs, unreadable) = contributorsCF L (fields_of x) ImportContributorsField
      in \<lparr>n_ID = itoaID (px_ID x), n_CIDR = PrefixString cidr, n_AllocationID = px_string L x allocationIDCF,
          n_OperationID = px_string L x operationIDCF, n_ParentPool = pool, n_Imported = imported x, n_Owned = owned L x,
          n_ImportBatch = px_string L x ImportBatchField, n_ParentAllocationID = px_string L x parentAllocationIDCF,
          n_Status = px_Status x, n_AWSAccountID = px_string L x awsAccountCF, n_AWSRegion = px_string L x awsRegionCF,
          n_Contributors = cs, n_ContributorsUnreadable = unreadable,
          n_ContributorsReconstructed = boolCF (fields_of x) ImportContributorsReconstructedField\<rparr>)"

text \<open>The prefixes in listing order; \<open>seen\<close> holds the VRF and text of those before.\<close>

fun prefix_networks :: "nblib \<Rightarrow> Domain \<Rightarrow> Pool list \<Rightarrow> (int \<times> string) list \<Rightarrow> nbprefix list \<Rightarrow> nb_error + Network list" where
  "prefix_networks L d pools seen [] = Inr []"
| "prefix_networks L d pools seen (x # xs) =
     (case parsePrefix (px_Prefix x) of
        None \<Rightarrow> Inl (Decision ErrPlain)
      | Some cidr \<Rightarrow>
          let key = (prefix_vrf x, PrefixString cidr); pool = is_pool pools cidr
          in if bk_RequireUniquePrefixes (d_Backend d) \<and> key \<in> set seen then Inl (Decision ErrPlain)
             else let rest = prefix_networks L d pools (key # seen) xs
                  in if is_ancestor pools cidr \<and> \<not> pool then rest
                     else map_sum id (Cons (prefix_network L pool cidr x)) rest)"

definition pool_matches :: "Domain \<Rightarrow> nbprefix list \<Rightarrow> Pool \<Rightarrow> nat" where
  "pool_matches d xs q =
     length (filter (\<lambda>x. prefix_vrf x = poolVRF d q \<and> Some (px_Prefix x) = map_option PrefixString (parsePrefix (pl_CIDR q))) xs)"

section \<open>Addresses and ranges\<close>

definition addressCIDR :: "string \<Rightarrow> string option" where
  "addressCIDR s = map_option (\<lambda>a. PrefixString \<lparr>ip = a, pbits = (if Is4 a then 32 else 128)\<rparr>) (hostAddr s)"

definition plain_network :: "string \<Rightarrow> string \<Rightarrow> Network" where
  "plain_network i cidr =
     \<lparr>n_ID = i, n_CIDR = cidr, n_AllocationID = [], n_OperationID = [], n_ParentPool = False, n_Imported = False,
      n_Owned = False, n_ImportBatch = [], n_ParentAllocationID = [], n_Status = [], n_AWSAccountID = [], n_AWSRegion = [],
      n_Contributors = None, n_ContributorsUnreadable = False, n_ContributorsReconstructed = False\<rparr>"

definition address_network :: "ipAddress \<Rightarrow> (nb_error + Network list)" where
  "address_network a =
     (case addressCIDR (ia_Address a) of
        None \<Rightarrow> Inl (Decision ErrPlain)
      | Some cidr \<Rightarrow> Inr [plain_network (''ip-'' @ itoaID (ia_ID a)) cidr])"

definition range_networks :: "ipRange \<Rightarrow> (nb_error + Network list)" where
  "range_networks r =
     (case rangeCIDRs (ir_StartAddress r) (ir_EndAddress r) of
        Inl _ \<Rightarrow> Inl (Decision ErrPlain)
      | Inr blocks \<Rightarrow>
          Inr (map (\<lambda>(i, b). plain_network (''range-'' @ itoaID (ir_ID r) @ ''-'' @ dec i) b) (enumerate 0 blocks)))"

fun concat_ok :: "('e + 'a list) list \<Rightarrow> 'e + 'a list" where
  "concat_ok [] = Inr []"
| "concat_ok (r # rs) = (case r of Inl e \<Rightarrow> Inl e | Inr xs \<Rightarrow> map_sum id ((@) xs) (concat_ok rs))"

section \<open>The snapshot\<close>

text \<open>What the four listings of a domain's VRF say, in the order the code decides.\<close>

definition snapshot_of ::
    "nblib \<Rightarrow> Domain \<Rightarrow> Pool list \<Rightarrow> nbprefix list \<Rightarrow> ipAddress list \<Rightarrow> ipRange list \<Rightarrow> nb_error + InventorySnapshot" where
  "snapshot_of L d pools xs addresses ranges =
     (case prefix_networks L d pools [] xs of
        Inl e \<Rightarrow> Inl e
      | Inr ns \<Rightarrow>
          if list_ex (\<lambda>q. pool_matches d xs q \<noteq> 1) pools then Inl (Decision ErrPlain)
          else map_sum id (\<lambda>ms. \<lparr>sn_Networks = ns @ ms, sn_Complete = True\<rparr>)
                 (concat_ok (map address_network addresses @ map range_networks ranges)))"

definition as_vrfs :: "nb_http + nb_body \<Rightarrow> nb_http + int list" where
  "as_vrfs r = (case r of Inl e \<Rightarrow> Inl e | Inr (VRFs vs) \<Rightarrow> Inr vs | Inr _ \<Rightarrow> Inl undecodable)"

definition as_addresses :: "nb_http + nb_body \<Rightarrow> nb_http + ipAddress list" where
  "as_addresses r = (case r of Inl e \<Rightarrow> Inl e | Inr (Addresses xs) \<Rightarrow> Inr xs | Inr _ \<Rightarrow> Inl undecodable)"

definition in_vrf :: "Domain \<Rightarrow> int \<Rightarrow> bool" where
  "in_vrf d v \<longleftrightarrow> bk_VRFID (d_Backend d) = 0 \<or> v = bk_VRFID (d_Backend d)"

text \<open>The listings after the VRFs.\<close>

definition snapshot_listings :: "nblib \<Rightarrow> net \<Rightarrow> Domain \<Rightarrow> Pool list \<Rightarrow> (nb_error + InventorySnapshot) nb" where
  "snapshot_listings L net d pools = do {
     ps \<leftarrow> call net ListPrefixes;
     case as_prefixes ps of
       Inl e \<Rightarrow> answer (Inl (Cause e))
     | Inr xs \<Rightarrow> do {
         as' \<leftarrow> call net ListAddresses;
         case as_addresses as' of
           Inl e \<Rightarrow> answer (Inl (Cause e))
         | Inr addresses \<Rightarrow> do {
             rs \<leftarrow> call net (ListRanges None);
             answer (case as_ranges rs of
                 Inl e \<Rightarrow> Inl (Cause e)
               | Inr ranges \<Rightarrow>
                   snapshot_of L d pools (filter (\<lambda>x. in_vrf d (prefix_vrf x)) xs)
                     (filter (\<lambda>a. in_vrf d (intID (ia_VRF a))) addresses)
                     (filter (\<lambda>r. in_vrf d (intID (ir_VRF r))) ranges)) } } }"

definition Snapshot :: "client \<Rightarrow> net \<Rightarrow> Domain \<Rightarrow> (nb_error + InventorySnapshot) nb" where
  "Snapshot c net d =
     (if d_ID d = [] then decided ErrPlain
      else case domainPools c d of
        Inl e \<Rightarrow> answer (Inl e)
      | Inr pools \<Rightarrow> do {
          vs \<leftarrow> call net ListVRFs;
          case as_vrfs vs of
            Inl e \<Rightarrow> answer (Inl (Cause e))
          | Inr vrfs \<Rightarrow>
              if bk_VRFID (d_Backend d) \<noteq> 0 \<and> bk_VRFID (d_Backend d) \<notin> set vrfs then decided ErrPlain
              else snapshot_listings (nc_L c) net d pools })"

section \<open>The inventory port\<close>

definition result :: "'a nb \<Rightarrow> 'a" where
  "result m = fst (run_state m [])"

definition sent :: "'a nb \<Rightarrow> nb_request list" where
  "sent m = snd (run_state m [])"

text \<open>
  Each call of the service talks to NetBox on its own: \<open>nets op n\<close> are the answers that the \<open>n\<close>-th call of
  the operation meets.
\<close>

datatype nb_operation = OpSnapshot | OpEnsure | OpAdopt | OpAbandon | OpCancel | OpSync | OpDelete

definition netbox_inventory :: "client \<Rightarrow> (nb_operation \<Rightarrow> nat \<Rightarrow> net) \<Rightarrow> (nat \<Rightarrow> time) \<Rightarrow> Inventory" where
  "netbox_inventory c nets now =
     \<lparr>inv_Snapshot = (\<lambda>n d. map_sum nb_goerr id (result (Snapshot c (nets OpSnapshot n) d))),
      inv_Ensure = (\<lambda>n a op. map_sum nb_goerr id (result (Ensure c (nets OpEnsure n) a op))),
      inv_Adopt = (\<lambda>n a op. map_sum nb_goerr id (result (Client_Adopt c (nets OpAdopt n) a op))),
      inv_AbandonAdoption = (\<lambda>n a op prior. map_option nb_goerr (result (Client_AbandonAdoption c (nets OpAbandon n) a op prior))),
      inv_CancelReservation = (\<lambda>n a op. map_option nb_goerr (result (Client_CancelReservation c (nets OpCancel n) a op))),
      inv_Sync = (\<lambda>n a. map_option nb_goerr (result (Sync c (nets OpSync n) (now n) a))),
      inv_Delete = (\<lambda>n a. map_option nb_goerr (result (Delete c (nets OpDelete n) a)))\<rparr>"

end
