(* ===== verification/NetboxImport.thy ===== *)
theory NetboxImport
  imports NetboxOwned OnboardPlan
begin

text \<open>
  The operations of the inventory adapter on imported occupancy, which no allocation owns
  (\<open>occupancy.go\<close>, \<open>refresh.go\<close> and \<open>remove.go\<close> of \<open>internal/netbox\<close>): create it, add contributors to it,
  read it and delete it.
\<close>

section \<open>Creating occupancy\<close>

record Occupancy =
  oc_CIDR :: string
  oc_StartAddress :: string
  oc_EndAddress :: string
  oc_Description :: string
  oc_Batch :: string
  oc_Source :: string
  oc_AWSAccountID :: string
  oc_AWSRegion :: string
  oc_AWSResourceID :: string
  oc_Contributors :: "Contributor list"

datatype OccupancyKind = OccupancyPrefix | OccupancyRange
datatype OccupancyAction = OccupancyCreated | OccupancyUnchanged

record OccupancyResult =
  or_Kind :: OccupancyKind
  or_ID :: string
  or_Action :: OccupancyAction

definition maxDescription :: nat where "maxDescription = 200"

text \<open>\<open>len([]rune(s))\<close>; a byte that is not UTF-8 counts as one rune.\<close>

function rune_count :: "string \<Rightarrow> nat" where
  "rune_count s = (if s = [] then 0 else Suc (rune_count (drop (max 1 (rune_width s)) s)))"
  by pat_completeness auto
termination
  by (relation "measure length") auto

declare rune_count.simps [simp del]

definition existingOccupancyPrefix :: "nblib \<Rightarrow> nbprefix \<Rightarrow> nb_error + OccupancyResult" where
  "existingOccupancyPrefix L x =
     (if px_string L x allocationIDCF \<noteq> [] then Inl (Decision ErrOccupancyManaged)
      else if px_ID x = 0 then Inl (Decision ErrPlain)
      else Inr \<lparr>or_Kind = OccupancyPrefix, or_ID = itoaID (px_ID x), or_Action = OccupancyUnchanged\<rparr>)"

text \<open>\<open>None\<close>: no listed range is the wanted one or overlaps it.\<close>

fun matchOccupancyRange :: "nblib \<Rightarrow> ipRange list \<Rightarrow> Addr \<Rightarrow> Addr \<Rightarrow> (nb_error + OccupancyResult) option" where
  "matchOccupancyRange L [] start stop = None"
| "matchOccupancyRange L (r # rs) start stop =
     (case (hostAddr (ir_StartAddress r), hostAddr (ir_EndAddress r)) of
        (Some a, Some b) \<Rightarrow>
          if a = start \<and> b = stop then
            (if stringCF L (ir_CustomFields r) allocationIDCF \<noteq> [] then Some (Inl (Decision ErrOccupancyManaged))
             else if ir_ID r = 0 then Some (Inl (Decision ErrPlain))
             else Some (Inr \<lparr>or_Kind = OccupancyRange, or_ID = itoaID (ir_ID r), or_Action = OccupancyUnchanged\<rparr>))
          else if Compare a stop \<le> 0 \<and> Compare b start \<ge> 0 then Some (Inl (Decision ErrOccupancyConflict))
          else matchOccupancyRange L rs start stop
      | _ \<Rightarrow> Some (Inl (Decision ErrPlain)))"

definition refuseManagedFields :: "jval gomap \<Rightarrow> nb_error option" where
  "refuseManagedFields cfs =
     (if list_ex (\<lambda>key. mget cfs key \<noteq> None) ownershipFields then Some (Decision ErrOccupancyManaged) else None)"

definition import_fields :: "nblib \<Rightarrow> Occupancy \<Rightarrow> jval gomap" where
  "import_fields L o' =
     [(ImportBatchField, JStr (oc_Batch o')), (ImportSourceField, JStr (oc_Source o'))] @
     map (\<lambda>(k, v). (k, JStr v)) (filter (\<lambda>(k, v). v \<noteq> [])
       [(awsAccountCF, oc_AWSAccountID o'), (awsRegionCF, oc_AWSRegion o'), (awsResourceCF, oc_AWSResourceID o')]) @
     (if oc_Contributors o' = [] then [] else [(ImportContributorsField, nl_encode L (oc_Contributors o'))])"

definition import_payload :: "int \<Rightarrow> Occupancy \<Rightarrow> jval gomap \<Rightarrow> nb_payload" where
  "import_payload vrfID o' cfs =
     \<lparr>np_Prefix = None, np_Range = None, np_VRF = Some vrfID, np_Status = Some ''active'',
      np_Description = Some (oc_Description o'), np_Tags = Some [ImportedTag], np_Fields = cfs\<rparr>"

text \<open>An unanswered create is decided by what is there now, whoever wrote it.\<close>

definition recoverOccupancyPrefix :: "client \<Rightarrow> net \<Rightarrow> Prefix \<Rightarrow> int \<Rightarrow> nb_http \<Rightarrow> (nb_error + OccupancyResult) nb" where
  "recoverOccupancyPrefix c net cidr vrfID original = do {
     found \<leftarrow> prefixesAt net cidr vrfID;
     answer (case found of
         Inr [x] \<Rightarrow> existingOccupancyPrefix (nc_L c) x
       | _ \<Rightarrow> Inl (Cause original)) }"

definition recoverOccupancyRange :: "client \<Rightarrow> net \<Rightarrow> int \<Rightarrow> Addr \<Rightarrow> Addr \<Rightarrow> nb_http \<Rightarrow> (nb_error + OccupancyResult) nb" where
  "recoverOccupancyRange c net vrfID start stop original = do {
     existing \<leftarrow> rangesIn net vrfID;
     answer (case existing of
         Inl _ \<Rightarrow> Inl (Cause original)
       | Inr rs \<Rightarrow>
           (case matchOccupancyRange (nc_L c) rs start stop of
              None \<Rightarrow> Inl (Cause original)
            | Some result \<Rightarrow> result)) }"

definition create_prefix :: "client \<Rightarrow> net \<Rightarrow> int \<Rightarrow> Prefix \<Rightarrow> Occupancy \<Rightarrow> (nb_error + OccupancyResult) nb" where
  "create_prefix c net vrfID cidr o' =
     (let cfs = import_fields (nc_L c) o'
      in case refuseManagedFields cfs of
        Some e \<Rightarrow> answer (Inl e)
      | None \<Rightarrow> do {
          r \<leftarrow> call net (PostPrefix ((import_payload vrfID o' cfs)\<lparr>np_Prefix := Some (PrefixString cidr)\<rparr>));
          case as_detail r of
            Inl e \<Rightarrow> recoverOccupancyPrefix c net cidr vrfID e
          | Inr (x, _) \<Rightarrow>
              if parsePrefix (px_Prefix x) \<noteq> Some cidr \<or> prefix_vrf x \<noteq> vrfID then decided ErrPlain
              else (case existingOccupancyPrefix (nc_L c) x of
                  Inl e \<Rightarrow> answer (Inl e)
                | Inr _ \<Rightarrow> answer (Inr \<lparr>or_Kind = OccupancyPrefix, or_ID = itoaID (px_ID x), or_Action = OccupancyCreated\<rparr>)) })"

definition ensureOccupancyPrefix :: "client \<Rightarrow> net \<Rightarrow> int \<Rightarrow> Pool list \<Rightarrow> Occupancy \<Rightarrow> (nb_error + OccupancyResult) nb" where
  "ensureOccupancyPrefix c net vrfID pools o' =
     (case occupancyPrefix (oc_CIDR o') of
        Inl e \<Rightarrow> answer (Inl e)
      | Inr cidr \<Rightarrow>
          (case refusePoolPrefix cidr pools of
             Some e \<Rightarrow> answer (Inl e)
           | None \<Rightarrow> do {
               existing \<leftarrow> prefixesAt net cidr vrfID;
               case existing of
                 Inl e \<Rightarrow> answer (Inl (Cause e))
               | Inr [] \<Rightarrow> create_prefix c net vrfID cidr o'
               | Inr [x] \<Rightarrow> answer (existingOccupancyPrefix (nc_L c) x)
               | Inr _ \<Rightarrow> decided ErrOccupancyConflict }))"

definition create_range :: "client \<Rightarrow> net \<Rightarrow> int \<Rightarrow> Addr \<Rightarrow> Addr \<Rightarrow> Occupancy \<Rightarrow> (nb_error + OccupancyResult) nb" where
  "create_range c net vrfID start stop o' =
     (let cfs = [(ImportBatchField, JStr (oc_Batch o')), (ImportSourceField, JStr (oc_Source o'))]
      in case refuseManagedFields cfs of
        Some e \<Rightarrow> answer (Inl e)
      | None \<Rightarrow> do {
          r \<leftarrow> call net (PostRange ((import_payload vrfID o' cfs)\<lparr>np_Range := Some (AddrString start, AddrString stop)\<rparr>));
          case as_range r of
            Inl e \<Rightarrow> recoverOccupancyRange c net vrfID start stop e
          | Inr x \<Rightarrow>
              if hostAddr (ir_StartAddress x) \<noteq> Some start \<or> hostAddr (ir_EndAddress x) \<noteq> Some stop \<or> intID (ir_VRF x) \<noteq> vrfID
              then decided ErrPlain
              else if ir_ID x = 0 then decided ErrPlain
              else answer (Inr \<lparr>or_Kind = OccupancyRange, or_ID = itoaID (ir_ID x), or_Action = OccupancyCreated\<rparr>) })"

definition ensureOccupancyRange :: "client \<Rightarrow> net \<Rightarrow> int \<Rightarrow> Pool list \<Rightarrow> Occupancy \<Rightarrow> (nb_error + OccupancyResult) nb" where
  "ensureOccupancyRange c net vrfID pools o' =
     (case (occupancyAddr (oc_StartAddress o'), occupancyAddr (oc_EndAddress o')) of
        (Inl e, _) \<Rightarrow> answer (Inl e)
      | (_, Inl e) \<Rightarrow> answer (Inl e)
      | (Inr start, Inr stop) \<Rightarrow>
          if Compare start stop > 0 then decided ErrOccupancyInvalid
          else if oc_AWSAccountID o' \<noteq> [] \<or> oc_AWSRegion o' \<noteq> [] \<or> oc_AWSResourceID o' \<noteq> [] then decided ErrOccupancyInvalid
          else if oc_Contributors o' \<noteq> [] then decided ErrOccupancyInvalid
          else (case refusePoolSpan start stop pools of
              Some e \<Rightarrow> answer (Inl e)
            | None \<Rightarrow> do {
                existing \<leftarrow> rangesIn net vrfID;
                case existing of
                  Inl e \<Rightarrow> answer (Inl (Cause e))
                | Inr rs \<Rightarrow>
                    (case matchOccupancyRange (nc_L c) rs start stop of
                       Some result \<Rightarrow> answer result
                     | None \<Rightarrow> create_range c net vrfID start stop o') }))"

definition anonymous :: "Contributor \<Rightarrow> bool" where
  "anonymous ct \<longleftrightarrow> ct_Identity ct = []"

definition EnsureOccupancy :: "client \<Rightarrow> net \<Rightarrow> Domain \<Rightarrow> Occupancy \<Rightarrow> (nb_error + OccupancyResult) nb" where
  "EnsureOccupancy c net d o' =
     (case occupancyDomain c d of
        Inl e \<Rightarrow> answer (Inl e)
      | Inr (cfg, pools) \<Rightarrow>
          let hasRange = (oc_StartAddress o' \<noteq> [] \<or> oc_EndAddress o' \<noteq> []); vrfID = bk_VRFID (d_Backend cfg)
          in if oc_Batch o' = [] then decided ErrOccupancyInvalid
             else if rune_count (oc_Description o') > maxDescription then decided ErrOccupancyInvalid
             else if list_ex anonymous (oc_Contributors o') then decided ErrOccupancyInvalid
             else if oc_CIDR o' \<noteq> [] \<and> hasRange then decided ErrOccupancyInvalid
             else if oc_CIDR o' \<noteq> [] then ensureOccupancyPrefix c net vrfID pools o'
             else if oc_StartAddress o' \<noteq> [] \<and> oc_EndAddress o' \<noteq> [] then ensureOccupancyRange c net vrfID pools o'
             else decided ErrOccupancyInvalid)"

section \<open>Finding the one prefix at a CIDR\<close>

definition sole_prefix :: "net \<Rightarrow> Prefix \<Rightarrow> int \<Rightarrow> nb_kind \<Rightarrow> (int \<Rightarrow> (nb_error + 'a) nb) \<Rightarrow> (nb_error + 'a) nb" where
  "sole_prefix net cidr vrfID missing act = do {
     existing \<leftarrow> prefixesAt net cidr vrfID;
     case existing of
       Inl e \<Rightarrow> answer (Inl (Cause e))
     | Inr [] \<Rightarrow> decided missing
     | Inr [x] \<Rightarrow> act (px_ID x)
     | Inr _ \<Rightarrow> decided ErrOccupancyConflict }"

definition current_prefix ::
    "net \<Rightarrow> Prefix \<Rightarrow> int \<Rightarrow> nb_kind \<Rightarrow> int \<Rightarrow> (nbprefix \<Rightarrow> string \<Rightarrow> (nb_error + 'a) nb) \<Rightarrow> (nb_error + 'a) nb" where
  "current_prefix net cidr vrfID unsure i act = do {
     got \<leftarrow> adoptRead net i;
     case got of
       Inl e \<Rightarrow> answer (Inl (uncertain unsure e))
     | Inr (current, etag) \<Rightarrow>
         if parsePrefix (px_Prefix current) \<noteq> Some cidr \<or> prefix_vrf current \<noteq> vrfID then decided ErrOccupancyConflict
         else act current etag }"

section \<open>Refreshing contributors\<close>

datatype RefreshAction = RefreshWritten | RefreshUnchanged

record RefreshResult =
  rf_ID :: string
  rf_Action :: RefreshAction
  rf_Reconstructed :: bool

text \<open>One wanted entry: the map by identity, and whether it grew.\<close>

definition merge_want :: "Contributor \<Rightarrow> Contributor gomap \<times> bool \<Rightarrow> Contributor gomap \<times> bool" where
  "merge_want w st =
     (case st of (byIdentity, grew) \<Rightarrow>
        (case mget byIdentity (ct_Identity w) of
           None \<Rightarrow> (mput (ct_Identity w) w byIdentity, True)
         | Some prior \<Rightarrow>
             (mput (ct_Identity w)
                (prior\<lparr>ct_ObservedAt := (if ct_ObservedAt w \<noteq> None then ct_ObservedAt w else ct_ObservedAt prior),
                       ct_LastSeenBatch := ct_LastSeenBatch w\<rparr>) byIdentity, grew)))"

text \<open>\<open>None\<close>: nothing to write. No list at all is \<open>None\<close>, an empty list is not.\<close>

definition mergeContributors :: "Contributor list option \<Rightarrow> Contributor list \<Rightarrow> Contributor list option" where
  "mergeContributors existing want =
     (let reconstruct = (existing = None);
          byIdentity = fold (\<lambda>ct. mput (ct_Identity ct) ct) (case existing of None \<Rightarrow> [] | Some cs \<Rightarrow> cs) [];
          (m, grew) = fold merge_want want (byIdentity, False)
      in if \<not> reconstruct \<and> \<not> grew then None else Some (sort_key contributor_key (mvals m)))"

definition refresh_fields :: "nblib \<Rightarrow> string \<Rightarrow> Contributor list \<Rightarrow> bool \<Rightarrow> jval gomap" where
  "refresh_fields L source merged reconstruct =
     [(ImportContributorsField, nl_encode L merged), (ImportSourceField, JStr source)] @
     (if reconstruct then [(ImportContributorsReconstructedField, JBool True)] else [])"

definition refresh_write ::
    "client \<Rightarrow> net \<Rightarrow> int \<Rightarrow> string \<Rightarrow> string \<Rightarrow> Contributor list \<Rightarrow> bool \<Rightarrow> (nb_error + RefreshResult) nb" where
  "refresh_write c net i etag source merged reconstruct =
     (let L = nc_L c; cfs = refresh_fields L source merged reconstruct
      in case refuseManagedFields cfs of
        Some e \<Rightarrow> answer (Inl e)
      | None \<Rightarrow> do {
          r \<leftarrow> call net (PatchPrefix (itoaID i) (patch_payload None cfs) etag);
          case r of
            Inl e \<Rightarrow>
              if answeredWith e StatusPreconditionFailed then decided ErrOccupancyConflict
              else answer (Inl (uncertain ErrPlain e))
          | Inr _ \<Rightarrow> do {
              after \<leftarrow> adoptRead net i;
              answer (case after of
                  Inl e \<Rightarrow> Inl (uncertain ErrPlain e)
                | Inr (x, _) \<Rightarrow>
                    if owned L x \<or> \<not> imported x then Inl (Decision ErrRefreshReadBack)
                    else if contributorsCF L (fields_of x) ImportContributorsField \<noteq> (Some merged, False)
                    then Inl (Decision ErrRefreshReadBack)
                    else Inr \<lparr>rf_ID = itoaID i, rf_Action = RefreshWritten, rf_Reconstructed = reconstruct\<rparr>) } })"

definition refresh_current ::
    "client \<Rightarrow> net \<Rightarrow> string \<Rightarrow> Contributor list \<Rightarrow> int \<Rightarrow> nbprefix \<Rightarrow> string \<Rightarrow> (nb_error + RefreshResult) nb" where
  "refresh_current c net source want i current etag =
     (let L = nc_L c; (existing, unreadable) = contributorsCF L (fields_of current) ImportContributorsField;
          unchanged = answer (Inr \<lparr>rf_ID = itoaID i, rf_Action = RefreshUnchanged, rf_Reconstructed = False\<rparr>)
      in if owned L current then decided ErrOccupancyManaged
         else if \<not> imported current then decided ErrOccupancyManaged
         else if unreadable then decided ErrRefreshUnreadable
         else (case mergeContributors existing want of
             None \<Rightarrow> unchanged
           | Some merged \<Rightarrow>
               if existing = None \<and> merged = [] then unchanged
               else refresh_write c net i etag source merged (existing = None)))"

definition RefreshOccupancy ::
    "client \<Rightarrow> net \<Rightarrow> Domain \<Rightarrow> string \<Rightarrow> string \<Rightarrow> Contributor list \<Rightarrow> (nb_error + RefreshResult) nb" where
  "RefreshOccupancy c net d cidr source want =
     (case occupancyDomain c d of
        Inl e \<Rightarrow> answer (Inl e)
      | Inr (cfg, _) \<Rightarrow>
          (case occupancyPrefix cidr of
             Inl e \<Rightarrow> answer (Inl e)
           | Inr p \<Rightarrow>
               if list_ex anonymous want then decided ErrOccupancyInvalid
               else let vrfID = bk_VRFID (d_Backend cfg)
                    in sole_prefix net p vrfID ErrRefreshNotFound (\<lambda>i.
                         current_prefix net p vrfID ErrPlain i (refresh_current c net source want i))))"

section \<open>Reading and removing\<close>

record OccupancyDetail =
  od_ID :: string
  od_CIDR :: string
  od_Description :: string
  od_Owned :: bool
  od_Imported :: bool
  od_Contributors :: "Contributor list option"
  od_Unreadable :: bool
  od_Reconstructed :: bool
  od_PoolConflict :: "nb_error option"

definition occupancy_detail :: "nblib \<Rightarrow> Prefix \<Rightarrow> nb_error option \<Rightarrow> int \<Rightarrow> nbprefix \<Rightarrow> OccupancyDetail" where
  "occupancy_detail L p conflict i current =
     (let (cs, unreadable) = contributorsCF L (fields_of current) ImportContributorsField
      in \<lparr>od_ID = itoaID i, od_CIDR = PrefixString p, od_Description = px_Description current,
          od_Owned = owned L current, od_Imported = imported current, od_Contributors = cs, od_Unreadable = unreadable,
          od_Reconstructed = boolCF (fields_of current) ImportContributorsReconstructedField, od_PoolConflict = conflict\<rparr>)"

definition ReadOccupancy :: "client \<Rightarrow> net \<Rightarrow> Domain \<Rightarrow> string \<Rightarrow> (nb_error + OccupancyDetail) nb" where
  "ReadOccupancy c net d cidr =
     (case occupancyDomain c d of
        Inl e \<Rightarrow> answer (Inl e)
      | Inr (cfg, pools) \<Rightarrow>
          (case occupancyPrefix cidr of
             Inl e \<Rightarrow> answer (Inl e)
           | Inr p \<Rightarrow>
               let vrfID = bk_VRFID (d_Backend cfg)
               in sole_prefix net p vrfID ErrRemovalNotFound (\<lambda>i.
                    current_prefix net p vrfID ErrRemovalUncertain i (\<lambda>current _.
                      answer (Inr (occupancy_detail (nc_L c) p (refusePoolPrefix p pools) i current))))))"

text \<open>The refusals a removal decides again on the prefix it has just read.\<close>

definition refuse_removal :: "nblib \<Rightarrow> nbprefix \<Rightarrow> nb_error option" where
  "refuse_removal L current =
     (let (cs, unreadable) = contributorsCF L (fields_of current) ImportContributorsField
      in if owned L current then Some (Decision ErrOccupancyManaged)
         else if \<not> imported current then Some (Decision ErrOccupancyManaged)
         else if unreadable then Some (Decision ErrRefreshUnreadable)
         else if cs = None \<or> cs = Some [] then Some (Decision ErrOccupancyInvalid)
         else if boolCF (fields_of current) ImportContributorsReconstructedField then Some (Decision ErrRemovalReconstructed)
         else None)"

definition DeleteOccupancy :: "client \<Rightarrow> net \<Rightarrow> Domain \<Rightarrow> string \<Rightarrow> string \<Rightarrow> (nb_error + string \<times> string) nb" where
  "DeleteOccupancy c net d cidr netboxID =
     (case occupancyDomain c d of
        Inl e \<Rightarrow> answer (Inl e)
      | Inr (cfg, pools) \<Rightarrow>
          (case occupancyPrefix cidr of
             Inl e \<Rightarrow> answer (Inl e)
           | Inr p \<Rightarrow>
               (case refusePoolPrefix p pools of
                  Some e \<Rightarrow> answer (Inl e)
                | None \<Rightarrow>
                    let vrfID = bk_VRFID (d_Backend cfg)
                    in sole_prefix net p vrfID ErrRemovalNotFound (\<lambda>i.
                         if itoaID i \<noteq> netboxID then decided ErrRemovalIDMismatch
                         else current_prefix net p vrfID ErrRemovalUncertain i (\<lambda>current etag.
                           case refuse_removal (nc_L c) current of
                             Some e \<Rightarrow> answer (Inl e)
                           | None \<Rightarrow> do {
                               done \<leftarrow> delete_and_confirm net i etag ErrRemovalUncertain ErrOccupancyConflict ErrRemovalReadBack;
                               answer (case done of Some e \<Rightarrow> Inl e | None \<Rightarrow> Inr (itoaID i, PrefixString p)) })))))"

end
