(* ===== verification/NetboxTrace.thy ===== *)
theory NetboxTrace
  imports NetboxSnapshot NetboxImport
begin

text \<open>
  Reasoning about what an operation of the inventory adapter sends: the trace of its requests, the writes
  in it, and the reads before a write that justify it.
\<close>

section \<open>Writes and the reads before them\<close>

definition is_write :: "nb_request \<Rightarrow> bool" where
  "is_write r =
     (case r of PostPrefix _ \<Rightarrow> True | PostRange _ \<Rightarrow> True | PatchPrefix _ _ _ \<Rightarrow> True | DeletePrefix _ _ \<Rightarrow> True | _ \<Rightarrow> False)"

definition unwritten :: "nb_request list \<Rightarrow> bool" where
  "unwritten t \<longleftrightarrow> list_all (\<lambda>r. \<not> is_write r) t"

text \<open>Each write of a trace satisfies \<open>J\<close> of the requests sent before it.\<close>

fun justified :: "(nb_request list \<Rightarrow> nb_request \<Rightarrow> bool) \<Rightarrow> nb_request list \<Rightarrow> nb_request list \<Rightarrow> bool" where
  "justified J past [] = True"
| "justified J past (r # rs) = ((is_write r \<longrightarrow> J past r) \<and> justified J (past @ [r]) rs)"

text \<open>A request of the trace was answered with the prefix of this identifier and this ETag.\<close>

definition was_read :: "net \<Rightarrow> nb_request list \<Rightarrow> string \<Rightarrow> nbprefix \<Rightarrow> string \<Rightarrow> bool" where
  "was_read net t i x etag \<longleftrightarrow> (\<exists>m < length t. t ! m = GetPrefix i \<and> net m (t ! m) = Inr (Detail x etag))"

definition was_listed :: "net \<Rightarrow> nb_request list \<Rightarrow> nb_request \<Rightarrow> nbprefix list \<Rightarrow> bool" where
  "was_listed net t r xs \<longleftrightarrow> (\<exists>m < length t. t ! m = r \<and> net m r = Inr (Prefixes xs))"

lemma is_write_simps [simp]:
  "\<not> is_write ListPrefixes" "\<not> is_write (ListPrefixesAt s)" "\<not> is_write (ListPrefixesMarked s)" "\<not> is_write ListVRFs"
  "\<not> is_write ListAddresses" "\<not> is_write (ListRanges v)" "\<not> is_write (GetPrefix s)"
  "is_write (PostPrefix p)" "is_write (PostRange p)" "is_write (PatchPrefix s p etag)" "is_write (DeletePrefix s etag)"
  by (simp_all add: is_write_def)

lemma unwritten_simps [simp]: "unwritten []" "unwritten (r # rs) \<longleftrightarrow> \<not> is_write r \<and> unwritten rs" "unwritten (t @ u) \<longleftrightarrow> unwritten t \<and> unwritten u"
  by (auto simp: unwritten_def)

lemma justified_append: "justified J past (t @ u) \<longleftrightarrow> justified J past t \<and> justified J (past @ t) u"
  by (induction t arbitrary: past) auto

lemma justified_at:
  "justified J past t \<Longrightarrow> n < length t \<Longrightarrow> is_write (t ! n) \<Longrightarrow> J (past @ take n t) (t ! n)"
  by (induction t arbitrary: past n) (force simp: nth_Cons split: nat.splits)+

lemma justified_mono: "justified J past t \<Longrightarrow> (\<And>u w. J u w \<Longrightarrow> K u w) \<Longrightarrow> justified K past t"
  by (induction t arbitrary: past) auto

text \<open>Writes that each follow a trace without one are at most one.\<close>

lemma justified_at_most_one:
  assumes "justified (\<lambda>u w. unwritten u \<and> J u w) [] t"
  shows "length (filter is_write t) \<le> 1"
proof -
  have "justified (\<lambda>u w. unwritten u \<and> J u w) past t \<Longrightarrow>
      length (filter is_write t) \<le> (if unwritten past then 1 else 0)" for past
  proof (induction t arbitrary: past)
    case (Cons r rs)
    then show ?case using Cons.IH [of "past @ [r]"] by (auto split: if_splits)
  qed simp
  from this [of "[]"] assms show ?thesis by simp
qed

section \<open>Running the shared requests\<close>

lemma as_detail_Inr [simp]: "as_detail r = Inr p \<longleftrightarrow> r = Inr (Detail (fst p) (snd p))"
  by (auto simp: as_detail_def split: sum.splits nb_body.splits)

lemma as_prefixes_Inr [simp]: "as_prefixes r = Inr xs \<longleftrightarrow> r = Inr (Prefixes xs)"
  by (auto simp: as_prefixes_def split: sum.splits nb_body.splits)

lemma as_body_simps [simp]: "as_detail (Inr (Detail x etag)) = Inr (x, etag)" "as_prefixes (Inr (Prefixes xs)) = Inr xs"
  by (simp_all add: as_detail_def as_prefixes_def)

lemma run_adoptRead [simp]:
  "run_state (adoptRead net i) t = (as_detail (net (length t) (GetPrefix (itoaID i))), t @ [GetPrefix (itoaID i)])"
  by (simp add: adoptRead_def)

lemma run_findByMarker [simp]:
  "run_state (findByMarker L net s) t =
     (map_sum id (filter (\<lambda>x. px_string L x allocationIDCF = s)) (as_prefixes (net (length t) (ListPrefixesMarked s))),
      t @ [ListPrefixesMarked s])"
  by (simp add: findByMarker_def)

definition at_cidr :: "Prefix \<Rightarrow> int \<Rightarrow> nbprefix \<Rightarrow> bool" where
  "at_cidr cidr vrfID x \<longleftrightarrow> parsePrefix (px_Prefix x) = Some cidr \<and> prefix_vrf x = vrfID"

definition exact_prefixes :: "Prefix \<Rightarrow> int \<Rightarrow> nb_http + nb_body \<Rightarrow> nb_http + nbprefix list" where
  "exact_prefixes cidr vrfID r =
     (case as_prefixes r of
        Inl e \<Rightarrow> Inl e
      | Inr xs \<Rightarrow> if list_ex (\<lambda>x. parsePrefix (px_Prefix x) = None) xs then Inl undecodable else Inr (filter (at_cidr cidr vrfID) xs))"

lemma at_cidr_eta: "(\<lambda>x. parsePrefix (px_Prefix x) = Some cidr \<and> prefix_vrf x = vrfID) = at_cidr cidr vrfID"
  by (auto simp: at_cidr_def)

lemma run_prefixesAt [simp]:
  "run_state (prefixesAt net cidr vrfID) t =
     (exact_prefixes cidr vrfID (net (length t) (ListPrefixesAt (PrefixString cidr))), t @ [ListPrefixesAt (PrefixString cidr)])"
  by (simp add: prefixesAt_def exact_prefixes_def at_cidr_eta del: as_prefixes_Inr split: sum.split)

lemma map_sum_Inr: "map_sum f g r = Inr y \<longleftrightarrow> (\<exists>x. r = Inr x \<and> y = g x)"
  by (cases r) auto

lemma was_read_snoc:
  "net (length t) (GetPrefix i) = Inr (Detail x etag) \<Longrightarrow> was_read net (t @ GetPrefix i # u) i x etag"
  unfolding was_read_def by (rule exI [of _ "length t"]) simp

lemma was_listed_snoc: "net (length t) r = Inr (Prefixes xs) \<Longrightarrow> was_listed net (t @ r # u) r xs"
  unfolding was_listed_def by (rule exI [of _ "length t"]) simp

lemmas was_read_at = was_read_snoc [where t = "[]", simplified] was_read_snoc [where t = "[a]" for a, simplified]
lemmas was_listed_at = was_listed_snoc [where t = "[]", simplified] was_listed_snoc [where t = "[a]" for a, simplified]
  was_listed_snoc [where t = "[a, b]" for a b, simplified]

section \<open>The contract of a write\<close>

text \<open>
  A trace of an operation that changes one object it has read: before its only write it read the object,
  and \<open>J\<close> holds of the write, the object's identifier, what was read of it and the ETag of that answer.
\<close>

locale read_then_write =
  fixes net :: net and t :: "nb_request list" and J :: "nb_request \<Rightarrow> string \<Rightarrow> nbprefix \<Rightarrow> string \<Rightarrow> bool"
  assumes follows_read: "justified (\<lambda>u w. unwritten u \<and> (\<exists>i x etag. was_read net u i x etag \<and> J w i x etag)) [] t"
begin

lemma at_most_one: "length (filter is_write t) \<le> 1"
  using follows_read by (rule justified_at_most_one)

lemma write_follows_read:
  assumes "n < length t" and "is_write (t ! n)"
  shows "\<exists>m i x etag. m < n \<and> t ! m = GetPrefix i \<and> net m (t ! m) = Inr (Detail x etag) \<and> J (t ! n) i x etag"
proof -
  have "\<exists>i x etag. was_read net (take n t) i x etag \<and> J (t ! n) i x etag"
    using justified_at [OF follows_read assms] by simp
  then show ?thesis using assms(1) by (auto simp: was_read_def)
qed

end

end
