(* ===== verification/NetboxAnswers.thy ===== *)
theory NetboxAnswers
  imports NetboxTrace
begin

text \<open>
  Which requests of an operation got an answer, and that the adapter's uncertain error says exactly that: the
  rules for one request at a time, and the operations that withdraw or take over a prefix.
\<close>

section \<open>Answers\<close>

text \<open>
  A request without an answer: a transport error, a status of 500 and above or 429, or a body that does not
  decode to what was asked for.
\<close>

definition no_answer :: "nb_request \<Rightarrow> nb_http + nb_body \<Rightarrow> bool" where
  "no_answer r ans =
     (case r of
        GetPrefix _ \<Rightarrow> (case as_detail ans of Inl e \<Rightarrow> unanswered e | Inr _ \<Rightarrow> False)
      | ListPrefixesMarked _ \<Rightarrow> (case as_prefixes ans of Inl e \<Rightarrow> unanswered e | Inr _ \<Rightarrow> False)
      | ListPrefixesAt _ \<Rightarrow>
          (case as_prefixes ans of Inl e \<Rightarrow> unanswered e | Inr xs \<Rightarrow> list_ex (\<lambda>x. parsePrefix (px_Prefix x) = None) xs)
      | _ \<Rightarrow> (case ans of Inl e \<Rightarrow> unanswered e | Inr _ \<Rightarrow> False))"

text \<open>The requests from number \<open>n\<close> on all got an answer.\<close>

fun heard :: "net \<Rightarrow> nat \<Rightarrow> nb_request list \<Rightarrow> bool" where
  "heard net n [] = True"
| "heard net n (r # rs) = (\<not> no_answer r (net n r) \<and> heard net (Suc n) rs)"

text \<open>The service takes the error of an operation as one that says nothing about the object.\<close>

definition says_nothing :: "nb_error option \<Rightarrow> bool" where
  "says_nothing r = (case r of None \<Rightarrow> False | Some e \<Rightarrow> uncertainInventoryError (nb_goerr e))"

definition error_of :: "'e + 'a \<Rightarrow> 'e option" where
  "error_of r = (case r of Inl e \<Rightarrow> Some e | Inr _ \<Rightarrow> None)"

lemma says_nothing_simps [simp]:
  "\<not> says_nothing None" "\<not> says_nothing (Some (Decision k))" "says_nothing (Some (uncertain k e)) = unanswered e"
  by (simp_all add: says_nothing_def uncertain_def nb_goerr_def uncertainInventoryError_def)

lemma error_of_simps [simp]: "error_of (Inl e) = Some e" "error_of (Inr x) = None"
  by (simp_all add: error_of_def)

lemma unanswered_undecodable [simp]: "unanswered undecodable"
  by (simp add: unanswered_def undecodable_def)

lemma no_answer_simps [simp]:
  "no_answer (GetPrefix i) ans = (case as_detail ans of Inl e \<Rightarrow> unanswered e | Inr _ \<Rightarrow> False)"
  "no_answer (ListPrefixesMarked i) ans = (case as_prefixes ans of Inl e \<Rightarrow> unanswered e | Inr _ \<Rightarrow> False)"
  "no_answer (PatchPrefix i p etag) ans = (case ans of Inl e \<Rightarrow> unanswered e | Inr _ \<Rightarrow> False)"
  "no_answer (DeletePrefix i etag) ans = (case ans of Inl e \<Rightarrow> unanswered e | Inr _ \<Rightarrow> False)"
  by (auto simp: no_answer_def split: sum.splits)

lemma no_answer_at:
  "exact_prefixes cidr v ans = Inl e \<Longrightarrow> no_answer (ListPrefixesAt s) ans = unanswered e"
  "exact_prefixes cidr v ans = Inr xs \<Longrightarrow> \<not> no_answer (ListPrefixesAt s) ans"
  by (auto simp: no_answer_def exact_prefixes_def as_prefixes_def split: sum.splits if_splits nb_body.splits)

lemma answeredWith_unanswered: "answeredWith e s \<Longrightarrow> s = 412 \<or> s = 404 \<Longrightarrow> \<not> unanswered e"
  by (auto simp: answeredWith_def unanswered_def split: nb_http.splits)

section \<open>One request at a time\<close>

text \<open>
  From the trace \<open>t\<close> on, the computation ends in an error that says nothing exactly when one of its requests
  got no answer.
\<close>

definition classified :: "net \<Rightarrow> ('a \<Rightarrow> nb_error option) \<Rightarrow> 'a nb \<Rightarrow> nb_request list \<Rightarrow> bool" where
  "classified net err m t \<longleftrightarrow>
     (\<exists>u. snd (run_state m t) = t @ u \<and> (says_nothing (err (fst (run_state m t))) \<longleftrightarrow> \<not> heard net (length t) u))"

definition stops_unsure :: "('a \<Rightarrow> nb_error option) \<Rightarrow> 'a nb \<Rightarrow> bool" where
  "stops_unsure err m \<longleftrightarrow> (\<exists>y. m = answer y \<and> says_nothing (err y))"

lemma stops_unsure_answer [simp]: "stops_unsure err (answer y) \<longleftrightarrow> says_nothing (err y)"
  by (metis fst_conv run_state_return stops_unsure_def)

lemma classified_answer [simp]: "classified net err (answer x) t \<longleftrightarrow> \<not> says_nothing (err x)"
  by (simp add: classified_def)

lemma classified_step:
  assumes "run_state m t = (x, t @ [r])"
    and "no_answer r (net (length t) r) \<Longrightarrow> stops_unsure err (f x)"
    and "\<not> no_answer r (net (length t) r) \<Longrightarrow> classified net err (f x) (t @ [r])"
  shows "classified net err (m \<bind> f) t"
proof (cases "no_answer r (net (length t) r)")
  case True
  then obtain y where "f x = answer y" "says_nothing (err y)" using assms(2) by (auto simp: stops_unsure_def)
  then show ?thesis using True assms(1) by (simp add: classified_def)
next
  case False
  then obtain u where "snd (run_state (f x) (t @ [r])) = (t @ [r]) @ u"
      "says_nothing (err (fst (run_state (f x) (t @ [r])))) \<longleftrightarrow> \<not> heard net (length (t @ [r])) u"
    using assms(3) by (auto simp: classified_def)
  then show ?thesis using False assms(1) by (auto simp: classified_def intro!: exI [of _ "r # u"])
qed

lemmas classified_marker = classified_step [OF run_findByMarker]
lemmas classified_read = classified_step [OF run_adoptRead]
lemmas classified_at = classified_step [OF run_prefixesAt]
lemmas classified_call = classified_step [OF run_call]
lemmas status_defs = StatusPreconditionFailed_def StatusNotFound_def

lemma classified_result: "classified net err m [] \<Longrightarrow> says_nothing (err (result m)) \<longleftrightarrow> \<not> heard net 0 (sent m)"
  by (auto simp: classified_def result_def sent_def)

section \<open>The operations\<close>

lemma classified_delete_and_confirm: "classified net id (delete_and_confirm net i etag unsure conflict readBack) t"
  unfolding delete_and_confirm_def
  by (rule classified_call) (auto simp: answeredWith_unanswered status_defs split: sum.splits if_splits intro!: classified_read)

lemma classified_abandon_clear: "classified net id (abandon_clear c net a op prior i etag) t"
  unfolding abandon_clear_def
  by (rule classified_call) (auto simp: answeredWith_unanswered status_defs split: sum.splits intro!: classified_read)

lemma classified_claimed_prefix:
  assumes "\<And>i x etag t. classified net id (act i x etag) t" and "\<And>x e. refuse x = Some e \<Longrightarrow> \<not> says_nothing (Some e)"
  shows "classified net id (claimed_prefix c net a unsure ambiguous conflict refuse act) t"
  unfolding claimed_prefix_def Let_def
  by (rule classified_marker) (auto simp: assms map_sum_Inr split: sum.splits list.split option.split intro!: classified_read)

lemma classified_CancelReservation: "classified net id (Client_CancelReservation c net a op) t"
  unfolding Client_CancelReservation_def
  by (auto simp: deletingOurOwnReservation_def split: if_splits intro!: classified_claimed_prefix classified_delete_and_confirm)

lemma classified_AbandonAdoption: "classified net id (Client_AbandonAdoption c net a op prior) t"
  unfolding Client_AbandonAdoption_def
  by (auto simp: clearingOurOwnOperation_def split: if_splits intro!: classified_claimed_prefix classified_abandon_clear)

lemma classified_adopt_read_back: "classified net error_of (adopt_read_back c net a op i vrfID) t"
  unfolding adopt_read_back_def by (rule classified_read) (auto split: sum.splits)

lemma classified_adopt_write: "classified net error_of (adopt_write c net a op i vrfID current etag) t"
  unfolding adopt_write_def
  by (rule classified_marker)
    (auto simp: answeredWith_unanswered status_defs split: sum.splits intro!: classified_call classified_adopt_read_back)

lemma classified_adopt_current: "classified net error_of (adopt_current c net a op cidr vrfID i current etag) t"
  unfolding adopt_current_def Let_def by (simp add: classified_adopt_write)

lemma classified_Adopt: "classified net error_of (Client_Adopt c net a op) t"
proof -
  have refused: "\<not> says_nothing (Some e)" if "allocationDomain c a = Inl e \<or> adoptCIDR s p = Inl e" for e s p
    using that by (auto simp: allocationDomain_def adoptCIDR_def occupancyPrefix_def Let_def split: option.splits sum.splits if_splits)
  show ?thesis
    unfolding Client_Adopt_def
    by (auto simp: refused no_answer_at classified_adopt_current split: sum.split list.split prod.split
        intro!: classified_at classified_read)
qed

end
