(* ===== verification/SnapshotProps.thy ===== *)
theory SnapshotProps
  imports NetboxTrace Candidate Example
begin

text \<open>
  The inventory adapter and the allocator together: what NetBox records in a domain's VRF is what the
  allocator keeps away from.
\<close>

section \<open>Objects of a snapshot\<close>

lemma prefix_networks_mem:
  "prefix_networks L d pools seen xs = Inr ns \<Longrightarrow> x \<in> set xs \<Longrightarrow>
     \<exists>q. parsePrefix (px_Prefix x) = Some q \<and>
         (is_ancestor pools q \<and> \<not> is_pool pools q \<or> prefix_network L (is_pool pools q) q x \<in> set ns)"
proof (induction xs arbitrary: seen ns)
  case (Cons y ys)
  obtain q where q: "parsePrefix (px_Prefix y) = Some q" using Cons.prems(1) by (cases "parsePrefix (px_Prefix y)") auto
  let ?key = "(prefix_vrf y, PrefixString q)"
  obtain ns' where ns': "prefix_networks L d pools (?key # seen) ys = Inr ns'"
      "is_ancestor pools q \<and> \<not> is_pool pools q \<or> prefix_network L (is_pool pools q) q y \<in> set ns" "\<forall>n \<in> set ns'. n \<in> set ns"
    using Cons.prems(1) q by (auto simp: Let_def map_sum_Inr split: if_splits)
  then show ?case using Cons.prems(2) q Cons.IH [OF ns'(1)] by auto
qed simp

lemma concat_ok_mem: "concat_ok rs = Inr ys \<Longrightarrow> r \<in> set rs \<Longrightarrow> \<exists>zs. r = Inr zs \<and> set zs \<subseteq> set ys"
proof (induction rs arbitrary: ys)
  case (Cons q qs)
  then obtain zs us where "q = Inr zs" "concat_ok qs = Inr us" "ys = zs @ us"
    by (auto simp: map_sum_Inr split: sum.splits)
  then show ?case using Cons by auto
qed simp

lemma snapshot_of_Inr:
  assumes "snapshot_of L d pools xs addresses ranges = Inr snap"
  obtains ns ms where "prefix_networks L d pools [] xs = Inr ns" "sn_Networks snap = ns @ ms" "sn_Complete snap"
    "concat_ok (map address_network addresses @ map range_networks ranges) = Inr ms"
    "list_all (\<lambda>q. pool_matches d xs q = 1) pools"
  using assms by (auto simp: snapshot_of_def map_sum_Inr list_ex_iff list_all_iff split: sum.splits if_splits)

section \<open>What NetBox records\<close>

text \<open>A prefix that is no pool and is not a shorter one around all addresses of a pool.\<close>

definition stands_clear :: "Pool list \<Rightarrow> Prefix \<Rightarrow> bool" where
  "stands_clear pools q \<longleftrightarrow>
     (\<forall>p \<in> set pools. \<forall>pc. parsePrefix (pl_CIDR p) = Some pc \<longrightarrow> q \<noteq> pc \<and> \<not> (pbits q < pbits pc \<and> addrs pc \<subseteq> addrs q))"

lemma stands_clearD: "stands_clear pools q \<Longrightarrow> \<not> is_pool pools q \<and> \<not> is_ancestor pools q"
  using addrs_subset [of q] by (fastforce simp: stands_clear_def is_pool_def is_ancestor_def list_ex_iff split: option.splits)

text \<open>
  The addresses that the objects in a domain's VRF occupy, or in every VRF when the domain has none: those of
  a prefix that is neither a pool nor contains one, an IP address, and those of an IP range.
\<close>

definition recorded ::
    "Domain \<Rightarrow> Pool list \<Rightarrow> nbprefix list \<Rightarrow> ipAddress list \<Rightarrow> ipRange list \<Rightarrow> Addr \<Rightarrow> bool" where
  "recorded d pools xs addresses ranges z \<longleftrightarrow>
     (\<exists>x \<in> set xs. bk_VRFID (d_Backend d) \<in> {0, prefix_vrf x} \<and>
        (\<exists>q. parsePrefix (px_Prefix x) = Some q \<and> stands_clear pools q \<and> z \<in> addrs q)) \<or>
     (\<exists>y \<in> set addresses. bk_VRFID (d_Backend d) \<in> {0, intID (ia_VRF y)} \<and> hostAddr (ia_Address y) = Some z) \<or>
     (\<exists>r \<in> set ranges. bk_VRFID (d_Backend d) \<in> {0, intID (ir_VRF r)} \<and>
        (\<exists>a b. hostAddr (ir_StartAddress r) = Some a \<and> hostAddr (ir_EndAddress r) = Some b \<and>
           BitLen z = BitLen a \<and> addr_nat a \<le> addr_nat z \<and> addr_nat z \<le> addr_nat b))"

lemma in_vrf_iff: "in_vrf d v \<longleftrightarrow> bk_VRFID (d_Backend d) \<in> {0, v}"
  by (auto simp: in_vrf_def)

text \<open>Some network of the snapshot that is no pool occupies the address.\<close>

definition shown :: "InventorySnapshot \<Rightarrow> Addr \<Rightarrow> bool" where
  "shown snap z \<longleftrightarrow> (\<exists>n \<in> set (sn_Networks snap). \<not> n_ParentPool n \<and> (\<exists>q. ParsePrefix (n_CIDR n) = Some q \<and> z \<in> addrs q))"

lemma shown_text:
  assumes "n \<in> set (sn_Networks snap)" "\<not> n_ParentPool n" "n_CIDR n = PrefixString q" "valid_prefix q" "z \<in> addrs q" "Is4 z"
  shows "shown snap z"
proof -
  have "Is4 (ip q)" using assms(5,6) by (cases "ip q") (auto simp: addrs_def Is4_def)
  then have "ParsePrefix (n_CIDR n) = Some q" using ParsePrefix_PrefixString4 [OF assms(4)] assms(3) by simp
  then show ?thesis using assms(1,2,5) unfolding shown_def by blast
qed

lemma prefix_shown:
  assumes "prefix_networks L d pools [] xs = Inr ns" "set ns \<subseteq> set (sn_Networks snap)" "x \<in> set xs"
    and "parsePrefix (px_Prefix x) = Some q" "\<not> is_pool pools q" "\<not> is_ancestor pools q" "z \<in> addrs q" "Is4 z"
  shows "shown snap z"
proof -
  have "prefix_network L False q x \<in> set (sn_Networks snap)"
    using prefix_networks_mem [OF assms(1,3)] assms(2,4-6) by auto
  moreover have "valid_prefix q" using assms(4) ParsePrefix_valid by (simp add: parsePrefix_def)
  ultimately show ?thesis
    using assms(7,8) by (auto simp: prefix_network_def Let_def split: prod.splits intro!: shown_text)
qed

lemma host_mem: "Is4 z \<Longrightarrow> valid_prefix \<lparr>ip = z, pbits = 32\<rparr> \<and> z \<in> addrs \<lparr>ip = z, pbits = 32\<rparr>"
  by (cases z) (simp_all add: valid_prefix_def BitLen_def Is4_def addrs_def)

lemma address_shown:
  assumes "concat_ok (map address_network addresses @ rest) = Inr ms" "set ms \<subseteq> set (sn_Networks snap)"
    and "y \<in> set addresses" "hostAddr (ia_Address y) = Some z" "Is4 z"
  shows "shown snap z"
proof -
  have "plain_network (''ip-'' @ itoaID (ia_ID y)) (PrefixString \<lparr>ip = z, pbits = 32\<rparr>) \<in> set (sn_Networks snap)"
  proof -
    have "address_network y = Inr [plain_network (''ip-'' @ itoaID (ia_ID y)) (PrefixString \<lparr>ip = z, pbits = 32\<rparr>)]"
      using assms(4,5) by (simp add: address_network_def addressCIDR_def)
    moreover obtain zs where "address_network y = Inr zs" "set zs \<subseteq> set ms"
      using concat_ok_mem [OF assms(1), of "address_network y"] assms(3) by auto
    ultimately show ?thesis using assms(2) by auto
  qed
  then show ?thesis using host_mem [OF assms(5)] assms(5) by (auto simp: plain_network_def intro!: shown_text)
qed

lemma tiles_valid: "tiles W c ps e \<Longrightarrow> p \<in> set ps \<Longrightarrow> valid_prefix p"
  by (induction ps arbitrary: c) (auto simp: valid_prefix_def)

lemma range_shown:
  assumes "concat_ok (rest @ map range_networks ranges) = Inr ms" "set ms \<subseteq> set (sn_Networks snap)"
    and "r \<in> set ranges" "hostAddr (ir_StartAddress r) = Some a" "hostAddr (ir_EndAddress r) = Some b"
    and "BitLen z = BitLen a" "addr_nat a \<le> addr_nat z" "addr_nat z \<le> addr_nat b" "Is4 z"
  shows "shown snap z"
proof -
  obtain ns where ns: "range_networks r = Inr ns" "set ns \<subseteq> set (sn_Networks snap)"
    using concat_ok_mem [OF assms(1), of "range_networks r"] assms(2,3) by auto
  then obtain ps where ps: "range_prefixes a b = Inr ps"
      "ns = map (\<lambda>(i, b). plain_network (''range-'' @ itoaID (ir_ID r) @ ''-'' @ dec i) b) (enumerate 0 (map PrefixString ps))"
    using assms(4,5) by (auto simp: range_networks_def rangeCIDRs_def hostAddr_def map_sum_Inr split: sum.splits)
  have "BitLen a = BitLen b" using ps(1) by (auto simp: range_prefixes_def split: if_splits)
  then obtain qs where qs: "tiles (BitLen a) (addr_nat a) qs (Suc (addr_nat b))" "set qs \<subseteq> set ps"
    using range_prefixes_exact [of a b] assms(7,8) ps(1) by (metis Inr_inject le_trans set_append sup_ge1)
  then obtain q where q: "q \<in> set qs" "z \<in> addrs q" using tiles_union [OF qs(1)] assms(6-8) by (auto simp: less_Suc_eq_le)
  then obtain i where i: "i < length ps" "ps ! i = q" using qs(2) by (metis in_set_conv_nth subsetD)
  have "plain_network (''range-'' @ itoaID (ir_ID r) @ ''-'' @ dec i) (PrefixString q) \<in> set ns"
    unfolding ps(2) set_map by (rule image_eqI [of _ _ "(i, PrefixString q)"]) (use i in \<open>auto simp: in_set_enumerate_eq\<close>)
  then show ?thesis using ns(2) q(2) tiles_valid [OF qs(1) q(1)] assms(9) by (auto simp: plain_network_def intro!: shown_text)
qed

lemma recorded_shown:
  assumes "snapshot_of L d pools (filter (\<lambda>x. in_vrf d (prefix_vrf x)) xs) (filter (\<lambda>a. in_vrf d (intID (ia_VRF a))) ys)
      (filter (\<lambda>r. in_vrf d (intID (ir_VRF r))) zs) = Inr snap" (is "snapshot_of L d pools ?xs ?ys ?zs = _")
    and "recorded d pools xs ys zs z" "Is4 z"
  shows "shown snap z"
proof -
  obtain ns ms where sn: "prefix_networks L d pools [] ?xs = Inr ns" "sn_Networks snap = ns @ ms"
      "concat_ok (map address_network ?ys @ map range_networks ?zs) = Inr ms"
    using snapshot_of_Inr [OF assms(1)] .
  from assms(2) [unfolded recorded_def, folded in_vrf_iff] consider
      (prefix) x q where "x \<in> set ?xs" "parsePrefix (px_Prefix x) = Some q" "stands_clear pools q" "z \<in> addrs q"
    | (addr) y where "y \<in> set ?ys" "hostAddr (ia_Address y) = Some z"
    | (range) r a b where "r \<in> set ?zs" "hostAddr (ir_StartAddress r) = Some a" "hostAddr (ir_EndAddress r) = Some b"
        "BitLen z = BitLen a" "addr_nat a \<le> addr_nat z" "addr_nat z \<le> addr_nat b"
    by (simp only: set_filter mem_Collect_eq) blast
  then show ?thesis
  proof cases
    case prefix
    then show ?thesis using prefix_shown [OF sn(1) _ prefix(1,2)] stands_clearD [OF prefix(3)] sn(2) assms(3) by simp
  next
    case addr
    then show ?thesis using address_shown [OF sn(3)] sn(2) assms(3) by simp
  next
    case range
    then show ?thesis using range_shown [OF sn(3)] sn(2) assms(3) by simp
  qed
qed

lemma shown_unblocked:
  assumes "shown snap z" "\<not> candidate_blocked pool r snap ob st p" "valid_prefix p" "r_Scope r \<noteq> ''subnet''"
  shows "z \<notin> addrs p"
  using assms(1,4) not_blocked_network [OF assms(2,3)] unfolding shown_def by blast

lemma addrs_Is4: "z \<in> addrs p \<Longrightarrow> Is4 (ip p) \<Longrightarrow> Is4 z"
  by (cases "ip p") (auto simp: addrs_def Is4_def)

lemma Snapshot_Inr:
  assumes "result (Snapshot c net d) = Inr snap"
  obtains pools xs ys zs where "domainPools c d = Inr pools" "net 1 ListPrefixes = Inr (Prefixes xs)"
    "net 2 ListAddresses = Inr (Addresses ys)" "net 3 (ListRanges None) = Inr (IPRanges zs)"
    "snapshot_of (nc_L c) d pools (filter (\<lambda>x. in_vrf d (prefix_vrf x)) xs)
       (filter (\<lambda>a. in_vrf d (intID (ia_VRF a))) ys) (filter (\<lambda>r. in_vrf d (intID (ir_VRF r))) zs) = Inr snap"
proof -
  have "as_addresses r = Inr ys \<longleftrightarrow> r = Inr (Addresses ys)" "as_ranges r = Inr zs \<longleftrightarrow> r = Inr (IPRanges zs)" for r ys zs
    by (auto simp: as_addresses_def as_ranges_def split: sum.splits nb_body.splits)
  then show thesis
    using assms that unfolding result_def Snapshot_def snapshot_listings_def
    by (simp add: numeral_2_eq_2 numeral_3_eq_3 split: sum.splits if_splits)
qed


section \<open>A small NetBox\<close>

definition ex_nblib :: nblib where
  "ex_nblib = \<lparr>nl_K = ex_crypto, nl_Sprint = (\<lambda>v. ''value''), nl_decode = (\<lambda>v. None), nl_encode = (\<lambda>cs. JList []),
     nl_ParseTime = (\<lambda>s. None)\<rparr>"

definition ex_client :: client where
  "ex_client = New ex_nblib ex_config 60"

definition ex_prefix :: "int \<Rightarrow> string \<Rightarrow> nbprefix" where
  "ex_prefix i s = \<lparr>px_ID = i, px_Prefix = s, px_VRF = JNull, px_Status = ''active'', px_CustomFields = Some [],
     px_Tags = [], px_Description = []\<rparr>"

definition ex_netbox :: net where
  "ex_netbox n r =
     (case r of
        ListVRFs \<Rightarrow> Inr (VRFs [])
      | ListPrefixes \<Rightarrow> Inr (Prefixes [ex_prefix 1 ''10.0.0.0/16'', ex_prefix 2 ''10.0.1.0/24''])
      | ListAddresses \<Rightarrow> Inr (Addresses [\<lparr>ia_ID = 3, ia_Address = ''10.0.2.9/24'', ia_VRF = JNull\<rparr>])
      | ListRanges v \<Rightarrow> Inr (IPRanges [])
      | _ \<Rightarrow> Inl (HTTPError 404))"

definition ex_netbox_networks :: InventorySnapshot where
  "ex_netbox_networks = \<lparr>sn_Networks = [(plain_network ''1'' ''10.0.0.0/16'')\<lparr>n_ParentPool := True, n_Status := ''active''\<rparr>,
         (plain_network ''2'' ''10.0.1.0/24'')\<lparr>n_Status := ''active''\<rparr>, plain_network ''ip-3'' ''10.0.2.9/32''],
       sn_Complete = True\<rparr>"

lemma ex_netbox_snapshot:
  "result (Snapshot ex_client ex_netbox ex_domain) = Inr ex_netbox_networks"
  by code_simp

lemma ex_netbox_choice:
  "chooseCIDR ex_pool ex_request ex_netbox_networks ex_observation NewState = Inr (Some ''10.0.3.0/24'')"
  by code_simp


end
