(* ===== verification/InventoryProps.thy ===== *)
theory InventoryProps
  imports NetboxAnswers SnapshotProps LifecycleProps
begin

text \<open>
  The service on top of the NetBox adapter: how the service reads the adapter's errors, and what a deletion
  whose answer was lost leads to.
\<close>

lemma netbox_inventory_calls:
  "inv_Adopt (netbox_inventory c nets now) n a op = map_sum nb_goerr id (result (Client_Adopt c (nets OpAdopt n) a op))"
  "inv_AbandonAdoption (netbox_inventory c nets now) n a op prior =
     map_option nb_goerr (result (Client_AbandonAdoption c (nets OpAbandon n) a op prior))"
  "inv_CancelReservation (netbox_inventory c nets now) n a op =
     map_option nb_goerr (result (Client_CancelReservation c (nets OpCancel n) a op))"
  "inv_Delete (netbox_inventory c nets now) n a = map_option nb_goerr (result (Delete c (nets OpDelete n) a))"
  by (simp_all add: netbox_inventory_def)

section \<open>Errors\<close>

lemma says_nothing_iff: "says_nothing r \<longleftrightarrow> (\<exists>e. map_option nb_goerr r = Some e \<and> uncertainInventoryError e)"
  by (cases r) (simp_all add: says_nothing_def)

lemma says_nothing_sum: "says_nothing (error_of r) \<longleftrightarrow> (\<exists>e. map_sum nb_goerr f r = Inl e \<and> uncertainInventoryError e)"
  by (cases r) (simp_all add: says_nothing_def)

text \<open>
  C31. For a cancel, an abandonment and an adoption the service takes the adapter's error as one that says nothing, and
  repeats the call in silence, exactly when one of the requests got no answer: a transport error, a status of 500 and above or
  429, or a body that does not decode. Every other error is a decision on what NetBox answered.
\<close>

theorem uncertain_means_unanswered:
  "((\<exists>e. inv_CancelReservation (netbox_inventory c nets now) n a op = Some e \<and> uncertainInventoryError e) \<longleftrightarrow>
      \<not> heard (nets OpCancel n) 0 (sent (Client_CancelReservation c (nets OpCancel n) a op))) \<and>
    ((\<exists>e. inv_AbandonAdoption (netbox_inventory c nets now) n a op prior = Some e \<and> uncertainInventoryError e) \<longleftrightarrow>
      \<not> heard (nets OpAbandon n) 0 (sent (Client_AbandonAdoption c (nets OpAbandon n) a op prior))) \<and>
    ((\<exists>e. inv_Adopt (netbox_inventory c nets now) n a op = Inl e \<and> uncertainInventoryError e) \<longleftrightarrow>
      \<not> heard (nets OpAdopt n) 0 (sent (Client_Adopt c (nets OpAdopt n) a op)))"
  unfolding netbox_inventory_calls says_nothing_iff [symmetric] says_nothing_sum [symmetric]
  using classified_result [OF classified_CancelReservation] classified_result [OF classified_AbandonAdoption]
    classified_result [OF classified_Adopt]
  by simp

section \<open>Deletion\<close>

lemma Delete_gone:
  assumes "net 0 (GetPrefix (a_InventoryID a)) = Inl (HTTPError 404)"
  shows "result (Delete c net a) \<noteq> None"
  using assms unfolding result_def Delete_def by (auto simp: as_detail_def split: sum.split)

text \<open>
  C18. A deletion is not repeatable: once the prefix is gone from NetBox, so that reading it is answered 404, no
  reclamation job releases its allocation. A pass that stops between NetBox's deletion and the ledger's
  record of it leaves the row quarantined for ever.
\<close>

theorem deleted_prefix_is_never_released:
  assumes "undisturbed E" and "reachable st" and "v_inventory E = Some (netbox_inventory c nets now)"
    and "nets OpDelete k 0 (GetPrefix (a_InventoryID (fst job))) = Inl (HTTPError 404)"
    and "reclaim_run E k job st = (st', err)"
    and "mget (Allocations st) i = Some a" and "a_State a \<noteq> Released" and "mget (Allocations st') i = Some a'"
  shows "a_State a' \<noteq> Released"
proof
  assume "a_State a' = Released"
  then obtain iv where "v_inventory E = Some iv" "inv_Delete iv k (fst job) = None"
    using reclaim_run_releases [OF assms(1,2,5-8)] by blast
  then show False using assms(3) Delete_gone [of "nets OpDelete k" "fst job" c] assms(4) by (auto simp: netbox_inventory_calls)
qed

text \<open>The example estate with a NetBox that no longer has the prefix.\<close>

definition ex_nets :: "nb_operation \<Rightarrow> nat \<Rightarrow> net" where
  "ex_nets oper n i r = (if r = ListPrefixes then Inr (Prefixes [ex_prefix 1 ''10.0.0.0/16'']) else ex_netbox i r)"

definition ex_gone :: Env where
  "ex_gone = ex_env5\<lparr>v_inventory := Some (netbox_inventory ex_client ex_nets (\<lambda>n. ex_later))\<rparr>"

lemma ex_undisturbed_gone: "undisturbed ex_gone"
  using ex_undisturbed5 by (simp add: ex_gone_def undisturbed_def quiet_def ledgerReady_def)

theorem deleted_prefix_is_never_released_witness:
  "\<exists>a'. mget (Allocations (fst (reclaim_run ex_gone 0 ex_job ex_planned))) ''alloc_00'' = Some a' \<and> a_State a' \<noteq> Released \<and>
     a_ReleaseBlockers a' = [''post_delete_verification_pending'']"
proof -
  let ?r = "reclaim_run ex_gone 0 ex_job ex_planned"
  have r: "?r = (fst ?r, snd ?r)" by simp
  have a: "(case mget (Allocations ex_planned) ''alloc_00'' of Some a \<Rightarrow> a_State a \<noteq> Released | None \<Rightarrow> False)"
    and a': "(case mget (Allocations (fst ?r)) ''alloc_00'' of Some a' \<Rightarrow> a_ReleaseBlockers a' = [''post_delete_verification_pending'']
        | None \<Rightarrow> False)" by code_simp+
  obtain b b' where b: "mget (Allocations ex_planned) ''alloc_00'' = Some b" "a_State b \<noteq> Released"
      "mget (Allocations (fst ?r)) ''alloc_00'' = Some b'" "a_ReleaseBlockers b' = [''post_delete_verification_pending'']"
    using a a' by (auto split: option.splits)
  have "ex_nets OpDelete 0 0 (GetPrefix (a_InventoryID (fst ex_job))) = Inl (HTTPError 404)"
    by (simp add: ex_nets_def ex_netbox_def)
  moreover have "v_inventory ex_gone = Some (netbox_inventory ex_client ex_nets (\<lambda>n. ex_later))" by (simp add: ex_gone_def)
  ultimately have "a_State b' \<noteq> Released"
    using deleted_prefix_is_never_released [where c = ex_client and nets = ex_nets and now = "\<lambda>n. ex_later",
        OF ex_undisturbed_gone ex_planned_reachable _ _ r b(1-3)] by blast
  then show ?thesis using b(3,4) by blast
qed

end
