(* ===== verification/OnboardApply.thy ===== *)
theory OnboardApply
  imports NetboxImport NetboxSnapshot
begin

text \<open>
  Carrying out an import (\<open>internal/onboardcmd/onboardcmd.go\<close>): which rows a planned write stands for, the
  description and contributors it is written with, and the command that plans again, writes and refreshes.
  Flags, files, JSON output and the AWS objects of the plugin are not modelled.
\<close>

section \<open>Descriptions\<close>

text \<open>\<open>[]rune(s)\<close>, each rune as the bytes that encode it; a byte that is not UTF-8 becomes U+FFFD.\<close>

function runes :: "string \<Rightarrow> string list" where
  "runes s =
     (case s of
        [] \<Rightarrow> []
      | c # cs \<Rightarrow>
          if rune_width s = 0 then [CHR 0xEF, CHR 0xBF, CHR 0xBD] # runes cs
          else take (rune_width s) s # runes (drop (rune_width s) s))"
  by pat_completeness auto
termination
  by (relation "measure length") auto

declare runes.simps [simp del]

definition plural :: "string \<Rightarrow> nat \<Rightarrow> string" where
  "plural noun n = (if n = 1 then noun else noun @ ''s'')"

fun unique_from :: "string list \<Rightarrow> string list \<Rightarrow> string list" where
  "unique_from seen [] = []"
| "unique_from seen (v # vs) = (if v = [] \<or> v \<in> set seen then unique_from seen vs else v # unique_from (v # seen) vs)"

definition uniqueNonEmpty :: "string list \<Rightarrow> string list" where
  "uniqueNonEmpty vs = unique_from [] vs"

definition sourceLabel :: "bool \<Rightarrow> int \<Rightarrow> string \<Rightarrow> string" where
  "sourceLabel multi sourceRow description =
     (if \<not> multi then description else ''source row '' @ itoaID sourceRow @ '': '' @ description)"

definition maxDescriptionRunes :: nat where "maxDescriptionRunes = 200"
definition descriptionFingerprintHexLen :: nat where "descriptionFingerprintHexLen = 8"
definition descriptionFingerprintSuffixRunes :: nat where
  "descriptionFingerprintSuffixRunes = 1 + 1 + descriptionFingerprintHexLen + 1"
definition descriptionTruncationMarker :: string where
  "descriptionTruncationMarker = [CHR 0xE2, CHR 0x80, CHR 0xA6]"

definition descriptionFingerprint :: "Crypto \<Rightarrow> string \<Rightarrow> string" where
  "descriptionFingerprint K body = take descriptionFingerprintHexLen (sha256hex K body)"

definition truncated :: "nat \<Rightarrow> string list \<Rightarrow> string list" where
  "truncated maxBody rs =
     (if length rs > maxBody then
        (if maxBody \<le> 1 then [] else take (maxBody - 1) rs @ [descriptionTruncationMarker])
      else rs)"

definition withDescriptionFingerprint :: "Crypto \<Rightarrow> string \<Rightarrow> nat \<Rightarrow> string" where
  "withDescriptionFingerprint K body limit =
     (let finalBody = concat (truncated (limit - descriptionFingerprintSuffixRunes) (runes body))
      in finalBody @ '' ('' @ descriptionFingerprint K finalBody @ '')'')"

definition mergeNetworkDescription :: "Crypto \<Rightarrow> NetworkRow list \<Rightarrow> string" where
  "mergeNetworkDescription K rows =
     (let names = uniqueNonEmpty (map nr_Name rows); multi = length rows > 1
      in withDescriptionFingerprint K
           (Join ((if names = [] then [] else [Join names ''; '']) @
              map (\<lambda>r. sourceLabel multi (nr_SourceRow r) (nr_Description r)) (filter (\<lambda>r. nr_Description r \<noteq> []) rows)) '' | '')
           maxDescriptionRunes)"

definition mergeRangeDescription :: "RangeRow list \<Rightarrow> string" where
  "mergeRangeDescription rows =
     (let owners = uniqueNonEmpty (map rg_Owner rows); sources = uniqueNonEmpty (map rg_Source rows); multi = length rows > 1
      in Join ((if owners = [] then [] else [plural ''owner'' (length owners) @ '' '' @ Join owners '', '']) @
               (if sources = [] then [] else [plural ''source'' (length sources) @ '' '' @ Join sources '', '']) @
               map (\<lambda>r. sourceLabel multi (rg_SourceRow r) (rg_Description r)) (filter (\<lambda>r. rg_Description r \<noteq> []) rows)) '' | '')"

section \<open>The rows of a write\<close>

definition canonicalPrefix :: "string \<Rightarrow> string" where
  "canonicalPrefix raw =
     (case ParsePrefix raw of
        None \<Rightarrow> []
      | Some p \<Rightarrow> if \<not> Is4 (ip p) \<or> p \<noteq> Masked p then [] else PrefixString p)"

definition networkRowsForCIDR :: "NetworkRow list \<Rightarrow> string \<Rightarrow> NetworkRow list" where
  "networkRowsForCIDR rows cidr =
     sort_key (\<lambda>r. (nr_SourceFile r, nr_SourceRow r, nr_ResourceID r, nr_AccountID r))
       (filter (\<lambda>r. canonicalPrefix (nr_CIDR r) = cidr) rows)"

definition sortRangeRows :: "RangeRow list \<Rightarrow> RangeRow list" where
  "sortRangeRows = sort_key (\<lambda>r. (rg_SourceRow r, rg_Description r, rg_Owner r, rg_Source r))"

definition rangeCIDRRowsForCIDR :: "RangeRow list \<Rightarrow> string \<Rightarrow> RangeRow list" where
  "rangeCIDRRowsForCIDR rows cidr = sortRangeRows (filter (\<lambda>r. rg_CIDR r \<noteq> [] \<and> canonicalPrefix (rg_CIDR r) = cidr) rows)"

definition rangeRowsForSpan :: "RangeRow list \<Rightarrow> string \<Rightarrow> string \<Rightarrow> RangeRow list" where
  "rangeRowsForSpan rows start stop =
     sortRangeRows (filter (\<lambda>r. rg_StartAddress r \<noteq> [] \<and> rg_EndAddress r \<noteq> [] \<and>
       (case (ParseAddr (rg_StartAddress r), ParseAddr (rg_EndAddress r)) of
          (Some s, Some e) \<Rightarrow> AddrString s = start \<and> AddrString e = stop
        | _ \<Rightarrow> False)) rows)"

definition networkContributors :: "golib \<Rightarrow> NetworkRow list \<Rightarrow> string \<Rightarrow> Contributor list" where
  "networkContributors u rows batch = ContributorsForRows u rows batch"

definition networkAWSFields :: "NetworkRow list \<Rightarrow> string \<times> string \<times> string" where
  "networkAWSFields rows =
     (case filter (\<lambda>r. nr_AccountID r \<noteq> []) rows of
        [r] \<Rightarrow> (nr_AccountID r, nr_Region r, nr_ResourceID r)
      | _ \<Rightarrow> ([], [], []))"

definition entryOccupancy ::
    "golib \<Rightarrow> Crypto \<Rightarrow> Table \<Rightarrow> WriteEntry \<Rightarrow> string \<Rightarrow> string \<Rightarrow> Occupancy option" where
  "entryOccupancy u K table entry batch source =
     (let blank = \<lparr>oc_CIDR = [], oc_StartAddress = [], oc_EndAddress = [], oc_Description = [], oc_Batch = batch, oc_Source = source,
            oc_AWSAccountID = [], oc_AWSRegion = [], oc_AWSResourceID = [], oc_Contributors = []\<rparr>
      in case tb_Kind table of
           KindNetworks \<Rightarrow>
             let rows = networkRowsForCIDR (tb_Networks table) (we_CIDR entry); (accountID, region, resourceID) = networkAWSFields rows
             in if rows = [] then None
                else Some (blank\<lparr>oc_CIDR := we_CIDR entry, oc_Description := mergeNetworkDescription K rows,
                       oc_AWSAccountID := accountID, oc_AWSRegion := region, oc_AWSResourceID := resourceID,
                       oc_Contributors := networkContributors u rows batch\<rparr>)
         | KindRanges \<Rightarrow>
             (case we_Kind entry of
                WritePrefix \<Rightarrow>
                  let rows = rangeCIDRRowsForCIDR (tb_Ranges table) (we_CIDR entry)
                  in if rows = [] then None
                     else Some (blank\<lparr>oc_CIDR := we_CIDR entry, oc_Description := mergeRangeDescription rows\<rparr>)
              | WriteRange \<Rightarrow>
                  let rows = rangeRowsForSpan (tb_Ranges table) (we_StartAddress entry) (we_EndAddress entry)
                  in if rows = [] then None
                     else Some (blank\<lparr>oc_StartAddress := we_StartAddress entry, oc_EndAddress := we_EndAddress entry,
                            oc_Description := mergeRangeDescription rows\<rparr>))
         | _ \<Rightarrow> None)"

section \<open>Apply\<close>

text \<open>The calls of the adapter that the commands make; the first argument numbers the calls of a run.\<close>

record ImportPort =
  ip_Snapshot :: "Domain \<Rightarrow> nb_error + InventorySnapshot"
  ip_EnsureOccupancy :: "nat \<Rightarrow> Domain \<Rightarrow> Occupancy \<Rightarrow> nb_error + OccupancyResult"
  ip_RefreshOccupancy :: "nat \<Rightarrow> Domain \<Rightarrow> string \<Rightarrow> string \<Rightarrow> Contributor list \<Rightarrow> nb_error + RefreshResult"
  ip_ReadOccupancy :: "Domain \<Rightarrow> string \<Rightarrow> nb_error + OccupancyDetail"
  ip_DeleteOccupancy :: "Domain \<Rightarrow> string \<Rightarrow> string \<Rightarrow> nb_error + string \<times> string"

datatype ImportOperation = ImpSnapshot | ImpEnsure nat | ImpRefresh nat | ImpRead | ImpDelete

definition netbox_port :: "client \<Rightarrow> (ImportOperation \<Rightarrow> net) \<Rightarrow> ImportPort" where
  "netbox_port c nets =
     \<lparr>ip_Snapshot = (\<lambda>d. result (Snapshot c (nets ImpSnapshot) d)),
      ip_EnsureOccupancy = (\<lambda>n d o'. result (EnsureOccupancy c (nets (ImpEnsure n)) d o')),
      ip_RefreshOccupancy = (\<lambda>n d cidr source want. result (RefreshOccupancy c (nets (ImpRefresh n)) d cidr source want)),
      ip_ReadOccupancy = (\<lambda>d cidr. result (ReadOccupancy c (nets ImpRead) d cidr)),
      ip_DeleteOccupancy = (\<lambda>d cidr i. result (DeleteOccupancy c (nets ImpDelete) d cidr i))\<rparr>"

datatype ExitCode = ExitOK | ExitUsage | ExitValidation | ExitAdapter | Panicked

text \<open>The results in order, and whether the run stopped at an error.\<close>

fun apply_writes ::
    "ImportPort \<Rightarrow> golib \<Rightarrow> Crypto \<Rightarrow> Domain \<Rightarrow> Table \<Rightarrow> string \<Rightarrow> string \<Rightarrow> nat \<Rightarrow> WriteEntry list \<Rightarrow> OccupancyResult list \<times> bool" where
  "apply_writes port u K d table batch source n [] = ([], False)"
| "apply_writes port u K d table batch source n (entry # rest) =
     (case entryOccupancy u K table entry batch source of
        None \<Rightarrow> ([], True)
      | Some occ \<Rightarrow>
          (case ip_EnsureOccupancy port n d occ of
             Inl _ \<Rightarrow> ([], True)
           | Inr res \<Rightarrow> let (rs, failed) = apply_writes port u K d table batch source (Suc n) rest in (res # rs, failed)))"

fun refresh_all ::
    "ImportPort \<Rightarrow> golib \<Rightarrow> Domain \<Rightarrow> Table \<Rightarrow> string \<Rightarrow> string \<Rightarrow> nat \<Rightarrow> PlanFinding list \<Rightarrow> RefreshResult list \<times> bool" where
  "refresh_all port u d table batch source n [] = ([], False)"
| "refresh_all port u d table batch source n (f # rest) =
     (if pf_Rule f \<noteq> ''already-unmanaged'' then refresh_all port u d table batch source n rest
      else case ip_RefreshOccupancy port n d (pf_CIDR f) source
             (networkContributors u (networkRowsForCIDR (tb_Networks table) (pf_CIDR f)) batch) of
             Inl _ \<Rightarrow> ([], True)
           | Inr res \<Rightarrow> let (rs, failed) = refresh_all port u d table batch source (Suc n) rest in (res # rs, failed))"

definition applyRefresh ::
    "ImportPort \<Rightarrow> golib \<Rightarrow> Domain \<Rightarrow> Table \<Rightarrow> PlanReport \<Rightarrow> string \<Rightarrow> string \<Rightarrow> RefreshResult list \<times> bool" where
  "applyRefresh port u d table report batch source =
     (if tb_Kind table \<noteq> KindNetworks then ([], False)
      else refresh_all port u d table batch source 0 (pr_Findings report))"

text \<open>\<open>adapter.plan\<close>: without a configured VRF no snapshot is taken. \<open>None\<close> is a panic of the plan.\<close>

definition adapter_plan :: "ImportPort \<Rightarrow> golib \<Rightarrow> Config \<Rightarrow> Table \<Rightarrow> string \<Rightarrow> nb_error + PlanReport option" where
  "adapter_plan port u cfg table domainID =
     (case findDomain cfg domainID of
        Some d \<Rightarrow>
          if bk_VRFID (d_Backend d) \<noteq> 0 then map_sum id (Plan u table cfg domainID) (ip_Snapshot port d)
          else Inr (Plan u table cfg domainID \<lparr>sn_Networks = [], sn_Complete = False\<rparr>)
      | None \<Rightarrow> Inr (Plan u table cfg domainID \<lparr>sn_Networks = [], sn_Complete = False\<rparr>))"

definition runApply ::
    "ImportPort \<Rightarrow> golib \<Rightarrow> Crypto \<Rightarrow> Config \<Rightarrow> Table \<Rightarrow> string \<Rightarrow> string \<Rightarrow> string \<Rightarrow> bool \<Rightarrow>
     ExitCode \<times> OccupancyResult list \<times> RefreshResult list" where
  "runApply port u K cfg table domainID batch source refresh =
     (if domainID = [] \<or> batch = [] then (ExitUsage, [], [])
      else case adapter_plan port u cfg table domainID of
        Inl _ \<Rightarrow> (ExitAdapter, [], [])
      | Inr None \<Rightarrow> (Panicked, [], [])
      | Inr (Some report) \<Rightarrow>
          if HasErrors report then (ExitValidation, [], [])
          else
            let d = (case findDomain cfg domainID of Some d \<Rightarrow> d | None \<Rightarrow> zero_Domain);
                (rs, failed) = apply_writes port u K d table batch source 0 (pr_Writes report)
            in if failed then (ExitAdapter, rs, [])
               else if \<not> refresh then (ExitOK, rs, [])
               else let (fs, failed') = applyRefresh port u d table report batch source
                    in (if failed' then ExitAdapter else ExitOK, rs, fs))"

end
