(* ===== verification/Removal.thy ===== *)
theory Removal
  imports OnboardApply AssessReport
begin

text \<open>
  Removing imported occupancy (\<open>internal/onboardcmd/remove.go\<close>): the evidence a removal needs, the report of
  the dry run, and the command. The decoders of the evidence files are those of the assessment.
\<close>

section \<open>The report\<close>

text \<open>The refusals by their codes; the messages around them are left out.\<close>

datatype RefusalCode =
    PrefixOwned | NotImported | PoolPrefix | EmptyContributorList | DescriptionEdited | ContributorUnreadable
  | ContributorUnknown | ContributorReconstructed | ContributorStaleSource string | ContributorDegenerateIdentity string
  | CoverageIncomplete string string string | NotObservedAbsent string | NetboxIDMismatch | DeleteFailed nb_error

datatype AbsenceReason = StillPresent string int | NoRow | Undatable | NotOlder string string

record removeContributorEvidence =
  re_Contributor :: Contributor
  re_ObservedAbsent :: bool
  re_Reason :: AbsenceReason

record removeAccountRegionOutcome =
  ro_AccountID :: string
  ro_Region :: string
  ro_Outcome :: string
  ro_Complete :: bool

record removeReport =
  rv_ReportVersion :: int
  rv_Domain :: string
  rv_CIDR :: string
  rv_NetBoxID :: string
  rv_Apply :: bool
  rv_Removable :: bool
  rv_Removed :: bool
  rv_Description :: string
  rv_Contributors :: "removeContributorEvidence list"
  rv_Coverage :: "removeAccountRegionOutcome list"
  rv_Run :: "(string \<times> string \<times> string) option"
  rv_Refusals :: "RefusalCode list"
  rv_Inputs :: "(string \<times> string) list"

section \<open>The description\<close>

definition is_hex :: "char \<Rightarrow> bool" where
  "is_hex c \<longleftrightarrow> c \<in> set ''0123456789abcdef''"

text \<open>\<open>descriptionFingerprintPattern\<close>: the text before the suffix and the digits in it.\<close>

definition fingerprint_suffix :: "string \<Rightarrow> (string \<times> string) option" where
  "fingerprint_suffix s =
     (let n = length s - descriptionFingerprintSuffixRunes; tail = drop n s; digits = take 8 (drop 2 tail)
      in if length s \<ge> descriptionFingerprintSuffixRunes \<and> take 2 tail = '' ('' \<and> list_all is_hex digits \<and> drop 10 tail = '')''
         then Some (take n s, digits) else None)"

definition descriptionFingerprintConsistent :: "Crypto \<Rightarrow> string \<Rightarrow> bool" where
  "descriptionFingerprintConsistent K description =
     (case fingerprint_suffix description of None \<Rightarrow> False | Some (body, got) \<Rightarrow> got = descriptionFingerprint K body)"

definition expectedContributorDescription :: "Contributor list \<Rightarrow> string" where
  "expectedContributorDescription cs =
     (let accounts = uniqueNonEmpty (map ct_AccountID cs); resourceIDs = uniqueNonEmpty (map ct_ResourceID cs)
      in Join ((if accounts = [] then [] else [plural ''account'' (length accounts) @ '' '' @ Join accounts '', '']) @
               (if resourceIDs = [] then [] else [plural ''resource id'' (length resourceIDs) @ '' '' @ Join resourceIDs '', ''])) '' | '')"

definition descriptionMatchesImport :: "Crypto \<Rightarrow> string \<Rightarrow> Contributor list \<Rightarrow> bool" where
  "descriptionMatchesImport K description cs =
     (if fingerprint_suffix description \<noteq> None then descriptionFingerprintConsistent K description
      else let legacy = expectedContributorDescription cs
           in if legacy = [] then True else mentions legacy description)"

section \<open>The evidence\<close>

definition accountRegionCoverage :: "Coverage \<Rightarrow> RunRecord option \<Rightarrow> string \<Rightarrow> string \<Rightarrow> string \<times> bool" where
  "accountRegionCoverage cov run account region =
     (if cv_RunMissing cov then (''run.json missing'', False)
      else if cv_AccountsMissing cov then (''accounts.json missing'', False)
      else case find (\<lambda>f. fe_AccountID f = account \<and> (fe_Region f = region \<or> fe_Region f = [])) (cv_Failed cov) of
        Some f \<Rightarrow> (''failed: '' @ fe_Error f, False)
      | None \<Rightarrow>
          if (account, region) \<in> set (cv_Partial cov) then (''partial'', False)
          else if (account, region) \<in> set (cv_NotAttempted cov) \<or> (account, []) \<in> set (cv_NotAttempted cov) then (''not attempted'', False)
          else case find (\<lambda>r. rc_AccountID r = account \<and> rc_Region r = region) (cv_RowCountShort cov) of
            Some r \<Rightarrow> (''row count short: run.json recorded '' @ itoaID (rc_Recorded r) @ '', '' @ itoaID (rc_Present r) @ '' present'', False)
          | None \<Rightarrow>
              if (case run of None \<Rightarrow> False
                  | Some rn \<Rightarrow> list_ex (\<lambda>a. at_AccountID a = account \<and> at_Region a = region \<and> at_Outcome a = AttemptSucceeded) (rn_Attempts rn))
              then (''succeeded'', True) else (''not listed in the run record'', False))"

definition observedAbsent :: "ResourceRecord list \<Rightarrow> Contributor \<Rightarrow> bool \<times> AbsenceReason" where
  "observedAbsent records ct =
     (case find (\<lambda>r. rr_AccountID r = ct_AccountID ct \<and> rr_Region r = ct_Region ct \<and> rr_ResourceID r = ct_ResourceID ct) records of
        Some r \<Rightarrow> (False, StillPresent (rr_SourceFile r) (rr_SourceRow r))
      | None \<Rightarrow> (True, NoRow))"

text \<open>\<open>None\<close>: the observation is older than the end of the run.\<close>

definition observationStaleAgainstFinish :: "golib \<Rightarrow> string \<Rightarrow> string \<Rightarrow> AbsenceReason option" where
  "observationStaleAgainstFinish u observedAt finishedAt =
     (case (u_ParseRFC3339 u observedAt, u_ParseRFC3339 u finishedAt) of
        (Some obs, Some fin) \<Rightarrow> if obs < fin then None else Some (NotOlder observedAt finishedAt)
      | _ \<Rightarrow> Some Undatable)"

definition contributor_evidence :: "golib \<Rightarrow> ResourceRecord list \<Rightarrow> RunRecord option \<Rightarrow> Contributor \<Rightarrow> removeContributorEvidence" where
  "contributor_evidence u records run ct =
     (let (absent, reason) = observedAbsent records ct;
          stale = (case (ct_ObservedAt ct, run) of
              (Some t, Some rn) \<Rightarrow> if absent then observationStaleAgainstFinish u t (rn_FinishedAt rn) else None
            | _ \<Rightarrow> None)
      in case stale of
           Some r \<Rightarrow> \<lparr>re_Contributor = ct, re_ObservedAbsent = False, re_Reason = r\<rparr>
         | None \<Rightarrow> \<lparr>re_Contributor = ct, re_ObservedAbsent = absent, re_Reason = reason\<rparr>)"

text \<open>One contributor of the second loop: its account and region when they are new, and its own evidence.\<close>

fun contributor_loop ::
    "golib \<Rightarrow> ResourceRecord list \<Rightarrow> RunRecord option \<Rightarrow> Coverage \<Rightarrow> (string \<times> string) list \<Rightarrow> Contributor list \<Rightarrow>
     removeAccountRegionOutcome list \<times> removeContributorEvidence list \<times> RefusalCode list" where
  "contributor_loop u records run cov seen [] = ([], [], [])"
| "contributor_loop u records run cov seen (ct # cts) =
     (let ar = (ct_AccountID ct, ct_Region ct); (outcome, complete) = accountRegionCoverage cov run (fst ar) (snd ar);
          new = (ar \<notin> set seen); ev = contributor_evidence u records run ct;
          (covs, evs, refusals) = contributor_loop u records run cov (ar # seen) cts
      in ((if new then [\<lparr>ro_AccountID = fst ar, ro_Region = snd ar, ro_Outcome = outcome, ro_Complete = complete\<rparr>] else []) @ covs,
          ev # evs,
          (if new \<and> \<not> complete then [CoverageIncomplete (fst ar) (snd ar) outcome] else []) @
          (if re_ObservedAbsent ev then [] else [NotObservedAbsent (ct_Identity ct)]) @ refusals))"

text \<open>The insertion sort of the outcomes by account and region, written out.\<close>

definition outcome_before :: "removeAccountRegionOutcome \<Rightarrow> removeAccountRegionOutcome \<Rightarrow> bool" where
  "outcome_before a b \<longleftrightarrow> ro_AccountID a < ro_AccountID b \<or> ro_AccountID a = ro_AccountID b \<and> ro_Region a \<le> ro_Region b"

text \<open>One element moves to the left as long as the one before it is not in order; the prefix is held reversed.\<close>

fun insert_outcome :: "removeAccountRegionOutcome \<Rightarrow> removeAccountRegionOutcome list \<Rightarrow> removeAccountRegionOutcome list" where
  "insert_outcome b [] = [b]"
| "insert_outcome b (a # past) = (if outcome_before a b then b # a # past else a # insert_outcome b past)"

definition sortAccountRegionOutcomes :: "removeAccountRegionOutcome list \<Rightarrow> removeAccountRegionOutcome list" where
  "sortAccountRegionOutcomes xs = rev (fold insert_outcome xs [])"

section \<open>The decision\<close>

definition contributor_refusals :: "Contributor \<Rightarrow> RefusalCode list" where
  "contributor_refusals ct =
     (if ct_ObservedAt ct = None then [ContributorStaleSource (ct_Identity ct)] else []) @
     (if ct_ResourceID ct = [] then [ContributorDegenerateIdentity (ct_Identity ct)] else [])"

definition outright_refusals :: "Crypto \<Rightarrow> OccupancyDetail \<Rightarrow> RefusalCode list" where
  "outright_refusals K detail =
     (if od_Owned detail then [PrefixOwned] else []) @
     (if \<not> od_Imported detail then [NotImported] else []) @
     (if od_PoolConflict detail \<noteq> None then [PoolPrefix] else []) @
     (case od_Contributors detail of
        None \<Rightarrow> []
      | Some cs \<Rightarrow>
          if cs = [] then [EmptyContributorList]
          else if \<not> descriptionMatchesImport K (od_Description detail) cs then [DescriptionEdited] else []) @
     (if od_Unreadable detail then [ContributorUnreadable] else []) @
     (if od_Contributors detail = None \<and> \<not> od_Unreadable detail then [ContributorUnknown] else []) @
     (if od_Reconstructed detail then [ContributorReconstructed] else [])"

definition buildRemoveReport ::
    "golib \<Rightarrow> Crypto \<Rightarrow> string \<Rightarrow> OccupancyDetail \<Rightarrow> ResourceRecord list \<Rightarrow> RunRecord option \<Rightarrow> Report \<Rightarrow> bool \<Rightarrow> string \<Rightarrow> removeReport" where
  "buildRemoveReport u K domainID detail records run assessReport apply' wantID =
     (let cs = (case od_Contributors detail of None \<Rightarrow> [] | Some cs \<Rightarrow> cs);
          (covs, evs, refusals) = contributor_loop u records run (rp_Coverage assessReport) [] cs;
          allRefusals = outright_refusals K detail @ concat (map contributor_refusals cs) @ refusals @
            (if apply' \<and> wantID \<noteq> od_ID detail then [NetboxIDMismatch] else [])
      in \<lparr>rv_ReportVersion = 1, rv_Domain = domainID, rv_CIDR = od_CIDR detail, rv_NetBoxID = od_ID detail, rv_Apply = apply',
          rv_Removable = (allRefusals = []), rv_Removed = False, rv_Description = od_Description detail, rv_Contributors = evs,
          rv_Coverage = sortAccountRegionOutcomes covs,
          rv_Run = map_option (\<lambda>r. (rn_StartedAt r, rn_FinishedAt r, rn_SourceFile r)) run,
          rv_Refusals = allRefusals, rv_Inputs = rp_Inputs assessReport\<rparr>)"

definition removeExit :: "nb_error \<Rightarrow> ExitCode" where
  "removeExit e =
     (case e of
        Unanswered _ _ \<Rightarrow> ExitAdapter
      | Answered kind _ \<Rightarrow> if kind = ErrRemovalUncertain then ExitAdapter else ExitValidation
      | Decision kind \<Rightarrow> if kind = ErrRemovalUncertain then ExitAdapter else ExitValidation
      | Cause (NoAnswer (InventoryUncertain _)) \<Rightarrow> ExitAdapter
      | Cause _ \<Rightarrow> ExitValidation)"

section \<open>The command\<close>

text \<open>From the assessed evidence on; no report when the domain or the prefix cannot be read.\<close>

definition runRemove ::
    "ImportPort \<Rightarrow> golib \<Rightarrow> Crypto \<Rightarrow> Config \<Rightarrow> string \<Rightarrow> string \<Rightarrow> ResourceRecord list \<Rightarrow> RunRecord option \<Rightarrow> Report \<Rightarrow>
     bool \<Rightarrow> string \<Rightarrow> ExitCode \<times> removeReport option" where
  "runRemove port u K cfg domainID cidr records run assessReport apply' wantID =
     (if domainID = [] \<or> apply' \<and> TrimSpace wantID = [] then (ExitUsage, None)
      else case findDomain cfg domainID of
        None \<Rightarrow> (ExitValidation, None)
      | Some d \<Rightarrow>
          (case ip_ReadOccupancy port d cidr of
             Inl _ \<Rightarrow> (ExitAdapter, None)
           | Inr detail \<Rightarrow>
               let report = buildRemoveReport u K domainID detail records run assessReport apply' wantID
               in if apply' \<and> rv_Removable report then
                    (case ip_DeleteOccupancy port d cidr (od_ID detail) of
                       Inl e \<Rightarrow> (removeExit e, Some (report\<lparr>rv_Refusals := rv_Refusals report @ [DeleteFailed e], rv_Removable := False\<rparr>))
                     | Inr (i, _) \<Rightarrow> (ExitOK, Some (report\<lparr>rv_Removed := True, rv_NetBoxID := i\<rparr>)))
                  else (if rv_Removable report then ExitOK else ExitValidation, Some report)))"

end
