(* ===== verification/NetboxWrites.thy ===== *)
theory NetboxWrites
  imports NetboxTrace
begin

text \<open>
  Why the operations of the inventory adapter may write: the justification of each, in terms of the object
  it read before, and the proof that each operation keeps the contract of a write that follows its read.
\<close>

lemmas run_splits = sum.splits option.splits list.splits if_splits prod.splits

section \<open>Justifications\<close>

definition deletes_own_reservation ::
    "nblib \<Rightarrow> Allocation \<Rightarrow> string \<Rightarrow> nb_request \<Rightarrow> string \<Rightarrow> nbprefix \<Rightarrow> string \<Rightarrow> bool" where
  "deletes_own_reservation L a op w i x etag \<longleftrightarrow>
     w = DeletePrefix i etag \<and> px_string L x allocationIDCF = a_ID a \<and> px_string L x operationIDCF = op \<and> \<not> imported x"

definition clears_own_adoption ::
    "nblib \<Rightarrow> Allocation \<Rightarrow> string \<Rightarrow> PriorInventory \<Rightarrow> nb_request \<Rightarrow> string \<Rightarrow> nbprefix \<Rightarrow> string \<Rightarrow> bool" where
  "clears_own_adoption L a op prior w i x etag \<longleftrightarrow>
     w = PatchPrefix i (patch_payload (Some (abandonStatus (pi_Status prior))) (cleared_fields L a op prior)) etag \<and>
     px_string L x allocationIDCF = a_ID a \<and> px_string L x operationIDCF = op"

definition claims_import ::
    "client \<Rightarrow> Allocation \<Rightarrow> string \<Rightarrow> nb_request \<Rightarrow> string \<Rightarrow> nbprefix \<Rightarrow> string \<Rightarrow> bool" where
  "claims_import c a op w i x etag \<longleftrightarrow>
     w = PatchPrefix i (patch_payload (Some ''reserved'') (keep_unowned (fields_of x) (ownedFields (nc_L c) a op))) etag \<and>
     \<not> owned (nc_L c) x \<and> imported x \<and>
     (\<exists>d p cidr. allocationDomain c a = Inr (d, p) \<and> adoptCIDR (a_CIDR a) p = Inr cidr \<and> at_cidr cidr (poolVRF d p) x)"

definition removes_import ::
    "client \<Rightarrow> Domain \<Rightarrow> string \<Rightarrow> string \<Rightarrow> nb_request \<Rightarrow> string \<Rightarrow> nbprefix \<Rightarrow> string \<Rightarrow> bool" where
  "removes_import c d s netboxID w i x etag \<longleftrightarrow>
     w = DeletePrefix netboxID etag \<and> i = netboxID \<and> refuse_removal (nc_L c) x = None \<and>
     (\<exists>cfg pools cidr. occupancyDomain c d = Inr (cfg, pools) \<and> occupancyPrefix s = Inr cidr \<and>
        refusePoolPrefix cidr pools = None \<and> at_cidr cidr (bk_VRFID (d_Backend cfg)) x)"

definition adds_contributors ::
    "client \<Rightarrow> Domain \<Rightarrow> string \<Rightarrow> string \<Rightarrow> Contributor list \<Rightarrow> nb_request \<Rightarrow> string \<Rightarrow> nbprefix \<Rightarrow> string \<Rightarrow> bool" where
  "adds_contributors c d s source want w i x etag \<longleftrightarrow>
     \<not> owned (nc_L c) x \<and> imported x \<and>
     (\<exists>cfg pools cidr. occupancyDomain c d = Inr (cfg, pools) \<and> occupancyPrefix s = Inr cidr \<and>
        at_cidr cidr (bk_VRFID (d_Backend cfg)) x) \<and>
     (\<exists>es merged. contributorsCF (nc_L c) (fields_of x) ImportContributorsField = (es, False) \<and>
        mergeContributors es want = Some merged \<and>
        w = PatchPrefix i (patch_payload None (refresh_fields (nc_L c) source merged (es = None))) etag)"

definition projects_own ::
    "client \<Rightarrow> Allocation \<Rightarrow> nb_request \<Rightarrow> string \<Rightarrow> nbprefix \<Rightarrow> string \<Rightarrow> bool" where
  "projects_own c a w i x etag \<longleftrightarrow>
     i = a_InventoryID a \<and> (\<exists>d p. allocationDomain c a = Inr (d, p) \<and> holds_allocation (nc_L c) d p a x) \<and>
     (\<exists>cfs. w = PatchPrefix i (patch_payload (Some (if a_State a = Active then ''active'' else ''reserved''))
          (keep_unowned (fields_of x) cfs)) [] \<and>
        (\<forall>k. k \<noteq> observedStamp \<longrightarrow> mget cfs k = mget (sync_fields (nc_L c) a (px_string (nc_L c) x operationIDCF)) k))"

definition deletes_own ::
    "client \<Rightarrow> Allocation \<Rightarrow> nb_request \<Rightarrow> string \<Rightarrow> nbprefix \<Rightarrow> string \<Rightarrow> bool" where
  "deletes_own c a w i x etag \<longleftrightarrow>
     w = DeletePrefix (a_InventoryID a) [] \<and> i = a_InventoryID a \<and>
     (\<exists>d p. allocationDomain c a = Inr (d, p) \<and> holds_allocation (nc_L c) d p a x)"

section \<open>The operations keep the contract\<close>

interpretation cancel: read_then_write net "sent (Client_CancelReservation c net a op)" "deletes_own_reservation (nc_L c) a op"
  for c net a op
  unfolding read_then_write_def sent_def Client_CancelReservation_def claimed_prefix_def delete_and_confirm_def
  by (simp add: Let_def deletingOurOwnReservation_def deletes_own_reservation_def split: run_splits)
    (auto intro: was_read_at)

interpretation abandon: read_then_write net "sent (Client_AbandonAdoption c net a op prior)" "clears_own_adoption (nc_L c) a op prior"
  for c net a op prior
  unfolding read_then_write_def sent_def Client_AbandonAdoption_def claimed_prefix_def abandon_clear_def
  by (simp add: Let_def clearingOurOwnOperation_def clears_own_adoption_def split: run_splits)
    (auto intro: was_read_at)

interpretation adopt: read_then_write net "sent (Client_Adopt c net a op)" "claims_import c a op"
  for c net a op
  unfolding read_then_write_def sent_def Client_Adopt_def adopt_current_def adopt_write_def adopt_read_back_def
  by (simp add: Let_def at_cidr_def claims_import_def split: run_splits) (auto intro: was_read_at)

interpretation remove: read_then_write net "sent (DeleteOccupancy c net d s netboxID)" "removes_import c d s netboxID"
  for c net d s netboxID
  unfolding read_then_write_def sent_def DeleteOccupancy_def sole_prefix_def current_prefix_def delete_and_confirm_def
  by (simp add: Let_def at_cidr_def removes_import_def split: run_splits) (auto intro: was_read_at)

lemma adds_contributorsI:
  assumes "\<not> owned (nc_L c) x" and "imported x" and "occupancyDomain c d = Inr (cfg, pools)" and "occupancyPrefix s = Inr cidr"
    and "at_cidr cidr (bk_VRFID (d_Backend cfg)) x" and "mergeContributors es want = Some merged"
    and "contributorsCF (nc_L c) (fields_of x) ImportContributorsField = (es, False)" and "was_read net u i x etag"
    and "reconstruct = (es = None)"
  shows "\<exists>i' x' etag'. was_read net u i' x' etag' \<and> adds_contributors c d s source want
    (PatchPrefix i (patch_payload None (refresh_fields (nc_L c) source merged reconstruct)) etag) i' x' etag'"
  using assms unfolding adds_contributors_def by blast

interpretation refresh: read_then_write net "sent (RefreshOccupancy c net d s source want)" "adds_contributors c d s source want"
  for c net d s source want
  unfolding read_then_write_def sent_def RefreshOccupancy_def sole_prefix_def current_prefix_def refresh_current_def
    refresh_write_def
  by (simp add: Let_def split: run_splits) (auto simp: at_cidr_def intro!: adds_contributorsI was_read_at)

interpretation delete: read_then_write net "sent (Delete c net a)" "deletes_own c a"
  for c net a
  unfolding read_then_write_def sent_def Delete_def delete_confirm_def
  by (simp add: Let_def deletes_own_def split: run_splits) (auto intro: was_read_at)

lemma projects_ownI:
  assumes "allocationDomain c a = Inr (d, p)" "holds_allocation (nc_L c) d p a x" "was_read net u (a_InventoryID a) x etag"
    and "status = (if a_State a = Active then ''active'' else ''reserved'')"
    and "\<forall>k. k \<noteq> observedStamp \<longrightarrow> mget cfs k = mget (sync_fields (nc_L c) a (px_string (nc_L c) x operationIDCF)) k"
  shows "\<exists>i' x' etag'. was_read net u i' x' etag' \<and> projects_own c a
    (PatchPrefix (a_InventoryID a) (patch_payload (Some status) (keep_unowned (fields_of x) cfs)) []) i' x' etag'"
  using assms unfolding projects_own_def by blast

interpretation sync: read_then_write net "sent (Sync c net now a)" "projects_own c a"
  for c net now a
  unfolding read_then_write_def sent_def Sync_def sync_patch_def Let_def
  by (simp split: run_splits) (auto intro!: projects_ownI was_read_at)

section \<open>Fields of a payload\<close>

lemma mget_append: "mget (m @ m') k = (case mget m k of None \<Rightarrow> mget m' k | Some v \<Rightarrow> Some v)"
  by (simp add: mget_def map_add_Some_iff map_add_def split: option.split)

lemma mget_filter: "mget (filter (\<lambda>(k, v). P k) m) k = (if P k then mget m k else None)"
  by (induction m) (auto simp: mget_def)

lemma mget_None_iff: "mget m k = None \<longleftrightarrow> k \<notin> fst ` set m"
  by (simp add: mget_def map_of_eq_None_iff)

lemma mget_keep_unowned:
  "mget (keep_unowned current cfs) k = (if k \<in> fst ` set cfs then mget cfs k else mget current k)"
  using mget_filter [of "\<lambda>k. k \<notin> fst ` set cfs" current k] mget_None_iff [of cfs k]
  by (auto simp: keep_unowned_def mget_append split: option.split)

section \<open>Imports into free space\<close>

lemma run_rangesIn [simp]:
  "run_state (rangesIn net v) t =
     (map_sum id (filter (\<lambda>x. intID (ir_VRF x) = v)) (as_ranges (net (length t) (ListRanges (Some v)))), t @ [ListRanges (Some v)])"
  by (simp add: rangesIn_def)

text \<open>An import marks what it creates and gives it no field of ownership.\<close>

definition unowned_import :: "int \<Rightarrow> nb_payload \<Rightarrow> bool" where
  "unowned_import vrfID payload \<longleftrightarrow>
     np_VRF payload = Some vrfID \<and> np_Tags payload = Some [ImportedTag] \<and> list_all (\<lambda>k. mget (np_Fields payload) k = None) ownershipFields"

text \<open>The space was listed before and held neither the prefix nor a range that overlaps the wanted one.\<close>

definition records_free_space :: "client \<Rightarrow> net \<Rightarrow> Domain \<Rightarrow> Occupancy \<Rightarrow> nb_request list \<Rightarrow> nb_request \<Rightarrow> bool" where
  "records_free_space c net d o' u w \<longleftrightarrow>
     (\<exists>cfg pools payload. occupancyDomain c d = Inr (cfg, pools) \<and> unowned_import (bk_VRFID (d_Backend cfg)) payload \<and>
        ((\<exists>cidr xs. w = PostPrefix payload \<and> np_Prefix payload = Some (PrefixString cidr) \<and> occupancyPrefix (oc_CIDR o') = Inr cidr \<and>
            refusePoolPrefix cidr pools = None \<and> was_listed net u (ListPrefixesAt (PrefixString cidr)) xs \<and>
            list_all (\<lambda>x. \<not> at_cidr cidr (bk_VRFID (d_Backend cfg)) x) xs) \<or>
         (\<exists>a b m rs. w = PostRange payload \<and> np_Range payload = Some (AddrString a, AddrString b) \<and> Compare a b \<le> 0 \<and>
            occupancyAddr (oc_StartAddress o') = Inr a \<and> occupancyAddr (oc_EndAddress o') = Inr b \<and>
            refusePoolSpan a b pools = None \<and> m < length u \<and> net m (u ! m) = Inr (IPRanges rs) \<and>
            matchOccupancyRange (nc_L c) (filter (\<lambda>x. intID (ir_VRF x) = bk_VRFID (d_Backend cfg)) rs) a b = None)))"

lemma refuseManagedFields_None:
  "refuseManagedFields cfs = None \<longleftrightarrow> list_all (\<lambda>k. mget cfs k = None) ownershipFields"
  by (auto simp: refuseManagedFields_def list_ex_iff list_all_iff)

lemma records_prefixI:
  assumes "occupancyDomain c d = Inr (cfg, pools)" "occupancyPrefix (oc_CIDR o') = Inr cidr" "refusePoolPrefix cidr pools = None"
    and "exact_prefixes cidr (bk_VRFID (d_Backend cfg)) (net 0 (ListPrefixesAt (PrefixString cidr))) = Inr []"
    and "refuseManagedFields cfs = None"
  shows "records_free_space c net d o' [ListPrefixesAt (PrefixString cidr)]
    (PostPrefix (import_payload (bk_VRFID (d_Backend cfg)) o' cfs\<lparr>np_Prefix := Some (PrefixString cidr)\<rparr>))"
proof -
  obtain xs where xs: "net 0 (ListPrefixesAt (PrefixString cidr)) = Inr (Prefixes xs)" "list_all (\<lambda>x. \<not> at_cidr cidr (bk_VRFID (d_Backend cfg)) x) xs"
    using assms(4) by (auto simp: exact_prefixes_def filter_empty_conv list_all_iff split: sum.splits if_splits)
  show ?thesis
    unfolding records_free_space_def
    using assms xs was_listed_at(1) [of net "ListPrefixesAt (PrefixString cidr)" xs "[]"]
    by (intro exI conjI disjI1) (auto simp: unowned_import_def import_payload_def refuseManagedFields_None)
qed

lemma records_rangeI:
  assumes "occupancyDomain c d = Inr (cfg, pools)" "occupancyAddr (oc_StartAddress o') = Inr a" "occupancyAddr (oc_EndAddress o') = Inr b"
    and "\<not> 0 < Compare a b" "refusePoolSpan a b pools = None" 
    and "net 0 (ListRanges (Some (bk_VRFID (d_Backend cfg)))) = Inr (IPRanges rs)"
    and "matchOccupancyRange (nc_L c) (filter (\<lambda>x. intID (ir_VRF x) = bk_VRFID (d_Backend cfg)) rs) a b = None"
    and "refuseManagedFields cfs = None"
  shows "records_free_space c net d o' [ListRanges (Some (bk_VRFID (d_Backend cfg)))]
    (PostRange (import_payload (bk_VRFID (d_Backend cfg)) o' cfs\<lparr>np_Range := Some (AddrString a, AddrString b)\<rparr>))"
  unfolding records_free_space_def
  using assms
  by (intro exI conjI disjI2) (auto simp: unowned_import_def import_payload_def refuseManagedFields_None)

lemma as_ranges_Inr [simp]: "as_ranges r = Inr xs \<longleftrightarrow> r = Inr (IPRanges xs)"
  by (auto simp: as_ranges_def split: sum.splits nb_body.splits)

lemma recover_unwritten:
  "snd (run_state (recoverOccupancyPrefix c net cidr v e) t) = t @ [ListPrefixesAt (PrefixString cidr)]"
  "snd (run_state (recoverOccupancyRange c net v a b e) t) = t @ [ListRanges (Some v)]"
  by (simp_all add: recoverOccupancyPrefix_def recoverOccupancyRange_def)

lemma import_prefix_free:
  assumes "occupancyDomain c d = Inr (cfg, pools)"
  shows "justified (\<lambda>u w. unwritten u \<and> records_free_space c net d o' u w) []
    (snd (run_state (ensureOccupancyPrefix c net (bk_VRFID (d_Backend cfg)) pools o') []))"
  unfolding ensureOccupancyPrefix_def create_prefix_def Let_def
  by (simp add: recover_unwritten split: sum.split option.split list.split) (auto intro!: records_prefixI assms)

lemma import_range_free:
  assumes "occupancyDomain c d = Inr (cfg, pools)"
  shows "justified (\<lambda>u w. unwritten u \<and> records_free_space c net d o' u w) []
    (snd (run_state (ensureOccupancyRange c net (bk_VRFID (d_Backend cfg)) pools o') []))"
  unfolding ensureOccupancyRange_def create_range_def Let_def
  by (simp add: recover_unwritten split: sum.split option.split list.split) (auto simp: map_sum_Inr intro!: records_rangeI assms)

end
