(* ===== verification/NetboxMerge.thy ===== *)
theory NetboxMerge
  imports NetboxImport
begin

text \<open>
  Merging contributor lists (\<open>mergeContributors\<close> of \<open>internal/netbox/refresh.go\<close>): the map by identity, what
  one wanted entry does to it, and what the merged list keeps.
\<close>

abbreviation ids :: "Contributor list \<Rightarrow> string set" where
  "ids cs \<equiv> ct_Identity ` set cs"

text \<open>An entry is kept when only its last batch and its observation time may differ, and a time is not erased.\<close>

definition keeps :: "Contributor \<Rightarrow> Contributor \<Rightarrow> bool" where
  "keeps prior e \<longleftrightarrow>
     e\<lparr>ct_ObservedAt := ct_ObservedAt prior, ct_LastSeenBatch := ct_LastSeenBatch prior\<rparr> = prior \<and>
     (ct_ObservedAt prior \<noteq> None \<longrightarrow> ct_ObservedAt e \<noteq> None)"

lemma keeps_refl [simp]: "keeps e e"
  by (simp add: keeps_def)

lemma keeps_trans: "keeps a b \<Longrightarrow> keeps b e \<Longrightarrow> keeps a e"
  by (cases a; cases b; cases e) (auto simp: keeps_def)

lemma keeps_Identity: "keeps a b \<Longrightarrow> ct_Identity b = ct_Identity a"
  by (cases a; cases b) (auto simp: keeps_def)

section \<open>The map by identity\<close>

definition by_identity :: "Contributor gomap \<Rightarrow> bool" where
  "by_identity m \<longleftrightarrow> mok m \<and> (\<forall>k v. mget m k = Some v \<longrightarrow> ct_Identity v = k)"

lemma by_identity_Nil [simp]: "by_identity []"
  by (simp add: by_identity_def)

lemma by_identity_mput: "by_identity m \<Longrightarrow> ct_Identity v = k \<Longrightarrow> by_identity (mput k v m)"
  by (auto simp: by_identity_def)

lemma fold_mput_by_identity: "by_identity m \<Longrightarrow> by_identity (fold (\<lambda>ct. mput (ct_Identity ct) ct) es m)"
  by (induction es arbitrary: m) (simp_all add: by_identity_mput)

lemma fold_mput_dom:
  "dom (mget (fold (\<lambda>ct. mput (ct_Identity ct) ct) es m)) = dom (mget m) \<union> ids es"
  by (induction es arbitrary: m) auto

lemma fold_mput_other:
  "k \<notin> ids es \<Longrightarrow> mget (fold (\<lambda>ct. mput (ct_Identity ct) ct) es m) k = mget m k"
  by (induction es arbitrary: m) auto

lemma fold_mput_mem:
  "distinct (map ct_Identity es) \<Longrightarrow> e \<in> set es \<Longrightarrow>
     mget (fold (\<lambda>ct. mput (ct_Identity ct) ct) es m) (ct_Identity e) = Some e" for es :: "Contributor list"
proof (induction es arbitrary: m)
  case (Cons a es)
  then show ?case using fold_mput_other [of "ct_Identity a" es "mput (ct_Identity a) a m"] by (cases "e = a") auto
qed simp

lemma merge_want_step:
  assumes "merge_want w (m, g) = (m', g')" and "by_identity m"
  shows "by_identity m'" "dom (mget m') = insert (ct_Identity w) (dom (mget m))"
    "g' \<longleftrightarrow> g \<or> ct_Identity w \<notin> dom (mget m)" "mget m k = Some e \<Longrightarrow> \<exists>e'. mget m' k = Some e' \<and> keeps e e'"
proof -
  define p' where "p' p = p\<lparr>ct_ObservedAt := (if ct_ObservedAt w \<noteq> None then ct_ObservedAt w else ct_ObservedAt p),
      ct_LastSeenBatch := ct_LastSeenBatch w\<rparr>" for p :: Contributor
  consider "mget m (ct_Identity w) = None" "m' = mput (ct_Identity w) w m" "g'"
    | p where "mget m (ct_Identity w) = Some p" "m' = mput (ct_Identity w) (p' p) m" "g' = g"
    using assms(1) by (auto simp: merge_want_def p'_def split: option.splits)
  note cases = this
  have kp: "keeps p (p' p)" for p by (cases p) (auto simp: keeps_def p'_def)
  from cases show "by_identity m'"
    using assms(2) keeps_Identity [OF kp] by cases (auto intro!: by_identity_mput simp: by_identity_def)
  from cases show "dom (mget m') = insert (ct_Identity w) (dom (mget m))" by cases simp_all
  from cases show "g' \<longleftrightarrow> g \<or> ct_Identity w \<notin> dom (mget m)" by cases auto
  from cases show "mget m k = Some e \<Longrightarrow> \<exists>e'. mget m' k = Some e' \<and> keeps e e'" using kp by cases auto
qed

lemma merge_wants:
  assumes "fold merge_want ws (m, g) = (m', g')" and "by_identity m"
  shows "by_identity m' \<and> dom (mget m') = dom (mget m) \<union> ids ws \<and> (g' \<longleftrightarrow> g \<or> \<not> ids ws \<subseteq> dom (mget m)) \<and>
    (\<forall>k e. mget m k = Some e \<longrightarrow> (\<exists>e'. mget m' k = Some e' \<and> keeps e e'))"
  using assms
proof (induction ws arbitrary: m g)
  case (Cons w ws)
  obtain m1 g1 where 1: "merge_want w (m, g) = (m1, g1)" by fastforce
  note s = merge_want_step [OF 1 Cons.prems(2)]
  have "by_identity m' \<and> dom (mget m') = dom (mget m1) \<union> ids ws \<and> (g' \<longleftrightarrow> g1 \<or> \<not> ids ws \<subseteq> dom (mget m1)) \<and>
    (\<forall>k e. mget m1 k = Some e \<longrightarrow> (\<exists>e'. mget m' k = Some e' \<and> keeps e e'))"
    using Cons.IH [OF _ s(1)] Cons.prems(1) 1 by simp
  moreover have "(g1 \<or> \<not> ids ws \<subseteq> dom (mget m1)) \<longleftrightarrow> g \<or> \<not> ids (w # ws) \<subseteq> dom (mget m)" using s(2,3) by auto
  moreover have "\<exists>e'. mget m' k = Some e' \<and> keeps e e'" if "mget m k = Some e" for k e
    using s(4) [OF that] calculation(1) keeps_trans by meson
  ultimately show ?case using s(2) by simp
qed auto

section \<open>The merged list\<close>

lemma mergeContributors_cases:
  assumes "es = (case existing of None \<Rightarrow> [] | Some cs \<Rightarrow> cs)"
  obtains m where "by_identity m" "dom (mget m) = ids es \<union> ids want"
    "mergeContributors existing want =
       (if existing \<noteq> None \<and> ids want \<subseteq> ids es then None else Some (sort_key contributor_key (mvals m)))"
    "distinct (map ct_Identity es) \<longrightarrow> (\<forall>e \<in> set es. \<exists>e'. mget m (ct_Identity e) = Some e' \<and> keeps e e')"
proof -
  let ?m0 = "fold (\<lambda>ct. mput (ct_Identity ct) ct) es []"
  obtain m g where f: "fold merge_want want (?m0, False) = (m, g)" by fastforce
  have "dom (mget ?m0) = ids es" using fold_mput_dom [of es "[]"] by (simp add: dom_def)
  then have w: "by_identity m" "dom (mget m) = ids es \<union> ids want" "g \<longleftrightarrow> \<not> ids want \<subseteq> ids es"
      "\<forall>k e. mget ?m0 k = Some e \<longrightarrow> (\<exists>e'. mget m k = Some e' \<and> keeps e e')"
    using merge_wants [OF f fold_mput_by_identity] by simp_all
  have "mergeContributors existing want =
      (if existing \<noteq> None \<and> ids want \<subseteq> ids es then None else Some (sort_key contributor_key (mvals m)))"
    using f w(3) by (simp add: mergeContributors_def assms)
  moreover have "\<forall>e \<in> set es. \<exists>e'. mget m (ct_Identity e) = Some e' \<and> keeps e e'" if "distinct (map ct_Identity es)"
    using w(4) fold_mput_mem [OF that, of _ "[]"] by blast
  ultimately show thesis using that w(1,2) by blast
qed

lemma by_identity_vals:
  assumes "by_identity m"
  shows "ids (mvals m) = dom (mget m)" "distinct (map ct_Identity (mvals m))"
proof -
  have keys: "map ct_Identity (mvals m) = map fst m"
    using assms by (auto simp: by_identity_def mvals_def mrows_mget [symmetric])
  then show "distinct (map ct_Identity (mvals m))" using assms by (simp add: by_identity_def mok_def)
  have "ids (mvals m) = set (map fst m)" unfolding keys [symmetric] by simp
  then show "ids (mvals m) = dom (mget m)" by (simp add: mget_def [abs_def] dom_map_of_conv_image_fst)
qed

text \<open>A merge that writes has every identity of both lists once, in table order, and keeps what a distinct list held.\<close>

lemma mergeContributors_Some:
  assumes "mergeContributors existing want = Some merged" and "es = (case existing of None \<Rightarrow> [] | Some cs \<Rightarrow> cs)"
  shows "ids merged = ids es \<union> ids want" "distinct (map ct_Identity merged)" "sorted (map contributor_key merged)"
    "existing = None \<or> \<not> ids want \<subseteq> ids es"
    "distinct (map ct_Identity es) \<Longrightarrow> e \<in> set es \<Longrightarrow> \<exists>e' \<in> set merged. keeps e e'"
proof -
  obtain m where m: "by_identity m" "dom (mget m) = ids es \<union> ids want"
    "mergeContributors existing want =
       (if existing \<noteq> None \<and> ids want \<subseteq> ids es then None else Some (sort_key contributor_key (mvals m)))"
    "distinct (map ct_Identity es) \<longrightarrow> (\<forall>e \<in> set es. \<exists>e'. mget m (ct_Identity e) = Some e' \<and> keeps e e')"
    using mergeContributors_cases [OF assms(2), of want] .
  have mg: "merged = sort_key contributor_key (mvals m)" "existing = None \<or> \<not> ids want \<subseteq> ids es"
    using assms(1) m(3) by (auto split: if_splits)
  show "existing = None \<or> \<not> ids want \<subseteq> ids es" by (rule mg(2))
  show "ids merged = ids es \<union> ids want" using by_identity_vals(1) [OF m(1)] m(2) mg(1) by simp
  show "distinct (map ct_Identity merged)"
    using by_identity_vals(2) [OF m(1)] mg(1) by (simp add: distinct_map)
  show "sorted (map contributor_key merged)" using mg(1) by simp
  show "distinct (map ct_Identity es) \<Longrightarrow> e \<in> set es \<Longrightarrow> \<exists>e' \<in> set merged. keeps e e'"
    using m(4) mg(1) mget_mvals [of m] by fastforce
qed

text \<open>Merging the same entries again writes nothing.\<close>

lemma mergeContributors_again: "mergeContributors existing want = Some merged \<Longrightarrow> mergeContributors (Some merged) want = None"
  using mergeContributors_cases [of merged "Some merged" want] mergeContributors_Some(1) [of existing want merged]
  by (metis option.distinct(1) option.simps(5) sup_ge2)

text \<open>A stored list that repeats an identity loses entries when the list grows.\<close>

lemma duplicate_identity_dropped:
  "mergeContributors
     (Some [\<lparr>ct_Identity = ''i'', ct_AccountID = ''1'', ct_Region = [], ct_Type = [], ct_ResourceID = [], ct_ParentID = [],
         ct_AssociationID = None, ct_ObservedAt = None, ct_FirstSeenBatch = ''b'', ct_LastSeenBatch = ''b'', ct_SourceFile = ''f'', ct_SourceRow = 2\<rparr>,
       \<lparr>ct_Identity = ''i'', ct_AccountID = ''2'', ct_Region = [], ct_Type = [], ct_ResourceID = [], ct_ParentID = [],
         ct_AssociationID = None, ct_ObservedAt = None, ct_FirstSeenBatch = ''b'', ct_LastSeenBatch = ''b'', ct_SourceFile = ''f'', ct_SourceRow = 3\<rparr>])
     [\<lparr>ct_Identity = ''j'', ct_AccountID = ''3'', ct_Region = [], ct_Type = [], ct_ResourceID = [], ct_ParentID = [],
         ct_AssociationID = None, ct_ObservedAt = None, ct_FirstSeenBatch = ''c'', ct_LastSeenBatch = ''c'', ct_SourceFile = ''g'', ct_SourceRow = 1\<rparr>]
   = Some [\<lparr>ct_Identity = ''i'', ct_AccountID = ''2'', ct_Region = [], ct_Type = [], ct_ResourceID = [], ct_ParentID = [],
         ct_AssociationID = None, ct_ObservedAt = None, ct_FirstSeenBatch = ''b'', ct_LastSeenBatch = ''b'', ct_SourceFile = ''f'', ct_SourceRow = 3\<rparr>,
       \<lparr>ct_Identity = ''j'', ct_AccountID = ''3'', ct_Region = [], ct_Type = [], ct_ResourceID = [], ct_ParentID = [],
         ct_AssociationID = None, ct_ObservedAt = None, ct_FirstSeenBatch = ''c'', ct_LastSeenBatch = ''c'', ct_SourceFile = ''g'', ct_SourceRow = 1\<rparr>]"
  by code_simp

end
