(* ===== verification/NetboxProps.thy ===== *)
theory NetboxProps
  imports NetboxWrites NetboxMerge SnapshotProps
begin

text \<open>
  What the operations of the inventory adapter may change: every write follows a read of the same object
  that justifies it, and a conditional write carries the ETag of that read.
\<close>

section \<open>Adoption\<close>

text \<open>
  C13. An adoption writes at most once, and only to an imported prefix without an owner: before the write it
  read that prefix with the reviewed CIDR and VRF, the write carries the ETag of that answer, it sets
  the fields that the platform owns and leaves every other field as it was read.
\<close>

theorem adopt_claims_only_unowned_imports:
  assumes "t = sent (Client_Adopt c net a op)" and "n < length t" and "is_write (t ! n)"
  shows "length (filter is_write t) \<le> 1 \<and>
    (\<exists>m i x etag d p cidr cfs. m < n \<and> t ! m = GetPrefix i \<and> net m (t ! m) = Inr (Detail x etag) \<and>
       allocationDomain c a = Inr (d, p) \<and> adoptCIDR (a_CIDR a) p = Inr cidr \<and> at_cidr cidr (poolVRF d p) x \<and>
       imported x \<and> \<not> owned (nc_L c) x \<and> t ! n = PatchPrefix i (patch_payload (Some ''reserved'') cfs) etag \<and>
       (\<forall>k. mget cfs k = (if k \<in> fst ` set (ownedFields (nc_L c) a op) then mget (ownedFields (nc_L c) a op) k
                       else mget (fields_of x) k)))"
proof -
  obtain m i x etag where r: "m < n" "t ! m = GetPrefix i" "net m (t ! m) = Inr (Detail x etag)" "claims_import c a op (t ! n) i x etag"
    using adopt.write_follows_read [of n c net a op] assms by blast
  show ?thesis
    using adopt.at_most_one [of c net a op] assms(1) r mget_keep_unowned [of "fields_of x" "ownedFields (nc_L c) a op"]
    unfolding claims_import_def by blast
qed

definition ex_marked :: nbprefix where
  "ex_marked = (ex_prefix 7 ''10.0.2.0/24'')\<lparr>px_CustomFields := Some [(allocationIDCF, JStr ''alloc_0300''),
     (operationIDCF, JStr ''op_0301''), (''note'', JStr ''x'')]\<rparr>"

definition ex_import :: nbprefix where
  "ex_import = (ex_prefix 7 ''10.0.2.0/24'')\<lparr>px_CustomFields := Some [(''note'', JStr ''x'')], px_Tags := [ImportedTag]\<rparr>"

text \<open>A NetBox that shows one prefix until it is written, and then what it was told.\<close>

definition ex_one_prefix :: "nbprefix \<Rightarrow> nb_http + nb_body \<Rightarrow> net" where
  "ex_one_prefix x after n r =
     (case r of
        ListPrefixesAt s \<Rightarrow> Inr (Prefixes [x])
      | ListPrefixesMarked s \<Rightarrow> Inr (Prefixes [x])
      | GetPrefix i \<Rightarrow> if n \<le> 1 then Inr (Detail x ''v1'') else after
      | _ \<Rightarrow> Inr NoBody)"

lemma ex_adopt_sent:
  "sent (Client_Adopt ex_client (ex_one_prefix ex_import (Inl (HTTPError 404))) ex_hold ''op_0301'') =
     [ListPrefixesAt ''10.0.2.0/24'', GetPrefix ''7'', ListPrefixesMarked ''alloc_0300'',
      PatchPrefix ''7'' (patch_payload (Some ''reserved'') (ownedFields ex_nblib ex_hold ''op_0301'' @ [(''note'', JStr ''x'')])) ''v1'',
      GetPrefix ''7'']"
  by code_simp

abbreviation ex_adopt :: "(nb_error + string) nb" where
  "ex_adopt \<equiv> Client_Adopt ex_client (ex_one_prefix ex_import (Inl (HTTPError 404))) ex_hold ''op_0301''"

theorem adopt_claims_only_unowned_imports_witness:
  "\<exists>m i x etag cfs. m < 3 \<and> sent ex_adopt ! m = GetPrefix i \<and> imported x \<and> \<not> owned (nc_L ex_client) x \<and>
     sent ex_adopt ! 3 = PatchPrefix i (patch_payload (Some ''reserved'') cfs) etag \<and>
     mget cfs ''note'' = mget (fields_of x) ''note''"
proof -
  have key: "''note'' \<notin> fst ` set (ownedFields (nc_L ex_client) ex_hold ''op_0301'')" by code_simp
  have "3 < length (sent ex_adopt)" "is_write (sent ex_adopt ! 3)" unfolding ex_adopt_sent by simp_all
  from adopt_claims_only_unowned_imports [OF refl this] key show ?thesis by meson
qed

section \<open>Withdrawal\<close>

text \<open>
  A cancelled reservation loses at most one prefix: before the delete the adapter read that prefix, with
  this allocation's marker, this operation's identifier and no import tag, and the delete carries the ETag
  of that answer.
\<close>

theorem cancel_deletes_only_its_own:
  assumes "t = sent (Client_CancelReservation c net a op)" and "n < length t" and "is_write (t ! n)"
  shows "length (filter is_write t) \<le> 1 \<and>
    (\<exists>m i x etag. m < n \<and> t ! m = GetPrefix i \<and> net m (t ! m) = Inr (Detail x etag) \<and> t ! n = DeletePrefix i etag \<and>
       px_string (nc_L c) x allocationIDCF = a_ID a \<and> px_string (nc_L c) x operationIDCF = op \<and> \<not> imported x)"
  using cancel.at_most_one [of c net a op] cancel.write_follows_read [of n c net a op] assms
  unfolding deletes_own_reservation_def by blast

abbreviation ex_cancel :: "nb_error option nb" where
  "ex_cancel \<equiv> Client_CancelReservation ex_client (ex_one_prefix ex_marked (Inl (HTTPError 404))) ex_hold ''op_0301''"

lemma ex_cancel_sent:
  "sent ex_cancel = [ListPrefixesMarked ''alloc_0300'', GetPrefix ''7'', DeletePrefix ''7'' ''v1'', GetPrefix ''7'']"
  by code_simp

theorem cancel_deletes_only_its_own_witness:
  "length (filter is_write (sent ex_cancel)) \<le> 1 \<and> (\<exists>x. px_string (nc_L ex_client) x allocationIDCF = a_ID ex_hold \<and> \<not> imported x)"
proof -
  have "2 < length (sent ex_cancel)" "is_write (sent ex_cancel ! 2)" unfolding ex_cancel_sent by simp_all
  from cancel_deletes_only_its_own [OF refl this] show ?thesis by meson
qed

text \<open>
  An abandoned adoption loses its markers and nothing else: the adapter writes at most once, to a prefix it
  read before with this allocation's marker and this operation's identifier, under the ETag of that
  answer. The write names only fields that the platform owns, sends no prefix, VRF, tag or description,
  and empties every owned field except an account or a region that is put back.
\<close>

theorem abandon_clears_only_its_own:
  assumes "t = sent (Client_AbandonAdoption c net a op prior)" and "n < length t" and "is_write (t ! n)"
  shows "length (filter is_write t) \<le> 1 \<and>
    (\<exists>m i x etag status cfs. m < n \<and> t ! m = GetPrefix i \<and> net m (t ! m) = Inr (Detail x etag) \<and>
       t ! n = PatchPrefix i (patch_payload (Some status) cfs) etag \<and>
       px_string (nc_L c) x allocationIDCF = a_ID a \<and> px_string (nc_L c) x operationIDCF = op \<and>
       fst ` set cfs = fst ` set (ownedFields (nc_L c) a op) \<and>
       (\<forall>(k, v) \<in> set cfs. v = JNull \<or> k = awsAccountCF \<and> v = JStr (pi_AccountID prior) \<or> k = awsRegionCF \<and> v = JStr (pi_Region prior)))"
proof -
  let ?cfs = "cleared_fields (nc_L c) a op prior"
  have keys: "fst ` set ?cfs = fst ` set (ownedFields (nc_L c) a op)"
    by (force simp: cleared_fields_def image_image split_beta)
  have vals: "\<forall>(k, v) \<in> set ?cfs. v = JNull \<or> k = awsAccountCF \<and> v = JStr (pi_AccountID prior) \<or> k = awsRegionCF \<and> v = JStr (pi_Region prior)"
    by (simp add: cleared_fields_def split_beta)
  show ?thesis
    using abandon.at_most_one [of c net a op prior] abandon.write_follows_read [of n c net a op prior] assms keys vals
    unfolding clears_own_adoption_def by blast
qed

definition ex_prior :: PriorInventory where
  "ex_prior = \<lparr>pi_Status = ''active'', pi_AccountID = ''1'', pi_Region = []\<rparr>"

abbreviation ex_abandon :: "nb_error option nb" where
  "ex_abandon \<equiv> Client_AbandonAdoption ex_client (ex_one_prefix ex_marked (Inr (Detail ex_import ''v2''))) ex_hold ''op_0301'' ex_prior"

lemma ex_abandon_sent:
  "sent ex_abandon = [ListPrefixesMarked ''alloc_0300'', GetPrefix ''7'',
     PatchPrefix ''7'' (patch_payload (Some ''active'') (cleared_fields ex_nblib ex_hold ''op_0301'' ex_prior)) ''v1'', GetPrefix ''7'']"
  by code_simp

theorem abandon_clears_only_its_own_witness:
  "\<exists>i etag status cfs. sent ex_abandon ! 2 = PatchPrefix i (patch_payload (Some status) cfs) etag \<and>
     fst ` set cfs = fst ` set (ownedFields (nc_L ex_client) ex_hold ''op_0301'')"
proof -
  have "2 < length (sent ex_abandon)" "is_write (sent ex_abandon ! 2)" unfolding ex_abandon_sent by simp_all
  from abandon_clears_only_its_own [OF refl this] show ?thesis by meson
qed

section \<open>Imported occupancy\<close>

text \<open>
  C36. A removal deletes at most the one prefix it was told: before the delete the adapter read that
  identifier at the CIDR, in the domain's VRF, and found it imported, without an owner, with a readable contributor
  list that names somebody and was not reconstructed; the CIDR is no pool and contains none, and the
  delete carries the ETag of that answer.
\<close>

theorem removal_deletes_only_listed_imports:
  assumes "t = sent (DeleteOccupancy c net d s netboxID)" and "n < length t" and "is_write (t ! n)"
  shows "length (filter is_write t) \<le> 1 \<and>
    (\<exists>m x etag cfg pools cidr cs. m < n \<and> t ! m = GetPrefix netboxID \<and> net m (t ! m) = Inr (Detail x etag) \<and>
       t ! n = DeletePrefix netboxID etag \<and> occupancyDomain c d = Inr (cfg, pools) \<and> occupancyPrefix s = Inr cidr \<and>
       at_cidr cidr (bk_VRFID (d_Backend cfg)) x \<and> list_all (\<lambda>p. pool_conflict cidr p = None) pools \<and> imported x \<and> \<not> owned (nc_L c) x \<and>
       contributorsCF (nc_L c) (fields_of x) ImportContributorsField = (Some cs, False) \<and> cs \<noteq> [] \<and>
       \<not> boolCF (fields_of x) ImportContributorsReconstructedField)"
proof -
  obtain m x etag where r: "m < n" "t ! m = GetPrefix netboxID" "net m (t ! m) = Inr (Detail x etag)"
      "removes_import c d s netboxID (t ! n) netboxID x etag"
    using remove.write_follows_read [of n c net d s netboxID] assms by (auto simp: removes_import_def)
  have "refuse_removal (nc_L c) x = None" using r(4) by (simp add: removes_import_def)
  then obtain cs where cs: "imported x" "\<not> owned (nc_L c) x" "cs \<noteq> []" "\<not> boolCF (fields_of x) ImportContributorsReconstructedField"
      "contributorsCF (nc_L c) (fields_of x) ImportContributorsField = (Some cs, False)"
    by (auto simp: refuse_removal_def Let_def split: prod.splits if_splits)
  have conflict: "refusePoolPrefix cidr pools = None \<longleftrightarrow> list_all (\<lambda>p. pool_conflict cidr p = None) pools" for cidr pools
    by (induction pools) (auto simp: refusePoolPrefix_def first_error_def)
  show ?thesis
    using remove.at_most_one [of c net d s netboxID] r cs assms(1) unfolding removes_import_def conflict by blast
qed

definition ex_contributor :: "string \<Rightarrow> int \<Rightarrow> string \<Rightarrow> Contributor" where
  "ex_contributor i row batch = \<lparr>ct_Identity = i, ct_AccountID = ''1'', ct_Region = ''r'', ct_Type = ''vpc'', ct_ResourceID = i,
     ct_ParentID = [], ct_AssociationID = None, ct_ObservedAt = None, ct_FirstSeenBatch = batch, ct_LastSeenBatch = batch,
     ct_SourceFile = ''f'', ct_SourceRow = row\<rparr>"

text \<open>Here a list of strings is decoded to contributors with those identities.\<close>

definition ex_strings :: "jval list \<Rightarrow> string list" where
  "ex_strings vs = map (\<lambda>v. case v of JStr s \<Rightarrow> s | _ \<Rightarrow> []) vs"

definition ex_vrf_client :: client where
  "ex_vrf_client = New (ex_nblib\<lparr>nl_decode := \<lambda>v. case v of JList vs \<Rightarrow> Some (map (\<lambda>s. ex_contributor s 1 ''b1'') (ex_strings vs)) | _ \<Rightarrow> None,
       nl_encode := \<lambda>cs. JList (map (JStr \<circ> ct_Identity) cs)\<rparr>)
     (ex_config\<lparr>c_Domains := [ex_domain\<lparr>d_Backend := ex_backend\<lparr>bk_VRFID := 5\<rparr>\<rparr>]\<rparr>) 60"

definition ex_listed :: "string list \<Rightarrow> nbprefix" where
  "ex_listed names = (ex_prefix 7 ''10.0.2.0/24'')\<lparr>px_VRF := JObj [(''id'', JNum 5)], px_Tags := [ImportedTag],
     px_CustomFields := Some [(ImportContributorsField, JList (map JStr names))]\<rparr>"

abbreviation ex_removal :: "(nb_error + string \<times> string) nb" where
  "ex_removal \<equiv> DeleteOccupancy ex_vrf_client (ex_one_prefix (ex_listed [''vpc-1'']) (Inl (HTTPError 404))) ex_domain ''10.0.2.0/24'' ''7''"

lemma ex_removal_sent:
  "sent ex_removal = [ListPrefixesAt ''10.0.2.0/24'', GetPrefix ''7'', DeletePrefix ''7'' ''v1'', GetPrefix ''7'']"
  by code_simp

theorem removal_deletes_only_listed_imports_witness:
  "\<exists>x etag. sent ex_removal ! 2 = DeletePrefix ''7'' etag \<and> imported x \<and> \<not> owned (nc_L ex_vrf_client) x"
proof -
  have "2 < length (sent ex_removal)" "is_write (sent ex_removal ! 2)" unfolding ex_removal_sent by simp_all
  from removal_deletes_only_listed_imports [OF refl this] show ?thesis by meson
qed

text \<open>
  C37. A refresh only adds to what an import recorded: it writes at most once, to an imported prefix without an
  owner that it read before at the CIDR and in the domain's VRF with a readable list or none, under the ETag of
  that answer. It writes only if a wanted identity is new or there was no list, and then sets
  nothing but the list, the source and, for a prefix that had none, the mark of a reconstructed list. The list it sends has every identity of both
  once and in table order, and keeps each stored entry of a list without repeated identities but for its last batch and
  a newer observation time.
\<close>

theorem refresh_only_adds:
  assumes "t = sent (RefreshOccupancy c net d s source want)" and "n < length t" and "is_write (t ! n)"
  shows "length (filter is_write t) \<le> 1 \<and>
    (\<exists>m i x etag es old merged. m < n \<and> t ! m = GetPrefix i \<and> net m (t ! m) = Inr (Detail x etag) \<and>
       imported x \<and> \<not> owned (nc_L c) x \<and>
       contributorsCF (nc_L c) (fields_of x) ImportContributorsField = (es, False) \<and> old = (case es of None \<Rightarrow> [] | Some cs \<Rightarrow> cs) \<and>
       (es = None \<or> \<not> ids want \<subseteq> ids old) \<and>
       t ! n = PatchPrefix i (patch_payload None ([(ImportContributorsField, nl_encode (nc_L c) merged), (ImportSourceField, JStr source)] @
                 (if es = None then [(ImportContributorsReconstructedField, JBool True)] else []))) etag \<and>
       ids merged = ids old \<union> ids want \<and> distinct (map ct_Identity merged) \<and> sorted (map contributor_key merged) \<and>
       (distinct (map ct_Identity old) \<longrightarrow> (\<forall>e \<in> set old. \<exists>e' \<in> set merged. keeps e e')))"
proof -
  obtain m i x etag where r: "m < n" "t ! m = GetPrefix i" "net m (t ! m) = Inr (Detail x etag)"
      "adds_contributors c d s source want (t ! n) i x etag"
    using refresh.write_follows_read [of n c net d s source want] assms by blast
  from r(4) obtain es merged where e: "imported x" "\<not> owned (nc_L c) x" "mergeContributors es want = Some merged"
      "contributorsCF (nc_L c) (fields_of x) ImportContributorsField = (es, False)"
      "t ! n = PatchPrefix i (patch_payload None ([(ImportContributorsField, nl_encode (nc_L c) merged), (ImportSourceField, JStr source)] @
         (if es = None then [(ImportContributorsReconstructedField, JBool True)] else []))) etag"
    unfolding adds_contributors_def refresh_fields_def by blast
  note ms = mergeContributors_Some [OF e(3) refl]
  show ?thesis
    using refresh.at_most_one [of c net d s source want] r(1-3) e(1,2,4,5) ms assms(1)
    by (intro conjI exI [of _ m] exI [of _ i] exI [of _ x] exI [of _ etag] exI [of _ es]
        exI [of _ "case es of None \<Rightarrow> [] | Some cs \<Rightarrow> cs"] exI [of _ merged]) simp_all
qed

abbreviation ex_refresh :: "(nb_error + RefreshResult) nb" where
  "ex_refresh \<equiv> RefreshOccupancy ex_vrf_client
     (ex_one_prefix (ex_listed [''vpc-1'']) (Inr (Detail (ex_listed [''vpc-1'', ''vpc-2'']) ''v2''))) ex_domain ''10.0.2.0/24'' ''t''
     [ex_contributor ''vpc-2'' 1 ''b1'']"

lemma ex_refresh_sent:
  "sent ex_refresh = [ListPrefixesAt ''10.0.2.0/24'', GetPrefix ''7'',
     PatchPrefix ''7'' (patch_payload None [(ImportContributorsField, JList [JStr ''vpc-1'', JStr ''vpc-2'']), (ImportSourceField, JStr ''t'')]) ''v1'',
     GetPrefix ''7'']"
  by code_simp

theorem refresh_only_adds_witness:
  "\<exists>i merged cfs etag. sent ex_refresh ! 2 = PatchPrefix i (patch_payload None cfs) etag \<and> distinct (map ct_Identity merged) \<and>
     ids [ex_contributor ''vpc-2'' 1 ''b1''] \<subseteq> ids merged"
proof -
  have "2 < length (sent ex_refresh)" "is_write (sent ex_refresh ! 2)" unfolding ex_refresh_sent by simp_all
  from refresh_only_adds [OF refl this] obtain i merged old cfs etag where
      "sent ex_refresh ! 2 = PatchPrefix i (patch_payload None cfs) etag" "distinct (map ct_Identity merged)"
      "ids merged = ids old \<union> ids [ex_contributor ''vpc-2'' 1 ''b1'']"
    by meson
  then show ?thesis by (intro exI conjI) auto
qed

section \<open>Reservations\<close>

text \<open>The write of a reservation, with the listings that came before it.\<close>

definition creates_in_free_space :: "client \<Rightarrow> net \<Rightarrow> Allocation \<Rightarrow> string \<Rightarrow> nb_request list \<Rightarrow> nb_request \<Rightarrow> bool" where
  "creates_in_free_space c net a op u w \<longleftrightarrow>
     (\<exists>d p ac pc xs ys. allocationDomain c a = Inr (d, p) \<and> parsePrefix (a_CIDR a) = Some ac \<and> parsePrefix (pl_CIDR p) = Some pc \<and>
        Contains pc (ip ac) \<and> pbits pc \<le> pbits ac \<and>
        was_listed net u (ListPrefixesMarked (a_ID a)) xs \<and> list_all (\<lambda>x. px_string (nc_L c) x allocationIDCF \<noteq> a_ID a) xs \<and>
        was_listed net u (ListPrefixesAt (a_CIDR a)) ys \<and> list_all (\<lambda>x. px_Prefix x = a_CIDR a \<longrightarrow> prefix_vrf x \<noteq> poolVRF d p) ys \<and>
        w = PostPrefix \<lparr>np_Prefix = Some (a_CIDR a), np_Range = None, np_VRF = Some (poolVRF d p), np_Status = Some ''reserved'',
              np_Description = None, np_Tags = None, np_Fields = ownedFields (nc_L c) a op\<rparr>)"

lemma creates_in_free_spaceI:
  assumes "allocationDomain c a = Inr (d, p)" "parsePrefix (a_CIDR a) = Some ac" "parsePrefix (pl_CIDR p) = Some pc"
    and "Contains pc (ip ac)" "\<not> pbits ac < pbits pc"
    and "was_listed net u (ListPrefixesMarked (a_ID a)) xs" "[] = filter (\<lambda>x. px_string (nc_L c) x allocationIDCF = a_ID a) xs"
    and "was_listed net u (ListPrefixesAt (a_CIDR a)) ys" "\<not> list_ex (\<lambda>x. px_Prefix x = a_CIDR a \<and> prefix_vrf x = poolVRF d p) ys"
  shows "creates_in_free_space c net a op u (PostPrefix \<lparr>np_Prefix = Some (a_CIDR a), np_Range = None, np_VRF = Some (poolVRF d p),
     np_Status = Some ''reserved'', np_Description = None, np_Tags = None, np_Fields = ownedFields (nc_L c) a op\<rparr>)"
proof -
  have "list_all (\<lambda>x. px_string (nc_L c) x allocationIDCF \<noteq> a_ID a) xs"
    using assms(7) by (metis (mono_tags, lifting) filter_empty_conv list_all_iff)
  moreover have "list_all (\<lambda>x. px_Prefix x = a_CIDR a \<longrightarrow> prefix_vrf x \<noteq> poolVRF d p) ys"
    using assms(9) by (auto simp: list_ex_iff list_all_iff)
  ultimately show ?thesis using assms(1-6,8) unfolding creates_in_free_space_def not_less by blast
qed

text \<open>
  C14. A reservation creates at most one prefix, and only after NetBox listed no prefix with the allocation's marker
  and none with the text of its CIDR in the pool's VRF; the prefix it creates carries the CIDR, the VRF and the
  fields that the platform owns, and lies inside the configured pool.
\<close>

theorem reservation_creates_in_free_space:
  "justified (\<lambda>u w. unwritten u \<and> creates_in_free_space c net a op u w) [] (sent (Ensure c net a op))"
  unfolding sent_def Ensure_def ensure_absent_def ensure_create_def recoverAfterCreateError_def
  by (simp add: Let_def split: run_splits) (auto simp: map_sum_Inr intro!: creates_in_free_spaceI was_listed_at)

text \<open>
  An import creates at most one object, marked as imported and without any field of ownership, in the configured VRF of
  the domain: a canonical IPv4 prefix that is no pool, contains none and was not listed before, or an IPv4
  range that spans no pool and overlaps none of the ranges that were listed before.
\<close>

theorem import_records_free_space:
  "justified (\<lambda>u w. unwritten u \<and> records_free_space c net d o' u w) [] (sent (EnsureOccupancy c net d o'))"
  unfolding sent_def EnsureOccupancy_def Let_def
  by (auto simp: import_prefix_free import_range_free split: sum.split)

section \<open>Adopting and abandoning\<close>

text \<open>
  NetBox documents a PATCH as a partial update: a custom field in the payload is replaced, every other field
  of the object stays.
\<close>

definition patched :: "nbprefix \<Rightarrow> nb_payload \<Rightarrow> nbprefix \<Rightarrow> bool" where
  "patched x payload y \<longleftrightarrow>
     (\<forall>k. mget (fields_of y) k = (case mget (np_Fields payload) k of Some v \<Rightarrow> Some v | None \<Rightarrow> mget (fields_of x) k)) \<and>
     px_Status y = (case np_Status payload of Some s \<Rightarrow> s | None \<Rightarrow> px_Status x) \<and>
     px_ID y = px_ID x \<and> px_Prefix y = px_Prefix x \<and> px_VRF y = px_VRF x \<and> px_Tags y = px_Tags x \<and> px_Description y = px_Description x"

lemma mget_map_keys: "mget (map (\<lambda>(k, _). (k, f k)) m) k = (if k \<in> fst ` set m then Some (f k) else None)"
  by (induction m) (auto simp: mget_def)

lemma patched_twice:
  assumes "patched x (patch_payload s (keep_unowned (fields_of x) own)) y" and "patched y (patch_payload s' (map (\<lambda>(k, _). (k, f k)) own)) z"
  shows "mget (fields_of z) k = (if k \<in> fst ` set own then Some (f k) else mget (fields_of x) k)"
  using assms mget_None_iff [of own k]
  by (auto simp: patched_def patch_payload_def mget_map_keys mget_keep_unowned split: option.splits if_splits)

text \<open>
  C30. An adoption that is abandoned leaves the import as it was: when NetBox applies the adoption's write and then the
  abandonment's, with the status, account and region that were recorded, the prefix has its old status, tags and description, and
  every custom field reads as before, those included that the platform owns and the import had left empty.
\<close>

theorem abandoned_adoption_restores_import:
  assumes "patched x (patch_payload (Some ''reserved'') (keep_unowned (fields_of x) (ownedFields L a op))) y"
    and "patched y (patch_payload (Some (abandonStatus (pi_Status prior))) (cleared_fields L a op prior)) z"
    and "prior = \<lparr>pi_Status = px_Status x, pi_AccountID = px_string L x awsAccountCF, pi_Region = px_string L x awsRegionCF\<rparr>"
    and "px_Status x \<in> set prefixStatuses"
    and "\<forall>k \<in> fst ` set (ownedFields L a op) - {awsAccountCF, awsRegionCF}. px_string L x k = []"
  shows "px_Status z = px_Status x \<and> px_Tags z = px_Tags x \<and> px_Description z = px_Description x \<and>
    px_Prefix z = px_Prefix x \<and> px_VRF z = px_VRF x \<and> (\<forall>k. px_string L z k = px_string L x k)"
proof -
  let ?f = "\<lambda>k. if k = awsAccountCF \<and> pi_AccountID prior \<noteq> [] then JStr (pi_AccountID prior)
    else if k = awsRegionCF \<and> pi_Region prior \<noteq> [] then JStr (pi_Region prior) else JNull"
  have "mget (fields_of z) k = (if k \<in> fst ` set (ownedFields L a op) then Some (?f k) else mget (fields_of x) k)" for k
    using patched_twice [OF assms(1) assms(2) [unfolded cleared_fields_def]] .
  moreover have "awsAccountCF \<noteq> awsRegionCF" by (simp add: awsAccountCF_def awsRegionCF_def)
  ultimately have "px_string L z k = px_string L x k" for k
    using assms(3,5) by (cases "k = awsAccountCF"; cases "k = awsRegionCF") (auto simp: stringCF_def)
  then show ?thesis using assms(1-4) by (simp add: patched_def patch_payload_def abandonStatus_def)
qed

definition ex_patch :: "nbprefix \<Rightarrow> string \<Rightarrow> jval gomap \<Rightarrow> nbprefix" where
  "ex_patch x s cfs = x\<lparr>px_Status := s, px_CustomFields := Some (keep_unowned (fields_of x) cfs)\<rparr>"

lemma ex_patched: "patched x (patch_payload (Some s) cfs) (ex_patch x s cfs)"
proof -
  have "mget (keep_unowned (fields_of x) cfs) k = (case mget cfs k of Some v \<Rightarrow> Some v | None \<Rightarrow> mget (fields_of x) k)" for k
    using mget_None_iff [of cfs k] mget_keep_unowned [of "fields_of x" cfs k] by (auto split: option.split)
  then show ?thesis by (simp add: patched_def patch_payload_def ex_patch_def fields_of_def)
qed

definition ex_adopted :: nbprefix where
  "ex_adopted = ex_patch ex_import ''reserved'' (keep_unowned (fields_of ex_import) (ownedFields ex_nblib ex_hold ''op_0301''))"

definition ex_restored :: nbprefix where
  "ex_restored = ex_patch ex_adopted ''active'' (cleared_fields ex_nblib ex_hold ''op_0301''
     \<lparr>pi_Status = ''active'', pi_AccountID = [], pi_Region = []\<rparr>)"

theorem abandoned_adoption_restores_import_witness:
  "px_string ex_nblib ex_restored ''note'' = ''x'' \<and> px_string ex_nblib ex_restored allocationIDCF = []"
proof -
  let ?prior = "\<lparr>pi_Status = ''active'', pi_AccountID = [], pi_Region = []\<rparr>"
  have 1: "patched ex_import (patch_payload (Some ''reserved'') (keep_unowned (fields_of ex_import) (ownedFields ex_nblib ex_hold ''op_0301''))) ex_adopted"
    unfolding ex_adopted_def by (rule ex_patched)
  have "abandonStatus (pi_Status ?prior) = ''active''" by code_simp
  then have 2: "patched ex_adopted (patch_payload (Some (abandonStatus (pi_Status ?prior))) (cleared_fields ex_nblib ex_hold ''op_0301'' ?prior)) ex_restored"
    using ex_patched by (simp add: ex_restored_def)
  have 3: "?prior = \<lparr>pi_Status = px_Status ex_import, pi_AccountID = px_string ex_nblib ex_import awsAccountCF,
      pi_Region = px_string ex_nblib ex_import awsRegionCF\<rparr>" by code_simp
  have 4: "px_Status ex_import \<in> set prefixStatuses" by code_simp
  have 5: "\<forall>k \<in> fst ` set (ownedFields ex_nblib ex_hold ''op_0301'') - {awsAccountCF, awsRegionCF}. px_string ex_nblib ex_import k = []"
    by code_simp
  have r: "px_string ex_nblib ex_restored k = px_string ex_nblib ex_import k" for k
    using abandoned_adoption_restores_import [OF 1 2 3 4 5] by (elim conjE) (rule spec)
  show ?thesis unfolding r by code_simp
qed

section \<open>Projection\<close>

text \<open>
  The projection of an allocation sends back every field of the prefix as it was read, and sends no ETag: a
  change between its read and its write is undone, fields that the platform does not own included.
\<close>

lemma sync_resends_what_it_read:
  assumes "t = sent (Sync c net now a)" and "n < length t" and "is_write (t ! n)"
  shows "\<exists>m x etag d p status cfs. m < n \<and> t ! m = GetPrefix (a_InventoryID a) \<and> net m (t ! m) = Inr (Detail x etag) \<and>
    allocationDomain c a = Inr (d, p) \<and> holds_allocation (nc_L c) d p a x \<and>
    t ! n = PatchPrefix (a_InventoryID a) (patch_payload (Some status) cfs) [] \<and>
    (\<forall>k. k \<notin> fst ` set (sync_fields (nc_L c) a (px_string (nc_L c) x operationIDCF)) \<and> k \<noteq> observedStamp \<longrightarrow> mget cfs k = mget (fields_of x) k)"
proof -
  obtain m i x etag where r: "m < n" "t ! m = GetPrefix i" "net m (t ! m) = Inr (Detail x etag)" "projects_own c a (t ! n) i x etag"
    using sync.write_follows_read [of n c net now a] assms by blast
  from r(4) obtain d p cfs where e: "i = a_InventoryID a" "allocationDomain c a = Inr (d, p)" "holds_allocation (nc_L c) d p a x"
      "t ! n = PatchPrefix i (patch_payload (Some (if a_State a = Active then ''active'' else ''reserved'')) (keep_unowned (fields_of x) cfs)) []"
      "\<forall>k. k \<noteq> observedStamp \<longrightarrow> mget cfs k = mget (sync_fields (nc_L c) a (px_string (nc_L c) x operationIDCF)) k"
    unfolding projects_own_def by blast
  have "mget (keep_unowned (fields_of x) cfs) k = mget (fields_of x) k"
    if "k \<notin> fst ` set (sync_fields (nc_L c) a (px_string (nc_L c) x operationIDCF)) \<and> k \<noteq> observedStamp" for k
    using e(5) that mget_keep_unowned [of "fields_of x" cfs k] mget_None_iff by metis
  then show ?thesis using r e(1-4) by blast
qed

end
