(* ===== verification/RemovalProps.thy ===== *)
theory RemovalProps
  imports Removal OnboardProps NetboxProps
begin

text \<open>
  The properties of the onboarding commands: what a removal needs, the descriptions an import writes and that
  a removal recognises, and that what a plan decides to write the adapter does not refuse.
\<close>

section \<open>Evidence for a removal\<close>

lemma coverage_complete_iff:
  "snd (accountRegionCoverage cov run account region) \<longleftrightarrow>
     \<not> cv_RunMissing cov \<and> \<not> cv_AccountsMissing cov \<and>
     (\<forall>f \<in> set (cv_Failed cov). fe_AccountID f = account \<longrightarrow> fe_Region f \<noteq> region \<and> fe_Region f \<noteq> []) \<and>
     (account, region) \<notin> set (cv_Partial cov) \<and> (account, region) \<notin> set (cv_NotAttempted cov) \<and> (account, []) \<notin> set (cv_NotAttempted cov) \<and>
     (\<forall>r \<in> set (cv_RowCountShort cov). rc_AccountID r = account \<longrightarrow> rc_Region r \<noteq> region) \<and>
     (\<exists>rn a. run = Some rn \<and> a \<in> set (rn_Attempts rn) \<and> at_AccountID a = account \<and> at_Region a = region \<and> at_Outcome a = AttemptSucceeded)"
  by (auto simp: accountRegionCoverage_def find_None_iff find_Some_iff list_ex_iff Let_def split: option.splits)

lemma absent_iff:
  "re_ObservedAbsent (contributor_evidence u records run ct) \<longleftrightarrow>
     (\<forall>r \<in> set records. rr_AccountID r = ct_AccountID ct \<longrightarrow> rr_Region r = ct_Region ct \<longrightarrow> rr_ResourceID r \<noteq> ct_ResourceID ct) \<and>
     (\<forall>t rn. ct_ObservedAt ct = Some t \<longrightarrow> run = Some rn \<longrightarrow> observationStaleAgainstFinish u t (rn_FinishedAt rn) = None)"
  by (auto simp: contributor_evidence_def observedAbsent_def find_None_iff find_Some_iff split: option.splits)

lemma contributor_loop_refusals:
  "snd (snd (contributor_loop u records run cov seen cs)) = [] \<longleftrightarrow>
     (\<forall>ct \<in> set cs. ((ct_AccountID ct, ct_Region ct) \<in> set seen \<or> snd (accountRegionCoverage cov run (ct_AccountID ct) (ct_Region ct))) \<and>
        re_ObservedAbsent (contributor_evidence u records run ct))"
proof (induction cs arbitrary: seen)
  case (Cons ct cts)
  show ?case
    using Cons.IH [of "(ct_AccountID ct, ct_Region ct) # seen"]
    by (auto simp: Let_def split: prod.splits)
qed simp

text \<open>The evidence that a contributor is gone.\<close>

definition evidenced :: "golib \<Rightarrow> ResourceRecord list \<Rightarrow> RunRecord option \<Rightarrow> Coverage \<Rightarrow> Contributor \<Rightarrow> bool" where
  "evidenced u records run cov ct \<longleftrightarrow>
     ct_ResourceID ct \<noteq> [] \<and> snd (accountRegionCoverage cov run (ct_AccountID ct) (ct_Region ct)) \<and>
     (\<forall>r \<in> set records. rr_AccountID r = ct_AccountID ct \<longrightarrow> rr_Region r = ct_Region ct \<longrightarrow> rr_ResourceID r \<noteq> ct_ResourceID ct) \<and>
     (\<exists>t rn observed finished. ct_ObservedAt ct = Some t \<and> run = Some rn \<and> u_ParseRFC3339 u t = Some observed \<and>
        u_ParseRFC3339 u (rn_FinishedAt rn) = Some finished \<and> observed < finished)"

lemma not_stale_iff:
  "observationStaleAgainstFinish u t f = None \<longleftrightarrow>
     (\<exists>observed finished. u_ParseRFC3339 u t = Some observed \<and> u_ParseRFC3339 u f = Some finished \<and> observed < finished)"
  by (auto simp: observationStaleAgainstFinish_def split: option.splits)

lemma evidenced_iff:
  "evidenced u records run cov ct \<longleftrightarrow>
     contributor_refusals ct = [] \<and> snd (accountRegionCoverage cov run (ct_AccountID ct) (ct_Region ct)) \<and>
     re_ObservedAbsent (contributor_evidence u records run ct)" (is "_ \<longleftrightarrow> ?r")
proof
  assume "evidenced u records run cov ct"
  then show ?r unfolding absent_iff not_stale_iff evidenced_def by (auto simp: contributor_refusals_def)
next
  assume r: ?r
  then obtain rn where "run = Some rn" unfolding coverage_complete_iff by blast
  moreover obtain t where "ct_ObservedAt ct = Some t" "ct_ResourceID ct \<noteq> []"
    using r by (auto simp: contributor_refusals_def split: if_splits)
  ultimately show "evidenced u records run cov ct" using r unfolding absent_iff not_stale_iff evidenced_def by blast
qed

lemma outright_refusals_Nil:
  "outright_refusals K detail = [] \<longleftrightarrow>
     \<not> od_Owned detail \<and> od_Imported detail \<and> od_PoolConflict detail = None \<and> \<not> od_Unreadable detail \<and> \<not> od_Reconstructed detail \<and>
     (\<exists>cs. od_Contributors detail = Some cs \<and> cs \<noteq> [] \<and> descriptionMatchesImport K (od_Description detail) cs)"
  by (auto simp: outright_refusals_def split: option.splits if_splits)

lemma removable_iff_evidence:
  "rv_Removable (buildRemoveReport u K domainID detail records run assessReport apply' wantID) \<longleftrightarrow>
     outright_refusals K detail = [] \<and> \<not> (apply' \<and> wantID \<noteq> od_ID detail) \<and>
     (\<forall>ct \<in> set (case od_Contributors detail of None \<Rightarrow> [] | Some cs \<Rightarrow> cs). evidenced u records run (rp_Coverage assessReport) ct)"
  (is "?l \<longleftrightarrow> _ \<and> _ \<and> (\<forall>ct \<in> set ?cs. _)")
proof -
  let ?loop = "snd (snd (contributor_loop u records run (rp_Coverage assessReport) [] ?cs))"
  have "?l \<longleftrightarrow> outright_refusals K detail = [] \<and> (\<forall>ct \<in> set ?cs. contributor_refusals ct = []) \<and> ?loop = [] \<and> \<not> (apply' \<and> wantID \<noteq> od_ID detail)"
    by (simp add: buildRemoveReport_def Let_def split_beta)
  then show ?thesis unfolding contributor_loop_refusals evidenced_iff by auto
qed


definition ex_rfc_golib :: golib where
  "ex_rfc_golib = ex_golib\<lparr>u_ParseRFC3339 := \<lambda>s. if s = ''monday'' then Some 1 else if s = ''friday'' then Some 5 else None\<rparr>"

definition ex_gone :: Contributor where
  "ex_gone = (ex_contributor ''vpc-1'' 1 ''b1'')\<lparr>ct_ObservedAt := Some ''monday''\<rparr>"

definition ex_detail :: OccupancyDetail where
  "ex_detail = \<lparr>od_ID = ''7'', od_CIDR = ''10.0.2.0/24'', od_Description = ''account 1 | resource id vpc-1'', od_Owned = False,
     od_Imported = True, od_Contributors = Some [ex_gone], od_Unreadable = False, od_Reconstructed = False, od_PoolConflict = None\<rparr>"

definition ex_run :: RunRecord where
  "ex_run = \<lparr>rn_StartedAt = ''monday'', rn_FinishedAt = ''friday'', rn_RoleName = [], rn_ManagementCredentials = False,
     rn_ConfiguredRegions = [''r''], rn_ScriptVersion = ''2'', rn_Attempts = [\<lparr>at_AccountID = ''1'', at_Region = ''r'',
       at_Outcome = AttemptSucceeded, at_Stage = [], at_RowCount = Some 0\<rparr>], rn_SourceFile = []\<rparr>"

definition ex_collected :: Report where
  "ex_collected = \<lparr>rp_ReportVersion = 1, rp_Stamp = [], rp_Inputs = [], rp_InputLimits = [],
     rp_Coverage = \<lparr>cv_Complete = True, cv_Failed = [], cv_Partial = [], cv_NotAttempted = [], cv_ReadEmpty = [(''1'', ''r'')],
       cv_RunMissing = False, cv_AccountsMissing = False, cv_RowCountShort = [], cv_RowCountExceeded = []\<rparr>,
     rp_Summary = \<lparr>su_Sentence = [], su_TotalRelationships = 0, su_ByKind = [], su_ByImpact = [], su_FixedRelationships = 0,
       su_IncompleteAccounts = 0, su_IncompleteRegionPairs = 0, su_ImplicatedVPCs = 0, su_DuplicateObservations = 0,
       su_UnknownOwnershipSides = 0, su_DecisionsDecided = 0, su_DecisionsUndecided = 0, su_DecisionsStale = 0\<rparr>,
     rp_Conflicts = [], rp_Notes = []\<rparr>"

text \<open>The adapter that reads this prefix and deletes it.\<close>

definition ex_port :: ImportPort where
  "ex_port = (netbox_port ex_vrf_client (\<lambda>_ _ _. Inl (HTTPError 404)))
     \<lparr>ip_ReadOccupancy := \<lambda>_ _. Inr ex_detail, ip_DeleteOccupancy := \<lambda>_ _ i. Inr (i, [])\<rparr>"

lemma ex_gone_evidenced: "evidenced ex_rfc_golib [] (Some ex_run) (rp_Coverage ex_collected) ex_gone"
  by (simp add: evidenced_def accountRegionCoverage_def ex_run_def ex_collected_def ex_gone_def ex_contributor_def ex_rfc_golib_def)

lemma ex_detail_matches: "descriptionMatchesImport ex_crypto (od_Description ex_detail) [ex_gone]"
  by code_simp


section \<open>Runes\<close>

definition rune_ok :: "string \<Rightarrow> bool" where
  "rune_ok r \<longleftrightarrow> r \<noteq> [] \<and> (\<forall>t. rune_width (r @ t) = length r)"

lemma rune_width_le: "rune_width s \<le> length s"
  by (cases s) (auto simp: rune_width_def Let_def)

lemma rune_width_4: "rune_width s \<in> {0, 1, 2, 3, 4}"
  by (auto simp: rune_width_def Let_def split: list.splits)

lemma rune_width_prefix:
  assumes "rune_width s = w" "w \<noteq> 0"
  shows "rune_width (take w s @ t) = w"
proof -
  obtain a s1 where s: "s = a # s1" using assms by (cases s) (auto simp: rune_width_def)
  consider "w = 1" | "w = 2" | "w = 3" | "w = 4" using rune_width_4 [of s] assms by auto
  then show ?thesis
  proof cases
    case 1
    have "byte_of a < 0x80"
    proof (rule ccontr)
      assume "\<not> byte_of a < 0x80"
      then have "rune_width s \<noteq> 1" unfolding s rune_width_def Let_def by simp
      then show False using assms(1) 1 by simp
    qed
    then show ?thesis using 1 s by (simp add: rune_width_def Let_def)
  next
    case 2
    then obtain b s2 where "s1 = b # s2" using assms s rune_width_le [of s] by (cases s1) auto
    then show ?thesis using assms s 2 by (auto simp: rune_width_def Let_def numeral_2_eq_2 split: if_splits)
  next
    case 3
    then obtain b c s2 where "s1 = b # c # s2" using assms s rune_width_le [of s] by (cases s1; cases "tl s1") auto
    then show ?thesis using assms s 3 by (auto simp: rune_width_def Let_def numeral_2_eq_2 numeral_3_eq_3 split: if_splits)
  next
    case 4
    then obtain b c d s2 where "s1 = b # c # d # s2" using assms s rune_width_le [of s] by (cases s1; cases "tl s1"; cases "tl (tl s1)") auto
    then show ?thesis using assms s 4 by (auto simp: rune_width_def Let_def numeral_2_eq_2 numeral_3_eq_3 split: if_splits)
  qed
qed

lemma rune_ok_width: "rune_width s \<noteq> 0 \<Longrightarrow> rune_ok (take (rune_width s) s)"
  using rune_width_prefix [of s "rune_width s"] rune_width_le [of s] by (auto simp: rune_ok_def min_def)

lemma rune_ok_consts: "rune_ok [CHR 0xEF, CHR 0xBF, CHR 0xBD]" "rune_ok descriptionTruncationMarker"
  by (auto simp: rune_ok_def rune_width_def Let_def descriptionTruncationMarker_def byte_of_def)

lemma rune_ok_ascii: "byte_of c < 0x80 \<Longrightarrow> rune_ok [c]"
  by (simp add: rune_ok_def rune_width_def Let_def)

lemma runes_simps:
  "runes [] = []"
  "runes (c # cs) = (if rune_width (c # cs) = 0 then [CHR 0xEF, CHR 0xBF, CHR 0xBD] # runes cs
     else take (rune_width (c # cs)) (c # cs) # runes (drop (rune_width (c # cs)) (c # cs)))"
  by (simp_all add: runes.simps)

lemma runes_ok: "r \<in> set (runes s) \<Longrightarrow> rune_ok r"
proof (induction s rule: runes.induct)
  case (1 s)
  show ?case
    using 1 rune_ok_consts(1) rune_ok_width [of s] by (cases s) (auto simp: runes_simps split: if_splits)
qed

lemma runes_append: "rune_ok r \<Longrightarrow> runes (r @ t) = r # runes t"
proof -
  assume r: "rune_ok r"
  then obtain c cs where c: "r = c # cs" by (cases r) (auto simp: rune_ok_def)
  have "rune_width (c # cs @ t) = length r" using r c by (simp add: rune_ok_def)
  then show ?thesis using c by (simp add: runes_simps)
qed

lemma runes_concat: "\<forall>r \<in> set rs. rune_ok r \<Longrightarrow> runes (concat rs @ t) = rs @ runes t"
  by (induction rs) (auto simp: runes_append)

lemma rune_count_runes: "rune_count s = length (runes s)"
proof (induction s rule: runes.induct)
  case (1 s)
  show ?case
  proof (cases s)
    case (Cons c cs)
    have "rune_count s = Suc (rune_count (drop (max 1 (rune_width s)) s))" using Cons by (simp add: rune_count.simps)
    then show ?thesis using 1 Cons by (cases "rune_width s = 0") (auto simp: runes_simps max_def not_less_eq_eq)
  qed (simp add: rune_count.simps runes_simps)
qed

section \<open>Descriptions\<close>

text \<open>What \<open>hex.EncodeToString\<close> of a SHA-256 digest is: 64 lower-case hexadecimal digits.\<close>

definition hex_digest :: "Crypto \<Rightarrow> bool" where
  "hex_digest K \<longleftrightarrow> (\<forall>s. length (sha256hex K s) = 64 \<and> list_all is_hex (sha256hex K s))"

lemma hex_ascii: "is_hex c \<Longrightarrow> byte_of c < 0x80"
  by (auto simp: is_hex_def byte_of_def)

lemma fingerprint_hex:
  assumes "hex_digest K"
  shows "length (descriptionFingerprint K body) = 8" "list_all is_hex (descriptionFingerprint K body)"
  using assms by (auto simp: hex_digest_def descriptionFingerprint_def descriptionFingerprintHexLen_def list_all_iff dest: in_set_takeD)

lemma fingerprint_suffix_append:
  assumes "length h = 8" "list_all is_hex h"
  shows "fingerprint_suffix (body @ '' ('' @ h @ '')'') = Some (body, h)"
  using assms by (simp add: fingerprint_suffix_def descriptionFingerprintSuffixRunes_def descriptionFingerprintHexLen_def Let_def)

lemma runes_ascii: "list_all (\<lambda>c. byte_of c < 0x80) s \<Longrightarrow> runes s = map (\<lambda>c. [c]) s"
proof (induction s)
  case (Cons c cs)
  then show ?case using runes_append [OF rune_ok_ascii, of c cs] by simp
qed (simp add: runes_simps)

lemma truncated_length: "length (truncated m rs) \<le> m"
  by (auto simp: truncated_def)

lemma truncated_ok: "\<forall>r \<in> set rs. rune_ok r \<Longrightarrow> \<forall>r \<in> set (truncated m rs). rune_ok r"
  using rune_ok_consts(2) by (auto simp: truncated_def dest: in_set_takeD)

lemma withDescriptionFingerprint_sound:
  assumes "hex_digest K" "limit \<ge> 11"
  shows "rune_count (withDescriptionFingerprint K body limit) \<le> limit"
    "descriptionFingerprintConsistent K (withDescriptionFingerprint K body limit)"
    "fingerprint_suffix (withDescriptionFingerprint K body limit) \<noteq> None"
proof -
  define rs where "rs = truncated (limit - 11) (runes body)"
  define h where "h = descriptionFingerprint K (concat rs)"
  note hx = fingerprint_hex [OF assms(1), of "concat rs", folded h_def]
  have d: "withDescriptionFingerprint K body limit = concat rs @ '' ('' @ h @ '')''"
    by (simp add: withDescriptionFingerprint_def rs_def h_def descriptionFingerprintSuffixRunes_def descriptionFingerprintHexLen_def Let_def)
  have "list_all (\<lambda>c. byte_of c < 0x80) ('' ('' @ h @ '')'')" using hx(2) hex_ascii by (auto simp: list_all_iff byte_of_def)
  moreover have "\<forall>r \<in> set rs. rune_ok r" unfolding rs_def using runes_ok truncated_ok by blast
  ultimately have "runes (concat rs @ '' ('' @ h @ '')'') = rs @ map (\<lambda>c. [c]) ('' ('' @ h @ '')'')"
    using runes_concat [of rs "'' ('' @ h @ '')''"] runes_ascii [of "'' ('' @ h @ '')''"] by (simp only:)
  then show "rune_count (withDescriptionFingerprint K body limit) \<le> limit"
    unfolding d rune_count_runes using truncated_length [of "limit - 11" "runes body"] assms(2) hx(1) rs_def by simp
  show "descriptionFingerprintConsistent K (withDescriptionFingerprint K body limit)"
    "fingerprint_suffix (withDescriptionFingerprint K body limit) \<noteq> None"
    unfolding d descriptionFingerprintConsistent_def fingerprint_suffix_append [OF hx] by (simp_all add: h_def)
qed

lemma network_description_sound:
  assumes "hex_digest K"
  shows "rune_count (mergeNetworkDescription K rows) \<le> maxDescription" "descriptionMatchesImport K (mergeNetworkDescription K rows) cs"
proof -
  obtain body where "mergeNetworkDescription K rows = withDescriptionFingerprint K body 200"
    by (simp add: mergeNetworkDescription_def Let_def maxDescriptionRunes_def)
  then show "rune_count (mergeNetworkDescription K rows) \<le> maxDescription" "descriptionMatchesImport K (mergeNetworkDescription K rows) cs"
    using withDescriptionFingerprint_sound [OF assms, of 200 body] by (simp_all add: descriptionMatchesImport_def maxDescription_def)
qed

text \<open>
  The description that an import gives a network never exceeds NetBox's limit of 200 characters, however many
  rows share the CIDR, and a removal recognises it as the import's own, truncated or not and whatever the
  contributors are by then.
\<close>

theorem import_description_is_recognised:
  assumes "hex_digest K"
  shows "rune_count (mergeNetworkDescription K rows) \<le> maxDescription \<and>
    descriptionMatchesImport K (mergeNetworkDescription K rows) cs"
  using network_description_sound [OF assms] by blast

definition ex_hex_crypto :: Crypto where
  "ex_hex_crypto = ex_crypto\<lparr>sha256hex := \<lambda>_. replicate 64 CHR ''a''\<rparr>"

lemma ex_hex_digest: "hex_digest ex_hex_crypto"
  by (simp add: hex_digest_def ex_hex_crypto_def is_hex_def list_all_iff)

theorem import_description_is_recognised_witness:
  "rune_count (mergeNetworkDescription ex_hex_crypto (tb_Networks ex_table)) \<le> maxDescription \<and>
   descriptionMatchesImport ex_hex_crypto (mergeNetworkDescription ex_hex_crypto (tb_Networks ex_table)) [ex_gone]"
  using import_description_is_recognised [OF ex_hex_digest] by blast

section \<open>Plans and the adapter\<close>

lemma plain_TrimSpace:
  assumes "list_all (\<lambda>c. 33 \<le> byte_of c \<and> byte_of c \<le> 126) s"
  shows "TrimSpace s = s"
proof -
  have len: "space_len (map byte_of t) = 0" if "list_all (\<lambda>c. 33 \<le> byte_of c \<and> byte_of c \<le> 126) t" for t
    using that by (cases t) (auto split: list.split)
  have "space_front s = 0" unfolding space_front_def using assms len [of "take 3 s"] by (auto simp: list_all_iff dest: in_set_takeD)
  moreover have "space_len (map byte_of (drop n s)) = 0" for n
    using assms len [of "drop n s"] by (auto simp: list_all_iff dest: in_set_dropD)
  then have "space_back s = 0" by (simp add: space_back_def)
  ultimately show ?thesis by (simp add: TrimSpace_def trim_left_no_space trim_right_no_space)
qed

lemma digit_plain: "list_all isdigit t \<Longrightarrow> list_all (\<lambda>c. 33 \<le> byte_of c \<and> byte_of c \<le> 126) t"
  by (auto simp: list_all_iff isdigit_def byte_of_def)

lemma PrefixString_plain:
  assumes "valid_prefix p" "Is4 (ip p)"
  shows "TrimSpace (PrefixString p) = PrefixString p"
proof (rule plain_TrimSpace)
  obtain w where w: "ip p = V4 w" using assms(2) by (cases "ip p") (auto simp: Is4_def)
  have dot: "list_all (\<lambda>c. 33 \<le> byte_of c \<and> byte_of c \<le> 126) ''.''" "list_all (\<lambda>c. 33 \<le> byte_of c \<and> byte_of c \<le> 126) ''/''"
    by (simp_all add: byte_of_def)
  show "list_all (\<lambda>c. 33 \<le> byte_of c \<and> byte_of c \<le> 126) (PrefixString p)"
    unfolding PrefixString_def w using assms(1) dot digit_plain [OF dec_digits]
    by (simp add: AddrString_def string4_def )
qed

lemma fold_mput_mvals: "v \<in> set (mvals (fold (\<lambda>x. mput (f x) x) xs m)) \<Longrightarrow> v \<in> set xs \<or> v \<in> set (mvals m)"
  by (induction xs arbitrary: m) (auto dest: mvals_mput_subset)

lemma occupancyDomain_New:
  assumes "occupancyDomain (New L cfg refresh) d = Inr (d', pools)"
  shows "d_ID d' = d_ID d" "set pools \<subseteq> set (domain_pools cfg d)" "p \<in> set pools \<Longrightarrow> parsePrefix (pl_CIDR p) \<noteq> None"
proof -
  have "mget (fold (\<lambda>d. mput (d_ID d) d) ds m) k = Some x \<Longrightarrow> (\<forall>k x. mget m k = Some x \<longrightarrow> d_ID x = k) \<Longrightarrow> d_ID x = k" for ds :: "Domain list" and m k x
    by (induction ds arbitrary: m) (auto split: if_splits)
  then have i: "mget (nc_domains (New L cfg refresh)) k = Some x \<Longrightarrow> d_ID x = k" for k x by (simp add: New_def)
  have f: "mget (nc_domains (New L cfg refresh)) (d_ID d) = Some d'" "domainPools (New L cfg refresh) d' = Inr pools"
    using assms by (auto simp: occupancyDomain_def map_sum_Inr split: option.splits if_splits)
  show "d_ID d' = d_ID d" using i f(1) .
  show "set pools \<subseteq> set (domain_pools cfg d)" using f(2) i [OF f(1)]
    by (auto simp: domainPools_def Let_def New_def split: if_splits dest!: fold_mput_mvals) (simp add: mvals_def)
  show "p \<in> set pools \<Longrightarrow> parsePrefix (pl_CIDR p) \<noteq> None" using f(2)
    by (auto simp: domainPools_def Let_def bad_pool_def list_ex_iff split: if_splits)
qed

lemma importable_not_refused:
  assumes "importable ps snap p" "set pools \<subseteq> set ps" and pr: "\<And>q. q \<in> set pools \<Longrightarrow> parsePrefix (pl_CIDR q) \<noteq> None"
    and tr: "\<forall>q \<in> set ps. TrimSpace (pl_CIDR q) = pl_CIDR q"
  shows "refusePoolPrefix p pools = None"
proof -
  have "pool_conflict p q = None" if q: "q \<in> set pools" for q
  proof -
    obtain raw where raw: "ParsePrefix (pl_CIDR q) = Some raw" "parsePrefix (pl_CIDR q) = Some raw"
      using assms(2) tr pr [OF q] q by (auto simp: parsePrefix_def)
    have "q \<in> set ps" using q assms(2) by blast
    then have "\<not> holds_for (\<lambda>pc. pc = p) (pool_prefix q)" "\<not> holds_for (\<lambda>pc. pbits pc > pbits p \<and> Contains p (ip pc)) (pool_prefix q)"
      using assms(1) by (auto simp: importable_def exactPool_def ancestorOfPool_def find_None_iff)
    then show ?thesis using raw by (auto simp: holds_for_def pool_prefix_def pool_conflict_def Let_def)
  qed
  then show ?thesis by (simp add: refusePoolPrefix_def first_error_None)
qed

lemma planned_network_rows:
  assumes "canonical4 (nr_CIDR row) = Some p" "row \<in> set rows"
  shows "row \<in> set (networkRowsForCIDR rows (PrefixString p))"
  using assms by (auto simp: networkRowsForCIDR_def canonicalPrefix_def canonical4_Some)

lemma contributors_named: "\<not> list_ex anonymous (networkContributors u rows batch)"
  by (auto simp: networkContributors_def ContributorsForRows_def list_ex_iff anonymous_def row_contributor_def Let_def Identity_def)

lemma contributors_of_rows:
  "length (networkContributors u rows batch) = length rows" "networkContributors u rows batch = [] \<longleftrightarrow> rows = []"
proof -
  show l: "length (networkContributors u rows batch) = length rows" by (simp add: networkContributors_def ContributorsForRows_def)
  show "networkContributors u rows batch = [] \<longleftrightarrow> rows = []" using l by (metis length_0_conv)
qed

lemma PrefixString_not_Nil: "PrefixString p \<noteq> []"
  by (auto simp: PrefixString_def)

lemma ensureOccupancyPrefix_asks:
  assumes "occupancyPrefix (oc_CIDR occ) = Inr p" "refusePoolPrefix p pools = None"
  shows "\<exists>rest. sent (ensureOccupancyPrefix c net vrfID pools occ) = ListPrefixesAt (PrefixString p) # rest"
  using assms
  by (auto simp: ensureOccupancyPrefix_def sent_def create_prefix_def recoverOccupancyPrefix_def Let_def
      split: sum.splits list.splits option.splits)

lemma planned_network:
  assumes "Plan u table cfg domainID snap = Some r" "w \<in> set (pr_Writes r)" "tb_Kind table = KindNetworks" "findDomain cfg domainID = Some d"
  obtains p row where "importable (domain_pools cfg d) snap p" "canonical4 (nr_CIDR row) = Some p" "row \<in> set (tb_Networks table)"
    "we_CIDR w = PrefixString p"
proof -
  have d: "plannable cfg domainID snap d"
    using Plan_write_cases [OF assms(1,2)] assms(4) by (metis option.inject plannable_def)
  obtain ws fs where x: "planPrefixCandidates u (networkCandidates (tb_Networks table)) (domain_pools cfg d) snap (Some (tb_Networks table)) = (ws, fs)"
    by fastforce
  then have "w \<in> set (fst (planPrefixCandidates u (networkCandidates (tb_Networks table)) (domain_pools cfg d) snap (Some (tb_Networks table))))"
    using Plan_networks [OF d assms(3) x] assms(1,2) by auto
  then show thesis unfolding planPrefix_writes using that by (auto simp: networkCandidates_def prefix_write_def)
qed

text \<open>
  C34. What a networks plan decides to write, the adapter of the same configuration does not refuse before it asks NetBox: every
  planned write has rows, the occupancy built from them has a canonical IPv4 prefix that is no pool and contains none, a
  description within the limit and a contributor with an identity for every row, and the first thing sent is the
  listing of the prefixes at that CIDR.
\<close>

theorem planned_network_reaches_netbox:
  assumes "Plan u table cfg domainID snap = Some r" "w \<in> set (pr_Writes r)" "tb_Kind table = KindNetworks"
    and "findDomain cfg domainID = Some d" "occupancyDomain (New L cfg refresh) d = Inr (d', pools)"
    and "\<forall>q \<in> set (c_Pools cfg). TrimSpace (pl_CIDR q) = pl_CIDR q" "hex_digest K" "batch \<noteq> []"
  shows "\<exists>occ rest. entryOccupancy u K table w batch source = Some occ \<and>
    length (oc_Contributors occ) = length (networkRowsForCIDR (tb_Networks table) (we_CIDR w)) \<and> oc_Contributors occ \<noteq> [] \<and>
    sent (EnsureOccupancy (New L cfg refresh) net d occ) = ListPrefixesAt (we_CIDR w) # rest"
proof -
  obtain p row where p: "importable (domain_pools cfg d) snap p" "canonical4 (nr_CIDR row) = Some p"
      "row \<in> set (tb_Networks table)" "we_CIDR w = PrefixString p"
    using planned_network [OF assms(1-4)] .
  let ?rows = "networkRowsForCIDR (tb_Networks table) (PrefixString p)"
  have rows: "?rows \<noteq> []" using planned_network_rows [OF p(2,3)] by auto
  then obtain occ where occ: "entryOccupancy u K table w batch source = Some occ" "oc_CIDR occ = PrefixString p" "oc_StartAddress occ = []"
      "oc_EndAddress occ = []" "oc_Batch occ = batch" "oc_Description occ = mergeNetworkDescription K ?rows"
      "oc_Contributors occ = networkContributors u ?rows batch"
    using assms(3) p(4) by (auto simp: entryOccupancy_def Let_def split_beta)
  have desc: "\<not> rune_count (oc_Description occ) > maxDescription"
    using network_description_sound(1) [OF assms(7)] by (simp add: occ(6) not_less)
  have "occupancyPrefix (oc_CIDR occ) = Inr p"
    using PrefixString_plain [OF canonical4_valid [OF p(2)]] p(2) canonical4_label [OF p(2)]
    by (simp add: occ(2) occupancyPrefix_def parsePrefix_def canonical4_Some)
  moreover have "refusePoolPrefix p pools = None"
    using importable_not_refused [OF p(1) occupancyDomain_New(2) [OF assms(5)]] occupancyDomain_New(3) [OF assms(5)] assms(6) by simp
  moreover have "EnsureOccupancy (New L cfg refresh) net d occ = ensureOccupancyPrefix (New L cfg refresh) net (bk_VRFID (d_Backend d')) pools occ"
    using occ(2-5) desc contributors_named [of u ?rows batch] PrefixString_not_Nil [of p] assms(5,8)
    by (simp add: EnsureOccupancy_def Let_def occ(7))
  ultimately show ?thesis using ensureOccupancyPrefix_asks [of occ p pools] occ(1,7) p(4) rows
    by (auto simp: contributors_of_rows)
qed

theorem planned_network_reaches_netbox_witness:
  "\<exists>r w occ rest. Plan ex_golib ex_table ex_vrf_config ''corp'' ex_estate = Some r \<and> w \<in> set (pr_Writes r) \<and>
     entryOccupancy ex_golib ex_hex_crypto ex_table w ''b1'' ''s'' = Some occ \<and>
     sent (EnsureOccupancy (New ex_nblib ex_vrf_config 60) (\<lambda>_ _. Inl (HTTPError 404)) (ex_domain\<lparr>d_Backend := ex_backend\<lparr>bk_VRFID := 7\<rparr>\<rparr>) occ)
       = ListPrefixesAt ''10.0.1.64/26'' # rest"
proof -
  obtain r where r: "Plan ex_golib ex_table ex_vrf_config ''corp'' ex_estate = Some r"
      "prefix_write (networkCandidates (tb_Networks ex_table)) ex_p \<in> set (pr_Writes r)"
    using ex_plan .
  have d: "findDomain ex_vrf_config ''corp'' = Some (ex_domain\<lparr>d_Backend := ex_backend\<lparr>bk_VRFID := 7\<rparr>\<rparr>)"
    using ex_plannable by (simp add: plannable_def)
  have "occupancyDomain (New ex_nblib ex_vrf_config 60) (ex_domain\<lparr>d_Backend := ex_backend\<lparr>bk_VRFID := 7\<rparr>\<rparr>) =
      Inr (ex_domain\<lparr>d_Backend := ex_backend\<lparr>bk_VRFID := 7\<rparr>\<rparr>, [ex_pool])"
    "\<forall>q \<in> set (c_Pools ex_vrf_config). TrimSpace (pl_CIDR q) = pl_CIDR q" "tb_Kind ex_table = KindNetworks"
    by code_simp+
  then show ?thesis
    using planned_network_reaches_netbox [OF r _ d _ _ ex_hex_digest, of ex_nblib 60 _ _ "''b1''" "''s''" "\<lambda>_ _. Inl (HTTPError 404)"] r ex_importable(4)
    by (fastforce simp: prefix_write_def)
qed

section \<open>Where the command and its comments part\<close>

text \<open>
  A prefix that was imported before descriptions carried a fingerprint, and to which a refresh has since added a contributor,
  is refused as edited although nobody edited it: the rebuilt description is compared with the contributors of now.
\<close>

lemma refreshed_legacy_description_is_refused:
  "descriptionMatchesImport ex_crypto (expectedContributorDescription [ex_contributor ''vpc-1'' 1 ''b1''])
     [ex_contributor ''vpc-1'' 1 ''b1'']"
  "\<not> descriptionMatchesImport ex_crypto (expectedContributorDescription [ex_contributor ''vpc-1'' 1 ''b1''])
     [ex_contributor ''vpc-1'' 1 ''b1'', ex_contributor ''vpc-2'' 2 ''b2'']"
  by code_simp+

text \<open>A deletion whose first listing NetBox does not answer ends as a refusal, not as a failure of the adapter.\<close>

lemma unanswered_listing_ends_as_refusal:
  "map_sum removeExit id (result (DeleteOccupancy ex_vrf_client (\<lambda>_ _. Inl (HTTPError 503)) ex_domain ''10.0.2.0/24'' ''7'')) = Inl ExitValidation"
  by code_simp

end
