(* ===== verification/Drift.thy ===== *)
theory Drift
  imports OnboardApply Configuration
begin

text \<open>
  Comparing the accounts that NetBox's AWS plugin lists with the configuration (\<open>internal/onboardcmd/drift.go\<close>): which
  accounts are observed, eligible and mapped, and the findings of the comparison. Flags, JSON output and the
  summary line are not modelled.
\<close>

record AWSAccount =
  aw_ID :: int
  aw_AccountID :: string
  aw_Name :: string
  aw_Status :: string

definition DriftRuleUncoveredAccount :: string where "DriftRuleUncoveredAccount = ''uncovered-account''"
definition DriftRuleUnknownToPlugin :: string where "DriftRuleUnknownToPlugin = ''unknown-to-plugin''"
definition DriftRuleEligibleWithoutCoverage :: string where "DriftRuleEligibleWithoutCoverage = ''eligible-without-coverage''"
definition DriftRuleIdentityWithoutCoverage :: string where "DriftRuleIdentityWithoutCoverage = ''identity-without-coverage''"
definition DriftRuleInvalidPluginAccountID :: string where "DriftRuleInvalidPluginAccountID = ''invalid-plugin-account-id''"

datatype DriftLevel = DriftError | DriftWarning | DriftInfo

definition awsAccountStatusInactive :: string where "awsAccountStatusInactive = ''INACTIVE''"

record DriftFinding =
  df_Rule :: string
  df_Level :: DriftLevel
  df_AccountID :: string
  df_Message :: string

record DriftCounts =
  dc_PluginAccounts :: nat
  dc_CoveredAccounts :: nat
  dc_EligibleAccounts :: nat
  dc_IdentityAccounts :: nat
  dc_Errors :: nat
  dc_Warnings :: nat
  dc_Info :: nat

record DriftReport =
  dr_Domain :: string
  dr_Counts :: DriftCounts
  dr_Findings :: "DriftFinding list"

definition drift_HasErrors :: "DriftReport \<Rightarrow> bool" where
  "drift_HasErrors r \<longleftrightarrow> dc_Errors (dr_Counts r) > 0"

text \<open>The regular expression \<open>^[0-9]{12}$\<close>.\<close>

definition driftAccountIDPattern :: "string \<Rightarrow> bool" where
  "driftAccountIDPattern s \<longleftrightarrow> length s = 12 \<and> list_all isdigit s"

text \<open>One plugin account: its status under its identifier, or a finding.\<close>

definition plugin_account :: "golib \<Rightarrow> AWSAccount \<Rightarrow> DriftFinding list \<times> string gomap \<Rightarrow> DriftFinding list \<times> string gomap" where
  "plugin_account u acc st =
     (case st of (findings, m) \<Rightarrow>
        if \<not> driftAccountIDPattern (aw_AccountID acc) then
          (findings @ [\<lparr>df_Rule = DriftRuleInvalidPluginAccountID, df_Level = DriftWarning, df_AccountID = aw_AccountID acc,
             df_Message = ''plugin AWSAccount '' @ itoaID (aw_ID acc) @ '' has account_id '' @ u_Quote u (aw_AccountID acc) @
               '', which is not twelve digits''\<rparr>], m)
        else (findings, mput (aw_AccountID acc) (aw_Status acc) m))"

text \<open>A \<open>map[string]bool\<close> that holds the given keys.\<close>

definition account_set :: "string list \<Rightarrow> bool gomap" where
  "account_set xs = fold (\<lambda>x. mput x True) xs []"

definition uncovered_finding :: "golib \<Rightarrow> Domain \<Rightarrow> string \<Rightarrow> string \<Rightarrow> DriftFinding" where
  "uncovered_finding u d i status =
     (if status = awsAccountStatusInactive then
        \<lparr>df_Rule = DriftRuleUncoveredAccount, df_Level = DriftInfo, df_AccountID = i,
         df_Message = ''account '' @ i @ '' has an AWSAccount object in the NetBox plugin marked '' @ awsAccountStatusInactive @
           '' and is not in domain '' @ u_Quote u (d_ID d) @ [CHR 0x27] @
           ''s cloud_coverage; not reported as an error because the plugin marks it inactive''\<rparr>
      else
        \<lparr>df_Rule = DriftRuleUncoveredAccount, df_Level = DriftError, df_AccountID = i,
         df_Message = ''account '' @ i @ '' has an AWSAccount object in the NetBox plugin but is not in domain '' @
           u_Quote u (d_ID d) @ [CHR 0x27] @ ''s cloud_coverage; networks in it are invisible to reconciliation''\<rparr>)"

definition unknown_finding :: "golib \<Rightarrow> Domain \<Rightarrow> string \<Rightarrow> DriftFinding" where
  "unknown_finding u d i =
     \<lparr>df_Rule = DriftRuleUnknownToPlugin, df_Level = DriftWarning, df_AccountID = i,
      df_Message = ''account '' @ i @ '' is in domain '' @ u_Quote u (d_ID d) @ [CHR 0x27] @
        ''s cloud_coverage but has no AWSAccount object in the NetBox plugin''\<rparr>"

definition eligible_finding :: "golib \<Rightarrow> Domain \<Rightarrow> string \<Rightarrow> DriftFinding" where
  "eligible_finding u d i =
     \<lparr>df_Rule = DriftRuleEligibleWithoutCoverage, df_Level = DriftError, df_AccountID = i,
      df_Message = ''account '' @ i @ '' is eligible for a pool in domain '' @ u_Quote u (d_ID d) @ '' but has no cloud_coverage cell''\<rparr>"

definition identity_finding :: "golib \<Rightarrow> Domain \<Rightarrow> string \<Rightarrow> DriftFinding" where
  "identity_finding u d i =
     \<lparr>df_Rule = DriftRuleIdentityWithoutCoverage, df_Level = DriftWarning, df_AccountID = i,
      df_Message = ''account '' @ i @ '' is targeted by an identity mapping but is not covered by any overlap domain (an identity may legitimately target a different domain than '' @
        u_Quote u (d_ID d) @ '')''\<rparr>"

text \<open>Two findings with the same rule, account and message are equal, so an unstable sort has one result.\<close>

definition sortDriftFindings :: "DriftFinding list \<Rightarrow> DriftFinding list" where
  "sortDriftFindings = sort_key (\<lambda>f. (df_Rule f, df_AccountID f, df_Message f))"

definition planDrift :: "golib \<Rightarrow> Config \<Rightarrow> Domain \<Rightarrow> AWSAccount list \<Rightarrow> DriftReport" where
  "planDrift u cfg d accounts =
     (let (invalid, pluginAccounts) = fold (plugin_account u) accounts ([], []);
          covered = account_set (map ce_AccountID (d_CloudCoverage d));
          coveredAnyDomain = account_set (concat (map (\<lambda>other. map ce_AccountID (d_CloudCoverage other)) (c_Domains cfg)));
          eligible = account_set (concat (map pl_EligibleAccounts (filter (\<lambda>p. pl_DomainID p = d_ID d) (c_Pools cfg))));
          identityAccounts = account_set (concat (map p_Accounts (c_Identities cfg)));
          findings = sortDriftFindings
            (invalid @
             map (\<lambda>(i, status). uncovered_finding u d i status) (filter (\<lambda>(i, _). \<not> mget0 False covered i) pluginAccounts) @
             map (\<lambda>(i, _). unknown_finding u d i) (filter (\<lambda>(i, _). mget pluginAccounts i = None) covered) @
             map (\<lambda>(i, _). eligible_finding u d i) (filter (\<lambda>(i, _). \<not> mget0 False covered i) eligible) @
             map (\<lambda>(i, _). identity_finding u d i)
               (filter (\<lambda>(i, _). \<not> (mget0 False covered i \<or> mget0 False coveredAnyDomain i)) identityAccounts))
      in \<lparr>dr_Domain = d_ID d,
          dr_Counts = \<lparr>dc_PluginAccounts = length accounts, dc_CoveredAccounts = length covered, dc_EligibleAccounts = length eligible,
            dc_IdentityAccounts = length identityAccounts,
            dc_Errors = length (filter (\<lambda>f. df_Level f = DriftError) findings),
            dc_Warnings = length (filter (\<lambda>f. df_Level f = DriftWarning) findings),
            dc_Info = length (filter (\<lambda>f. df_Level f = DriftInfo) findings)\<rparr>,
          dr_Findings = findings\<rparr>)"

text \<open>
  The command, given what \<open>ListAWSAccounts\<close> returns: no report when the plugin could not be read. An unknown domain is a
  usage error here.
\<close>

definition runDrift :: "golib \<Rightarrow> Config \<Rightarrow> (nb_http + AWSAccount list) \<Rightarrow> string \<Rightarrow> ExitCode \<times> DriftReport option" where
  "runDrift u cfg listed domainID =
     (if domainID = [] then (ExitUsage, None)
      else case findDomain cfg domainID of
        None \<Rightarrow> (ExitUsage, None)
      | Some d \<Rightarrow>
          (case listed of
             Inl _ \<Rightarrow> (ExitAdapter, None)
           | Inr accounts \<Rightarrow>
               let report = planDrift u cfg d accounts
               in (if drift_HasErrors report then ExitValidation else ExitOK, Some report)))"

section \<open>What is compared\<close>

text \<open>The account sets of a configuration.\<close>

definition covered_accounts :: "Domain \<Rightarrow> string set" where
  "covered_accounts d = ce_AccountID ` set (d_CloudCoverage d)"

definition eligible_accounts :: "Config \<Rightarrow> Domain \<Rightarrow> string set" where
  "eligible_accounts cfg d = (\<Union>p \<in> {p \<in> set (c_Pools cfg). pl_DomainID p = d_ID d}. set (pl_EligibleAccounts p))"

text \<open>The status that the plugin's last account with an identifier has.\<close>

definition plugin_status :: "AWSAccount list \<Rightarrow> string \<Rightarrow> string option" where
  "plugin_status accounts i =
     (if driftAccountIDPattern i then map_option aw_Status (find (\<lambda>a. aw_AccountID a = i) (rev accounts)) else None)"

lemma account_set_ok: "mok (account_set xs)"
proof -
  have "mok m \<Longrightarrow> mok (fold (\<lambda>x. mput x True) xs m)" for m by (induction xs arbitrary: m) auto
  then show ?thesis by (simp add: account_set_def)
qed

lemma mget_account_set: "mget (account_set xs) k = (if k \<in> set xs then Some True else None)"
proof -
  have "mget (fold (\<lambda>x. mput x True) xs m) k = (if k \<in> set xs then Some True else mget m k)" for m
    by (induction xs arbitrary: m) auto
  then show ?thesis by (simp add: account_set_def)
qed

lemma account_set_rows: "(k, v) \<in> set (account_set xs) \<longleftrightarrow> k \<in> set xs \<and> v"
  unfolding mrows_mget [OF account_set_ok] mget_account_set by auto

lemma mget0_account_set: "mget0 False (account_set xs) k \<longleftrightarrow> k \<in> set xs"
  by (simp add: mget0_def mget_account_set)

lemma finding_levels [simp]:
  "df_Level (uncovered_finding u d i s) = (if s = awsAccountStatusInactive then DriftInfo else DriftError)"
  "df_Level (unknown_finding u d i) = DriftWarning" "df_Level (eligible_finding u d i) = DriftError"
  "df_Level (identity_finding u d i) = DriftWarning"
  by (simp_all add: uncovered_finding_def unknown_finding_def eligible_finding_def identity_finding_def)

lemma plugin_loop:
  assumes "fold (plugin_account u) accounts (fs, m) = (fs', m')"
  shows "(\<forall>i. mget m' i = (case plugin_status accounts i of Some s \<Rightarrow> Some s | None \<Rightarrow> mget m i)) \<and> (mok m \<longrightarrow> mok m') \<and>
    (\<exists>new. fs' = fs @ new \<and> (\<forall>f \<in> set new. df_Level f = DriftWarning))"
  using assms
proof (induction accounts arbitrary: fs m)
  case (Cons a accounts)
  obtain fs1 m1 where s: "plugin_account u a (fs, m) = (fs1, m1)" by fastforce
  have IH: "(\<forall>i. mget m' i = (case plugin_status accounts i of Some s \<Rightarrow> Some s | None \<Rightarrow> mget m1 i)) \<and> (mok m1 \<longrightarrow> mok m') \<and>
      (\<exists>new. fs' = fs1 @ new \<and> (\<forall>f \<in> set new. df_Level f = DriftWarning))"
    using Cons s by simp
  have "mget m1 i = (if driftAccountIDPattern i \<and> aw_AccountID a = i then Some (aw_Status a) else mget m i)" for i
    using s by (auto simp: plugin_account_def split: if_splits)
  moreover have "plugin_status (a # accounts) i = (case plugin_status accounts i of Some s \<Rightarrow> Some s
      | None \<Rightarrow> if driftAccountIDPattern i \<and> aw_AccountID a = i then Some (aw_Status a) else None)" for i
    by (simp add: plugin_status_def find_append split: option.split)
  moreover have "mok m \<longrightarrow> mok m1" "\<exists>new. fs1 = fs @ new \<and> (\<forall>f \<in> set new. df_Level f = DriftWarning)"
    using s by (auto simp: plugin_account_def split: if_splits)
  ultimately show ?case using IH by (fastforce split: option.split)
qed (auto simp: plugin_status_def)

text \<open>The findings that make the command fail.\<close>

lemma drift_errors:
  "drift_HasErrors (planDrift u cfg d accounts) \<longleftrightarrow>
     (\<exists>i s. plugin_status accounts i = Some s \<and> i \<notin> covered_accounts d \<and> s \<noteq> awsAccountStatusInactive) \<or>
     (\<exists>i \<in> eligible_accounts cfg d. i \<notin> covered_accounts d)"
proof -
  obtain fs m where loop: "fold (plugin_account u) accounts ([], []) = (fs, m)" by fastforce
  have m: "(i, s) \<in> set m \<longleftrightarrow> plugin_status accounts i = Some s" for i s
    using plugin_loop [OF loop] by (auto simp: mrows_mget split: option.splits)
  have fs: "\<not> (\<exists>f \<in> set fs. df_Level f = DriftError)" using plugin_loop [OF loop] by auto
  have some: "length (filter P xs) > 0 \<longleftrightarrow> (\<exists>x \<in> set xs. P x)" for P and xs :: "DriftFinding list"
    by (auto simp: filter_empty_conv)
  let ?cov = "account_set (map ce_AccountID (d_CloudCoverage d))"
  let ?el = "account_set (concat (map pl_EligibleAccounts (filter (\<lambda>p. pl_DomainID p = d_ID d) (c_Pools cfg))))"
  have c: "mget0 False ?cov i \<longleftrightarrow> i \<in> covered_accounts d" for i
    by (simp add: mget0_account_set covered_accounts_def)
  have e: "(i, v) \<in> set ?el \<longleftrightarrow> i \<in> eligible_accounts cfg d \<and> v" for i v
    unfolding account_set_rows by (auto simp: eligible_accounts_def)
  have part: "(\<exists>f \<in> (\<lambda>x. case x of (i, v) \<Rightarrow> F i v) ` {x \<in> set xs. case x of (i, v) \<Rightarrow> P i v}. df_Level f = DriftError) \<longleftrightarrow>
      (\<exists>i v. (i, v) \<in> set xs \<and> P i v \<and> df_Level (F i v) = DriftError)" for F and xs :: "(string \<times> 'b) list" and P
    by auto
  show ?thesis
    unfolding drift_HasErrors_def planDrift_def loop Let_def prod.case DriftReport.select_convs DriftCounts.select_convs some
      sortDriftFindings_def set_sort set_append bex_Un set_map set_filter part
    using fs by (auto simp: m c e)
qed

lemma validated_eligible_covered:
  assumes "Validate N cfg environment = None" "d \<in> set (c_Domains cfg)"
  shows "eligible_accounts cfg d \<subseteq> covered_accounts d"
proof -
  obtain domains where v: "check_domains (c_Domains cfg) [] = Inr domains" "pools_ok domains (c_Pools cfg)"
    using Validate_None [OF assms(1)] .
  have dm: "mget domains (d_ID d) = Some d"
    using check_domains_Inr [OF v(1)] assms(2) mvals_mget [of domains d] by auto
  show ?thesis
  proof
    fix i assume "i \<in> eligible_accounts cfg d"
    then obtain p where p: "p \<in> set (c_Pools cfg)" "pl_DomainID p = d_ID d" "i \<in> set (pl_EligibleAccounts p)"
      by (auto simp: eligible_accounts_def)
    then obtain prefix where "\<forall>e \<in> set (pool_policy d prefix p). e = None"
      using v(2) dm by (auto simp: pools_ok_def)
    then have "list_all (pool_covered d p) (pl_EligibleAccounts p)" by (simp add: pool_policy_def refuse_def split: if_splits)
    then show "i \<in> covered_accounts d" using p(3) by (auto simp: list_all_iff pool_covered_def list_ex_iff covered_accounts_def)
  qed
qed

end
