(* ===== verification/DriftProps.thy ===== *)
theory DriftProps
  imports Drift ConfigProps OnboardProps
begin

text \<open>The property of the drift command: when it reports success.\<close>

text \<open>
  C27. On a validated configuration the drift command ends with success exactly when the plugin could be read and every account
  that it lists under a twelve-digit identifier and does not mark inactive is in the domain's cloud coverage. In
  particular its rule for eligible accounts without coverage never fires on a validated configuration, and a
  plugin that cannot be read is never reported as no drift.
\<close>

theorem drift_clean_iff_observed:
  assumes "Validate N cfg environment = None" and "findDomain cfg domainID = Some d" and "domainID \<noteq> []"
  shows "(\<exists>r. runDrift u cfg listed domainID = (ExitOK, Some r)) \<longleftrightarrow>
    (\<exists>accounts. listed = Inr accounts \<and>
       (\<forall>i s. plugin_status accounts i = Some s \<longrightarrow> i \<in> covered_accounts d \<or> s = awsAccountStatusInactive))"
proof -
  have "d \<in> set (c_Domains cfg)" using assms(2) by (auto simp: findDomain_def find_Some_iff)
  then have "\<not> (\<exists>i \<in> eligible_accounts cfg d. i \<notin> covered_accounts d)" using validated_eligible_covered [OF assms(1)] by blast
  then have "drift_HasErrors (planDrift u cfg d accounts) \<longleftrightarrow>
      \<not> (\<forall>i s. plugin_status accounts i = Some s \<longrightarrow> i \<in> covered_accounts d \<or> s = awsAccountStatusInactive)" for accounts
    unfolding drift_errors by blast
  then show ?thesis using assms(2,3) by (auto simp: runDrift_def Let_def split: sum.splits)
qed

definition ex_account :: "string \<Rightarrow> string \<Rightarrow> AWSAccount" where
  "ex_account i status = \<lparr>aw_ID = 1, aw_AccountID = i, aw_Name = [], aw_Status = status\<rparr>"

theorem drift_clean_iff_observed_witness:
  "(\<exists>r. runDrift ex_golib ex_valid (Inr [ex_account ''123456789012'' ''ACTIVE'', ex_account ''999999999999'' ''INACTIVE'']) ''corp'' = (ExitOK, Some r)) \<and>
   \<not> (\<exists>r. runDrift ex_golib ex_valid (Inr [ex_account ''999999999999'' ''ACTIVE'']) ''corp'' = (ExitOK, Some r))"
proof -
  have v: "Validate ex_urls ex_valid ''development'' = None" by code_simp
  obtain d where d: "findDomain ex_valid ''corp'' = Some d" "covered_accounts d = {''123456789012''}"
  proof
    show "findDomain ex_valid ''corp'' = Some (hd (c_Domains ex_valid))" by code_simp
    show "covered_accounts (hd (c_Domains ex_valid)) = {''123456789012''}" by (simp add: covered_accounts_def ex_valid_def ex_cell_def)
  qed
  have p: "driftAccountIDPattern ''999999999999''" by code_simp
  have "''corp'' \<noteq> []" by simp
  note iff = drift_clean_iff_observed [OF v d(1) this, of ex_golib]
  have "\<exists>r. runDrift ex_golib ex_valid (Inr [ex_account ''123456789012'' ''ACTIVE'', ex_account ''999999999999'' ''INACTIVE'']) ''corp'' = (ExitOK, Some r)"
    unfolding iff by (auto simp: plugin_status_def ex_account_def d(2) awsAccountStatusInactive_def split: if_splits)
  moreover have "\<not> (\<exists>r. runDrift ex_golib ex_valid (Inr [ex_account ''999999999999'' ''ACTIVE'']) ''corp'' = (ExitOK, Some r))"
    unfolding iff using p by (auto simp: plugin_status_def ex_account_def d(2) awsAccountStatusInactive_def)
  ultimately show ?thesis by blast
qed

end
