(* ===== verification/HttpBase.thy ===== *)
theory HttpBase
  imports ServiceBase GoStrings
begin

text \<open>
  What the handlers of the HTTP transport share (\<open>internal/transport/http.go\<close>): the strict reading of a JSON
  body, the idempotency key, responses and errors, and pages with cursors. The tokens of a body and its decoding
  into Go values are parameters; the Base64 encoding of cursors is modelled.
\<close>

section \<open>Requests and responses\<close>

text \<open>A token of \<open>json.Decoder\<close>: a delimiter, a string, another literal or null.\<close>

datatype jtoken = TObj | TEndObj | TArr | TEndArr | TStr string | TLit | TNull

text \<open>
  The parameters: \<open>mime.ParseMediaType\<close>; the tokens of a text up to its end or the first syntax error, and
  whether they reach the end; the typed decoding of a body, which refuses unknown fields; of the members of a
  body; of a string and of a string map; and \<open>url.PathEscape\<close>.
\<close>

record httplib =
  hl_MediaType :: "string \<Rightarrow> string option"
  hl_Tokens :: "string \<Rightarrow> jtoken list \<times> bool"
  hl_Request :: "string \<Rightarrow> Request option"
  hl_Binding :: "string \<Rightarrow> Binding option"
  hl_Members :: "string \<Rightarrow> string gomap option"
  hl_String :: "string \<Rightarrow> string option"
  hl_StringMap :: "string \<Rightarrow> string gomap option"
  hl_PathEscape :: "string \<Rightarrow> string"

record http_request =
  hr_Authorization :: "string list"
  hr_ContentType :: string
  hr_IdempotencyKey :: string
  hr_IfMatch :: string
  hr_Query :: "string list gomap"
  hr_Body :: string

text \<open>\<open>r.URL.Query().Get(k)\<close>.\<close>

definition query_get :: "http_request \<Rightarrow> string \<Rightarrow> string" where
  "query_get r k = (case mget (hr_Query r) k of Some (v # _) \<Rightarrow> v | _ \<Rightarrow> [])"

datatype jout =
    ONull | OStr string | OInt int | OBool bool | OTime time | OList "jout list" | OObj "(string \<times> jout) list"

text \<open>A response. The headers that every response carries are left out.\<close>

record http_response =
  hs_Status :: int
  hs_ETag :: "string option"
  hs_Location :: "string option"
  hs_RetryAfter :: "string option"
  hs_Body :: "jout option"

text \<open>\<open>write\<close>: a 204 has no body.\<close>

definition write_response :: "int \<Rightarrow> jout \<Rightarrow> http_response" where
  "write_response status body =
     \<lparr>hs_Status = status, hs_ETag = None, hs_Location = None, hs_RetryAfter = None,
      hs_Body = (if status \<noteq> 204 then Some body else None)\<rparr>"

definition string_map :: "string gomap \<Rightarrow> jout" where
  "string_map m = OObj (map (\<lambda>(k, v). (k, OStr v)) m)"

section \<open>Errors\<close>

text \<open>An error of a handler, and the details it adds to the error's own.\<close>

type_synonym http_error = "goerr \<times> jout gomap"

definition plain_error :: "goerr \<Rightarrow> http_error" where
  "plain_error e = (e, [])"

definition bad :: "int \<Rightarrow> string \<Rightarrow> string \<Rightarrow> http_error" where
  "bad status code message = plain_error (apiErr status code message)"

definition api_error :: "goerr \<Rightarrow> APIError" where
  "api_error e =
     (case e of
        APIErr x \<Rightarrow> x
      | _ \<Rightarrow> Err 503 ''dependency_unavailable'' ''The operation could not be completed; retry with the same identity.'')"

definition error_body :: "APIError \<Rightarrow> jout gomap \<Rightarrow> string \<Rightarrow> jout" where
  "error_body x extra requestID =
     OObj [(''code'', OStr (e_Code x)), (''message'', OStr (e_Message x)), (''retryable'', OBool (e_Retryable x)),
       (''details'', OObj (fold (\<lambda>(k, v). mput k v) extra (map (\<lambda>(k, v). (k, OStr v)) (e_Details x)))),
       (''request_id'', OStr requestID)]"

definition failure :: "string \<Rightarrow> http_error \<Rightarrow> http_response" where
  "failure requestID err =
     (let x = api_error (fst err); status = (if e_Status x < 400 \<or> e_Status x > 599 then 500 else e_Status x);
          extra = (case fst err of APIErr _ \<Rightarrow> snd err | _ \<Rightarrow> [])
      in (write_response status (OObj [(''error'', error_body x extra requestID)]))
           \<lparr>hs_RetryAfter := (if status = 503 \<or> status = 429 then Some ''2'' else None)\<rparr>)"

section \<open>Bodies\<close>

text \<open>
  \<open>checkObject\<close> and \<open>checkValue\<close>. Each consumes tokens and returns the rest; the number bounds the depth of the calls,
  and twice the number of tokens is enough.
\<close>

fun checkObject :: "nat \<Rightarrow> string list \<Rightarrow> jtoken list \<Rightarrow> jtoken list option"
  and checkValue :: "nat \<Rightarrow> jtoken list \<Rightarrow> jtoken list option"
  and checkArray :: "nat \<Rightarrow> jtoken list \<Rightarrow> jtoken list option" where
  "checkObject 0 keys ts = None"
| "checkObject (Suc n) keys ts =
     (case ts of
        TEndObj # rest \<Rightarrow> Some rest
      | TStr s # rest \<Rightarrow>
          if s \<in> set keys then None
          else (case checkValue n rest of None \<Rightarrow> None | Some rest' \<Rightarrow> checkObject n (s # keys) rest')
      | _ \<Rightarrow> None)"
| "checkValue 0 ts = None"
| "checkValue (Suc n) ts =
     (case ts of
        TObj # rest \<Rightarrow> checkObject n [] rest
      | TArr # rest \<Rightarrow> checkArray n rest
      | TStr s # rest \<Rightarrow> Some rest
      | TLit # rest \<Rightarrow> Some rest
      | _ \<Rightarrow> None)"
| "checkArray 0 ts = None"
| "checkArray (Suc n) ts =
     (case ts of
        [] \<Rightarrow> None
      | TEndArr # rest \<Rightarrow> Some rest
      | TEndObj # rest \<Rightarrow> None
      | _ \<Rightarrow> (case checkValue n ts of None \<Rightarrow> None | Some rest \<Rightarrow> checkArray n rest))"

definition maxBody :: nat where "maxBody = 2 ^ 20"

text \<open>The checks of \<open>readJSON\<close> on the tokens; \<open>None\<close> is one object and nothing after it.\<close>

definition check_tokens :: "jtoken list \<Rightarrow> bool \<Rightarrow> http_error option" where
  "check_tokens ts ended =
     (if ts = [] \<or> hd ts \<noteq> TObj then Some (bad 422 ''invalid_request'' ''Expected a JSON object.'')
      else case checkObject (2 * length ts) [] (tl ts) of
        None \<Rightarrow> Some (bad 422 ''invalid_request'' ''JSON fields must be unique and non-null.'')
      | Some left \<Rightarrow>
          if left \<noteq> [] \<or> \<not> ended then Some (bad 400 ''malformed_json'' ''Only one JSON object is permitted.'') else None)"

definition readJSON :: "httplib \<Rightarrow> (string \<Rightarrow> 'a option) \<Rightarrow> http_request \<Rightarrow> http_error + 'a" where
  "readJSON H decode r =
     (if hl_MediaType H (hr_ContentType r) \<noteq> Some ''application/json'' then
        Inl (bad 400 ''malformed_json'' ''Content-Type must be application/json.'')
      else if length (hr_Body r) > maxBody then
        Inl (bad 422 ''invalid_request'' ''Request must be a JSON object smaller than 1 MiB.'')
      else case check_tokens (fst (hl_Tokens H (hr_Body r))) (snd (hl_Tokens H (hr_Body r))) of
        Some e \<Rightarrow> Inl e
      | None \<Rightarrow>
          (case decode (hr_Body r) of
             None \<Rightarrow> Inl (bad 422 ''invalid_request'' ''Expected a JSON object with only documented fields.'')
           | Some v \<Rightarrow> Inr v))"

text \<open>The loop over the runes of the key: a byte outside ASCII begins a rune above 126.\<close>

definition requestKey :: "http_request \<Rightarrow> http_error + string" where
  "requestKey r =
     (let k = hr_IdempotencyKey r
      in if length k < 1 \<or> length k > 128 then
           Inl (bad 400 ''idempotency_key_required'' ''Idempotency-Key must contain 1 to 128 visible ASCII characters.'')
         else if list_ex (\<lambda>c. byte_of c < 33 \<or> byte_of c > 126) k then
           Inl (bad 400 ''idempotency_key_required'' ''Invalid Idempotency-Key.'')
         else Inr k)"

section \<open>Numbers\<close>

text \<open>\<open>strconv.ParseInt(s, 10, 64)\<close> and \<open>strconv.Atoi\<close> on a 64-bit machine: \<open>None\<close> is an error.\<close>

definition digit_value :: "string \<Rightarrow> int" where
  "digit_value s = fold (\<lambda>c n. 10 * n + (int (byte_of c) - 48)) s 0"

definition ParseInt64 :: "string \<Rightarrow> int option" where
  "ParseInt64 s =
     (let neg = HasPrefix s ''-''; digits = (if neg \<or> HasPrefix s ''+'' then drop 1 s else s);
          n = (if neg then - digit_value digits else digit_value digits)
      in if digits = [] \<or> \<not> list_all isdigit digits \<or> n < - (2 ^ 63) \<or> n \<ge> 2 ^ 63 then None else Some n)"

section \<open>Cursors\<close>

definition alphabet :: string where
  "alphabet = ''ABCDEFGHIJKLMNOPQRSTUVWXYZabcdefghijklmnopqrstuvwxyz0123456789-_''"

text \<open>\<open>base64.RawURLEncoding\<close>; the decoder skips line breaks and ignores the bits that are left over.\<close>

fun b64_encode :: "string \<Rightarrow> string" where
  "b64_encode [] = []"
| "b64_encode [a] = map ((!) alphabet) [byte_of a div 4, byte_of a mod 4 * 16]"
| "b64_encode [a, b] = map ((!) alphabet) [byte_of a div 4, byte_of a mod 4 * 16 + byte_of b div 16, byte_of b mod 16 * 4]"
| "b64_encode (a # b # c # rest) =
     map ((!) alphabet) [byte_of a div 4, byte_of a mod 4 * 16 + byte_of b div 16,
       byte_of b mod 16 * 4 + byte_of c div 64, byte_of c mod 64] @ b64_encode rest"

definition sextet :: "char \<Rightarrow> nat option" where
  "sextet c = map_of (zip alphabet [0..<64]) c"

fun b64_bytes :: "nat list \<Rightarrow> string option" where
  "b64_bytes [] = Some []"
| "b64_bytes [p] = None"
| "b64_bytes [p, q] = Some [char_of (p * 4 + q div 16)]"
| "b64_bytes [p, q, r] = Some [char_of (p * 4 + q div 16), char_of (q mod 16 * 16 + r div 4)]"
| "b64_bytes (p # q # r # s # rest) =
     map_option ((@) [char_of (p * 4 + q div 16), char_of (q mod 16 * 16 + r div 4), char_of (r mod 4 * 64 + s)]) (b64_bytes rest)"

definition b64_decode :: "string \<Rightarrow> string option" where
  "b64_decode s =
     (let cs = filter (\<lambda>c. c \<noteq> CHR 0x0A \<and> c \<noteq> CHR 0x0D) s; vs = map sextet cs
      in if None \<in> set vs then None else b64_bytes (map the vs))"

section \<open>Pages\<close>

text \<open>The items after a cursor up to the limit, and the cursor of the next page. An item has its identifier beside it.\<close>

fun page_select :: "string \<Rightarrow> nat \<Rightarrow> (string \<times> 'a) list \<Rightarrow> (string \<times> 'a) list \<Rightarrow> (string \<times> 'a) list \<times> string option" where
  "page_select cursor limit selected [] = (selected, None)"
| "page_select cursor limit selected (item # items) =
     (if fst item \<le> cursor then page_select cursor limit selected items
      else if length selected = limit then (selected, Some (fst (last selected)))
      else page_select cursor limit (selected @ [item]) items)"

definition page_limit :: "http_request \<Rightarrow> http_error + nat" where
  "page_limit r =
     (let raw = query_get r ''limit''
      in if raw = [] then Inr 50
         else case ParseInt64 raw of
           None \<Rightarrow> Inl (bad 422 ''invalid_request'' ''limit must be between 1 and 200.'')
         | Some n \<Rightarrow> if n < 1 \<or> n > 200 then Inl (bad 422 ''invalid_request'' ''limit must be between 1 and 200.'') else Inr (nat n))"

definition page_cursor :: "http_request \<Rightarrow> http_error + string" where
  "page_cursor r =
     (let raw = query_get r ''cursor''
      in if raw = [] then Inr []
         else case b64_decode raw of
           None \<Rightarrow> Inl (bad 422 ''invalid_request'' ''Invalid cursor.'')
         | Some b \<Rightarrow> if length b > 256 then Inl (bad 422 ''invalid_request'' ''Invalid cursor.'') else Inr b)"

definition page_items :: "http_request \<Rightarrow> (string \<times> 'a) list \<Rightarrow> http_error + ((string \<times> 'a) list \<times> string option)" where
  "page_items r items =
     (let repeated = (\<lambda>k. case mget (hr_Query r) k of Some vs \<Rightarrow> length vs > 1 | None \<Rightarrow> False)
      in if repeated ''cursor'' \<or> repeated ''limit'' then Inl (bad 422 ''invalid_request'' ''Repeated pagination arguments.'')
         else rbind (page_limit r) (\<lambda>limit. rbind (page_cursor r) (\<lambda>cursor.
           Inr (case page_select cursor limit [] (sort_key fst items) of
               (selected, next) \<Rightarrow> (selected, map_option b64_encode next)))))"

definition page :: "http_request \<Rightarrow> (string \<times> jout gomap) list \<Rightarrow> http_error + http_response" where
  "page r items =
     map_sum id (\<lambda>(selected, next).
         write_response 200 (OObj [(''items'', OList (map (OObj \<circ> snd) selected)),
           (''next_cursor'', case next of None \<Rightarrow> ONull | Some s \<Rightarrow> OStr s)]))
       (page_items r items)"

end
