(* ===== verification/Http.thy ===== *)
theory Http
  imports HttpBase Netbox Withdraw Binding Reclaim Capacity FindingViews Configuration
begin

text \<open>
  The HTTP transport (\<open>internal/transport/http.go\<close> and \<open>auth.go\<close>): who a request comes from, what each endpoint reads
  from it, which operation of the service it calls and what it answers. The matching of patterns, the request
  counter with \<open>/metrics\<close>, log lines and the headers that every response carries are not modelled.
\<close>

section \<open>Authentication\<close>

text \<open>
  The verifier of OIDC tokens is third-party code: it refuses a token, or gives its subject and its claim
  \<open>token_use\<close>, which may not decode.
\<close>

record Auth =
  au_mode :: string
  au_subject :: string
  au_identities :: "Principal gomap"
  au_verify :: "string \<Rightarrow> (string \<times> string option) option"
  au_credentials :: "(string \<times> string) list"

fun Split_char :: "char \<Rightarrow> string \<Rightarrow> string list" where
  "Split_char c [] = [[]]"
| "Split_char c (x # xs) =
     (if x = c then [] # Split_char c xs
      else case Split_char c xs of [] \<Rightarrow> [[x]] | y # ys \<Rightarrow> (x # y) # ys)"

text \<open>One pair of \<open>parseExtraCredentials\<close> after the subjects and tokens that were seen.\<close>

definition extra_credential ::
    "Principal gomap \<Rightarrow> string list \<Rightarrow> string list \<Rightarrow> string \<Rightarrow> goerr + string \<times> string" where
  "extra_credential identities subjects tokens pair =
     (let subject = before CHR '':'' pair; token = drop (Suc (length subject)) pair
      in if CHR '':'' \<notin> set pair then Inl (OtherErr ''entry must be subject:token'')
         else if subject = [] \<or> token = [] then Inl (OtherErr ''entry has an empty subject or token'')
         else if TrimSpace subject \<noteq> subject \<or> TrimSpace token \<noteq> token then Inl (OtherErr ''leading or trailing whitespace'')
         else if length token < 24 then Inl (OtherErr ''token is shorter than 24 characters'')
         else if token \<in> set tokens then Inl (OtherErr ''token duplicates another configured token'')
         else if subject \<in> set subjects then Inl (OtherErr ''subject duplicates another configured subject'')
         else if mget identities subject = None then Inl (OtherErr ''subject has no identity mapping'')
         else Inr (subject, token))"

fun extra_loop ::
    "Principal gomap \<Rightarrow> string list \<Rightarrow> string list \<Rightarrow> string list \<Rightarrow> goerr + (string \<times> string) list" where
  "extra_loop identities subjects tokens [] = Inr []"
| "extra_loop identities subjects tokens (pair # rest) =
     rbind (extra_credential identities subjects tokens pair) (\<lambda>(subject, token).
       map_sum id ((#) (subject, token)) (extra_loop identities (subject # subjects) (token # tokens) rest))"

definition parseExtraCredentials :: "string \<Rightarrow> string \<Rightarrow> string \<Rightarrow> Principal gomap \<Rightarrow> goerr + (string \<times> string) list" where
  "parseExtraCredentials raw mainToken mainSubject identities =
     (if raw = [] then Inr [] else extra_loop identities [mainSubject] [mainToken] (Split_char CHR '','' raw))"

text \<open>The last argument is the outcome of OIDC discovery.\<close>

definition NewAuth ::
    "Crypto \<Rightarrow> Settings \<Rightarrow> Principal list \<Rightarrow> (goerr + (string \<Rightarrow> (string \<times> string option) option)) \<Rightarrow> goerr + Auth" where
  "NewAuth K s entries provider =
     (let identities = fold (\<lambda>p. mput (p_Subject p) p) entries [];
          a = \<lparr>au_mode = s_AuthMode s, au_subject = s_LocalSubject s, au_identities = identities, au_verify = (\<lambda>_. None), au_credentials = []\<rparr>
      in if identities = [] then Inl (OtherErr ''at least one server-side identity mapping is required'')
         else if s_AuthMode s = ''local'' then
           (if s_Environment s \<noteq> ''development'' \<or> length (s_LocalToken s) < 24
            then Inl (OtherErr ''local authentication only permits explicit development credentials'')
            else if mget identities (s_LocalSubject s) = None then Inl (OtherErr ''local subject has no identity mapping'')
            else map_sum id (\<lambda>extra. a\<lparr>au_credentials :=
                     map (\<lambda>(subject, token). (subject, sha256hex K token)) ((s_LocalSubject s, s_LocalToken s) # extra)\<rparr>)
                   (parseExtraCredentials (s_LocalExtraCredentials s) (s_LocalToken s) (s_LocalSubject s) identities))
         else if s_AuthMode s \<noteq> ''oidc'' then Inl (OtherErr ''unsupported authentication mode'')
         else map_sum id (\<lambda>verify. a\<lparr>au_verify := verify\<rparr>) provider)"

text \<open>The loop without an early exit: the subject of the last credential whose digest is the presented one.\<close>

definition matched_subject :: "string \<Rightarrow> (string \<times> string) list \<Rightarrow> string option" where
  "matched_subject presented credentials =
     fold (\<lambda>(subject, hash) matched. if presented = hash then Some subject else matched) credentials None"

definition unauthenticated :: "string \<Rightarrow> http_error" where
  "unauthenticated message = bad 401 ''unauthenticated'' message"

text \<open>\<open>strings.EqualFold\<close> with a word whose letters have no other case forms than the ASCII ones.\<close>

definition EqualFold :: "string \<Rightarrow> string \<Rightarrow> bool" where
  "EqualFold s w \<longleftrightarrow> map lower_byte s = map lower_byte w"

definition bearer_subject :: "Crypto \<Rightarrow> Auth \<Rightarrow> string \<Rightarrow> http_error + string" where
  "bearer_subject K a token =
     (if au_mode a = ''local'' then
        (case matched_subject (sha256hex K token) (au_credentials a) of
           None \<Rightarrow> Inl (unauthenticated ''Invalid platform credential.'')
         | Some subject \<Rightarrow> Inr subject)
      else case au_verify a token of
        None \<Rightarrow> Inl (unauthenticated ''Invalid or expired platform credential.'')
      | Some (subject, use) \<Rightarrow>
          if use = None \<or> use \<noteq> Some [] \<and> use \<noteq> Some ''access'' then Inl (unauthenticated ''An API access credential is required.'')
          else Inr subject)"

definition Authenticate :: "Crypto \<Rightarrow> Auth \<Rightarrow> http_request \<Rightarrow> http_error + Principal" where
  "Authenticate K a r =
     (case hr_Authorization r of
        [value] \<Rightarrow>
          (case Fields value of
             [scheme, token] \<Rightarrow>
               if \<not> EqualFold scheme ''Bearer'' \<or> length token > 16384
               then Inl (unauthenticated ''A valid platform bearer credential is required.'')
               else rbind (bearer_subject K a token) (\<lambda>subject.
                 case mget (au_identities a) subject of
                   None \<Rightarrow> Inl (bad 403 ''forbidden'' ''Identity is not onboarded to platform-ipam.'')
                 | Some p \<Rightarrow> Inr p)
           | _ \<Rightarrow> Inl (unauthenticated ''A valid platform bearer credential is required.''))
      | _ \<Rightarrow> Inl (unauthenticated ''Exactly one bearer credential is required.''))"

section \<open>Public views\<close>

definition nullable :: "string \<Rightarrow> jout" where
  "nullable s = (if s = [] then ONull else OStr s)"

definition time_or_null :: "time option \<Rightarrow> jout" where
  "time_or_null t = (case t of None \<Rightarrow> ONull | Some t \<Rightarrow> OTime t)"

definition binding_object :: "Binding option \<Rightarrow> jout" where
  "binding_object b =
     (case b of
        None \<Rightarrow> ONull
      | Some b \<Rightarrow> OObj ([(''provider'', OStr (b_Provider b)), (''resource_type'', OStr (b_ResourceType b)),
          (''resource_id'', OStr (b_ResourceID b)), (''account_id'', OStr (b_AccountID b)), (''region'', OStr (b_Region b))] @
          (case b_VerifiedAt b of None \<Rightarrow> [] | Some t \<Rightarrow> [(''verified_at'', OTime t)])))"

definition allocation_links :: "httplib \<Rightarrow> Config \<Rightarrow> Allocation \<Rightarrow> jout" where
  "allocation_links H cfg a =
     OObj ((''self'', OStr (''/v1/allocations/'' @ a_ID a)) #
       (if ui_InventoryLinksEnabled (c_UI cfg) \<and> a_InventoryID a \<noteq> [] \<and> a_State a \<noteq> Released
        then [(''inventory'', OStr (rev (dropWhile (\<lambda>c. c = CHR ''/'') (rev (ui_NetBoxBaseURL (c_UI cfg)))) @ ''/ipam/prefixes/'' @
               hl_PathEscape H (a_InventoryID a) @ ''/''))]
        else []))"

definition publicAllocation :: "httplib \<Rightarrow> Config \<Rightarrow> Allocation \<Rightarrow> Principal \<Rightarrow> jout gomap" where
  "publicAllocation H cfg a p =
     [(''id'', OStr (a_ID a)), (''allocation_key'', OStr (a_AllocationKey a)), (''scope'', OStr (a_Scope a)),
      (''environment'', OStr (a_Environment a)), (''region'', OStr (a_Region a)), (''account_id'', OStr (a_AccountID a)),
      (''address_family'', OStr (r_AddressFamily (a_Request a))), (''prefix_length'', OInt (r_PrefixLength (a_Request a))),
      (''cidr'', OStr (a_CIDR a)), (''pool_id'', OStr (a_PoolID a)), (''parent_allocation_id'', nullable (a_ParentAllocationID a)),
      (''availability_zone_id'', nullable (a_AvailabilityZoneID a)), (''description'', OStr (r_Description (a_Request a))),
      (''labels'', string_map (case r_Labels (a_Request a) of None \<Rightarrow> [] | Some l \<Rightarrow> l)), (''state'', OStr (state_text (a_State a))),
      (''revision'', OInt (a_Revision a)), (''policy_version'', OStr (a_PolicyVersion a)), (''binding'', binding_object (a_Binding a)),
      (''release_requested_at'', time_or_null (a_ReleaseRequestedAt a)), (''quarantine_until'', time_or_null (a_QuarantineUntil a)),
      (''release_blockers'', OList (map OStr (a_ReleaseBlockers a))), (''inventory_sync'', OStr (a_InventorySync a)),
      (''last_observed_at'', time_or_null (a_LastObservedAt a)), (''created_at'', OTime (a_CreatedAt a)),
      (''updated_at'', OTime (a_UpdatedAt a)), (''links'', allocation_links H cfg a)] @
     (if IsOperator p then [(''tenant_id'', OStr (a_TenantID a))] else [])"

definition publicFinding :: "Finding \<Rightarrow> Principal \<Rightarrow> jout gomap" where
  "publicFinding f p =
     [(''id'', OStr (f_ID f)), (''severity'', OStr (f_Severity f)), (''code'', OStr (f_Code f)), (''allocation_id'', nullable (f_AllocationID f)),
      (''account_id'', nullable (f_AccountID f)), (''region'', nullable (f_Region f)), (''first_observed_at'', OTime (f_FirstObservedAt f)),
      (''last_observed_at'', OTime (f_LastObservedAt f)), (''status'', OStr (f_Status f))] @
     (if \<not> IsOperator p then []
      else [(''domain_id'', OStr (f_DomainID f))] @
        (if f_ResourceType f \<noteq> [] then [(''resource_type'', OStr (f_ResourceType f))] else []) @
        (if f_ResourceID f \<noteq> [] then [(''resource_id'', OStr (f_ResourceID f))] else []) @
        (if f_AllocationID f \<noteq> [] then [(''tenant_id'', OStr (f_TenantID f))] else []))"

definition publicOperation :: "Operation \<Rightarrow> string \<Rightarrow> jout" where
  "publicOperation x requestID =
     OObj [(''id'', OStr (o_ID x)), (''type'', OStr (op_type_text (o_Type x))), (''status'', OStr (op_status_text (o_Status x))),
       (''allocation_id'', OStr (o_AllocationID x)), (''result'', case o_Result x of None \<Rightarrow> ONull | Some m \<Rightarrow> string_map m),
       (''error'', case o_Error x of None \<Rightarrow> ONull | Some e \<Rightarrow> error_body e [] requestID)]"

definition public_pool :: "Config \<Rightarrow> Pool \<Rightarrow> jout gomap" where
  "public_pool cfg pool =
     [(''id'', OStr (pl_ID pool)), (''scopes'', OList [OStr (pl_Scope pool), OStr ''subnet'']), (''environment'', OStr (pl_Environment pool)),
      (''region'', OStr (pl_Region pool)), (''allowed_prefix_lengths'', OList (map OInt (pl_AllowedPrefixLengths pool))),
      (''policy_version'', OStr (c_PolicyVersion cfg))]"

definition capacity_object :: "CapacityReport \<Rightarrow> jout" where
  "capacity_object v =
     OObj [(''pool_id'', OStr (cp_pool_id v)), (''observed_at'', OTime (cp_observed_at v)), (''complete'', OBool (cp_complete v)),
       (''by_prefix_length'', OObj (map (\<lambda>(bits, counts). (bits, OObj (map (\<lambda>(c, n). (c, OInt (uint n))) counts))) (cp_by_prefix_length v)))]"

definition cancel_object :: "CancelReport \<Rightarrow> jout" where
  "cancel_object v =
     (let a = cr_Allocation v; x = cr_Operation v
      in OObj [(''at'', OTime (cr_At v)), (''actor'', OStr (cr_Actor v)),
           (''allocation'', OObj [(''id'', OStr (h_ID a)), (''allocation_key'', OStr (h_AllocationKey a)), (''tenant_id'', OStr (h_TenantID a)),
              (''domain_id'', OStr (h_DomainID a)), (''cidr'', OStr (h_CIDR a)), (''state'', OStr (state_text (h_State a))),
              (''committed'', OBool (h_Committed a))]),
           (''operation'', OObj [(''id'', OStr (q_ID x)), (''type'', OStr (op_type_text (q_Type x))), (''status'', OStr (op_status_text (q_Status x)))]),
           (''fenced'', OBool (cr_Fenced v)), (''already_fenced'', OBool (cr_AlreadyFenced v)), (''removed'', OBool (cr_Removed v)),
           (''deleted'', OBool (cr_Deleted v)), (''finding_resolved'', OBool (cr_FindingResolved v))])"

section \<open>Endpoints\<close>

text \<open>What an endpoint needs beside the request: the library, the service's environment, its identity of the request.\<close>

record server =
  sv_H :: httplib
  sv_E :: Env
  sv_auth :: Auth
  sv_requestID :: string

abbreviation sv_cfg :: "server \<Rightarrow> Config" where "sv_cfg s \<equiv> v_cfg (sv_E s)"

type_synonym endpoint = "State \<Rightarrow> State \<times> (http_error + http_response)"

definition refused :: "http_error \<Rightarrow> endpoint" where
  "refused e st = (st, Inl e)"

definition allocation_response :: "server \<Rightarrow> int \<Rightarrow> Allocation \<Rightarrow> Principal \<Rightarrow> http_response" where
  "allocation_response s status a p =
     (write_response status (OObj (publicAllocation (sv_H s) (sv_cfg s) a p)))
       \<lparr>hs_ETag := Some ([CHR 0x22] @ itoaID (a_Revision a) @ [CHR 0x22]), hs_Location := Some (''/v1/allocations/'' @ a_ID a)\<rparr>"

definition outcome :: "server \<Rightarrow> answer \<Rightarrow> Principal \<Rightarrow> http_error + http_response" where
  "outcome s ans p =
     (case ans of (a, x, status) \<Rightarrow>
        (case (if status = 202 then x else None) of
           Some op \<Rightarrow> Inr ((write_response 202 (publicOperation op (sv_requestID s)))
             \<lparr>hs_Location := Some (''/v1/operations/'' @ o_ID op), hs_RetryAfter := Some ''2''\<rparr>)
         | None \<Rightarrow>
             (case a of
                Some alloc \<Rightarrow>
                  if a_Committed alloc then Inr (allocation_response s status alloc p)
                  else Inl (bad 503 ''dependency_unavailable'' ''Missing durable operation result.'')
              | None \<Rightarrow> Inl (bad 503 ''dependency_unavailable'' ''Missing durable operation result.''))))"

text \<open>The answer of a service call: its error as it is, or a response.\<close>

definition answered :: "('a \<Rightarrow> http_error + http_response) \<Rightarrow> State \<times> (goerr + 'a) \<Rightarrow> State \<times> (http_error + http_response)" where
  "answered f res = (fst res, rbind (map_sum plain_error id (snd res)) f)"

definition reserve_endpoint :: "server \<Rightarrow> http_request \<Rightarrow> Principal \<Rightarrow> endpoint" where
  "reserve_endpoint s r p =
     (case requestKey r of
        Inl e \<Rightarrow> refused e
      | Inr key \<Rightarrow>
          (case readJSON (sv_H s) (hl_Request (sv_H s)) r of
             Inl e \<Rightarrow> refused e
           | Inr req \<Rightarrow> (\<lambda>st. answered (\<lambda>ans. outcome s ans p) (Reserve (sv_E s) p req key st))))"

definition get_endpoint :: "server \<Rightarrow> string \<Rightarrow> Principal \<Rightarrow> endpoint" where
  "get_endpoint s i p st = answered (\<lambda>a. Inr (allocation_response s 200 a p)) (view (sv_E s) 0 (Get p i) st)"

text \<open>The quoted revision of \<open>If-Match\<close>.\<close>

definition matched_revision :: "http_request \<Rightarrow> http_error + int" where
  "matched_revision r =
     (let header = hr_IfMatch r
      in if length header < 3 \<or> hd header \<noteq> CHR 0x22 \<or> last header \<noteq> CHR 0x22
         then Inl (bad 400 ''invalid_request'' ''If-Match must contain the quoted allocation revision.'')
         else case ParseInt64 (butlast (tl header)) of
           None \<Rightarrow> Inl (bad 400 ''invalid_request'' ''Invalid allocation revision.'')
         | Some n \<Rightarrow> if n < 1 then Inl (bad 400 ''invalid_request'' ''Invalid allocation revision.'') else Inr n)"

text \<open>The members of a patch, in the order in which the map is visited.\<close>

fun patch_members ::
    "httplib \<Rightarrow> (string \<times> string) list \<Rightarrow> string option \<times> string gomap option option \<Rightarrow>
     http_error + string option \<times> string gomap option option" where
  "patch_members H [] acc = Inr acc"
| "patch_members H ((k, v) # rest) (description, labels) =
     (if v = ''null'' then Inl (bad 422 ''invalid_request'' ''Metadata cannot be null.'')
      else if k = ''description'' then
        (case hl_String H v of
           None \<Rightarrow> Inl (bad 422 ''invalid_request'' ''Invalid description.'')
         | Some d \<Rightarrow> patch_members H rest (Some d, labels))
      else if k = ''labels'' then
        (case hl_StringMap H v of
           None \<Rightarrow> Inl (bad 422 ''invalid_request'' ''Invalid labels.'')
         | Some l \<Rightarrow> patch_members H rest (description, Some (Some l)))
      else Inl (bad 422 ''invalid_request'' ''Only description and labels are mutable.''))"

definition patch_endpoint :: "server \<Rightarrow> string \<Rightarrow> http_request \<Rightarrow> Principal \<Rightarrow> endpoint" where
  "patch_endpoint s i r p =
     (case rbind (requestKey r) (\<lambda>key. rbind (matched_revision r) (\<lambda>etag.
             rbind (readJSON (sv_H s) (hl_Members (sv_H s)) r) (\<lambda>body.
               if body = [] then Inl (bad 422 ''invalid_request'' ''Supply description and/or labels.'')
               else map_sum id (\<lambda>(description, labels). (key, etag, description, labels)) (patch_members (sv_H s) body (None, None))))) of
        Inl e \<Rightarrow> refused e
      | Inr (key, etag, description, labels) \<Rightarrow>
          (\<lambda>st. answered (\<lambda>a. Inr (allocation_response s 200 a p)) (Patch (sv_E s) p i description labels etag key st)))"

definition bind_endpoint :: "server \<Rightarrow> string \<Rightarrow> http_request \<Rightarrow> Principal \<Rightarrow> endpoint" where
  "bind_endpoint s i r p =
     (case requestKey r of
        Inl e \<Rightarrow> refused e
      | Inr key \<Rightarrow>
          (case readJSON (sv_H s) (hl_Binding (sv_H s)) r of
             Inl e \<Rightarrow> refused e
           | Inr b \<Rightarrow> (\<lambda>st. answered (\<lambda>ans. outcome s ans p) (Bind (sv_E s) p i (b\<lparr>b_VerifiedAt := None\<rparr>) key st))))"

definition release_endpoint :: "server \<Rightarrow> string \<Rightarrow> Principal \<Rightarrow> endpoint" where
  "release_endpoint s i p st =
     answered (\<lambda>(a, status). Inr (if status = 204 then write_response 204 ONull else allocation_response s status a p))
       (Release (sv_E s) p i st)"

definition operation_endpoint :: "server \<Rightarrow> string \<Rightarrow> Principal \<Rightarrow> endpoint" where
  "operation_endpoint s i p st =
     answered (\<lambda>x. Inr ((write_response 200 (publicOperation x (sv_requestID s)))
         \<lparr>hs_RetryAfter := (if o_Status x = operationPending then Some ''2'' else None)\<rparr>))
       (view (sv_E s) 0 (GetOperation p i) st)"

definition cancelProgressDetails :: "goerr \<Rightarrow> CancelReport option \<Rightarrow> http_error" where
  "cancelProgressDetails e report =
     (e, case report of
           None \<Rightarrow> []
         | Some v \<Rightarrow> [(''allocation_id'', OStr (h_ID (cr_Allocation v))), (''operation_id'', OStr (q_ID (cr_Operation v))),
             (''fenced'', OBool (cr_Fenced v)), (''already_fenced'', OBool (cr_AlreadyFenced v)), (''removed'', OBool (cr_Removed v)),
             (''deleted'', OBool (cr_Deleted v))])"

text \<open>A call without an error has a report.\<close>

definition cancelOperation :: "server \<Rightarrow> string \<Rightarrow> Principal \<Rightarrow> endpoint" where
  "cancelOperation s i p st =
     (case CancelReservation (sv_E s) p i st of
        (st', report, Some e) \<Rightarrow> (st', Inl (cancelProgressDetails e report))
      | (st', report, None) \<Rightarrow> (st', Inr (write_response 200 (case report of None \<Rightarrow> ONull | Some v \<Rightarrow> cancel_object v))))"

definition list_filters :: "Allocation \<Rightarrow> (string \<times> string) list" where
  "list_filters a = [(''allocation_key'', a_AllocationKey a), (''scope'', a_Scope a), (''environment'', a_Environment a),
     (''region'', a_Region a), (''state'', state_text (a_State a)), (''parent_allocation_id'', a_ParentAllocationID a)]"

definition filters_allowed :: "http_request \<Rightarrow> bool" where
  "filters_allowed r \<longleftrightarrow>
     list_all (\<lambda>(k, v). k = ''cursor'' \<or> k = ''limit'' \<or>
       k \<in> set [''allocation_key'', ''scope'', ''environment'', ''region'', ''state'', ''parent_allocation_id''] \<and> length v = 1) (hr_Query r)"

definition filter_matches :: "http_request \<Rightarrow> Allocation \<Rightarrow> bool" where
  "filter_matches r a \<longleftrightarrow> list_all (\<lambda>(k, value). query_get r k = [] \<or> query_get r k = value) (list_filters a)"

definition list_endpoint :: "server \<Rightarrow> http_request \<Rightarrow> Principal \<Rightarrow> endpoint" where
  "list_endpoint s r p st =
     answered (\<lambda>xs.
         if \<not> filters_allowed r then Inl (bad 422 ''invalid_request'' ''Unknown or repeated list filter.'')
         else page r (map (\<lambda>a. (a_ID a, publicAllocation (sv_H s) (sv_cfg s) a p)) (filter (filter_matches r) xs)))
       (view (sv_E s) 0 (\<lambda>st. Inr (ListAllocations p st)) st)"

definition pools_endpoint :: "server \<Rightarrow> http_request \<Rightarrow> Principal \<Rightarrow> endpoint" where
  "pools_endpoint s r p st =
     (st, let ps = Pools (sv_cfg s) p
          in if ps = [] then Inl (bad 403 ''no_eligible_pool'' (''The authenticated identity'' @ [CHR 0x27] @ ''s tenant is eligible for no pool.''))
             else page r (map (\<lambda>pool. (pl_ID pool, public_pool (sv_cfg s) pool)) ps))"

definition capacity_endpoint :: "server \<Rightarrow> string \<Rightarrow> Principal \<Rightarrow> endpoint" where
  "capacity_endpoint s i p st = answered (\<lambda>v. Inr (write_response 200 (capacity_object v))) (capacity (sv_E s) p i st)"

definition findings_endpoint :: "server \<Rightarrow> http_request \<Rightarrow> Principal \<Rightarrow> endpoint" where
  "findings_endpoint s r p st =
     answered (\<lambda>fs. page r (map (\<lambda>f. (f_ID f, publicFinding f p)) fs)) (view (sv_E s) 0 (\<lambda>st. Inr (FindingsView p st)) st)"

section \<open>The handler\<close>

datatype route =
    Livez | Readyz | PostAllocations | GetAllocations | GetAllocation string | PatchAllocation string
  | DeleteAllocation string | PutBinding string | ReadOperation string | DeleteOperation string
  | GetPools | GetCapacity string | GetFindings

definition endpoint_of :: "server \<Rightarrow> route \<Rightarrow> http_request \<Rightarrow> Principal \<Rightarrow> endpoint" where
  "endpoint_of s rt r p =
     (case rt of
        PostAllocations \<Rightarrow> reserve_endpoint s r p
      | GetAllocations \<Rightarrow> list_endpoint s r p
      | GetAllocation i \<Rightarrow> get_endpoint s i p
      | PatchAllocation i \<Rightarrow> patch_endpoint s i r p
      | DeleteAllocation i \<Rightarrow> release_endpoint s i p
      | PutBinding i \<Rightarrow> bind_endpoint s i r p
      | ReadOperation i \<Rightarrow> operation_endpoint s i p
      | DeleteOperation i \<Rightarrow> cancelOperation s i p
      | GetPools \<Rightarrow> pools_endpoint s r p
      | GetCapacity i \<Rightarrow> capacity_endpoint s i p
      | GetFindings \<Rightarrow> findings_endpoint s r p
      | _ \<Rightarrow> refused (bad 404 ''not_found'' ''not_found''))"

text \<open>A run-time panic of a handler aborts the connection: there is no response.\<close>

definition respond :: "string \<Rightarrow> http_error + http_response \<Rightarrow> http_response option" where
  "respond requestID res =
     (case res of
        Inr resp \<Rightarrow> Some resp
      | Inl err \<Rightarrow> (case fst err of Panic _ \<Rightarrow> None | _ \<Rightarrow> Some (failure requestID err)))"

definition status_object :: "string \<Rightarrow> jout" where
  "status_object text = OObj [(''status'', OStr text)]"

definition serve :: "server \<Rightarrow> route \<Rightarrow> http_request \<Rightarrow> State \<Rightarrow> State \<times> http_response option" where
  "serve s rt r st =
     (case rt of
        Livez \<Rightarrow> (st, Some (write_response 200 (status_object ''alive'')))
      | Readyz \<Rightarrow>
          (st, Some (if ledgerReady (sv_E s) \<noteq> None then failure (sv_requestID s) (bad 503 ''dependency_unavailable'' ''Ledger is not ready.'')
                     else write_response 200 (status_object ''ready'')))
      | _ \<Rightarrow>
          (case Authenticate (v_K (sv_E s)) (sv_auth s) r of
             Inl e \<Rightarrow> (st, respond (sv_requestID s) (Inl e))
           | Inr p \<Rightarrow> (case endpoint_of s rt r p st of (st', res) \<Rightarrow> (st', respond (sv_requestID s) res))))"

end
