(* ===== verification/HttpProps.thy ===== *)
theory HttpProps
  imports Http TickRun Example
begin

text \<open>
  The properties of the HTTP transport: which bodies are accepted, that cursors lead through all items, who a request may
  come from, and that requests do to the ledger only what the service does.
\<close>

section \<open>Bodies\<close>

text \<open>The tokens of a JSON value, and the values without a null and without a repeated name at any depth.\<close>

fun json_tokens :: "jval \<Rightarrow> jtoken list" and member_tokens :: "(string \<times> jval) list \<Rightarrow> jtoken list"
  and element_tokens :: "jval list \<Rightarrow> jtoken list" where
  "json_tokens JNull = [TNull]"
| "json_tokens (JBool b) = [TLit]"
| "json_tokens (JNum n) = [TLit]"
| "json_tokens (JStr s) = [TStr s]"
| "json_tokens (JList vs) = TArr # element_tokens vs"
| "json_tokens (JObj ms) = TObj # member_tokens ms"
| "member_tokens [] = [TEndObj]"
| "member_tokens ((k, v) # ms) = TStr k # json_tokens v @ member_tokens ms"
| "element_tokens [] = [TEndArr]"
| "element_tokens (v # vs) = json_tokens v @ element_tokens vs"

fun strict :: "jval \<Rightarrow> bool" and strict_members :: "string list \<Rightarrow> (string \<times> jval) list \<Rightarrow> bool" and strict_elements :: "jval list \<Rightarrow> bool" where
  "strict JNull = False"
| "strict (JBool b) = True"
| "strict (JNum n) = True"
| "strict (JStr s) = True"
| "strict (JList vs) = strict_elements vs"
| "strict (JObj ms) = strict_members [] ms"
| "strict_members keys [] = True"
| "strict_members keys ((k, v) # ms) = (k \<notin> set keys \<and> strict v \<and> strict_members (k # keys) ms)"
| "strict_elements [] = True"
| "strict_elements (v # vs) = (strict v \<and> strict_elements vs)"

lemma strict_members_iff:
  "strict_members keys ms \<longleftrightarrow> distinct (map fst ms) \<and> set (map fst ms) \<inter> set keys = {} \<and> (\<forall>m \<in> set ms. strict (snd m))"
proof (induction ms arbitrary: keys)
  case (Cons m ms)
  obtain k v where "m = (k, v)" by fastforce
  then show ?case using Cons.IH [of "k # keys"] by auto
qed simp

lemma strict_elements_iff: "strict_elements vs \<longleftrightarrow> (\<forall>v \<in> set vs. strict v)"
  by (induction vs) auto

text \<open>What is accepted is a strict value.\<close>

definition objects_strict :: "nat \<Rightarrow> bool" where
  "objects_strict n \<longleftrightarrow>
     (\<forall>keys ts rest. checkObject n keys ts = Some rest \<longrightarrow> (\<exists>ms. ts = member_tokens ms @ rest \<and> strict_members keys ms))"

definition values_strict :: "nat \<Rightarrow> bool" where
  "values_strict n \<longleftrightarrow> (\<forall>ts rest. checkValue n ts = Some rest \<longrightarrow> (\<exists>v. ts = json_tokens v @ rest \<and> strict v))"

definition arrays_strict :: "nat \<Rightarrow> bool" where
  "arrays_strict n \<longleftrightarrow> (\<forall>ts rest. checkArray n ts = Some rest \<longrightarrow> (\<exists>vs. ts = element_tokens vs @ rest \<and> strict_elements vs))"

lemma objects_strict_Suc:
  assumes "objects_strict n" "values_strict n"
  shows "objects_strict (Suc n)"
  unfolding objects_strict_def
proof (intro allI impI)
  fix keys ts rest assume c: "checkObject (Suc n) keys ts = Some rest"
  consider "ts = TEndObj # rest" | s t r1 where "ts = TStr s # t" "s \<notin> set keys" "checkValue n t = Some r1" "checkObject n (s # keys) r1 = Some rest"
    using c by (auto split: list.splits jtoken.splits if_splits option.splits)
  then show "\<exists>ms. ts = member_tokens ms @ rest \<and> strict_members keys ms"
  proof cases
    case 1
    then show ?thesis by (intro exI [of _ "[]"]) simp
  next
    case (2 s t r1)
    obtain v ms where "t = json_tokens v @ r1" "strict v" "r1 = member_tokens ms @ rest" "strict_members (s # keys) ms"
      using assms 2(3,4) unfolding objects_strict_def values_strict_def by blast
    then show ?thesis using 2 by (intro exI [of _ "(s, v) # ms"]) simp
  qed
qed

lemma values_strict_Suc:
  assumes "objects_strict n" "arrays_strict n"
  shows "values_strict (Suc n)"
  unfolding values_strict_def
proof (intro allI impI)
  fix ts rest assume c: "checkValue (Suc n) ts = Some rest"
  consider t where "ts = TObj # t" "checkObject n [] t = Some rest" | t where "ts = TArr # t" "checkArray n t = Some rest"
    | s where "ts = TStr s # rest" | "ts = TLit # rest"
    using c by (auto split: list.splits jtoken.splits)
  then show "\<exists>v. ts = json_tokens v @ rest \<and> strict v"
  proof cases
    case (1 t)
    then obtain ms where "t = member_tokens ms @ rest" "strict_members [] ms" using assms(1) unfolding objects_strict_def by blast
    then show ?thesis using 1 by (intro exI [of _ "JObj ms"]) simp
  next
    case (2 t)
    then obtain vs where "t = element_tokens vs @ rest" "strict_elements vs" using assms(2) unfolding arrays_strict_def by blast
    then show ?thesis using 2 by (intro exI [of _ "JList vs"]) simp
  next
    case (3 s)
    then show ?thesis by (intro exI [of _ "JStr s"]) simp
  next
    case 4
    then show ?thesis by (intro exI [of _ "JBool True"]) simp
  qed
qed

lemma arrays_strict_Suc:
  assumes "values_strict n" "arrays_strict n"
  shows "arrays_strict (Suc n)"
  unfolding arrays_strict_def
proof (intro allI impI)
  fix ts rest assume c: "checkArray (Suc n) ts = Some rest"
  consider "ts = TEndArr # rest" | r1 where "checkValue n ts = Some r1" "checkArray n r1 = Some rest"
    using c by (auto split: list.splits jtoken.splits option.splits)
  then show "\<exists>vs. ts = element_tokens vs @ rest \<and> strict_elements vs"
  proof cases
    case 1
    then show ?thesis by (intro exI [of _ "[]"]) simp
  next
    case (2 r1)
    obtain v vs where "ts = json_tokens v @ r1" "strict v" "r1 = element_tokens vs @ rest" "strict_elements vs"
      using assms 2 unfolding values_strict_def arrays_strict_def by blast
    then show ?thesis by (intro exI [of _ "v # vs"]) simp
  qed
qed

lemma check_sound: "objects_strict n \<and> values_strict n \<and> arrays_strict n"
proof (induction n)
  case 0
  show ?case by (simp add: objects_strict_def values_strict_def arrays_strict_def)
qed (use objects_strict_Suc values_strict_Suc arrays_strict_Suc in blast)

text \<open>Every strict value is accepted, and twice its number of tokens is fuel enough.\<close>

lemma tokens_first: "\<exists>t ts. json_tokens v = t # ts \<and> t \<noteq> TEndArr \<and> t \<noteq> TEndObj"
  by (cases v) auto

lemma check_steps:
  "0 < n \<Longrightarrow> checkValue n (TLit # ts) = Some ts" "0 < n \<Longrightarrow> checkValue n (TStr s # ts) = Some ts"
  "0 < n \<Longrightarrow> checkValue n (TArr # ts) = checkArray (n - 1) ts" "0 < n \<Longrightarrow> checkValue n (TObj # ts) = checkObject (n - 1) [] ts"
  "0 < n \<Longrightarrow> checkObject n keys (TEndObj # ts) = Some ts" "0 < n \<Longrightarrow> checkArray n (TEndArr # ts) = Some ts"
  by (cases n; simp)+

lemma check_complete:
  "strict v \<Longrightarrow> 2 * length (json_tokens v) \<le> n \<Longrightarrow> checkValue n (json_tokens v @ rest) = Some rest"
  "strict_members keys ms \<Longrightarrow> 2 * length (member_tokens ms) \<le> n + 1 \<Longrightarrow> checkObject n keys (member_tokens ms @ rest) = Some rest"
  "strict_elements vs \<Longrightarrow> 2 * length (element_tokens vs) \<le> n + 1 \<Longrightarrow> checkArray n (element_tokens vs @ rest) = Some rest"
proof (induction v and keys ms and vs arbitrary: n rest and n rest and n rest rule: strict_strict_members_strict_elements.induct)
  case (8 keys k v ms)
  then obtain m where m: "n = Suc m" by (cases n) auto
  have "checkValue m (json_tokens v @ member_tokens ms @ rest) = Some (member_tokens ms @ rest)" using 8 m by simp
  moreover have "checkObject m (k # keys) (member_tokens ms @ rest) = Some rest" using 8 m by simp
  ultimately show ?case using 8(3) m by simp
next
  case (10 v vs)
  obtain t ts where t: "json_tokens v = t # ts" "t \<noteq> TEndArr" "t \<noteq> TEndObj" using tokens_first by blast
  then obtain m where m: "n = Suc m" using 10(4) by (cases n) auto
  have l: "length (element_tokens vs) \<ge> 1" by (induction vs) auto
  have "2 * length (json_tokens v) + 2 * length (element_tokens vs) \<le> Suc (Suc m)" using 10(4) m by simp
  then have "2 * length (json_tokens v) \<le> m" using l by linarith
  then have "checkValue m (json_tokens v @ element_tokens vs @ rest) = Some (element_tokens vs @ rest)" using 10(1,3) by simp
  moreover have "checkArray m (element_tokens vs @ rest) = Some rest" using 10 m t by simp
  ultimately show ?case using m t by (cases t) simp_all
qed (simp_all add: check_steps)

lemma check_tokens_None:
  "check_tokens ts ended = None \<longleftrightarrow> ended \<and> (\<exists>ms. ts = json_tokens (JObj ms) \<and> strict (JObj ms))"
proof
  assume l: "check_tokens ts ended = None"
  then obtain rest where rest: "ts = TObj # rest" by (cases ts) (auto simp: check_tokens_def split: if_splits)
  have "checkObject (2 * length ts) [] rest = Some [] \<and> ended"
    using l by (simp add: check_tokens_def rest del: checkObject.simps split: option.splits if_splits)
  moreover obtain ms where "rest = member_tokens ms" "strict_members [] ms"
    using check_sound calculation unfolding objects_strict_def by fastforce
  ultimately show "ended \<and> (\<exists>ms. ts = json_tokens (JObj ms) \<and> strict (JObj ms))" using rest by auto
next
  assume "ended \<and> (\<exists>ms. ts = json_tokens (JObj ms) \<and> strict (JObj ms))"
  then obtain ms where ms: "ended" "ts = TObj # member_tokens ms" "strict_members [] ms" by auto
  have "checkObject (2 * length ts) [] (member_tokens ms) = Some []"
    using check_complete(2) [OF ms(3), of "2 * length ts" "[]"] ms(2) by (simp del: checkObject.simps)
  then show "check_tokens ts ended = None" using ms(1,2) by (simp add: check_tokens_def del: checkObject.simps)
qed

text \<open>
  C25. A body is accepted exactly when it is declared as JSON, is no longer than one mebibyte and is one JSON object that contains
  no null and repeats no name at any depth, and it decodes with only documented fields.
\<close>

theorem accepted_bodies_are_strict:
  "readJSON H decode r = Inr v \<longleftrightarrow>
     hl_MediaType H (hr_ContentType r) = Some ''application/json'' \<and> length (hr_Body r) \<le> 2 ^ 20 \<and> decode (hr_Body r) = Some v \<and>
     (\<exists>ms. hl_Tokens H (hr_Body r) = (json_tokens (JObj ms), True) \<and> strict (JObj ms))"
proof -
  have "(\<exists>ms. hl_Tokens H (hr_Body r) = (json_tokens (JObj ms), True) \<and> strict (JObj ms)) \<longleftrightarrow>
      check_tokens (fst (hl_Tokens H (hr_Body r))) (snd (hl_Tokens H (hr_Body r))) = None"
    unfolding check_tokens_None by (cases "hl_Tokens H (hr_Body r)") (simp, blast)
  then show ?thesis by (simp add: readJSON_def maxBody_def not_less split: option.split)
qed

section \<open>Cursors\<close>

fun sextets :: "string \<Rightarrow> nat list" where
  "sextets [] = []"
| "sextets [a] = [byte_of a div 4, byte_of a mod 4 * 16]"
| "sextets [a, b] = [byte_of a div 4, byte_of a mod 4 * 16 + byte_of b div 16, byte_of b mod 16 * 4]"
| "sextets (a # b # c # rest) =
     [byte_of a div 4, byte_of a mod 4 * 16 + byte_of b div 16, byte_of b mod 16 * 4 + byte_of c div 64, byte_of c mod 64] @ sextets rest"

lemma b64_encode_sextets: "b64_encode s = map ((!) alphabet) (sextets s)"
  by (induction s rule: b64_encode.induct) simp_all

lemma byte_of_less: "byte_of c < 256"
  by (simp add: byte_of_def)

lemma char_of_byte_of: "char_of (byte_of c) = c"
  by (simp add: byte_of_def)

lemma sextets_less: "n \<in> set (sextets s) \<Longrightarrow> n < 64"
proof (induction s rule: sextets.induct)
  case (2 a)
  then show ?case using byte_of_less [of a] by auto
next
  case (3 a b)
  then show ?case using byte_of_less [of a] byte_of_less [of b] by auto
next
  case (4 a b c rest)
  then show ?case using byte_of_less [of a] byte_of_less [of b] byte_of_less [of c] by auto
qed simp

lemma alphabet_facts: "length alphabet = 64" "distinct alphabet" "CHR 0x0A \<notin> set alphabet" "CHR 0x0D \<notin> set alphabet"
  by (simp_all add: alphabet_def)

lemma sextet_alphabet: "n < 64 \<Longrightarrow> sextet (alphabet ! n) = Some n"
  unfolding sextet_def using alphabet_facts by (intro map_of_is_SomeI) (auto simp: in_set_zip)

lemma split_join:
  fixes a b :: nat
  assumes "0 < k" "r < k"
  shows "(a * k + r) div k = a" "(a * k + r) mod k = r"
  using assms by simp_all

lemma sextet_joins:
  fixes a b c :: nat
  assumes "b < 256" "c < 256"
  shows "a div 4 * 4 + (a mod 4 * 16 + b div 16) div 16 = a"
    "(a mod 4 * 16 + b div 16) mod 16 * 16 + (b mod 16 * 4 + c div 64) div 4 = b"
    "(b mod 16 * 4 + c div 64) mod 4 * 64 + c mod 64 = c"
proof -
  have l: "b div 16 < 16" "c div 64 < 4" using assms by simp_all
  show "a div 4 * 4 + (a mod 4 * 16 + b div 16) div 16 = a" using split_join(1) [OF _ l(1), of "a mod 4"] by simp
  show "(a mod 4 * 16 + b div 16) mod 16 * 16 + (b mod 16 * 4 + c div 64) div 4 = b"
    using split_join(2) [OF _ l(1), of "a mod 4"] split_join(1) [OF _ l(2), of "b mod 16"] by simp
  show "(b mod 16 * 4 + c div 64) mod 4 * 64 + c mod 64 = c"
    using split_join(2) [OF _ l(2), of "b mod 16"] by simp
qed

lemma b64_bytes_sextets: "b64_bytes (sextets s) = Some s"
proof (induction s rule: sextets.induct)
  case (2 a)
  then show ?case using sextet_joins(1) [where b = 0 and c = 0 and a = "byte_of a"] by (simp add: char_of_byte_of)
next
  case (3 a b)
  then show ?case
    using sextet_joins(1,2) [where b = "byte_of b" and c = 0 and a = "byte_of a"] byte_of_less [of b] by (simp add: char_of_byte_of)
next
  case (4 a b c rest)
  then show ?case
    using sextet_joins(1,2) [where b = "byte_of b" and c = "byte_of c" and a = "byte_of a"] sextet_joins(3) [of "byte_of b" "byte_of c"] byte_of_less [of b] byte_of_less [of c] by (simp add: char_of_byte_of)
qed simp

lemma b64_round_trip: "b64_decode (b64_encode s) = Some s"
proof -
  have "map sextet (b64_encode s) = map Some (sextets s)"
    using sextets_less by (simp add: b64_encode_sextets sextet_alphabet)
  moreover have "filter (\<lambda>c. c \<noteq> CHR 0x0A \<and> c \<noteq> CHR 0x0D) (b64_encode s) = b64_encode s"
    unfolding b64_encode_sextets filter_id_conv using sextets_less alphabet_facts by (fastforce dest: nth_mem)
  ultimately show ?thesis
    unfolding b64_decode_def Let_def by (simp only: map_map o_def option.sel list.map_ident) (simp add: b64_bytes_sextets o_def image_iff)
qed

lemma b64_encode_Nil [simp]: "b64_encode s = [] \<longleftrightarrow> s = []"
  by (cases s rule: b64_encode.cases) simp_all

section \<open>Pages\<close>

abbreviation after :: "string \<Rightarrow> (string \<times> 'a) list \<Rightarrow> (string \<times> 'a) list" where
  "after cursor items \<equiv> filter (\<lambda>i. cursor < fst i) items"

lemma page_select_after:
  assumes "length selected \<le> limit"
  shows "page_select cursor limit selected items =
    (let sel = selected @ take (limit - length selected) (after cursor items)
     in (sel, if length (after cursor items) > limit - length selected then Some (fst (last sel)) else None))"
  using assms
proof (induction cursor limit selected items rule: page_select.induct)
  case (2 cursor limit selected item items)
  show ?case
  proof (cases "fst item \<le> cursor \<or> length selected = limit")
    case True
    then show ?thesis using 2 by (auto simp: Let_def not_less)
  next
    case False
    then have l: "limit - length selected = Suc (limit - Suc (length selected))" using 2(3) by linarith
    show ?thesis using False 2(2,3) l by (auto simp: Let_def)
  qed
qed simp

text \<open>A client that follows the cursors until there is none.\<close>

fun walk :: "nat \<Rightarrow> http_request \<Rightarrow> (string \<times> 'a) list \<Rightarrow> (string \<times> 'a) list option" where
  "walk 0 r items = None"
| "walk (Suc n) r items =
     (case page_items r items of
        Inl _ \<Rightarrow> None
      | Inr (selected, None) \<Rightarrow> Some selected
      | Inr (selected, Some next) \<Rightarrow> map_option ((@) selected) (walk n (r\<lparr>hr_Query := mput ''cursor'' [next] (hr_Query r)\<rparr>) items))"

lemma after_last:
  assumes "sorted_wrt (\<lambda>x y. fst x < fst y) xs" "0 < n" "n < length xs"
  shows "after (fst (last (take n xs))) xs = drop n xs"
proof -
  have l: "last (take n xs) = xs ! (n - 1)" using assms(2,3) by (cases n) (simp_all add: take_Suc_conv_app_nth)
  have "after (fst (xs ! (n - 1))) (take n xs) = []"
  proof (rule filter_False, rule ballI)
    fix x assume "x \<in> set (take n xs)"
    then obtain i where "i < n" "x = xs ! i" using assms(3) by (auto simp: in_set_conv_nth)
    then show "\<not> fst (xs ! (n - 1)) < fst x"
      using assms sorted_wrt_nth_less [OF assms(1), of i "n - 1"] by (cases "i = n - 1") (auto dest: order.asym)
  qed
  moreover have "after (fst (xs ! (n - 1))) (drop n xs) = drop n xs"
  proof (rule filter_True, rule ballI)
    fix x assume "x \<in> set (drop n xs)"
    then obtain i where "i < length xs - n" "x = xs ! (n + i)" using assms(3) by (auto simp: in_set_conv_nth)
    then show "fst (xs ! (n - 1)) < fst x" using assms sorted_wrt_nth_less [OF assms(1), of "n - 1" "n + i"] by simp
  qed
  ultimately show ?thesis unfolding l by (metis append_take_drop_id append_Nil filter_append)
qed

lemma page_items_at:
  assumes "page_limit r = Inr limit" "page_cursor r = Inr cursor"
    and "\<forall>k \<in> {''cursor'', ''limit''}. \<forall>vs. mget (hr_Query r) k = Some vs \<longrightarrow> length vs \<le> 1"
  shows "page_items r items =
    Inr (take limit (after cursor (sort_key fst items)),
         if length (after cursor (sort_key fst items)) > limit
         then Some (b64_encode (fst (last (take limit (after cursor (sort_key fst items)))))) else None)"
  using assms page_select_after [of "[]" limit cursor "sort_key fst items"]
  by (auto simp: page_items_def Let_def split: option.splits)

lemma page_limit_range: "page_limit r = Inr limit \<Longrightarrow> 1 \<le> limit \<and> limit \<le> 200"
  by (auto simp: page_limit_def Let_def split: if_splits option.splits)

lemma next_request:
  assumes "c \<noteq> []" "length c \<le> 256" "page_limit r = Inr limit"
    and "\<forall>k \<in> {''cursor'', ''limit''}. \<forall>vs. mget (hr_Query r) k = Some vs \<longrightarrow> length vs \<le> 1"
  defines "r' \<equiv> r\<lparr>hr_Query := mput ''cursor'' [b64_encode c] (hr_Query r)\<rparr>"
  shows "page_limit r' = Inr limit" "page_cursor r' = Inr c"
    "\<forall>k \<in> {''cursor'', ''limit''}. \<forall>vs. mget (hr_Query r') k = Some vs \<longrightarrow> length vs \<le> 1"
proof -
  have "query_get r' ''limit'' = query_get r ''limit''" by (simp add: r'_def query_get_def)
  then show "page_limit r' = Inr limit" using assms(3) by (simp add: page_limit_def)
  show "page_cursor r' = Inr c" using assms(1,2) by (simp add: r'_def page_cursor_def query_get_def b64_round_trip)
  show "\<forall>k \<in> {''cursor'', ''limit''}. \<forall>vs. mget (hr_Query r') k = Some vs \<longrightarrow> length vs \<le> 1"
    using assms(4) by (auto simp: r'_def)
qed

lemma walk_after:
  assumes "sorted_wrt (\<lambda>x y. fst x < fst y) (sort_key fst items)" "\<forall>i \<in> set items. fst i \<noteq> [] \<and> length (fst i) \<le> 256"
    and "page_limit r = Inr limit" "page_cursor r = Inr cursor"
    and "\<forall>k \<in> {''cursor'', ''limit''}. \<forall>vs. mget (hr_Query r) k = Some vs \<longrightarrow> length vs \<le> 1"
    and "length (after cursor (sort_key fst items)) < n"
  shows "walk n r items = Some (after cursor (sort_key fst items))"
  using assms
proof (induction n arbitrary: r cursor)
  case (Suc n)
  let ?xs = "after cursor (sort_key fst items)"
  note p = page_items_at [OF Suc.prems(3-5), of items]
  show ?case
  proof (cases "length ?xs > limit")
    case False
    then show ?thesis by (simp add: p)
  next
    case True
    define c where "c = fst (last (take limit ?xs))"
    have pos: "0 < limit" using page_limit_range [OF Suc.prems(3)] by simp
    have s: "sorted_wrt (\<lambda>x y. fst x < fst y) ?xs" using Suc.prems(1) by (rule sorted_wrt_filter)
    have drop: "after c ?xs = drop limit ?xs" unfolding c_def by (rule after_last [OF s pos True])
    have "last (take limit ?xs) \<in> set (take limit ?xs)" using pos True by (intro last_in_set) auto
    then have m: "last (take limit ?xs) \<in> set ?xs" by (rule in_set_takeD)
    then have cursor: "cursor < c" and c: "c \<noteq> []" "length c \<le> 256" using Suc.prems(2) by (auto simp: c_def)
    have after: "after c (sort_key fst items) = drop limit ?xs"
      using cursor unfolding drop [symmetric] filter_filter by (intro filter_cong) auto
    have "walk n (r\<lparr>hr_Query := mput ''cursor'' [b64_encode c] (hr_Query r)\<rparr>) items = Some (drop limit ?xs)"
      unfolding after [symmetric]
      by (rule Suc.IH [OF Suc.prems(1,2) next_request [OF c Suc.prems(3,5)]])
        (use Suc.prems(6) pos True after in simp)
    then show ?thesis using True by (simp add: p c_def)
  qed
qed simp

text \<open>
  C24. A client that follows the cursors of a list reaches its end: after at most one request more than there are items it has received
  every item exactly once, in the order of the identifiers. It needs identifiers that are distinct, not empty and at
  most 256 bytes long, the longest cursor that is accepted back.
\<close>

theorem following_cursors_visits_every_item:
  assumes "distinct (map fst items)" and "\<forall>i \<in> set items. fst i \<noteq> [] \<and> length (fst i) \<le> 256"
    and "page_limit r = Inr limit" and "mget (hr_Query r) ''cursor'' = None" and "\<forall>vs. mget (hr_Query r) ''limit'' = Some vs \<longrightarrow> length vs \<le> 1"
  shows "walk (Suc (length items)) r items = Some (sort_key fst items)"
proof -
  have "distinct (map fst (sort_key fst items))" using assms(1) by (metis distinct_map distinct_sort set_sort)
  then have "sorted_wrt (<) (map fst (sort_key fst items))" unfolding strict_sorted_iff by simp
  then have s: "sorted_wrt (\<lambda>x y. fst x < fst y) (sort_key fst items)" by (simp add: sorted_wrt_map)
  have c: "page_cursor r = Inr []" using assms(4) by (simp add: page_cursor_def query_get_def)
  have a: "after [] (sort_key fst items) = sort_key fst items" using assms(2) by (intro filter_True) (fastforce simp: neq_Nil_conv)
  have q: "\<forall>k \<in> {''cursor'', ''limit''}. \<forall>vs. mget (hr_Query r) k = Some vs \<longrightarrow> length vs \<le> 1" using assms(4,5) by auto
  show ?thesis using walk_after [OF s assms(2,3) c q, of "Suc (length items)"] unfolding a by simp
qed

definition ex_http :: http_request where
  "ex_http = \<lparr>hr_Authorization = [''Bearer '' @ replicate 24 CHR ''x''], hr_ContentType = ''application/json'', hr_IdempotencyKey = ''key-1'',
     hr_IfMatch = [], hr_Query = [(''limit'', [''2''])], hr_Body = ''{}''\<rparr>"

theorem following_cursors_visits_every_item_witness:
  "walk 4 ex_http [(''alloc_c'', ()), (''alloc_a'', ()), (''alloc_b'', ())] =
     Some [(''alloc_a'', ()), (''alloc_b'', ()), (''alloc_c'', ())] \<and>
   page_items ex_http [(''alloc_c'', ()), (''alloc_a'', ()), (''alloc_b'', ())] =
     Inr ([(''alloc_a'', ()), (''alloc_b'', ())], Some ''YWxsb2NfYg'')"
proof
  let ?items = "[(''alloc_c'', ()), (''alloc_a'', ()), (''alloc_b'', ())]"
  have "page_limit ex_http = Inr 2" by code_simp
  then have "walk (Suc (length ?items)) ex_http ?items = Some (sort_key fst ?items)"
    by (intro following_cursors_visits_every_item [where limit = 2]) (simp_all add: ex_http_def mget_def)
  moreover have "sort_key fst ?items = [(''alloc_a'', ()), (''alloc_b'', ()), (''alloc_c'', ())]" by code_simp
  ultimately show "walk 4 ex_http ?items = Some [(''alloc_a'', ()), (''alloc_b'', ()), (''alloc_c'', ())]" by (simp add: numeral_eq_Suc)
  show "page_items ex_http ?items = Inr ([(''alloc_a'', ()), (''alloc_b'', ())], Some ''YWxsb2NfYg'')" by code_simp
qed

section \<open>Authentication\<close>

lemma matched_subject_Some:
  assumes "matched_subject h cs = Some subject"
  shows "(subject, h) \<in> set cs"
proof -
  have "fold (\<lambda>(subject, hash) matched. if h = hash then Some subject else matched) cs m = Some subject \<Longrightarrow>
      (subject, h) \<in> set cs \<or> m = Some subject" for m
    by (induction cs arbitrary: m) (auto split: if_splits prod.splits)
  from this [of None] show ?thesis using assms by (simp add: matched_subject_def)
qed

lemma extra_loop_tokens:
  "extra_loop identities subjects secrets pairs = Inr extra \<Longrightarrow> (subject, token) \<in> set extra \<Longrightarrow> length token \<ge> 24"
proof (induction pairs arbitrary: subjects secrets extra)
  case (Cons pair pairs)
  obtain s t where e: "extra_credential identities subjects secrets pair = Inr (s, t)" using Cons.prems(1) by (auto simp: rbind_Inr_iff)
  obtain extra' where l: "extra_loop identities (s # subjects) (t # secrets) pairs = Inr extra'" "extra = (s, t) # extra'"
    using Cons.prems(1) e by (cases "extra_loop identities (s # subjects) (t # secrets) pairs") auto
  have "length t \<ge> 24" using e by (auto simp: extra_credential_def Let_def split: if_splits)
  then show ?case using Cons.IH [OF l(1)] Cons.prems(2) l(2) by auto
qed simp

lemma identities_of_entries:
  assumes "mget (fold (\<lambda>p. mput (p_Subject p) p) entries []) k = Some p"
  shows "p \<in> set entries \<and> p_Subject p = k"
proof -
  have "mget (fold (\<lambda>p. mput (p_Subject p) p) entries m) k = Some p \<Longrightarrow> p \<in> set entries \<and> p_Subject p = k \<or> mget m k = Some p" for m
  proof (induction entries arbitrary: m)
    case (Cons e entries)
    then show ?case using Cons.IH [of "mput (p_Subject e) e m"] by (auto split: if_splits)
  qed simp
  from this [of "[]"] show ?thesis using assms by simp
qed

text \<open>What a server that started accepts as a proof of a subject.\<close>

definition proves :: "Crypto \<Rightarrow> Settings \<Rightarrow> Principal list \<Rightarrow> (goerr + (string \<Rightarrow> (string \<times> string option) option)) \<Rightarrow> string \<Rightarrow> string \<Rightarrow> bool" where
  "proves K s entries provider token subject \<longleftrightarrow>
     (if s_AuthMode s = ''local'' then
        s_Environment s = ''development'' \<and>
        (\<exists>extra secret. parseExtraCredentials (s_LocalExtraCredentials s) (s_LocalToken s) (s_LocalSubject s)
             (fold (\<lambda>p. mput (p_Subject p) p) entries []) = Inr extra \<and>
           (subject, secret) \<in> set ((s_LocalSubject s, s_LocalToken s) # extra) \<and> length secret \<ge> 24 \<and> sha256hex K token = sha256hex K secret)
      else s_AuthMode s = ''oidc'' \<and>
        (\<exists>verify use. provider = Inr verify \<and> verify token = Some (subject, Some use) \<and> (use = [] \<or> use = ''access'')))"

lemma bearer_subject_proves:
  assumes "NewAuth K s entries provider = Inr a" "bearer_subject K a token = Inr subject"
  shows "proves K s entries provider token subject"
proof (cases "s_AuthMode s = ''local''")
  case True
  let ?ids = "fold (\<lambda>p. mput (p_Subject p) p) entries []"
  have g: "s_Environment s = ''development''" "length (s_LocalToken s) \<ge> 24"
    using assms(1) True by (simp_all add: NewAuth_def Let_def split: if_splits)
  obtain extra where e: "parseExtraCredentials (s_LocalExtraCredentials s) (s_LocalToken s) (s_LocalSubject s) ?ids = Inr extra"
      "au_credentials a = map (\<lambda>(subject, token). (subject, sha256hex K token)) ((s_LocalSubject s, s_LocalToken s) # extra)" "au_mode a = ''local''"
    using assms(1) True
    by (cases "parseExtraCredentials (s_LocalExtraCredentials s) (s_LocalToken s) (s_LocalSubject s) ?ids") (auto simp: NewAuth_def Let_def split: if_splits)
  have "matched_subject (sha256hex K token) (au_credentials a) = Some subject"
    using assms(2) e(3) by (simp add: bearer_subject_def split: option.splits)
  then obtain secret where secret: "(subject, secret) \<in> set ((s_LocalSubject s, s_LocalToken s) # extra)" "sha256hex K token = sha256hex K secret"
    using matched_subject_Some [of "sha256hex K token" "au_credentials a" subject] unfolding e(2) by auto
  have "length secret \<ge> 24"
    using secret(1) g(2) extra_loop_tokens e(1) by (auto simp: parseExtraCredentials_def split: if_splits)
  then show ?thesis using True g(1) e(1) secret by (auto simp: proves_def)
next
  case False
  then have m: "s_AuthMode s = ''oidc''" using assms(1) by (simp add: NewAuth_def Let_def split: if_splits)
  obtain verify where v: "provider = Inr verify" "au_verify a = verify" "au_mode a = ''oidc''"
    using assms(1) m by (cases provider) (auto simp: NewAuth_def Let_def split: if_splits)
  obtain u where "verify token = Some (subject, Some u)" "u = [] \<or> u = ''access''"
    using assms(2) v(2,3) by (auto simp: bearer_subject_def split: option.splits if_splits)
  then show ?thesis using m v(1) by (simp add: proves_def)
qed

lemma NewAuth_identities:
  "NewAuth K s entries provider = Inr a \<Longrightarrow> au_identities a = fold (\<lambda>p. mput (p_Subject p) p) entries []"
  by (cases provider; cases "parseExtraCredentials (s_LocalExtraCredentials s) (s_LocalToken s) (s_LocalSubject s) (fold (\<lambda>p. mput (p_Subject p) p) entries [])")
    (auto simp: NewAuth_def Let_def split: if_splits)

lemma Authenticate_Inr:
  assumes "Authenticate K a r = Inr p"
  obtains val scheme token subject where "hr_Authorization r = [val]" "Fields val = [scheme, token]" "EqualFold scheme ''Bearer''"
    "length token \<le> 16384" "bearer_subject K a token = Inr subject" "mget (au_identities a) subject = Some p"
proof -
  obtain val where val: "hr_Authorization r = [val]"
    using assms by (cases "hr_Authorization r" rule: remdups_adj.cases) (simp_all add: Authenticate_def)
  obtain scheme token where f: "Fields val = [scheme, token]"
    using assms val by (auto simp: Authenticate_def split: list.splits)
  show thesis
    using assms val f that [OF val f] by (auto simp: Authenticate_def rbind_Inr_iff not_less split: if_splits option.splits)
qed

text \<open>
  C21. A request is served for a principal only when it carries exactly one authorization header with one bearer token of at most 16384
  bytes, the principal is one of the configured ones, and the token proves its subject: in local mode, which only
  starts in a development environment, the digest of the token is that of a configured secret of at least 24
  characters that belongs to this subject; otherwise the OIDC verifier accepted it as an access token of this subject.
\<close>

theorem authenticated_principal_is_configured:
  assumes "NewAuth K s entries provider = Inr a" and "Authenticate K a r = Inr p"
  shows "p \<in> set entries \<and>
    (\<exists>val scheme token. hr_Authorization r = [val] \<and> Fields val = [scheme, token] \<and> EqualFold scheme ''Bearer'' \<and>
       length token \<le> 16384 \<and> proves K s entries provider token (p_Subject p))"
proof (rule Authenticate_Inr [OF assms(2)])
  fix val scheme token subject
  assume h: "hr_Authorization r = [val]" "Fields val = [scheme, token]" "EqualFold scheme ''Bearer''" "length token \<le> 16384"
    and b: "bearer_subject K a token = Inr subject" and p: "mget (au_identities a) subject = Some p"
  have "p \<in> set entries" "p_Subject p = subject" using identities_of_entries p unfolding NewAuth_identities [OF assms(1)] by blast+
  then show ?thesis using h bearer_subject_proves [OF assms(1) b] by auto
qed

definition ex_settings :: Settings where
  "ex_settings = (Environment (\<lambda>_. []))\<lparr>s_LocalToken := replicate 24 CHR ''x'', s_LocalSubject := ''alice''\<rparr>"

definition ex_auth :: Auth where
  "ex_auth = \<lparr>au_mode = ''local'', au_subject = ''alice'', au_identities = [(''alice'', ex_principal)], au_verify = (\<lambda>_. None),
     au_credentials = [(''alice'', replicate 24 CHR ''x'')]\<rparr>"

lemma ex_started: "NewAuth ex_crypto ex_settings [ex_principal] (Inl (OtherErr [])) = Inr ex_auth"
  by (simp add: NewAuth_def ex_settings_def Environment_def env_get_def ex_auth_def parseExtraCredentials_def ex_principal_def ex_crypto_def mput_def mget_def)

lemma ex_authenticated: "Authenticate ex_crypto ex_auth ex_http = Inr ex_principal"
  by code_simp

theorem authenticated_principal_is_configured_witness:
  "proves ex_crypto ex_settings [ex_principal] (Inl (OtherErr [])) (replicate 24 CHR ''x'') ''alice''"
proof -
  have f: "hr_Authorization ex_http = [''Bearer '' @ replicate 24 CHR ''x'']" "Fields (''Bearer '' @ replicate 24 CHR ''x'') = [''Bearer'', replicate 24 CHR ''x'']"
    "p_Subject ex_principal = ''alice''" by code_simp+
  show ?thesis using authenticated_principal_is_configured [OF ex_started ex_authenticated] unfolding f(1,3) by (auto simp only: list.inject f(2))
qed

section \<open>The ledger\<close>

lemma answered_state: "answered f res = (st', x) \<Longrightarrow> st' = fst res"
  by (simp add: answered_def)

lemma read_run: "cooperative E \<Longrightarrow> fst (view E 0 fn st) = st' \<Longrightarrow> ledger_run st st'"
  by (simp add: view_def Let_def) (use others_run in blast)

lemma capacity_run:
  assumes "cooperative E"
  shows "ledger_run st (fst (capacity E p i st))"
proof (cases "capacity_pool (v_cfg E) p i")
  case (Some pool)
  obtain snap complete where snap: "capacity_snapshot E (domainFor (v_cfg E) (pl_DomainID pool)) = (snap, complete)" by fastforce
  show ?thesis
  proof (cases "ParsePrefix (pl_CIDR pool)")
    case (Some base)
    have "fst (capacity E p i st) = v_others E 0 st"
      using \<open>capacity_pool (v_cfg E) p i = Some pool\<close> Some snap
      by (auto simp: capacity_def view_def Let_def split: sum.split option.split)
    then show ?thesis using others_run [OF assms] by simp
  qed (simp add: capacity_def \<open>capacity_pool (v_cfg E) p i = Some pool\<close> Let_def)
qed (simp add: capacity_def)

lemma endpoint_run:
  assumes "endpoint_of s rt r p st = (st', res)" "cooperative (sv_E s)" "ids_fresh (sv_E s) st" "ledger_ok st"
  shows "ledger_run st st'"
proof -
  have serves: "ledger_run st st'" if "serves st st'" using serves_run [OF that assms(4)] .
  have refl: "ledger_run st st" by simp
  show ?thesis
  proof (cases rt)
    case PostAllocations
    then show ?thesis using assms(1) refl serves serves.Reserve [OF _ assms(2,3)]
      by (auto simp: endpoint_of_def reserve_endpoint_def refused_def answered_def split: sum.splits) (metis prod.collapse)
  next
    case GetAllocations
    then show ?thesis using assms(1) read_run [OF assms(2)] by (auto simp: endpoint_of_def list_endpoint_def answered_def)
  next
    case (GetAllocation i)
    then show ?thesis using assms(1) read_run [OF assms(2)] by (auto simp: endpoint_of_def get_endpoint_def answered_def)
  next
    case (PatchAllocation i)
    then show ?thesis using assms(1) refl serves serves.Patch [OF _ assms(2)]
      by (auto simp: endpoint_of_def patch_endpoint_def refused_def answered_def split: sum.splits) (metis prod.collapse)
  next
    case (DeleteAllocation i)
    then show ?thesis using assms(1) serves serves.Release [OF _ assms(2)]
      by (auto simp: endpoint_of_def release_endpoint_def answered_def) (metis prod.collapse)
  next
    case (PutBinding i)
    then show ?thesis using assms(1) refl serves serves.Bind [OF _ assms(2,3)]
      by (auto simp: endpoint_of_def bind_endpoint_def refused_def answered_def split: sum.splits) (metis prod.collapse)
  next
    case (ReadOperation i)
    then show ?thesis using assms(1) read_run [OF assms(2)] by (auto simp: endpoint_of_def operation_endpoint_def answered_def)
  next
    case (DeleteOperation i)
    then show ?thesis using assms(1) serves serves.Cancel [OF _ assms(2)]
      by (auto simp: endpoint_of_def cancelOperation_def split: prod.splits option.splits)
  next
    case (GetCapacity i)
    then show ?thesis using assms(1) capacity_run [OF assms(2), of st p i] by (auto simp: endpoint_of_def capacity_endpoint_def answered_def)
  next
    case GetFindings
    then show ?thesis using assms(1) read_run [OF assms(2)] by (auto simp: endpoint_of_def findings_endpoint_def answered_def)
  qed (use assms(1) refl in \<open>auto simp: endpoint_of_def refused_def pools_endpoint_def\<close>)
qed

lemma Authenticate_status:
  assumes "Authenticate K a r = Inl e"
  shows "hs_Status (failure i e) \<in> {401, 403} \<and> respond i (Inl e) = Some (failure i e)"
proof -
  have "(\<exists>m. e = unauthenticated m) \<or> (\<exists>m. e = bad 403 ''forbidden'' m)"
    using assms unfolding Authenticate_def bearer_subject_def
    by (auto simp: rbind_Inl_iff split: list.splits if_splits option.splits prod.splits)
  then show ?thesis
    by (auto simp: unauthenticated_def bad_def plain_error_def apiErr_def Err_def failure_def respond_def api_error_def write_response_def)
qed

text \<open>
  C7. Whatever is requested, the ledger moves only by transactions of the service: the state after a request is reachable when the
  state before it is. A request that does not authenticate changes nothing and is answered 401 or 403.
\<close>

theorem http_requests_keep_the_ledger:
  assumes "reachable st" and "cooperative (sv_E s)" and "ids_fresh (sv_E s) st" and "serve s rt r st = (st', resp)"
  shows "reachable st' \<and>
    (rt \<noteq> Livez \<and> rt \<noteq> Readyz \<and> \<not> (\<exists>p. Authenticate (v_K (sv_E s)) (sv_auth s) r = Inr p) \<longrightarrow>
       st' = st \<and> (\<exists>x. resp = Some x \<and> hs_Status x \<in> {401, 403}))"
proof (cases "rt = Livez \<or> rt = Readyz")
  case True
  then show ?thesis using assms(1,4) by (auto simp: serve_def)
next
  case False
  then have serve: "serve s rt r st = (case Authenticate (v_K (sv_E s)) (sv_auth s) r of
      Inl e \<Rightarrow> (st, respond (sv_requestID s) (Inl e))
    | Inr p \<Rightarrow> (case endpoint_of s rt r p st of (st', res) \<Rightarrow> (st', respond (sv_requestID s) res)))"
    using False by (cases rt; hypsubst; simp add: serve_def)
  show ?thesis
  proof (cases "Authenticate (v_K (sv_E s)) (sv_auth s) r")
    case (Inl e)
    then show ?thesis using serve assms(1,4) Authenticate_status [OF Inl, of "sv_requestID s"] by auto
  next
    case (Inr p)
    then obtain res where "endpoint_of s rt r p st = (st', res)" using serve assms(4) by (auto split: prod.splits)
    from endpoint_run [OF this assms(2,3) reachable_ok [OF assms(1)]] show ?thesis
      using assms(1) Inr by (auto simp: reachable_def intro: run_trans)
  qed
qed

definition ex_httplib :: httplib where
  "ex_httplib = \<lparr>hl_MediaType = Some, hl_Tokens = (\<lambda>_. ([TObj, TEndObj], True)), hl_Request = (\<lambda>_. Some ex_request2),
     hl_Binding = (\<lambda>_. None), hl_Members = (\<lambda>_. None), hl_String = Some, hl_StringMap = (\<lambda>_. None), hl_PathEscape = id\<rparr>"

definition ex_server :: server where
  "ex_server = \<lparr>sv_H = ex_httplib, sv_E = ex_env2, sv_auth = ex_auth, sv_requestID = ''req-1''\<rparr>"

text \<open>The second reservation of the example, as a request.\<close>

lemma ex_served: "fst (serve ex_server PostAllocations (ex_http\<lparr>hr_IdempotencyKey := ''i2''\<rparr>) ex_st1) = ex_st2"
proof -
  have "requestKey (ex_http\<lparr>hr_IdempotencyKey := ''i2''\<rparr>) = Inr ''i2''"
    "readJSON ex_httplib (hl_Request ex_httplib) (ex_http\<lparr>hr_IdempotencyKey := ''i2''\<rparr>) = Inr ex_request2"
    "Authenticate ex_crypto ex_auth (ex_http\<lparr>hr_IdempotencyKey := ''i2''\<rparr>) = Inr ex_principal" by code_simp+
  moreover have "v_K ex_env2 = ex_crypto" by (simp add: ex_env2_def ex_env_def)
  ultimately show ?thesis
    by (simp add: serve_def endpoint_of_def reserve_endpoint_def answered_def ex_server_def ex_reserve2 split: prod.splits)
qed

theorem http_requests_keep_the_ledger_witness:
  "reachable ex_st2 \<and> fst (serve ex_server PostAllocations (ex_http\<lparr>hr_IdempotencyKey := ''i2''\<rparr>) ex_st1) = ex_st2 \<and>
   fst (serve ex_server PostAllocations (ex_http\<lparr>hr_Authorization := []\<rparr>) ex_st1) = ex_st1"
proof -
  have E: "cooperative (sv_E ex_server)" "ids_fresh (sv_E ex_server) ex_st1"
    using quiet_cooperative [OF ex_quiet(2)] ex_fresh2 by (simp_all add: ex_server_def)
  have n: "\<not> (\<exists>p. Authenticate (v_K (sv_E ex_server)) (sv_auth ex_server) (ex_http\<lparr>hr_Authorization := []\<rparr>) = Inr p)"
    by (simp add: Authenticate_def)
  have k: "reachable (fst (serve ex_server PostAllocations r ex_st1))" "\<not> (\<exists>p. Authenticate (v_K (sv_E ex_server)) (sv_auth ex_server) r = Inr p) \<Longrightarrow>
      fst (serve ex_server PostAllocations r ex_st1) = ex_st1" for r
    using http_requests_keep_the_ledger [OF ex_reachable(1) E prod.collapse [symmetric], of PostAllocations r] by simp_all
  show ?thesis using k(1) [of "ex_http\<lparr>hr_IdempotencyKey := ''i2''\<rparr>"] k(2) [OF n] ex_served by simp
qed

section \<open>What a caller sees\<close>

lemma failure_status: "hs_Status (failure i e) \<ge> 400 \<and> hs_Status (failure i e) \<le> 599"
  by (auto simp: failure_def Let_def write_response_def)

lemma public_keys: "\<not> IsOperator p \<Longrightarrow> ''tenant_id'' \<notin> fst ` set (publicAllocation H cfg a p)"
  by (simp add: publicAllocation_def)

text \<open>
  C22. A read of an allocation is answered 200 only to an authenticated caller and only with a committed allocation that it may see, its
  own unless it is an operator; the body is the public view of that row, and a tenant's view does not name a tenant.
\<close>

theorem http_read_shows_only_visible_allocations:
  assumes "serve s (GetAllocation i) r st = (st', Some x)" and "hs_Status x = 200"
  shows "\<exists>p a. Authenticate (v_K (sv_E s)) (sv_auth s) r = Inr p \<and> mget (Allocations st') i = Some a \<and> a_Committed a \<and>
    (IsOperator p \<or> a_TenantID a = p_TenantID p) \<and> hs_Body x = Some (OObj (publicAllocation (sv_H s) (v_cfg (sv_E s)) a p)) \<and>
    (\<not> IsOperator p \<longrightarrow> ''tenant_id'' \<notin> fst ` set (publicAllocation (sv_H s) (v_cfg (sv_E s)) a p))"
proof -
  have nofail: "respond k (Inl e) \<noteq> Some x" for k e
    using assms(2) failure_status [of k e] by (auto simp: respond_def split: goerr.splits)
  obtain p where p: "Authenticate (v_K (sv_E s)) (sv_auth s) r = Inr p"
    using assms(1) nofail by (auto simp: serve_def split: sum.splits)
  obtain res where res: "get_endpoint s i p st = (st', res)" "respond (sv_requestID s) res = Some x"
    using assms(1) p by (auto simp: serve_def endpoint_of_def split: prod.splits)
  obtain y where y: "res = Inr y" "x = y" using res(2) nofail by (cases res) (auto simp: respond_def)
  obtain a where a: "snd (view (sv_E s) 0 (Get p i) st) = Inr a" "y = allocation_response s 200 a p" "st' = fst (view (sv_E s) 0 (Get p i) st)"
    using res(1) y(1) by (cases "snd (view (sv_E s) 0 (Get p i) st)") (auto simp: get_endpoint_def answered_def)
  have "Get p i st' = Inr a" using a(1,3) by (auto simp: view_def Let_def ml_View_def split: option.splits)
  then have "mget (Allocations st') i = Some a \<and> a_Committed a \<and> (IsOperator p \<or> a_TenantID a = p_TenantID p)"
    by (auto simp: Get_def split: option.splits if_splits)
  moreover have "hs_Body x = Some (OObj (publicAllocation (sv_H s) (v_cfg (sv_E s)) a p))"
    using y a(2) by (simp add: allocation_response_def write_response_def)
  ultimately show ?thesis using p public_keys by blast
qed

theorem http_read_shows_only_visible_allocations_witness:
  "\<exists>x. serve ex_server (GetAllocation ''alloc_00'') ex_http ex_st1 = (ex_st1, Some x) \<and> hs_Status x = 200 \<and>
     hs_Body x = Some (OObj (publicAllocation ex_httplib ex_config (ex_alloc ''alloc_00'' ex_request ''10.0.1.0/24'') ex_principal))"
proof -
  let ?x = "allocation_response ex_server 200 (ex_alloc ''alloc_00'' ex_request ''10.0.1.0/24'') ex_principal"
  have s: "serve ex_server (GetAllocation ''alloc_00'') ex_http ex_st1 = (ex_st1, Some ?x)" by code_simp
  have "hs_Status ?x = 200" by (simp add: allocation_response_def write_response_def)
  moreover have p: "Authenticate (v_K (sv_E ex_server)) (sv_auth ex_server) ex_http = Inr ex_principal"
    using ex_authenticated by (simp add: ex_server_def ex_env2_def ex_env_def)
  ultimately have "hs_Body ?x = Some (OObj (publicAllocation ex_httplib ex_config (ex_alloc ''alloc_00'' ex_request ''10.0.1.0/24'') ex_principal))"
    using http_read_shows_only_visible_allocations [OF s] ex_rows(3)
    by (simp add: p ex_server_def ex_env2_def ex_env_def)
  then show ?thesis using s \<open>hs_Status ?x = 200\<close> by blast
qed

end
