(* ===== verification/Spec2Isabelle.thy ===== *)
theory Spec2Isabelle
  imports AllocatorProps HandlerProps LifecycleProps LedgerProps ConfigProps AssessProps AdoptPlanProps ImportProps ProgressProps InventoryProps RemovalProps DriftProps HttpProps
begin

text \<open>
  A verification of \<open>platform-ipam\<close>, a service that hands out IPv4 address space to cloud tenants and
  keeps the record of who owns which block.

  \<^bold>\<open>The program.\<close> The core is \<open>src/internal/service\<close>. It keeps its state in a ledger (allocations,
  operations, idempotency records, observations, findings, audit events; \<open>src/internal/domain/types.go\<close>),
  which it reads and writes in transactions (\<open>src/internal/storage/memory.go\<close>), and it talks to two
  outside systems: an inventory (NetBox) that holds a network per allocation, and a cloud observer that
  reports what really uses addresses. A handler is a sequence of ledger transactions with adapter calls
  in between, and several processes share the ledger, so that every handler has to cope with whatever
  happened between two of its own transactions.

  \<^bold>\<open>The model.\<close> Definitions keep the names of the code. One theory per component:

  \<^item> \<open>Prelude\<close>: Go maps as association lists with unique keys, 64-bit durations, results.
  \<^item> \<open>NetIP\<close>: the part of Go's \<open>net/netip\<close> that the code uses (parsing, printing, masking, overlap).
  \<^item> \<open>Domain\<close>: the records and vocabularies of \<open>src/internal/domain\<close>.
  \<^item> \<open>ServiceBase\<close>: digests, validation, observations, findings and fences shared by the handlers.
  \<^item> \<open>Candidate\<close>: \<open>chooseCIDR\<close> and \<open>pinnedCIDR\<close>, the choice of a free block and the check of a reviewed
    one; the locale \<open>first_fit\<close> states what a first-fit search promises.
  \<^item> \<open>Ledger\<close>: the transactions of \<open>memory.go\<close>, the locale \<open>ledger_port\<close> they satisfy, the adapters and
    the environment of a handler.
  \<^item> \<open>Reserve\<close>, \<open>Binding\<close>, \<open>Reclaim\<close>, \<open>Withdraw\<close>, \<open>Worker\<close>: the handlers \<open>Reserve\<close>, \<open>Adopt\<close>, \<open>Get\<close>, \<open>List\<close>,
    \<open>Patch\<close>, \<open>Bind\<close>, \<open>Release\<close>, \<open>CancelReservation\<close>, \<open>AbandonAdoption\<close> and the worker pass \<open>Tick\<close>
    of \<open>service.go\<close>, \<open>cancel.go\<close>, \<open>abandon.go\<close> and \<open>worker.go\<close>, each split at its ledger accesses into
    transactions and composed the way the code composes them.
  \<^item> \<open>AdoptPlan\<close>: the read-only adoption plan of \<open>adopt_plan.go\<close>.
  \<^item> \<open>Capacity\<close>, \<open>FindingViews\<close>: the capacity report and the two views of the findings.
  \<^item> \<open>Configuration\<close>: the settings of a process and the validation of the pools, domains and identities a
    service runs with (\<open>src/internal/config\<close>).
  \<^item> \<open>Assess\<close>, \<open>AssessReport\<close>: the estate assessment (\<open>src/internal/assess\<close>), which compares observed
    address ranges with each other: its evidence and sweep, and its classification, coverage and report.
  \<^item> \<open>GoStrings\<close>, \<open>Ranges\<close>: the part of Go's \<open>strings\<close> and \<open>strconv\<close> that the import uses, and the
    decomposition of an address range into prefixes (\<open>src/internal/netbox/client.go\<close>).
  \<^item> \<open>ImportRows\<close>, \<open>OnboardPlan\<close>, \<open>OnboardFacts\<close>: the import of existing networks (\<open>src/internal/onboard\<close>)
    from the text of a table through its normalized rows to its plan; the locale \<open>row_groups\<close> states how rows
    are collapsed, for prefixes and for ranges.
  \<^item> \<open>MigratePlan\<close>, \<open>MigrateFacts\<close>, \<open>MigrateDerive\<close>: the reviewed migration plan, its validation with the
    search for dependency cycles, and the progress derived from an assessment and exported allocations
    (\<open>src/internal/migrate\<close>).
  \<^item> \<open>Netbox\<close>, \<open>NetboxOwned\<close>, \<open>NetboxImport\<close>, \<open>NetboxSnapshot\<close>: the inventory adapter
    (\<open>src/internal/netbox\<close>) as computations in a state monad over the requests sent so far: its checks, its
    operations on the prefixes of allocations and on imported occupancy, and its snapshot; \<open>netbox_inventory\<close>
    is the adapter as the inventory port of the service.
  \<^item> \<open>OnboardApply\<close>, \<open>Removal\<close>, \<open>Drift\<close>: the onboarding commands that act on a plan, remove an import on
    evidence, and compare the configuration with the accounts NetBox knows (\<open>src/internal/onboardcmd\<close>).
  \<^item> \<open>HttpBase\<close>, \<open>Http\<close>: the HTTP transport (\<open>src/internal/transport\<close>): strict JSON bodies, pages with
    cursors, authentication, the endpoints and what they show; \<open>serve\<close> is a request as a step on the ledger.

  \<^bold>\<open>State and effects.\<close> The ledger is the record \<open>State\<close>; a transaction is a function from a state to an
  error or a new state with a result; a handler is a function of an \<open>Env\<close>. The environment holds the
  configuration, the clock, the random draws, the answers of the adapters, the faults of the ledger and,
  in \<open>v_others\<close>, what other processes do to the ledger before each access. Every access, clock reading,
  draw and adapter call of a handler has its own index, so that the environment is an arbitrary
  environment and not a fixed script. Errors are values of \<open>goerr\<close>; a nil dereference or an indexing
  panic is the value \<open>Panic\<close> or \<open>None\<close>. SHA-256, JSON encoding, quoting and time formatting are parameters
  (record \<open>Crypto\<close>). Loops over slices are structural recursions and
  need no fuel; the search of \<open>chooseCIDR\<close> runs over the finitely many blocks of the pool. The depth of the
  search for a dependency cycle is bounded by the number of subjects and dependencies of the plan, and the
  decomposition of a range by the 4096 steps of the code; both are shown to be enough. The check of a JSON body has
  twice as much fuel as the body has tokens, which C25 shows to be enough: exactly the strict bodies pass.

  \<^bold>\<open>The abstract registry.\<close> \<open>Registry\<close> specifies what the ledger promises as an inductive step relation on
  rows and operations, with its invariant proved by rule induction. \<open>Lifecycle\<close> proves that each of the
  eighteen ledger transactions refines it (the locale \<open>simulation\<close>), \<open>Handlers\<close> and \<open>TickRun\<close> that each
  handler and each worker pass, on every path and with arbitrary interference, is a run of
  transactions. \<open>Fence\<close> states the contract that cancel and abandon share as the locale \<open>withdrawal\<close> and
  interprets it for both. \<open>Example\<close> is a concrete estate on which hypotheses are shown to hold.

  \<^bold>\<open>What the adapter sends.\<close> NetBox is third-party code: its answer to the \<open>n\<close>-th request of an operation is
  an arbitrary function \<open>net\<close>, so that the theorems about the requests hold for every NetBox and every
  interleaving with other clients. \<open>NetboxTrace\<close> states the contract of an operation that reads before it writes
  as the locale \<open>read_then_write\<close>, \<open>NetboxWrites\<close> interprets it for seven operations, \<open>NetboxMerge\<close> is about
  contributor lists and \<open>NetboxAnswers\<close> about the errors that say that NetBox did not answer.

  \<^bold>\<open>What is shown.\<close> This theory: the invariants of every reachable ledger (C1 to C6). \<open>AllocatorProps\<close> and
  \<open>SnapshotProps\<close>: the choice of a block against the ledger and against NetBox, exhaustion, adoption, capacity (C8
  to C10). \<open>HandlerProps\<close>: replay, commit, cancel and abandon (C11, C12). \<open>NetboxProps\<close>: what the adapter
  writes to NetBox (C13, C14, C30, C36, C37). \<open>LifecycleProps\<close>: release, reclamation and binding (C15 to C17,
  C19). \<open>InventoryProps\<close>: the service with the adapter as its inventory (C18, C31). \<open>LedgerProps\<close>: reads,
  admission, findings and the quarantine (C20, C23). \<open>HttpProps\<close>: requests and the ledger, authentication, reads,
  pages and bodies (C7, C21, C22, C24, C25). \<open>ConfigProps\<close> and \<open>DriftProps\<close>: what a validated configuration and
  validated settings guarantee, and when the drift command succeeds (C26, C27). \<open>AssessProps\<close>: the sweep against the
  comparison of all pairs, and coverage (C28). \<open>AdoptPlanProps\<close>: the plan of an adoption against the adoption
  (C29). \<open>ImportProps\<close>: that imported rows are canonical and none is lost (C32). \<open>OnboardProps\<close>: what an import may
  write, that it accounts for every row and writes nothing twice, and how an address range becomes prefixes
  (C33, C38). \<open>RemovalProps\<close>: from a plan to NetBox and back (C34, C35). \<open>MigrateProps\<close>: that validation ends and
  decides well-formedness (C39). \<open>ProgressProps\<close>: what evidence a migration report rests on (C40). Theorems without
  a number are further results about the same code; several of them show where it departs from its description.

  \<^bold>\<open>Assumptions.\<close> \<open>cooperative\<close>: other processes only run transactions of the service. \<open>ids_fresh\<close>: the
  random identifiers a handler draws are not yet in use (the code draws 128 random bits). Properties
  about one handler in isolation assume \<open>undisturbed\<close>: no other writer and no ledger fault. A Go map
  is an association list with unique keys and is iterated in the order of that list; the theorems about
  transactions hold for a ledger whose tables are in any order.

  NetBox documents a PATCH as a partial update, which only C30 uses (\<open>patched\<close>); C34 assumes that a
  digest is a hexadecimal text (\<open>hex_digest\<close>).

  \<^bold>\<open>Not modelled.\<close> The PostgreSQL ledger and the cloud observer, which the service reaches only through the
  interfaces above; the client command line and the Terraform provider, which call the HTTP interface; of the adapter,
  encoding JSON and following page links, the objects of the AWS plugin and the seeding of pools; of the transport, the
  matching of URL patterns, metrics, log lines and the verification of OIDC tokens; of the commands, flags and
  files; reading YAML, JSON, CSV and spreadsheet files and printing reports.
\<close>

section \<open>The ledger as a whole\<close>

lemma reachable_registry: "reachable st \<Longrightarrow> registry_inv (abs_registry st)"
  using ledger_okD(3) [OF reachable_ok] .

lemma distinct_map_values:
  assumes "mok m" and "\<And>i j x y. mget m i = Some x \<Longrightarrow> mget m j = Some y \<Longrightarrow> f x = f y \<Longrightarrow> i = j"
  shows "distinct (map f (mvals m))"
proof -
  have rows: "mget m i = Some x" if "(i, x) \<in> set m" for i x using that mrows_mget [OF assms(1)] by blast
  have "distinct m" using assms(1) by (simp add: mok_def distinct_map)
  moreover have "inj_on (\<lambda>r. f (snd r)) (set m)"
  proof (rule inj_onI)
    fix r q assume rq: "r \<in> set m" "q \<in> set m" "f (snd r) = f (snd q)"
    have r: "mget m (fst r) = Some (snd r)" and q: "mget m (fst q) = Some (snd q)"
      using rows [of "fst r" "snd r"] rows [of "fst q" "snd q"] rq(1,2) by simp_all
    then have "fst r = fst q" using assms(2) rq(3) by blast
    then show "r = q" using r q by (cases r; cases q) simp
  qed
  ultimately show ?thesis by (simp add: mvals_def distinct_map o_def)
qed

text \<open>
  C1. No two live allocations of one overlap domain share an address, except a subnet and its own
  parent VPC, which contains it. It holds in every ledger state that can be reached, whatever the
  handlers and worker passes that ran and however their transactions interleaved.
\<close>

theorem live_allocations_disjoint:
  assumes "reachable st" and "mget (Allocations st) i = Some a" and "mget (Allocations st) j = Some b"
    and "i \<noteq> j" and "a_State a \<noteq> Released" and "a_State b \<noteq> Released" and "a_DomainID a = a_DomainID b"
  shows "space a \<inter> space b = {} \<or>
    a_Scope a = ''subnet'' \<and> a_ParentAllocationID a = a_ID b \<and> space a \<subseteq> space b \<or>
    a_Scope b = ''subnet'' \<and> a_ParentAllocationID b = a_ID a \<and> space b \<subseteq> space a"
proof -
  have "space_disjoint (abs_registry st)"
    using reachable_registry [OF assms(1)] by (simp add: registry_inv_def)
  then show ?thesis
    using assms(2-7) unfolding space_disjoint_def parent_of_def live_def by simp blast
qed

theorem live_allocations_disjoint_witness:
  "space (ex_alloc ''alloc_00'' ex_request ''10.0.1.0/24'')
     \<inter> space (ex_alloc ''alloc_0100'' ex_request2 ''10.0.2.0/24'') = {}"
  using live_allocations_disjoint [OF ex_reachable(2) ex_rows(1,2)]
  by (simp add: ex_alloc_def ex_request_def ex_request2_def)

text \<open>
  C2. Every state that some sequence of calls of the service can leave behind (reservations, adoptions,
  bindings, patches, releases, cancels, abandons and worker passes, each with arbitrary inputs,
  adapter answers, faults and writes of other processes in between) is reachable by ledger
  transactions alone, so that the other properties of reachable states apply to it.
\<close>

theorem service_states_reachable:
  assumes "serves\<^sup>*\<^sup>* NewState st"
  shows "reachable st"
  using served_run [OF assms NewState_ok] by (simp add: reachable_def)

theorem service_states_reachable_witness: "reachable ex_st2"
proof (rule service_states_reachable)
  show "serves\<^sup>*\<^sup>* NewState ex_st2" using ex_serves(1,2) by (meson rtranclp.simps)
qed

text \<open>
  C3. Every ledger transaction refines the abstract registry: seen through the abstraction it is a
  sequence of registry steps (rows advance, an operation opens, a hold is taken, an uncommitted hold
  is withdrawn, a quarantined allocation is retired), and it keeps the ledger well formed.
\<close>

theorem transaction_refines_registry:
  assumes "ledger_ok st" and "ledger_step st st'"
  shows "registry_step\<^sup>*\<^sup>* (abs_registry st) (abs_registry st') \<and> ledger_ok st'"
  using ledger.run_sim [of st st'] assms by blast

definition ex_patched :: "State \<times> Allocation" where
  "ex_patched =
     (let a = (ex_alloc ''alloc_00'' ex_request ''10.0.1.0/24'')
            \<lparr>a_Request := ex_request\<lparr>r_Description := ''web''\<rparr>, a_Revision := 2\<rparr>
      in (ex_st1\<lparr>Allocations := [(''alloc_00'', a)],
            Requests := Requests ex_st1 @ [(''t'' @ nul @ ''PATCH'' @ nul @ ''/v1/allocations/alloc_00'' @ nul @ ''k'',
              \<lparr>i_TenantID = ''t'', i_Method = ''PATCH'', i_Path = ''/v1/allocations/alloc_00'',
               i_Key = ''k'', i_Hash = ''alloc_00'', i_AllocationID = ''alloc_00'', i_OperationID = []\<rparr>)],
            Events := Events ex_st1 @ [\<lparr>ev_ID = ''evt_00'', ev_AllocationID = ''alloc_00'', ev_TenantID = ''t'',
              ev_Actor = ''alice'', ev_Action = ''PATCH'', ev_Reason = ''mutable metadata updated'',
              ev_At = ex_start, ev_Revision = 2\<rparr>]\<rparr>, a))"

lemma ex_patch: "Patch_txn ex_env ex_principal ''alloc_00'' (Some ''web'') None 1 ''k'' ex_st1 = Inr ex_patched"
  by code_simp

theorem transaction_refines_registry_witness:
  "registry_step\<^sup>*\<^sup>* (abs_registry ex_st1) (abs_registry (fst ex_patched)) \<and> ledger_ok (fst ex_patched)"
proof (rule transaction_refines_registry [OF reachable_ok [OF ex_reachable(1)]])
  show "ledger_step ex_st1 (fst ex_patched)"
    using ledger_step.patch [of ex_env ex_principal "''alloc_00''" "Some ''web''" None 1 "''k''" ex_st1
        "fst ex_patched" "snd ex_patched"] ex_patch by simp
qed

text \<open>
  C4. A committed allocation is permanent: in every later state the same identifier still names a
  committed row with the same block, tenant, domain, pool, key, scope, parent, account, region and
  request digest, whose lifecycle state has only moved forward (Reserved, Active, Quarantined,
  Released) and whose revision has not decreased.
\<close>

theorem committed_allocation_persists:
  assumes "reachable st" and "ledger_run st st'" and "mget (Allocations st) i = Some a" and "a_Committed a"
  shows "\<exists>a'. mget (Allocations st') i = Some a' \<and> a_Committed a' \<and>
    a_CIDR a' = a_CIDR a \<and> a_TenantID a' = a_TenantID a \<and> a_DomainID a' = a_DomainID a \<and>
    a_PoolID a' = a_PoolID a \<and> a_AllocationKey a' = a_AllocationKey a \<and> a_Scope a' = a_Scope a \<and>
    a_ParentAllocationID a' = a_ParentAllocationID a \<and> a_AccountID a' = a_AccountID a \<and>
    a_Region a' = a_Region a \<and> a_RequestHash a' = a_RequestHash a \<and>
    rank (a_State a) \<le> rank (a_State a') \<and> a_Revision a \<le> a_Revision a'"
proof -
  obtain a' where a': "mget (Allocations st') i = Some a'" "frozen a' = frozen a" "a_Committed a'"
    "rank (a_State a) \<le> rank (a_State a')" "a_Revision a \<le> a_Revision a'"
    using run_committed [OF assms(2) reachable_ok [OF assms(1)] assms(3,4)] .
  show ?thesis using a'(1,3-5) frozen_fields [OF a'(2)] by (intro exI [of _ a']) simp
qed

theorem committed_allocation_persists_witness:
  "\<exists>a'. mget (Allocations ex_st2) ''alloc_00'' = Some a' \<and> a_Committed a' \<and> a_CIDR a' = ''10.0.1.0/24''"
proof -
  have "a_Committed (ex_alloc ''alloc_00'' ex_request ''10.0.1.0/24'')" by (simp add: ex_alloc_def)
  from committed_allocation_persists [OF ex_reachable(1) ex_run2 ex_rows(3) this]
  show ?thesis by (auto simp: ex_alloc_def)
qed

text \<open>
  An operation is never forgotten and a terminal status is final: in every later state the
  operation has the same type, allocation, tenant, domain and adoption record, and if it had
  succeeded or failed it still has that status.
\<close>

theorem terminal_operation_final:
  assumes "reachable st" and "ledger_run st st'" and "mget (Operations st) i = Some x"
  shows "\<exists>y. mget (Operations st') i = Some y \<and> o_Type y = o_Type x \<and>
    o_AllocationID y = o_AllocationID x \<and> o_TenantID y = o_TenantID x \<and> o_DomainID y = o_DomainID x \<and>
    o_Adoption y = o_Adoption x \<and> (o_Status x \<noteq> operationPending \<longrightarrow> o_Status y = o_Status x)"
proof -
  obtain y where "mget (Operations st') i = Some y" "op_progress x y"
    using run_operation [OF assms(2) reachable_ok [OF assms(1)] assms(3)] .
  then show ?thesis by (intro exI [of _ y]) (auto simp: op_progress_def)
qed

theorem terminal_operation_final_witness:
  "\<exists>y. mget (Operations ex_st2) ''op_01'' = Some y \<and> o_Status y = operationSucceeded"
proof -
  have "mget (Operations ex_st1) ''op_01'' = Some (ex_op ''op_01'' ''alloc_00'')" by code_simp
  from terminal_operation_final [OF ex_reachable(1) ex_run2 this] show ?thesis by (auto simp: ex_op_def)
qed



text \<open>
  An allocation key is never given out twice to one tenant: no two rows of the ledger, released
  ones and pending holds included, agree in tenant and allocation key, and no two have one identifier.
\<close>

theorem allocation_keys_unique:
  assumes "reachable st"
  shows "distinct (map (\<lambda>a. (a_TenantID a, a_AllocationKey a)) (mvals (Allocations st))) \<and>
    distinct (map a_ID (mvals (Allocations st)))"
proof -
  note ok = reachable_ok [OF assms]
  have "distinct (map (\<lambda>a. (a_TenantID a, a_AllocationKey a)) (mvals (Allocations st)))"
  proof (rule distinct_map_values [OF ledger_okD(1) [OF ok]])
    have u: "keys_unique (abs_registry st)"
      using reachable_registry [OF assms] by (simp add: registry_inv_def)
    fix i j a b
    assume "mget (Allocations st) i = Some a" "mget (Allocations st) j = Some b"
      "(a_TenantID a, a_AllocationKey a) = (a_TenantID b, a_AllocationKey b)"
    then show "i = j" using u [unfolded keys_unique_def abs_simps] unfolding prod.inject by blast
  qed
  then show ?thesis using rows_distinct(1) [OF ok] by blast
qed

theorem allocation_keys_unique_witness:
  "distinct (map (\<lambda>a. (a_TenantID a, a_AllocationKey a)) (mvals (Allocations ex_st2)))"
  using allocation_keys_unique [OF ex_reachable(2)] by blast

text \<open>
  C6. A subnet that is not released lies inside a committed VPC allocation that is not released
  either: its parent is in the ledger, and all its addresses are the parent's.
\<close>

theorem live_subnet_has_live_parent:
  assumes "reachable st" and "mget (Allocations st) i = Some a"
    and "a_Scope a = ''subnet''" and "a_State a \<noteq> Released"
  shows "\<exists>b. mget (Allocations st) (a_ParentAllocationID a) = Some b \<and> a_Committed b \<and>
    a_State b \<noteq> Released \<and> space a \<subseteq> space b"
proof -
  have "children_held (abs_registry st)"
    using reachable_registry [OF assms(1)] by (simp add: registry_inv_def)
  then show ?thesis using assms(2-4) by (fastforce simp: children_held_def live_def parent_of_def)
qed

theorem live_subnet_has_live_parent_witness:
  "\<exists>b. mget (Allocations ex_st3) ''alloc_00'' = Some b \<and> a_Committed b \<and> space ex_subnet \<subseteq> space b"
  using live_subnet_has_live_parent [OF ex_reachable34(1) ex_subnet_row]
  by (auto simp: ex_subnet_def ex_alloc_def ex_request3_def)

text \<open>
  The lifecycle states of the rows are the four of the vocabulary, and a hold that has not been
  committed is always Reserved: only committed allocations are bound, quarantined or released.
\<close>

theorem uncommitted_hold_is_reserved:
  assumes "reachable st" and "mget (Allocations st) i = Some a"
  shows "a_ID a = i \<and> a_State a \<in> {Reserved, Active, Quarantined, Released} \<and>
    (a_Committed a \<or> a_State a = Reserved)"
  using reachable_registry [OF assms(1)] assms(2)
  by (auto simp: registry_inv_def moved_committed_def row_ids_def)

theorem uncommitted_hold_is_reserved_witness:
  "a_State (ex_alloc ''alloc_00'' ex_request ''10.0.1.0/24'') \<in> {Reserved, Active, Quarantined, Released}"
  using uncommitted_hold_is_reserved [OF ex_reachable(2) ex_rows(1)] by blast

end
